(* ===== verification/Prelude.thy ===== *)
theory Prelude
  imports Main "HOL-Library.Word" "HOL-Library.Char_ord" "HOL-Library.List_Lexorder"
    "HOL-Library.Product_Lexorder" "HOL-Library.Multiset"
begin

text \<open>
  Shared vocabulary of the development: the result of a Go function that may return an
  error or panic, 64-bit signed integers, slices with their bounds checks, the page that
  every list endpoint returns, and the list lemmas the components share.
\<close>

named_theorems api_simps \<open>unfolding rules for small operations of the program\<close>
named_theorems dict_simps \<open>lookup after update, deletion and filtering of dictionaries\<close>

section \<open>Results\<close>

text \<open>
  A Go function with results \<open>(T, error)\<close> returns a value, returns an error, or panics.
\<close>

datatype ('e, 'a) res = Ok 'a | Err 'e | Panic

definition bind_res :: "('e, 'a) res \<Rightarrow> ('a \<Rightarrow> ('e, 'b) res) \<Rightarrow> ('e, 'b) res" where
  "bind_res r f = (case r of Ok x \<Rightarrow> f x | Err e \<Rightarrow> Err e | Panic \<Rightarrow> Panic)"

definition is_ok :: "('e, 'a) res \<Rightarrow> bool" where
  "is_ok r = (case r of Ok _ \<Rightarrow> True | _ \<Rightarrow> False)"

lemma bind_res_simps [simp]:
  "bind_res (Ok x) f = f x" "bind_res (Err e) f = Err e" "bind_res Panic f = Panic"
  by (simp_all add: bind_res_def)

lemma is_ok_simps [simp]: "is_ok (Ok x)" "\<not> is_ok (Err e)" "\<not> is_ok Panic"
  by (simp_all add: is_ok_def)

lemma bind_res_Ok_iff: "bind_res r f = Ok y \<longleftrightarrow> (\<exists>x. r = Ok x \<and> f x = Ok y)"
  by (cases r) auto

text \<open>The test \<^verbatim>\<open>p != nil && P(*p)\<close> on a pointer.\<close>

definition nonnil :: "'a option \<Rightarrow> ('a \<Rightarrow> bool) \<Rightarrow> bool" where
  "nonnil p P \<longleftrightarrow> (case p of None \<Rightarrow> False | Some x \<Rightarrow> P x)"

lemma nonnil_simps [simp]: "nonnil None P \<longleftrightarrow> False" "nonnil (Some x) P \<longleftrightarrow> P x"
  by (simp_all add: nonnil_def)

section \<open>64-bit signed integers\<close>

text \<open>
  Go's \<open>int\<close> has 64 bits on the supported platforms. Values are modelled by \<open>int\<close>;
  \<open>wrap_int\<close> is the two's complement result of an addition that may leave the range.
\<close>

definition wrap_int :: "int \<Rightarrow> int" where
  "wrap_int x = (x + 2 ^ 63) mod 2 ^ 64 - 2 ^ 63"

definition max_int :: int where
  "max_int = 2 ^ 63 - 1"

lemma wrap_int_id: "- (2 ^ 63) \<le> x \<Longrightarrow> x \<le> max_int \<Longrightarrow> wrap_int x = x"
  by (simp add: wrap_int_def max_int_def)

lemma wrap_int_overflow:
  assumes "max_int < x" and "x \<le> 2 * max_int"
  shows "wrap_int x < 0"
proof -
  have "(x + 2 ^ 63) mod 2 ^ 64 = (x + 2 ^ 63 - 2 ^ 64) mod 2 ^ 64"
    by (metis minus_mod_self2)
  also have "\<dots> = x + 2 ^ 63 - 2 ^ 64"
    using assms by (intro mod_pos_pos_trivial) (simp_all add: max_int_def)
  finally show ?thesis
    using assms by (simp add: wrap_int_def max_int_def)
qed

section \<open>Slices and pages\<close>

text \<open>
  \<open>s[lo:hi]\<close> panics unless \<open>0 \<le> lo \<le> hi \<le> cap(s)\<close>. Every slice expression of
  the program has \<open>hi \<le> len(s)\<close>, so the length stands for the capacity.
\<close>

definition go_slice :: "'a list \<Rightarrow> int \<Rightarrow> int \<Rightarrow> ('e, 'a list) res" where
  "go_slice xs lo hi =
     (if 0 \<le> lo \<and> lo \<le> hi \<and> hi \<le> int (length xs)
      then Ok (take (nat (hi - lo)) (drop (nat lo) xs)) else Panic)"

record 'a page =
  pg_Total :: int
  pg_Offset :: int
  pg_Items :: "'a list"

text \<open>
  The pagination that each \<open>List*\<close> method of the memory backend spells out: an offset
  past the end is an empty page, otherwise \<open>all[offset:min(offset+limit, total)]\<close>.
\<close>

definition paginate :: "'a list \<Rightarrow> int \<Rightarrow> int \<Rightarrow> ('e, 'a page) res" where
  "paginate all limit offset =
     (if int (length all) \<le> offset
      then Ok \<lparr>pg_Total = int (length all), pg_Offset = offset, pg_Items = []\<rparr>
      else bind_res (go_slice all offset (min (wrap_int (offset + limit)) (int (length all))))
             (\<lambda>items. Ok \<lparr>pg_Total = int (length all), pg_Offset = offset, pg_Items = items\<rparr>))"

definition page_window :: "'a list \<Rightarrow> int \<Rightarrow> int \<Rightarrow> 'a list" where
  "page_window all limit offset = take (nat limit) (drop (nat offset) all)"

lemma paginate_window:
  assumes "0 \<le> limit" and "0 \<le> offset" and "offset + limit \<le> max_int"
  shows "paginate all limit offset =
    Ok \<lparr>pg_Total = int (length all), pg_Offset = offset,
        pg_Items = page_window all limit offset\<rparr>"
proof (cases "int (length all) \<le> offset")
  case True
  then show ?thesis by (simp add: paginate_def page_window_def)
next
  case False
  have w: "wrap_int (offset + limit) = offset + limit"
    using assms by (intro wrap_int_id) (simp_all add: max_int_def)
  let ?hi = "min (offset + limit) (int (length all))"
  have "take (nat (?hi - offset)) (drop (nat offset) all) = take (nat limit) (drop (nat offset) all)"
  proof (cases "offset + limit \<le> int (length all)")
    case True
    then show ?thesis by simp
  next
    case big: False
    then have "length (drop (nat offset) all) \<le> nat (?hi - offset)"
      and "length (drop (nat offset) all) \<le> nat limit"
      using False assms by (auto simp: nat_diff_distrib)
    then show ?thesis by simp
  qed
  then show ?thesis
    using False assms w by (simp add: paginate_def go_slice_def page_window_def)
qed

lemma paginate_overflow:
  assumes "0 \<le> offset" and "offset < int (length all)" and "limit \<le> max_int"
    and "offset \<le> max_int" and "max_int < offset + limit"
  shows "paginate all limit offset = Panic"
proof -
  have "wrap_int (offset + limit) < 0"
    using assms by (intro wrap_int_overflow) simp_all
  then show ?thesis
    using assms by (simp add: paginate_def go_slice_def)
qed

lemma page_window_length:
  "length (page_window all limit offset) = min (nat limit) (length all - nat offset)"
  by (simp add: page_window_def)

lemma set_page_window: "set (page_window all limit offset) \<subseteq> set all"
  unfolding page_window_def by (meson set_drop_subset set_take_subset subset_trans)

lemma page_window_all:
  "int (length all) \<le> limit \<Longrightarrow> page_window all limit 0 = all"
  by (simp add: page_window_def)

lemma sorted_wrt_page_window:
  "sorted_wrt P all \<Longrightarrow> sorted_wrt P (page_window all limit offset)"
  by (simp add: page_window_def sorted_wrt_take sorted_wrt_drop)

section \<open>Searching and sorting\<close>

lemma find_SomeD: "List.find P xs = Some x \<Longrightarrow> P x \<and> x \<in> set xs"
  by (induction xs) (auto split: if_splits)

lemma sort_key_perm_unique:
  assumes "mset xs = mset ys" and "distinct (map f xs)"
  shows "sort_key f xs = sort_key f ys"
proof (rule sort_key_inj_key_eq)
  show "mset xs = mset (sort_key f ys)" using assms(1) by simp
  show "inj_on f (set xs)" using assms(2) by (simp add: distinct_map)
  show "sorted (map f (sort_key f ys))" by simp
qed

end
