(* ===== verification/Errors.thy ===== *)
theory Errors
  imports Prelude
begin

text \<open>
  Go error values as trees (\<^verbatim>\<open>fmt.Errorf\<close> with \<^verbatim>\<open>%w\<close>, \<^verbatim>\<open>errors.Join\<close> and
  \<^verbatim>\<open>api.WithErrorCode\<close>), the search for a sentinel (\<^verbatim>\<open>errors.Is\<close>) and for the
  outermost error code (\<^verbatim>\<open>api.GetErrorCode\<close>), the error codes of \<^verbatim>\<open>api/code.go\<close> with
  their wire names and HTTP status, and \<^verbatim>\<open>internal/combine\<close>.
\<close>

section \<open>Error codes (api/code.go)\<close>

datatype ErrorCode =
    DatabaseError | BadIDGeneration | InsufficientEntropy
  | BodyMissing | BodySizeExceeded | BodyInvalidJSON
  | InvalidQueryParameter | ItemLimitExceeded
  | InvalidNamespaceID | InvalidPID | InvalidUsername | InvalidAutocompleteQuery
  | InvalidPassword | InvalidBaseURI | InvalidResourceURL | InvalidMountGrantPattern
  | NamespaceNotFound | ResourceNotFound | MountNotFound | MountGrantNotFound
  | RoleNotFound | InvalidRole | UnknownScope
  | InfoUnavailable | UnavailableInAnonymousMode
  | DuplicateUsername | UserNotFound | KeyNotFound
  | Unauthorized | Forbidden

fun ErrorCode_String :: "ErrorCode \<Rightarrow> string" where
  "ErrorCode_String DatabaseError = ''databaseError''"
| "ErrorCode_String BadIDGeneration = ''badIdGeneration''"
| "ErrorCode_String InsufficientEntropy = ''insufficientEntropy''"
| "ErrorCode_String BodyMissing = ''bodyMissing''"
| "ErrorCode_String BodySizeExceeded = ''bodySizeExceeded''"
| "ErrorCode_String BodyInvalidJSON = ''bodyInvalidJson''"
| "ErrorCode_String InvalidQueryParameter = ''invalidQueryParameter''"
| "ErrorCode_String ItemLimitExceeded = ''itemLimitExceeded''"
| "ErrorCode_String InvalidNamespaceID = ''invalidNamespaceId''"
| "ErrorCode_String InvalidPID = ''invalidPid''"
| "ErrorCode_String InvalidUsername = ''invalidUsername''"
| "ErrorCode_String InvalidAutocompleteQuery = ''invalidAutocompleteQuery''"
| "ErrorCode_String InvalidPassword = ''invalidPassword''"
| "ErrorCode_String InvalidBaseURI = ''invalidBaseUri''"
| "ErrorCode_String InvalidResourceURL = ''invalidResourceUrl''"
| "ErrorCode_String InvalidMountGrantPattern = ''invalidMountGrantPattern''"
| "ErrorCode_String NamespaceNotFound = ''namespaceNotFound''"
| "ErrorCode_String ResourceNotFound = ''resourceNotFound''"
| "ErrorCode_String MountNotFound = ''mountNotFound''"
| "ErrorCode_String MountGrantNotFound = ''mountGrantNotFound''"
| "ErrorCode_String RoleNotFound = ''roleNotFound''"
| "ErrorCode_String InvalidRole = ''invalidRole''"
| "ErrorCode_String UnknownScope = ''unknownScope''"
| "ErrorCode_String InfoUnavailable = ''infoUnavailable''"
| "ErrorCode_String UnavailableInAnonymousMode = ''unavailableInAnonymousMode''"
| "ErrorCode_String DuplicateUsername = ''duplicateUsername''"
| "ErrorCode_String UserNotFound = ''userNotFound''"
| "ErrorCode_String KeyNotFound = ''keyNotFound''"
| "ErrorCode_String Unauthorized = ''unauthorized''"
| "ErrorCode_String Forbidden = ''forbidden''"

definition HTTPCode :: "ErrorCode \<Rightarrow> nat" where
  "HTTPCode e = (
     if e \<in> {DatabaseError, BadIDGeneration} then 500
     else if e = InsufficientEntropy then 503
     else if e = BodySizeExceeded then 413
     else if e = ItemLimitExceeded then 422
     else if e = DuplicateUsername then 409
     else if e = Unauthorized then 401
     else if e = Forbidden then 403
     else if e \<in> {InvalidQueryParameter, BodyMissing, BodyInvalidJSON,
        InvalidNamespaceID, InvalidPID, InvalidUsername, InvalidAutocompleteQuery,
        InvalidPassword, InvalidBaseURI, InvalidResourceURL, InvalidMountGrantPattern,
        InvalidRole, UnknownScope} then 400
     else 404)"

section \<open>Error trees\<close>

text \<open>
  The package-level error values. Those that callers look for with \<^verbatim>\<open>errors.Is\<close> have
  a constructor each; the others keep their Go name in \<open>Named\<close>. \<open>Foreign\<close> stands for an
  error made outside the modelled sources (a hash function, the URL parser, a reader).
\<close>

datatype sentinel =
    ErrUserNotFound | ErrDuplicateUsername
  | ErrKeyNotFound | ErrInvalidKey | ErrKeyCollision
  | ErrDuplicateNamespaceID | ErrNamespaceNotFound
  | ErrResourceNotFound | ErrPIDAllocationFailed
  | ErrRoleNotFound | ErrInvalidRole | ErrMountNotFound | ErrMountGrantNotFound
  | ErrInvalidNamespaceID | ErrUnknownScope | ErrEOF
  | Named string | Foreign

text \<open>
  \<open>Fmt es\<close> is an error made by \<^verbatim>\<open>fmt.Errorf\<close> whose \<^verbatim>\<open>%w\<close> verbs wrap \<open>es\<close>, or by
  \<^verbatim>\<open>errors.Join\<close>; messages are not kept.
\<close>

datatype gerr = Sentinel sentinel | Fmt "gerr list" | WithErrorCode gerr ErrorCode

fun errors_is :: "gerr \<Rightarrow> sentinel \<Rightarrow> bool" where
  "errors_is (Sentinel s) t \<longleftrightarrow> s = t"
| "errors_is (Fmt es) t \<longleftrightarrow> list_ex (\<lambda>e. errors_is e t) es"
| "errors_is (WithErrorCode e c) t \<longleftrightarrow> errors_is e t"

text \<open>
  \<^verbatim>\<open>errors.AsType[withCodeError]\<close> walks the tree in pre-order, so the outermost
  annotation of the first branch that has one wins.
\<close>

fun GetErrorCode :: "gerr \<Rightarrow> ErrorCode option"
  and GetErrorCodes :: "gerr list \<Rightarrow> ErrorCode option" where
  "GetErrorCode (Sentinel s) = None"
| "GetErrorCode (Fmt es) = GetErrorCodes es"
| "GetErrorCode (WithErrorCode e c) = Some c"
| "GetErrorCodes [] = None"
| "GetErrorCodes (e # es) =
     (case GetErrorCode e of Some c \<Rightarrow> Some c | None \<Rightarrow> GetErrorCodes es)"

lemma GetErrorCode_wrap [simp]: "GetErrorCode (Fmt [e]) = GetErrorCode e"
  by (simp split: option.splits)

lemma errors_is_wrap [simp]: "errors_is (Fmt [e]) t = errors_is e t"
  by simp

section \<open>internal/combine\<close>

text \<open>The loop of \<open>Combine\<close>: \<open>seen\<close> is \<open>anError\<close>, \<open>errs\<close> the whole argument list.\<close>

fun combine_loop :: "gerr option list \<Rightarrow> gerr option \<Rightarrow> gerr option list \<Rightarrow> gerr option" where
  "combine_loop errs seen [] = seen"
| "combine_loop errs seen (None # rest) = combine_loop errs seen rest"
| "combine_loop errs seen (Some e # rest) =
     (case seen of
        Some _ \<Rightarrow> Some (Fmt (List.map_filter id errs))
      | None \<Rightarrow> combine_loop errs (Some e) rest)"

definition Combine :: "gerr option list \<Rightarrow> gerr option" where
  "Combine errs = combine_loop errs None errs"

lemma combine_loop_seen:
  "combine_loop errs (Some a) rest =
     (if List.map_filter id rest = [] then Some a else Some (Fmt (List.map_filter id errs)))"
proof (induction rest)
  case Nil
  then show ?case by (simp add: List.map_filter_def)
next
  case (Cons e rest)
  then show ?case by (cases e) (simp_all add: List.map_filter_def)
qed

text \<open>
  \<open>Combine\<close> against its documentation: no error for none, the error itself for exactly
  one, and the join of all of them otherwise.
\<close>

lemma Combine_spec:
  "Combine errs =
     (case List.map_filter id errs of
        [] \<Rightarrow> None | [e] \<Rightarrow> Some e | es \<Rightarrow> Some (Fmt es))"
proof -
  have "combine_loop all None errs =
     (case List.map_filter id errs of
        [] \<Rightarrow> None | [e] \<Rightarrow> Some e | _ \<Rightarrow> Some (Fmt (List.map_filter id all)))" for all
  proof (induction errs)
    case Nil
    then show ?case by (simp add: List.map_filter_def)
  next
    case (Cons e rest)
    then show ?case
      by (cases e) (simp_all add: List.map_filter_def combine_loop_seen split: list.splits)
  qed
  then show ?thesis
    by (simp add: Combine_def split: list.splits)
qed

end
