(* ===== verification/Pid_Format.thy ===== *)
theory Pid_Format
  imports Errors
begin

text \<open>
  The package \<^verbatim>\<open>pid\<close>: character sets (\<^verbatim>\<open>charset.go\<close>), patterns (\<^verbatim>\<open>pattern.go\<close>) and PID
  formats (\<^verbatim>\<open>pid.go\<close>): validation, generation from a random reader, and the check that a
  string is a PID of a format. Strings are byte strings: every alphabet and every valid
  pattern is ASCII, so comparing runes and comparing bytes agree, and a string with a byte
  outside ASCII is rejected by both.

  A random reader is a function on its state and the buffer to fill; it returns the buffer
  after the call, the error, and the next state.
\<close>

unbundle bit_operations_syntax

type_synonym byte = "8 word"
type_synonym 'r reader = "'r \<Rightarrow> byte list \<Rightarrow> byte list \<times> gerr option \<times> 'r"

section \<open>Character sets (pid/charset.go)\<close>

definition alphabets :: "(string \<times> string) list" where
  "alphabets =
     [(''full'', ''0123456789abcdefghijklmnopqrstuvwxyz''),
      (''readable'', ''0123456789abcdefghjkmnpqrstvwxyz''),
      (''hex'', ''0123456789abcdef''),
      (''decimal'', ''0123456789'')]"

definition CharacterSet_Validate :: "string \<Rightarrow> gerr option" where
  "CharacterSet_Validate chars =
     (case map_of alphabets chars of
        None \<Rightarrow> Some (Sentinel (Named ''errUnknownCharacterSet''))
      | Some _ \<Rightarrow> None)"

definition Alphabet :: "string \<Rightarrow> string option" where
  "Alphabet chars = map_of alphabets chars"

definition maxPickRetryAttempts :: nat where
  "maxPickRetryAttempts = 100"

definition be_uint64 :: "byte list \<Rightarrow> 64 word" where
  "be_uint64 bs = foldl (\<lambda>acc b. push_bit 8 acc OR ucast b) 0 bs"

definition max_multiple :: "64 word \<Rightarrow> 64 word" where
  "max_multiple n = - 1 - (- 1 mod n)"

fun pick_loop ::
  "'r reader \<Rightarrow> string \<Rightarrow> 64 word \<Rightarrow> nat \<Rightarrow> byte list \<Rightarrow> 'r \<Rightarrow> (gerr, char) res \<times> 'r" where
  "pick_loop rd runes n 0 buf r = (Err (Sentinel (Named ''errAllAttemptsFailed'')), r)"
| "pick_loop rd runes n (Suc k) buf r =
     (case rd r buf of
        (buf', Some e, r') \<Rightarrow>
          (Err (Fmt [Sentinel (Named ''errFailedToReadRandom''), e]), r')
      | (buf', None, r') \<Rightarrow>
          let choice = be_uint64 buf'
          in if max_multiple n \<le> choice then pick_loop rd runes n k buf' r'
             else (Ok (runes ! unat (choice mod n)), r'))"

definition Pick :: "'r reader \<Rightarrow> string \<Rightarrow> 'r \<Rightarrow> (gerr, char) res \<times> 'r" where
  "Pick rd chars r =
     (case Alphabet chars of
        None \<Rightarrow> (Err (Sentinel (Named ''errUnknownCharacterSet'')), r)
      | Some runes \<Rightarrow>
          let n = of_nat (length runes) :: 64 word
          in if n = 0 then (Err (Sentinel (Named ''errEmptyCharacterSet'')), r)
             else pick_loop rd runes n maxPickRetryAttempts (replicate 8 0) r)"

section \<open>Patterns (pid/pattern.go)\<close>

fun pattern_loop :: "bool \<Rightarrow> string \<Rightarrow> gerr option" where
  "pattern_loop hadAsterisk [] =
     (if hadAsterisk then None else Some (Sentinel (Named ''errMissingAsterisk'')))"
| "pattern_loop hadAsterisk (c # cs) =
     (if c = CHR ''*'' then pattern_loop True cs
      else if c = CHR ''-'' \<or> c = CHR ''_'' then pattern_loop hadAsterisk cs
      else Some (Sentinel (Named ''errInvalidCharacters'')))"

definition Pattern_Validate :: "string \<Rightarrow> gerr option" where
  "Pattern_Validate p = pattern_loop False p"

section \<open>Formats (pid/pid.go)\<close>

record pid_format =
  fmt_Pattern :: string
  fmt_Characters :: string

definition Format_Validate :: "pid_format \<Rightarrow> gerr option" where
  "Format_Validate f =
     (case CharacterSet_Validate (fmt_Characters f) of
        Some e \<Rightarrow> Some (Fmt [Sentinel (Named ''errInvalidCharacterSet''), e])
      | None \<Rightarrow>
          (case Pattern_Validate (fmt_Pattern f) of
             Some e \<Rightarrow> Some (Fmt [Sentinel (Named ''errInvalidPattern''), e])
           | None \<Rightarrow> None))"

text \<open>The loop over the pattern in \<open>IsValid\<close>, after the lengths were compared.\<close>

fun isvalid_loop :: "string \<Rightarrow> string \<Rightarrow> string \<Rightarrow> bool" where
  "isvalid_loop alphabet (p # ps) (c # cs) =
     (if p = CHR ''*''
      then (if c \<in> set alphabet then isvalid_loop alphabet ps cs else False)
      else (if c \<noteq> p then False else isvalid_loop alphabet ps cs))"
| "isvalid_loop alphabet _ _ = True"

definition IsValid :: "pid_format \<Rightarrow> string \<Rightarrow> bool" where
  "IsValid f pid =
     (case Format_Validate f of
        Some _ \<Rightarrow> False
      | None \<Rightarrow>
          (case Alphabet (fmt_Characters f) of
             None \<Rightarrow> False
           | Some alphabet \<Rightarrow>
               if length (fmt_Pattern f) \<noteq> length pid then False
               else isvalid_loop alphabet (fmt_Pattern f) pid))"

fun generate_loop ::
  "'r reader \<Rightarrow> string \<Rightarrow> string \<Rightarrow> string \<Rightarrow> 'r \<Rightarrow> (gerr, string) res \<times> 'r" where
  "generate_loop rd chars [] out r = (Ok out, r)"
| "generate_loop rd chars (c # cs) out r =
     (if c \<noteq> CHR ''*'' then generate_loop rd chars cs (out @ [c]) r
      else (case Pick rd chars r of
              (Ok ch, r') \<Rightarrow> generate_loop rd chars cs (out @ [ch]) r'
            | (Err e, r') \<Rightarrow> (Err e, r')
            | (Panic, r') \<Rightarrow> (Panic, r')))"

definition Generate :: "'r reader \<Rightarrow> pid_format \<Rightarrow> 'r \<Rightarrow> (gerr, string) res \<times> 'r" where
  "Generate rd f r =
     (case Format_Validate f of
        Some e \<Rightarrow> (Err e, r)
      | None \<Rightarrow> generate_loop rd (fmt_Characters f) (fmt_Pattern f) [] r)"

section \<open>Character sets\<close>

lemma Alphabet_cases:
  assumes "Alphabet chars = Some a"
  shows "chars = ''full'' \<and> a = ''0123456789abcdefghijklmnopqrstuvwxyz'' \<or>
    chars = ''readable'' \<and> a = ''0123456789abcdefghjkmnpqrstvwxyz'' \<or>
    chars = ''hex'' \<and> a = ''0123456789abcdef'' \<or>
    chars = ''decimal'' \<and> a = ''0123456789''"
  using assms by (auto simp: Alphabet_def alphabets_def split: if_splits)

lemma Alphabet_distinct: "Alphabet chars = Some a \<Longrightarrow> distinct a"
  by (drule Alphabet_cases) (elim disjE conjE; simp)

lemma Alphabet_length: "Alphabet chars = Some a \<Longrightarrow> length a \<in> {36, 32, 16, 10}"
  by (drule Alphabet_cases) (elim disjE conjE; simp)

lemma CharacterSet_Validate_None [simp]:
  "CharacterSet_Validate chars = None \<longleftrightarrow> (\<exists>a. Alphabet chars = Some a)"
  by (simp add: CharacterSet_Validate_def Alphabet_def split: option.splits)

text \<open>Characters that \<^verbatim>\<open>^[a-z0-9_-]+$\<close> admits.\<close>

definition id_chars :: string where
  "id_chars = ''abcdefghijklmnopqrstuvwxyz0123456789_-''"

lemma Alphabet_id_chars: "Alphabet chars = Some a \<Longrightarrow> set a \<subseteq> set id_chars"
  by (drule Alphabet_cases) (elim disjE conjE; simp add: id_chars_def)

section \<open>Picking a character\<close>

lemma pick_loop_in_alphabet:
  assumes "pick_loop rd runes (of_nat (length runes)) k buf r = (Ok c, r')"
    and "0 < length runes" and "length runes < 2 ^ 64"
  shows "c \<in> set runes"
  using assms(1)
proof (induction k arbitrary: buf r)
  case 0
  then show ?case by simp
next
  case (Suc k)
  obtain buf' e r'' where rd: "rd r buf = (buf', e, r'')" by (metis prod_cases3)
  have len: "unat (of_nat (length runes) :: 64 word) = length runes"
    using assms(3) by (simp add: unat_of_nat)
  have "unat (be_uint64 buf' mod of_nat (length runes)) < length runes"
    using assms(2) len by (metis mod_less_divisor unat_mod)
  then show ?case
    using Suc rd by (cases e) (auto simp: Let_def split: if_splits)
qed

lemma pick_loop_accept:
  "rd r buf = (bs, None, r') \<Longrightarrow> \<not> max_multiple n \<le> be_uint64 bs \<Longrightarrow>
     pick_loop rd runes n (Suc k) buf r = (Ok (runes ! unat (be_uint64 bs mod n)), r')"
  by simp

lemma pick_loop_no_panic: "fst (pick_loop rd runes n k buf r) \<noteq> Panic"
  by (induction k arbitrary: buf r) (auto simp: Let_def split: prod.splits option.splits)

lemma Pick_in_alphabet:
  assumes "Pick rd chars r = (Ok c, r')" and "Alphabet chars = Some a"
  shows "c \<in> set a"
proof -
  have "length a < 2 ^ 64" and "0 < length a"
    using Alphabet_length [OF assms(2)] by auto
  then show ?thesis
    using assms by (auto simp: Pick_def Let_def intro: pick_loop_in_alphabet split: if_splits)
qed

text \<open>The rejection bound is the largest multiple of the alphabet size below \<open>2 ^ 64\<close>.\<close>

lemma unat_minus_one_64: "unat (- 1 :: 64 word) = 2 ^ 64 - 1"
  by (simp add: unsigned_minus_1_eq_mask mask_eq_exp_minus_1)

lemma unat_max_multiple:
  assumes "0 < N" and "N < 2 ^ 64"
  shows "unat (max_multiple (of_nat N)) = N * ((2 ^ 64 - 1) div N)"
proof -
  have N: "unat (of_nat N :: 64 word) = N"
    using assms by (simp add: unat_of_nat)
  have m: "unat (- 1 mod of_nat N :: 64 word) = (2 ^ 64 - 1) mod N"
    using N by (simp add: unat_mod unat_minus_one_64)
  have "(- 1 mod of_nat N :: 64 word) \<le> - 1"
    by simp
  then have "unat (max_multiple (of_nat N)) = (2 ^ 64 - 1) - (2 ^ 64 - 1) mod N"
    using m by (simp add: max_multiple_def unat_sub unat_minus_one_64)
  then show ?thesis
    by (simp add: minus_mod_eq_mult_div)
qed

lemma card_residue:
  assumes "0 < N" and "k < N"
  shows "card {x::nat. x < N * q \<and> x mod N = k} = q"
proof -
  have "{x. x < N * q \<and> x mod N = k} = (\<lambda>j. j * N + k) ` {..<q}"
  proof (intro set_eqI iffI)
    fix x assume x: "x \<in> {x. x < N * q \<and> x mod N = k}"
    then have "x = (x div N) * N + k" and "x div N < q"
      using div_mult_mod_eq [of x N] assms by (auto simp: less_mult_imp_div_less mult.commute)
    then show "x \<in> (\<lambda>j. j * N + k) ` {..<q}" by blast
  next
    fix x assume "x \<in> (\<lambda>j. j * N + k) ` {..<q}"
    then obtain j where j: "j < q" "x = j * N + k" by blast
    have "j * N + k < Suc j * N" using assms by simp
    also have "\<dots> \<le> N * q" using j by (metis Suc_leI mult.commute mult_le_mono1)
    finally show "x \<in> {x. x < N * q \<and> x mod N = k}" using j assms by simp
  qed
  moreover have "inj_on (\<lambda>j. j * N + k) {..<q}"
    using assms by (auto intro: inj_onI)
  ultimately show ?thesis by (simp add: card_image)
qed

text \<open>A reader whose state is the word that its eight bytes encode.\<close>

definition be_bytes :: "64 word \<Rightarrow> byte list" where
  "be_bytes w = map (\<lambda>i. ucast (drop_bit (8 * i) w)) [7, 6, 5, 4, 3, 2, 1, 0]"

definition word_reader :: "(64 word) reader" where
  "word_reader w buf = (be_bytes w, None, w)"

lemma join_low_byte:
  fixes w :: "64 word"
  shows "push_bit 8 (drop_bit (8 + k) w) OR ucast (ucast (drop_bit k w) :: byte) = drop_bit k w"
proof (rule bit_word_eqI)
  fix n assume "n < LENGTH(64)"
  then show "bit (push_bit 8 (drop_bit (8 + k) w) OR ucast (ucast (drop_bit k w) :: byte)) n =
      bit (drop_bit k w) n"
    by (cases "n < 8") (auto simp: bit_simps algebra_simps)
qed

lemma drop_top_byte: "ucast (ucast (drop_bit 56 w) :: byte) = drop_bit 56 (w :: 64 word)"
proof (rule bit_word_eqI)
  fix n assume "n < LENGTH(64)"
  then show "bit (ucast (ucast (drop_bit 56 w) :: byte) :: 64 word) n = bit (drop_bit 56 w) n"
    by (cases "n < 8") (auto simp: bit_simps dest: bit_imp_le_length)
qed

lemma be_uint64_be_bytes [simp]: "be_uint64 (be_bytes w) = w"
  using join_low_byte [of 48 w] join_low_byte [of 40 w] join_low_byte [of 32 w]
    join_low_byte [of 24 w] join_low_byte [of 16 w] join_low_byte [of 8 w] join_low_byte [of 0 w]
  by (simp add: be_uint64_def be_bytes_def drop_top_byte)

lemma pick_loop_word_reader:
  "0 < k \<Longrightarrow> pick_loop word_reader runes n k buf w =
     (if w < max_multiple n then (Ok (runes ! unat (w mod n)), w)
      else (Err (Sentinel (Named ''errAllAttemptsFailed'')), w))"
proof (induction k arbitrary: buf)
  case 0
  then show ?case by simp
next
  case (Suc k)
  then show ?case by (cases "k = 0") (auto simp: word_reader_def not_le)
qed

lemma Pick_word_reader:
  assumes "Alphabet chars = Some a"
  shows "Pick word_reader chars w =
     (if w < max_multiple (of_nat (length a)) then (Ok (a ! (unat w mod length a)), w)
      else (Err (Sentinel (Named ''errAllAttemptsFailed'')), w))"
proof -
  have "unat (of_nat (length a) :: 64 word) = length a" "(of_nat (length a) :: 64 word) \<noteq> 0"
    using Alphabet_length [OF assms] by auto
  moreover have "0 < maxPickRetryAttempts" by (simp add: maxPickRetryAttempts_def)
  ultimately show ?thesis
    by (simp add: Pick_def assms Let_def pick_loop_word_reader unat_mod)
qed

lemma card_words_of_nats:
  assumes "M \<le> 2 ^ 64"
  shows "card {w :: 64 word. unat w \<in> {x. x < M \<and> P x}} = card {x. x < M \<and> P x}"
proof -
  have "unat ` {w :: 64 word. unat w \<in> {x. x < M \<and> P x}} = {x. x < M \<and> P x}"
  proof (intro set_eqI iffI)
    fix x assume x: "x \<in> {x. x < M \<and> P x}"
    then have "unat (of_nat x :: 64 word) = x"
      using assms by (simp add: unat_of_nat)
    then show "x \<in> unat ` {w :: 64 word. unat w \<in> {x. x < M \<and> P x}}"
      using x by (intro image_eqI [of _ _ "of_nat x"]) simp_all
  qed auto
  moreover have "inj_on unat {w :: 64 word. unat w \<in> {x. x < M \<and> P x}}"
    by (rule inj_onI) (rule word_unat_eq_iff [THEN iffD2])
  ultimately show ?thesis using card_image by fastforce
qed

text \<open>
  C23. \<open>Pick\<close> is uniform: over all \<open>2 ^ 64\<close> values of the eight bytes it reads, every
  character of the alphabet is picked for exactly the same number of values, the quotient
  of \<open>2 ^ 64 - 1\<close> by the alphabet size.
\<close>

theorem Pick_uniform:
  assumes "Alphabet chars = Some a" and "c \<in> set a"
  shows "card {w :: 64 word. fst (Pick word_reader chars w) = Ok c} = (2 ^ 64 - 1) div length a"
proof -
  define N where "N = length a"
  define M where "M = N * ((2 ^ 64 - 1) div N)"
  have N: "0 < N" "N < 2 ^ 64"
    using Alphabet_length [OF assms(1)] by (auto simp: N_def)
  have M: "unat (max_multiple (of_nat N)) = M" "M < 2 ^ 64"
    using unat_max_multiple [OF N] by (simp_all only: M_def)
      (rule le_less_trans [OF times_div_less_eq_dividend], simp)
  obtain k where k: "k < N" "c = a ! k"
    using assms(2) by (auto simp: in_set_conv_nth N_def)
  have "fst (Pick word_reader chars w) = Ok c \<longleftrightarrow> unat w < M \<and> unat w mod N = k" for w
    using k N(1) M(1) nth_eq_iff_index_eq [OF Alphabet_distinct [OF assms(1)], of "unat w mod N" k]
    by (simp add: Pick_word_reader [OF assms(1)] word_less_nat_alt flip: N_def)
  then have "{w. fst (Pick word_reader chars w) = Ok c} = {w. unat w \<in> {x. x < M \<and> x mod N = k}}"
    by simp
  then have "card {w. fst (Pick word_reader chars w) = Ok c} = card {x. x < M \<and> x mod N = k}"
    using M(2) by (simp only: card_words_of_nats)
  then show ?thesis
    using card_residue [OF N(1) k(1)] by (simp add: M_def N_def)
qed

theorem Pick_uniform_witness:
  "card {w :: 64 word. fst (Pick word_reader ''hex'' w) = Ok (CHR ''7'')} = (2 ^ 64 - 1) div 16"
proof -
  have a: "Alphabet ''hex'' = Some ''0123456789abcdef''"
    by (simp add: Alphabet_def alphabets_def)
  show ?thesis using Pick_uniform [OF a, of "CHR ''7''"] by simp
qed

section \<open>Patterns and formats\<close>

definition slot :: "string \<Rightarrow> char \<Rightarrow> char \<Rightarrow> bool" where
  "slot alphabet p c \<longleftrightarrow> (if p = CHR ''*'' then c \<in> set alphabet else c = p)"

lemma pattern_loop_None:
  "pattern_loop had p = None \<longleftrightarrow>
     set p \<subseteq> {CHR ''*'', CHR ''-'', CHR ''_''} \<and> (had \<or> CHR ''*'' \<in> set p)"
  by (induction had p rule: pattern_loop.induct) auto

lemma isvalid_loop_slots:
  "length p = length s \<Longrightarrow> isvalid_loop a p s \<longleftrightarrow> list_all2 (slot a) p s"
  by (induction a p s rule: isvalid_loop.induct) (auto simp: slot_def)

lemma Format_Validate_None:
  "Format_Validate f = None \<longleftrightarrow>
     (\<exists>a. Alphabet (fmt_Characters f) = Some a) \<and>
     set (fmt_Pattern f) \<subseteq> {CHR ''*'', CHR ''-'', CHR ''_''} \<and> CHR ''*'' \<in> set (fmt_Pattern f)"
  using pattern_loop_None [of False "fmt_Pattern f"] CharacterSet_Validate_None [of "fmt_Characters f"]
  by (auto simp: Format_Validate_def Pattern_Validate_def simp del: CharacterSet_Validate_None
      split: option.splits)

lemma IsValid_slots:
  "Format_Validate f = None \<Longrightarrow> Alphabet (fmt_Characters f) = Some a \<Longrightarrow>
     IsValid f s \<longleftrightarrow> list_all2 (slot a) (fmt_Pattern f) s"
  by (auto simp: IsValid_def isvalid_loop_slots dest: list_all2_lengthD)

lemma card_slots:
  assumes "distinct a"
  shows "card {s. list_all2 (slot a) p s} = length a ^ count_list p (CHR ''*'')"
proof (induction p)
  case Nil
  then show ?case by simp
next
  case (Cons q p)
  have "{s. list_all2 (slot a) (q # p) s} =
      (\<lambda>(c, s). c # s) ` ({c. slot a q c} \<times> {s. list_all2 (slot a) p s})"
    by (auto simp: list_all2_Cons1)
  moreover have "inj_on (\<lambda>(c, s). c # s) ({c. slot a q c} \<times> {s. list_all2 (slot a) p s})"
    by (auto intro: inj_onI)
  moreover have "card {c. slot a q c} = (if q = CHR ''*'' then length a else 1)"
    using assms by (simp add: slot_def distinct_card)
  ultimately show ?case
    using Cons by (simp add: card_image card_cartesian_product)
qed

text \<open>
  The PIDs of a valid format are exactly as many as the documented space of the
  layout with the same pattern: alphabet size to the power of the number of asterisks.
\<close>

lemma IsValid_count:
  assumes "Format_Validate f = None" and "Alphabet (fmt_Characters f) = Some a"
  shows "card {pid. IsValid f pid} = length a ^ count_list (fmt_Pattern f) (CHR ''*'')"
  using card_slots [OF Alphabet_distinct [OF assms(2)]] IsValid_slots [OF assms] by simp

section \<open>Generation\<close>

lemma generate_loop_slots:
  assumes "Alphabet chars = Some a" and "generate_loop rd chars p out r = (Ok s, r')"
  shows "\<exists>t. s = out @ t \<and> list_all2 (slot a) p t"
  using assms(2)
proof (induction p arbitrary: out r)
  case Nil
  then show ?case by simp
next
  case (Cons c cs)
  show ?case
  proof (cases "c = CHR ''*''")
    case False
    with Cons.prems have "generate_loop rd chars cs (out @ [c]) r = (Ok s, r')" by simp
    from Cons.IH [OF this] obtain t where "s = (out @ [c]) @ t" "list_all2 (slot a) cs t"
      by blast
    moreover have "slot a c c" using False by (simp add: slot_def)
    ultimately show ?thesis by (intro exI [of _ "c # t"]) simp
  next
    case True
    with Cons.prems obtain ch r'' where ch: "Pick rd chars r = (Ok ch, r'')"
      and rest: "generate_loop rd chars cs (out @ [ch]) r'' = (Ok s, r')"
      by (auto split: prod.splits res.splits)
    from Cons.IH [OF rest] obtain t where "s = (out @ [ch]) @ t" "list_all2 (slot a) cs t"
      by blast
    moreover have "slot a c ch"
      using Pick_in_alphabet [OF ch assms(1)] True by (simp add: slot_def)
    ultimately show ?thesis by (intro exI [of _ "ch # t"]) simp
  qed
qed

lemma Generate_slots:
  assumes "Generate rd f r = (Ok s, r')"
  shows "Format_Validate f = None \<and>
    (\<exists>a. Alphabet (fmt_Characters f) = Some a \<and> list_all2 (slot a) (fmt_Pattern f) s)"
proof -
  have ok: "Format_Validate f = None"
    using assms by (auto simp: Generate_def split: option.splits)
  then obtain a where "Alphabet (fmt_Characters f) = Some a"
    by (auto simp: Format_Validate_None)
  with ok assms show ?thesis
    by (auto simp: Generate_def dest: generate_loop_slots)
qed

lemma Generate_five:
  "Generate word_reader \<lparr>fmt_Pattern = ''*_*'', fmt_Characters = ''hex''\<rparr> 5 = (Ok ''5_5'', 5)"
proof -
  have "Pick word_reader ''hex'' 5 = (Ok (CHR ''5''), 5)"
    by (subst Pick_word_reader [of _ "''0123456789abcdef''"])
       (simp_all add: Alphabet_def alphabets_def max_multiple_def)
  then show ?thesis
    by (simp add: Generate_def Format_Validate_def Pattern_Validate_def CharacterSet_Validate_def
        alphabets_def)
qed

text \<open>
  \<open>Generate\<close> only returns PIDs that \<open>IsValid\<close> accepts for the same format, whatever
  the random reader does.
\<close>

lemma Generate_IsValid:
  assumes "Generate rd f r = (Ok pid, r')"
  shows "IsValid f pid"
  using Generate_slots [OF assms] IsValid_slots by blast

end
