(* ===== verification/Pid_Layout.thy ===== *)
theory Pid_Layout
  imports Pid_Format
begin

text \<open>
  The file \<^verbatim>\<open>pid/layout.go\<close>: the dense numbering of the identifiers of a pattern that the
  fill-based allocators use. The arithmetic is on \<^typ>\<open>64 word\<close>, with the high half of
  \<^verbatim>\<open>bits.Mul64\<close> and the panics of \<^verbatim>\<open>bits.Div64\<close> written out. The main result is that
  \<open>EncodeIndex\<close> is a bijection between the indexes below \<open>Space\<close> and the identifiers
  that match the pattern. A pattern is a list of bytes; the loops over its runes agree with it for texts in UTF-8, because the
  star is a byte of its own there.
\<close>

section \<open>Definitions (pid/layout.go)\<close>

record layout =
  lay_Characters :: string
  lay_Pattern :: string

definition scrambleMultiplierSeed :: "64 word" where
  "scrambleMultiplierSeed = 0xbf58476d1ce4e5b9"

definition scrambleAdditiveSeed :: "64 word" where
  "scrambleAdditiveSeed = 0x9e3779b97f4a7c15"

definition bits_Mul64 :: "64 word \<Rightarrow> 64 word \<Rightarrow> 64 word \<times> 64 word" where
  "bits_Mul64 a b = (of_nat (unat a * unat b div 2 ^ 64), a * b)"

definition bits_Div64_rem :: "64 word \<Rightarrow> 64 word \<Rightarrow> 64 word \<Rightarrow> (gerr, 64 word) res" where
  "bits_Div64_rem hi lo y =
     (if y = 0 \<or> y \<le> hi then Panic
      else Ok (of_nat ((unat hi * 2 ^ 64 + unat lo) mod unat y)))"

fun count_stars :: "nat \<Rightarrow> string \<Rightarrow> nat" where
  "count_stars stars [] = stars"
| "count_stars stars (c # cs) = count_stars (if c = CHR ''*'' then stars + 1 else stars) cs"

definition Layout_parts :: "layout \<Rightarrow> (gerr, string \<times> nat) res" where
  "Layout_parts l =
     (case CharacterSet_Validate (lay_Characters l) of
        Some e \<Rightarrow> Err (Fmt [Sentinel (Named ''errInvalidCharacterSet''), e])
      | None \<Rightarrow>
          (case Alphabet (lay_Characters l) of
             None \<Rightarrow> Err (Sentinel (Named ''errInvalidCharacterSet''))
           | Some s \<Rightarrow> Ok (s, count_stars 0 (lay_Pattern l))))"

fun space_loop :: "64 word \<Rightarrow> nat \<Rightarrow> 64 word \<Rightarrow> (gerr, 64 word) res" where
  "space_loop base 0 space = Ok space"
| "space_loop base (Suc k) space =
     (case bits_Mul64 space base of
        (hi, lo) \<Rightarrow> if hi \<noteq> 0 then Err (Sentinel (Named ''errSpaceOverflow''))
                    else space_loop base k lo)"

definition spaceSize :: "64 word \<Rightarrow> nat \<Rightarrow> (gerr, 64 word) res" where
  "spaceSize base stars =
     (if stars = 0 then Ok 1
      else if base = 0 then Err (Sentinel (Named ''errEmptyCharacterSet''))
      else space_loop base stars 1)"

definition Space :: "layout \<Rightarrow> (gerr, 64 word) res" where
  "Space l = bind_res (Layout_parts l) (\<lambda>(alphabet, stars).
     spaceSize (of_nat (length alphabet)) stars)"

function gcd_loop :: "64 word \<Rightarrow> 64 word \<Rightarrow> 64 word" where
  "gcd_loop a b = (if b \<noteq> 0 then gcd_loop b (a mod b) else a)"
  by auto
termination
  by (relation "measure (\<lambda>(a, b). unat b)")
    (auto simp: unat_mod_distrib word_neq_0_conv intro!: mod_less_divisor simp: unat_gt_0)

declare gcd_loop.simps [simp del]

definition mulMod :: "64 word \<Rightarrow> 64 word \<Rightarrow> 64 word \<Rightarrow> (gerr, 64 word) res" where
  "mulMod a b m = (case bits_Mul64 a b of (hi, lo) \<Rightarrow> bits_Div64_rem hi lo m)"

text \<open>
  The search for a multiplier ends for every start: \<open>m\<close> runs through \<open>m + 1, m + 2, \<dots>\<close>, possibly
  jumping to \<open>1\<close>, and \<open>1\<close> is coprime to everything; \<open>1 - m\<close> (as a word) is the distance.
\<close>

lemma gcd_loop_unat: "unat (gcd_loop a b) = gcd (unat a) (unat b)"
proof (induction a b rule: gcd_loop.induct)
  case (1 a b)
  show ?case
  proof (cases "b = 0")
    case True
    then show ?thesis by (subst gcd_loop.simps) simp
  next
    case False
    then show ?thesis
      using 1 by (simp add: gcd_loop.simps [of a b] unat_mod_distrib)
        (metis gcd.commute gcd_red_nat)
  qed
qed

lemma gcd_loop_one: "gcd_loop 1 b = 1"
  by (rule word_unat_eq_iff [THEN iffD2]) (simp add: gcd_loop_unat)

function multiplier_loop :: "64 word \<Rightarrow> 64 word \<Rightarrow> 64 word" where
  "multiplier_loop m space =
     (if gcd_loop m space \<noteq> 1
      then multiplier_loop (if m + 1 = space then 1 else m + 1) space
      else m)"
  by auto
termination
proof (relation "measure (\<lambda>(m, space). unat (1 - m))", goal_cases)
  case 1
  show ?case by simp
next
  case (2 m space)
  then have "m \<noteq> 1" using gcd_loop_one by auto
  then have pos: "1 - m \<noteq> 0" by simp
  have "unat (1 - (m + 1)) = unat ((1 - m) - 1)" by (simp add: algebra_simps)
  also have "\<dots> < unat (1 - m)" using pos
    by (metis measure_unat)
  finally have "unat (1 - (m + 1)) < unat (1 - m)" .
  moreover have "0 < unat (1 - m)" using pos by (simp add: unat_gt_0)
  ultimately show ?case by simp
qed

declare multiplier_loop.simps [simp del]

definition multiplierFor :: "64 word \<Rightarrow> 64 word" where
  "multiplierFor space =
     (let m = scrambleMultiplierSeed mod space
      in multiplier_loop (if m = 0 then 1 else m) space)"

definition scramble :: "64 word \<Rightarrow> 64 word \<Rightarrow> (gerr, 64 word) res" where
  "scramble i space =
     (if space \<le> 1 then Ok 0
      else let m = multiplierFor space;
               c = scrambleAdditiveSeed mod space;
               c = (if c mod 2 = 0 then (c + 1) mod space else c)
           in bind_res (mulMod i m space) (\<lambda>r. Ok ((r + c) mod space)))"

text \<open>The loop that fills \<open>digits\<close> from the last index down to 0.\<close>

fun digits_loop :: "string \<Rightarrow> 64 word \<Rightarrow> nat \<Rightarrow> 64 word \<Rightarrow> string \<Rightarrow> string" where
  "digits_loop alphabet base 0 n digits = digits"
| "digits_loop alphabet base (Suc i) n digits =
     digits_loop alphabet base i (n div base) (digits[i := alphabet ! unat (n mod base)])"

fun place_loop :: "string \<Rightarrow> nat \<Rightarrow> string \<Rightarrow> string \<Rightarrow> string" where
  "place_loop digits di [] b = b"
| "place_loop digits di (c # cs) b =
     (if c = CHR ''*'' then place_loop digits (di + 1) cs (b @ [digits ! di])
      else place_loop digits di cs (b @ [c]))"

definition encodeRaw :: "string \<Rightarrow> string \<Rightarrow> nat \<Rightarrow> 64 word \<Rightarrow> string" where
  "encodeRaw pattern alphabet stars value =
     (if stars = 0 then pattern
      else place_loop
        (digits_loop alphabet (of_nat (length alphabet)) stars value (replicate stars (CHR 0x00)))
        0 pattern [])"

definition EncodeIndex :: "layout \<Rightarrow> 64 word \<Rightarrow> (gerr, string) res" where
  "EncodeIndex l index =
     bind_res (Layout_parts l) (\<lambda>(alphabet, stars).
     bind_res (spaceSize (of_nat (length alphabet)) stars) (\<lambda>space.
       if space \<le> index then Err (Fmt [Sentinel (Named ''errIndexOutOfRange'')])
       else bind_res (scramble index space) (\<lambda>v. Ok (encodeRaw (lay_Pattern l) alphabet stars v))))"

section \<open>The size of the space\<close>

lemma count_stars_count: "count_stars k p = k + count_list p (CHR ''*'')"
  by (induction k p rule: count_stars.induct) auto

lemma Layout_parts_Ok:
  "Layout_parts l = Ok (a, k) \<longleftrightarrow>
     Alphabet (lay_Characters l) = Some a \<and> k = count_list (lay_Pattern l) (CHR ''*'')"
  by (auto simp: Layout_parts_def count_stars_count CharacterSet_Validate_def Alphabet_def
      split: option.splits)

lemma unat_less_64: "unat (w :: 64 word) < 2 ^ 64"
  using unsigned_less [of w] by simp

lemma Mul64_hi_zero:
  "fst (bits_Mul64 a b) = 0 \<longleftrightarrow> unat a * unat b < 2 ^ 64"
proof -
  have "unat a * unat b < 2 ^ 64 * 2 ^ 64"
    by (intro mult_strict_mono unat_less_64) simp_all
  then have "unat a * unat b div 2 ^ 64 < 2 ^ 64"
    by (simp only: less_mult_imp_div_less)
  then have "unat (fst (bits_Mul64 a b)) = unat a * unat b div 2 ^ 64"
    by (simp add: bits_Mul64_def unat_of_nat del: of_nat_mult)
  moreover have "fst (bits_Mul64 a b) = 0 \<longleftrightarrow> unat (fst (bits_Mul64 a b)) = 0"
    by (simp only: unat_eq_0)
  ultimately show ?thesis by (simp only: div_eq_0_iff) simp
qed

lemma space_loop_Ok:
  assumes "1 \<le> unat base"
  shows "space_loop base k s = Ok n \<longleftrightarrow>
    unat s * unat base ^ k < 2 ^ 64 \<and> unat n = unat s * unat base ^ k"
proof (induction k arbitrary: s)
  case 0
  have "unat s < 2 ^ 64" by (rule unat_less_64)
  moreover have "s = n \<longleftrightarrow> unat n = unat s" by (auto dest: word_unat_eq_iff [THEN iffD2])
  ultimately show ?case by simp
next
  case (Suc k)
  have "unat s * unat base * 1 \<le> unat s * unat base * unat base ^ k"
    using assms by (intro mult_le_mono2) simp
  then have le: "unat s * unat base \<le> unat s * unat base ^ Suc k"
    by (simp add: mult.assoc)
  obtain hi where hi: "bits_Mul64 s base = (hi, s * base)" and
    hi0: "hi = 0 \<longleftrightarrow> unat s * unat base < 2 ^ 64"
    using Mul64_hi_zero [of s base] by (simp add: bits_Mul64_def)
  show ?case
  proof (cases "hi = 0")
    case True
    then have "unat (s * base) = unat s * unat base"
      using hi0 by (simp add: unat_word_ariths)
    then show ?thesis
      using Suc True hi by (simp add: mult.assoc)
  next
    case False
    then have "\<not> unat s * unat base ^ Suc k < 2 ^ 64"
      using le hi0 by (meson le_less_trans)
    then show ?thesis using hi False by simp
  qed
qed

lemma spaceSize_Ok:
  assumes "1 \<le> unat base"
  shows "spaceSize base k = Ok n \<longleftrightarrow> unat base ^ k < 2 ^ 64 \<and> unat n = unat base ^ k"
proof -
  have "base \<noteq> 0" using assms by auto
  moreover have "1 = n \<longleftrightarrow> unat n = 1"
    using word_unat_eq_iff [of n 1] by simp
  ultimately show ?thesis
    using space_loop_Ok [OF assms, of k 1 n] by (auto simp: spaceSize_def)
qed

section \<open>The permutation of the indexes\<close>

lemma multiplier_loop_coprime:
  "coprime (unat (multiplier_loop m space)) (unat space)"
proof (induction m space rule: multiplier_loop.induct)
  case (1 m space)
  show ?case
  proof (cases "gcd_loop m space = 1")
    case True
    then have "gcd (unat m) (unat space) = 1"
      using gcd_loop_unat [of m space] by simp
    then show ?thesis
      using True by (subst multiplier_loop.simps) (simp add: coprime_iff_gcd_eq_1)
  next
    case False
    then show ?thesis
      using 1 by (subst multiplier_loop.simps) simp
  qed
qed

lemma multiplier_loop_less:
  "1 < space \<Longrightarrow> m < space \<Longrightarrow> multiplier_loop m space < space"
proof (induction m space rule: multiplier_loop.induct)
  case (1 m space)
  have "m + 1 = space \<or> m + 1 < space"
    using 1(3) by (metis inc_le le_less)
  then show ?case
    using 1 by (subst multiplier_loop.simps) auto
qed

lemma multiplierFor_props:
  assumes "1 < space"
  shows "coprime (unat (multiplierFor space)) (unat space)" and "multiplierFor space < space"
proof -
  show "coprime (unat (multiplierFor space)) (unat space)"
    by (simp add: multiplierFor_def Let_def multiplier_loop_coprime)
  have "scrambleMultiplierSeed mod space < space"
    using assms by (intro word_mod_less_divisor) (auto simp: word_neq_0_conv [symmetric])
  then show "multiplierFor space < space"
    using assms by (simp add: multiplierFor_def Let_def multiplier_loop_less)
qed

lemma mulMod_Ok:
  assumes "a < m" and "b < m"
  shows "\<exists>r. mulMod a b m = Ok r \<and> unat r = unat a * unat b mod unat m"
proof -
  have ab: "unat a < unat m" "unat b < unat m"
    using assms by (simp_all add: word_less_nat_alt)
  have "unat a * unat b < unat m * 2 ^ 64"
    using ab unat_less_64 [of b] by (intro mult_strict_mono) simp_all
  then have q: "unat a * unat b div 2 ^ 64 < unat m"
    by (simp only: less_mult_imp_div_less)
  then have "unat a * unat b div 2 ^ 64 < 2 ^ 64"
    using unat_less_64 [of m] by (meson less_trans)
  then have hi: "unat (fst (bits_Mul64 a b)) = unat a * unat b div 2 ^ 64"
    by (simp add: bits_Mul64_def unat_of_nat del: of_nat_mult)
  have lo: "unat (snd (bits_Mul64 a b)) = unat a * unat b mod 2 ^ 64"
    by (simp add: bits_Mul64_def unat_word_ariths)
  have "unat a * unat b mod unat m < 2 ^ 64"
    using ab unat_less_64 [of m] mod_less_divisor [of "unat m" "unat a * unat b"] by linarith
  then have r: "unat (of_nat (unat a * unat b mod unat m) :: 64 word) = unat a * unat b mod unat m"
    by (simp add: unat_of_nat del: of_nat_mult)
  have "m \<noteq> 0" and "\<not> m \<le> fst (bits_Mul64 a b)"
    using ab q hi by (auto simp: word_le_nat_alt)
  then have "mulMod a b m = Ok (of_nat (unat a * unat b mod unat m))"
    unfolding mulMod_def bits_Div64_rem_def case_prod_beta hi lo
    by (simp only: div_mult_mod_eq if_False de_Morgan_disj simp_thms)
  with r show ?thesis by blast
qed

text \<open>The increment of the scrambling step, and that the final addition does not wrap.\<close>

definition scramble_inc :: "64 word \<Rightarrow> 64 word" where
  "scramble_inc space =
     (let c = scrambleAdditiveSeed mod space in if c mod 2 = 0 then (c + 1) mod space else c)"

definition scramble_safe :: "64 word \<Rightarrow> bool" where
  "scramble_safe space \<longleftrightarrow> unat space + unat (scramble_inc space) \<le> 2 ^ 64"

lemma scramble_inc_less: "1 < space \<Longrightarrow> scramble_inc space < space"
proof -
  assume "1 < space"
  then have "0 < space" by (auto simp: word_neq_0_conv [symmetric])
  then show ?thesis
    by (simp add: scramble_inc_def Let_def word_mod_less_divisor)
qed

lemma scramble_Ok:
  assumes "scramble_safe space" and "1 < space" and "i < space"
  shows "\<exists>v. scramble i space = Ok v \<and>
    unat v = (unat i * unat (multiplierFor space) + unat (scramble_inc space)) mod unat space"
proof -
  obtain r where r: "mulMod i (multiplierFor space) space = Ok r"
      "unat r = unat i * unat (multiplierFor space) mod unat space"
    using mulMod_Ok [OF assms(3) multiplierFor_props(2) [OF assms(2)]] by blast
  have S: "0 < unat space" using assms(2) by (auto simp: word_less_nat_alt)
  then have "unat r < unat space" using r(2) by simp
  then have "unat r + unat (scramble_inc space) < 2 ^ 64"
    using assms(1) unfolding scramble_safe_def by linarith
  then have "unat (r + scramble_inc space) = unat r + unat (scramble_inc space)"
    by (simp add: unat_word_ariths)
  then have "unat ((r + scramble_inc space) mod space) =
      (unat i * unat (multiplierFor space) + unat (scramble_inc space)) mod unat space"
    by (simp add: unat_mod_distrib r(2) mod_add_left_eq)
  moreover have "\<not> space \<le> 1" using assms(2) by (simp only: not_le)
  then have "scramble i space = Ok ((r + scramble_inc space) mod space)"
    using r(1) by (simp add: scramble_def Let_def scramble_inc_def)
  ultimately show ?thesis by blast
qed

lemma linear_mod_inj:
  assumes "(i * m + c) mod s = (j * m + c) mod s" and "coprime m s" and "i < s" and "j < (s :: nat)"
  shows "i = j"
proof -
  have "x = y" if "x \<le> y" "(x * m + c) mod s = (y * m + c) mod s" "x < s" "y < s" for x y
  proof -
    have "s dvd (y * m + c) - (x * m + c)"
      using that by (metis add_le_cancel_right mod_eq_dvd_iff_nat mult_le_mono1)
    then have "s dvd (y - x) * m" by (simp add: diff_mult_distrib)
    then have "s dvd y - x"
      using assms(2) by (simp add: coprime_commute coprime_dvd_mult_left_iff)
    then show ?thesis using that by (metis diff_is_0_eq dvd_imp_le gr0I le_antisym less_imp_diff_less not_le)
  qed
  from this [of i j] this [of j i] show ?thesis
    using assms by (metis nat_le_linear)
qed

lemma scramble_bij:
  assumes "scramble_safe space" and "1 < space"
  shows "(\<forall>i < space. \<exists>v < space. scramble i space = Ok v) \<and>
    (\<forall>i < space. \<forall>j < space. scramble i space = scramble j space \<longrightarrow> i = j)"
proof (intro conjI allI impI)
  have S: "0 < unat space" using assms(2) by (auto simp: word_less_nat_alt)
  fix i assume i: "i < space"
  from scramble_Ok [OF assms i] S show "\<exists>v < space. scramble i space = Ok v"
    by (auto simp: word_less_nat_alt)
  fix j assume j: "j < space" and eq: "scramble i space = scramble j space"
  from scramble_Ok [OF assms i] scramble_Ok [OF assms j] eq
  have "(unat i * unat (multiplierFor space) + unat (scramble_inc space)) mod unat space =
    (unat j * unat (multiplierFor space) + unat (scramble_inc space)) mod unat space"
    by auto
  then have "unat i = unat j"
    by (rule linear_mod_inj) (use i j multiplierFor_props(1) [OF assms(2)] in
      \<open>simp_all only: word_less_nat_alt\<close>)
  then show "i = j" by (rule word_unat_eq_iff [THEN iffD2])
qed

section \<open>Spaces of the four alphabets\<close>

lemma small_space_safe:
  assumes "unat space \<le> 2 ^ 63" and "1 < space"
  shows "scramble_safe space"
proof -
  have "unat (scramble_inc space) < unat space"
    using scramble_inc_less [OF assms(2)] by (simp only: word_less_nat_alt)
  then show ?thesis using assms(1) by (simp add: scramble_safe_def)
qed

text \<open>
  The largest decimal space, \<open>10 ^ 19\<close>, is the only one above \<open>2 ^ 63\<close>; there the increment is
  small enough.
\<close>

lemma decimal_space_safe: "scramble_safe 10000000000000000000"
  by (simp add: scramble_safe_def scramble_inc_def scrambleAdditiveSeed_def Let_def)

lemma power_space_bound:
  assumes "b ^ k < (2 ^ 64 :: nat)" and "2 ^ 64 \<le> b ^ n" and "0 < b"
  shows "k < n"
proof (rule ccontr)
  assume "\<not> k < n"
  then have "b ^ n \<le> b ^ k" using assms(3) by (intro power_increasing) simp_all
  with assms show False by linarith
qed

lemma alphabet_space_safe:
  assumes a: "Alphabet chars = Some a" and sz: "spaceSize (of_nat (length a)) k = Ok space"
    and gt: "1 < space"
  shows "scramble_safe space"
proof -
  have len: "length a \<in> {36, 32, 16, 10}" by (rule Alphabet_length [OF a])
  then have "unat (of_nat (length a) :: 64 word) = length a" by auto
  with len sz have pow: "length a ^ k < 2 ^ 64" "unat space = length a ^ k"
    using spaceSize_Ok [of "of_nat (length a)" k space] by auto
  have mono: "length a ^ k \<le> 2 ^ 63" if "k < n" "length a ^ (n - 1) \<le> 2 ^ 63" for n
  proof -
    have "length a ^ k \<le> length a ^ (n - 1)" using that(1) len by (intro power_increasing) auto
    with that(2) show ?thesis by linarith
  qed
  show ?thesis
  proof (cases "length a = 10 \<and> k = 19")
    case True
    then have "unat space = unat (10000000000000000000 :: 64 word)" using pow by simp
    then have "space = 10000000000000000000" by (rule word_unat_eq_iff [THEN iffD2])
    then show ?thesis using decimal_space_safe by simp
  next
    case False
    from len consider "length a = 36" | "length a = 32" | "length a = 16" | "length a = 10" by auto
    then have "length a ^ k \<le> 2 ^ 63"
    proof cases
      case 1
      then show ?thesis using power_space_bound [of 36 k 13] pow mono [of 13] by simp
    next
      case 2
      then show ?thesis using power_space_bound [of 32 k 13] pow mono [of 13] by simp
    next
      case 3
      then show ?thesis using power_space_bound [of 16 k 16] pow mono [of 16] by simp
    next
      case 4
      then have "k < 20" using power_space_bound [of 10 k 20] pow by simp
      then have "k < 19" using False 4 by linarith
      then show ?thesis using 4 mono [of 19] by simp
    qed
    then show ?thesis using small_space_safe gt pow(2) by simp
  qed
qed

section \<open>Writing the digits\<close>

fun radix :: "nat \<Rightarrow> nat \<Rightarrow> nat \<Rightarrow> nat list" where
  "radix base 0 n = []"
| "radix base (Suc k) n = radix base k (n div base) @ [n mod base]"

lemma length_radix [simp]: "length (radix base k n) = k"
  by (induction k arbitrary: n) simp_all

lemma radix_inj:
  "radix base k n = radix base k m \<Longrightarrow> n < base ^ k \<Longrightarrow> m < base ^ k \<Longrightarrow> n = m"
proof (induction k arbitrary: n m)
  case (Suc k)
  then have "n div base < base ^ k" "m div base < base ^ k"
    by (simp_all add: less_mult_imp_div_less mult.commute)
  with Suc have "n div base = m div base" "n mod base = m mod base" by auto
  then show ?case by (metis div_mult_mod_eq)
qed simp

lemma radix_less: "0 < base \<Longrightarrow> d \<in> set (radix base k n) \<Longrightarrow> d < base"
  by (induction k arbitrary: n) auto

lemma drop_update_here: "k < length ds \<Longrightarrow> drop k (ds[k := x]) = x # drop (Suc k) ds"
  by (metis Cons_nth_drop_Suc drop_update_cancel length_list_update lessI nth_list_update_eq)

lemma digits_loop_radix:
  assumes "unat base = b"
  shows "k \<le> length ds \<Longrightarrow>
    digits_loop alphabet base k n ds = map ((!) alphabet) (radix b k (unat n)) @ drop k ds"
proof (induction k arbitrary: n ds)
  case (Suc k)
  then show ?case
    using assms by (simp add: unat_div_distrib unat_mod_distrib drop_update_here)
qed simp

fun fill :: "string \<Rightarrow> string \<Rightarrow> string" where
  "fill [] ds = []"
| "fill (c # cs) ds =
     (if c = CHR ''*'' then hd ds # fill cs (tl ds) else c # fill cs ds)"

lemma place_loop_fill:
  "di + count_list p (CHR ''*'') \<le> length ds \<Longrightarrow>
     place_loop ds di p b = b @ fill p (drop di ds)"
  by (induction ds di p b rule: place_loop.induct) (auto simp: hd_drop_conv_nth tl_drop drop_Suc)

lemma fill_inj:
  "fill p ds = fill p ds' \<Longrightarrow> length ds = count_list p (CHR ''*'') \<Longrightarrow>
     length ds' = count_list p (CHR ''*'') \<Longrightarrow> ds = ds'"
proof (induction p arbitrary: ds ds')
  case (Cons c p)
  show ?case
  proof (cases "c = CHR ''*''")
    case True
    with Cons show ?thesis by (cases ds; cases ds') auto
  next
    case False
    with Cons show ?thesis by (metis count_list.simps(2) fill.simps(2) list.inject)
  qed
qed simp

lemma fill_slots:
  "set ds \<subseteq> set a \<Longrightarrow> length ds = count_list p (CHR ''*'') \<Longrightarrow> list_all2 (slot a) p (fill p ds)"
proof (induction p arbitrary: ds)
  case (Cons c p)
  have star: "slot a (CHR ''*'') x \<longleftrightarrow> x \<in> set a" and other: "c \<noteq> CHR ''*'' \<Longrightarrow> slot a c c" for x
    by (simp_all add: slot_def)
  show ?case
  proof (cases "c = CHR ''*''")
    case True
    with Cons star show ?thesis by (cases ds) auto
  next
    case False
    with Cons other show ?thesis by simp
  qed
qed simp

lemma fill_no_stars: "count_list p (CHR ''*'') = 0 \<Longrightarrow> fill p ds = p"
  by (induction p arbitrary: ds) (auto split: if_splits)

lemma encodeRaw_fill:
  assumes "k = count_list p (CHR ''*'')" and "0 < length a" and "length a < 2 ^ 64"
  shows "encodeRaw p a k v = fill p (map ((!) a) (radix (length a) k (unat v)))"
proof -
  have "unat (of_nat (length a) :: 64 word) = length a"
    using assms(3) by (simp add: unat_of_nat)
  then show ?thesis
    using assms(1) fill_no_stars [of p]
    by (simp add: encodeRaw_def digits_loop_radix place_loop_fill)
qed

text \<open>What a layout with a valid alphabet and a space within 64 bits does.\<close>

lemma EncodeIndex_space:
  assumes "Space l = Ok n"
  obtains a k where "Alphabet (lay_Characters l) = Some a"
    "k = count_list (lay_Pattern l) (CHR ''*'')" "unat n = length a ^ k" "n \<noteq> 0"
    "n = 1 \<or> scramble_safe n"
    "\<And>i. i < n \<Longrightarrow> EncodeIndex l i =
        bind_res (scramble i n) (\<lambda>v. Ok (fill (lay_Pattern l) (map ((!) a) (radix (length a) k (unat v)))))"
proof -
  from assms obtain a k where parts: "Layout_parts l = Ok (a, k)"
    and sz: "spaceSize (of_nat (length a)) k = Ok n"
    by (auto simp: Space_def bind_res_Ok_iff)
  then have a: "Alphabet (lay_Characters l) = Some a"
    and k: "k = count_list (lay_Pattern l) (CHR ''*'')"
    by (simp_all add: Layout_parts_Ok)
  have len: "length a \<in> {36, 32, 16, 10}" by (rule Alphabet_length [OF a])
  then have u: "unat (of_nat (length a) :: 64 word) = length a" by auto
  with len sz have n: "unat n = length a ^ k"
    using spaceSize_Ok [of "of_nat (length a)" k n] by auto
  then have n0: "n \<noteq> 0" using len by auto
  then have "n = 1 \<or> 1 < n"
    using word_le_less_eq [of 1 n] by (auto simp: word_less_1 not_less [symmetric])
  then have "n = 1 \<or> scramble_safe n" using alphabet_space_safe [OF a sz] by blast
  moreover have "EncodeIndex l i =
      bind_res (scramble i n) (\<lambda>v. Ok (fill (lay_Pattern l) (map ((!) a) (radix (length a) k (unat v)))))"
    if "i < n" for i
  proof -
    have "\<not> n \<le> i" using that by (simp only: not_le)
    moreover have "encodeRaw (lay_Pattern l) a k v =
        fill (lay_Pattern l) (map ((!) a) (radix (length a) k (unat v)))" for v
      by (rule encodeRaw_fill [OF k]) (use len in auto)
    ultimately show ?thesis
      by (simp add: EncodeIndex_def parts sz)
  qed
  ultimately show ?thesis using that a k n n0 by blast
qed

lemma scramble_range:
  assumes "n = 1 \<or> scramble_safe n" and "n \<noteq> 0"
  shows "\<And>i. i < n \<Longrightarrow> \<exists>v < n. scramble i n = Ok v"
    and "\<And>i j. i < n \<Longrightarrow> j < n \<Longrightarrow> scramble i n = scramble j n \<Longrightarrow> i = j"
proof -
  have "n = 1 \<or> 1 < n" using assms(2) word_le_less_eq [of 1 n]
    by (auto simp: word_less_1 not_less [symmetric])
  then consider "n = 1" | "1 < n" "scramble_safe n" using assms by blast
  then have both: "(\<forall>i < n. \<exists>v < n. scramble i n = Ok v) \<and>
    (\<forall>i < n. \<forall>j < n. scramble i n = scramble j n \<longrightarrow> i = j)"
  proof cases
    case 1
    then show ?thesis by (auto simp: scramble_def)
  next
    case 2
    then show ?thesis using scramble_bij by blast
  qed
  then show "\<And>i. i < n \<Longrightarrow> \<exists>v < n. scramble i n = Ok v"
    and "\<And>i j. i < n \<Longrightarrow> j < n \<Longrightarrow> scramble i n = scramble j n \<Longrightarrow> i = j"
    by blast+
qed

lemma fill_radix_inj:
  assumes "Alphabet chars = Some a" and k: "k = count_list p (CHR ''*'')"
    and "fill p (map ((!) a) (radix (length a) k v)) = fill p (map ((!) a) (radix (length a) k w))"
    and "v < length a ^ k" and "w < length a ^ k"
  shows "v = w"
proof -
  have pos: "0 < length a" using Alphabet_length [OF assms(1)] by auto
  have "map ((!) a) (radix (length a) k v) = map ((!) a) (radix (length a) k w)"
    using assms(3) by (rule fill_inj) (simp_all add: k)
  moreover have "inj_on ((!) a) (set (radix (length a) k v) \<union> set (radix (length a) k w))"
    using Alphabet_distinct [OF assms(1)] radix_less [OF pos] by (intro inj_on_nth) blast+
  ultimately have "radix (length a) k v = radix (length a) k w"
    by (rule map_inj_on)
  then show ?thesis using assms(4,5) radix_inj by blast
qed

lemma card_words_below: "card {i :: 64 word. i < n} = unat n"
proof -
  have "{i. i < n} = {w :: 64 word. unat w \<in> {x. x < unat n \<and> True}}"
    by (simp add: word_less_nat_alt)
  then show ?thesis
    using card_words_of_nats [of "unat n" "\<lambda>_. True"] unat_less_64 [of n] by simp
qed

section \<open>Properties\<close>

text \<open>
  C1. Dense allocation reaches every identifier exactly once. For a layout whose space fits in
  64 bits (\<open>Space\<close> returns \<open>n\<close>), \<open>EncodeIndex\<close> returns an identifier for every index below
  \<open>n\<close>, different indexes get different identifiers, and the identifiers are exactly the
  strings that match the pattern slot by slot: none is skipped and none is made twice.
\<close>

theorem EncodeIndex_bijective:
  assumes "Space l = Ok n" and "Alphabet (lay_Characters l) = Some a"
  shows "bij_betw (EncodeIndex l) {i. i < n} (Ok ` {s. list_all2 (slot a) (lay_Pattern l) s})"
proof -
  from EncodeIndex_space [OF assms(1)] assms(2) obtain k where
      k: "k = count_list (lay_Pattern l) (CHR ''*'')" and n: "unat n = length a ^ k" and n0: "n \<noteq> 0"
    and safe: "n = 1 \<or> scramble_safe n"
    and enc: "\<And>i. i < n \<Longrightarrow> EncodeIndex l i =
        bind_res (scramble i n) (\<lambda>v. Ok (fill (lay_Pattern l) (map ((!) a) (radix (length a) k (unat v)))))"
    by (metis option.inject)
  define g where "g v = fill (lay_Pattern l) (map ((!) a) (radix (length a) k v))" for v
  have pos: "0 < length a" using Alphabet_length [OF assms(2)] by auto
  have ok: "\<exists>v. v < n \<and> scramble i n = Ok v \<and> EncodeIndex l i = Ok (g (unat v))" if "i < n" for i
    using scramble_range(1) [OF safe n0 that] enc [OF that] by (auto simp: g_def)
  have inj: "inj_on (EncodeIndex l) {i. i < n}"
  proof (rule inj_onI; simp)
    fix i j assume ij: "i < n" "j < n" and eq: "EncodeIndex l i = EncodeIndex l j"
    from ok [OF ij(1)] ok [OF ij(2)] obtain v w where
      v: "v < n" "scramble i n = Ok v" "EncodeIndex l i = Ok (g (unat v))" and
      w: "w < n" "scramble j n = Ok w" "EncodeIndex l j = Ok (g (unat w))" by blast
    then have "unat v = unat w"
      using eq unfolding g_def
      by (intro fill_radix_inj [OF assms(2) k]) (simp_all add: n [symmetric] word_less_nat_alt)
    then have "v = w" by (rule word_unat_eq_iff [THEN iffD2])
    then show "i = j" using v w scramble_range(2) [OF safe n0 ij] by simp
  qed
  let ?T = "{s. list_all2 (slot a) (lay_Pattern l) s}"
  have sub: "EncodeIndex l ` {i. i < n} \<subseteq> Ok ` ?T"
  proof
    fix y assume "y \<in> EncodeIndex l ` {i. i < n}"
    then obtain i where "i < n" and y: "y = EncodeIndex l i" by blast
    from ok [OF this(1)] obtain v where "y = Ok (g v)" using y by blast
    moreover have "list_all2 (slot a) (lay_Pattern l) (g v)" unfolding g_def
      by (rule fill_slots) (auto simp: k dest!: radix_less [OF pos])
    ultimately show "y \<in> Ok ` ?T" by blast
  qed
  have ct: "card ?T = unat n"
    using card_slots [OF Alphabet_distinct [OF assms(2)]] k n by simp
  then have "finite ?T" using n0 by (metis card.infinite unat_eq_0)
  moreover have "card (Ok ` ?T :: (gerr, string) res set) = card ?T"
    by (rule card_image) (simp add: inj_on_def)
  ultimately have "EncodeIndex l ` {i. i < n} = Ok ` ?T"
    using sub card_image [OF inj] card_words_below [of n] ct by (intro card_subset_eq) simp_all
  with inj show ?thesis by (simp add: bij_betw_def)
qed

theorem EncodeIndex_bijective_witness:
  "bij_betw (EncodeIndex \<lparr>lay_Characters = ''decimal'', lay_Pattern = ''*-*''\<rparr>) {i. i < 100}
     (Ok ` {s. list_all2 (slot ''0123456789'') ''*-*'' s})"
proof -
  let ?l = "\<lparr>lay_Characters = ''decimal'', lay_Pattern = ''*-*''\<rparr>"
  have a: "Alphabet (lay_Characters ?l) = Some ''0123456789''"
    by (simp add: Alphabet_def alphabets_def)
  have "spaceSize 10 2 = Ok (100 :: 64 word)"
    by (subst spaceSize_Ok) simp_all
  moreover have "Layout_parts ?l = Ok (''0123456789'', 2)"
    by (simp add: Layout_parts_Ok a [simplified])
  ultimately have "Space ?l = Ok 100" by (simp add: Space_def)
  from EncodeIndex_bijective [OF this a] show ?thesis by simp
qed

end
