(* ===== verification/Clock.thy ===== *)
theory Clock
  imports Prelude
begin

text \<open>
  What the program uses of Go's \<^verbatim>\<open>time\<close> package. An instant is the number of
  nanoseconds since the zero time, 1 January of year 1, 00:00:00 UTC; \<^verbatim>\<open>UTC()\<close> does not
  change the instant and is left out. \<open>rfc3339\<close> is \<^verbatim>\<open>Format(time.RFC3339)\<close> of an instant in
  UTC, which truncates to whole seconds.
\<close>

type_synonym time = int

definition time_IsZero :: "time \<Rightarrow> bool" where
  "time_IsZero t \<longleftrightarrow> t = 0"

definition time_After :: "time \<Rightarrow> time \<Rightarrow> bool" where
  "time_After t u \<longleftrightarrow> u < t"

definition digit :: "nat \<Rightarrow> char" where
  "digit n = ''0123456789'' ! (n mod 10)"

fun dec_digits :: "nat \<Rightarrow> string" where
  "dec_digits n = (if n < 10 then [digit n] else dec_digits (n div 10) @ [digit n])"

declare dec_digits.simps [simp del]

text \<open>Two digits, and a year padded to at least four.\<close>

definition pad2 :: "nat \<Rightarrow> string" where
  "pad2 n = [digit (n div 10), digit n]"

definition pad_year :: "nat \<Rightarrow> string" where
  "pad_year y =
     (if y < 10000 then pad2 (y div 100) @ pad2 (y mod 100) else dec_digits y)"

definition is_leap :: "nat \<Rightarrow> bool" where
  "is_leap y \<longleftrightarrow> y mod 4 = 0 \<and> (y mod 100 \<noteq> 0 \<or> y mod 400 = 0)"

text \<open>Year and zero-based day of the year from the day number of the Gregorian calendar.\<close>

definition civil_year :: "nat \<Rightarrow> nat \<times> nat" where
  "civil_year d =
     (let n400 = d div 146097; d1 = d mod 146097;
          n100 = min 3 (d1 div 36524); d2 = d1 - 36524 * n100;
          n4 = d2 div 1461; d3 = d2 mod 1461;
          n1 = min 3 (d3 div 365)
      in (400 * n400 + 100 * n100 + 4 * n4 + n1 + 1, d3 - 365 * n1))"

fun civil_month :: "nat \<Rightarrow> nat \<Rightarrow> nat list \<Rightarrow> nat \<times> nat" where
  "civil_month m d [] = (m, d + 1)"
| "civil_month m d (n # ns) = (if d < n then (m, d + 1) else civil_month (m + 1) (d - n) ns)"

definition month_lengths :: "nat \<Rightarrow> nat list" where
  "month_lengths y = [31, if is_leap y then 29 else 28, 31, 30, 31, 30, 31, 31, 30, 31, 30]"

definition rfc3339 :: "time \<Rightarrow> string" where
  "rfc3339 t =
     (let secs = nat (t div 1000000000); days = secs div 86400; s = secs mod 86400;
          (y, yd) = civil_year days; (m, d) = civil_month 1 yd (month_lengths y)
      in pad_year y @ ''-'' @ pad2 m @ ''-'' @ pad2 d @ ''T'' @
         pad2 (s div 3600) @ '':'' @ pad2 (s mod 3600 div 60) @ '':'' @ pad2 (s mod 60) @ ''Z'')"

lemmas rfc3339_eval =
  rfc3339_def pad_year_def pad2_def digit_def Let_def civil_year_def is_leap_def
  month_lengths_def

lemma rfc3339_second:
  assumes "t div 1000000000 = u div 1000000000"
  shows "rfc3339 t = rfc3339 u"
  using assms by (simp add: rfc3339_def)

end
