(* ===== verification/Api_Types.thy ===== *)
theory Api_Types
  imports Pid_Format Clock
begin

text \<open>
  The data types of the package \<^verbatim>\<open>api\<close> that are not about permissions: the validated
  identifiers with their constructors, requests with their \<^verbatim>\<open>Validate\<close> methods, and
  responses (\<^verbatim>\<open>namespaces.go\<close>, \<^verbatim>\<open>resources.go\<close>, \<^verbatim>\<open>mounts.go\<close>, \<^verbatim>\<open>user.go\<close>,
  \<^verbatim>\<open>roles.go\<close>).

  A validated type such as \<^verbatim>\<open>ValidPID\<close> is a pair of a flag and a string that only its
  constructor fills; it is modelled by its string, and a value that may still be the zero
  value (whose \<^verbatim>\<open>String\<close> method panics) by an option. A nil slice where the program tells it from
  an empty one is \<open>None\<close>.

  \<^verbatim>\<open>url.Parse\<close> and \<^verbatim>\<open>regexp.Compile\<close> are parameters: the first returns whether the URL is
  absolute, its fragment and its raw query, the second says whether a pattern compiles.
\<close>

section \<open>Identifiers\<close>

text \<open>A match of \<^verbatim>\<open>^[a-z0-9_-]+$\<close>, the expression of all four identifier checks.\<close>

definition id_match :: "string \<Rightarrow> bool" where
  "id_match s \<longleftrightarrow> s \<noteq> [] \<and> list_all (\<lambda>c. c \<in> set id_chars) s"

definition NewUsername :: "string \<Rightarrow> (gerr, string) res" where
  "NewUsername value =
     (if \<not> id_match value then Err (Sentinel (Named ''errInvalidUsername'')) else Ok value)"

definition NewAutocompleteQuery :: "string \<Rightarrow> (gerr, string) res" where
  "NewAutocompleteQuery value =
     (if \<not> id_match value then Err (Sentinel (Named ''errInvalidAutocompleteQuery'')) else Ok value)"

definition NewNamespaceID :: "string \<Rightarrow> (gerr, string) res" where
  "NewNamespaceID value =
     (if \<not> id_match value then Err (Sentinel ErrInvalidNamespaceID) else Ok value)"

definition NewPID :: "string \<Rightarrow> (gerr, string) res" where
  "NewPID value =
     (if \<not> id_match value then Err (Sentinel (Named ''errInvalidPID'')) else Ok value)"

definition NewPassword :: "string \<Rightarrow> (gerr, string) res" where
  "NewPassword value =
     (if value = [] then Err (Sentinel (Named ''errInvalidPassword'')) else Ok value)"

record parsed_url =
  url_IsAbs :: bool
  url_Fragment :: string
  url_RawQuery :: string

type_synonym url_parser = "string \<Rightarrow> (gerr, parsed_url) res"

definition NewBaseURI :: "url_parser \<Rightarrow> string \<Rightarrow> (gerr, string) res" where
  "NewBaseURI parse value =
     (case parse value of
        Err e \<Rightarrow> Err (Fmt [e])
      | Panic \<Rightarrow> Panic
      | Ok parsed \<Rightarrow>
          if \<not> url_IsAbs parsed then Err (Sentinel (Named ''errNotAbsoluteURI''))
          else if url_Fragment parsed \<noteq> [] then Err (Sentinel (Named ''errFragmentNotEmpty''))
          else if url_RawQuery parsed \<noteq> [] then Err (Sentinel (Named ''errRawQueryNotEmpty''))
          else Ok value)"

definition NewResourceURL :: "url_parser \<Rightarrow> string \<Rightarrow> (gerr, string) res" where
  "NewResourceURL parse value =
     (case parse value of
        Err e \<Rightarrow> Err (Fmt [e])
      | Panic \<Rightarrow> Panic
      | Ok parsed \<Rightarrow>
          if \<not> url_IsAbs parsed then Err (Sentinel (Named ''errNotAbsoluteURI''))
          else Ok value)"

text \<open>A mount grant keeps its compiled expression; it is modelled by the pattern.\<close>

definition NewMountGrantPattern :: "(string \<Rightarrow> gerr option) \<Rightarrow> string \<Rightarrow> (gerr, string) res" where
  "NewMountGrantPattern compile pattern =
     (case compile pattern of
        Some e \<Rightarrow> Err (Fmt [Sentinel (Named ''errInvalidMountGrantPattern''), e])
      | None \<Rightarrow> Ok pattern)"

section \<open>Roles (api/roles.go)\<close>

type_synonym Role = string

definition RoleNone :: Role where "RoleNone = ''none''"
definition RoleContributor :: Role where "RoleContributor = ''contributor''"
definition RoleEditor :: Role where "RoleEditor = ''editor''"
definition RoleManager :: Role where "RoleManager = ''manager''"

lemmas role_defs = RoleNone_def RoleContributor_def RoleEditor_def RoleManager_def

definition Role_Validate :: "Role \<Rightarrow> gerr option" where
  "Role_Validate role =
     (if role \<in> {RoleNone, RoleContributor, RoleEditor, RoleManager} then None
      else Some (Sentinel (Named ''errInvalidRole'')))"

definition role_rank :: "Role \<Rightarrow> int" where
  "role_rank role =
     (if role = RoleContributor then 1
      else if role = RoleEditor then 2
      else if role = RoleManager then 3
      else if role = RoleNone then 0
      else - 1)"

definition Role_LessThan :: "Role \<Rightarrow> Role \<Rightarrow> bool" where
  "Role_LessThan role other \<longleftrightarrow> role_rank role \<le> role_rank other"

record NamespaceRole =
  nrl_Username :: string
  nrl_Role :: Role

record UserRole =
  usr_Namespace :: string
  usr_Role :: Role

section \<open>Namespaces (api/namespaces.go)\<close>

record NamespaceCreateRequest =
  ncr_Tags :: "string list"
  ncr_PIDFormat :: pid_format

record NamespaceUpdateRequest =
  nur_Tags :: "string list option"

record NamespaceResponse =
  nr_ID :: string
  nr_Tags :: "string list"
  nr_PIDFormat :: pid_format
  nr_DateCreated :: time
  nr_DateUpdated :: time

record ListNamespacesParams =
  lnp_Tag :: "string option"
  lnp_Limit :: int
  lnp_Offset :: int

section \<open>Resources (api/resources.go)\<close>

record ResourceCreateRequest =
  rcr_URL :: "string option"
  rcr_Metadata :: "string option"
  rcr_Tags :: "string list"

text \<open>The three states of a double pointer: omitted, set to null, set to a value.\<close>

record ResourceUpdateRequest =
  rur_URL :: "string option option"
  rur_Metadata :: "string option option"
  rur_Tags :: "string list option"
  rur_Deleted :: "bool option"

record ResourceResponse =
  rr_PID :: string
  rr_URL :: "string option"
  rr_Metadata :: "string option"
  rr_DateCreated :: string
  rr_DateUpdated :: string
  rr_Tags :: "string list"
  rr_Deleted :: bool

record RedactedResourceResponse =
  rrr_PID :: string
  rrr_DateCreated :: string
  rrr_DateUpdated :: string

record ListResourcesParams =
  lrp_Tag :: "string option"
  lrp_Deleted :: "bool option"
  lrp_Limit :: int
  lrp_Offset :: int

definition ResourceCreateRequest_Validate ::
  "url_parser \<Rightarrow> ResourceCreateRequest \<Rightarrow> (gerr, ResourceCreateRequest) res" where
  "ResourceCreateRequest_Validate parse r =
     (case rcr_URL r of
        None \<Rightarrow> Ok r
      | Some u \<Rightarrow> bind_res (NewResourceURL parse u) (\<lambda>v. Ok (r\<lparr>rcr_URL := Some v\<rparr>)))"

definition ResourceUpdateRequest_Validate ::
  "url_parser \<Rightarrow> ResourceUpdateRequest \<Rightarrow> (gerr, ResourceUpdateRequest) res" where
  "ResourceUpdateRequest_Validate parse r =
     (case rur_URL r of
        None \<Rightarrow> Ok r
      | Some None \<Rightarrow> Ok r
      | Some (Some u) \<Rightarrow>
          bind_res (NewResourceURL parse u) (\<lambda>v. Ok (r\<lparr>rur_URL := Some (Some v)\<rparr>)))"

definition Redact :: "ResourceResponse \<Rightarrow> RedactedResourceResponse" where
  "Redact r = \<lparr>rrr_PID = rr_PID r, rrr_DateCreated = rr_DateCreated r,
     rrr_DateUpdated = rr_DateUpdated r\<rparr>"

section \<open>Mounts (api/mounts.go)\<close>

record MountResponse =
  mr_BaseURI :: string
  mr_Namespace :: string

definition MountUpsertRequest_Validate :: "string \<Rightarrow> (gerr, string) res" where
  "MountUpsertRequest_Validate namespace = NewNamespaceID namespace"

section \<open>Users (api/user.go)\<close>

record UserCreateRequest =
  ucr_Username :: string
  ucr_Superuser :: bool

record UserInfo =
  ui_Username :: string
  ui_Superuser :: bool
  ui_Password :: bool

record ListUsersParams =
  lup_Superuser :: "bool option"
  lup_Password :: "bool option"
  lup_Limit :: int
  lup_Offset :: int

definition UserCreateRequest_Validate :: "UserCreateRequest \<Rightarrow> (gerr, UserCreateRequest) res" where
  "UserCreateRequest_Validate r =
     bind_res (NewUsername (ucr_Username r)) (\<lambda>u. Ok (r\<lparr>ucr_Username := u\<rparr>))"

definition UserInfo_Validate :: "UserInfo \<Rightarrow> (gerr, UserInfo) res" where
  "UserInfo_Validate u = bind_res (NewUsername (ui_Username u)) (\<lambda>n. Ok (u\<lparr>ui_Username := n\<rparr>))"

section \<open>Lemmas\<close>

lemma New_id_Ok [simp]:
  "NewUsername s = Ok t \<longleftrightarrow> id_match s \<and> t = s"
  "NewNamespaceID s = Ok t \<longleftrightarrow> id_match s \<and> t = s"
  "NewPID s = Ok t \<longleftrightarrow> id_match s \<and> t = s"
  by (auto simp: NewUsername_def NewNamespaceID_def NewPID_def)

lemma New_id_no_panic [simp]:
  "NewUsername s \<noteq> Panic" "NewNamespaceID s \<noteq> Panic" "NewPID s \<noteq> Panic"
  "NewAutocompleteQuery s \<noteq> Panic" "NewPassword s \<noteq> Panic"
  by (simp_all add: NewUsername_def NewNamespaceID_def NewPID_def NewAutocompleteQuery_def
      NewPassword_def)

lemma role_rank_inj:
  "Role_Validate r = None \<Longrightarrow> Role_Validate s = None \<Longrightarrow> role_rank r = role_rank s \<Longrightarrow> r = s"
  by (auto simp: Role_Validate_def role_rank_def role_defs split: if_splits)

lemma slots_id_match:
  assumes "list_all2 (slot a) p s" and "set a \<subseteq> set id_chars" and "p \<noteq> []"
    and "set p \<subseteq> {CHR ''*'', CHR ''-'', CHR ''_''}"
  shows "id_match s"
proof -
  have sep: "CHR ''-'' \<in> set id_chars" "CHR ''_'' \<in> set id_chars"
    by (simp_all add: id_chars_def)
  have "c \<in> set id_chars" if "c \<in> set s" for c
  proof -
    from that obtain i where "i < length s" "c = s ! i" by (auto simp: in_set_conv_nth)
    then have "slot a (p ! i) c" and "p ! i \<in> set p"
      using assms(1) by (auto simp: list_all2_conv_all_nth)
    then show ?thesis
      using assms(2,4) sep by (auto simp: slot_def split: if_splits)
  qed
  then show ?thesis
    using assms(1,3) by (auto simp: id_match_def list_all_iff)
qed

text \<open>
  Whatever \<open>Generate\<close> returns for a format, whatever the random reader does, is valid for that format and passes the identifier
  check of the API unchanged.
\<close>

lemma Generate_accepted:
  assumes "Generate rd f r = (Ok s, r')"
  shows "IsValid f s \<and> NewPID s = Ok s"
proof
  show "IsValid f s" by (rule Generate_IsValid [OF assms])
  from Generate_slots [OF assms] obtain a where
    "Format_Validate f = None" and a: "Alphabet (fmt_Characters f) = Some a"
    and "list_all2 (slot a) (fmt_Pattern f) s" by blast
  moreover from this have "fmt_Pattern f \<noteq> []"
    by (auto simp: Format_Validate_None)
  ultimately show "NewPID s = Ok s"
    using slots_id_match [of a "fmt_Pattern f" s] Alphabet_id_chars [OF a]
    by (auto simp: Format_Validate_None)
qed

end
