(* ===== verification/Scopes.thy ===== *)
theory Scopes
  imports Api_Types
begin

text \<open>
  Permissions: the scope tables (\<^verbatim>\<open>api/scopes_user.go\<close>, \<^verbatim>\<open>api/scopes_namespace.go\<close>), API
  keys and what they grant (\<^verbatim>\<open>api/credentials.go\<close>), callers and authentication methods
  (\<^verbatim>\<open>api/caller.go\<close>) and the four evaluation functions of \<^verbatim>\<open>api/scopes.go\<close>.

  A scope is a string, as in the source: requests carry arbitrary scope names. The
  \<^verbatim>\<open>Description\<close> field of the definitions is text for the documentation endpoint and is left out.
  The lazily built scope indexes of a key depend on fields that never change after the key is
  made; the model builds them at each use.
\<close>

section \<open>Scope names\<close>

type_synonym UserScope = string
type_synonym NamespaceScope = string

definition ScopeListNamespaces :: UserScope where "ScopeListNamespaces = ''listNamespaces''"
definition ScopeCreateNamespace :: UserScope where "ScopeCreateNamespace = ''createNamespace''"
definition ScopeCountAllResources :: UserScope where "ScopeCountAllResources = ''countAllResources''"
definition ScopeListMounts :: UserScope where "ScopeListMounts = ''listMounts''"
definition ScopeResolveMountByBaseUri :: UserScope where "ScopeResolveMountByBaseUri = ''resolveMountResource''"
definition ScopeSetMount :: UserScope where "ScopeSetMount = ''setMount''"
definition ScopeDeleteMount :: UserScope where "ScopeDeleteMount = ''deleteMount''"
definition ScopeGetMount :: UserScope where "ScopeGetMount = ''getMount''"
definition ScopeSetMountGrant :: UserScope where "ScopeSetMountGrant = ''setMountGrant''"
definition ScopeDeleteMountGrant :: UserScope where "ScopeDeleteMountGrant = ''deleteMountGrant''"
definition ScopeGetUserInfo :: UserScope where "ScopeGetUserInfo = ''getUserInfo''"
definition ScopeUpdateUser :: UserScope where "ScopeUpdateUser = ''updateUser''"
definition ScopeCreateUser :: UserScope where "ScopeCreateUser = ''createUser''"
definition ScopeDeleteUser :: UserScope where "ScopeDeleteUser = ''deleteUser''"
definition ScopeAutocompleteUsers :: UserScope where "ScopeAutocompleteUsers = ''autocompleteUsers''"
definition ScopeListUsers :: UserScope where "ScopeListUsers = ''listUsers''"
definition ScopeGetUserRoles :: UserScope where "ScopeGetUserRoles = ''listUserRoles''"
definition ScopeListOwnMountGrants :: UserScope where "ScopeListOwnMountGrants = ''listOwnMountGrants''"
definition ScopeListUserKeys :: UserScope where "ScopeListUserKeys = ''listOwnKeys''"
definition ScopeIssueUserKey :: UserScope where "ScopeIssueUserKey = ''issueKey''"
definition ScopeSetUserPassword :: UserScope where "ScopeSetUserPassword = ''setPassword''"
definition ScopeRevokeUserKey :: UserScope where "ScopeRevokeUserKey = ''revokeKey''"
definition ScopeImpersonate :: UserScope where "ScopeImpersonate = ''impersonate''"

definition ScopeGetNamespace :: NamespaceScope where "ScopeGetNamespace = ''getNamespace''"
definition ScopeUpdateNamespace :: NamespaceScope where "ScopeUpdateNamespace = ''updateNamespace''"
definition ScopeListNamespaceMounts :: NamespaceScope where "ScopeListNamespaceMounts = ''listNamespaceMounts''"
definition ScopeListNamespaceRoles :: NamespaceScope where "ScopeListNamespaceRoles = ''listNamespaceRoles''"
definition ScopeGetNamespaceRoleSelf :: NamespaceScope where "ScopeGetNamespaceRoleSelf = ''getNamespaceRoleSelf''"
definition ScopeGetNamespaceRoleOther :: NamespaceScope where "ScopeGetNamespaceRoleOther = ''getNamespaceRoleOther''"
definition ScopeSetNamespaceRoleSelf :: NamespaceScope where "ScopeSetNamespaceRoleSelf = ''setNamespaceRoleSelf''"
definition ScopeSetNamespaceRoleOther :: NamespaceScope where "ScopeSetNamespaceRoleOther = ''setNamespaceRoleOther''"
definition ScopeRemoveNamespaceRoleSelf :: NamespaceScope where "ScopeRemoveNamespaceRoleSelf = ''removeNamespaceRoleSelf''"
definition ScopeRemoveNamespaceRoleOther :: NamespaceScope where "ScopeRemoveNamespaceRoleOther = ''removeNamespaceRoleOther''"
definition ScopeListResources :: NamespaceScope where "ScopeListResources = ''listResources''"
definition ScopeCreateResource :: NamespaceScope where "ScopeCreateResource = ''createResource''"
definition ScopeCreateResourceBatch :: NamespaceScope where "ScopeCreateResourceBatch = ''createResourceBatch''"
definition ScopeGetResource :: NamespaceScope where "ScopeGetResource = ''getResource''"
definition ScopeUpdateResource :: NamespaceScope where "ScopeUpdateResource = ''updateResource''"
definition ScopeSeeDeletedResource :: NamespaceScope where "ScopeSeeDeletedResource = ''seeDeletedResource''"
definition ScopeSeeInNamespaceList :: NamespaceScope where "ScopeSeeInNamespaceList = ''seeInNamespaceList''"

lemmas user_scope_names =
  ScopeListNamespaces_def ScopeCreateNamespace_def ScopeCountAllResources_def
  ScopeListMounts_def ScopeResolveMountByBaseUri_def ScopeSetMount_def ScopeDeleteMount_def
  ScopeGetMount_def ScopeSetMountGrant_def ScopeDeleteMountGrant_def ScopeGetUserInfo_def
  ScopeUpdateUser_def ScopeCreateUser_def ScopeDeleteUser_def ScopeAutocompleteUsers_def
  ScopeListUsers_def ScopeGetUserRoles_def ScopeListOwnMountGrants_def ScopeListUserKeys_def
  ScopeIssueUserKey_def ScopeSetUserPassword_def ScopeRevokeUserKey_def ScopeImpersonate_def

lemmas namespace_scope_names =
  ScopeGetNamespace_def ScopeUpdateNamespace_def ScopeListNamespaceMounts_def
  ScopeListNamespaceRoles_def ScopeGetNamespaceRoleSelf_def ScopeGetNamespaceRoleOther_def
  ScopeSetNamespaceRoleSelf_def ScopeSetNamespaceRoleOther_def
  ScopeRemoveNamespaceRoleSelf_def ScopeRemoveNamespaceRoleOther_def ScopeListResources_def
  ScopeCreateResource_def ScopeCreateResourceBatch_def ScopeGetResource_def
  ScopeUpdateResource_def ScopeSeeDeletedResource_def ScopeSeeInNamespaceList_def

section \<open>Scope definitions\<close>

record UserScopeDefinition =
  usd_Scope :: UserScope
  usd_AnonymousMode :: bool
  usd_AllowUnauthenticated :: bool
  usd_RequireSuperuser :: bool

record NamespaceScopeDefinition =
  nsd_Scope :: NamespaceScope
  nsd_AnonymousMode :: bool
  nsd_AllowUnauthenticated :: bool
  nsd_MinRole :: Role
  nsd_RequireSuperuser :: bool

definition user_def :: "UserScope \<Rightarrow> bool \<Rightarrow> bool \<Rightarrow> bool \<Rightarrow> UserScope \<times> UserScopeDefinition" where
  "user_def s am au su =
     (s, \<lparr>usd_Scope = s, usd_AnonymousMode = am, usd_AllowUnauthenticated = au,
          usd_RequireSuperuser = su\<rparr>)"

definition namespace_def ::
  "NamespaceScope \<Rightarrow> bool \<Rightarrow> bool \<Rightarrow> Role \<Rightarrow> bool \<Rightarrow> NamespaceScope \<times> NamespaceScopeDefinition" where
  "namespace_def s am au mr su =
     (s, \<lparr>nsd_Scope = s, nsd_AnonymousMode = am, nsd_AllowUnauthenticated = au,
          nsd_MinRole = mr, nsd_RequireSuperuser = su\<rparr>)"

text \<open>Columns: scope, anonymous mode, allow unauthenticated, require superuser.\<close>

definition userDefs :: "(UserScope \<times> UserScopeDefinition) list" where
  "userDefs =
     [user_def ScopeListNamespaces True False False,
      user_def ScopeCreateNamespace True False False,
      user_def ScopeCountAllResources True True False,
      user_def ScopeListMounts True False False,
      user_def ScopeResolveMountByBaseUri True True False,
      user_def ScopeSetMount True False False,
      user_def ScopeDeleteMount True False False,
      user_def ScopeGetMount True True False,
      user_def ScopeSetMountGrant False False True,
      user_def ScopeDeleteMountGrant False False True,
      user_def ScopeGetUserInfo False False False,
      user_def ScopeUpdateUser False False True,
      user_def ScopeCreateUser False False True,
      user_def ScopeDeleteUser False False True,
      user_def ScopeAutocompleteUsers False False False,
      user_def ScopeListUsers False False True,
      user_def ScopeGetUserRoles False False False,
      user_def ScopeListOwnMountGrants False False False,
      user_def ScopeListUserKeys False False False,
      user_def ScopeIssueUserKey False False False,
      user_def ScopeSetUserPassword False False False,
      user_def ScopeRevokeUserKey False False False,
      user_def ScopeImpersonate False False True]"

text \<open>Columns: scope, anonymous mode, allow unauthenticated, minimal role, require superuser.\<close>

definition namespaceDefs :: "(NamespaceScope \<times> NamespaceScopeDefinition) list" where
  "namespaceDefs =
     [namespace_def ScopeGetNamespace True True RoleNone False,
      namespace_def ScopeUpdateNamespace True False RoleManager False,
      namespace_def ScopeListNamespaceMounts True False RoleContributor False,
      namespace_def ScopeListNamespaceRoles False False RoleManager False,
      namespace_def ScopeGetNamespaceRoleSelf False False RoleNone False,
      namespace_def ScopeGetNamespaceRoleOther False False RoleManager False,
      namespace_def ScopeSetNamespaceRoleSelf False False RoleNone True,
      namespace_def ScopeSetNamespaceRoleOther False False RoleManager False,
      namespace_def ScopeRemoveNamespaceRoleSelf False False RoleNone True,
      namespace_def ScopeRemoveNamespaceRoleOther False False RoleManager False,
      namespace_def ScopeListResources True False RoleEditor False,
      namespace_def ScopeCreateResource True False RoleContributor False,
      namespace_def ScopeCreateResourceBatch True False RoleContributor False,
      namespace_def ScopeGetResource True True RoleNone False,
      namespace_def ScopeUpdateResource True False RoleEditor False,
      namespace_def ScopeSeeDeletedResource True False RoleEditor False,
      namespace_def ScopeSeeInNamespaceList True False RoleContributor False]"

definition UserScope_Definition :: "UserScope \<Rightarrow> (gerr, UserScopeDefinition) res" where
  "UserScope_Definition scope =
     (case map_of userDefs scope of
        None \<Rightarrow> Err (Sentinel (Named ''errUnknownUserScope''))
      | Some def \<Rightarrow> Ok def)"

definition NamespaceScope_Definition :: "NamespaceScope \<Rightarrow> (gerr, NamespaceScopeDefinition) res" where
  "NamespaceScope_Definition scope =
     (case map_of namespaceDefs scope of
        None \<Rightarrow> Err (Sentinel (Named ''errUnknownNamespaceScope''))
      | Some action \<Rightarrow> Ok action)"

definition GetUserScopes :: "UserScope list" where
  "GetUserScopes = sort (map (usd_Scope \<circ> snd) userDefs)"

definition GetNamespaceScopes :: "NamespaceScope list" where
  "GetNamespaceScopes = sort (map (nsd_Scope \<circ> snd) namespaceDefs)"

section \<open>API keys (api/credentials.go)\<close>

record APIKeyNamespaceScope =
  kns_Namespace :: string
  kns_Scope :: NamespaceScope

record APIKeyInfo =
  key_ID :: string
  key_Comment :: string
  key_CreatedAt :: time
  key_ExpiresAt :: "time option"
  key_UserScopes :: "UserScope list"
  key_NamespaceScopes :: "APIKeyNamespaceScope list"

text \<open>A scope index: the flag \<open>all\<close> and the set of items (the keys of a Go map).\<close>

type_synonym 'k scopeIndex = "bool \<times> 'k list"

definition newScopeIndex :: "'k list \<Rightarrow> bool \<Rightarrow> 'k scopeIndex" where
  "newScopeIndex items emptyIsAll =
     (if items = [] then (emptyIsAll, [])
      else (False, foldl (\<lambda>set item. List.insert item set) [] items))"

definition scopeIndex_has :: "'k scopeIndex \<Rightarrow> 'k \<Rightarrow> bool" where
  "scopeIndex_has s k \<longleftrightarrow> (if fst s then True else k \<in> set (snd s))"

definition HasUserScope :: "APIKeyInfo \<Rightarrow> UserScope \<Rightarrow> bool" where
  "HasUserScope k scope =
     scopeIndex_has (newScopeIndex (key_UserScopes k) (length (key_NamespaceScopes k) = 0)) scope"

definition HasNamespaceScope :: "APIKeyInfo \<Rightarrow> APIKeyNamespaceScope \<Rightarrow> bool" where
  "HasNamespaceScope k scope =
     scopeIndex_has (newScopeIndex (key_NamespaceScopes k) (length (key_UserScopes k) = 0)) scope"

definition APIKeyInfo_Valid :: "APIKeyInfo \<Rightarrow> time \<Rightarrow> bool" where
  "APIKeyInfo_Valid k now \<longleftrightarrow>
     (case key_ExpiresAt k of
        None \<Rightarrow> True
      | Some t \<Rightarrow> \<not> time_IsZero t \<and> time_After t now)"

record KeyIssueRequest =
  kir_Comment :: string
  kir_ExpiresAt :: "time option"
  kir_UserScopes :: "UserScope list"
  kir_NamespaceScopes :: "APIKeyNamespaceScope list"

fun validate_user_scopes :: "UserScope list \<Rightarrow> gerr option" where
  "validate_user_scopes [] = None"
| "validate_user_scopes (scope # rest) =
     (case UserScope_Definition scope of
        Ok _ \<Rightarrow> validate_user_scopes rest
      | _ \<Rightarrow> Some (Fmt [Sentinel ErrUnknownScope]))"

fun validate_namespace_scopes :: "APIKeyNamespaceScope list \<Rightarrow> gerr option" where
  "validate_namespace_scopes [] = None"
| "validate_namespace_scopes (grant # rest) =
     (case NewNamespaceID (kns_Namespace grant) of
        Err e \<Rightarrow> Some e
      | _ \<Rightarrow>
        (case NamespaceScope_Definition (kns_Scope grant) of
           Ok _ \<Rightarrow> validate_namespace_scopes rest
         | _ \<Rightarrow> Some (Fmt [Sentinel ErrUnknownScope])))"

definition KeyIssueRequest_Validate :: "KeyIssueRequest \<Rightarrow> gerr option" where
  "KeyIssueRequest_Validate r =
     (case validate_user_scopes (kir_UserScopes r) of
        Some e \<Rightarrow> Some e
      | None \<Rightarrow> validate_namespace_scopes (kir_NamespaceScopes r))"

section \<open>Callers (api/caller.go)\<close>

datatype AuthenticationMethod =
    NoAuthentication
  | Impersonation string AuthenticationMethod
  | BasicAuthentication
  | TokenAuthentication "APIKeyInfo option"

record caller =
  cl_username :: string
  cl_superuser :: bool
  cl_password :: bool
  cl_method :: "AuthenticationMethod option"

text \<open>A \<^verbatim>\<open>*Caller\<close> is an option; its methods accept the nil pointer.\<close>

definition UserInfo_Caller :: "UserInfo \<Rightarrow> AuthenticationMethod \<Rightarrow> caller" where
  "UserInfo_Caller u method =
     \<lparr>cl_username = ui_Username u, cl_superuser = ui_Superuser u, cl_password = ui_Password u,
      cl_method = Some method\<rparr>"

definition Caller_Method :: "caller option \<Rightarrow> AuthenticationMethod" where
  "Caller_Method c =
     (case c of
        None \<Rightarrow> NoAuthentication
      | Some c \<Rightarrow> (case cl_method c of None \<Rightarrow> NoAuthentication | Some m \<Rightarrow> m))"

definition Caller_Username :: "caller option \<Rightarrow> string option" where
  "Caller_Username c = (case c of None \<Rightarrow> None | Some c \<Rightarrow> Some (cl_username c))"

definition Caller_Superuser :: "caller option \<Rightarrow> bool" where
  "Caller_Superuser c = (case c of None \<Rightarrow> False | Some c \<Rightarrow> cl_superuser c)"

definition Caller_PlainInfo :: "caller \<Rightarrow> UserInfo" where
  "Caller_PlainInfo c =
     \<lparr>ui_Username = cl_username c, ui_Superuser = cl_superuser c, ui_Password = cl_password c\<rparr>"

fun AllowsUserScope :: "AuthenticationMethod \<Rightarrow> UserScope \<Rightarrow> gerr option" where
  "AllowsUserScope NoAuthentication scope = None"
| "AllowsUserScope (Impersonation _ _) scope = None"
| "AllowsUserScope BasicAuthentication scope = None"
| "AllowsUserScope (TokenAuthentication None) scope = None"
| "AllowsUserScope (TokenAuthentication (Some t)) scope =
     (if \<not> HasUserScope t scope then Some (Sentinel (Named ''errScopeNotGranted'')) else None)"

fun AllowsNamespaceScope :: "AuthenticationMethod \<Rightarrow> string \<Rightarrow> NamespaceScope \<Rightarrow> gerr option" where
  "AllowsNamespaceScope NoAuthentication namespace scope = None"
| "AllowsNamespaceScope (Impersonation _ _) namespace scope = None"
| "AllowsNamespaceScope BasicAuthentication namespace scope = None"
| "AllowsNamespaceScope (TokenAuthentication None) namespace scope = None"
| "AllowsNamespaceScope (TokenAuthentication (Some t)) namespace scope =
     (if \<not> HasNamespaceScope t \<lparr>kns_Namespace = namespace, kns_Scope = scope\<rparr>
      then Some (Sentinel (Named ''errScopeNotGranted'')) else None)"

section \<open>Evaluation (api/scopes.go)\<close>

definition errAnonymousMode :: gerr where
  "errAnonymousMode = WithErrorCode (Sentinel (Named ''unavailable in anonymous mode'')) UnavailableInAnonymousMode"

definition errRequireUser :: gerr where
  "errRequireUser = WithErrorCode (Sentinel (Named ''requires an authenticated user'')) Unauthorized"

definition errRequireSuperuser :: gerr where
  "errRequireSuperuser = WithErrorCode (Sentinel (Named ''requires a superuser'')) Forbidden"

definition errRequireHigherRole :: gerr where
  "errRequireHigherRole = WithErrorCode (Sentinel (Named ''requires a higher role'')) Forbidden"

definition EvaluateAnonymousModeUserScope :: "UserScope \<Rightarrow> gerr option" where
  "EvaluateAnonymousModeUserScope scope =
     (case UserScope_Definition scope of
        Err e \<Rightarrow> Some (WithErrorCode e UnavailableInAnonymousMode)
      | Panic \<Rightarrow> None
      | Ok definition \<Rightarrow> if usd_AnonymousMode definition then None else Some errAnonymousMode)"

definition EvaluateUserScope :: "caller option \<Rightarrow> UserScope \<Rightarrow> gerr option" where
  "EvaluateUserScope caller scope =
     (case UserScope_Definition scope of
        Err e \<Rightarrow> Some (WithErrorCode e Unauthorized)
      | Panic \<Rightarrow> None
      | Ok definition \<Rightarrow>
          (case AllowsUserScope (Caller_Method caller) scope of
             Some e \<Rightarrow> Some (WithErrorCode (Fmt [e]) Unauthorized)
           | None \<Rightarrow>
               if caller = None
               then (if usd_AllowUnauthenticated definition then None else Some errRequireUser)
               else if \<not> Caller_Superuser caller
               then (if \<not> usd_RequireSuperuser definition then None else Some errRequireSuperuser)
               else None))"

definition EvaluateAnonymousModeNamespaceScope :: "string \<Rightarrow> NamespaceScope \<Rightarrow> gerr option" where
  "EvaluateAnonymousModeNamespaceScope namespace scope =
     (case NamespaceScope_Definition scope of
        Err e \<Rightarrow> Some (WithErrorCode e UnavailableInAnonymousMode)
      | Panic \<Rightarrow> None
      | Ok definition \<Rightarrow> if nsd_AnonymousMode definition then None else Some errAnonymousMode)"

definition EvaluateNamespaceScope ::
  "string \<Rightarrow> Role \<Rightarrow> caller option \<Rightarrow> NamespaceScope \<Rightarrow> gerr option" where
  "EvaluateNamespaceScope namespace explicitRole caller scope =
     (case NamespaceScope_Definition scope of
        Err e \<Rightarrow> Some (WithErrorCode e Unauthorized)
      | Panic \<Rightarrow> None
      | Ok action \<Rightarrow>
          (case AllowsNamespaceScope (Caller_Method caller) namespace scope of
             Some e \<Rightarrow> Some (WithErrorCode (Fmt [e]) Unauthorized)
           | None \<Rightarrow>
               if caller = None
               then (if nsd_AllowUnauthenticated action then None else Some errRequireUser)
               else if Caller_Superuser caller then None
               else if nsd_RequireSuperuser action then Some errRequireSuperuser
               else if Role_LessThan (nsd_MinRole action) explicitRole then None
               else Some (Fmt [errRequireHigherRole])))"

lemma Definition_no_panic [simp]:
  "UserScope_Definition s \<noteq> Panic" "NamespaceScope_Definition s \<noteq> Panic"
  by (simp_all add: UserScope_Definition_def NamespaceScope_Definition_def split: option.splits)

section \<open>Lemmas on the tables\<close>

text \<open>
  The functions that build the tables panic on a scope that is defined twice; none is.
\<close>

lemma userDefs_distinct: "distinct (map fst userDefs)"
  by (simp add: userDefs_def user_def_def user_scope_names)

lemma namespaceDefs_distinct: "distinct (map fst namespaceDefs)"
  by (simp add: namespaceDefs_def namespace_def_def namespace_scope_names)

lemma UserScope_Definition_Ok: "UserScope_Definition s = Ok d \<longleftrightarrow> (s, d) \<in> set userDefs"
  using userDefs_distinct [THEN map_of_eq_Some_iff, of s d]
  by (auto simp: UserScope_Definition_def split: option.splits)

lemma NamespaceScope_Definition_Ok:
  "NamespaceScope_Definition s = Ok d \<longleftrightarrow> (s, d) \<in> set namespaceDefs"
  using namespaceDefs_distinct [THEN map_of_eq_Some_iff, of s d]
  by (auto simp: NamespaceScope_Definition_def split: option.splits)

lemma ex_entry:
  "(\<exists>d. (s, d) \<in> set defs \<and> A \<and> P d) \<longleftrightarrow> A \<and> s \<in> set (map fst (filter (P \<circ> snd) defs))"
  by force

lemma role_rank_simps [simp]:
  "role_rank RoleNone = 0" "role_rank RoleContributor = 1" "role_rank RoleEditor = 2"
  "role_rank RoleManager = 3"
  by (simp_all add: role_rank_def role_defs)

lemma set_GetNamespaceScopes: "set GetNamespaceScopes = set (map fst namespaceDefs)"
proof -
  have "map (nsd_Scope \<circ> snd) namespaceDefs = map fst namespaceDefs"
    by (simp add: namespaceDefs_def namespace_def_def)
  then show ?thesis unfolding GetNamespaceScopes_def by (simp only: set_sort)
qed

lemma manager_scopes:
  "map fst (filter (\<lambda>e. \<not> nsd_RequireSuperuser (snd e) \<and> Role_LessThan (nsd_MinRole (snd e)) RoleManager) namespaceDefs) =
   filter (\<lambda>n. n \<notin> {ScopeSetNamespaceRoleSelf, ScopeRemoveNamespaceRoleSelf}) (map fst namespaceDefs)"
  by (simp add: namespaceDefs_def namespace_def_def Role_LessThan_def namespace_scope_names)

lemma EvaluateUserScope_None:
  "EvaluateUserScope c s = None \<longleftrightarrow>
     (\<exists>d. (s, d) \<in> set userDefs \<and> AllowsUserScope (Caller_Method c) s = None \<and>
        (case c of None \<Rightarrow> usd_AllowUnauthenticated d
         | Some c \<Rightarrow> cl_superuser c \<or> \<not> usd_RequireSuperuser d))"
  unfolding UserScope_Definition_Ok [symmetric]
  by (cases "UserScope_Definition s")
    (auto simp: EvaluateUserScope_def Caller_Superuser_def split: option.splits if_splits)

lemma EvaluateNamespaceScope_None:
  "EvaluateNamespaceScope ns role c s = None \<longleftrightarrow>
     (\<exists>d. (s, d) \<in> set namespaceDefs \<and> AllowsNamespaceScope (Caller_Method c) ns s = None \<and>
        (case c of None \<Rightarrow> nsd_AllowUnauthenticated d
         | Some c \<Rightarrow> cl_superuser c \<or>
             \<not> nsd_RequireSuperuser d \<and> Role_LessThan (nsd_MinRole d) role))"
  unfolding NamespaceScope_Definition_Ok [symmetric]
  by (cases "NamespaceScope_Definition s")
    (auto simp: EvaluateNamespaceScope_def Caller_Superuser_def split: option.splits if_splits)

lemma Evaluate_error_codes:
  "EvaluateUserScope c s = Some e \<Longrightarrow> GetErrorCode e \<in> {Some Unauthorized, Some Forbidden}"
  "EvaluateNamespaceScope ns role c n = Some e \<Longrightarrow>
     GetErrorCode e \<in> {Some Unauthorized, Some Forbidden}"
  by (auto simp: EvaluateUserScope_def EvaluateNamespaceScope_def errRequireUser_def
      errRequireSuperuser_def errRequireHigherRole_def
      split: res.splits option.splits if_splits)

lemma set_newScopeIndex:
  "set (foldl (\<lambda>set item. List.insert item set) acc items) = set acc \<union> set items"
  by (induction items arbitrary: acc) auto

lemma scopeIndex_has_new:
  "scopeIndex_has (newScopeIndex items e) x \<longleftrightarrow> (items = [] \<and> e) \<or> x \<in> set items"
  by (auto simp: scopeIndex_has_def newScopeIndex_def set_newScopeIndex)

lemma HasUserScope_iff:
  "HasUserScope k s \<longleftrightarrow>
     (key_UserScopes k = [] \<and> key_NamespaceScopes k = []) \<or> s \<in> set (key_UserScopes k)"
  by (simp add: HasUserScope_def scopeIndex_has_new)

lemma HasNamespaceScope_iff:
  "HasNamespaceScope k g \<longleftrightarrow>
     (key_UserScopes k = [] \<and> key_NamespaceScopes k = []) \<or> g \<in> set (key_NamespaceScopes k)"
  by (auto simp: HasNamespaceScope_def scopeIndex_has_new)

lemma Caller_Method_Some:
  "Caller_Method (Some (c\<lparr>cl_method := Some m\<rparr>)) = m" "Caller_Method (Some (c\<lparr>cl_method := None\<rparr>)) = NoAuthentication"
  by (simp_all add: Caller_Method_def)

lemma Role_LessThan_trans: "Role_LessThan a b \<Longrightarrow> Role_LessThan b c \<Longrightarrow> Role_LessThan a c"
  by (simp add: Role_LessThan_def)

section \<open>Properties\<close>

text \<open>
  What is open to the world. Without authentication (no caller), exactly three user scopes
  (counting resources, resolving a mount, resolving a mounted resource) and exactly two namespace
  scopes (reading a namespace, reading a resource) are granted, in every namespace; every
  other scope name, known or not, is refused with code Unauthorized.
\<close>

lemma unauthenticated_scopes:
  "(EvaluateUserScope None s = None \<longleftrightarrow>
      s \<in> {ScopeCountAllResources, ScopeResolveMountByBaseUri, ScopeGetMount}) \<and>
   (EvaluateNamespaceScope ns role None n = None \<longleftrightarrow> n \<in> {ScopeGetNamespace, ScopeGetResource}) \<and>
   (\<forall>e. EvaluateUserScope None s = Some e \<longrightarrow> GetErrorCode e = Some Unauthorized) \<and>
   (\<forall>e. EvaluateNamespaceScope ns role None n = Some e \<longrightarrow> GetErrorCode e = Some Unauthorized)"
proof (intro conjI allI impI)
  show "EvaluateUserScope None s = None \<longleftrightarrow>
      s \<in> {ScopeCountAllResources, ScopeResolveMountByBaseUri, ScopeGetMount}"
    unfolding EvaluateUserScope_None ex_entry
    by (simp add: userDefs_def user_def_def Caller_Method_def)
  show "EvaluateNamespaceScope ns role None n = None \<longleftrightarrow> n \<in> {ScopeGetNamespace, ScopeGetResource}"
    unfolding EvaluateNamespaceScope_None ex_entry
    by (simp add: namespaceDefs_def namespace_def_def Caller_Method_def)
qed (auto simp: EvaluateUserScope_def EvaluateNamespaceScope_def errRequireUser_def
    split: res.splits option.splits if_splits)

text \<open>
  C16. API keys only restrict. Whatever a caller who presents an API key may do, in a namespace or
  outside, the same user may do with their password: a token never grants a scope.
\<close>

theorem token_never_grants:
  assumes "cl_method c = Some (TokenAuthentication t)"
  shows "(EvaluateUserScope (Some c) s = None \<longrightarrow>
      EvaluateUserScope (Some (c\<lparr>cl_method := Some BasicAuthentication\<rparr>)) s = None) \<and>
    (EvaluateNamespaceScope ns role (Some c) n = None \<longrightarrow>
      EvaluateNamespaceScope ns role (Some (c\<lparr>cl_method := Some BasicAuthentication\<rparr>)) n = None)"
  by (auto simp: EvaluateUserScope_None EvaluateNamespaceScope_None Caller_Method_Some)

theorem token_never_grants_witness:
  "EvaluateNamespaceScope ''ns'' RoleEditor
     (Some \<lparr>cl_username = ''u'', cl_superuser = False, cl_password = True,
        cl_method = Some BasicAuthentication\<rparr>) ScopeUpdateResource = None"
proof -
  let ?k = "\<lparr>key_ID = ''i'', key_Comment = [], key_CreatedAt = 1, key_ExpiresAt = None,
    key_UserScopes = [], key_NamespaceScopes = [\<lparr>kns_Namespace = ''ns'', kns_Scope = ScopeUpdateResource\<rparr>]\<rparr>"
  let ?c = "\<lparr>cl_username = ''u'', cl_superuser = False, cl_password = True,
    cl_method = Some (TokenAuthentication (Some ?k))\<rparr>"
  have "EvaluateNamespaceScope ''ns'' RoleEditor (Some ?c) ScopeUpdateResource = None"
    unfolding EvaluateNamespaceScope_None
    by (rule exI [of _ "\<lparr>nsd_Scope = ScopeUpdateResource, nsd_AnonymousMode = True,
        nsd_AllowUnauthenticated = False, nsd_MinRole = RoleEditor, nsd_RequireSuperuser = False\<rparr>"])
      (simp add: namespaceDefs_def namespace_def_def Caller_Method_def HasNamespaceScope_iff
        Role_LessThan_def)
  then show ?thesis
    using token_never_grants [of ?c "Some ?k" ScopeListUsers "''ns''" RoleEditor ScopeUpdateResource] by simp
qed

text \<open>
  More privileges never take a right away. If a user with some role may use a namespace scope,
  then so may the user with any role that is at least as high, and so may a superuser who
  authenticated in the same way.
\<close>

lemma scope_monotone:
  assumes "EvaluateNamespaceScope ns role (Some c) n = None" and "Role_LessThan role role'"
  shows "EvaluateNamespaceScope ns role' (Some (c\<lparr>cl_superuser := su \<or> cl_superuser c\<rparr>)) n = None"
  using assms unfolding EvaluateNamespaceScope_None
  by (auto simp: Caller_Method_def intro: Role_LessThan_trans)

text \<open>
  A user without a role has read access only. An authenticated user who is neither a superuser nor
  holds a role in the namespace is granted exactly three scopes there: reading the namespace,
  reading a resource and reading the own role; a manager is granted every namespace scope
  except changing or removing the own role, which only a superuser may do.
\<close>

lemma role_boundaries:
  assumes "\<not> cl_superuser c" and "cl_method c = Some BasicAuthentication"
  shows "(EvaluateNamespaceScope ns RoleNone (Some c) n = None \<longleftrightarrow>
      n \<in> {ScopeGetNamespace, ScopeGetResource, ScopeGetNamespaceRoleSelf}) \<and>
    (EvaluateNamespaceScope ns RoleManager (Some c) n = None \<longleftrightarrow>
      n \<in> set GetNamespaceScopes - {ScopeSetNamespaceRoleSelf, ScopeRemoveNamespaceRoleSelf})"
proof
  have m: "AllowsNamespaceScope (Caller_Method (Some c)) ns n = None"
    using assms by (simp add: Caller_Method_def)
  show "EvaluateNamespaceScope ns RoleNone (Some c) n = None \<longleftrightarrow>
      n \<in> {ScopeGetNamespace, ScopeGetResource, ScopeGetNamespaceRoleSelf}"
    unfolding EvaluateNamespaceScope_None ex_entry using assms m
    by (auto simp: namespaceDefs_def namespace_def_def Role_LessThan_def)
  show "EvaluateNamespaceScope ns RoleManager (Some c) n = None \<longleftrightarrow>
      n \<in> set GetNamespaceScopes - {ScopeSetNamespaceRoleSelf, ScopeRemoveNamespaceRoleSelf}"
    unfolding EvaluateNamespaceScope_None ex_entry using assms(1) m manager_scopes
    by (simp add: set_GetNamespaceScopes comp_def)
qed

end
