(* ===== verification/Credentials.thy ===== *)
theory Credentials
  imports Scopes
begin

text \<open>
  The package \<^verbatim>\<open>server/internal/credentials\<close>: what an \<^verbatim>\<open>Authorization\<close> header says. A Go string is a list of
  bytes; \<^verbatim>\<open>[]rune\<close> conversion, \<^verbatim>\<open>strings.TrimSpace\<close>, base64 decoding and
  \<^verbatim>\<open>http.Request.BasicAuth\<close> are those of the Go standard library. The theorems show that
  a client's credentials are read back exactly and that a request never carries two.
\<close>

section \<open>Standard library: runes and white space\<close>

definition byte :: "char \<Rightarrow> nat" where
  "byte c = of_char c"

definition cont_byte :: "char \<Rightarrow> bool" where
  "cont_byte c \<longleftrightarrow> 0x80 \<le> byte c \<and> byte c \<le> 0xBF"

text \<open>
  The first rune of a non-empty string and its width. An invalid sequence counts as one byte with the
  replacement rune.
\<close>

definition rune_error :: "nat \<times> nat" where
  "rune_error = (0xFFFD, 1)"

definition decode_rune :: "string \<Rightarrow> nat \<times> nat" where
  "decode_rune s =
     (case s of
        [] \<Rightarrow> rune_error
      | a # s1 \<Rightarrow>
          if byte a < 0x80 then (byte a, 1)
          else if byte a < 0xC2 \<or> 0xF4 < byte a then rune_error
          else (case s1 of
              [] \<Rightarrow> rune_error
            | b # s2 \<Rightarrow>
                if byte a \<le> 0xDF
                then (if cont_byte b then ((byte a - 0xC0) * 64 + (byte b - 0x80), 2) else rune_error)
                else if \<not> cont_byte b \<or> byte a = 0xE0 \<and> byte b < 0xA0 \<or> byte a = 0xED \<and> 0x9F < byte b \<or>
                        byte a = 0xF0 \<and> byte b < 0x90 \<or> byte a = 0xF4 \<and> 0x8F < byte b
                then rune_error
                else (case s2 of
                    [] \<Rightarrow> rune_error
                  | c # s3 \<Rightarrow>
                      if \<not> cont_byte c then rune_error
                      else if byte a \<le> 0xEF
                      then (((byte a - 0xE0) * 64 + (byte b - 0x80)) * 64 + (byte c - 0x80), 3)
                      else (case s3 of
                          [] \<Rightarrow> rune_error
                        | d # _ \<Rightarrow>
                            if \<not> cont_byte d then rune_error
                            else ((((byte a - 0xF0) * 64 + (byte b - 0x80)) * 64 + (byte c - 0x80)) * 64 +
                                  (byte d - 0x80), 4)))))"

text \<open>A string as its runes, each with the bytes it was decoded from.\<close>

function rune_chunks :: "string \<Rightarrow> (nat \<times> string) list" where
  "rune_chunks [] = []"
| "rune_chunks (c # s) =
     (let (r, n) = decode_rune (c # s) in (r, take n (c # s)) # rune_chunks (drop (n - 1) s))"
  by pat_completeness auto
termination
  by (relation "measure length") auto

definition runes :: "string \<Rightarrow> nat list" where
  "runes s = map fst (rune_chunks s)"

definition IsSpace :: "nat \<Rightarrow> bool" where
  "IsSpace r \<longleftrightarrow>
     9 \<le> r \<and> r \<le> 13 \<or> r \<in> {0x20, 0x85, 0xA0, 0x1680, 0x2028, 0x2029, 0x202F, 0x205F, 0x3000} \<or>
     0x2000 \<le> r \<and> r \<le> 0x200A"

text \<open>
  Trimming looks at runes from both ends. A rune that is white space is a complete encoding, so reading it
  backwards from the end gives the chunk that reading forwards gives.
\<close>

definition TrimSpace :: "string \<Rightarrow> string" where
  "TrimSpace s =
     concat (map snd (rev (dropWhile (IsSpace \<circ> fst) (rev (dropWhile (IsSpace \<circ> fst) (rune_chunks s))))))"

section \<open>Standard library: base64 and basic authentication\<close>

definition b64_alphabet :: string where
  "b64_alphabet = ''ABCDEFGHIJKLMNOPQRSTUVWXYZabcdefghijklmnopqrstuvwxyz0123456789+/''"

fun index_of :: "'a list \<Rightarrow> 'a \<Rightarrow> nat option" where
  "index_of [] x = None"
| "index_of (y # ys) x = (if y = x then Some 0 else map_option Suc (index_of ys x))"

fun b64_quads :: "string \<Rightarrow> string option" where
  "b64_quads [] = Some []"
| "b64_quads (a # b # c # d # rest) =
     (case (index_of b64_alphabet a, index_of b64_alphabet b, index_of b64_alphabet c, index_of b64_alphabet d) of
        (Some i, Some j, Some k, Some l) \<Rightarrow>
          map_option (\<lambda>out. char_of ((i * 64 + j) div 16) # char_of ((j * 64 + k) div 4 mod 256) #
              char_of ((k * 64 + l) mod 256) # out) (b64_quads rest)
      | (Some i, Some j, Some k, None) \<Rightarrow>
          if d = CHR ''='' \<and> rest = [] then Some [char_of ((i * 64 + j) div 16), char_of ((j * 64 + k) div 4 mod 256)]
          else None
      | (Some i, Some j, None, None) \<Rightarrow>
          if c = CHR ''='' \<and> d = CHR ''='' \<and> rest = [] then Some [char_of ((i * 64 + j) div 16)] else None
      | _ \<Rightarrow> None)"
| "b64_quads _ = None"

definition b64_decode :: "string \<Rightarrow> string option" where
  "b64_decode s = b64_quads (filter (\<lambda>c. byte c \<noteq> 10 \<and> byte c \<noteq> 13) s)"

definition lower_ascii :: "nat \<Rightarrow> nat" where
  "lower_ascii r = (if 65 \<le> r \<and> r \<le> 90 then r + 32 else r)"

definition basic_prefix :: string where
  "basic_prefix = ''Basic ''"

definition bearer_prefix :: string where
  "bearer_prefix = ''Bearer ''"

definition http_BasicAuth :: "string list \<Rightarrow> (string \<times> string) option" where
  "http_BasicAuth headers =
     (case headers of
        [] \<Rightarrow> None
      | auth # _ \<Rightarrow>
          if map (lower_ascii \<circ> byte) (take (length basic_prefix) auth) \<noteq> map (lower_ascii \<circ> byte) basic_prefix
          then None
          else (case b64_decode (drop (length basic_prefix) auth) of
                  None \<Rightarrow> None
                | Some cs \<Rightarrow>
                    if CHR '':'' \<in> set cs
                    then Some (takeWhile (\<lambda>c. c \<noteq> CHR '':'') cs, tl (dropWhile (\<lambda>c. c \<noteq> CHR '':'') cs))
                    else None))"

section \<open>ascii.go\<close>

definition equalFoldAscii :: "string \<Rightarrow> string \<Rightarrow> bool" where
  "equalFoldAscii a b =
     (let runesA = runes a; runesB = runes b
      in length runesA = length runesB \<and>
         list_all (\<lambda>(c1, c2). lower_ascii c1 = lower_ascii c2) (zip runesA runesB))"

definition hasPrefixAsciiFold :: "string \<Rightarrow> string \<Rightarrow> bool" where
  "hasPrefixAsciiFold s prefix =
     (if length s < length prefix then False else equalFoldAscii (take (length prefix) s) prefix)"

definition trimPrefixAsciiFold :: "string \<Rightarrow> string \<Rightarrow> string" where
  "trimPrefixAsciiFold s prefix = (if \<not> hasPrefixAsciiFold s prefix then s else drop (length prefix) s)"

section \<open>credentials.go\<close>

record Credentials =
  crd_invalid :: bool
  crd_basic :: bool
  crd_basicUsername :: string
  crd_basicPassword :: string
  crd_bearer :: bool
  crd_bearerValue :: string

definition zero_credentials :: Credentials where
  "zero_credentials =
     \<lparr>crd_invalid = False, crd_basic = False, crd_basicUsername = [], crd_basicPassword = [],
      crd_bearer = False, crd_bearerValue = []\<rparr>"

definition invalid_credentials :: Credentials where
  "invalid_credentials = zero_credentials\<lparr>crd_invalid := True\<rparr>"

datatype Kind = KindInvalid | KindEmpty | KindBasic | KindBearer

text \<open>The loop of \<^verbatim>\<open>Parse\<close>; \<open>h\<close> is the whole list of header values, from which \<^verbatim>\<open>BasicAuth\<close> reads.\<close>

fun parse_values :: "string list \<Rightarrow> Credentials \<Rightarrow> string list \<Rightarrow> Credentials" where
  "parse_values h creds [] = creds"
| "parse_values h creds (auth # rest) =
     (if hasPrefixAsciiFold auth bearer_prefix
      then (if crd_basic creds \<or> crd_bearer creds then invalid_credentials
            else parse_values h
              (creds\<lparr>crd_bearer := True, crd_bearerValue := TrimSpace (trimPrefixAsciiFold auth bearer_prefix)\<rparr>) rest)
      else if hasPrefixAsciiFold auth basic_prefix
      then (if crd_basic creds \<or> crd_bearer creds then invalid_credentials
            else (case http_BasicAuth h of
                    None \<Rightarrow> invalid_credentials
                  | Some (u, p) \<Rightarrow>
                      parse_values h (creds\<lparr>crd_basic := True, crd_basicUsername := u, crd_basicPassword := p\<rparr>) rest))
      else invalid_credentials)"

definition Parse :: "string list \<Rightarrow> Credentials" where
  "Parse h = parse_values h zero_credentials h"

definition Credentials_Kind :: "Credentials \<Rightarrow> Kind" where
  "Credentials_Kind h =
     (if crd_invalid h \<or> crd_basic h \<and> crd_bearer h then KindInvalid
      else if \<not> crd_basic h \<and> \<not> crd_bearer h then KindEmpty
      else if crd_basic h then KindBasic
      else KindBearer)"

definition BasicAuth :: "Credentials \<Rightarrow> (gerr, string \<times> string) res" where
  "BasicAuth h =
     (if \<not> crd_basic h \<or> crd_invalid h then Panic else Ok (crd_basicUsername h, crd_basicPassword h))"

definition BearerToken :: "Credentials \<Rightarrow> (gerr, string) res" where
  "BearerToken h = (if \<not> crd_bearer h \<or> crd_invalid h then Panic else Ok (crd_bearerValue h))"

section \<open>Runes of ASCII strings\<close>

lemma byte_less [simp]: "byte c < 256"
  by (simp add: byte_def)

lemma byte_eq [simp]: "byte c = byte d \<longleftrightarrow> c = d"
  by (simp add: byte_def)

lemma decode_rune_ascii: "byte c < 128 \<Longrightarrow> decode_rune (c # s) = (byte c, 1)"
  by (simp add: decode_rune_def)

lemma decode_rune_below: "fst (decode_rune (c # s)) < 128 \<Longrightarrow> byte c < 128"
proof (rule ccontr)
  assume small: "fst (decode_rune (c # s)) < 128" and "\<not> byte c < 128"
  moreover have "(byte c - 192) * 64 \<ge> 128" if "194 \<le> byte c" using that by simp
  moreover have "cont_byte b \<Longrightarrow> 160 \<le> byte b \<Longrightarrow> (byte b - 128) * 64 \<ge> 128" for b by simp
  moreover have "cont_byte b \<Longrightarrow> 144 \<le> byte b \<Longrightarrow> (byte b - 128) * 64 * 64 \<ge> 128" for b by simp
  ultimately show False
    by (auto simp: decode_rune_def rune_error_def cont_byte_def split: list.splits if_splits)
qed

lemma runes_ascii: "list_all (\<lambda>c. byte c < 128) s \<Longrightarrow> runes s = map byte s"
  by (induction s) (simp_all add: runes_def decode_rune_ascii)

lemma runes_below:
  assumes "list_all (\<lambda>r. r < 128) (runes s)"
  shows "list_all (\<lambda>c. byte c < 128) s"
  using assms
proof (induction s rule: rune_chunks.induct)
  case (2 c s)
  obtain r n where d: "decode_rune (c # s) = (r, n)" by fastforce
  from "2.prems" d have "r < 128" by (simp add: runes_def)
  then have c: "byte c < 128" using decode_rune_below [of c s] d by simp
  then have "n = 1" using d decode_rune_ascii by simp
  then show ?case using 2 d c by (simp add: runes_def)
qed simp

lemma lower_ascii_below: "lower_ascii r < 128 \<longleftrightarrow> r < 128"
  by (auto simp: lower_ascii_def)

text \<open>Against an ASCII string, folding by runes is folding by bytes.\<close>

lemma equalFoldAscii_ascii:
  assumes "list_all (\<lambda>c. byte c < 128) b"
  shows "equalFoldAscii a b \<longleftrightarrow> map (lower_ascii \<circ> byte) a = map (lower_ascii \<circ> byte) b"
proof -
  have fold: "equalFoldAscii a b \<longleftrightarrow> map lower_ascii (runes a) = map lower_ascii (runes b)"
    by (simp add: equalFoldAscii_def Let_def list_all_iff list_all2_iff zip_map_map case_prod_unfold
        flip: list.rel_eq)
  show ?thesis
  proof
    assume "equalFoldAscii a b"
    then have e: "map lower_ascii (runes a) = map (lower_ascii \<circ> byte) b"
      using fold runes_ascii [OF assms] by simp
    have "list_all (\<lambda>r. r < 128) (map (lower_ascii \<circ> byte) b)"
      using assms by (simp add: list_all_iff lower_ascii_below)
    then have "list_all (\<lambda>r. r < 128) (runes a)"
      by (simp add: list_all_iff lower_ascii_below flip: e)
    from runes_ascii [OF runes_below [OF this]] e
    show "map (lower_ascii \<circ> byte) a = map (lower_ascii \<circ> byte) b" by simp
  next
    assume e: "map (lower_ascii \<circ> byte) a = map (lower_ascii \<circ> byte) b"
    have "list_all (\<lambda>r. r < 128) (map (lower_ascii \<circ> byte) b)"
      using assms by (simp add: list_all_iff lower_ascii_below)
    then have "list_all (\<lambda>c. byte c < 128) a"
      by (simp add: list_all_iff lower_ascii_below flip: e)
    then show "equalFoldAscii a b"
      using e runes_ascii assms by (simp add: fold comp_def)
  qed
qed

lemma concat_chunks: "concat (map snd (rune_chunks s)) = s"
proof (induction s rule: rune_chunks.induct)
  case (2 c s)
  obtain r n where d: "decode_rune (c # s) = (r, n)" by fastforce
  have "n \<ge> 1"
    using d by (auto simp: decode_rune_def rune_error_def split: list.splits if_splits)
  then show ?case using 2 d by (cases n) simp_all
qed simp

lemma TrimSpace_id:
  assumes "list_all (\<lambda>r. \<not> IsSpace r) (runes s)"
  shows "TrimSpace s = s"
proof -
  have "dropWhile (IsSpace \<circ> fst) xs = xs" if "set xs \<subseteq> set (rune_chunks s)" for xs
  proof (cases xs)
    case (Cons x xs')
    then have "fst x \<in> set (runes s)" using that by (auto simp: runes_def)
    then show ?thesis using Cons assms by (simp add: list_all_iff)
  qed simp
  then show ?thesis by (simp add: TrimSpace_def concat_chunks)
qed

section \<open>The base64 round trip\<close>

text \<open>The encoder of RFC 4648 that a client applies to its user name and password.\<close>

definition b64_char :: "nat \<Rightarrow> char" where
  "b64_char i = b64_alphabet ! i"

fun b64_encode :: "string \<Rightarrow> string" where
  "b64_encode [] = []"
| "b64_encode [a] = [b64_char (byte a div 4), b64_char (byte a mod 4 * 16), CHR ''='', CHR ''='']"
| "b64_encode [a, b] =
     [b64_char (byte a div 4), b64_char (byte a mod 4 * 16 + byte b div 16), b64_char (byte b mod 16 * 4), CHR ''='']"
| "b64_encode (a # b # c # rest) =
     b64_char (byte a div 4) # b64_char (byte a mod 4 * 16 + byte b div 16) #
     b64_char (byte b mod 16 * 4 + byte c div 64) # b64_char (byte c mod 64) # b64_encode rest"

lemma index_of_nth: "distinct xs \<Longrightarrow> i < length xs \<Longrightarrow> index_of xs (xs ! i) = Some i"
  by (induction xs arbitrary: i) (auto simp: nth_Cons split: nat.splits)

lemma index_of_notin: "x \<notin> set xs \<Longrightarrow> index_of xs x = None"
  by (induction xs) auto

lemma b64_alphabet_facts:
  "length b64_alphabet = 64" "distinct b64_alphabet" "CHR ''='' \<notin> set b64_alphabet"
  "list_all (\<lambda>c. byte c \<noteq> 10 \<and> byte c \<noteq> 13) b64_alphabet"
  by (simp_all add: b64_alphabet_def byte_def)

lemma index_b64_char [simp]: "i < 64 \<Longrightarrow> index_of b64_alphabet (b64_char i) = Some i"
  by (simp add: b64_char_def index_of_nth b64_alphabet_facts)

lemma index_b64_pad [simp]: "index_of b64_alphabet (CHR ''='') = None"
  by (simp add: index_of_notin b64_alphabet_facts)

lemma char_of_byte: "n = byte c \<Longrightarrow> char_of n = c"
  by (simp add: byte_def)

lemma b64_pieces:
  fixes a b c :: nat
  assumes "a < 256" "b < 256" "c < 256"
  shows "(a div 4 * 64 + (a mod 4 * 16 + b div 16)) div 16 = a"
    "((a mod 4 * 16 + b div 16) * 64 + (b mod 16 * 4 + c div 64)) div 4 mod 256 = b"
    "((b mod 16 * 4 + c div 64) * 64 + c mod 64) mod 256 = c"
    "a div 4 < 64" "a mod 4 * 16 + b div 16 < 64" "b mod 16 * 4 + c div 64 < 64"
proof -
  have "a div 4 * 64 + (a mod 4 * 16 + b div 16) = b div 16 + 16 * a"
    using div_mult_mod_eq [of a 4] by linarith
  then show "(a div 4 * 64 + (a mod 4 * 16 + b div 16)) div 16 = a"
    using assms by simp
  obtain q r where b: "b div 16 = q" "b mod 16 = r" "b = 16 * q + r"
    using mult_div_mod_eq [of 16 b] by metis
  have "(a mod 4 * 16 + b div 16) * 64 + (b mod 16 * 4 + c div 64) = c div 64 + 4 * (b + 256 * (a mod 4))"
    unfolding b(1,2) by (simp add: b(3))
  moreover have "(c div 64 + 4 * y) div 4 = y" for y using assms by simp
  moreover have "(b + 256 * (a mod 4)) mod 256 = b" using assms by simp
  ultimately show "((a mod 4 * 16 + b div 16) * 64 + (b mod 16 * 4 + c div 64)) div 4 mod 256 = b" by metis
  have "(b mod 16 * 4 + c div 64) * 64 + c mod 64 = c + 256 * (b mod 16)"
    using div_mult_mod_eq [of c 64] by (simp add: add_mult_distrib)
  then show "((b mod 16 * 4 + c div 64) * 64 + c mod 64) mod 256 = c"
    using assms by simp
  show "a div 4 < 64" using assms by simp
  have "a mod 4 < 4" "b div 16 < 16" "b mod 16 < 16" "c div 64 < 4" using assms by simp_all
  then show "a mod 4 * 16 + b div 16 < 64" "b mod 16 * 4 + c div 64 < 64" by linarith+
qed

lemma b64_quads_encode: "b64_quads (b64_encode s) = Some s"
proof (induction s rule: b64_encode.induct)
  case (2 a)
  show ?case using b64_pieces [of "byte a" 0 0] by (simp add: char_of_byte)
next
  case (3 a b)
  show ?case using b64_pieces [of "byte a" "byte b" 0] by (simp add: char_of_byte)
next
  case (4 a b c rest)
  then show ?case using b64_pieces [of "byte a" "byte b" "byte c"] by (simp add: char_of_byte)
qed simp

lemma b64_char_visible [simp]: "i < 64 \<Longrightarrow> byte (b64_char i) \<noteq> 10" "i < 64 \<Longrightarrow> byte (b64_char i) \<noteq> 13"
  using b64_alphabet_facts(1,4) by (simp_all add: b64_char_def list_all_length)

lemma byte_pad [simp]: "byte (CHR ''='') = 61"
  by (simp add: byte_def)

lemma b64_encode_set: "set (b64_encode s) \<subseteq> insert (CHR ''='') (b64_char ` {..<64})"
proof (induction s rule: b64_encode.induct)
  case (2 a)
  from b64_pieces(4-6) [of "byte a" 0 0] show ?case by simp
next
  case (3 a b)
  from b64_pieces(4-6) [of "byte a" "byte b" 0] show ?case by simp
next
  case (4 a b x rest)
  moreover from b64_pieces(4-6) [of "byte a" "byte b" "byte x"] have
    "byte a div 4 < 64" "byte a mod 4 * 16 + byte b div 16 < 64" "byte b mod 16 * 4 + byte x div 64 < 64"
    by simp_all
  ultimately show ?case by simp
qed simp

lemma b64_encode_chars: "c \<in> set (b64_encode s) \<Longrightarrow> byte c \<noteq> 10 \<and> byte c \<noteq> 13"
  using b64_encode_set [of s] by fastforce

lemma b64_decode_encode: "b64_decode (b64_encode s) = Some s"
proof -
  have "filter (\<lambda>c. byte c \<noteq> 10 \<and> byte c \<noteq> 13) (b64_encode s) = b64_encode s"
    using b64_encode_chars by (auto simp: filter_id_conv)
  then show ?thesis by (simp add: b64_decode_def b64_quads_encode)
qed

section \<open>Reading the header\<close>

lemma prefixes_ascii: "list_all (\<lambda>c. byte c < 128) bearer_prefix" "list_all (\<lambda>c. byte c < 128) basic_prefix"
  by (simp_all add: bearer_prefix_def basic_prefix_def byte_def)

lemma hasPrefix_scheme:
  assumes "list_all (\<lambda>c. byte c < 128) prefix" and "map (lower_ascii \<circ> byte) scheme = map (lower_ascii \<circ> byte) prefix"
  shows "hasPrefixAsciiFold (scheme @ t) prefix \<and> take (length prefix) (scheme @ t) = scheme \<and>
    drop (length prefix) (scheme @ t) = t"
proof -
  from assms(2) have "length scheme = length prefix" using map_eq_imp_length_eq by blast
  then show ?thesis using assms by (simp add: hasPrefixAsciiFold_def equalFoldAscii_ascii)
qed

lemma basic_not_bearer:
  assumes "map (lower_ascii \<circ> byte) scheme = map (lower_ascii \<circ> byte) basic_prefix"
  shows "\<not> hasPrefixAsciiFold (scheme @ t) bearer_prefix"
proof
  assume h: "hasPrefixAsciiFold (scheme @ t) bearer_prefix"
  have l: "length scheme = 6"
    using map_eq_imp_length_eq [OF assms] by (simp add: basic_prefix_def)
  have "length bearer_prefix = 7" by (simp add: bearer_prefix_def)
  with h have "map (lower_ascii \<circ> byte) (take 7 (scheme @ t)) = map (lower_ascii \<circ> byte) bearer_prefix"
    by (simp add: hasPrefixAsciiFold_def equalFoldAscii_ascii prefixes_ascii(1) split: if_splits)
  then have "take 6 (map (lower_ascii \<circ> byte) (take 7 (scheme @ t))) = take 6 (map (lower_ascii \<circ> byte) bearer_prefix)"
    by (rule arg_cong)
  then have "map (lower_ascii \<circ> byte) basic_prefix = take 6 (map (lower_ascii \<circ> byte) bearer_prefix)"
    using l assms by (simp add: take_map basic_prefix_def)
  then show False by (simp add: basic_prefix_def bearer_prefix_def lower_ascii_def byte_def)
qed

lemma Parse_schemes:
  assumes "map (lower_ascii \<circ> byte) bearer = map (lower_ascii \<circ> byte) bearer_prefix"
    and "map (lower_ascii \<circ> byte) basic = map (lower_ascii \<circ> byte) basic_prefix"
    and "list_all (\<lambda>r. \<not> IsSpace r) (runes t)" and "CHR '':'' \<notin> set u"
  shows "Parse [bearer @ t] = zero_credentials\<lparr>crd_bearer := True, crd_bearerValue := t\<rparr>"
    and "Parse [basic @ b64_encode (u @ '':'' @ p)] =
      zero_credentials\<lparr>crd_basic := True, crd_basicUsername := u, crd_basicPassword := p\<rparr>"
proof -
  show "Parse [bearer @ t] = zero_credentials\<lparr>crd_bearer := True, crd_bearerValue := t\<rparr>"
    using hasPrefix_scheme [OF prefixes_ascii(1) assms(1)] TrimSpace_id [OF assms(3)]
    by (simp add: Parse_def trimPrefixAsciiFold_def zero_credentials_def)
  have "http_BasicAuth [basic @ b64_encode (u @ '':'' @ p)] = Some (u, p)"
    using hasPrefix_scheme [OF prefixes_ascii(2) assms(2)] assms(2,4)
    by (simp add: http_BasicAuth_def b64_decode_encode takeWhile_append dropWhile_append)
  then show "Parse [basic @ b64_encode (u @ '':'' @ p)] =
      zero_credentials\<lparr>crd_basic := True, crd_basicUsername := u, crd_basicPassword := p\<rparr>"
    using hasPrefix_scheme [OF prefixes_ascii(2) assms(2)] basic_not_bearer [OF assms(2)]
    by (simp add: Parse_def zero_credentials_def)
qed

text \<open>
  C32. Credentials are read back exactly. A request with the header \<^verbatim>\<open>Bearer t\<close>, the scheme in any mix of cases and the token free
  of white space, carries the token \<open>t\<close>; a request with \<^verbatim>\<open>Basic\<close> and the base64 encoding of \<open>u:p\<close>, for a user name
  without a colon, carries the user name \<open>u\<close> and the password \<open>p\<close>, whatever bytes they contain.
\<close>

theorem credentials_roundtrip:
  assumes "map (lower_ascii \<circ> byte) bearer = map (lower_ascii \<circ> byte) bearer_prefix"
    and "map (lower_ascii \<circ> byte) basic = map (lower_ascii \<circ> byte) basic_prefix"
    and "list_all (\<lambda>r. \<not> IsSpace r) (runes t)" and "CHR '':'' \<notin> set u"
  shows "Credentials_Kind (Parse [bearer @ t]) = KindBearer \<and> BearerToken (Parse [bearer @ t]) = Ok t \<and>
    Credentials_Kind (Parse [basic @ b64_encode (u @ '':'' @ p)]) = KindBasic \<and>
    BasicAuth (Parse [basic @ b64_encode (u @ '':'' @ p)]) = Ok (u, p)"
  using Parse_schemes(1) [OF assms] Parse_schemes(2) [OF assms, of p]
  by (simp add: Credentials_Kind_def BasicAuth_def BearerToken_def zero_credentials_def)

theorem credentials_roundtrip_witness:
  "BearerToken (Parse [''bEARER '' @ ''abc123'']) = Ok ''abc123'' \<and>
   BasicAuth (Parse [''basic '' @ b64_encode (''alice'' @ '':'' @ ''a:b'')]) = Ok (''alice'', ''a:b'')"
  using credentials_roundtrip [of "''bEARER ''" "''basic ''" "''abc123''" "''alice''" "''a:b''"]
  by (simp add: bearer_prefix_def basic_prefix_def lower_ascii_def byte_def runes_ascii IsSpace_def)

lemma parse_values_again:
  "crd_basic creds \<or> crd_bearer creds \<Longrightarrow> rest \<noteq> [] \<Longrightarrow> parse_values h creds rest = invalid_credentials"
  by (cases rest) simp_all

text \<open>
  A request never carries two credentials. Without an \<^verbatim>\<open>Authorization\<close> value the credentials are empty, and only then. Several
  values, whatever they are, and a value of another scheme are invalid. A kind says which accessor may be
  called: it does not panic then.
\<close>

lemma credentials_unambiguous:
  "(Credentials_Kind (Parse h) = KindEmpty \<longleftrightarrow> h = []) \<and>
   (1 < length h \<longrightarrow> Credentials_Kind (Parse h) = KindInvalid) \<and>
   (Credentials_Kind (Parse h) = KindBasic \<longrightarrow> BasicAuth (Parse h) \<noteq> Panic \<and> http_BasicAuth h \<noteq> None) \<and>
   (Credentials_Kind (Parse h) = KindBearer \<longrightarrow> BearerToken (Parse h) \<noteq> Panic)"
proof (cases h)
  case Nil
  then show ?thesis by (simp add: Parse_def Credentials_Kind_def zero_credentials_def)
next
  case (Cons auth rest)
  have inv: "Credentials_Kind invalid_credentials = KindInvalid"
    by (simp add: invalid_credentials_def Credentials_Kind_def)
  show ?thesis
  proof (cases rest)
    case Nil
    then show ?thesis using Cons
      by (auto simp: Parse_def Credentials_Kind_def zero_credentials_def invalid_credentials_def BasicAuth_def
          BearerToken_def split: option.splits)
  next
    case (Cons a as)
    then have "Parse h = invalid_credentials"
      using \<open>h = auth # rest\<close> by (simp add: Parse_def parse_values_again split: option.splits)
    then show ?thesis using \<open>h = auth # rest\<close> by (simp add: inv)
  qed
qed

end
