(* ===== verification/Apikey.thy ===== *)
theory Apikey
  imports Pid_Format
begin

text \<open>
  The package \<^verbatim>\<open>internal/apikey\<close>: generation of API keys, their stored form (a lookup
  prefix in plaintext and a digest of the rest), and verification. SHA-256 is a parameter, as is
  a custom hash function.

  Keys are read as sequences of characters. A key with a character outside ASCII is refused by
  the program and by the model.
\<close>

type_synonym hash_fun = "string \<Rightarrow> byte list"

record stored =
  st_Prefix :: string
  st_Digest :: "byte list"

record key_format =
  kf_Charset :: string
  kf_Length :: int
  kf_PrefixLen :: int
  kf_Hasher :: "hash_fun option"

definition HashFunc_Hash :: "hash_fun \<Rightarrow> hash_fun option \<Rightarrow> string \<Rightarrow> byte list" where
  "HashFunc_Hash sha256 hash key = (case hash of None \<Rightarrow> sha256 key | Some h \<Rightarrow> h key)"

definition key_Default :: key_format where
  "key_Default = \<lparr>kf_Charset = ''full'', kf_Length = 32, kf_PrefixLen = 8, kf_Hasher = None\<rparr>"

definition Key_Validate :: "key_format \<Rightarrow> gerr option" where
  "Key_Validate f =
     (if kf_PrefixLen f \<le> 0 then Some (Sentinel (Named ''errInvalidPrefixLen''))
      else if kf_Length f \<le> kf_PrefixLen f then Some (Sentinel (Named ''errInvalidLength''))
      else case CharacterSet_Validate (kf_Charset f) of
             Some e \<Rightarrow> Some (Fmt [Sentinel (Named ''errInvalidCharset''), e])
           | None \<Rightarrow> None)"

fun key_generate_loop ::
  "'r reader \<Rightarrow> string \<Rightarrow> nat \<Rightarrow> string \<Rightarrow> 'r \<Rightarrow> (gerr, string) res \<times> 'r" where
  "key_generate_loop rd chars 0 runes r = (Ok runes, r)"
| "key_generate_loop rd chars (Suc k) runes r =
     (case Pick rd chars r of
        (Ok c, r') \<Rightarrow> key_generate_loop rd chars k (runes @ [c]) r'
      | (Err e, r') \<Rightarrow> (Err (Fmt [e]), r')
      | (Panic, r') \<Rightarrow> (Panic, r'))"

definition Key_Generate :: "'r reader \<Rightarrow> key_format \<Rightarrow> 'r \<Rightarrow> (gerr, string) res \<times> 'r" where
  "Key_Generate rd f r =
     (case Key_Validate f of
        Some e \<Rightarrow> (Err e, r)
      | None \<Rightarrow> key_generate_loop rd (kf_Charset f) (nat (kf_Length f)) [] r)"

definition validateKey :: "key_format \<Rightarrow> string \<Rightarrow> gerr option" where
  "validateKey f key =
     (if int (length key) \<noteq> kf_Length f then Some (Sentinel (Named ''errInvalidKeyLength''))
      else case Alphabet (kf_Charset f) of
             None \<Rightarrow> Some (Sentinel (Named ''errInvalidCharset''))
           | Some chars \<Rightarrow>
               if list_all (\<lambda>c. c \<in> set chars) key then None
               else Some (Sentinel (Named ''errInvalidKeyChar'')))"

definition splitKey :: "key_format \<Rightarrow> string \<Rightarrow> (gerr, string \<times> string) res" where
  "splitKey f key =
     (case Key_Validate f of
        Some e \<Rightarrow> Err e
      | None \<Rightarrow>
          (case validateKey f key of
             Some e \<Rightarrow> Err e
           | None \<Rightarrow>
               bind_res (go_slice key 0 (kf_PrefixLen f)) (\<lambda>prefix.
               bind_res (go_slice key (kf_PrefixLen f) (int (length key))) (\<lambda>secret.
                 Ok (prefix, secret)))))"

definition Key_Prefix :: "key_format \<Rightarrow> string \<Rightarrow> (gerr, string) res" where
  "Key_Prefix f key = bind_res (splitKey f key) (\<lambda>(prefix, _). Ok prefix)"

definition Key_Hash :: "hash_fun \<Rightarrow> key_format \<Rightarrow> string \<Rightarrow> (gerr, stored) res" where
  "Key_Hash sha256 f key =
     bind_res (splitKey f key) (\<lambda>(prefix, secret).
       Ok \<lparr>st_Prefix = prefix, st_Digest = HashFunc_Hash sha256 (kf_Hasher f) secret\<rparr>)"

text \<open>
  \<^verbatim>\<open>subtle.ConstantTimeCompare\<close>: 0 if the lengths differ, otherwise the bytes are folded into an
  accumulator without an early exit and the result is 1 if the accumulator is 0.
\<close>

definition ConstantTimeCompare :: "byte list \<Rightarrow> byte list \<Rightarrow> int" where
  "ConstantTimeCompare x y =
     (if length x \<noteq> length y then 0
      else if foldl (\<lambda>v (a, b). v OR (a XOR b)) 0 (zip x y) = 0 then 1 else 0)"

definition digestMatches :: "byte list \<Rightarrow> byte list \<Rightarrow> bool" where
  "digestMatches stored computed \<longleftrightarrow> ConstantTimeCompare stored computed = 1"

definition Key_Verify :: "hash_fun \<Rightarrow> key_format \<Rightarrow> string \<Rightarrow> stored \<Rightarrow> bool" where
  "Key_Verify sha256 f key stored =
     (case splitKey f key of
        Ok (prefix, secret) \<Rightarrow>
          if prefix \<noteq> st_Prefix stored then False
          else digestMatches (st_Digest stored) (HashFunc_Hash sha256 (kf_Hasher f) secret)
      | _ \<Rightarrow> False)"

section \<open>Lemmas\<close>

lemma xor_zero: "a XOR b = 0 \<longleftrightarrow> a = (b :: byte)"
proof
  assume "a XOR b = 0"
  then have "(a XOR b) XOR b = b" by simp
  then show "a = b" by (simp add: xor.assoc)
qed simp

lemma fold_or_zero:
  fixes v :: byte
  shows "foldl (\<lambda>v (a, b). v OR (a XOR b)) v ps = 0 \<longleftrightarrow> v = 0 \<and> (\<forall>(a, b) \<in> set ps. a = b)"
  by (induction ps arbitrary: v) (auto simp: or_eq_0_iff xor_zero)

lemma digestMatches_eq: "digestMatches x y \<longleftrightarrow> x = y"
proof -
  have "list_all2 (=) x y \<longleftrightarrow> length x = length y \<and> (\<forall>(a, b) \<in> set (zip x y). a = b)"
    by (auto simp: list_all2_iff)
  then show ?thesis
    by (auto simp: digestMatches_def ConstantTimeCompare_def fold_or_zero list.rel_eq)
qed

lemma splitKey_Ok:
  "splitKey f key = Ok (p, s) \<longleftrightarrow>
     Key_Validate f = None \<and> validateKey f key = None \<and>
     p = take (nat (kf_PrefixLen f)) key \<and> s = drop (nat (kf_PrefixLen f)) key"
  by (auto simp: splitKey_def go_slice_def Key_Validate_def validateKey_def nat_diff_distrib
      split: option.splits if_splits)

lemma splitKey_no_panic: "splitKey f key \<noteq> Panic"
  by (auto simp: splitKey_def go_slice_def Key_Validate_def validateKey_def
      split: option.splits if_splits)

lemma key_generate_loop_ok:
  assumes "key_generate_loop rd chars k out r = (Ok s, r')" and "Alphabet chars = Some a"
  shows "\<exists>t. s = out @ t \<and> length t = k \<and> set t \<subseteq> set a"
  using assms(1)
proof (induction k arbitrary: out r)
  case (Suc k)
  then obtain c r1 where pick: "Pick rd chars r = (Ok c, r1)"
    and rest: "key_generate_loop rd chars k (out @ [c]) r1 = (Ok s, r')"
    by (auto split: prod.splits res.splits)
  from Suc.IH [OF rest] Pick_in_alphabet [OF pick assms(2)] show ?case by fastforce
qed simp

lemma Key_Generate_valid:
  assumes "Key_Generate rd f r = (Ok key, r')"
  shows "Key_Validate f = None \<and> validateKey f key = None"
proof -
  from assms have v: "Key_Validate f = None"
    and g: "key_generate_loop rd (kf_Charset f) (nat (kf_Length f)) [] r = (Ok key, r')"
    by (auto simp: Key_Generate_def split: option.splits)
  from v have "CharacterSet_Validate (kf_Charset f) = None" and len: "0 < kf_Length f"
    by (auto simp: Key_Validate_def split: if_splits option.splits)
  then obtain a where a: "Alphabet (kf_Charset f) = Some a" by auto
  from key_generate_loop_ok [OF g a] have "length key = nat (kf_Length f)" "set key \<subseteq> set a"
    by auto
  then show ?thesis
    using v a len by (auto simp: validateKey_def list_all_iff)
qed

section \<open>Properties\<close>

text \<open>
  A freshly generated API key can be stored and then authenticates. The generated key has exactly
  \<open>Length\<close> characters, hashing it for storage succeeds, the stored form keeps only the
  prefix and the digest of the rest, and \<open>Verify\<close> accepts the key against it.
\<close>

lemma apikey_roundtrip:
  assumes "Key_Generate rd f r = (Ok key, r')"
  shows "int (length key) = kf_Length f \<and>
    (\<exists>st. Key_Hash sha256 f key = Ok st \<and> st_Prefix st = take (nat (kf_PrefixLen f)) key \<and>
       st_Digest st = HashFunc_Hash sha256 (kf_Hasher f) (drop (nat (kf_PrefixLen f)) key) \<and>
       Key_Verify sha256 f key st)"
proof -
  from Key_Generate_valid [OF assms] have v: "Key_Validate f = None" "validateKey f key = None"
    by auto
  then have "splitKey f key = Ok (take (nat (kf_PrefixLen f)) key, drop (nat (kf_PrefixLen f)) key)"
    by (simp add: splitKey_Ok)
  moreover have "int (length key) = kf_Length f"
    using v(2) by (auto simp: validateKey_def split: if_splits)
  ultimately show ?thesis
    by (simp add: Key_Hash_def Key_Verify_def digestMatches_eq)
qed

text \<open>
  C31. Only the key itself authenticates. If a presented string is accepted against the stored form of a
  key and the digest has no collision between the two secrets, then the presented string is that key.
  A string of the wrong length or with a foreign character is never accepted.
\<close>

theorem apikey_sound:
  assumes "Key_Hash sha256 f key = Ok st" and "Key_Verify sha256 f presented st"
    and "HashFunc_Hash sha256 (kf_Hasher f) (drop (nat (kf_PrefixLen f)) presented) =
           HashFunc_Hash sha256 (kf_Hasher f) (drop (nat (kf_PrefixLen f)) key) \<Longrightarrow>
         drop (nat (kf_PrefixLen f)) presented = drop (nat (kf_PrefixLen f)) key"
  shows "presented = key \<and> validateKey f presented = None"
proof -
  from assms(1) obtain p s where s: "splitKey f key = Ok (p, s)"
    and st: "st = \<lparr>st_Prefix = p, st_Digest = HashFunc_Hash sha256 (kf_Hasher f) s\<rparr>"
    by (auto simp: Key_Hash_def bind_res_Ok_iff)
  from assms(2) obtain p' s' where s': "splitKey f presented = Ok (p', s')"
    and "p' = st_Prefix st" "st_Digest st = HashFunc_Hash sha256 (kf_Hasher f) s'"
    by (auto simp: Key_Verify_def digestMatches_eq split: res.splits prod.splits if_splits)
  with s st assms(3) have "p' = p" "s' = s"
    by (auto simp: splitKey_Ok)
  with s s' show ?thesis
    by (auto simp: splitKey_Ok) (metis append_take_drop_id)
qed

theorem apikey_sound_witness:
  "''5a'' = ''5a'' \<and>
   validateKey \<lparr>kf_Charset = ''hex'', kf_Length = 2, kf_PrefixLen = 1, kf_Hasher = None\<rparr> ''5a'' = None"
proof (rule apikey_sound)
  let ?f = "\<lparr>kf_Charset = ''hex'', kf_Length = 2, kf_PrefixLen = 1, kf_Hasher = None\<rparr>"
  have s: "splitKey ?f ''5a'' = Ok (''5'', ''a'')"
    by (simp add: splitKey_Ok Key_Validate_def validateKey_def CharacterSet_Validate_def
        alphabets_def Alphabet_def)
  show "Key_Hash (map (of_nat \<circ> of_char)) ?f ''5a'' =
      Ok \<lparr>st_Prefix = ''5'', st_Digest = map (of_nat \<circ> of_char) ''a''\<rparr>"
    by (simp add: Key_Hash_def s HashFunc_Hash_def)
  show "Key_Verify (map (of_nat \<circ> of_char)) ?f ''5a''
      \<lparr>st_Prefix = ''5'', st_Digest = map (of_nat \<circ> of_char) ''a''\<rparr>"
    by (simp add: Key_Verify_def s HashFunc_Hash_def digestMatches_eq)
qed simp

end
