(* ===== verification/Backend.thy ===== *)
theory Backend
  imports Scopes Apikey
begin

text \<open>
  The interfaces of the package \<^verbatim>\<open>backend\<close>, one record of functions per Go interface, over an
  arbitrary type \<open>'s\<close> of storage states. An operation that only reads maps a state to a
  result; one that writes also returns the state after it. A \<^verbatim>\<open>now\<close> function is the instant it
  returns. Cancellation of the context is not modelled.
\<close>

type_synonym ('s, 'a) reading = "'s \<Rightarrow> (gerr, 'a) res"
type_synonym ('s, 'a) writing = "'s \<Rightarrow> (gerr, 'a) res \<times> 's"

record 's UserBackend =
  be_CreateUser :: "UserCreateRequest \<Rightarrow> time \<Rightarrow> ('s, UserInfo) writing"
  be_GetUser :: "string \<Rightarrow> ('s, UserInfo) reading"
  be_ListUsers :: "ListUsersParams \<Rightarrow> ('s, UserInfo page) reading"
  be_AutocompleteUsers :: "string \<Rightarrow> int \<Rightarrow> ('s, string list) reading"
  be_DeleteUser :: "string \<Rightarrow> ('s, unit) writing"
  be_UpdateUser :: "string \<Rightarrow> bool option \<Rightarrow> ('s, UserInfo) writing"

record 's CredentialsBackend =
  be_SetPassword :: "string \<Rightarrow> string option \<Rightarrow> ('s, bool) writing"
  be_CheckPassword :: "string \<Rightarrow> string \<Rightarrow> ('s, bool) reading"
  be_CreateKey :: "key_format \<Rightarrow> string \<Rightarrow> string \<Rightarrow> string \<Rightarrow> KeyIssueRequest \<Rightarrow> time \<Rightarrow> ('s, APIKeyInfo) writing"
  be_ListKeys :: "key_format \<Rightarrow> string option \<Rightarrow> int \<Rightarrow> int \<Rightarrow> ('s, APIKeyInfo page) reading"
  be_RevokeKey :: "key_format \<Rightarrow> string \<Rightarrow> string \<Rightarrow> ('s, unit) writing"
  be_LookupUserByKey :: "key_format \<Rightarrow> string \<Rightarrow> ('s, string \<times> APIKeyInfo) reading"

record 's NamespaceBackend =
  be_ListNamespaces :: "ListNamespacesParams \<Rightarrow> ('s, NamespaceResponse page) reading"
  be_CreateNamespace :: "string \<Rightarrow> NamespaceCreateRequest \<Rightarrow> string option \<Rightarrow> time \<Rightarrow> ('s, NamespaceResponse) writing"
  be_GetNamespace :: "string \<Rightarrow> ('s, NamespaceResponse) reading"
  be_UpdateNamespace :: "string \<Rightarrow> NamespaceUpdateRequest \<Rightarrow> time \<Rightarrow> ('s, NamespaceResponse) writing"

record 's ResourceBackend =
  be_ListResources :: "string \<Rightarrow> ListResourcesParams \<Rightarrow> ('s, ResourceResponse page) reading"
  be_CountAllResources :: "('s, int) reading"
  be_GetResource :: "string \<Rightarrow> string \<Rightarrow> ('s, ResourceResponse) reading"
  be_CreateResource :: "string \<Rightarrow> string \<Rightarrow> ResourceCreateRequest \<Rightarrow> time \<Rightarrow> ('s, ResourceResponse) writing"
  be_BatchCreateResources ::
    "string \<Rightarrow> string list \<Rightarrow> ResourceCreateRequest list \<Rightarrow> time \<Rightarrow> ('s, ResourceResponse list) writing"
  be_UpdateResource :: "string \<Rightarrow> string \<Rightarrow> ResourceUpdateRequest \<Rightarrow> time \<Rightarrow> ('s, ResourceResponse) writing"

record 's AuthorizationBackend =
  be_GetNamespaceRole :: "string \<Rightarrow> string \<Rightarrow> ('s, Role) reading"
  be_SetNamespaceRole :: "string \<Rightarrow> string \<Rightarrow> Role \<Rightarrow> ('s, unit) writing"
  be_DeleteNamespaceRole :: "string \<Rightarrow> string \<Rightarrow> ('s, unit) writing"
  be_ListNamespaceRoles :: "string \<Rightarrow> int \<Rightarrow> int \<Rightarrow> ('s, NamespaceRole page) reading"
  be_ListUserRoles :: "string \<Rightarrow> int \<Rightarrow> int \<Rightarrow> ('s, UserRole page) reading"

record 's MountBackend =
  be_GetMount :: "string \<Rightarrow> ('s, string) reading"
  be_SetMount :: "string \<Rightarrow> string \<Rightarrow> ('s, unit) writing"
  be_DeleteMount :: "string \<Rightarrow> ('s, unit) writing"
  be_ListMounts :: "int \<Rightarrow> int \<Rightarrow> ('s, MountResponse page) reading"
  be_ListNamespaceMounts :: "string \<Rightarrow> int \<Rightarrow> int \<Rightarrow> ('s, string page) reading"

record 's MountGrantBackend =
  be_ListUserMountGrants :: "string \<Rightarrow> int \<Rightarrow> int \<Rightarrow> ('s, string page) reading"
  be_SetMountGrant :: "string \<Rightarrow> string \<Rightarrow> ('s, unit) writing"
  be_DeleteMountGrant :: "string \<Rightarrow> string \<Rightarrow> ('s, unit) writing"

record 's Backend =
  Users :: "'s UserBackend"
  Creds :: "'s CredentialsBackend"
  Namespaces :: "'s NamespaceBackend"
  Resources :: "'s ResourceBackend"
  Roles :: "'s AuthorizationBackend"
  Mounts :: "'s MountBackend"
  MountGrants :: "'s MountGrantBackend"

end
