(* ===== verification/Idgen.thy ===== *)
theory Idgen
  imports Errors
begin

text \<open>
  The package \<^verbatim>\<open>internal/idgen\<close>. An identifier generation function maps a round number
  to a sequence of pairs of a candidate and an error; a sequence may be finite, infinite or
  empty. It is modelled by the element at a position of the sequence of a round, \<open>None\<close> past its end; what is
  yielded may depend on the value the caller's counter \<^verbatim>\<open>total\<close> has at that moment, which is
  \<open>None\<close> for a nil counter. \<open>pull_next\<close> is the function \<^verbatim>\<open>next\<close> that \<^verbatim>\<open>PullIDs\<close> returns; its state is
  the point where the coroutine is suspended.
\<close>

type_synonym id_generator = "int option \<Rightarrow> 64 word \<Rightarrow> nat \<Rightarrow> (string \<times> gerr option) option"

record pull_state =
  pl_round :: "64 word"
  pl_pos :: nat
  pl_done :: bool

definition PullIDs :: pull_state where
  "PullIDs = \<lparr>pl_round = 0, pl_pos = 0, pl_done = False\<rparr>"

definition pull_stop :: "pull_state \<Rightarrow> pull_state" where
  "pull_stop st = st\<lparr>pl_done := True\<rparr>"

text \<open>
  After an element with an error the loop breaks and the next round starts; after another element it
  continues in the same sequence. At the end of a sequence that had an element, the next round is
  tried once: if its sequence is empty too, the operation ends.
\<close>

definition pull_yield :: "pull_state \<Rightarrow> string \<times> gerr option \<Rightarrow> (gerr, string) res \<times> pull_state" where
  "pull_yield st x =
     (case x of
        (pid, None) \<Rightarrow> (Ok pid, st\<lparr>pl_pos := pl_pos st + 1\<rparr>)
      | (pid, Some e) \<Rightarrow> (Err e, st\<lparr>pl_round := pl_round st + 1, pl_pos := 0\<rparr>))"

definition pull_next ::
  "id_generator \<Rightarrow> int option \<Rightarrow> pull_state \<Rightarrow> (gerr, string) res \<times> pull_state" where
  "pull_next gen tot st =
     (if pl_done st then (Err (Sentinel ErrEOF), st)
      else case gen tot (pl_round st) (pl_pos st) of
        Some x \<Rightarrow> pull_yield st x
      | None \<Rightarrow>
          if pl_pos st = 0 then (Err (Sentinel ErrEOF), pull_stop st)
          else let st' = st\<lparr>pl_round := pl_round st + 1, pl_pos := 0\<rparr>
               in (case gen tot (pl_round st') 0 of
                     Some x \<Rightarrow> pull_yield st' x
                   | None \<Rightarrow> (Err (Sentinel ErrEOF), pull_stop st')))"

section \<open>The stream\<close>

text \<open>The results of \<open>n\<close> calls in a row.\<close>

fun pull_many ::
  "id_generator \<Rightarrow> int option \<Rightarrow> nat \<Rightarrow> pull_state \<Rightarrow> (gerr, string) res list" where
  "pull_many gen tot 0 st = []"
| "pull_many gen tot (Suc n) st =
     (let (r, st') = pull_next gen tot st in r # pull_many gen tot n st')"

text \<open>A generator that yields the lists of \<open>ls\<close>, one per round, and is empty from then on.\<close>

definition list_generator :: "string list list \<Rightarrow> id_generator" where
  "list_generator ls tot round i =
     (if unat round < length ls \<and> i < length (ls ! unat round)
      then Some (ls ! unat round ! i, None) else None)"

lemma pull_many_done: "pl_done st \<Longrightarrow> pull_many gen tot n st = replicate n (Err (Sentinel ErrEOF))"
  by (induction n) (simp_all add: pull_next_def)

definition at_round :: "nat \<Rightarrow> nat \<Rightarrow> pull_state" where
  "at_round k i = \<lparr>pl_round = of_nat k, pl_pos = i, pl_done = False\<rparr>"

lemma unat_round: "k < 2 ^ 64 \<Longrightarrow> unat (of_nat k :: 64 word) = k"
  by (simp add: unat_of_nat)

lemma pull_next_inside:
  assumes "k < length ls" and "length ls < 2 ^ 64" and "i < length (ls ! k)"
  shows "pull_next (list_generator ls) tot (at_round k i) = (Ok (ls ! k ! i), at_round k (i + 1))"
  using assms unat_round [of k]
  by (simp add: pull_next_def at_round_def list_generator_def pull_yield_def)

lemma pull_next_end:
  assumes "k < length ls" and "length ls < 2 ^ 64" and "ls ! k \<noteq> []"
  shows "pull_next (list_generator ls) tot (at_round k (length (ls ! k))) =
    pull_next (list_generator ls) tot (at_round (Suc k) 0)"
proof -
  have k: "unat (of_nat k :: 64 word) = k" "unat (of_nat (Suc k) :: 64 word) = Suc k"
    using assms by (simp_all add: unat_round del: of_nat_Suc)
  then show ?thesis
    using assms
    by (simp add: pull_next_def at_round_def list_generator_def Let_def pull_stop_def add.commute
        split: option.splits)
qed

lemma pull_many_inside:
  assumes "k < length ls" and "length ls < 2 ^ 64"
  shows "i + m \<le> length (ls ! k) \<Longrightarrow>
    pull_many (list_generator ls) tot (m + n) (at_round k i) =
      map Ok (take m (drop i (ls ! k))) @ pull_many (list_generator ls) tot n (at_round k (i + m))"
proof (induction m arbitrary: i)
  case (Suc m)
  then have "i < length (ls ! k)" by simp
  with Suc.IH [of "Suc i"] Suc.prems show ?case
    by (simp add: pull_next_inside [OF assms] Cons_nth_drop_Suc [symmetric])
qed simp

lemma pull_many_cong:
  "pull_next gen tot st = pull_next gen tot st' \<Longrightarrow>
     pull_many gen tot n st = pull_many gen tot n st'"
  by (cases n) simp_all

lemma pull_many_rounds:
  assumes "length ls < 2 ^ 64" and "\<forall>l \<in> set ls. l \<noteq> []"
  shows "k \<le> length ls \<Longrightarrow> pull_many (list_generator ls) tot (length (concat (drop k ls)) + n) (at_round k 0) =
    map Ok (concat (drop k ls)) @ replicate n (Err (Sentinel ErrEOF))"
proof (induction "length ls - k" arbitrary: k)
  case 0
  then have k: "k = length ls" by simp
  have "pull_next (list_generator ls) tot (at_round k 0) =
      (Err (Sentinel ErrEOF), pull_stop (at_round k 0))"
    using assms(1) k by (simp add: pull_next_def at_round_def list_generator_def unat_round)
  then show ?case
    using k by (cases n) (simp_all add: pull_many_done pull_stop_def)
next
  case (Suc d)
  then have k: "k < length ls" by simp
  let ?l = "ls ! k"
  have ne: "?l \<noteq> []" using assms(2) k by simp
  have dr: "drop k ls = ?l # drop (Suc k) ls" using k by (simp add: Cons_nth_drop_Suc)
  have "pull_many (list_generator ls) tot (length (concat (drop k ls)) + n) (at_round k 0) =
      map Ok ?l @ pull_many (list_generator ls) tot (length (concat (drop (Suc k) ls)) + n)
        (at_round k (length ?l))"
    using pull_many_inside [OF k assms(1), of 0 "length ?l" tot] by (simp add: dr add.assoc)
  also have "\<dots> = map Ok ?l @ pull_many (list_generator ls) tot (length (concat (drop (Suc k) ls)) + n)
        (at_round (Suc k) 0)"
    by (simp add: pull_many_cong [OF pull_next_end [OF k assms(1) ne]])
  finally show ?case
    using Suc.hyps(1) [of "Suc k"] Suc.hyps(2) k dr by simp
qed

section \<open>Properties\<close>

text \<open>
  Consecutive rounds are joined into one stream. If the generator yields the non-empty sequences
  \<open>ls\<close> in rounds 0, 1, \<dots> and then an empty one, the calls to \<^verbatim>\<open>next\<close> return the elements of all the
  sequences in order, each exactly once, and every later call returns end of file.
\<close>

lemma PullIDs_stream:
  assumes "length ls < 2 ^ 64" and "\<forall>l \<in> set ls. l \<noteq> []"
  shows "pull_many (list_generator ls) tot (length (concat ls) + n) PullIDs =
    map Ok (concat ls) @ replicate n (Err (Sentinel ErrEOF))"
  using pull_many_rounds [OF assms, of 0 tot n] by (simp add: PullIDs_def at_round_def)

end
