(* ===== verification/Paged_Filter.thy ===== *)
theory Paged_Filter
  imports Errors
begin

text \<open>
  The package \<^verbatim>\<open>internal/filter\<close>. \<open>Filter\<close> reads a paginated source to its end, keeps the
  items that satisfy a condition, and paginates what it kept. The producer goroutine and the
  consumer communicate over one channel that is closed at the end, so the consumer sees the
  items in the order in which the producer sends them; the model runs the two in turn, page by page.
  The loop over pages need not end for a misbehaving source and is a
  \<^theory_text>\<open>partial_function (option)\<close>.
\<close>

record 'a filter_result =
  fr_Items :: "'a list"
  fr_Total :: int
  fr_Offset :: int

type_synonym 'a getter = "int \<Rightarrow> int \<Rightarrow> (gerr, 'a list) res"

fun filter_items ::
  "('a \<Rightarrow> (gerr, bool) res) \<Rightarrow> int \<Rightarrow> int \<Rightarrow> 'a list \<Rightarrow> 'a filter_result \<Rightarrow> (gerr, 'a filter_result) res" where
  "filter_items condition limit offset [] r = Ok r"
| "filter_items condition limit offset (v # vs) r =
     (case condition v of
        Err e \<Rightarrow> Err (Fmt [e])
      | Panic \<Rightarrow> Panic
      | Ok include \<Rightarrow>
          if \<not> include then filter_items condition limit offset vs r
          else let r = r\<lparr>fr_Total := fr_Total r + 1\<rparr>;
                   r = (if fr_Total r > offset \<and> int (length (fr_Items r)) < limit
                        then r\<lparr>fr_Items := fr_Items r @ [v]\<rparr> else r)
               in filter_items condition limit offset vs r)"

partial_function (option) filter_pages ::
  "'a getter \<Rightarrow> ('a \<Rightarrow> (gerr, bool) res) \<Rightarrow> int \<Rightarrow> int \<Rightarrow> int \<Rightarrow> int \<Rightarrow> 'a filter_result \<Rightarrow>
     (gerr, 'a filter_result) res option" where
  "filter_pages get condition pageLimit limit offset pageOffset r =
     (case get pageLimit pageOffset of
        Err e \<Rightarrow> Some (Err (Fmt [e]))
      | Panic \<Rightarrow> Some Panic
      | Ok page \<Rightarrow>
          (case filter_items condition limit offset page r of
             Ok r' \<Rightarrow>
               if length page = 0 \<or> int (length page) < pageLimit then Some (Ok r')
               else filter_pages get condition pageLimit limit offset
                      (pageOffset + int (length page)) r'
           | Err e \<Rightarrow> Some (Err e)
           | Panic \<Rightarrow> Some Panic))"

definition Filter ::
  "'a getter \<Rightarrow> ('a \<Rightarrow> (gerr, bool) res) \<Rightarrow> int \<Rightarrow> int \<Rightarrow> int \<Rightarrow> (gerr, 'a filter_result) res option" where
  "Filter get condition pageLimit limit offset =
     (if pageLimit < 0 then Some Panic
      else map_option (\<lambda>r. bind_res r (\<lambda>r. Ok (r\<lparr>fr_Offset := offset\<rparr>)))
        (filter_pages get condition pageLimit limit offset 0
           \<lparr>fr_Items = [], fr_Total = 0, fr_Offset = 0\<rparr>))"

section \<open>What the source promises\<close>

text \<open>
  The contract of a paginated source: the pages are windows of one list. Every \<open>List*\<close> operation
  of a backend that the service passes to \<open>Filter\<close> has to meet it.
\<close>

locale paged_source =
  fixes get :: "'a getter" and source :: "'a list"
  assumes get_window: "\<And>limit offset. 0 < limit \<Longrightarrow> 0 \<le> offset \<Longrightarrow> offset \<le> int (length source) \<Longrightarrow>
      limit + offset \<le> max_int \<Longrightarrow> get limit offset = Ok (take (nat limit) (drop (nat offset) source))"
begin

text \<open>The state after some items: the matches so far, counted and cut to the window.\<close>

definition cut :: "int \<Rightarrow> int \<Rightarrow> 'a list \<Rightarrow> 'a filter_result" where
  "cut limit offset ms =
     \<lparr>fr_Items = take (nat limit) (drop (nat offset) ms), fr_Total = int (length ms), fr_Offset = 0\<rparr>"

lemma cut_snoc:
  assumes "0 \<le> offset"
  shows "cut limit offset (ms @ [v]) =
    (let r = (cut limit offset ms)\<lparr>fr_Total := fr_Total (cut limit offset ms) + 1\<rparr>
     in if fr_Total r > offset \<and> int (length (fr_Items r)) < limit
        then r\<lparr>fr_Items := fr_Items r @ [v]\<rparr> else r)"
proof (cases "int (length ms) < offset")
  case True
  then show ?thesis by (simp add: cut_def Let_def)
next
  case False
  then have d: "drop (nat offset) (ms @ [v]) = drop (nat offset) ms @ [v]" by simp
  show ?thesis
  proof (cases "int (length ms) - offset < limit")
    case True
    then have "length (drop (nat offset) ms) < nat limit" using False assms by simp
    then show ?thesis
      using False assms True by (simp add: cut_def Let_def d)
  next
    case big: False
    then have "nat limit \<le> length (drop (nat offset) ms)" using False assms by simp
    then show ?thesis
      using False big assms by (simp add: cut_def Let_def d min_def)
  qed
qed

lemma filter_items_cut:
  assumes "0 \<le> offset" and "\<And>x. x \<in> set vs \<Longrightarrow> condition x = Ok (P x)"
  shows "filter_items condition limit offset vs (cut limit offset ms) =
    Ok (cut limit offset (ms @ filter P vs))"
  using assms(2)
proof (induction vs arbitrary: ms)
  case (Cons v vs)
  then show ?case
    using cut_snoc [OF assms(1), of limit ms v] Cons.IH [of "ms @ [v]"] Cons.IH [of ms]
    by (simp add: Let_def)
qed simp

lemma filter_pages_cut:
  assumes "0 \<le> offset" and "0 < pageLimit" and "int (length source) + pageLimit \<le> max_int"
    and "\<And>x. x \<in> set source \<Longrightarrow> condition x = Ok (P x)"
  shows "p \<le> length source \<Longrightarrow>
    filter_pages get condition pageLimit limit offset (int p) (cut limit offset (filter P (take p source))) =
      Some (Ok (cut limit offset (filter P source)))"
proof (induction "length source - p" arbitrary: p rule: less_induct)
  case less
  let ?page = "take (nat pageLimit) (drop p source)"
  have g: "get pageLimit (int p) = Ok ?page"
    using get_window [of pageLimit "int p"] assms less.prems by simp
  have tk: "take p source @ ?page = take (p + nat pageLimit) source"
    by (simp add: take_add)
  have items: "filter_items condition limit offset ?page (cut limit offset (filter P (take p source))) =
      Ok (cut limit offset (filter P (take (p + nat pageLimit) source)))"
    using filter_items_cut [OF assms(1), of ?page condition P limit "filter P (take p source)"]
      assms(4) set_take_subset set_drop_subset tk
    by (metis (no_types, lifting) filter_append subsetD)
  show ?case
  proof (cases "length ?page = 0 \<or> int (length ?page) < pageLimit")
    case True
    then have "length source \<le> p + nat pageLimit" using assms(2) less.prems by auto
    then have "take (p + nat pageLimit) source = source" by simp
    then show ?thesis
      using True items by (subst filter_pages.simps) (simp add: g)
  next
    case False
    then have len: "length ?page = nat pageLimit" "p + nat pageLimit \<le> length source"
      using assms(2) by auto
    then have "length source - (p + nat pageLimit) < length source - p" using assms(2) by simp
    from less.hyps [OF this len(2)] show ?thesis
      using False items len assms(2) by (subst filter_pages.simps) (simp add: g)
  qed
qed

lemma Filter_correct:
  assumes "0 \<le> offset" and "0 < pageLimit" and "int (length source) + pageLimit \<le> max_int"
    and "\<And>x. x \<in> set source \<Longrightarrow> condition x = Ok (P x)"
  shows "Filter get condition pageLimit limit offset =
    Some (Ok \<lparr>fr_Items = take (nat limit) (drop (nat offset) (filter P source)),
              fr_Total = int (length (filter P source)), fr_Offset = offset\<rparr>)"
  using filter_pages_cut [of offset pageLimit condition P 0 limit, OF assms] assms(2)
  by (simp add: Filter_def cut_def)

end

section \<open>A list as a source\<close>

definition list_getter :: "'a list \<Rightarrow> 'a getter" where
  "list_getter xs limit offset = bind_res (paginate xs limit offset) (\<lambda>pg. Ok (pg_Items pg))"

interpretation list_src: paged_source "list_getter xs" xs for xs :: "'a list"
  by unfold_locales (simp add: list_getter_def paginate_window page_window_def)

section \<open>Properties\<close>

text \<open>
  C18. Filtering a paginated listing returns what filtering the whole listing would. For a source that
  serves the pages of a list and a condition without errors, \<open>Filter\<close> terminates, \<open>Total\<close> is the
  number of matching items in the whole source, and \<open>Items\<close> is the requested window of the
  matching items, in the order of the source, whatever page size is used internally.
\<close>

theorem Filter_window:
  assumes "0 \<le> offset" and "0 < pageLimit" and "int (length xs) + pageLimit \<le> max_int"
    and "\<And>x. x \<in> set xs \<Longrightarrow> condition x = Ok (P x)"
  shows "Filter (list_getter xs) condition pageLimit limit offset =
    Some (Ok \<lparr>fr_Items = take (nat limit) (drop (nat offset) (filter P xs)),
              fr_Total = int (length (filter P xs)), fr_Offset = offset\<rparr>)"
  using assms by (rule list_src.Filter_correct)

theorem Filter_window_witness:
  "Filter (list_getter [1, 2, 3, 4, 5, 6, 7 :: int]) (\<lambda>x. Ok (odd x)) 2 2 1 =
     Some (Ok \<lparr>fr_Items = [3, 5], fr_Total = 4, fr_Offset = 1\<rparr>)"
proof -
  have "Filter (list_getter [1, 2, 3, 4, 5, 6, 7 :: int]) (\<lambda>x. Ok (odd x)) 2 2 1 =
     Some (Ok \<lparr>fr_Items = take (nat 2) (drop (nat 1) (filter odd [1, 2, 3, 4, 5, 6, 7])),
       fr_Total = int (length (filter odd [1, 2, 3, 4, 5, 6, 7 :: int])), fr_Offset = 1\<rparr>)"
    by (rule Filter_window) (simp_all add: max_int_def)
  then show ?thesis by (simp add: numeral_2_eq_2)
qed

end
