(* ===== verification/Service.thy ===== *)
theory Service
  imports Backend Idgen Paged_Filter
begin

text \<open>
  The package \<^verbatim>\<open>service\<close>, first part: options and limits, and the operations on namespaces,
  resources, roles, mounts and mount grants, over an arbitrary backend and runtime. A
  call of \<^verbatim>\<open>s.runtime.Now\<close> is an argument; where an operation calls it once per attempt, the argument is a
  clock that maps the number of the attempt to the instant. The regular expression engine is a parameter.
  The backend calls of one operation follow each other without another request in between.
\<close>

section \<open>Options (service/options.go)\<close>

record Limits =
  lim_MaxBodyBytes :: int
  lim_DefaultPageLimit :: int
  lim_MaxPageLimit :: int
  lim_MaxBatchItems :: int
  lim_MaxAutocompleteUsers :: int
  lim_MaxNamespaceIDAttempts :: int
  lim_MaxPIDAttempts :: int
  lim_MaxAPIKeyAttempts :: int

record Options =
  opt_InfoEnabled :: bool
  opt_Anonymous :: bool
  opt_Limits :: Limits

definition InternalPageLimit :: "Limits \<Rightarrow> int" where
  "InternalPageLimit limit =
     (if lim_MaxPageLimit limit > 0 \<and> lim_DefaultPageLimit limit > lim_MaxPageLimit limit
      then lim_MaxPageLimit limit else lim_DefaultPageLimit limit)"

definition DefaultLimits :: Limits where
  "DefaultLimits = \<lparr>lim_MaxBodyBytes = 2 ^ 20, lim_DefaultPageLimit = 100, lim_MaxPageLimit = 1000,
     lim_MaxBatchItems = 100, lim_MaxAutocompleteUsers = 10, lim_MaxNamespaceIDAttempts = 100,
     lim_MaxPIDAttempts = 100, lim_MaxAPIKeyAttempts = 100\<rparr>"

text \<open>The assignments of the source touch different fields and are written as one record.\<close>

definition WithValidValues :: "Limits \<Rightarrow> Limits" where
  "WithValidValues l =
     \<lparr>lim_MaxBodyBytes = (if lim_MaxBodyBytes l < 0 then 0 else lim_MaxBodyBytes l),
      lim_DefaultPageLimit = (if lim_DefaultPageLimit l < 1 then 1 else lim_DefaultPageLimit l),
      lim_MaxPageLimit = (if lim_MaxPageLimit l < 0 then 0 else lim_MaxPageLimit l),
      lim_MaxBatchItems = (if lim_MaxBatchItems l < 0 then 0 else lim_MaxBatchItems l),
      lim_MaxAutocompleteUsers = (if lim_MaxAutocompleteUsers l < 1 then 1 else lim_MaxAutocompleteUsers l),
      lim_MaxNamespaceIDAttempts = (if lim_MaxNamespaceIDAttempts l < 1 then 1 else lim_MaxNamespaceIDAttempts l),
      lim_MaxPIDAttempts = (if lim_MaxPIDAttempts l < 1 then 1 else lim_MaxPIDAttempts l),
      lim_MaxAPIKeyAttempts = (if lim_MaxAPIKeyAttempts l < 1 then 1 else lim_MaxAPIKeyAttempts l)\<rparr>"

definition withValidValues :: "Options \<Rightarrow> Options" where
  "withValidValues opts = opts\<lparr>opt_Limits := WithValidValues (opt_Limits opts)\<rparr>"

section \<open>The service (service/service.go, service/runtime.go)\<close>

record Runtime =
  rt_NewNamespaceID :: "int \<Rightarrow> id_generator"
  rt_NewAPIKeyID :: "int \<Rightarrow> id_generator"
  rt_NewAPIKey :: "key_format \<Rightarrow> int \<Rightarrow> id_generator"
  rt_NewPID :: "pid_format \<Rightarrow> int \<Rightarrow> id_generator"

record 's Service =
  sv_opts :: Options
  sv_runtime :: Runtime
  sv_backend :: "'s Backend"

definition Service_New :: "'s Backend \<Rightarrow> Runtime \<Rightarrow> Options \<Rightarrow> 's Service" where
  "Service_New backend runtime opts =
     \<lparr>sv_opts = withValidValues opts, sv_runtime = runtime, sv_backend = backend\<rparr>"

definition SetOptions :: "Options \<Rightarrow> 's Service \<Rightarrow> 's Service" where
  "SetOptions opts s = s\<lparr>sv_opts := withValidValues opts\<rparr>"

definition AnonymousMode :: "'s Service \<Rightarrow> bool" where
  "AnonymousMode s = opt_Anonymous (sv_opts s)"

abbreviation limits :: "'s Service \<Rightarrow> Limits" where
  "limits sv \<equiv> opt_Limits (sv_opts sv)"

text \<open>
  Most operations test the backend's error against a list of sentinels in order, attach the code of the
  first that matches, and \<^verbatim>\<open>DatabaseError\<close> otherwise.
\<close>

definition translate :: "(sentinel \<times> ErrorCode) list \<Rightarrow> gerr \<Rightarrow> gerr" where
  "translate table e =
     (case List.find (\<lambda>(s, _). errors_is e s) table of
        Some (_, c) \<Rightarrow> WithErrorCode (Fmt [e]) c
      | None \<Rightarrow> WithErrorCode (Fmt [e]) DatabaseError)"

definition reply :: "(sentinel \<times> ErrorCode) list \<Rightarrow> (gerr, 'a) res \<Rightarrow> (gerr, 'a) res" where
  "reply table r = (case r of Ok x \<Rightarrow> Ok x | Err e \<Rightarrow> Err (translate table e) | Panic \<Rightarrow> Panic)"

definition fmap_res :: "('a \<Rightarrow> 'b) \<Rightarrow> (gerr, 'a) res \<Rightarrow> (gerr, 'b) res" where
  "fmap_res f r = (case r of Ok x \<Rightarrow> Ok (f x) | Err e \<Rightarrow> Err e | Panic \<Rightarrow> Panic)"

text \<open>The total of a listing that only counts; a failing query leaves it unknown.\<close>

definition count_total :: "(gerr, 'a page) res \<Rightarrow> (gerr, int option) res" where
  "count_total r =
     (case r of Ok pg \<Rightarrow> Ok (Some (pg_Total pg)) | Err _ \<Rightarrow> Ok None | Panic \<Rightarrow> Panic)"

definition errInsufficientEntropy :: gerr where
  "errInsufficientEntropy = WithErrorCode (Fmt [Sentinel (Named ''errInsufficientEntropy'')]) InsufficientEntropy"

definition existing_user_lost :: "gerr \<Rightarrow> gerr" where
  "existing_user_lost e = WithErrorCode (Fmt [Sentinel (Named ''errExistingUserNotFound''), e]) DatabaseError"

section \<open>Namespaces (service/namespaces.go)\<close>

definition listVisibleNamespaces ::
  "'s Service \<Rightarrow> caller option \<Rightarrow> ListNamespacesParams \<Rightarrow> (string \<Rightarrow> bool) \<Rightarrow> 's \<Rightarrow>
     (gerr, NamespaceResponse page) res option" where
  "listVisibleNamespaces sv caller params checkAccess s =
     (let list = (\<lambda>ps. reply [] (be_ListNamespaces (Namespaces (sv_backend sv)) ps s)) in
      case caller of
        None \<Rightarrow> Some (list params)
      | Some _ \<Rightarrow>
          map_option (\<lambda>r. case r of
              Ok filtered \<Rightarrow> Ok \<lparr>pg_Total = fr_Total filtered, pg_Offset = fr_Offset filtered, pg_Items = fr_Items filtered\<rparr>
            | Err e \<Rightarrow> Err (WithErrorCode (Fmt [e]) DatabaseError)
            | Panic \<Rightarrow> Panic)
          (Filter
             (\<lambda>limit offset. fmap_res pg_Items (list (params\<lparr>lnp_Limit := limit, lnp_Offset := offset\<rparr>)))
             (\<lambda>ns. case NewNamespaceID (nr_ID ns) of
                     Ok name \<Rightarrow> Ok (checkAccess name)
                   | Err e \<Rightarrow> Err (WithErrorCode (Fmt [e]) DatabaseError)
                   | Panic \<Rightarrow> Panic)
             (InternalPageLimit (limits sv)) (lnp_Limit params) (lnp_Offset params)))"

definition svc_ListNamespaces ::
  "'s Service \<Rightarrow> caller option \<Rightarrow> ListNamespacesParams \<Rightarrow> (string \<Rightarrow> bool) \<Rightarrow> 's \<Rightarrow>
     (gerr, NamespaceResponse page) res option" where
  "svc_ListNamespaces sv caller params checkAccess s =
     (let callerToFilterBy = (if caller \<noteq> None \<and> \<not> Caller_Superuser caller then caller else None) in
      map_option (\<lambda>r. case r of
          Ok out \<Rightarrow> Ok out
        | Err e \<Rightarrow> Err (if errors_is e ErrUserNotFound then existing_user_lost e
                         else WithErrorCode (Fmt [e]) DatabaseError)
        | Panic \<Rightarrow> Panic)
      (listVisibleNamespaces sv callerToFilterBy params checkAccess s))"

definition svc_GetNamespace :: "'s Service \<Rightarrow> string \<Rightarrow> ('s, NamespaceResponse) reading" where
  "svc_GetNamespace sv namespace s =
     reply [(ErrNamespaceNotFound, NamespaceNotFound)] (be_GetNamespace (Namespaces (sv_backend sv)) namespace s)"

definition svc_UpdateNamespace ::
  "'s Service \<Rightarrow> string \<Rightarrow> NamespaceUpdateRequest \<Rightarrow> time \<Rightarrow> ('s, NamespaceResponse) writing" where
  "svc_UpdateNamespace sv namespace req now s =
     apfst (reply [(ErrNamespaceNotFound, NamespaceNotFound)])
       (be_UpdateNamespace (Namespaces (sv_backend sv)) namespace req now s)"

fun create_namespace_loop ::
  "'s Service \<Rightarrow> id_generator \<Rightarrow> int option \<Rightarrow> NamespaceCreateRequest \<Rightarrow> string option \<Rightarrow> (nat \<Rightarrow> time) \<Rightarrow>
     nat \<Rightarrow> pull_state \<Rightarrow> ('s, NamespaceResponse) writing" where
  "create_namespace_loop sv gen tot req owner clock 0 st s = (Err errInsufficientEntropy, s)"
| "create_namespace_loop sv gen tot req owner clock (Suc k) st s =
     (case pull_next gen tot st of
        (Err e, _) \<Rightarrow> (Err (WithErrorCode (Fmt [e]) BadIDGeneration), s)
      | (Panic, _) \<Rightarrow> (Panic, s)
      | (Ok name, st') \<Rightarrow>
          (case NewNamespaceID name of
             Err _ \<Rightarrow> (Err (WithErrorCode (Fmt [Sentinel (Named ''errBadNamespaceID'')]) BadIDGeneration), s)
           | Panic \<Rightarrow> (Panic, s)
           | Ok namespace \<Rightarrow>
               (case be_CreateNamespace (Namespaces (sv_backend sv)) namespace req owner (clock k) s of
                  (Ok out, s') \<Rightarrow> (Ok out, s')
                | (Panic, s') \<Rightarrow> (Panic, s')
                | (Err e, s') \<Rightarrow>
                    if errors_is e ErrUserNotFound then (Err (existing_user_lost e), s')
                    else if \<not> errors_is e ErrDuplicateNamespaceID
                    then (Err (WithErrorCode (Fmt [e]) DatabaseError), s')
                    else create_namespace_loop sv gen tot req owner clock k st' s')))"

definition svc_CreateNamespace ::
  "'s Service \<Rightarrow> caller option \<Rightarrow> NamespaceCreateRequest \<Rightarrow> (nat \<Rightarrow> time) \<Rightarrow> ('s, NamespaceResponse) writing" where
  "svc_CreateNamespace sv caller req clock s =
     (let maxAttempts = lim_MaxNamespaceIDAttempts (limits sv) in
      case count_total (be_ListNamespaces (Namespaces (sv_backend sv))
             \<lparr>lnp_Tag = None, lnp_Limit = 0, lnp_Offset = 0\<rparr> s) of
        Ok tot \<Rightarrow>
          create_namespace_loop sv (rt_NewNamespaceID (sv_runtime sv) maxAttempts) tot req
            (map_option cl_username caller) clock (nat maxAttempts) PullIDs s
      | Err e \<Rightarrow> (Err e, s)
      | Panic \<Rightarrow> (Panic, s))"

section \<open>Resources (service/resources.go)\<close>

datatype ResourceGetResult = FullResource ResourceResponse | RedactedResource RedactedResourceResponse

definition svc_CountAllResources :: "'s Service \<Rightarrow> ('s, int) reading" where
  "svc_CountAllResources sv s = reply [] (be_CountAllResources (Resources (sv_backend sv)) s)"

definition svc_ListResources ::
  "'s Service \<Rightarrow> string \<Rightarrow> ListResourcesParams \<Rightarrow> ('s, ResourceResponse page) reading" where
  "svc_ListResources sv namespace params s =
     reply [(ErrNamespaceNotFound, NamespaceNotFound)]
       (be_ListResources (Resources (sv_backend sv)) namespace params s)"

text \<open>
  The innermost loop of \<^verbatim>\<open>allocatePIDs\<close>: up to \<open>maxAttempts\<close> candidates for one slot of the batch; \<open>None\<close>
  if every one of them was already in the batch, which leaves the slot at the zero value.
\<close>

fun candidate_loop ::
  "id_generator \<Rightarrow> int option \<Rightarrow> nat \<Rightarrow> string list \<Rightarrow> pull_state \<Rightarrow>
     (gerr, string option) res \<times> string list \<times> pull_state" where
  "candidate_loop gen tot 0 seen st = (Ok None, seen, st)"
| "candidate_loop gen tot (Suc k) seen st =
     (case pull_next gen tot st of
        (Err e, st') \<Rightarrow> (Err (WithErrorCode (Fmt [e]) BadIDGeneration), seen, st')
      | (Panic, st') \<Rightarrow> (Panic, seen, st')
      | (Ok candidate, st') \<Rightarrow>
          if candidate \<in> set seen then candidate_loop gen tot k seen st'
          else (case NewPID candidate of
                  Ok p \<Rightarrow> (Ok (Some p), candidate # seen, st')
                | Err e \<Rightarrow> (Err (WithErrorCode (Fmt [e]) BadIDGeneration), candidate # seen, st')
                | Panic \<Rightarrow> (Panic, candidate # seen, st')))"

text \<open>The loop over the slots; \<^verbatim>\<open>pids[i].String()\<close> panics for a slot that was left at the zero value.\<close>

fun slots_loop ::
  "id_generator \<Rightarrow> pid_format \<Rightarrow> nat \<Rightarrow> nat \<Rightarrow> string list \<Rightarrow> string list \<Rightarrow> int option \<Rightarrow> pull_state \<Rightarrow>
     (gerr, string list) res \<times> int option \<times> pull_state" where
  "slots_loop gen format maxAttempts 0 pids seen tot st = (Ok pids, tot, st)"
| "slots_loop gen format maxAttempts (Suc n) pids seen tot st =
     (case candidate_loop gen tot maxAttempts seen st of
        (Err e, _, st') \<Rightarrow> (Err e, tot, st')
      | (Panic, _, st') \<Rightarrow> (Panic, tot, st')
      | (Ok None, _, st') \<Rightarrow> (Panic, tot, st')
      | (Ok (Some p), seen', st') \<Rightarrow>
          if \<not> IsValid format p
          then (Err (WithErrorCode (Fmt [Sentinel (Named ''errBadPID'')]) BadIDGeneration), tot, st')
          else slots_loop gen format maxAttempts n (pids @ [p]) seen' (map_option (\<lambda>t. t + 1) tot) st')"

fun allocate_loop ::
  "id_generator \<Rightarrow> pid_format \<Rightarrow> nat \<Rightarrow> nat \<Rightarrow> (time \<Rightarrow> string list \<Rightarrow> ('s, ResourceResponse list) writing) \<Rightarrow>
     (nat \<Rightarrow> time) \<Rightarrow> nat \<Rightarrow> int option \<Rightarrow> pull_state \<Rightarrow> ('s, ResourceResponse list) writing" where
  "allocate_loop gen format maxAttempts n ins clock 0 tot st s = (Err errInsufficientEntropy, s)"
| "allocate_loop gen format maxAttempts n ins clock (Suc k) tot st s =
     (case slots_loop gen format maxAttempts n [] [] tot st of
        (Err e, _, _) \<Rightarrow> (Err e, s)
      | (Panic, _, _) \<Rightarrow> (Panic, s)
      | (Ok pids, tot', st') \<Rightarrow>
          (case ins (clock k) pids s of
             (Ok out, s') \<Rightarrow> (Ok out, s')
           | (Panic, s') \<Rightarrow> (Panic, s')
           | (Err e, s') \<Rightarrow>
               if \<not> errors_is e ErrPIDAllocationFailed then (Err (WithErrorCode e DatabaseError), s')
               else allocate_loop gen format maxAttempts n ins clock k tot' st' s'))"

definition allocatePIDs ::
  "'s Service \<Rightarrow> pid_format \<Rightarrow> int option \<Rightarrow> nat \<Rightarrow> (time \<Rightarrow> string list \<Rightarrow> ('s, ResourceResponse list) writing) \<Rightarrow>
     (nat \<Rightarrow> time) \<Rightarrow> ('s, ResourceResponse list) writing" where
  "allocatePIDs sv format tot n ins clock s =
     (if n = 0 then (Ok [], s)
      else let maxAttempts = lim_MaxPIDAttempts (limits sv)
           in allocate_loop (rt_NewPID (sv_runtime sv) format (wrap_int (maxAttempts * int n))) format
                (nat maxAttempts) n ins clock (nat maxAttempts) tot PullIDs s)"

definition allocatePID ::
  "'s Service \<Rightarrow> pid_format \<Rightarrow> int option \<Rightarrow> (time \<Rightarrow> string \<Rightarrow> ('s, ResourceResponse) writing) \<Rightarrow>
     (nat \<Rightarrow> time) \<Rightarrow> ('s, ResourceResponse) writing" where
  "allocatePID sv format tot ins clock s =
     apfst (fmap_res hd)
       (allocatePIDs sv format tot 1 (\<lambda>now pids s. apfst (fmap_res (\<lambda>r. [r])) (ins now (hd pids) s)) clock s)"

definition svc_CreateResource ::
  "'s Service \<Rightarrow> string \<Rightarrow> ResourceCreateRequest \<Rightarrow> (nat \<Rightarrow> time) \<Rightarrow> ('s, ResourceResponse) writing" where
  "svc_CreateResource sv namespace req clock s =
     (case reply [(ErrNamespaceNotFound, NamespaceNotFound)]
             (be_GetNamespace (Namespaces (sv_backend sv)) namespace s) of
        Err e \<Rightarrow> (Err e, s)
      | Panic \<Rightarrow> (Panic, s)
      | Ok ns \<Rightarrow>
          (case count_total (be_ListResources (Resources (sv_backend sv)) namespace
                  \<lparr>lrp_Tag = None, lrp_Deleted = None, lrp_Limit = 0, lrp_Offset = 0\<rparr> s) of
             Err e \<Rightarrow> (Err e, s)
           | Panic \<Rightarrow> (Panic, s)
           | Ok tot \<Rightarrow>
               allocatePID sv (nr_PIDFormat ns) tot
                 (\<lambda>now pid. be_CreateResource (Resources (sv_backend sv)) namespace pid req now) clock s))"

definition svc_BatchCreateResources ::
  "'s Service \<Rightarrow> string \<Rightarrow> ResourceCreateRequest list \<Rightarrow> (nat \<Rightarrow> time) \<Rightarrow> ('s, ResourceResponse list) writing" where
  "svc_BatchCreateResources sv namespace reqs clock s =
     (let maxBatch = lim_MaxBatchItems (limits sv) in
      if 0 < maxBatch \<and> maxBatch < int (length reqs)
      then (Err (WithErrorCode (Fmt [Sentinel (Named ''errLimitExceeded'')]) ItemLimitExceeded), s)
      else case reply [(ErrNamespaceNotFound, NamespaceNotFound)]
             (be_GetNamespace (Namespaces (sv_backend sv)) namespace s) of
        Err e \<Rightarrow> (Err e, s)
      | Panic \<Rightarrow> (Panic, s)
      | Ok ns \<Rightarrow>
          (case count_total (be_ListResources (Resources (sv_backend sv)) namespace
                  \<lparr>lrp_Tag = None, lrp_Deleted = None, lrp_Limit = 0, lrp_Offset = 0\<rparr> s) of
             Err e \<Rightarrow> (Err e, s)
           | Panic \<Rightarrow> (Panic, s)
           | Ok tot \<Rightarrow>
               allocatePIDs sv (nr_PIDFormat ns) tot (length reqs)
                 (\<lambda>now pids. be_BatchCreateResources (Resources (sv_backend sv)) namespace pids reqs now) clock s))"

definition svc_GetResource ::
  "'s Service \<Rightarrow> string \<Rightarrow> string \<Rightarrow> (unit \<Rightarrow> bool) \<Rightarrow> ('s, ResourceGetResult) reading" where
  "svc_GetResource sv namespace pid shouldRedact s =
     fmap_res (\<lambda>out. if rr_Deleted out \<and> shouldRedact () then RedactedResource (Redact out) else FullResource out)
       (reply [(ErrNamespaceNotFound, NamespaceNotFound), (ErrResourceNotFound, ResourceNotFound)]
          (be_GetResource (Resources (sv_backend sv)) namespace pid s))"

definition svc_UpdateResource ::
  "'s Service \<Rightarrow> string \<Rightarrow> string \<Rightarrow> ResourceUpdateRequest \<Rightarrow> time \<Rightarrow> ('s, ResourceResponse) writing" where
  "svc_UpdateResource sv namespace pid req now s =
     apfst (reply [(ErrNamespaceNotFound, NamespaceNotFound), (ErrResourceNotFound, ResourceNotFound)])
       (be_UpdateResource (Resources (sv_backend sv)) namespace pid req now s)"

section \<open>Roles (service/roles.go)\<close>

definition svc_GetNamespaceRole :: "'s Service \<Rightarrow> string \<Rightarrow> string \<Rightarrow> ('s, NamespaceRole) reading" where
  "svc_GetNamespaceRole sv namespace username s =
     fmap_res (\<lambda>role. \<lparr>nrl_Username = username, nrl_Role = role\<rparr>)
       (reply [(ErrNamespaceNotFound, NamespaceNotFound)]
          (be_GetNamespaceRole (Roles (sv_backend sv)) namespace username s))"

definition svc_ListNamespaceRoles ::
  "'s Service \<Rightarrow> string \<Rightarrow> int \<Rightarrow> int \<Rightarrow> ('s, NamespaceRole page) reading" where
  "svc_ListNamespaceRoles sv namespace limit offset s =
     reply [(ErrNamespaceNotFound, NamespaceNotFound)]
       (be_ListNamespaceRoles (Roles (sv_backend sv)) namespace limit offset s)"

definition svc_ListUserRoles :: "'s Service \<Rightarrow> caller \<Rightarrow> int \<Rightarrow> int \<Rightarrow> ('s, UserRole page) reading" where
  "svc_ListUserRoles sv caller limit offset s =
     reply [] (be_ListUserRoles (Roles (sv_backend sv)) (cl_username caller) limit offset s)"

definition svc_SetNamespaceRole ::
  "'s Service \<Rightarrow> string \<Rightarrow> string \<Rightarrow> Role \<Rightarrow> ('s, NamespaceRole) writing" where
  "svc_SetNamespaceRole sv namespace username role s =
     (if role = RoleNone then (Err (WithErrorCode (Sentinel ErrInvalidRole) InvalidRole), s)
      else case be_SetNamespaceRole (Roles (sv_backend sv)) namespace username role s of
        (Err e, s') \<Rightarrow> (Err (translate [(ErrInvalidRole, InvalidRole)] e), s')
      | (Panic, s') \<Rightarrow> (Panic, s')
      | (Ok _, s') \<Rightarrow>
          (fmap_res (\<lambda>role. \<lparr>nrl_Username = username, nrl_Role = role\<rparr>)
             (reply [(ErrNamespaceNotFound, NamespaceNotFound)]
                (be_GetNamespaceRole (Roles (sv_backend sv)) namespace username s')), s'))"

definition svc_DeleteNamespaceRole :: "'s Service \<Rightarrow> string \<Rightarrow> string \<Rightarrow> ('s, unit) writing" where
  "svc_DeleteNamespaceRole sv namespace username s =
     (case reply [(ErrNamespaceNotFound, NamespaceNotFound)]
             (be_GetNamespace (Namespaces (sv_backend sv)) namespace s) of
        Err e \<Rightarrow> (Err e, s)
      | Panic \<Rightarrow> (Panic, s)
      | Ok _ \<Rightarrow>
          apfst (reply [(ErrRoleNotFound, RoleNotFound)])
            (be_DeleteNamespaceRole (Roles (sv_backend sv)) namespace username s))"

definition ExplicitNamespaceRole :: "'s Service \<Rightarrow> string \<Rightarrow> string \<Rightarrow> ('s, Role) reading" where
  "ExplicitNamespaceRole sv namespace username s =
     reply [(ErrNamespaceNotFound, NamespaceNotFound)]
       (be_GetNamespaceRole (Roles (sv_backend sv)) namespace username s)"

section \<open>Mount grants (service/mount\_grants.go)\<close>

record regexp_engine =
  re_Compile :: "string \<Rightarrow> gerr option"
  re_MatchString :: "string \<Rightarrow> string \<Rightarrow> bool"

definition svc_ListUserMountGrants ::
  "'s Service \<Rightarrow> caller option \<Rightarrow> int \<Rightarrow> int \<Rightarrow> ('s, string page) reading" where
  "svc_ListUserMountGrants sv caller limit offset s =
     (case Caller_Username caller of
        None \<Rightarrow> Panic
      | Some u \<Rightarrow>
          (case be_ListUserMountGrants (MountGrants (sv_backend sv)) u limit offset s of
             Ok page \<Rightarrow> Ok page
           | Err e \<Rightarrow> Err (if errors_is e ErrUserNotFound then existing_user_lost e
                            else WithErrorCode (Fmt [e]) DatabaseError)
           | Panic \<Rightarrow> Panic))"

definition svc_SetMountGrant :: "'s Service \<Rightarrow> string \<Rightarrow> string \<Rightarrow> ('s, string) writing" where
  "svc_SetMountGrant sv username pattern s =
     apfst (\<lambda>r. fmap_res (\<lambda>_. pattern) (reply [(ErrUserNotFound, UserNotFound)] r))
       (be_SetMountGrant (MountGrants (sv_backend sv)) username pattern s)"

definition svc_DeleteMountGrant :: "'s Service \<Rightarrow> string \<Rightarrow> string \<Rightarrow> ('s, unit) writing" where
  "svc_DeleteMountGrant sv username pattern s =
     apfst (reply [(ErrUserNotFound, UserNotFound), (ErrMountGrantNotFound, MountGrantNotFound)])
       (be_DeleteMountGrant (MountGrants (sv_backend sv)) username pattern s)"

text \<open>
  \<^verbatim>\<open>loadCompiledMountGrants\<close> sends the compiled grants over a channel that its two callers read. The
  model is the producer with the reader's loop body as a parameter: \<open>f\<close> takes a grant and the reader's
  state and returns the next state and whether the reader stops.
\<close>

fun send_grants ::
  "regexp_engine \<Rightarrow> (string \<Rightarrow> 'c \<Rightarrow> 'c \<times> bool) \<Rightarrow> string list \<Rightarrow> 'c \<Rightarrow> (gerr, 'c \<times> bool) res" where
  "send_grants re f [] acc = Ok (acc, False)"
| "send_grants re f (p # ps) acc =
     (case NewMountGrantPattern (re_Compile re) p of
        Err e \<Rightarrow> Err (WithErrorCode (Fmt [e]) DatabaseError)
      | Panic \<Rightarrow> Panic
      | Ok g \<Rightarrow> (case f g acc of (acc', stop) \<Rightarrow> if stop then Ok (acc', True) else send_grants re f ps acc'))"

partial_function (option) loadCompiledMountGrants ::
  "(int \<Rightarrow> int \<Rightarrow> (gerr, string page) res) \<Rightarrow> regexp_engine \<Rightarrow> int \<Rightarrow> (string \<Rightarrow> 'c \<Rightarrow> 'c \<times> bool) \<Rightarrow> int \<Rightarrow> 'c \<Rightarrow>
     (gerr, 'c) res option" where
  "loadCompiledMountGrants list re pageLimit f offset acc =
     (case list pageLimit offset of
        Err e \<Rightarrow> Some (Err (if errors_is e ErrUserNotFound then existing_user_lost e
                            else WithErrorCode (Fmt [e]) DatabaseError))
      | Panic \<Rightarrow> Some Panic
      | Ok page \<Rightarrow>
          (case send_grants re f (pg_Items page) acc of
             Err e \<Rightarrow> Some (Err e)
           | Panic \<Rightarrow> Some Panic
           | Ok (acc', stop) \<Rightarrow>
               if stop then Some (Ok acc')
               else let offset' = offset + int (length (pg_Items page))
                    in if offset' \<ge> pg_Total page \<or> length (pg_Items page) = 0 then Some (Ok acc')
                       else loadCompiledMountGrants list re pageLimit f offset' acc'))"

definition MountGrantMatches ::
  "'s Service \<Rightarrow> regexp_engine \<Rightarrow> string \<Rightarrow> string \<Rightarrow> 's \<Rightarrow> (gerr, bool) res option" where
  "MountGrantMatches sv re username baseURI s =
     loadCompiledMountGrants
       (\<lambda>limit offset. be_ListUserMountGrants (MountGrants (sv_backend sv)) username limit offset s)
       re (InternalPageLimit (limits sv))
       (\<lambda>g found. if re_MatchString re g baseURI then (True, True) else (found, False)) 0 False"

definition getAllCompiledMounts ::
  "'s Service \<Rightarrow> regexp_engine \<Rightarrow> string \<Rightarrow> 's \<Rightarrow> (gerr, string list) res option" where
  "getAllCompiledMounts sv re username s =
     loadCompiledMountGrants
       (\<lambda>limit offset. be_ListUserMountGrants (MountGrants (sv_backend sv)) username limit offset s)
       re (InternalPageLimit (limits sv)) (\<lambda>g grants. (grants @ [g], False)) 0 []"

section \<open>Mounts (service/mounts.go)\<close>

definition svc_GetMount :: "'s Service \<Rightarrow> string \<Rightarrow> ('s, MountResponse) reading" where
  "svc_GetMount sv baseURI s =
     fmap_res (\<lambda>ns. \<lparr>mr_BaseURI = baseURI, mr_Namespace = ns\<rparr>)
       (reply [(ErrMountNotFound, MountNotFound)] (be_GetMount (Mounts (sv_backend sv)) baseURI s))"

definition svc_ListMounts ::
  "'s Service \<Rightarrow> regexp_engine \<Rightarrow> caller option \<Rightarrow> int \<Rightarrow> int \<Rightarrow> 's \<Rightarrow> (gerr, MountResponse page) res option" where
  "svc_ListMounts sv re caller limit offset s =
     (let list = (\<lambda>l off. reply [] (be_ListMounts (Mounts (sv_backend sv)) l off s)) in
      case caller of
        None \<Rightarrow> Some (list limit offset)
      | Some c \<Rightarrow>
          if cl_superuser c then Some (list limit offset)
          else Option.bind (getAllCompiledMounts sv re (cl_username c) s) (\<lambda>r. case r of
              Err e \<Rightarrow> Some (Err e)
            | Panic \<Rightarrow> Some Panic
            | Ok grants \<Rightarrow>
                map_option (\<lambda>r. case r of
                    Ok filtered \<Rightarrow> Ok \<lparr>pg_Total = fr_Total filtered, pg_Offset = fr_Offset filtered, pg_Items = fr_Items filtered\<rparr>
                  | Err e \<Rightarrow> Err (WithErrorCode (Fmt [e]) DatabaseError)
                  | Panic \<Rightarrow> Panic)
                (Filter (\<lambda>l off. fmap_res pg_Items (list l off))
                   (\<lambda>mount. Ok (list_ex (\<lambda>g. re_MatchString re g (mr_BaseURI mount)) grants))
                   (InternalPageLimit (limits sv)) limit offset)))"

definition svc_ListNamespaceMounts :: "'s Service \<Rightarrow> string \<Rightarrow> int \<Rightarrow> int \<Rightarrow> ('s, string page) reading" where
  "svc_ListNamespaceMounts sv namespace limit offset s =
     reply [(ErrNamespaceNotFound, NamespaceNotFound)]
       (be_ListNamespaceMounts (Mounts (sv_backend sv)) namespace limit offset s)"

definition svc_SetMount :: "'s Service \<Rightarrow> string \<Rightarrow> string \<Rightarrow> ('s, MountResponse) writing" where
  "svc_SetMount sv baseURI namespace s =
     apfst (\<lambda>r. fmap_res (\<lambda>_. \<lparr>mr_BaseURI = baseURI, mr_Namespace = namespace\<rparr>)
         (reply [(ErrNamespaceNotFound, NamespaceNotFound)] r))
       (be_SetMount (Mounts (sv_backend sv)) baseURI namespace s)"

definition svc_DeleteMount :: "'s Service \<Rightarrow> string \<Rightarrow> ('s, unit) writing" where
  "svc_DeleteMount sv baseURI s =
     apfst (reply [(ErrMountNotFound, MountNotFound)]) (be_DeleteMount (Mounts (sv_backend sv)) baseURI s)"

end
