(* ===== verification/Service_Users.thy ===== *)
theory Service_Users
  imports Service
begin

text \<open>
  The package \<^verbatim>\<open>service\<close>, second part: user accounts (\<^verbatim>\<open>user.go\<close>), passwords and API keys
  (\<^verbatim>\<open>credentials.go\<close>), and the resolver information (\<^verbatim>\<open>quickpid.go\<close>). The lines that
  \<^verbatim>\<open>EnsureRootUser\<close> and \<^verbatim>\<open>CreateSuperuser\<close> write to the log, which is how the bootstrap key reaches the
  operator, are part of their result.
\<close>

section \<open>Users (service/user.go)\<close>

definition LoadUser :: "'s Service \<Rightarrow> string \<Rightarrow> ('s, UserInfo) reading" where
  "LoadUser sv username s =
     (case reply [(ErrUserNotFound, UserNotFound)] (be_GetUser (Users (sv_backend sv)) username s) of
        Ok user \<Rightarrow>
          (case UserInfo_Validate user of
             Ok info \<Rightarrow> Ok info
           | Err e \<Rightarrow> Err (WithErrorCode (Fmt [e]) DatabaseError)
           | Panic \<Rightarrow> Panic)
      | Err e \<Rightarrow> Err e
      | Panic \<Rightarrow> Panic)"

definition svc_CreateUser :: "'s Service \<Rightarrow> UserCreateRequest \<Rightarrow> time \<Rightarrow> ('s, UserInfo) writing" where
  "svc_CreateUser sv req now s =
     apfst (reply [(ErrDuplicateUsername, DuplicateUsername)]) (be_CreateUser (Users (sv_backend sv)) req now s)"

definition errForbidden :: gerr where
  "errForbidden = Sentinel (Named ''errForbidden'')"

definition svc_DeleteUser :: "'s Service \<Rightarrow> caller \<Rightarrow> string \<Rightarrow> ('s, unit) writing" where
  "svc_DeleteUser sv caller target s =
     (if target = cl_username caller then (Err (WithErrorCode (Fmt [errForbidden]) Forbidden), s)
      else apfst (reply [(ErrUserNotFound, UserNotFound)]) (be_DeleteUser (Users (sv_backend sv)) target s))"

definition svc_ListUsers :: "'s Service \<Rightarrow> ListUsersParams \<Rightarrow> ('s, UserInfo page) reading" where
  "svc_ListUsers sv params s = reply [] (be_ListUsers (Users (sv_backend sv)) params s)"

definition svc_AutocompleteUsers :: "'s Service \<Rightarrow> string \<Rightarrow> ('s, string list) reading" where
  "svc_AutocompleteUsers sv query s =
     reply [] (be_AutocompleteUsers (Users (sv_backend sv)) query (lim_MaxAutocompleteUsers (limits sv)) s)"

definition svc_UpdateUser :: "'s Service \<Rightarrow> caller \<Rightarrow> string \<Rightarrow> bool option \<Rightarrow> ('s, UserInfo) writing" where
  "svc_UpdateUser sv caller target superuser s =
     (if target = cl_username caller then (Err (WithErrorCode errForbidden Forbidden), s)
      else apfst (reply [(ErrUserNotFound, UserNotFound)]) (be_UpdateUser (Users (sv_backend sv)) target superuser s))"

section \<open>Credentials (service/credentials.go)\<close>

definition apiKeyFormat :: key_format where
  "apiKeyFormat = key_Default"

definition errUnauthorized :: gerr where
  "errUnauthorized = Sentinel (Named ''errUnauthorized'')"

definition AuthenticateAPIKey :: "'s Service \<Rightarrow> string \<Rightarrow> time \<Rightarrow> ('s, string \<times> APIKeyInfo) reading" where
  "AuthenticateAPIKey sv apiKey now s =
     (if AnonymousMode sv \<or> apiKey = [] then Err errUnauthorized
      else case be_LookupUserByKey (Creds (sv_backend sv)) apiKeyFormat apiKey s of
        Err e \<Rightarrow> Err (Fmt [e])
      | Panic \<Rightarrow> Panic
      | Ok (username, key) \<Rightarrow>
          if \<not> APIKeyInfo_Valid key now then Err (Fmt [errUnauthorized])
          else (case NewUsername username of
                  Ok name \<Rightarrow> Ok (name, key)
                | Err e \<Rightarrow> Err (Fmt [e])
                | Panic \<Rightarrow> Panic))"

definition AuthenticatePassword :: "'s Service \<Rightarrow> string \<Rightarrow> string \<Rightarrow> ('s, string) reading" where
  "AuthenticatePassword sv username password s =
     (if AnonymousMode sv \<or> username = [] \<or> password = []
      then Err (WithErrorCode errUnauthorized Unauthorized)
      else case NewUsername username of
        Err e \<Rightarrow> Err (WithErrorCode (Fmt [e]) Unauthorized)
      | Panic \<Rightarrow> Panic
      | Ok validUsername \<Rightarrow>
          (case NewPassword password of
             Err e \<Rightarrow> Err (WithErrorCode (Fmt [e]) Unauthorized)
           | Panic \<Rightarrow> Panic
           | Ok validPassword \<Rightarrow>
               (case be_CheckPassword (Creds (sv_backend sv)) validUsername validPassword s of
                  Err e \<Rightarrow> if errors_is e ErrUserNotFound then Err (WithErrorCode (Fmt [e]) Unauthorized)
                           else Err (Fmt [e])
                | Panic \<Rightarrow> Panic
                | Ok ok \<Rightarrow> if \<not> ok then Err (WithErrorCode errUnauthorized Unauthorized)
                           else Ok validUsername)))"

definition svc_CheckPassword :: "'s Service \<Rightarrow> string \<Rightarrow> string \<Rightarrow> ('s, bool) reading" where
  "svc_CheckPassword sv username password s =
     (case be_CheckPassword (Creds (sv_backend sv)) username password s of
        Err e \<Rightarrow> Err (Fmt [e]) | Panic \<Rightarrow> Panic | Ok ok \<Rightarrow> Ok ok)"

definition SetUserPassword :: "'s Service \<Rightarrow> caller \<Rightarrow> string option \<Rightarrow> ('s, bool) writing" where
  "SetUserPassword sv caller password s =
     apfst (reply []) (be_SetPassword (Creds (sv_backend sv)) (cl_username caller) password s)"

definition listValidKeys ::
  "'s Service \<Rightarrow> key_format \<Rightarrow> string \<Rightarrow> int \<Rightarrow> int \<Rightarrow> time \<Rightarrow> 's \<Rightarrow> (gerr, APIKeyInfo page) res option" where
  "listValidKeys sv format username limit offset now s =
     map_option (\<lambda>r. case r of
         Ok keys \<Rightarrow> Ok \<lparr>pg_Total = fr_Total keys, pg_Offset = fr_Offset keys, pg_Items = fr_Items keys\<rparr>
       | Err e \<Rightarrow> Err (Fmt [e])
       | Panic \<Rightarrow> Panic)
     (Filter
        (\<lambda>l off. case be_ListKeys (Creds (sv_backend sv)) format (Some username) l off s of
             Ok result \<Rightarrow> Ok (pg_Items result) | Err e \<Rightarrow> Err (Fmt [e]) | Panic \<Rightarrow> Panic)
        (\<lambda>key. Ok (APIKeyInfo_Valid key now))
        (InternalPageLimit (limits sv)) limit offset)"

definition svc_ListKeys ::
  "'s Service \<Rightarrow> caller \<Rightarrow> int \<Rightarrow> int \<Rightarrow> time \<Rightarrow> 's \<Rightarrow> (gerr, APIKeyInfo page) res option" where
  "svc_ListKeys sv caller limit offset now s =
     map_option (reply [(ErrUserNotFound, UserNotFound)])
       (listValidKeys sv apiKeyFormat (cl_username caller) limit offset now s)"

fun ensureKeyNamespaceScopesExist ::
  "'s Service \<Rightarrow> APIKeyNamespaceScope list \<Rightarrow> string list \<Rightarrow> ('s, unit) reading" where
  "ensureKeyNamespaceScopesExist sv [] seen s = Ok ()"
| "ensureKeyNamespaceScopesExist sv (grant # grants) seen s =
     (if kns_Namespace grant \<in> set seen then ensureKeyNamespaceScopesExist sv grants seen s
      else case NewNamespaceID (kns_Namespace grant) of
        Err e \<Rightarrow> Err (WithErrorCode (Fmt [e]) InvalidNamespaceID)
      | Panic \<Rightarrow> Panic
      | Ok namespace \<Rightarrow>
          (case reply [(ErrNamespaceNotFound, NamespaceNotFound)]
                  (be_GetNamespace (Namespaces (sv_backend sv)) namespace s) of
             Err e \<Rightarrow> Err e
           | Panic \<Rightarrow> Panic
           | Ok _ \<Rightarrow> ensureKeyNamespaceScopesExist sv grants (kns_Namespace grant # seen) s))"

fun issue_key_loop ::
  "'s Service \<Rightarrow> id_generator \<Rightarrow> id_generator \<Rightarrow> int option \<Rightarrow> key_format \<Rightarrow> string \<Rightarrow> KeyIssueRequest \<Rightarrow> (nat \<Rightarrow> time) \<Rightarrow>
     nat \<Rightarrow> pull_state \<Rightarrow> pull_state \<Rightarrow> ('s, APIKeyInfo \<times> string) writing" where
  "issue_key_loop sv ids keys tot format username req clock 0 ist kst s = (Err errInsufficientEntropy, s)"
| "issue_key_loop sv ids keys tot format username req clock (Suc k) ist kst s =
     (case pull_next ids tot ist of
        (Err e, _) \<Rightarrow> (Err (WithErrorCode (Fmt [e]) BadIDGeneration), s)
      | (Panic, _) \<Rightarrow> (Panic, s)
      | (Ok keyID, ist') \<Rightarrow>
          (case pull_next keys None kst of
             (Err e, _) \<Rightarrow> (Err (WithErrorCode (Fmt [e]) BadIDGeneration), s)
           | (Panic, _) \<Rightarrow> (Panic, s)
           | (Ok rawKey, kst') \<Rightarrow>
               (case be_CreateKey (Creds (sv_backend sv)) format username keyID rawKey req (clock k) s of
                  (Ok info, s') \<Rightarrow> (Ok (info, rawKey), s')
                | (Panic, s') \<Rightarrow> (Panic, s')
                | (Err e, s') \<Rightarrow>
                    if errors_is e ErrUserNotFound then (Err (WithErrorCode (Fmt [e]) UserNotFound), s')
                    else if \<not> errors_is e ErrKeyCollision then (Err (WithErrorCode (Fmt [e]) DatabaseError), s')
                    else issue_key_loop sv ids keys tot format username req clock k ist' kst' s')))"

definition issueAPIKey ::
  "'s Service \<Rightarrow> string \<Rightarrow> KeyIssueRequest \<Rightarrow> (nat \<Rightarrow> time) \<Rightarrow> ('s, APIKeyInfo \<times> string) writing" where
  "issueAPIKey sv username req clock s =
     (let maxAttempts = lim_MaxAPIKeyAttempts (limits sv) in
      case count_total (be_ListKeys (Creds (sv_backend sv)) apiKeyFormat None 0 0 s) of
        Ok tot \<Rightarrow>
          issue_key_loop sv (rt_NewAPIKeyID (sv_runtime sv) maxAttempts)
            (rt_NewAPIKey (sv_runtime sv) apiKeyFormat maxAttempts) tot apiKeyFormat username req clock
            (nat maxAttempts) PullIDs PullIDs s
      | Err e \<Rightarrow> (Err e, s)
      | Panic \<Rightarrow> (Panic, s))"

definition IssueKey ::
  "'s Service \<Rightarrow> caller \<Rightarrow> KeyIssueRequest \<Rightarrow> time \<Rightarrow> (nat \<Rightarrow> time) \<Rightarrow> ('s, APIKeyInfo \<times> string) writing" where
  "IssueKey sv caller req now clock s =
     (if nonnil (kir_ExpiresAt req) (\<lambda>t. \<not> time_After t now)
      then (Err (WithErrorCode (Sentinel (Named ''errExpiresAtInPast'')) InvalidQueryParameter), s)
      else case ensureKeyNamespaceScopesExist sv (kir_NamespaceScopes req) [] s of
        Err e \<Rightarrow> (Err e, s)
      | Panic \<Rightarrow> (Panic, s)
      | Ok _ \<Rightarrow> issueAPIKey sv (cl_username caller) req clock s)"

definition svc_RevokeKey :: "'s Service \<Rightarrow> caller \<Rightarrow> string \<Rightarrow> ('s, unit) writing" where
  "svc_RevokeKey sv caller keyID s =
     apfst (reply [(ErrKeyNotFound, KeyNotFound)])
       (be_RevokeKey (Creds (sv_backend sv)) apiKeyFormat (cl_username caller) keyID s)"

text \<open>
  The cleanup polls its context. A context is modelled by the number of polls that still find it alive, \<open>None\<close> if it is never
  cancelled.
\<close>

type_synonym go_context = "nat option"

definition ctx_Err :: "go_context \<Rightarrow> bool" where
  "ctx_Err ctx \<longleftrightarrow> ctx = Some 0"

definition ctx_polled :: "go_context \<Rightarrow> go_context" where
  "ctx_polled ctx = map_option (\<lambda>n. n - 1) ctx"

definition errContextCancelled :: gerr where
  "errContextCancelled = Fmt [Sentinel (Named ''context.Canceled'')]"

text \<open>The loop over one page of keys: the number of keys that stay, and the error that ended it.\<close>

fun revoke_loop ::
  "'s Service \<Rightarrow> key_format \<Rightarrow> string \<Rightarrow> time \<Rightarrow> go_context \<Rightarrow> APIKeyInfo list \<Rightarrow> nat \<Rightarrow> ('s, nat \<times> go_context) writing" where
  "revoke_loop sv format username now ctx [] advanced s = (Ok (advanced, ctx), s)"
| "revoke_loop sv format username now ctx (key # keys) advanced s =
     (if ctx_Err ctx then (Err errContextCancelled, s)
      else if APIKeyInfo_Valid key now then revoke_loop sv format username now (ctx_polled ctx) keys (advanced + 1) s
      else case be_RevokeKey (Creds (sv_backend sv)) format username (key_ID key) s of
        (Err e, s') \<Rightarrow> (Err (Fmt [e]), s')
      | (Panic, s') \<Rightarrow> (Panic, s')
      | (Ok _, s') \<Rightarrow> revoke_loop sv format username now (ctx_polled ctx) keys advanced s')"

text \<open>A successful result carries the context for the polls that follow.\<close>

partial_function (option) cleanupExpiredKeysForUser ::
  "'s Service \<Rightarrow> key_format \<Rightarrow> string \<Rightarrow> time \<Rightarrow> int \<Rightarrow> go_context \<Rightarrow> int \<Rightarrow> 's \<Rightarrow> ((gerr, go_context) res \<times> 's) option" where
  "cleanupExpiredKeysForUser sv format username now pageLimit ctx keyOffset s =
     (if ctx_Err ctx then Some (Err errContextCancelled, s)
      else case be_ListKeys (Creds (sv_backend sv)) format (Some username) pageLimit keyOffset s of
        Err e \<Rightarrow> Some (Err (Fmt [e]), s)
      | Panic \<Rightarrow> Some (Panic, s)
      | Ok keys \<Rightarrow>
          if length (pg_Items keys) = 0 then Some (Ok (ctx_polled ctx), s)
          else (case revoke_loop sv format username now (ctx_polled ctx) (pg_Items keys) 0 s of
                  (Err e, s') \<Rightarrow> Some (Err e, s')
                | (Panic, s') \<Rightarrow> Some (Panic, s')
                | (Ok (advanced, ctx'), s') \<Rightarrow>
                    if int (length (pg_Items keys)) < pageLimit \<and> advanced = length (pg_Items keys)
                    then Some (Ok ctx', s')
                    else cleanupExpiredKeysForUser sv format username now pageLimit ctx' (keyOffset + int advanced) s'))"

fun cleanup_users ::
  "'s Service \<Rightarrow> key_format \<Rightarrow> time \<Rightarrow> int \<Rightarrow> go_context \<Rightarrow> UserInfo list \<Rightarrow> 's \<Rightarrow> ((gerr, go_context) res \<times> 's) option" where
  "cleanup_users sv format now pageLimit ctx [] s = Some (Ok ctx, s)"
| "cleanup_users sv format now pageLimit ctx (u # us) s =
     (case NewUsername (ui_Username u) of
        Err e \<Rightarrow> Some (Err (Fmt [e]), s)
      | Panic \<Rightarrow> Some (Panic, s)
      | Ok username \<Rightarrow>
          Option.bind (cleanupExpiredKeysForUser sv format username now pageLimit ctx 0 s) (\<lambda>(r, s').
            case r of Ok ctx' \<Rightarrow> cleanup_users sv format now pageLimit ctx' us s' | Err e \<Rightarrow> Some (Err e, s') | Panic \<Rightarrow> Some (Panic, s')))"

partial_function (option) cleanup_pages ::
  "'s Service \<Rightarrow> key_format \<Rightarrow> time \<Rightarrow> int \<Rightarrow> go_context \<Rightarrow> int \<Rightarrow> 's \<Rightarrow> ((gerr, unit) res \<times> 's) option" where
  "cleanup_pages sv format now pageLimit ctx userOffset s =
     (if ctx_Err ctx then Some (Err errContextCancelled, s)
      else case be_ListUsers (Users (sv_backend sv))
             \<lparr>lup_Superuser = None, lup_Password = None, lup_Limit = pageLimit, lup_Offset = userOffset\<rparr> s of
        Err e \<Rightarrow> Some (Err (Fmt [e]), s)
      | Panic \<Rightarrow> Some (Panic, s)
      | Ok users \<Rightarrow>
          if length (pg_Items users) = 0 then Some (Ok (), s)
          else Option.bind (cleanup_users sv format now pageLimit (ctx_polled ctx) (pg_Items users) s) (\<lambda>(r, s').
            case r of
              Ok ctx' \<Rightarrow>
                let userOffset' = userOffset + int (length (pg_Items users))
                in if userOffset' \<ge> pg_Total users \<or> int (length (pg_Items users)) < pageLimit then Some (Ok (), s')
                   else cleanup_pages sv format now pageLimit ctx' userOffset' s'
            | Err e \<Rightarrow> Some (Err e, s')
            | Panic \<Rightarrow> Some (Panic, s')))"

definition CleanupExpiredAPIKeys :: "'s Service \<Rightarrow> go_context \<Rightarrow> time \<Rightarrow> 's \<Rightarrow> ((gerr, unit) res \<times> 's) option" where
  "CleanupExpiredAPIKeys sv ctx now s =
     (if AnonymousMode sv then Some (Ok (), s)
      else cleanup_pages sv apiKeyFormat now (InternalPageLimit (limits sv)) ctx 0 s)"

section \<open>Bootstrap (service/user.go)\<close>

definition bootstrap_request :: KeyIssueRequest where
  "bootstrap_request = \<lparr>kir_Comment = ''bootstrap'', kir_ExpiresAt = None, kir_UserScopes = [], kir_NamespaceScopes = []\<rparr>"

text \<open>The result is the logged pair of username and key, or \<open>None\<close> when nothing had to be done.\<close>

definition EnsureRootUser ::
  "'s Service \<Rightarrow> time \<Rightarrow> (nat \<Rightarrow> time) \<Rightarrow> ('s, (string \<times> string) option) writing" where
  "EnsureRootUser sv now clock s =
     (if AnonymousMode sv then (Ok None, s)
      else case be_ListUsers (Users (sv_backend sv))
             \<lparr>lup_Superuser = None, lup_Password = None, lup_Limit = 1, lup_Offset = 0\<rparr> s of
        Err e \<Rightarrow> (Err (Fmt [e]), s)
      | Panic \<Rightarrow> (Panic, s)
      | Ok page \<Rightarrow>
          if pg_Total page > 0 then (Ok None, s)
          else (case be_CreateUser (Users (sv_backend sv)) \<lparr>ucr_Username = ''root'', ucr_Superuser = True\<rparr> now s of
                  (Err e, s') \<Rightarrow> if errors_is e ErrDuplicateUsername then (Ok None, s') else (Err (Fmt [e]), s')
                | (Panic, s') \<Rightarrow> (Panic, s')
                | (Ok _, s') \<Rightarrow>
                    (case issueAPIKey sv ''root'' bootstrap_request clock s' of
                       (Ok (info, key), s'') \<Rightarrow> (Ok (Some (''root'', key)), s'')
                     | (Err e, s'') \<Rightarrow> (Err e, s'')
                     | (Panic, s'') \<Rightarrow> (Panic, s''))))"

definition CreateSuperuser ::
  "'s Service \<Rightarrow> string \<Rightarrow> time \<Rightarrow> (nat \<Rightarrow> time) \<Rightarrow> ('s, string \<times> string) writing" where
  "CreateSuperuser sv username now clock s =
     (if AnonymousMode sv then (Err (Sentinel (Named ''errCreateSuperUserAnonymousMode'')), s)
      else case NewUsername username of
        Err e \<Rightarrow> (Err (Fmt [e]), s)
      | Panic \<Rightarrow> (Panic, s)
      | Ok validUsername \<Rightarrow>
          (case be_CreateUser (Users (sv_backend sv)) \<lparr>ucr_Username = validUsername, ucr_Superuser = True\<rparr> now s of
             (Err e, s') \<Rightarrow> (Err (Fmt [e]), s')
           | (Panic, s') \<Rightarrow> (Panic, s')
           | (Ok _, s') \<Rightarrow>
               (case issueAPIKey sv validUsername bootstrap_request clock s' of
                  (Ok (info, key), s'') \<Rightarrow> (Ok (validUsername, key), s'')
                | (Err e, s'') \<Rightarrow> (Err (Fmt [e]), s'')
                | (Panic, s'') \<Rightarrow> (Panic, s''))))"

section \<open>Resolver information (service/quickpid.go)\<close>

record InfoResponse =
  inf_MaxBodyBytes :: int
  inf_DefaultPageLimit :: int
  inf_MaxPageLimit :: int
  inf_MaxBatchItems :: int
  inf_Authentication :: bool
  inf_MaxAutocompleteUsers :: int

definition GetResolverInfo :: "'s Service \<Rightarrow> (gerr, InfoResponse) res" where
  "GetResolverInfo sv =
     (let opts = sv_opts sv; lim = opt_Limits opts in
      if \<not> opt_InfoEnabled opts
      then Err (WithErrorCode (Sentinel (Named ''errSpecInfoPrivate'')) InfoUnavailable)
      else Ok \<lparr>inf_MaxBodyBytes = lim_MaxBodyBytes lim, inf_DefaultPageLimit = lim_DefaultPageLimit lim,
        inf_MaxPageLimit = lim_MaxPageLimit lim, inf_MaxBatchItems = lim_MaxBatchItems lim,
        inf_Authentication = (\<not> opt_Anonymous opts),
        inf_MaxAutocompleteUsers = (if \<not> opt_Anonymous opts then lim_MaxAutocompleteUsers lim else 0)\<rparr>)"

end
