(* ===== verification/Lowlevel.thy ===== *)
theory Lowlevel
  imports Credentials Service_Users
begin

text \<open>
  The package \<^verbatim>\<open>server/internal/lowlevel\<close>: what every endpoint shares. A handler resolves the caller from the
  request headers (with impersonation), checks a scope, runs the implementation, and turns an error into a
  response if its code is one that the endpoint declares; any other error makes the handler panic. Log output and the
  encoding of the response value are left out.
\<close>

section \<open>Requests and responses\<close>

text \<open>
  The parts of a request that the program reads: the values of the two headers, the decoded query in order, and the
  path values of the matched route. The body is an argument of the handlers that read one.
\<close>

record http_request =
  rq_Authorization :: "string list"
  rq_Impersonate :: "string list"
  rq_Query :: "(string \<times> string) list"
  rq_PathValue :: "string \<Rightarrow> string"

text \<open>
  The three ways in which a handler panics: the error of the implementation has no code, its code is
  not declared, or the code below panicked itself.
\<close>

datatype panic = NoErrorCode | UnexpectedError ErrorCode | InnerPanic

datatype 'a http_response = Panicked panic | Response nat "('a + ErrorCode) option"

definition writeJSONResponse :: "nat \<Rightarrow> 'a + ErrorCode \<Rightarrow> 'a http_response" where
  "writeJSONResponse status v = (if status = 204 then Response status None else Response status (Some v))"

section \<open>The authentication service (lowlevel.go)\<close>

record 's AuthService =
  au_AuthenticateAPIKey :: "string \<Rightarrow> ('s, string \<times> APIKeyInfo) reading"
  au_AuthenticatePassword :: "string \<Rightarrow> string \<Rightarrow> ('s, string) reading"
  au_LoadUser :: "string \<Rightarrow> ('s, UserInfo) reading"
  au_ExplicitNamespaceRole :: "string \<Rightarrow> string \<Rightarrow> ('s, Role) reading"
  au_AnonymousMode :: bool

text \<open>The service as an authentication service, at the instant \<open>now\<close>.\<close>

definition service_auth :: "'s Service \<Rightarrow> time \<Rightarrow> 's AuthService" where
  "service_auth sv now =
     \<lparr>au_AuthenticateAPIKey = (\<lambda>key. AuthenticateAPIKey sv key now),
      au_AuthenticatePassword = AuthenticatePassword sv,
      au_LoadUser = LoadUser sv,
      au_ExplicitNamespaceRole = ExplicitNamespaceRole sv,
      au_AnonymousMode = AnonymousMode sv\<rparr>"

definition FixedStatusCode :: "nat \<Rightarrow> 'a \<Rightarrow> nat" where
  "FixedStatusCode status result = status"

section \<open>Scope checks (handle.go)\<close>

definition CheckUserScope :: "'s AuthService \<Rightarrow> caller option \<Rightarrow> UserScope \<Rightarrow> gerr option" where
  "CheckUserScope auth user scope =
     (if au_AnonymousMode auth
      then map_option (\<lambda>e. Fmt [e]) (EvaluateAnonymousModeUserScope scope)
      else map_option (\<lambda>e. Fmt [e]) (EvaluateUserScope user scope))"

definition CheckNamespaceScope ::
  "'s AuthService \<Rightarrow> string \<Rightarrow> caller option \<Rightarrow> NamespaceScope \<Rightarrow> ('s, unit) reading" where
  "CheckNamespaceScope auth namespace caller scope s =
     (if au_AnonymousMode auth
      then (case EvaluateAnonymousModeNamespaceScope namespace scope of
              Some e \<Rightarrow> Err (Fmt [e]) | None \<Rightarrow> Ok ())
      else
        (case (case caller of
                 None \<Rightarrow> Ok RoleNone
               | Some c \<Rightarrow> au_ExplicitNamespaceRole auth namespace (cl_username c) s) of
           Err e \<Rightarrow> Err (Fmt [e])
         | Panic \<Rightarrow> Panic
         | Ok role \<Rightarrow>
             (case EvaluateNamespaceScope namespace role caller scope of
                Some e \<Rightarrow> Err (Fmt [e]) | None \<Rightarrow> Ok ())))"

definition readNamespaceParam :: "http_request \<Rightarrow> (gerr, string) res" where
  "readNamespaceParam r =
     (case NewNamespaceID (rq_PathValue r ''namespace'') of
        Err e \<Rightarrow> Err (WithErrorCode (Fmt [e]) InvalidNamespaceID) | Panic \<Rightarrow> Panic | Ok n \<Rightarrow> Ok n)"

section \<open>Resolving the caller (handle.go)\<close>

definition errNotAllowedToImpersonate :: gerr where
  "errNotAllowedToImpersonate = Sentinel (Named ''errNotAllowedToImpersonate'')"

definition resolveImpersonatedUser :: "'s AuthService \<Rightarrow> http_request \<Rightarrow> caller \<Rightarrow> ('s, caller option) reading" where
  "resolveImpersonatedUser auth r caller s =
     (case rq_Impersonate r of
        [] \<Rightarrow> Ok (Some caller)
      | [header] \<Rightarrow>
          (case EvaluateUserScope (Some caller) ScopeImpersonate of
             Some e \<Rightarrow> Err (WithErrorCode (Fmt [errNotAllowedToImpersonate, e]) Unauthorized)
           | None \<Rightarrow>
               (case NewUsername (TrimSpace header) of
                  Err e \<Rightarrow> Err (WithErrorCode (Fmt [e]) Unauthorized)
                | Panic \<Rightarrow> Panic
                | Ok username \<Rightarrow>
                    (case au_LoadUser auth username s of
                       Err e \<Rightarrow> Err (WithErrorCode (Fmt [e])
                                 (if GetErrorCode e = Some UserNotFound then Unauthorized else DatabaseError))
                     | Panic \<Rightarrow> Panic
                     | Ok user \<Rightarrow> Ok (Some (UserInfo_Caller user
                         (Impersonation username (Caller_Method (Some caller))))))))
      | _ \<Rightarrow> Err (WithErrorCode (Sentinel (Named ''errMultipleImpersonateHeaders'')) Unauthorized))"

definition load_caller ::
  "'s AuthService \<Rightarrow> http_request \<Rightarrow> string \<Rightarrow> AuthenticationMethod \<Rightarrow> ('s, caller option) reading" where
  "load_caller auth r username method s =
     (case au_LoadUser auth username s of
        Err e \<Rightarrow> Err (WithErrorCode (Fmt [e]) DatabaseError)
      | Panic \<Rightarrow> Panic
      | Ok user \<Rightarrow> resolveImpersonatedUser auth r (UserInfo_Caller user method) s)"

definition resolveCaller :: "'s AuthService \<Rightarrow> http_request \<Rightarrow> ('s, caller option) reading" where
  "resolveCaller auth r s =
     (let creds = Parse (rq_Authorization r) in
      case Credentials_Kind creds of
        KindInvalid \<Rightarrow> Err (WithErrorCode (Sentinel (Named ''errInvalidAuthenticationCredentials'')) Unauthorized)
      | KindEmpty \<Rightarrow> Ok None
      | KindBearer \<Rightarrow>
          (case BearerToken creds of
             Err e \<Rightarrow> Err e
           | Panic \<Rightarrow> Panic
           | Ok token \<Rightarrow>
               (case au_AuthenticateAPIKey auth token s of
                  Err e \<Rightarrow> Err (WithErrorCode (Fmt [e]) Unauthorized)
                | Panic \<Rightarrow> Panic
                | Ok (username, key) \<Rightarrow> load_caller auth r username (TokenAuthentication (Some key)) s))
      | KindBasic \<Rightarrow>
          (case BasicAuth creds of
             Err e \<Rightarrow> Err e
           | Panic \<Rightarrow> Panic
           | Ok (basicUsername, basicPassword) \<Rightarrow>
               (case au_AuthenticatePassword auth basicUsername basicPassword s of
                  Err e \<Rightarrow> Err (WithErrorCode (Fmt [e]) Unauthorized)
                | Panic \<Rightarrow> Panic
                | Ok username \<Rightarrow> load_caller auth r username BasicAuthentication s)))"

section \<open>Handlers (handle.go)\<close>

text \<open>
  An implementation takes the request, the caller and the state; \<open>None\<close> stands for an implementation that
  does not return.
\<close>

type_synonym ('s, 'a) impl = "http_request \<Rightarrow> caller option \<Rightarrow> 's \<Rightarrow> ((gerr, 'a) res \<times> 's) option"

definition writeHandledError :: "gerr \<Rightarrow> ErrorCode list \<Rightarrow> 'a http_response" where
  "writeHandledError err allowedErrors =
     (case GetErrorCode err of
        None \<Rightarrow> Panicked NoErrorCode
      | Some code \<Rightarrow>
          if code \<notin> set allowedErrors then Panicked (UnexpectedError code)
          else writeJSONResponse (HTTPCode code) (Inr code))"

text \<open>The part of \<^verbatim>\<open>handle\<close> after the caller is known; other requests may run before it.\<close>

definition handle_impl ::
  "('s, 'a) impl \<Rightarrow> ('a \<Rightarrow> nat) \<Rightarrow> ErrorCode list \<Rightarrow> http_request \<Rightarrow> caller option \<Rightarrow> 's \<Rightarrow>
     ('a http_response \<times> 's) option" where
  "handle_impl impl successCode allowedErrors r user s =
     map_option (\<lambda>(result, s'). case result of
         Err err \<Rightarrow> (writeHandledError err allowedErrors, s')
       | Panic \<Rightarrow> (Panicked InnerPanic, s')
       | Ok value \<Rightarrow> (writeJSONResponse (successCode value) (Inl value), s'))
     (impl r user s)"

definition handle ::
  "'s AuthService \<Rightarrow> bool \<Rightarrow> ('s, 'a) impl \<Rightarrow> ('a \<Rightarrow> nat) \<Rightarrow> ErrorCode list \<Rightarrow> http_request \<Rightarrow> 's \<Rightarrow>
     ('a http_response \<times> 's) option" where
  "handle auth authenticate impl successCode allowedErrors r s =
     (case (if authenticate then resolveCaller auth r s else Ok None) of
        Err err \<Rightarrow> Some (writeHandledError err allowedErrors, s)
      | Panic \<Rightarrow> Some (Panicked InnerPanic, s)
      | Ok user \<Rightarrow> handle_impl impl successCode allowedErrors r user s)"

definition wrap_result :: "(gerr, 'a) res \<Rightarrow> (gerr, 'a) res" where
  "wrap_result result = (case result of Ok v \<Rightarrow> Ok v | Err e \<Rightarrow> Err (Fmt [e]) | Panic \<Rightarrow> Panic)"

definition user_scope_impl ::
  "'s AuthService \<Rightarrow> (http_request \<Rightarrow> caller option \<Rightarrow> (gerr, 'v \<times> UserScope) res) \<Rightarrow>
     ('v \<Rightarrow> ('s, 'a) impl) \<Rightarrow> ('s, 'a) impl" where
  "user_scope_impl auth scope impl r user s =
     (case scope r user of
        Err e \<Rightarrow> Some (Err (Fmt [e]), s)
      | Panic \<Rightarrow> Some (Panic, s)
      | Ok (v, sc) \<Rightarrow>
          (case CheckUserScope auth user sc of
             Some e \<Rightarrow> Some (Err (Fmt [e]), s)
           | None \<Rightarrow> map_option (apfst wrap_result) (impl v r user s)))"

definition dynamicUserScope ::
  "'s AuthService \<Rightarrow> (http_request \<Rightarrow> caller option \<Rightarrow> (gerr, 'v \<times> UserScope) res) \<Rightarrow>
     ('v \<Rightarrow> ('s, 'a) impl) \<Rightarrow> ('a \<Rightarrow> nat) \<Rightarrow> ErrorCode list \<Rightarrow> http_request \<Rightarrow> 's \<Rightarrow> ('a http_response \<times> 's) option" where
  "dynamicUserScope auth scope impl = handle auth True (user_scope_impl auth scope impl)"

definition UserScope_handler ::
  "'s AuthService \<Rightarrow> UserScope \<Rightarrow> ('s, 'a) impl \<Rightarrow> ('a \<Rightarrow> nat) \<Rightarrow> ErrorCode list \<Rightarrow> http_request \<Rightarrow> 's \<Rightarrow>
     ('a http_response \<times> 's) option" where
  "UserScope_handler auth scope impl = dynamicUserScope auth (\<lambda>_ _. Ok ((), scope)) (\<lambda>_. impl)"

definition namespace_scope_impl ::
  "'s AuthService \<Rightarrow> (http_request \<Rightarrow> caller option \<Rightarrow> (gerr, 'v \<times> NamespaceScope) res) \<Rightarrow>
     (string \<Rightarrow> 'v \<Rightarrow> ('s, 'a) impl) \<Rightarrow> ('s, 'a) impl" where
  "namespace_scope_impl auth scope impl r user s =
     (case scope r user of
        Err e \<Rightarrow> Some (Err (Fmt [e]), s)
      | Panic \<Rightarrow> Some (Panic, s)
      | Ok (v, sc) \<Rightarrow>
          (case readNamespaceParam r of
             Err e \<Rightarrow> Some (Err (Fmt [e]), s)
           | Panic \<Rightarrow> Some (Panic, s)
           | Ok namespace \<Rightarrow>
               (case CheckNamespaceScope auth namespace user sc s of
                  Err e \<Rightarrow> Some (Err (Fmt [e]), s)
                | Panic \<Rightarrow> Some (Panic, s)
                | Ok _ \<Rightarrow> map_option (apfst wrap_result) (impl namespace v r user s))))"

definition DynamicNamespaceScope ::
  "'s AuthService \<Rightarrow> (http_request \<Rightarrow> caller option \<Rightarrow> (gerr, 'v \<times> NamespaceScope) res) \<Rightarrow>
     (string \<Rightarrow> 'v \<Rightarrow> ('s, 'a) impl) \<Rightarrow> ('a \<Rightarrow> nat) \<Rightarrow> ErrorCode list \<Rightarrow> http_request \<Rightarrow> 's \<Rightarrow>
     ('a http_response \<times> 's) option" where
  "DynamicNamespaceScope auth scope impl = handle auth True (namespace_scope_impl auth scope impl)"

definition NamespaceScope_handler ::
  "'s AuthService \<Rightarrow> NamespaceScope \<Rightarrow> (string \<Rightarrow> ('s, 'a) impl) \<Rightarrow> ('a \<Rightarrow> nat) \<Rightarrow> ErrorCode list \<Rightarrow>
     http_request \<Rightarrow> 's \<Rightarrow> ('a http_response \<times> 's) option" where
  "NamespaceScope_handler auth scope impl = DynamicNamespaceScope auth (\<lambda>_ _. Ok ((), scope)) (\<lambda>n _. impl n)"

definition Public_handler ::
  "'s AuthService \<Rightarrow> (http_request \<Rightarrow> 's \<Rightarrow> ((gerr, 'a) res \<times> 's) option) \<Rightarrow> ('a \<Rightarrow> nat) \<Rightarrow> ErrorCode list \<Rightarrow>
     http_request \<Rightarrow> 's \<Rightarrow> ('a http_response \<times> 's) option" where
  "Public_handler auth impl = handle auth False (\<lambda>r _. impl r)"

end
