(* ===== verification/Server.thy ===== *)
theory Server
  imports Requests
begin

text \<open>
  The package \<^verbatim>\<open>server\<close>: the options, one implementation per endpoint, and the table of routes that
  \<^verbatim>\<open>NewServer\<close> registers, each with the scope it needs, the status of a success and the error codes it declares. A
  route carries the body of the requests that have one; the choice of the route by method and path is that of
  \<^verbatim>\<open>http.ServeMux\<close>. The Swagger interface and the OpenAPI document are left out.
\<close>

section \<open>Options and construction (options.go, server.go)\<close>

record MetaResponse =
  meta_About :: string
  meta_Comment :: string
  meta_Software :: string
  meta_Version :: string

record ServerOptions =
  so_MountPath :: string
  so_DisableSwaggerUI :: bool
  so_Limits :: Limits
  so_InfoEnabled :: bool
  so_Anonymous :: bool
  so_Meta :: MetaResponse
  so_BackgroundInterval :: int

definition server_withValidValues :: "ServerOptions \<Rightarrow> ServerOptions" where
  "server_withValidValues o' = o'\<lparr>so_Limits := WithValidValues (so_Limits o')\<rparr>"

record 's Server =
  hs_svc :: "'s Service"
  hs_ops :: ServerOptions

definition NewServer :: "ServerOptions \<Rightarrow> 's Service \<Rightarrow> 's Server" where
  "NewServer options svc = \<lparr>hs_svc = svc, hs_ops = server_withValidValues options\<rparr>"

definition Server_SetOptions :: "ServerOptions \<Rightarrow> 's Server \<Rightarrow> 's Server" where
  "Server_SetOptions options h =
     (let options = server_withValidValues options in
      h\<lparr>hs_ops := (hs_ops h)\<lparr>so_MountPath := so_MountPath options, so_DisableSwaggerUI := so_DisableSwaggerUI options,
          so_Limits := so_Limits options, so_InfoEnabled := so_InfoEnabled options, so_Meta := so_Meta options\<rparr>,
        hs_svc := SetOptions \<lparr>opt_InfoEnabled = so_InfoEnabled options, opt_Anonymous = so_Anonymous options,
          opt_Limits = so_Limits options\<rparr> (hs_svc h)\<rparr>)"

text \<open>
  What the handlers use of the world: the URL parser, the regular expressions, the current time, and the
  times that a loop sees.
\<close>

record env =
  env_parse :: url_parser
  env_re :: regexp_engine
  env_now :: time
  env_clock :: "nat \<Rightarrow> time"

abbreviation auth_of :: "'s Server \<Rightarrow> env \<Rightarrow> 's AuthService" where
  "auth_of h env \<equiv> service_auth (hs_svc h) (env_now env)"

section \<open>Building blocks\<close>

text \<open>
  \<open>seq_impl\<close> returns early on an error. The next three turn an operation of the service, whose
  errors the handlers wrap, into an implementation: one that reads, one that writes, and one that reads and may not return.
\<close>

definition seq_impl ::
  "(gerr, 'a) res \<Rightarrow> ('a \<Rightarrow> 's \<Rightarrow> ((gerr, 'b) res \<times> 's) option) \<Rightarrow> 's \<Rightarrow> ((gerr, 'b) res \<times> 's) option" where
  "seq_impl x f s = (case x of Ok v \<Rightarrow> f v s | Err e \<Rightarrow> Some (Err e, s) | Panic \<Rightarrow> Some (Panic, s))"

definition reading :: "('s, 'a) reading \<Rightarrow> 's \<Rightarrow> ((gerr, 'a) res \<times> 's) option" where
  "reading f s = Some (wrap_result (f s), s)"

definition writing :: "('s, 'a) writing \<Rightarrow> 's \<Rightarrow> ((gerr, 'a) res \<times> 's) option" where
  "writing f s = Some (apfst wrap_result (f s))"

definition searching :: "('s \<Rightarrow> (gerr, 'a) res option) \<Rightarrow> 's \<Rightarrow> ((gerr, 'a) res \<times> 's) option" where
  "searching f s = map_option (\<lambda>r. (wrap_result r, s)) (f s)"

text \<open>Dereferencing the pointer to the caller.\<close>

definition deref :: "caller option \<Rightarrow> (gerr, caller) res" where
  "deref caller = (case caller of None \<Rightarrow> Panic | Some c \<Rightarrow> Ok c)"

definition query_option :: "http_request \<Rightarrow> string \<Rightarrow> string option" where
  "query_option r k = (if query_Has r k then Some (query_Get r k) else None)"

section \<open>Namespaces (namespaces.go)\<close>

text \<open>The scope checks inside a listing and for redaction only ask whether there is an error.\<close>

definition h_listNamespaces :: "'s Server \<Rightarrow> env \<Rightarrow> ('s, NamespaceResponse page) impl" where
  "h_listNamespaces h env r caller =
     seq_impl (parsePagination (hs_svc h) r) (\<lambda>(limit, offset).
       searching (\<lambda>s. svc_ListNamespaces (hs_svc h) caller
         \<lparr>lnp_Tag = query_option r ''tag'', lnp_Limit = limit, lnp_Offset = offset\<rparr>
         (\<lambda>n. CheckNamespaceScope (auth_of h env) n caller ScopeSeeInNamespaceList s = Ok ()) s))"

definition h_getNamespace :: "'s Server \<Rightarrow> string \<Rightarrow> ('s, NamespaceResponse) impl" where
  "h_getNamespace h namespace r caller = reading (svc_GetNamespace (hs_svc h) namespace)"

definition NamespaceUpdateRequest_Validate :: "NamespaceUpdateRequest \<Rightarrow> (gerr, NamespaceUpdateRequest) res" where
  "NamespaceUpdateRequest_Validate r = Ok r"

definition h_updateNamespace ::
  "'s Server \<Rightarrow> env \<Rightarrow> NamespaceUpdateRequest request_body \<Rightarrow> string \<Rightarrow> ('s, NamespaceResponse) impl" where
  "h_updateNamespace h env body namespace r caller =
     seq_impl (decodeJSON (hs_svc h) body) (\<lambda>req.
       seq_impl (wrap_result (NamespaceUpdateRequest_Validate req)) (\<lambda>valid.
         writing (svc_UpdateNamespace (hs_svc h) namespace valid (env_now env))))"

definition h_createNamespace ::
  "'s Server \<Rightarrow> env \<Rightarrow> NamespaceCreateRequest request_body \<Rightarrow> ('s, NamespaceResponse) impl" where
  "h_createNamespace h env body r caller =
     seq_impl (decodeJSON (hs_svc h) body) (\<lambda>req.
       writing (svc_CreateNamespace (hs_svc h) caller req (env_clock env)))"

section \<open>Resources (resources.go)\<close>

definition h_countAllResources :: "'s Server \<Rightarrow> ('s, int) impl" where
  "h_countAllResources h r caller = reading (svc_CountAllResources (hs_svc h))"

definition read_deleted :: "http_request \<Rightarrow> (gerr, bool option) res" where
  "read_deleted r =
     (if query_Has r ''deleted''
      then (case ParseBool (query_Get r ''deleted'') of
              Err e \<Rightarrow> Err (query_error [Sentinel (Named ''errDeletedInvalid''), e])
            | Panic \<Rightarrow> Panic
            | Ok b \<Rightarrow> Ok (Some b))
      else Ok None)"

definition h_listResources :: "'s Server \<Rightarrow> string \<Rightarrow> ('s, ResourceResponse page) impl" where
  "h_listResources h namespace r caller =
     seq_impl (read_deleted r) (\<lambda>deleted.
       seq_impl (parsePagination (hs_svc h) r) (\<lambda>(limit, offset).
         reading (svc_ListResources (hs_svc h) namespace
           \<lparr>lrp_Tag = query_option r ''tag'', lrp_Deleted = deleted, lrp_Limit = limit, lrp_Offset = offset\<rparr>)))"

definition h_createResource ::
  "'s Server \<Rightarrow> env \<Rightarrow> ResourceCreateRequest request_body \<Rightarrow> string \<Rightarrow> ('s, ResourceResponse) impl" where
  "h_createResource h env body namespace r caller =
     seq_impl (decodeJSON (hs_svc h) body) (\<lambda>req.
       seq_impl (with_code InvalidResourceURL (ResourceCreateRequest_Validate (env_parse env) req)) (\<lambda>valid.
         writing (svc_CreateResource (hs_svc h) namespace valid (env_clock env))))"

fun validate_requests :: "url_parser \<Rightarrow> ResourceCreateRequest list \<Rightarrow> (gerr, ResourceCreateRequest list) res" where
  "validate_requests parse [] = Ok []"
| "validate_requests parse (req # reqs) =
     bind_res (with_code InvalidResourceURL (ResourceCreateRequest_Validate parse req)) (\<lambda>valid.
       bind_res (validate_requests parse reqs) (\<lambda>valids. Ok (valid # valids)))"

definition h_createResourceBatch ::
  "'s Server \<Rightarrow> env \<Rightarrow> ResourceCreateRequest list request_body \<Rightarrow> string \<Rightarrow> ('s, ResourceResponse list) impl" where
  "h_createResourceBatch h env body namespace r caller =
     seq_impl (decodeJSON (hs_svc h) body) (\<lambda>reqs.
       seq_impl (validate_requests (env_parse env) reqs) (\<lambda>valid.
         writing (svc_BatchCreateResources (hs_svc h) namespace valid (env_clock env))))"

text \<open>Whatever the check does not grant is redacted.\<close>

definition shouldRedactResource :: "'s Server \<Rightarrow> env \<Rightarrow> caller option \<Rightarrow> string \<Rightarrow> 's \<Rightarrow> unit \<Rightarrow> bool" where
  "shouldRedactResource h env caller namespace s u \<longleftrightarrow>
     CheckNamespaceScope (auth_of h env) namespace caller ScopeSeeDeletedResource s \<noteq> Ok ()"

definition h_getResource :: "'s Server \<Rightarrow> env \<Rightarrow> string \<Rightarrow> ('s, ResourceGetResult) impl" where
  "h_getResource h env namespace r caller =
     seq_impl (readPidParam r) (\<lambda>pid.
       reading (\<lambda>s. svc_GetResource (hs_svc h) namespace pid (shouldRedactResource h env caller namespace s) s))"

definition h_updateResource ::
  "'s Server \<Rightarrow> env \<Rightarrow> ResourceUpdateRequest request_body \<Rightarrow> string \<Rightarrow> ('s, ResourceResponse) impl" where
  "h_updateResource h env body namespace r caller =
     seq_impl (decodeJSON (hs_svc h) body) (\<lambda>req.
       seq_impl (with_code InvalidResourceURL (ResourceUpdateRequest_Validate (env_parse env) req)) (\<lambda>valid.
         seq_impl (readPidParam r) (\<lambda>pid.
           writing (svc_UpdateResource (hs_svc h) namespace pid valid (env_now env)))))"

section \<open>Mounts (mounts.go)\<close>

definition errMountGrantRequired :: gerr where
  "errMountGrantRequired = WithErrorCode (Sentinel (Named ''requires a matching mount grant'')) Forbidden"

definition checkBaseUriGrant :: "'s Server \<Rightarrow> env \<Rightarrow> (string \<Rightarrow> ('s, 'a) impl) \<Rightarrow> ('s, 'a) impl" where
  "checkBaseUriGrant h env impl r caller s =
     seq_impl (readBaseURIParam (env_parse env) r) (\<lambda>baseURI s.
       case caller of
         Some c \<Rightarrow>
           if \<not> AnonymousMode (hs_svc h) \<and> \<not> cl_superuser c
           then Option.bind (MountGrantMatches (hs_svc h) (env_re env) (cl_username c) baseURI s) (\<lambda>m.
             seq_impl (wrap_result m) (\<lambda>ok s. if \<not> ok then Some (Err errMountGrantRequired, s) else impl baseURI r caller s) s)
           else impl baseURI r caller s
       | None \<Rightarrow> impl baseURI r caller s) s"

definition h_resolveMountByBaseUri :: "'s Server \<Rightarrow> env \<Rightarrow> ('s, MountResponse) impl" where
  "h_resolveMountByBaseUri h env r caller =
     seq_impl (readBaseURIParam (env_parse env) r) (\<lambda>baseURI. reading (svc_GetMount (hs_svc h) baseURI))"

text \<open>The second component of the result is the \<^verbatim>\<open>Location\<close> header.\<close>

definition h_resolveResourceByMountAndPID :: "'s Server \<Rightarrow> env \<Rightarrow> ('s, ResourceGetResult \<times> string) impl" where
  "h_resolveResourceByMountAndPID h env r caller s =
     seq_impl (readBaseURIParam (env_parse env) r) (\<lambda>baseURI.
       seq_impl (readPidParam r) (\<lambda>pid.
         seq_impl (wrap_result (svc_GetMount (hs_svc h) baseURI s)) (\<lambda>mount.
           seq_impl (with_code DatabaseError (NewNamespaceID (mr_Namespace mount))) (\<lambda>namespace.
             reading (\<lambda>s. fmap_res (\<lambda>res. (res,
                 so_MountPath (hs_ops h) @ ''/resolver/namespaces/'' @ namespace @ ''/resources/'' @ pid))
               (svc_GetResource (hs_svc h) namespace pid (shouldRedactResource h env caller namespace s) s)))))) s"

definition h_listMounts :: "'s Server \<Rightarrow> env \<Rightarrow> ('s, MountResponse page) impl" where
  "h_listMounts h env r caller =
     seq_impl (parsePagination (hs_svc h) r) (\<lambda>(limit, offset).
       searching (svc_ListMounts (hs_svc h) (env_re env) caller limit offset))"

definition h_listNamespaceMounts :: "'s Server \<Rightarrow> string \<Rightarrow> ('s, string page) impl" where
  "h_listNamespaceMounts h namespace r caller =
     seq_impl (parsePagination (hs_svc h) r) (\<lambda>(limit, offset).
       reading (svc_ListNamespaceMounts (hs_svc h) namespace limit offset))"

definition h_upsertNamespaceMount :: "'s Server \<Rightarrow> string request_body \<Rightarrow> string \<Rightarrow> ('s, MountResponse) impl" where
  "h_upsertNamespaceMount h body baseURI r caller =
     seq_impl (decodeJSON (hs_svc h) body) (\<lambda>req.
       seq_impl (with_code InvalidNamespaceID (MountUpsertRequest_Validate req)) (\<lambda>namespace.
         writing (svc_SetMount (hs_svc h) baseURI namespace)))"

definition h_deleteNamespaceMount :: "'s Server \<Rightarrow> string \<Rightarrow> ('s, unit) impl" where
  "h_deleteNamespaceMount h baseURI r caller = writing (svc_DeleteMount (hs_svc h) baseURI)"

definition h_listOwnMountGrants :: "'s Server \<Rightarrow> ('s, string page) impl" where
  "h_listOwnMountGrants h r caller =
     seq_impl (parsePagination (hs_svc h) r) (\<lambda>(limit, offset).
       reading (svc_ListUserMountGrants (hs_svc h) caller limit offset))"

definition h_setMountGrant :: "'s Server \<Rightarrow> env \<Rightarrow> string request_body \<Rightarrow> ('s, string) impl" where
  "h_setMountGrant h env body r caller =
     seq_impl (readUsernameParam r) (\<lambda>username.
       seq_impl (decodeJSON (hs_svc h) body) (\<lambda>req.
         seq_impl (with_code InvalidMountGrantPattern (NewMountGrantPattern (re_Compile (env_re env)) req)) (\<lambda>pattern.
           writing (svc_SetMountGrant (hs_svc h) username pattern))))"

definition h_deleteMountGrant :: "'s Server \<Rightarrow> env \<Rightarrow> ('s, unit) impl" where
  "h_deleteMountGrant h env r caller =
     seq_impl (readUsernameParam r) (\<lambda>username.
       seq_impl (readMountGrantPatternParam (env_re env) r) (\<lambda>pattern.
         writing (svc_DeleteMountGrant (hs_svc h) username pattern)))"

section \<open>Roles (roles.go)\<close>

definition self_or_other ::
  "NamespaceScope \<Rightarrow> NamespaceScope \<Rightarrow> http_request \<Rightarrow> caller option \<Rightarrow> (gerr, string \<times> NamespaceScope) res" where
  "self_or_other self other r caller =
     bind_res (readUsernameParam r) (\<lambda>username. Ok (username, if Caller_Username caller = Some username then self else other))"

definition getNamespaceRoleScope :: "http_request \<Rightarrow> caller option \<Rightarrow> (gerr, string \<times> NamespaceScope) res" where
  "getNamespaceRoleScope = self_or_other ScopeGetNamespaceRoleSelf ScopeGetNamespaceRoleOther"

definition setNamespaceRoleScope :: "http_request \<Rightarrow> caller option \<Rightarrow> (gerr, string \<times> NamespaceScope) res" where
  "setNamespaceRoleScope = self_or_other ScopeSetNamespaceRoleSelf ScopeSetNamespaceRoleOther"

definition removeNamespaceRoleScope :: "http_request \<Rightarrow> caller option \<Rightarrow> (gerr, string \<times> NamespaceScope) res" where
  "removeNamespaceRoleScope = self_or_other ScopeRemoveNamespaceRoleSelf ScopeRemoveNamespaceRoleOther"

definition h_getNamespaceRole :: "'s Server \<Rightarrow> string \<Rightarrow> string \<Rightarrow> ('s, NamespaceRole) impl" where
  "h_getNamespaceRole h namespace username r caller = reading (svc_GetNamespaceRole (hs_svc h) namespace username)"

definition h_listNamespaceRoles :: "'s Server \<Rightarrow> string \<Rightarrow> ('s, NamespaceRole page) impl" where
  "h_listNamespaceRoles h namespace r caller =
     seq_impl (parsePagination (hs_svc h) r) (\<lambda>(limit, offset).
       seq_impl (deref caller) (\<lambda>_. reading (svc_ListNamespaceRoles (hs_svc h) namespace limit offset)))"

definition h_setNamespaceRole :: "'s Server \<Rightarrow> Role request_body \<Rightarrow> string \<Rightarrow> string \<Rightarrow> ('s, NamespaceRole) impl" where
  "h_setNamespaceRole h body namespace username r caller =
     seq_impl (decodeJSON (hs_svc h) body) (\<lambda>role.
       seq_impl (deref caller) (\<lambda>_. writing (svc_SetNamespaceRole (hs_svc h) namespace username role)))"

definition h_removeNamespaceRole :: "'s Server \<Rightarrow> string \<Rightarrow> string \<Rightarrow> ('s, unit) impl" where
  "h_removeNamespaceRole h namespace username r caller =
     seq_impl (deref caller) (\<lambda>_. writing (svc_DeleteNamespaceRole (hs_svc h) namespace username))"

definition h_getUserRoles :: "'s Server \<Rightarrow> ('s, UserRole page) impl" where
  "h_getUserRoles h r caller =
     seq_impl (parsePagination (hs_svc h) r) (\<lambda>(limit, offset).
       seq_impl (deref caller) (\<lambda>c. reading (svc_ListUserRoles (hs_svc h) c limit offset)))"

section \<open>Users (user.go)\<close>

definition h_getUserInfo :: "('s, UserInfo) impl" where
  "h_getUserInfo r caller = seq_impl (deref caller) (\<lambda>c s. Some (Ok (Caller_PlainInfo c), s))"

definition h_createUser :: "'s Server \<Rightarrow> env \<Rightarrow> UserCreateRequest request_body \<Rightarrow> ('s, UserInfo) impl" where
  "h_createUser h env body r caller =
     seq_impl (decodeJSON (hs_svc h) body) (\<lambda>req.
       seq_impl (with_code InvalidUsername (UserCreateRequest_Validate req)) (\<lambda>valid.
         seq_impl (deref caller) (\<lambda>_. writing (svc_CreateUser (hs_svc h) valid (env_now env)))))"

definition h_deleteUser :: "'s Server \<Rightarrow> ('s, unit) impl" where
  "h_deleteUser h r caller =
     seq_impl (readRequiredUsernameFromQuery r) (\<lambda>target.
       seq_impl (deref caller) (\<lambda>c. writing (svc_DeleteUser (hs_svc h) c target)))"

definition h_listUsers :: "'s Server \<Rightarrow> ('s, UserInfo page) impl" where
  "h_listUsers h r caller =
     seq_impl (readOptionalBooleanFromQuery r ''superuser'') (\<lambda>superuser.
       seq_impl (readOptionalBooleanFromQuery r ''password'') (\<lambda>password.
         seq_impl (parsePagination (hs_svc h) r) (\<lambda>(limit, offset).
           seq_impl (deref caller) (\<lambda>_. reading (svc_ListUsers (hs_svc h)
             \<lparr>lup_Superuser = superuser, lup_Password = password, lup_Limit = limit, lup_Offset = offset\<rparr>)))))"

definition h_autocompleteUsers :: "'s Server \<Rightarrow> ('s, string list) impl" where
  "h_autocompleteUsers h r caller =
     seq_impl (readRequiredAutocompleteFromQuery r) (\<lambda>query.
       seq_impl (deref caller) (\<lambda>_. reading (svc_AutocompleteUsers (hs_svc h) query)))"

definition h_updateUser :: "'s Server \<Rightarrow> bool option request_body \<Rightarrow> ('s, UserInfo) impl" where
  "h_updateUser h body r caller =
     seq_impl (readRequiredUsernameFromQuery r) (\<lambda>target.
       seq_impl (decodeJSON (hs_svc h) body) (\<lambda>superuser.
         seq_impl (deref caller) (\<lambda>c. writing (svc_UpdateUser (hs_svc h) c target superuser))))"

section \<open>Credentials (credentials.go)\<close>

definition SetPasswordRequest_Validate :: "string option \<Rightarrow> (gerr, string option) res" where
  "SetPasswordRequest_Validate password =
     (case password of None \<Rightarrow> Ok None | Some p \<Rightarrow> bind_res (NewPassword p) (\<lambda>v. Ok (Some v)))"

definition h_setUserPassword :: "'s Server \<Rightarrow> string option request_body \<Rightarrow> ('s, bool) impl" where
  "h_setUserPassword h body r caller =
     seq_impl (decodeJSON (hs_svc h) body) (\<lambda>req.
       seq_impl (with_code InvalidPassword (SetPasswordRequest_Validate req)) (\<lambda>valid.
         seq_impl (deref caller) (\<lambda>c. writing (SetUserPassword (hs_svc h) c valid))))"

definition h_listUserKeys :: "'s Server \<Rightarrow> env \<Rightarrow> ('s, APIKeyInfo page) impl" where
  "h_listUserKeys h env r caller =
     seq_impl (parsePagination (hs_svc h) r) (\<lambda>(limit, offset).
       seq_impl (deref caller) (\<lambda>c. searching (svc_ListKeys (hs_svc h) c limit offset (env_now env))))"

definition check_issue_request :: "KeyIssueRequest \<Rightarrow> (gerr, unit) res" where
  "check_issue_request req =
     (case KeyIssueRequest_Validate req of
        None \<Rightarrow> Ok ()
      | Some err \<Rightarrow> Err (WithErrorCode (Fmt [err])
          (if errors_is err ErrInvalidNamespaceID then InvalidNamespaceID
           else if errors_is err ErrUnknownScope then UnknownScope
           else InvalidQueryParameter)))"

definition h_issueUserKey :: "'s Server \<Rightarrow> env \<Rightarrow> KeyIssueRequest request_body \<Rightarrow> ('s, APIKeyInfo \<times> string) impl" where
  "h_issueUserKey h env body r caller =
     seq_impl (decodeJSON (hs_svc h) body) (\<lambda>req.
       seq_impl (check_issue_request req) (\<lambda>_.
         seq_impl (deref caller) (\<lambda>c. writing (IssueKey (hs_svc h) c req (env_now env) (env_clock env)))))"

definition h_revokeUserKey :: "'s Server \<Rightarrow> string request_body \<Rightarrow> ('s, unit) impl" where
  "h_revokeUserKey h body r caller =
     seq_impl (decodeJSON (hs_svc h) body) (\<lambda>keyID.
       seq_impl (deref caller) (\<lambda>c. writing (svc_RevokeKey (hs_svc h) c keyID)))"

section \<open>Information (quickpid.go)\<close>

definition h_getResolverInfo :: "'s Server \<Rightarrow> http_request \<Rightarrow> 's \<Rightarrow> ((gerr, InfoResponse) res \<times> 's) option" where
  "h_getResolverInfo h r = reading (\<lambda>_. GetResolverInfo (hs_svc h))"

definition h_getResolverMeta :: "'s Server \<Rightarrow> http_request \<Rightarrow> 's \<Rightarrow> ((gerr, MetaResponse) res \<times> 's) option" where
  "h_getResolverMeta h r s = Some (Ok (so_Meta (hs_ops h)), s)"

definition GetUserScopeDefinitions :: "UserScopeDefinition list" where
  "GetUserScopeDefinitions = sort_key usd_Scope (map snd userDefs)"

definition GetNamespaceScopeDefinitions :: "NamespaceScopeDefinition list" where
  "GetNamespaceScopeDefinitions = sort_key nsd_Scope (map snd namespaceDefs)"

definition h_listScopes ::
  "'s Server \<Rightarrow> http_request \<Rightarrow> 's \<Rightarrow> ((gerr, UserScopeDefinition list \<times> NamespaceScopeDefinition list) res \<times> 's) option" where
  "h_listScopes h r s =
     Some (Ok (if AnonymousMode (hs_svc h) then ([], [])
               else (GetUserScopeDefinitions, GetNamespaceScopeDefinitions)), s)"

end
