(* ===== verification/Routes.thy ===== *)
theory Routes
  imports Server
begin

text \<open>
  The route table of \<^verbatim>\<open>NewServer\<close>, in the order of the source: for every endpoint the kind of handler with its scope, the
  implementation, the status of a success and the declared error codes. \<open>ServeHTTP\<close> runs the handler of a
  route.
\<close>

section \<open>Responses\<close>

datatype api_response =
    RInfo InfoResponse | RMeta MetaResponse
  | RScopes "UserScopeDefinition list \<times> NamespaceScopeDefinition list"
  | RNamespaces "NamespaceResponse page" | RNamespace NamespaceResponse
  | RCount int | RMounts "MountResponse page" | RMount MountResponse | RNothing unit
  | RRedirect "ResourceGetResult \<times> string" | RMountGrant string | RBaseURIs "string page"
  | RRoles "NamespaceRole page" | RRole NamespaceRole
  | RResources "ResourceResponse page" | RResource ResourceResponse | RResourceList "ResourceResponse list"
  | RResourceGet ResourceGetResult
  | RUser UserInfo | RUsernames "string list" | RUsers "UserInfo page" | RUserRoles "UserRole page"
  | RMountGrants "string page" | RKeys "APIKeyInfo page" | RIssuedKey "APIKeyInfo \<times> string" | RPassword bool

definition answer :: "('a \<Rightarrow> api_response) \<Rightarrow> ('s, 'a) impl \<Rightarrow> ('s, api_response) impl" where
  "answer f impl r caller s = map_option (apfst (fmap_res f)) (impl r caller s)"

definition answer_public ::
  "('a \<Rightarrow> api_response) \<Rightarrow> (http_request \<Rightarrow> 's \<Rightarrow> ((gerr, 'a) res \<times> 's) option) \<Rightarrow>
     http_request \<Rightarrow> 's \<Rightarrow> ((gerr, api_response) res \<times> 's) option" where
  "answer_public f impl r s = map_option (apfst (fmap_res f)) (impl r s)"

definition resource_status :: "api_response \<Rightarrow> nat" where
  "resource_status v = (case v of RResourceGet (RedactedResource _) \<Rightarrow> 410 | _ \<Rightarrow> 200)"

section \<open>Routes (server.go)\<close>

definition route_getResolverInfo ::
  "'s Server \<Rightarrow> env \<Rightarrow> http_request \<Rightarrow> 's \<Rightarrow> (api_response http_response \<times> 's) option" where
  "route_getResolverInfo h env =
     Public_handler (auth_of h env)
       (answer_public RInfo (h_getResolverInfo h)) (FixedStatusCode 200)
       [InfoUnavailable]"

definition route_getResolverMeta ::
  "'s Server \<Rightarrow> env \<Rightarrow> http_request \<Rightarrow> 's \<Rightarrow> (api_response http_response \<times> 's) option" where
  "route_getResolverMeta h env =
     Public_handler (auth_of h env)
       (answer_public RMeta (h_getResolverMeta h)) (FixedStatusCode 200)
       []"

definition route_listScopes ::
  "'s Server \<Rightarrow> env \<Rightarrow> http_request \<Rightarrow> 's \<Rightarrow> (api_response http_response \<times> 's) option" where
  "route_listScopes h env =
     Public_handler (auth_of h env)
       (answer_public RScopes (h_listScopes h)) (FixedStatusCode 200)
       []"

definition route_listNamespaces ::
  "'s Server \<Rightarrow> env \<Rightarrow> http_request \<Rightarrow> 's \<Rightarrow> (api_response http_response \<times> 's) option" where
  "route_listNamespaces h env =
     UserScope_handler (auth_of h env) ScopeListNamespaces
       (answer RNamespaces (h_listNamespaces h env)) (FixedStatusCode 200)
       [InvalidQueryParameter, Unauthorized, Forbidden, DatabaseError]"

definition route_createNamespace ::
  "'s Server \<Rightarrow> env \<Rightarrow> NamespaceCreateRequest request_body \<Rightarrow> http_request \<Rightarrow> 's \<Rightarrow> (api_response http_response \<times> 's) option" where
  "route_createNamespace h env body =
     UserScope_handler (auth_of h env) ScopeCreateNamespace
       (answer RNamespace (h_createNamespace h env body)) (FixedStatusCode 201)
       [BodyMissing, BodyInvalidJSON, Unauthorized, Forbidden, BodySizeExceeded, DatabaseError,
        BadIDGeneration, InsufficientEntropy]"

definition route_countAllResources ::
  "'s Server \<Rightarrow> env \<Rightarrow> http_request \<Rightarrow> 's \<Rightarrow> (api_response http_response \<times> 's) option" where
  "route_countAllResources h env =
     UserScope_handler (auth_of h env) ScopeCountAllResources
       (answer RCount (h_countAllResources h)) (FixedStatusCode 200)
       [Unauthorized, Forbidden, DatabaseError]"

definition route_listMounts ::
  "'s Server \<Rightarrow> env \<Rightarrow> http_request \<Rightarrow> 's \<Rightarrow> (api_response http_response \<times> 's) option" where
  "route_listMounts h env =
     UserScope_handler (auth_of h env) ScopeListMounts
       (answer RMounts (h_listMounts h env)) (FixedStatusCode 200)
       [InvalidQueryParameter, Unauthorized, Forbidden, DatabaseError]"

definition route_resolveMountByBaseUri ::
  "'s Server \<Rightarrow> env \<Rightarrow> http_request \<Rightarrow> 's \<Rightarrow> (api_response http_response \<times> 's) option" where
  "route_resolveMountByBaseUri h env =
     UserScope_handler (auth_of h env) ScopeResolveMountByBaseUri
       (answer RMount (h_resolveMountByBaseUri h env)) (FixedStatusCode 200)
       [InvalidBaseURI, Unauthorized, Forbidden, MountNotFound, DatabaseError]"

definition route_upsertNamespaceMount ::
  "'s Server \<Rightarrow> env \<Rightarrow> string request_body \<Rightarrow> http_request \<Rightarrow> 's \<Rightarrow> (api_response http_response \<times> 's) option" where
  "route_upsertNamespaceMount h env body =
     UserScope_handler (auth_of h env) ScopeSetMount
       (answer RMount (checkBaseUriGrant h env (h_upsertNamespaceMount h body))) (FixedStatusCode 200)
       [BodyMissing, BodyInvalidJSON, InvalidBaseURI, InvalidNamespaceID, Unauthorized, Forbidden,
        NamespaceNotFound, BodySizeExceeded, DatabaseError]"

definition route_deleteNamespaceMount ::
  "'s Server \<Rightarrow> env \<Rightarrow> http_request \<Rightarrow> 's \<Rightarrow> (api_response http_response \<times> 's) option" where
  "route_deleteNamespaceMount h env =
     UserScope_handler (auth_of h env) ScopeDeleteMount
       (answer RNothing (checkBaseUriGrant h env (h_deleteNamespaceMount h))) (FixedStatusCode 204)
       [InvalidBaseURI, Unauthorized, Forbidden, MountNotFound, DatabaseError]"

definition route_resolveResourceByMountAndPID ::
  "'s Server \<Rightarrow> env \<Rightarrow> http_request \<Rightarrow> 's \<Rightarrow> (api_response http_response \<times> 's) option" where
  "route_resolveResourceByMountAndPID h env =
     UserScope_handler (auth_of h env) ScopeGetMount
       (answer RRedirect (h_resolveResourceByMountAndPID h env)) (FixedStatusCode 302)
       [InvalidBaseURI, InvalidPID, Unauthorized, Forbidden, MountNotFound, NamespaceNotFound,
        ResourceNotFound, DatabaseError]"

definition route_setMountGrant ::
  "'s Server \<Rightarrow> env \<Rightarrow> string request_body \<Rightarrow> http_request \<Rightarrow> 's \<Rightarrow> (api_response http_response \<times> 's) option" where
  "route_setMountGrant h env body =
     UserScope_handler (auth_of h env) ScopeSetMountGrant
       (answer RMountGrant (h_setMountGrant h env body)) (FixedStatusCode 200)
       [BodyMissing, BodyInvalidJSON, InvalidUsername, InvalidMountGrantPattern, Unauthorized, Forbidden,
        UnavailableInAnonymousMode, UserNotFound, BodySizeExceeded, DatabaseError]"

definition route_deleteMountGrant ::
  "'s Server \<Rightarrow> env \<Rightarrow> http_request \<Rightarrow> 's \<Rightarrow> (api_response http_response \<times> 's) option" where
  "route_deleteMountGrant h env =
     UserScope_handler (auth_of h env) ScopeDeleteMountGrant
       (answer RNothing (h_deleteMountGrant h env)) (FixedStatusCode 204)
       [InvalidUsername, InvalidMountGrantPattern, Unauthorized, Forbidden, UnavailableInAnonymousMode,
        UserNotFound, MountGrantNotFound, DatabaseError]"

definition route_getNamespace ::
  "'s Server \<Rightarrow> env \<Rightarrow> http_request \<Rightarrow> 's \<Rightarrow> (api_response http_response \<times> 's) option" where
  "route_getNamespace h env =
     NamespaceScope_handler (auth_of h env) ScopeGetNamespace
       (\<lambda>n. answer RNamespace (h_getNamespace h n)) (FixedStatusCode 200)
       [InvalidNamespaceID, Unauthorized, Forbidden, NamespaceNotFound, DatabaseError]"

definition route_updateNamespace ::
  "'s Server \<Rightarrow> env \<Rightarrow> NamespaceUpdateRequest request_body \<Rightarrow> http_request \<Rightarrow> 's \<Rightarrow> (api_response http_response \<times> 's) option" where
  "route_updateNamespace h env body =
     NamespaceScope_handler (auth_of h env) ScopeUpdateNamespace
       (\<lambda>n. answer RNamespace (h_updateNamespace h env body n)) (FixedStatusCode 200)
       [BodyMissing, BodyInvalidJSON, InvalidNamespaceID, Unauthorized, Forbidden, NamespaceNotFound,
        BodySizeExceeded, DatabaseError]"

definition route_listNamespaceMounts ::
  "'s Server \<Rightarrow> env \<Rightarrow> http_request \<Rightarrow> 's \<Rightarrow> (api_response http_response \<times> 's) option" where
  "route_listNamespaceMounts h env =
     NamespaceScope_handler (auth_of h env) ScopeListNamespaceMounts
       (\<lambda>n. answer RBaseURIs (h_listNamespaceMounts h n)) (FixedStatusCode 200)
       [InvalidNamespaceID, InvalidQueryParameter, Unauthorized, Forbidden, NamespaceNotFound, DatabaseError]"

definition route_listNamespaceRoles ::
  "'s Server \<Rightarrow> env \<Rightarrow> http_request \<Rightarrow> 's \<Rightarrow> (api_response http_response \<times> 's) option" where
  "route_listNamespaceRoles h env =
     NamespaceScope_handler (auth_of h env) ScopeListNamespaceRoles
       (\<lambda>n. answer RRoles (h_listNamespaceRoles h n)) (FixedStatusCode 200)
       [InvalidNamespaceID, InvalidQueryParameter, Unauthorized, Forbidden, NamespaceNotFound,
        UnavailableInAnonymousMode, DatabaseError]"

definition route_getNamespaceRole ::
  "'s Server \<Rightarrow> env \<Rightarrow> http_request \<Rightarrow> 's \<Rightarrow> (api_response http_response \<times> 's) option" where
  "route_getNamespaceRole h env =
     DynamicNamespaceScope (auth_of h env) getNamespaceRoleScope
       (\<lambda>n u. answer RRole (h_getNamespaceRole h n u)) (FixedStatusCode 200)
       [InvalidNamespaceID, InvalidUsername, Unauthorized, Forbidden, NamespaceNotFound,
        UnavailableInAnonymousMode, DatabaseError]"

definition route_setNamespaceRole ::
  "'s Server \<Rightarrow> env \<Rightarrow> Role request_body \<Rightarrow> http_request \<Rightarrow> 's \<Rightarrow> (api_response http_response \<times> 's) option" where
  "route_setNamespaceRole h env body =
     DynamicNamespaceScope (auth_of h env) setNamespaceRoleScope
       (\<lambda>n u. answer RRole (h_setNamespaceRole h body n u)) (FixedStatusCode 200)
       [BodyMissing, BodyInvalidJSON, InvalidNamespaceID, InvalidUsername, InvalidRole, Unauthorized,
        Forbidden, NamespaceNotFound, UnavailableInAnonymousMode, BodySizeExceeded, DatabaseError]"

definition route_removeNamespaceRole ::
  "'s Server \<Rightarrow> env \<Rightarrow> http_request \<Rightarrow> 's \<Rightarrow> (api_response http_response \<times> 's) option" where
  "route_removeNamespaceRole h env =
     DynamicNamespaceScope (auth_of h env) removeNamespaceRoleScope
       (\<lambda>n u. answer RNothing (h_removeNamespaceRole h n u)) (FixedStatusCode 204)
       [InvalidNamespaceID, InvalidUsername, Unauthorized, Forbidden, NamespaceNotFound, RoleNotFound,
        UnavailableInAnonymousMode, DatabaseError]"

definition route_listResources ::
  "'s Server \<Rightarrow> env \<Rightarrow> http_request \<Rightarrow> 's \<Rightarrow> (api_response http_response \<times> 's) option" where
  "route_listResources h env =
     NamespaceScope_handler (auth_of h env) ScopeListResources
       (\<lambda>n. answer RResources (h_listResources h n)) (FixedStatusCode 200)
       [InvalidNamespaceID, InvalidQueryParameter, Unauthorized, Forbidden, NamespaceNotFound, DatabaseError]"

definition route_createResource ::
  "'s Server \<Rightarrow> env \<Rightarrow> ResourceCreateRequest request_body \<Rightarrow> http_request \<Rightarrow> 's \<Rightarrow> (api_response http_response \<times> 's) option" where
  "route_createResource h env body =
     NamespaceScope_handler (auth_of h env) ScopeCreateResource
       (\<lambda>n. answer RResource (h_createResource h env body n)) (FixedStatusCode 201)
       [BodyMissing, BodyInvalidJSON, InvalidNamespaceID, InvalidResourceURL, Unauthorized, Forbidden,
        BodySizeExceeded, NamespaceNotFound, DatabaseError, BadIDGeneration, InsufficientEntropy]"

definition route_createResourceBatch ::
  "'s Server \<Rightarrow> env \<Rightarrow> ResourceCreateRequest list request_body \<Rightarrow> http_request \<Rightarrow> 's \<Rightarrow> (api_response http_response \<times> 's) option" where
  "route_createResourceBatch h env body =
     NamespaceScope_handler (auth_of h env) ScopeCreateResourceBatch
       (\<lambda>n. answer RResourceList (h_createResourceBatch h env body n)) (FixedStatusCode 201)
       [BodySizeExceeded, BodyMissing, BodyInvalidJSON, ItemLimitExceeded, InvalidNamespaceID,
        InvalidResourceURL, Unauthorized, Forbidden, NamespaceNotFound, DatabaseError, BadIDGeneration,
        InsufficientEntropy]"

definition route_getResource ::
  "'s Server \<Rightarrow> env \<Rightarrow> http_request \<Rightarrow> 's \<Rightarrow> (api_response http_response \<times> 's) option" where
  "route_getResource h env =
     NamespaceScope_handler (auth_of h env) ScopeGetResource
       (\<lambda>n. answer RResourceGet (h_getResource h env n)) resource_status
       [InvalidNamespaceID, InvalidPID, Unauthorized, Forbidden, NamespaceNotFound, ResourceNotFound,
        DatabaseError]"

definition route_updateResource ::
  "'s Server \<Rightarrow> env \<Rightarrow> ResourceUpdateRequest request_body \<Rightarrow> http_request \<Rightarrow> 's \<Rightarrow> (api_response http_response \<times> 's) option" where
  "route_updateResource h env body =
     NamespaceScope_handler (auth_of h env) ScopeUpdateResource
       (\<lambda>n. answer RResource (h_updateResource h env body n)) (FixedStatusCode 200)
       [BodyMissing, BodyInvalidJSON, InvalidNamespaceID, InvalidPID, InvalidResourceURL, Unauthorized,
        Forbidden, NamespaceNotFound, ResourceNotFound, BodySizeExceeded, DatabaseError]"

definition route_getUserInfo ::
  "'s Server \<Rightarrow> env \<Rightarrow> http_request \<Rightarrow> 's \<Rightarrow> (api_response http_response \<times> 's) option" where
  "route_getUserInfo h env =
     UserScope_handler (auth_of h env) ScopeGetUserInfo
       (answer RUser (h_getUserInfo)) (FixedStatusCode 200)
       [Unauthorized, Forbidden, UnavailableInAnonymousMode, DatabaseError]"

definition route_updateUser ::
  "'s Server \<Rightarrow> env \<Rightarrow> bool option request_body \<Rightarrow> http_request \<Rightarrow> 's \<Rightarrow> (api_response http_response \<times> 's) option" where
  "route_updateUser h env body =
     UserScope_handler (auth_of h env) ScopeUpdateUser
       (answer RUser (h_updateUser h body)) (FixedStatusCode 200)
       [BodyMissing, BodyInvalidJSON, InvalidQueryParameter, InvalidUsername, Unauthorized, Forbidden,
        UnavailableInAnonymousMode, UserNotFound, BodySizeExceeded, DatabaseError]"

definition route_createUser ::
  "'s Server \<Rightarrow> env \<Rightarrow> UserCreateRequest request_body \<Rightarrow> http_request \<Rightarrow> 's \<Rightarrow> (api_response http_response \<times> 's) option" where
  "route_createUser h env body =
     UserScope_handler (auth_of h env) ScopeCreateUser
       (answer RUser (h_createUser h env body)) (FixedStatusCode 201)
       [BodyMissing, BodyInvalidJSON, InvalidUsername, Unauthorized, Forbidden, UnavailableInAnonymousMode,
        DuplicateUsername, BodySizeExceeded, DatabaseError]"

definition route_deleteUser ::
  "'s Server \<Rightarrow> env \<Rightarrow> http_request \<Rightarrow> 's \<Rightarrow> (api_response http_response \<times> 's) option" where
  "route_deleteUser h env =
     UserScope_handler (auth_of h env) ScopeDeleteUser
       (answer RNothing (h_deleteUser h)) (FixedStatusCode 204)
       [InvalidUsername, InvalidQueryParameter, Unauthorized, Forbidden, UnavailableInAnonymousMode,
        UserNotFound, DatabaseError]"

definition route_autocompleteUsers ::
  "'s Server \<Rightarrow> env \<Rightarrow> http_request \<Rightarrow> 's \<Rightarrow> (api_response http_response \<times> 's) option" where
  "route_autocompleteUsers h env =
     UserScope_handler (auth_of h env) ScopeAutocompleteUsers
       (answer RUsernames (h_autocompleteUsers h)) (FixedStatusCode 200)
       [InvalidQueryParameter, InvalidAutocompleteQuery, Unauthorized, Forbidden, UnavailableInAnonymousMode,
        DatabaseError]"

definition route_listUsers ::
  "'s Server \<Rightarrow> env \<Rightarrow> http_request \<Rightarrow> 's \<Rightarrow> (api_response http_response \<times> 's) option" where
  "route_listUsers h env =
     UserScope_handler (auth_of h env) ScopeListUsers
       (answer RUsers (h_listUsers h)) (FixedStatusCode 200)
       [InvalidQueryParameter, Unauthorized, Forbidden, UnavailableInAnonymousMode, DatabaseError]"

definition route_getUserRoles ::
  "'s Server \<Rightarrow> env \<Rightarrow> http_request \<Rightarrow> 's \<Rightarrow> (api_response http_response \<times> 's) option" where
  "route_getUserRoles h env =
     UserScope_handler (auth_of h env) ScopeGetUserRoles
       (answer RUserRoles (h_getUserRoles h)) (FixedStatusCode 200)
       [InvalidQueryParameter, Unauthorized, Forbidden, UnavailableInAnonymousMode, DatabaseError]"

definition route_listOwnMountGrants ::
  "'s Server \<Rightarrow> env \<Rightarrow> http_request \<Rightarrow> 's \<Rightarrow> (api_response http_response \<times> 's) option" where
  "route_listOwnMountGrants h env =
     UserScope_handler (auth_of h env) ScopeListOwnMountGrants
       (answer RMountGrants (h_listOwnMountGrants h)) (FixedStatusCode 200)
       [InvalidQueryParameter, Unauthorized, Forbidden, UnavailableInAnonymousMode, DatabaseError]"

definition route_listUserKeys ::
  "'s Server \<Rightarrow> env \<Rightarrow> http_request \<Rightarrow> 's \<Rightarrow> (api_response http_response \<times> 's) option" where
  "route_listUserKeys h env =
     UserScope_handler (auth_of h env) ScopeListUserKeys
       (answer RKeys (h_listUserKeys h env)) (FixedStatusCode 200)
       [InvalidQueryParameter, Unauthorized, Forbidden, UnavailableInAnonymousMode, DatabaseError]"

definition route_issueUserKey ::
  "'s Server \<Rightarrow> env \<Rightarrow> KeyIssueRequest request_body \<Rightarrow> http_request \<Rightarrow> 's \<Rightarrow> (api_response http_response \<times> 's) option" where
  "route_issueUserKey h env body =
     UserScope_handler (auth_of h env) ScopeIssueUserKey
       (answer RIssuedKey (h_issueUserKey h env body)) (FixedStatusCode 201)
       [BodyMissing, BodyInvalidJSON, InvalidQueryParameter, InvalidNamespaceID, UnknownScope,
        NamespaceNotFound, Unauthorized, Forbidden, UnavailableInAnonymousMode, BodySizeExceeded,
        DatabaseError, BadIDGeneration, InsufficientEntropy]"

definition route_setUserPassword ::
  "'s Server \<Rightarrow> env \<Rightarrow> string option request_body \<Rightarrow> http_request \<Rightarrow> 's \<Rightarrow> (api_response http_response \<times> 's) option" where
  "route_setUserPassword h env body =
     UserScope_handler (auth_of h env) ScopeSetUserPassword
       (answer RPassword (h_setUserPassword h body)) (FixedStatusCode 200)
       [BodyMissing, BodyInvalidJSON, InvalidPassword, Unauthorized, Forbidden, UnavailableInAnonymousMode,
        BodySizeExceeded, DatabaseError]"

definition route_revokeUserKey ::
  "'s Server \<Rightarrow> env \<Rightarrow> string request_body \<Rightarrow> http_request \<Rightarrow> 's \<Rightarrow> (api_response http_response \<times> 's) option" where
  "route_revokeUserKey h env body =
     UserScope_handler (auth_of h env) ScopeRevokeUserKey
       (answer RNothing (h_revokeUserKey h body)) (FixedStatusCode 204)
       [BodyMissing, BodyInvalidJSON, Unauthorized, Forbidden, KeyNotFound, UnavailableInAnonymousMode,
        BodySizeExceeded, DatabaseError]"

section \<open>Serving a request\<close>

datatype operation =
    Op_getResolverInfo
  | Op_getResolverMeta
  | Op_listScopes
  | Op_listNamespaces
  | Op_createNamespace "NamespaceCreateRequest request_body"
  | Op_countAllResources
  | Op_listMounts
  | Op_resolveMountByBaseUri
  | Op_upsertNamespaceMount "string request_body"
  | Op_deleteNamespaceMount
  | Op_resolveResourceByMountAndPID
  | Op_setMountGrant "string request_body"
  | Op_deleteMountGrant
  | Op_getNamespace
  | Op_updateNamespace "NamespaceUpdateRequest request_body"
  | Op_listNamespaceMounts
  | Op_listNamespaceRoles
  | Op_getNamespaceRole
  | Op_setNamespaceRole "Role request_body"
  | Op_removeNamespaceRole
  | Op_listResources
  | Op_createResource "ResourceCreateRequest request_body"
  | Op_createResourceBatch "ResourceCreateRequest list request_body"
  | Op_getResource
  | Op_updateResource "ResourceUpdateRequest request_body"
  | Op_getUserInfo
  | Op_updateUser "bool option request_body"
  | Op_createUser "UserCreateRequest request_body"
  | Op_deleteUser
  | Op_autocompleteUsers
  | Op_listUsers
  | Op_getUserRoles
  | Op_listOwnMountGrants
  | Op_listUserKeys
  | Op_issueUserKey "KeyIssueRequest request_body"
  | Op_setUserPassword "string option request_body"
  | Op_revokeUserKey "string request_body"

fun ServeHTTP ::
  "'s Server \<Rightarrow> env \<Rightarrow> operation \<Rightarrow> http_request \<Rightarrow> 's \<Rightarrow> (api_response http_response \<times> 's) option" where
  "ServeHTTP h env Op_getResolverInfo = route_getResolverInfo h env"
| "ServeHTTP h env Op_getResolverMeta = route_getResolverMeta h env"
| "ServeHTTP h env Op_listScopes = route_listScopes h env"
| "ServeHTTP h env Op_listNamespaces = route_listNamespaces h env"
| "ServeHTTP h env (Op_createNamespace body) = route_createNamespace h env body"
| "ServeHTTP h env Op_countAllResources = route_countAllResources h env"
| "ServeHTTP h env Op_listMounts = route_listMounts h env"
| "ServeHTTP h env Op_resolveMountByBaseUri = route_resolveMountByBaseUri h env"
| "ServeHTTP h env (Op_upsertNamespaceMount body) = route_upsertNamespaceMount h env body"
| "ServeHTTP h env Op_deleteNamespaceMount = route_deleteNamespaceMount h env"
| "ServeHTTP h env Op_resolveResourceByMountAndPID = route_resolveResourceByMountAndPID h env"
| "ServeHTTP h env (Op_setMountGrant body) = route_setMountGrant h env body"
| "ServeHTTP h env Op_deleteMountGrant = route_deleteMountGrant h env"
| "ServeHTTP h env Op_getNamespace = route_getNamespace h env"
| "ServeHTTP h env (Op_updateNamespace body) = route_updateNamespace h env body"
| "ServeHTTP h env Op_listNamespaceMounts = route_listNamespaceMounts h env"
| "ServeHTTP h env Op_listNamespaceRoles = route_listNamespaceRoles h env"
| "ServeHTTP h env Op_getNamespaceRole = route_getNamespaceRole h env"
| "ServeHTTP h env (Op_setNamespaceRole body) = route_setNamespaceRole h env body"
| "ServeHTTP h env Op_removeNamespaceRole = route_removeNamespaceRole h env"
| "ServeHTTP h env Op_listResources = route_listResources h env"
| "ServeHTTP h env (Op_createResource body) = route_createResource h env body"
| "ServeHTTP h env (Op_createResourceBatch body) = route_createResourceBatch h env body"
| "ServeHTTP h env Op_getResource = route_getResource h env"
| "ServeHTTP h env (Op_updateResource body) = route_updateResource h env body"
| "ServeHTTP h env Op_getUserInfo = route_getUserInfo h env"
| "ServeHTTP h env (Op_updateUser body) = route_updateUser h env body"
| "ServeHTTP h env (Op_createUser body) = route_createUser h env body"
| "ServeHTTP h env Op_deleteUser = route_deleteUser h env"
| "ServeHTTP h env Op_autocompleteUsers = route_autocompleteUsers h env"
| "ServeHTTP h env Op_listUsers = route_listUsers h env"
| "ServeHTTP h env Op_getUserRoles = route_getUserRoles h env"
| "ServeHTTP h env Op_listOwnMountGrants = route_listOwnMountGrants h env"
| "ServeHTTP h env Op_listUserKeys = route_listUserKeys h env"
| "ServeHTTP h env (Op_issueUserKey body) = route_issueUserKey h env body"
| "ServeHTTP h env (Op_setUserPassword body) = route_setUserPassword h env body"
| "ServeHTTP h env (Op_revokeUserKey body) = route_revokeUserKey h env body"

end
