(* ===== verification/Error_Codes.thy ===== *)
theory Error_Codes
  imports Routes
begin

text \<open>
  Which error codes an operation can return, from the service up to the routes. \<open>codes C r\<close> says that an error \<open>r\<close> carries
  a code of \<open>C\<close>; the rules collected in \<open>code_intros\<close> follow the structure of the handlers, and the
  contract of the authentication service is the locale \<open>auth_service\<close>. Nothing is
  assumed of the backend here.
\<close>

declare GetErrorCode.simps(2) [simp del]

named_theorems code_intros \<open>which error codes an operation returns\<close>

definition codes :: "ErrorCode set \<Rightarrow> (gerr, 'a) res \<Rightarrow> bool" where
  "codes C r \<longleftrightarrow> (\<forall>e. r = Err e \<longrightarrow> (\<exists>c \<in> C. GetErrorCode e = Some c))"

lemma codes_simps [simp]:
  "codes C (Ok v)" "codes C Panic" "codes C (Err e) \<longleftrightarrow> (\<exists>c \<in> C. GetErrorCode e = Some c)"
  by (auto simp: codes_def)

lemma codes_mono: "codes C r \<Longrightarrow> C \<subseteq> D \<Longrightarrow> codes D r"
  by (auto simp: codes_def)

text \<open>The same for an implementation run in a state.\<close>

definition impl_codes :: "ErrorCode set \<Rightarrow> ('s \<Rightarrow> ((gerr, 'a) res \<times> 's) option) \<Rightarrow> 's \<Rightarrow> bool" where
  "impl_codes C f s \<longleftrightarrow> (\<forall>r s'. f s = Some (r, s') \<longrightarrow> codes C r)"

section \<open>Results\<close>

lemma translate_codes: "\<exists>c. GetErrorCode (translate table e) = Some c \<and> c \<in> insert DatabaseError (snd ` set table)"
proof (cases "List.find (\<lambda>(s, _). errors_is e s) table")
  case (Some p)
  then have "p \<in> set table" by (simp add: find_SomeD)
  then have "snd p \<in> snd ` set table" by (rule imageI)
  moreover have "GetErrorCode (translate table e) = Some (snd p)" using Some by (simp add: translate_def split: prod.splits)
  ultimately show ?thesis by blast
qed (simp add: translate_def)

lemma codes_reply [code_intros]:
  assumes "list_all (\<lambda>p. snd p \<in> C) table" and "DatabaseError \<in> C"
  shows "codes C (reply table r)"
proof (cases r)
  case (Err e)
  then show ?thesis using assms translate_codes [of table e] by (auto simp: reply_def list_all_iff)
qed (simp_all add: reply_def)

lemma codes_fmap [simp]: "codes C (fmap_res f r) \<longleftrightarrow> codes C r"
  by (cases r) (simp_all add: fmap_res_def)

lemma codes_wrap [simp]: "codes C (wrap_result r) \<longleftrightarrow> codes C r"
  by (cases r) (simp_all add: wrap_result_def)

lemma codes_with_code [code_intros]: "c \<in> C \<Longrightarrow> codes C (with_code c r)"
  by (cases r) (simp_all add: with_code_def)

lemma codes_bind [code_intros]:
  "codes C r \<Longrightarrow> (\<And>v. r = Ok v \<Longrightarrow> codes C (f v)) \<Longrightarrow> codes C (bind_res r f)"
  by (cases r) simp_all

lemma errors_is_translate: "errors_is (translate table e) t \<longleftrightarrow> errors_is e t"
  by (auto simp: translate_def split: option.splits)

section \<open>Implementations\<close>

lemma impl_seq [code_intros]:
  "codes C x \<Longrightarrow> (\<And>v. x = Ok v \<Longrightarrow> impl_codes C (f v) s) \<Longrightarrow> impl_codes C (seq_impl x f) s"
  by (cases x) (auto simp: impl_codes_def seq_impl_def)

lemma impl_reading [code_intros]: "codes C (f s) \<Longrightarrow> impl_codes C (reading f) s"
  by (simp add: impl_codes_def reading_def)

lemma impl_writing [code_intros]: "codes C (fst (f s)) \<Longrightarrow> impl_codes C (writing f) s"
  by (cases "f s") (auto simp: impl_codes_def writing_def)

lemma impl_searching [code_intros]: "pred_option (codes C) (f s) \<Longrightarrow> impl_codes C (searching f) s"
  by (cases "f s") (auto simp: impl_codes_def searching_def)

lemma impl_answer [code_intros]: "impl_codes C (impl r u) s \<Longrightarrow> impl_codes C (answer f impl r u) s"
  by (auto simp: impl_codes_def answer_def)

lemma impl_answer_public [code_intros]: "impl_codes C (impl r) s \<Longrightarrow> impl_codes C (answer_public f impl r) s"
  by (auto simp: impl_codes_def answer_public_def)

lemma impl_case_prod [code_intros]: "impl_codes C (f (fst p) (snd p)) s \<Longrightarrow> impl_codes C (case p of (x, y) \<Rightarrow> f x y) s"
  by (cases p) simp

lemma codes_deref [code_intros]: "codes C (deref c)"
  by (cases c) (simp_all add: deref_def)

section \<open>Parameters and bodies\<close>

lemma codes_read_int: "InvalidQueryParameter \<in> C \<Longrightarrow> codes C (read_int r n e1 e2 d)"
  by (auto simp: read_int_def query_error_def split: res.splits)

lemma codes_parsePagination [code_intros]: "InvalidQueryParameter \<in> C \<Longrightarrow> codes C (parsePagination sv r)"
  by (auto simp: parsePagination_def Let_def intro!: codes_bind codes_read_int)

lemma codes_params [code_intros]:
  "InvalidPID \<in> C \<Longrightarrow> codes C (readPidParam r)"
  "InvalidUsername \<in> C \<Longrightarrow> codes C (readUsernameParam r)"
  "InvalidBaseURI \<in> C \<Longrightarrow> codes C (readBaseURIParam p r)"
  "InvalidMountGrantPattern \<in> C \<Longrightarrow> codes C (readMountGrantPatternParam re r)"
  "InvalidNamespaceID \<in> C \<Longrightarrow> codes C (readNamespaceParam r)"
  by (auto simp: readPidParam_def readUsernameParam_def readBaseURIParam_def readMountGrantPatternParam_def
      readNamespaceParam_def codes_with_code split: res.splits)

lemma codes_query [code_intros]:
  "InvalidQueryParameter \<in> C \<Longrightarrow> InvalidUsername \<in> C \<Longrightarrow> codes C (readRequiredUsernameFromQuery r)"
  "InvalidQueryParameter \<in> C \<Longrightarrow> InvalidAutocompleteQuery \<in> C \<Longrightarrow> codes C (readRequiredAutocompleteFromQuery r)"
  "InvalidQueryParameter \<in> C \<Longrightarrow> codes C (readOptionalBooleanFromQuery r n)"
  "InvalidQueryParameter \<in> C \<Longrightarrow> codes C (read_deleted r)"
  by (auto simp: readRequiredUsernameFromQuery_def readRequiredAutocompleteFromQuery_def
      readOptionalBooleanFromQuery_def read_deleted_def query_error_def Let_def codes_with_code split: res.splits)

text \<open>Strict decoding wraps every failure in one of its three errors, so each has a code.\<close>

lemma UnmarshalStrictTo_err:
  assumes "UnmarshalStrictTo b = Err e"
  shows "errors_is e (Named ''ErrJsonNull'') \<or> errors_is e (Named ''ErrFailedToDecode'') \<or>
    errors_is e (Named ''ErrTrailingData'')"
  using assms
  by (auto simp: UnmarshalStrictTo_def ErrJsonNull_def ErrFailedToDecode_def ErrTrailingData_def
      split: res.splits option.splits if_splits)

lemma codes_decodeJSON [code_intros]:
  assumes "BodyMissing \<in> C" and "BodyInvalidJSON \<in> C" and "BodySizeExceeded \<in> C"
  shows "codes C (decodeJSON sv body)"
proof -
  have "\<exists>c\<in>C. GetErrorCode (decode_error e) = Some c" if "UnmarshalStrictTo b = Err e" for b :: "'a json_body" and e
    using assms UnmarshalStrictTo_err [OF that] by (auto simp: decode_error_def)
  then show ?thesis
    using assms by (auto simp: codes_def decodeJSON_def Let_def split: res.splits option.splits)
qed

section \<open>Scope checks\<close>

text \<open>What the handlers rely on of the authentication service (\<^verbatim>\<open>lowlevel.go\<close>).\<close>

locale auth_service =
  fixes auth :: "'s AuthService"
  assumes role_codes: "\<And>n u s. codes {NamespaceNotFound, DatabaseError} (au_ExplicitNamespaceRole auth n u s)"
    and anonymous_key: "\<And>k s. au_AnonymousMode auth \<Longrightarrow> \<exists>e. au_AuthenticateAPIKey auth k s = Err e"
    and anonymous_password: "\<And>u p s. au_AnonymousMode auth \<Longrightarrow> \<exists>e. au_AuthenticatePassword auth u p s = Err e"
begin

lemma user_scope_codes:
  assumes "CheckUserScope auth c scope = Some e"
  shows "\<exists>code. GetErrorCode e = Some code \<and>
    (if au_AnonymousMode auth then code = UnavailableInAnonymousMode else code \<in> {Unauthorized, Forbidden})"
  using assms Evaluate_error_codes(1) [of c scope]
  by (auto simp: CheckUserScope_def EvaluateAnonymousModeUserScope_def errAnonymousMode_def
      split: if_splits res.splits)

lemma namespace_scope_codes:
  "codes (if au_AnonymousMode auth then {UnavailableInAnonymousMode}
          else {Unauthorized, Forbidden, NamespaceNotFound, DatabaseError}) (CheckNamespaceScope auth n c scope s)"
proof (cases "au_AnonymousMode auth")
  case True
  then show ?thesis
    by (auto simp: CheckNamespaceScope_def EvaluateAnonymousModeNamespaceScope_def errAnonymousMode_def
        split: option.splits res.splits if_splits)
next
  case False
  have "codes {Unauthorized, Forbidden, NamespaceNotFound, DatabaseError}
     (case EvaluateNamespaceScope n role c scope of Some e \<Rightarrow> Err (Fmt [e]) | None \<Rightarrow> Ok ())" for role
    using Evaluate_error_codes(2) [of n role c scope] by (auto split: option.splits)
  note evaluated = this
  show ?thesis
  proof (cases c)
    case None
    then show ?thesis using False evaluated by (simp add: CheckNamespaceScope_def)
  next
    case (Some d)
    then show ?thesis
      using False evaluated role_codes [of n "cl_username d" s]
      by (cases "au_ExplicitNamespaceRole auth n (cl_username d) s") (auto simp: CheckNamespaceScope_def)
  qed
qed

lemma impersonation_codes: "codes {Unauthorized, DatabaseError} (resolveImpersonatedUser auth r c s)"
  by (auto simp: resolveImpersonatedUser_def split: list.splits option.splits res.splits)

lemma load_caller_codes: "codes {Unauthorized, DatabaseError} (load_caller auth r u m s)"
  using impersonation_codes by (auto simp: load_caller_def split: res.splits)

lemma BasicAuth_no_err [simp]: "BasicAuth h \<noteq> Err e" "BearerToken h \<noteq> Err e"
  by (simp_all add: BasicAuth_def BearerToken_def)

lemma caller_codes: "codes {Unauthorized, DatabaseError} (resolveCaller auth r s)"
  using load_caller_codes
  by (auto simp: resolveCaller_def Let_def split: Kind.splits res.splits)

text \<open>In anonymous mode nobody is authenticated.\<close>

lemma anonymous_caller:
  assumes "au_AnonymousMode auth"
  shows "resolveCaller auth r s = Ok c \<Longrightarrow> c = None"
proof -
  have "au_AuthenticateAPIKey auth k s \<noteq> Ok v" "au_AuthenticatePassword auth u p s \<noteq> Ok w" for k v u p w
    using anonymous_key [OF assms, of k s] anonymous_password [OF assms, of u p s] by auto
  then show "resolveCaller auth r s = Ok c \<Longrightarrow> c = None"
    by (auto simp: resolveCaller_def Let_def split: Kind.splits res.splits)
qed

text \<open>A handler with a user scope: what it declares has to include the codes of the scope check.\<close>

lemma user_scope_impl_codes:
  assumes "Unauthorized \<in> C" "Forbidden \<in> C"
    and "au_AnonymousMode auth \<Longrightarrow> UnavailableInAnonymousMode \<in> C \<or> EvaluateAnonymousModeUserScope scope = None"
    and "impl_codes C (impl r u) s"
  shows "impl_codes C (user_scope_impl auth (\<lambda>_ _. Ok ((), scope)) (\<lambda>_. impl) r u) s"
proof (cases "CheckUserScope auth u scope")
  case None
  then show ?thesis using assms(4) by (auto simp: impl_codes_def user_scope_impl_def)
next
  case (Some e)
  have "\<exists>c\<in>C. GetErrorCode e = Some c"
  proof (cases "au_AnonymousMode auth \<and> EvaluateAnonymousModeUserScope scope = None")
    case True
    then show ?thesis using Some by (simp add: CheckUserScope_def)
  next
    case False
    then show ?thesis using user_scope_codes [OF Some] assms(1-3) by (auto split: if_splits)
  qed
  then show ?thesis using Some by (auto simp: impl_codes_def user_scope_impl_def)
qed

lemma namespace_scope_impl_codes:
  assumes "Unauthorized \<in> C" "Forbidden \<in> C" "NamespaceNotFound \<in> C" "DatabaseError \<in> C" "InvalidNamespaceID \<in> C"
    and "codes C (scope r u)"
    and "\<And>v sc n. scope r u = Ok (v, sc) \<Longrightarrow> au_AnonymousMode auth \<Longrightarrow>
      UnavailableInAnonymousMode \<in> C \<or> EvaluateAnonymousModeNamespaceScope n sc = None"
    and "\<And>n v. impl_codes C (impl n v r u) s"
  shows "impl_codes C (namespace_scope_impl auth scope impl r u) s"
proof (cases "scope r u")
  case (Ok p)
  obtain v sc where p: "p = (v, sc)" by (cases p)
  have n: "codes C (readNamespaceParam r)" by (rule codes_params(5) [OF assms(5)])
  have chk: "codes C (CheckNamespaceScope auth m u sc s)" for m
  proof (cases "au_AnonymousMode auth \<and> EvaluateAnonymousModeNamespaceScope m sc = None")
    case True
    then show ?thesis by (simp add: CheckNamespaceScope_def)
  next
    case False
    then show ?thesis
      using namespace_scope_codes [of m u sc s] assms(1-5) assms(7) [of v sc m] Ok p
      by (auto elim!: codes_mono split: if_splits)
  qed
  show ?thesis
  proof (cases "readNamespaceParam r")
    case m: (Ok m)
    then show ?thesis
      using Ok p chk [of m] assms(8) [of m v]
      by (cases "CheckNamespaceScope auth m u sc s") (auto simp: impl_codes_def namespace_scope_impl_def)
  qed (use Ok p n in \<open>auto simp: impl_codes_def namespace_scope_impl_def\<close>)
qed (use assms(6) in \<open>auto simp: impl_codes_def namespace_scope_impl_def\<close>)

end

interpretation svc_auth: auth_service "service_auth sv now" for sv :: "'s Service" and now
proof (unfold_locales, goal_cases)
  case (1 n u s)
  show ?case by (simp add: service_auth_def ExplicitNamespaceRole_def codes_reply)
qed (simp_all add: service_auth_def AuthenticateAPIKey_def AuthenticatePassword_def)

section \<open>The service\<close>

lemma count_total_no_err [simp]: "count_total r \<noteq> Err e"
  by (cases r) (simp_all add: count_total_def)

lemma existing_user_lost_code [simp]: "GetErrorCode (existing_user_lost e) = Some DatabaseError"
  by (simp add: existing_user_lost_def)

lemma entropy_code [simp]: "GetErrorCode errInsufficientEntropy = Some InsufficientEntropy"
  by (simp add: errInsufficientEntropy_def)

lemma svc_ListNamespaces_codes [code_intros]:
  "DatabaseError \<in> C \<Longrightarrow> pred_option (codes C) (svc_ListNamespaces sv c ps chk s)"
  by (cases "listVisibleNamespaces sv (if c \<noteq> None \<and> \<not> Caller_Superuser c then c else None) ps chk s")
    (auto simp: svc_ListNamespaces_def Let_def codes_def split: res.splits)

lemma create_namespace_loop_codes:
  "{DatabaseError, BadIDGeneration, InsufficientEntropy} \<subseteq> C \<Longrightarrow>
     codes C (fst (create_namespace_loop sv gen tot req owner clock k st s))"
  by (induction k arbitrary: st s) (auto split: prod.splits res.splits)

lemma svc_CreateNamespace_codes [code_intros]:
  "{DatabaseError, BadIDGeneration, InsufficientEntropy} \<subseteq> C \<Longrightarrow> codes C (fst (svc_CreateNamespace sv c req clock s))"
  by (auto simp: svc_CreateNamespace_def Let_def create_namespace_loop_codes split: res.splits)

lemma candidate_loop_codes: "BadIDGeneration \<in> C \<Longrightarrow> codes C (fst (candidate_loop gen tot k seen st))"
  by (induction k arbitrary: seen st) (auto split: prod.splits res.splits)

lemma slots_loop_codes: "BadIDGeneration \<in> C \<Longrightarrow> codes C (fst (slots_loop gen f m n pids seen tot st))"
proof (induction n arbitrary: pids seen tot st)
  case (Suc n)
  from candidate_loop_codes [OF Suc.prems, of gen tot m seen st] Suc show ?case
    by (auto split: prod.splits res.splits option.splits)
qed simp

lemma allocate_loop_codes:
  assumes "{DatabaseError, BadIDGeneration, InsufficientEntropy} \<subseteq> C"
  shows "codes C (fst (allocate_loop gen f m n ins clock k tot st s))"
proof (induction k arbitrary: tot st s)
  case (Suc k)
  have "BadIDGeneration \<in> C" using assms by simp
  from slots_loop_codes [OF this, of gen f m n "[]" "[]" tot st] Suc assms show ?case
    by (auto split: prod.splits res.splits)
qed (use assms in simp)

lemma allocatePIDs_codes:
  "{DatabaseError, BadIDGeneration, InsufficientEntropy} \<subseteq> C \<Longrightarrow> codes C (fst (allocatePIDs sv f tot n ins clock s))"
  by (simp add: allocatePIDs_def Let_def allocate_loop_codes)

lemma svc_CreateResource_codes [code_intros]:
  assumes "{NamespaceNotFound, DatabaseError, BadIDGeneration, InsufficientEntropy} \<subseteq> C"
  shows "codes C (fst (svc_CreateResource sv n req clock s))"
proof -
  have "codes C (reply [(ErrNamespaceNotFound, NamespaceNotFound)] (be_GetNamespace (Namespaces (sv_backend sv)) n s))"
    using assms by (intro codes_reply) simp_all
  then show ?thesis
    using assms by (auto simp: svc_CreateResource_def allocatePID_def allocatePIDs_codes split: res.splits)
qed

lemma svc_BatchCreateResources_codes [code_intros]:
  assumes "{ItemLimitExceeded, NamespaceNotFound, DatabaseError, BadIDGeneration, InsufficientEntropy} \<subseteq> C"
  shows "codes C (fst (svc_BatchCreateResources sv n reqs clock s))"
proof -
  have "codes C (reply [(ErrNamespaceNotFound, NamespaceNotFound)] (be_GetNamespace (Namespaces (sv_backend sv)) n s))"
    using assms by (intro codes_reply) simp_all
  then show ?thesis
    using assms by (auto simp: svc_BatchCreateResources_def Let_def allocatePIDs_codes split: res.splits)
qed

lemma codes_apfst_reply [simp]: "codes C (fst (apfst f x)) \<longleftrightarrow> codes C (f (fst x))"
  by (cases x) simp

lemmas svc_table_defs =
  svc_GetNamespace_def svc_UpdateNamespace_def svc_CountAllResources_def svc_ListResources_def svc_GetResource_def
  svc_UpdateResource_def svc_GetNamespaceRole_def svc_ListNamespaceRoles_def svc_ListUserRoles_def
  svc_SetMountGrant_def svc_DeleteMountGrant_def svc_GetMount_def svc_ListNamespaceMounts_def svc_SetMount_def
  svc_DeleteMount_def svc_CreateUser_def svc_ListUsers_def svc_AutocompleteUsers_def SetUserPassword_def svc_RevokeKey_def

text \<open>The operations that translate the backend's error with a table.\<close>

lemma svc_table_codes [code_intros]:
  "{NamespaceNotFound, DatabaseError} \<subseteq> C \<Longrightarrow> codes C (svc_GetNamespace sv n s)"
  "{NamespaceNotFound, DatabaseError} \<subseteq> C \<Longrightarrow> codes C (fst (svc_UpdateNamespace sv n ur now s))"
  "{DatabaseError} \<subseteq> C \<Longrightarrow> codes C (svc_CountAllResources sv s)"
  "{NamespaceNotFound, DatabaseError} \<subseteq> C \<Longrightarrow> codes C (svc_ListResources sv n ps s)"
  "{NamespaceNotFound, ResourceNotFound, DatabaseError} \<subseteq> C \<Longrightarrow> codes C (svc_GetResource sv n p red s)"
  "{NamespaceNotFound, ResourceNotFound, DatabaseError} \<subseteq> C \<Longrightarrow> codes C (fst (svc_UpdateResource sv n p rr now s))"
  "{NamespaceNotFound, DatabaseError} \<subseteq> C \<Longrightarrow> codes C (svc_GetNamespaceRole sv n u s)"
  "{NamespaceNotFound, DatabaseError} \<subseteq> C \<Longrightarrow> codes C (svc_ListNamespaceRoles sv n l off s)"
  "{DatabaseError} \<subseteq> C \<Longrightarrow> codes C (svc_ListUserRoles sv c l off s)"
  "{UserNotFound, DatabaseError} \<subseteq> C \<Longrightarrow> codes C (fst (svc_SetMountGrant sv u pat s))"
  "{UserNotFound, MountGrantNotFound, DatabaseError} \<subseteq> C \<Longrightarrow> codes C (fst (svc_DeleteMountGrant sv u pat s))"
  "{MountNotFound, DatabaseError} \<subseteq> C \<Longrightarrow> codes C (svc_GetMount sv b s)"
  "{NamespaceNotFound, DatabaseError} \<subseteq> C \<Longrightarrow> codes C (svc_ListNamespaceMounts sv n l off s)"
  "{NamespaceNotFound, DatabaseError} \<subseteq> C \<Longrightarrow> codes C (fst (svc_SetMount sv b n s))"
  "{MountNotFound, DatabaseError} \<subseteq> C \<Longrightarrow> codes C (fst (svc_DeleteMount sv b s))"
  "{DuplicateUsername, DatabaseError} \<subseteq> C \<Longrightarrow> codes C (fst (svc_CreateUser sv cr now s))"
  "{DatabaseError} \<subseteq> C \<Longrightarrow> codes C (svc_ListUsers sv ups s)"
  "{DatabaseError} \<subseteq> C \<Longrightarrow> codes C (svc_AutocompleteUsers sv q s)"
  "{DatabaseError} \<subseteq> C \<Longrightarrow> codes C (fst (SetUserPassword sv c pw s))"
  "{KeyNotFound, DatabaseError} \<subseteq> C \<Longrightarrow> codes C (fst (svc_RevokeKey sv c k s))"
  by (simp_all add: svc_table_defs codes_reply)

lemma svc_user_codes [code_intros]:
  "{Forbidden, UserNotFound, DatabaseError} \<subseteq> C \<Longrightarrow> codes C (fst (svc_DeleteUser sv c u s))"
  "{Forbidden, UserNotFound, DatabaseError} \<subseteq> C \<Longrightarrow> codes C (fst (svc_UpdateUser sv c u b s))"
  by (simp_all add: svc_DeleteUser_def svc_UpdateUser_def codes_reply)

lemma svc_role_codes [code_intros]:
  "{InvalidRole, NamespaceNotFound, DatabaseError} \<subseteq> C \<Longrightarrow> codes C (fst (svc_SetNamespaceRole sv n u role s))"
  "{RoleNotFound, NamespaceNotFound, DatabaseError} \<subseteq> C \<Longrightarrow> codes C (fst (svc_DeleteNamespaceRole sv n u s))"
proof -
  assume C: "{InvalidRole, NamespaceNotFound, DatabaseError} \<subseteq> C"
  then have "\<exists>c\<in>C. GetErrorCode (translate [(ErrInvalidRole, InvalidRole)] e) = Some c" for e
    using translate_codes [of "[(ErrInvalidRole, InvalidRole)]" e] by auto
  then show "codes C (fst (svc_SetNamespaceRole sv n u role s))"
    using C by (auto simp: svc_SetNamespaceRole_def codes_reply split: prod.splits res.splits)
next
  assume C: "{RoleNotFound, NamespaceNotFound, DatabaseError} \<subseteq> C"
  have "codes C (reply [(ErrNamespaceNotFound, NamespaceNotFound)] (be_GetNamespace (Namespaces (sv_backend sv)) n s))"
    using C by (intro codes_reply) simp_all
  moreover have "codes C (reply [(ErrRoleNotFound, RoleNotFound)] r)" for r :: "(gerr, unit) res"
    using C by (intro codes_reply) simp_all
  ultimately show "codes C (fst (svc_DeleteNamespaceRole sv n u s))"
    by (auto simp: svc_DeleteNamespaceRole_def split: res.splits)
qed

lemma svc_ListUserMountGrants_codes [code_intros]:
  "DatabaseError \<in> C \<Longrightarrow> codes C (svc_ListUserMountGrants sv c l off s)"
  by (auto simp: svc_ListUserMountGrants_def split: option.splits res.splits)

lemma send_grants_codes: "DatabaseError \<in> C \<Longrightarrow> codes C (send_grants re f ps acc)"
  by (induction ps arbitrary: acc) (auto split: res.splits prod.splits)

lemma loadCompiledMountGrants_codes:
  assumes C: "DatabaseError \<in> C" and "loadCompiledMountGrants list re l f off acc = Some r"
  shows "codes C r"
proof (rule loadCompiledMountGrants.raw_induct [OF _ assms(2), where P = "\<lambda>list re l f off acc r. codes C r"])
  fix load list re l f off acc r
  assume IH: "\<And>list re l f off acc r. load list re l f off acc = Some r \<Longrightarrow> codes C r"
    and r: "(case list l off of
        Ok page \<Rightarrow> (case send_grants re f (pg_Items page) acc of
            Ok (acc', stop) \<Rightarrow>
              if stop then Some (Ok acc')
              else let offset' = off + int (length (pg_Items page))
                   in if pg_Total page \<le> offset' \<or> length (pg_Items page) = 0 then Some (Ok acc')
                      else load list re l f offset' acc'
          | Err e \<Rightarrow> Some (Err e) | Panic \<Rightarrow> Some Panic)
      | Err e \<Rightarrow> Some (Err (if errors_is e ErrUserNotFound then existing_user_lost e
                            else WithErrorCode (Fmt [e]) DatabaseError))
      | Panic \<Rightarrow> Some Panic) = Some r"
  show "codes C r"
  proof (cases "list l off")
    case (Ok page)
    with r IH send_grants_codes [OF C, of re f "pg_Items page" acc] show ?thesis
      by (auto simp: Let_def split: res.splits if_splits prod.splits)
  qed (use r C in \<open>auto split: if_splits\<close>)
qed

lemma MountGrantMatches_codes:
  "DatabaseError \<in> C \<Longrightarrow> MountGrantMatches sv re u b s = Some r \<Longrightarrow> codes C r"
  "DatabaseError \<in> C \<Longrightarrow> getAllCompiledMounts sv re u s = Some rs \<Longrightarrow> codes C rs"
  by (auto simp: MountGrantMatches_def getAllCompiledMounts_def intro: loadCompiledMountGrants_codes)

lemma svc_ListMounts_codes [code_intros]:
  assumes "DatabaseError \<in> C"
  shows "pred_option (codes C) (svc_ListMounts sv re c l off s)"
proof -
  have "codes C (reply [] (be_ListMounts (Mounts (sv_backend sv)) l off s))"
    using assms by (simp add: codes_reply)
  note listed = this
  show ?thesis
  proof (cases c)
    case (Some d)
    then show ?thesis
      using listed assms MountGrantMatches_codes(2) [OF assms, of sv re "cl_username d" s]
      by (auto simp: svc_ListMounts_def Let_def option.pred_set split: res.splits bind_splits)
  qed (use listed in \<open>simp add: svc_ListMounts_def\<close>)
qed

lemma svc_ListKeys_codes [code_intros]:
  "{UserNotFound, DatabaseError} \<subseteq> C \<Longrightarrow> pred_option (codes C) (svc_ListKeys sv c l off now s)"
  by (auto simp: svc_ListKeys_def option.pred_set codes_reply)

lemma ensureKeyNamespaceScopesExist_codes:
  assumes "{InvalidNamespaceID, NamespaceNotFound, DatabaseError} \<subseteq> C"
  shows "codes C (ensureKeyNamespaceScopesExist sv gs seen s)"
proof (induction gs arbitrary: seen)
  case (Cons g gs)
  have "codes C (reply [(ErrNamespaceNotFound, NamespaceNotFound)] (be_GetNamespace (Namespaces (sv_backend sv)) n s))" for n
    using assms by (intro codes_reply) simp_all
  then show ?case
    using Cons assms by (auto simp: codes_def split: res.splits)
qed simp

lemma issue_key_loop_codes:
  "{UserNotFound, DatabaseError, BadIDGeneration, InsufficientEntropy} \<subseteq> C \<Longrightarrow>
     codes C (fst (issue_key_loop sv ids keys tot f u req clock k ist kst s))"
  by (induction k arbitrary: ist kst s) (auto split: prod.splits res.splits)

lemma IssueKey_codes [code_intros]:
  assumes "{InvalidQueryParameter, InvalidNamespaceID, NamespaceNotFound, UserNotFound, DatabaseError,
     BadIDGeneration, InsufficientEntropy} \<subseteq> C"
  shows "codes C (fst (IssueKey sv c req now clock s))"
proof -
  have "codes C (ensureKeyNamespaceScopesExist sv (kir_NamespaceScopes req) [] s)"
    using assms by (intro ensureKeyNamespaceScopesExist_codes) simp
  then show ?thesis
    using assms by (auto simp: IssueKey_def issueAPIKey_def Let_def issue_key_loop_codes split: res.splits)
qed

end
