(* ===== verification/Server_Errors.thy ===== *)
theory Server_Errors
  imports Error_Codes
begin

text \<open>
  The declared error codes of the routes, end to end: for every route, whatever the backend
  answers, the code of an error is one that the route declares, so \<^verbatim>\<open>writeHandledError\<close> does not panic. The two
  routes for API keys are the exception.
\<close>

section \<open>Handlers\<close>

text \<open>A response that is not a panic of \<^verbatim>\<open>writeHandledError\<close>, except for an undeclared code of \<open>U\<close>.\<close>

definition response_ok :: "ErrorCode set \<Rightarrow> 'a http_response \<Rightarrow> bool" where
  "response_ok U resp \<longleftrightarrow> resp \<noteq> Panicked NoErrorCode \<and> (\<forall>c. resp = Panicked (UnexpectedError c) \<longrightarrow> c \<in> U)"

lemma response_ok_simps [simp]: "response_ok U (Panicked InnerPanic)" "response_ok U (writeJSONResponse st v)"
  by (simp_all add: response_ok_def writeJSONResponse_def)

lemma writeHandledError_ok: "\<exists>c \<in> set A \<union> U. GetErrorCode e = Some c \<Longrightarrow> response_ok U (writeHandledError e A)"
  by (auto simp: writeHandledError_def) (simp_all add: response_ok_def)

lemma handle_impl_ok:
  assumes "impl_codes (set A \<union> U) (impl r u) s" and "handle_impl impl ok A r u s = Some (resp, s')"
  shows "response_ok U resp"
proof -
  from assms(2) obtain result where i: "impl r u s = Some (result, s')"
    and resp: "resp = (case result of Err err \<Rightarrow> writeHandledError err A | Panic \<Rightarrow> Panicked InnerPanic
         | Ok value \<Rightarrow> writeJSONResponse (ok value) (Inl value))"
    by (cases "impl r u s") (auto simp: handle_impl_def split: res.splits prod.splits)
  from assms(1) i have "codes (set A \<union> U) result" by (auto simp: impl_codes_def)
  then show ?thesis using writeHandledError_ok by (cases result) (auto simp: resp)
qed

lemma handle_ok:
  assumes "handle (service_auth sv now) authenticate impl ok A r s = Some (resp, s')"
    and "authenticate \<Longrightarrow> Unauthorized \<in> set A \<and> DatabaseError \<in> set A"
    and "\<And>u. impl_codes (set A \<union> U) (impl r u) s"
  shows "response_ok U resp"
proof (cases "if authenticate then resolveCaller (service_auth sv now) r s else Ok None")
  case (Ok u)
  then show ?thesis using assms(1) handle_impl_ok [of A U impl r u s, OF assms(3)] by (simp add: handle_def)
next
  case (Err e)
  then have "\<exists>c \<in> set A \<union> U. GetErrorCode e = Some c"
    using svc_auth.caller_codes [of sv now r s] assms(2) by (auto split: if_splits)
  then show ?thesis using Err assms(1) writeHandledError_ok by (auto simp: handle_def)
next
  case Panic
  then show ?thesis using assms(1) by (auto simp: handle_def)
qed

lemma public_ok:
  assumes "Public_handler (service_auth sv now) impl ok A r s = Some (resp, s')"
    and "impl_codes (set A \<union> U) (impl r) s"
  shows "response_ok U resp"
  using assms by (auto simp: Public_handler_def elim!: handle_ok)

lemma user_scope_ok:
  assumes "UserScope_handler (service_auth sv now) scope impl ok A r s = Some (resp, s')"
    and "Unauthorized \<in> set A \<and> Forbidden \<in> set A \<and> DatabaseError \<in> set A \<and>
      (UnavailableInAnonymousMode \<in> set A \<or> EvaluateAnonymousModeUserScope scope = None)"
    and "\<And>u. impl_codes (set A \<union> U) (impl r u) s"
  shows "response_ok U resp"
  using assms unfolding UserScope_handler_def dynamicUserScope_def
  by (elim handle_ok) (auto intro!: svc_auth.user_scope_impl_codes)

lemma dynamic_scope_ok:
  assumes "DynamicNamespaceScope (service_auth sv now) scope impl ok A r s = Some (resp, s')"
    and "Unauthorized \<in> set A \<and> Forbidden \<in> set A \<and> DatabaseError \<in> set A \<and> NamespaceNotFound \<in> set A \<and>
      InvalidNamespaceID \<in> set A"
    and "\<And>u. codes (set A \<union> U) (scope r u)"
    and "\<And>u v sc n. scope r u = Ok (v, sc) \<Longrightarrow>
      UnavailableInAnonymousMode \<in> set A \<or> EvaluateAnonymousModeNamespaceScope n sc = None"
    and "\<And>n v u. impl_codes (set A \<union> U) (impl n v r u) s"
  shows "response_ok U resp"
  using assms(1) unfolding DynamicNamespaceScope_def
proof (rule handle_ok)
  show "Unauthorized \<in> set A \<and> DatabaseError \<in> set A" using assms(2) by simp
  show "impl_codes (set A \<union> U) (namespace_scope_impl (service_auth sv now) scope impl r u) s" for u
    using assms(2-5) by (intro svc_auth.namespace_scope_impl_codes) auto
qed

lemma namespace_scope_ok:
  assumes "NamespaceScope_handler (service_auth sv now) scope impl ok A r s = Some (resp, s')"
    and "Unauthorized \<in> set A \<and> Forbidden \<in> set A \<and> DatabaseError \<in> set A \<and> NamespaceNotFound \<in> set A \<and>
      InvalidNamespaceID \<in> set A \<and>
      (UnavailableInAnonymousMode \<in> set A \<or> (\<forall>n. EvaluateAnonymousModeNamespaceScope n scope = None))"
    and "\<And>n u. impl_codes (set A \<union> U) (impl n r u) s"
  shows "response_ok U resp"
  using assms(1) unfolding NamespaceScope_handler_def
  by (rule dynamic_scope_ok) (use assms(2,3) in auto)

section \<open>Scopes that exist in anonymous mode\<close>

lemma anonymous_user_scopes:
  "list_all (\<lambda>sc. EvaluateAnonymousModeUserScope sc = None)
     [ScopeListNamespaces, ScopeCreateNamespace, ScopeCountAllResources, ScopeListMounts, ScopeResolveMountByBaseUri,
      ScopeSetMount, ScopeDeleteMount, ScopeGetMount]"
  by (simp add: EvaluateAnonymousModeUserScope_def UserScope_Definition_def userDefs_def user_def_def user_scope_names)

lemma anonymous_namespace_scopes:
  "list_all (\<lambda>sc. EvaluateAnonymousModeNamespaceScope n sc = None)
     [ScopeGetNamespace, ScopeUpdateNamespace, ScopeListNamespaceMounts, ScopeListResources, ScopeCreateResource,
      ScopeCreateResourceBatch, ScopeGetResource, ScopeUpdateResource]"
  by (simp add: EvaluateAnonymousModeNamespaceScope_def NamespaceScope_Definition_def namespaceDefs_def namespace_def_def
      namespace_scope_names)

lemmas anonymous_scopes [simp] =
  anonymous_user_scopes [simplified] anonymous_namespace_scopes [simplified]

section \<open>Implementations\<close>

lemma check_issue_request_codes [code_intros]:
  "{InvalidNamespaceID, UnknownScope, InvalidQueryParameter} \<subseteq> C \<Longrightarrow> codes C (check_issue_request req)"
  by (auto simp: check_issue_request_def split: option.splits)

lemma validate_requests_codes [code_intros]:
  "InvalidResourceURL \<in> C \<Longrightarrow> codes C (validate_requests parse reqs)"
  by (induction reqs) (auto intro!: codes_bind codes_with_code)

lemma self_or_other_codes: "InvalidUsername \<in> C \<Longrightarrow> codes C (self_or_other a b r u)"
  by (auto simp: self_or_other_def intro!: codes_bind codes_params)

lemmas role_scopes = getNamespaceRoleScope_def setNamespaceRoleScope_def removeNamespaceRoleScope_def

lemma impl_return [code_intros]: "impl_codes C (\<lambda>s. Some (Ok v, s)) s"
  by (simp add: impl_codes_def)

lemma NamespaceUpdateRequest_codes [simp]: "codes C (NamespaceUpdateRequest_Validate v)"
  by (simp add: NamespaceUpdateRequest_Validate_def)

lemma checkBaseUriGrant_codes [code_intros]:
  assumes "InvalidBaseURI \<in> C" "Forbidden \<in> C" "DatabaseError \<in> C" and "\<And>b. impl_codes C (impl b r u) s"
  shows "impl_codes C (checkBaseUriGrant h env impl r u) s"
proof (cases "readBaseURIParam (env_parse env) r")
  case (Ok b)
  show ?thesis
  proof (cases "\<exists>c. u = Some c \<and> \<not> AnonymousMode (hs_svc h) \<and> \<not> cl_superuser c")
    case True
    then obtain c where c: "u = Some c" "\<not> AnonymousMode (hs_svc h)" "\<not> cl_superuser c" by blast
    show ?thesis
      using Ok c assms(2) assms(4) [of b] MountGrantMatches_codes(1) [OF assms(3), of "hs_svc h" "env_re env" "cl_username c" b s]
      by (auto simp: impl_codes_def checkBaseUriGrant_def seq_impl_def wrap_result_def errMountGrantRequired_def
          split: bind_splits res.splits if_splits)
  next
    case False
    then show ?thesis using Ok assms(4) [of b]
      by (auto simp: impl_codes_def checkBaseUriGrant_def seq_impl_def split: option.splits)
  qed
qed (use codes_params(3) [OF assms(1), of "env_parse env" r] in \<open>auto simp: impl_codes_def checkBaseUriGrant_def seq_impl_def\<close>)

lemma resolveResourceByMountAndPID_codes [code_intros]:
  assumes "{InvalidBaseURI, InvalidPID, MountNotFound, NamespaceNotFound, ResourceNotFound, DatabaseError} \<subseteq> C"
  shows "impl_codes C (h_resolveResourceByMountAndPID h env r u) s"
proof -
  have "impl_codes C (h_resolveResourceByMountAndPID h env r u) s \<longleftrightarrow>
    impl_codes C (seq_impl (readBaseURIParam (env_parse env) r) (\<lambda>baseURI.
       seq_impl (readPidParam r) (\<lambda>pid.
         seq_impl (wrap_result (svc_GetMount (hs_svc h) baseURI s)) (\<lambda>mount.
           seq_impl (with_code DatabaseError (NewNamespaceID (mr_Namespace mount))) (\<lambda>namespace.
             reading (\<lambda>s. fmap_res (\<lambda>res. (res,
                 so_MountPath (hs_ops h) @ ''/resolver/namespaces/'' @ namespace @ ''/resources/'' @ pid))
               (svc_GetResource (hs_svc h) namespace pid (shouldRedactResource h env u namespace s) s))))))) s"
    by (simp add: impl_codes_def h_resolveResourceByMountAndPID_def)
  also have "\<dots>"
    using assms by (intro code_intros) (simp_all add: svc_table_codes)
  finally show ?thesis .
qed

section \<open>Routes\<close>

lemmas public_routes = route_getResolverInfo_def route_getResolverMeta_def route_listScopes_def

lemmas public_impls = h_getResolverInfo_def h_getResolverMeta_def h_listScopes_def

lemma public_routes_ok:
  "route_getResolverInfo h env r s = Some (resp, s') \<Longrightarrow> response_ok {} resp"
  "route_getResolverMeta h env r s = Some (resp, s') \<Longrightarrow> response_ok {} resp"
  "route_listScopes h env r s = Some (resp, s') \<Longrightarrow> response_ok {} resp"
  unfolding route_getResolverInfo_def route_getResolverMeta_def route_listScopes_def
  by (erule public_ok,
      simp add: impl_codes_def answer_public_def h_getResolverInfo_def h_getResolverMeta_def h_listScopes_def
        reading_def GetResolverInfo_def Let_def)+

lemmas user_routes = route_listNamespaces_def route_createNamespace_def route_countAllResources_def
  route_listMounts_def route_resolveMountByBaseUri_def route_upsertNamespaceMount_def route_deleteNamespaceMount_def
  route_resolveResourceByMountAndPID_def route_setMountGrant_def route_deleteMountGrant_def route_getUserInfo_def
  route_updateUser_def route_createUser_def route_deleteUser_def route_autocompleteUsers_def route_listUsers_def
  route_getUserRoles_def route_listOwnMountGrants_def route_listUserKeys_def route_issueUserKey_def
  route_setUserPassword_def route_revokeUserKey_def

lemmas user_impls = h_listNamespaces_def h_createNamespace_def h_countAllResources_def h_listMounts_def
  h_resolveMountByBaseUri_def h_upsertNamespaceMount_def h_deleteNamespaceMount_def h_setMountGrant_def
  h_deleteMountGrant_def h_getUserInfo_def h_updateUser_def h_createUser_def h_deleteUser_def
  h_autocompleteUsers_def h_listUsers_def h_getUserRoles_def h_listOwnMountGrants_def h_listUserKeys_def
  h_issueUserKey_def h_setUserPassword_def h_revokeUserKey_def

lemma user_routes_ok:
  "route_listNamespaces h env r s = Some (resp, s') \<Longrightarrow> response_ok {} resp"
  "route_createNamespace h env b1 r s = Some (resp, s') \<Longrightarrow> response_ok {} resp"
  "route_countAllResources h env r s = Some (resp, s') \<Longrightarrow> response_ok {} resp"
  "route_listMounts h env r s = Some (resp, s') \<Longrightarrow> response_ok {} resp"
  "route_resolveMountByBaseUri h env r s = Some (resp, s') \<Longrightarrow> response_ok {} resp"
  "route_upsertNamespaceMount h env b5 r s = Some (resp, s') \<Longrightarrow> response_ok {} resp"
  "route_deleteNamespaceMount h env r s = Some (resp, s') \<Longrightarrow> response_ok {} resp"
  "route_resolveResourceByMountAndPID h env r s = Some (resp, s') \<Longrightarrow> response_ok {} resp"
  "route_setMountGrant h env b8 r s = Some (resp, s') \<Longrightarrow> response_ok {} resp"
  "route_deleteMountGrant h env r s = Some (resp, s') \<Longrightarrow> response_ok {} resp"
  "route_getUserInfo h env r s = Some (resp, s') \<Longrightarrow> response_ok {} resp"
  "route_updateUser h env b11 r s = Some (resp, s') \<Longrightarrow> response_ok {} resp"
  "route_createUser h env b12 r s = Some (resp, s') \<Longrightarrow> response_ok {} resp"
  "route_deleteUser h env r s = Some (resp, s') \<Longrightarrow> response_ok {} resp"
  "route_autocompleteUsers h env r s = Some (resp, s') \<Longrightarrow> response_ok {} resp"
  "route_listUsers h env r s = Some (resp, s') \<Longrightarrow> response_ok {} resp"
  "route_getUserRoles h env r s = Some (resp, s') \<Longrightarrow> response_ok {} resp"
  "route_listOwnMountGrants h env r s = Some (resp, s') \<Longrightarrow> response_ok {} resp"
  "route_listUserKeys h env r s = Some (resp, s') \<Longrightarrow> response_ok {UserNotFound} resp"
  "route_issueUserKey h env b19 r s = Some (resp, s') \<Longrightarrow> response_ok {UserNotFound} resp"
  "route_setUserPassword h env b20 r s = Some (resp, s') \<Longrightarrow> response_ok {} resp"
  "route_revokeUserKey h env b21 r s = Some (resp, s') \<Longrightarrow> response_ok {} resp"
  unfolding user_routes
  by (erule user_scope_ok, simp, rule impl_answer, (unfold user_impls)?, ((intro code_intros; simp)+)[1])+

lemmas namespace_routes = route_getNamespace_def route_updateNamespace_def route_listNamespaceMounts_def
  route_listNamespaceRoles_def route_listResources_def route_createResource_def route_createResourceBatch_def
  route_getResource_def route_updateResource_def

lemmas namespace_impls = h_getNamespace_def h_updateNamespace_def h_listNamespaceMounts_def h_listNamespaceRoles_def
  h_listResources_def h_createResource_def h_createResourceBatch_def h_getResource_def h_updateResource_def

lemma namespace_routes_ok:
  "route_getNamespace h env r s = Some (resp, s') \<Longrightarrow> response_ok {} resp"
  "route_updateNamespace h env b1 r s = Some (resp, s') \<Longrightarrow> response_ok {} resp"
  "route_listNamespaceMounts h env r s = Some (resp, s') \<Longrightarrow> response_ok {} resp"
  "route_listNamespaceRoles h env r s = Some (resp, s') \<Longrightarrow> response_ok {} resp"
  "route_listResources h env r s = Some (resp, s') \<Longrightarrow> response_ok {} resp"
  "route_createResource h env b5 r s = Some (resp, s') \<Longrightarrow> response_ok {} resp"
  "route_createResourceBatch h env b6 r s = Some (resp, s') \<Longrightarrow> response_ok {} resp"
  "route_getResource h env r s = Some (resp, s') \<Longrightarrow> response_ok {} resp"
  "route_updateResource h env b8 r s = Some (resp, s') \<Longrightarrow> response_ok {} resp"
  unfolding namespace_routes
  by (erule namespace_scope_ok, simp, rule impl_answer, (unfold namespace_impls)?, ((intro code_intros; simp)+)[1])+

lemmas role_routes = route_getNamespaceRole_def route_setNamespaceRole_def route_removeNamespaceRole_def

lemmas role_impls = h_getNamespaceRole_def h_setNamespaceRole_def h_removeNamespaceRole_def

lemma role_routes_ok:
  "route_getNamespaceRole h env r s = Some (resp, s') \<Longrightarrow> response_ok {} resp"
  "route_setNamespaceRole h env b1 r s = Some (resp, s') \<Longrightarrow> response_ok {} resp"
  "route_removeNamespaceRole h env r s = Some (resp, s') \<Longrightarrow> response_ok {} resp"
  unfolding role_routes
  by (erule dynamic_scope_ok, simp, simp add: role_scopes self_or_other_codes, simp, rule impl_answer, (unfold role_impls)?, ((intro code_intros; simp)+)[1])+

end
