(* ===== verification/Dict.thy ===== *)
theory Dict
  imports Prelude "HOL-Library.AList"
begin

text \<open>
  Go maps. A map is an association list with distinct keys; the order of the list stands
  for the order in which a \<^verbatim>\<open>range\<close> loop happens to visit the map, which Go leaves
  unspecified. The locale states what the backends rely on (lookup, insertion, deletion,
  iteration), and its lemmas say when a listing that is sorted after the loop does not
  depend on the iteration order.
\<close>

section \<open>The association list model\<close>

type_synonym ('k, 'v) dict = "('k \<times> 'v) list"

definition dget :: "('k, 'v) dict \<Rightarrow> 'k \<Rightarrow> 'v option" where
  "dget d k = map_of d k"

definition dset :: "'k \<Rightarrow> 'v \<Rightarrow> ('k, 'v) dict \<Rightarrow> ('k, 'v) dict" where
  "dset k v d = AList.update k v d"

definition ddel :: "'k \<Rightarrow> ('k, 'v) dict \<Rightarrow> ('k, 'v) dict" where
  "ddel k d = AList.delete k d"

definition dhas :: "('k, 'v) dict \<Rightarrow> 'k \<Rightarrow> bool" where
  "dhas d k \<longleftrightarrow> dget d k \<noteq> None"

definition wf_dict :: "('k, 'v) dict \<Rightarrow> bool" where
  "wf_dict d \<longleftrightarrow> distinct (map fst d)"

text \<open>A \<^verbatim>\<open>range\<close> loop that appends some of the entries, followed by a sort by key.\<close>

definition listing :: "('a \<Rightarrow> 'o::linorder) \<Rightarrow> ('k \<times> 'v \<Rightarrow> 'a option) \<Rightarrow> ('k, 'v) dict \<Rightarrow> 'a list" where
  "listing key sel d = sort_key key (List.map_filter sel d)"

text \<open>A \<^verbatim>\<open>range\<close> loop that changes or deletes the entries it visits.\<close>

definition dsweep :: "('k \<Rightarrow> 'v \<Rightarrow> 'v option) \<Rightarrow> ('k, 'v) dict \<Rightarrow> ('k, 'v) dict" where
  "dsweep f d = List.map_filter (\<lambda>(k, v). map_option (Pair k) (f k v)) d"

section \<open>The interface\<close>

locale go_map =
  fixes get :: "'m \<Rightarrow> 'k \<Rightarrow> 'v option"
    and put :: "'k \<Rightarrow> 'v \<Rightarrow> 'm \<Rightarrow> 'm"
    and del :: "'k \<Rightarrow> 'm \<Rightarrow> 'm"
    and entries :: "'m \<Rightarrow> ('k \<times> 'v) list"
    and wf :: "'m \<Rightarrow> bool"
  assumes get_put: "get (put k v m) = (get m)(k \<mapsto> v)"
    and get_del: "get (del k m) = (get m)(k := None)"
    and wf_put: "wf m \<Longrightarrow> wf (put k v m)"
    and wf_del: "wf m \<Longrightarrow> wf (del k m)"
    and entries_get: "wf m \<Longrightarrow> (k, v) \<in> set (entries m) \<longleftrightarrow> get m k = Some v"
    and entries_distinct: "wf m \<Longrightarrow> distinct (map fst (entries m))"
begin

lemma distinct_entries: "wf m \<Longrightarrow> distinct (entries m)"
  using entries_distinct by (simp add: distinct_map)

lemma entries_mset:
  assumes "wf m" and "wf m'" and "get m = get m'"
  shows "mset (entries m) = mset (entries m')"
proof -
  have "set (entries m) = set (entries m')"
    using assms by (auto simp: entries_get)
  then show ?thesis
    using assms by (simp add: set_eq_iff_mset_eq_distinct distinct_entries)
qed

lemma entries_fst_inj:
  assumes "wf m" and "e \<in> set (entries m)" and "e' \<in> set (entries m)" and "fst e = fst e'"
  shows "e = e'"
  using assms by (metis distinct_map entries_distinct inj_onD)

lemma sorted_listing_order_free:
  assumes "wf m" and "wf m'" and "get m = get m'"
    and inj: "\<And>e e' a b. e \<in> set (entries m) \<Longrightarrow> e' \<in> set (entries m) \<Longrightarrow>
      sel e = Some a \<Longrightarrow> sel e' = Some b \<Longrightarrow> key a = key b \<Longrightarrow> fst e = fst e'"
  shows "sort_key key (List.map_filter sel (entries m)) =
    sort_key key (List.map_filter sel (entries m'))"
proof (rule sort_key_perm_unique)
  show "mset (List.map_filter sel (entries m)) = mset (List.map_filter sel (entries m'))"
    using entries_mset [OF assms(1-3)] by (simp add: List.map_filter_def)
  have "inj_on (key \<circ> (the \<circ> sel)) (set (filter (\<lambda>e. sel e \<noteq> None) (entries m)))"
  proof (rule inj_onI)
    fix e e'
    assume e: "e \<in> set (filter (\<lambda>e. sel e \<noteq> None) (entries m))"
      and e': "e' \<in> set (filter (\<lambda>e. sel e \<noteq> None) (entries m))"
      and "(key \<circ> (the \<circ> sel)) e = (key \<circ> (the \<circ> sel)) e'"
    then have "fst e = fst e'" by (auto intro: inj [of e e'])
    with e e' show "e = e'" using entries_fst_inj [OF assms(1)] by simp
  qed
  moreover have "distinct (filter (\<lambda>e. sel e \<noteq> None) (entries m))"
    using assms(1) by (simp add: distinct_entries)
  ultimately show "distinct (map key (List.map_filter sel (entries m)))"
    by (simp add: List.map_filter_def distinct_map)
qed

end

section \<open>The association lists implement the interface\<close>

lemma dget_dset [dict_simps]: "dget (dset k v d) = (dget d)(k \<mapsto> v)"
  by (rule ext) (simp add: dget_def dset_def update_conv)

lemma dget_ddel [dict_simps]: "dget (ddel k d) = (dget d)(k := None)"
  by (rule ext) (simp add: dget_def ddel_def delete_conv')

lemma dget_Nil [simp]: "dget [] k = None"
  by (simp add: dget_def)

lemma dhas_iff: "dhas d k \<longleftrightarrow> (\<exists>v. dget d k = Some v)"
  by (auto simp: dhas_def)

lemma wf_dict_Nil [simp]: "wf_dict []"
  by (simp add: wf_dict_def)

lemma wf_dict_dset [simp, intro]: "wf_dict d \<Longrightarrow> wf_dict (dset k v d)"
  by (simp add: wf_dict_def dset_def distinct_update)

lemma wf_dict_ddel [simp, intro]: "wf_dict d \<Longrightarrow> wf_dict (ddel k d)"
  by (simp add: wf_dict_def ddel_def distinct_delete)

lemma dget_Some_iff: "wf_dict d \<Longrightarrow> dget d k = Some v \<longleftrightarrow> (k, v) \<in> set d"
  by (simp add: wf_dict_def dget_def map_of_eq_Some_iff)

interpretation dict: go_map dget dset ddel "\<lambda>d. d" wf_dict
proof (unfold_locales, goal_cases)
  case (1 k v m) show ?case by (rule dget_dset)
next
  case (2 k m) show ?case by (rule dget_ddel)
next
  case (3 m k v) then show ?case by (rule wf_dict_dset)
next
  case (4 m k) then show ?case by (rule wf_dict_ddel)
next
  case (5 m k v) then show ?case by (simp add: dget_Some_iff)
next
  case (6 m) then show ?case by (simp add: wf_dict_def)
qed

lemma dhas_dset [dict_simps]: "dhas (dset k v d) k' \<longleftrightarrow> k' = k \<or> dhas d k'"
  by (simp add: dhas_def dget_dset)

lemma dhas_ddel [dict_simps]: "dhas (ddel k d) k' \<longleftrightarrow> k' \<noteq> k \<and> dhas d k'"
  by (simp add: dhas_def dget_ddel)

lemma dhas_Nil [simp]: "\<not> dhas [] k"
  by (simp add: dhas_def)

section \<open>Sweeps\<close>

lemma dsweep_Cons:
  "dsweep f ((k, v) # d) = (case f k v of None \<Rightarrow> dsweep f d | Some w \<Rightarrow> (k, w) # dsweep f d)"
  by (simp add: dsweep_def List.map_filter_def split: option.splits)

lemma keys_dsweep: "fst ` set (dsweep f d) \<subseteq> fst ` set d"
  by (force simp: dsweep_def List.map_filter_def)

lemma wf_dict_dsweep: "wf_dict d \<Longrightarrow> wf_dict (dsweep f d)"
proof (induction d)
  case (Cons e d)
  obtain k v where e: "e = (k, v)" by (cases e)
  with Cons keys_dsweep [of f d] show ?case
    by (auto simp: wf_dict_def dsweep_Cons split: option.splits)
qed (simp add: dsweep_def List.map_filter_def)

lemma dget_dsweep [dict_simps]:
  "wf_dict d \<Longrightarrow> dget (dsweep f d) k = Option.bind (dget d k) (f k)"
proof (induction d)
  case (Cons e d)
  obtain k' v where e: "e = (k', v)" by (cases e)
  have "dget d k' = None"
    using Cons.prems e by (simp add: wf_dict_def dget_def map_of_eq_None_iff)
  with Cons e show ?case
    by (auto simp: wf_dict_def dsweep_Cons dget_def split: option.splits)
qed (simp add: dsweep_def List.map_filter_def)

section \<open>Listings\<close>

lemma listing_order_free:
  assumes "wf_dict d" and "wf_dict d'" and "dget d = dget d'"
    and inj: "\<And>k v k' v' a b. dget d k = Some v \<Longrightarrow> dget d k' = Some v' \<Longrightarrow>
      sel (k, v) = Some a \<Longrightarrow> sel (k', v') = Some b \<Longrightarrow> key a = key b \<Longrightarrow> k = k'"
  shows "listing key sel d = listing key sel d'"
  unfolding listing_def
proof (rule dict.sorted_listing_order_free [OF assms(1-3)])
  fix e e' a b
  assume "e \<in> set d" and "e' \<in> set d" and "sel e = Some a" and "sel e' = Some b" and "key a = key b"
  then show "fst e = fst e'"
    using assms(1) inj [of "fst e" "snd e" "fst e'" "snd e'" a b] by (simp add: dget_Some_iff)
qed

lemma set_listing:
  "wf_dict d \<Longrightarrow> set (listing key sel d) = {a. \<exists>k v. dget d k = Some v \<and> sel (k, v) = Some a}"
  by (force simp: listing_def List.map_filter_def dget_Some_iff)

lemma sorted_listing: "sorted (map key (listing key sel d))"
  by (simp add: listing_def)

text \<open>If the sort keys of the selected entries are distinct, the listing is strictly increasing.\<close>

lemma strict_sorted_listing:
  assumes "wf_dict d"
    and inj: "\<And>k v k' v' a b. dget d k = Some v \<Longrightarrow> dget d k' = Some v' \<Longrightarrow>
      sel (k, v) = Some a \<Longrightarrow> sel (k', v') = Some b \<Longrightarrow> key a = key b \<Longrightarrow> k = k'"
  shows "sorted_wrt (\<lambda>a b. key a < key b) (listing key sel d)"
proof -
  have "distinct (map key (List.map_filter sel d))"
    using assms(1) inj
  proof (induction d)
    case (Cons e d)
    obtain k v where e: "e = (k, v)" by (cases e)
    have d: "wf_dict d" "dget d k = None"
      using Cons.prems(1) e by (auto simp: wf_dict_def dget_def map_of_eq_None_iff)
    have get: "dget (e # d) j = (if j = k then Some v else dget d j)" for j
      by (simp add: dget_def e)
    have "distinct (map key (List.map_filter sel d))"
    proof (rule Cons.IH [OF d(1)])
      fix k1 v1 k2 v2 a b
      assume g: "dget d k1 = Some v1" "dget d k2 = Some v2"
        and s: "sel (k1, v1) = Some a" "sel (k2, v2) = Some b" "key a = key b"
      from g d(2) have "dget (e # d) k1 = Some v1" "dget (e # d) k2 = Some v2" by (auto simp: get)
      from Cons.prems(2) [OF this s] show "k1 = k2" .
    qed
    moreover have "key b \<noteq> key a" if "sel (k, v) = Some a" "b \<in> set (List.map_filter sel d)" for a b
    proof
      assume "key b = key a"
      from that(2) obtain j w where "(j, w) \<in> set d" "sel (j, w) = Some b"
        by (force simp: List.map_filter_def)
      then have "dget d j = Some w" using d(1) by (simp add: dget_Some_iff)
      with d(2) have "j \<noteq> k" "dget (e # d) j = Some w" "dget (e # d) k = Some v"
        by (auto simp: get)
      from Cons.prems(2) [OF this(3,2) that(1) \<open>sel (j, w) = Some b\<close>] this(1) show False
        using \<open>key b = key a\<close> by simp
    qed
    ultimately show ?case
      by (fastforce simp: List.map_filter_def e)
  qed (simp add: List.map_filter_def)
  then have "distinct (map key (listing key sel d))"
    using mset_eq_imp_distinct_iff [of "map key (listing key sel d)" "map key (List.map_filter sel d)"]
    by (simp only: mset_map listing_def mset_sort)
  then have "sorted_wrt (<) (map key (listing key sel d))"
    using sorted_listing [of key sel d] by (simp add: strict_sorted_iff)
  then show ?thesis by (simp add: sorted_wrt_map)
qed

lemma length_listing: "length (listing key sel d) = length (filter (\<lambda>e. sel e \<noteq> None) d)"
  by (simp add: listing_def List.map_filter_def)

lemma length_dict_card: "wf_dict d \<Longrightarrow> length d = card (dom (dget d))"
proof -
  assume wf: "wf_dict d"
  have "dom (dget d) = set (map fst d)"
    by (auto simp: dget_def [abs_def] dom_map_of_conv_image_fst)
  then show ?thesis
    using wf by (metis distinct_card length_map wf_dict_def)
qed

lemma dict_empty_iff: "d = [] \<longleftrightarrow> (\<forall>k. dget d k = None)"
proof -
  have "dget d = Map.empty \<longleftrightarrow> d = []"
    by (metis dget_def map_of_eq_empty_iff ext)
  then show ?thesis by auto
qed

end
