(* ===== verification/Memory.thy ===== *)
theory Memory
  imports Backend Dict
begin

text \<open>
  The package \<^verbatim>\<open>backend/memory\<close>: the state of the in-memory backend and every one of its
  operations. Go maps are the association lists of the theory \<open>Dict\<close>. Each method holds the
  backend's mutex from its start to its return, so a method is one step on the state; the order in
  which concurrent calls take the lock is the order of the steps. Hashing of passwords (bcrypt) and of keys
  (SHA-256) is a parameter.
\<close>

section \<open>State\<close>

record crypto =
  cr_sha256 :: hash_fun
  cr_bcrypt_generate :: "string \<Rightarrow> (gerr, byte list) res"
  cr_bcrypt_compare :: "byte list \<Rightarrow> string \<Rightarrow> bool"

definition password_Hash :: "crypto \<Rightarrow> string \<Rightarrow> (gerr, byte list) res" where
  "password_Hash cr plaintext =
     (case cr_bcrypt_generate cr plaintext of
        Err e \<Rightarrow> Err (Fmt [e]) | Panic \<Rightarrow> Panic | Ok hash \<Rightarrow> Ok hash)"

definition password_Verify :: "crypto \<Rightarrow> string \<Rightarrow> byte list \<Rightarrow> bool" where
  "password_Verify cr plaintext hash \<longleftrightarrow> cr_bcrypt_compare cr hash plaintext"

record keyRecord =
  kr_info :: APIKeyInfo
  kr_prefix :: string
  kr_digest :: "byte list"

record userRecord =
  ur_superuser :: bool
  ur_passwordHash :: "byte list"
  ur_keys :: "(string, keyRecord) dict"

record memory =
  mem_users :: "(string, userRecord) dict"
  mem_namespaces :: "(string, NamespaceResponse) dict"
  mem_resources :: "(string, (string, ResourceResponse) dict) dict"
  mem_roles :: "(string, (string, Role) dict) dict"
  mem_mounts :: "(string, string) dict"
  mem_mountGrants :: "(string, (string, unit) dict) dict"

definition NewMemoryBackend :: memory where
  "NewMemoryBackend = \<lparr>mem_users = [], mem_namespaces = [], mem_resources = [],
     mem_roles = [], mem_mounts = [], mem_mountGrants = []\<rparr>"

text \<open>Reading a nested map: a missing inner map is nil and reads as empty.\<close>

definition inner :: "('k, ('l, 'v) dict) dict \<Rightarrow> 'k \<Rightarrow> ('l, 'v) dict" where
  "inner d k = (case dget d k of None \<Rightarrow> [] | Some b \<Rightarrow> b)"

abbreviation fail :: "sentinel \<Rightarrow> (gerr, 'a) res" where
  "fail e \<equiv> Err (Sentinel e)"

section \<open>Users (memory_user.go)\<close>

definition toSpec :: "userRecord \<Rightarrow> string \<Rightarrow> UserInfo" where
  "toSpec u username =
     \<lparr>ui_Username = username, ui_Superuser = ur_superuser u,
      ui_Password = (0 < length (ur_passwordHash u))\<rparr>"

definition mem_CreateUser :: "UserCreateRequest \<Rightarrow> time \<Rightarrow> (memory, UserInfo) writing" where
  "mem_CreateUser req now s =
     (let username = ucr_Username req in
      if dhas (mem_users s) username then (fail ErrDuplicateUsername, s)
      else let user = \<lparr>ur_superuser = ucr_Superuser req, ur_passwordHash = [], ur_keys = []\<rparr>
           in (Ok (toSpec user username), s\<lparr>mem_users := dset username user (mem_users s)\<rparr>))"

definition mem_GetUser :: "string \<Rightarrow> (memory, UserInfo) reading" where
  "mem_GetUser username s =
     (case dget (mem_users s) username of
        None \<Rightarrow> fail ErrUserNotFound
      | Some user \<Rightarrow> Ok (toSpec user username))"

definition mem_ListUsers :: "ListUsersParams \<Rightarrow> (memory, UserInfo page) reading" where
  "mem_ListUsers params s =
     paginate
       (listing ui_Username
          (\<lambda>(username, user).
             if nonnil (lup_Superuser params) (\<lambda>b. ur_superuser user \<noteq> b) then None
             else if nonnil (lup_Password params) (\<lambda>b. (0 < length (ur_passwordHash user)) \<noteq> b) then None
             else Some (toSpec user username))
          (mem_users s))
       (lup_Limit params) (lup_Offset params)"

definition mem_AutocompleteUsers :: "string \<Rightarrow> int \<Rightarrow> (memory, string list) reading" where
  "mem_AutocompleteUsers query limit s =
     (let matches = listing (\<lambda>u. u)
            (\<lambda>(username, _). if take (length query) username = query then Some username else None)
            (mem_users s)
      in if limit < int (length matches) then go_slice matches 0 limit else Ok matches)"

definition mem_DeleteUser :: "string \<Rightarrow> (memory, unit) writing" where
  "mem_DeleteUser username s =
     (if \<not> dhas (mem_users s) username then (fail ErrUserNotFound, s)
      else (Ok (), s\<lparr>
        mem_users := ddel username (mem_users s),
        mem_roles := dsweep (\<lambda>namespace byUser.
            let byUser = ddel username byUser
            in if length byUser = 0 then None else Some byUser) (mem_roles s),
        mem_mountGrants := ddel username (mem_mountGrants s)\<rparr>))"

definition mem_UpdateUser :: "string \<Rightarrow> bool option \<Rightarrow> (memory, UserInfo) writing" where
  "mem_UpdateUser username superuser s =
     (case dget (mem_users s) username of
        None \<Rightarrow> (fail ErrUserNotFound, s)
      | Some user \<Rightarrow>
          (case superuser of
             None \<Rightarrow> (Ok (toSpec user username), s)
           | Some b \<Rightarrow>
               let user = user\<lparr>ur_superuser := b\<rparr>
               in (Ok (toSpec user username), s\<lparr>mem_users := dset username user (mem_users s)\<rparr>)))"

section \<open>Credentials (memory_credentials.go)\<close>

definition mem_SetPassword :: "crypto \<Rightarrow> string \<Rightarrow> string option \<Rightarrow> (memory, bool) writing" where
  "mem_SetPassword cr username newPassword s =
     (case dget (mem_users s) username of
        None \<Rightarrow> (fail ErrUserNotFound, s)
      | Some user \<Rightarrow>
          (case newPassword of
             None \<Rightarrow> (Ok False, s\<lparr>mem_users := dset username (user\<lparr>ur_passwordHash := []\<rparr>) (mem_users s)\<rparr>)
           | Some p \<Rightarrow>
               (case password_Hash cr p of
                  Err e \<Rightarrow> (Err (Fmt [e]), s)
                | Panic \<Rightarrow> (Panic, s)
                | Ok hash \<Rightarrow>
                    (Ok True, s\<lparr>mem_users := dset username (user\<lparr>ur_passwordHash := hash\<rparr>) (mem_users s)\<rparr>))))"

definition mem_CheckPassword :: "crypto \<Rightarrow> string \<Rightarrow> string \<Rightarrow> (memory, bool) reading" where
  "mem_CheckPassword cr username candidate s =
     (case dget (mem_users s) username of
        None \<Rightarrow> fail ErrUserNotFound
      | Some user \<Rightarrow>
          if length (ur_passwordHash user) = 0 then Ok False
          else Ok (password_Verify cr candidate (ur_passwordHash user)))"

definition all_keys :: "memory \<Rightarrow> keyRecord list" where
  "all_keys s = concat (map (\<lambda>(_, user). map snd (ur_keys user)) (mem_users s))"

definition mem_CreateKey ::
  "crypto \<Rightarrow> key_format \<Rightarrow> string \<Rightarrow> string \<Rightarrow> string \<Rightarrow> KeyIssueRequest \<Rightarrow> time \<Rightarrow> (memory, APIKeyInfo) writing" where
  "mem_CreateKey cr format username keyID key req now s =
     (case dget (mem_users s) username of
        None \<Rightarrow> (fail ErrUserNotFound, s)
      | Some user \<Rightarrow>
          let info = \<lparr>key_ID = keyID, key_Comment = kir_Comment req, key_CreatedAt = now,
                      key_ExpiresAt = kir_ExpiresAt req, key_UserScopes = kir_UserScopes req,
                      key_NamespaceScopes = kir_NamespaceScopes req\<rparr>
          in (case Key_Hash (cr_sha256 cr) format key of
                Err e \<Rightarrow> (Err (Fmt [e]), s)
              | Panic \<Rightarrow> (Panic, s)
              | Ok hashed \<Rightarrow>
                  if dhas (ur_keys user) keyID then (fail ErrKeyCollision, s)
                  else if list_ex (\<lambda>existing. kr_prefix existing = st_Prefix hashed \<and>
                                       kr_digest existing = st_Digest hashed) (all_keys s)
                  then (fail ErrKeyCollision, s)
                  else let user = user\<lparr>ur_keys := dset keyID
                             \<lparr>kr_info = info, kr_prefix = st_Prefix hashed, kr_digest = st_Digest hashed\<rparr>
                             (ur_keys user)\<rparr>
                       in (Ok info, s\<lparr>mem_users := dset username user (mem_users s)\<rparr>)))"

definition mem_ListKeys ::
  "key_format \<Rightarrow> string option \<Rightarrow> int \<Rightarrow> int \<Rightarrow> (memory, APIKeyInfo page) reading" where
  "mem_ListKeys format username limit offset s =
     (case (case username of
              None \<Rightarrow> Ok (map snd (mem_users s))
            | Some u \<Rightarrow> (case dget (mem_users s) u of
                          None \<Rightarrow> fail ErrUserNotFound
                        | Some user \<Rightarrow> Ok [user])) of
        Ok users \<Rightarrow>
          paginate (sort_key key_ID (concat (map (\<lambda>user. map (kr_info \<circ> snd) (ur_keys user)) users)))
            limit offset
      | Err e \<Rightarrow> Err e
      | Panic \<Rightarrow> Panic)"

definition mem_RevokeKey :: "key_format \<Rightarrow> string \<Rightarrow> string \<Rightarrow> (memory, unit) writing" where
  "mem_RevokeKey format username keyID s =
     (case dget (mem_users s) username of
        None \<Rightarrow> (fail ErrUserNotFound, s)
      | Some user \<Rightarrow>
          if \<not> dhas (ur_keys user) keyID then (fail ErrKeyNotFound, s)
          else (Ok (), s\<lparr>mem_users :=
                  dset username (user\<lparr>ur_keys := ddel keyID (ur_keys user)\<rparr>) (mem_users s)\<rparr>))"

definition mem_LookupUserByKey ::
  "crypto \<Rightarrow> key_format \<Rightarrow> string \<Rightarrow> (memory, string \<times> APIKeyInfo) reading" where
  "mem_LookupUserByKey cr format key s =
     (case Key_Prefix format key of
        Err e \<Rightarrow> Err (Fmt [Sentinel ErrInvalidKey])
      | Panic \<Rightarrow> Panic
      | Ok lookupPrefix \<Rightarrow>
          (case List.find (\<lambda>(username, record). kr_prefix record = lookupPrefix \<and>
                   Key_Verify (cr_sha256 cr) format key
                     \<lparr>st_Prefix = kr_prefix record, st_Digest = kr_digest record\<rparr>)
                 (concat (map (\<lambda>(username, user). map (\<lambda>(_, record). (username, record)) (ur_keys user))
                    (mem_users s))) of
             Some (username, record) \<Rightarrow> Ok (username, kr_info record)
           | None \<Rightarrow> Err (Fmt [Sentinel ErrInvalidKey])))"

section \<open>Namespaces (memory_namespaces.go)\<close>

definition mem_ListNamespaces :: "ListNamespacesParams \<Rightarrow> (memory, NamespaceResponse page) reading" where
  "mem_ListNamespaces params s =
     paginate
       (listing nr_ID
          (\<lambda>(_, ns). if nonnil (lnp_Tag params) (\<lambda>t. t \<notin> set (nr_Tags ns)) then None else Some ns)
          (mem_namespaces s))
       (lnp_Limit params) (lnp_Offset params)"

definition mem_CreateNamespace ::
  "string \<Rightarrow> NamespaceCreateRequest \<Rightarrow> string option \<Rightarrow> time \<Rightarrow> (memory, NamespaceResponse) writing" where
  "mem_CreateNamespace namespace req owner now s =
     (if nonnil owner (\<lambda>u. \<not> dhas (mem_users s) u) then (fail ErrUserNotFound, s)
      else if dhas (mem_namespaces s) namespace then (fail ErrDuplicateNamespaceID, s)
      else let ns = \<lparr>nr_ID = namespace, nr_Tags = ncr_Tags req, nr_PIDFormat = ncr_PIDFormat req,
                     nr_DateCreated = now, nr_DateUpdated = now\<rparr>;
               s' = s\<lparr>mem_namespaces := dset namespace ns (mem_namespaces s),
                      mem_resources := dset namespace [] (mem_resources s)\<rparr>
           in (case owner of
                 None \<Rightarrow> (Ok ns, s')
               | Some u \<Rightarrow>
                   (Ok ns, s'\<lparr>mem_roles :=
                      dset namespace (dset u RoleManager (inner (mem_roles s) namespace)) (mem_roles s)\<rparr>)))"

definition mem_GetNamespace :: "string \<Rightarrow> (memory, NamespaceResponse) reading" where
  "mem_GetNamespace namespace s =
     (case dget (mem_namespaces s) namespace of
        None \<Rightarrow> fail ErrNamespaceNotFound | Some ns \<Rightarrow> Ok ns)"

definition mem_UpdateNamespace ::
  "string \<Rightarrow> NamespaceUpdateRequest \<Rightarrow> time \<Rightarrow> (memory, NamespaceResponse) writing" where
  "mem_UpdateNamespace namespace req now s =
     (case dget (mem_namespaces s) namespace of
        None \<Rightarrow> (fail ErrNamespaceNotFound, s)
      | Some ns \<Rightarrow>
          let ns = (case nur_Tags req of None \<Rightarrow> ns | Some t \<Rightarrow> ns\<lparr>nr_Tags := t\<rparr>);
              ns = ns\<lparr>nr_DateUpdated := now\<rparr>
          in (Ok ns, s\<lparr>mem_namespaces := dset namespace ns (mem_namespaces s)\<rparr>))"

section \<open>Resources (memory_resources.go)\<close>

definition mem_ListResources ::
  "string \<Rightarrow> ListResourcesParams \<Rightarrow> (memory, ResourceResponse page) reading" where
  "mem_ListResources namespace params s =
     (if \<not> dhas (mem_namespaces s) namespace then fail ErrNamespaceNotFound
      else paginate
        (listing rr_PID
           (\<lambda>(_, r). if nonnil (lrp_Tag params) (\<lambda>t. t \<notin> set (rr_Tags r)) then None
                     else if nonnil (lrp_Deleted params) (\<lambda>b. rr_Deleted r \<noteq> b) then None
                     else Some r)
           (inner (mem_resources s) namespace))
        (lrp_Limit params) (lrp_Offset params))"

definition mem_CountAllResources :: "(memory, int) reading" where
  "mem_CountAllResources s =
     Ok (foldl (\<lambda>n (_, byPID). n + int (length byPID)) 0 (mem_resources s))"

definition new_resource :: "string \<Rightarrow> ResourceCreateRequest \<Rightarrow> string \<Rightarrow> ResourceResponse" where
  "new_resource pid req ts =
     \<lparr>rr_PID = pid, rr_URL = rcr_URL req, rr_Metadata = rcr_Metadata req,
      rr_DateCreated = ts, rr_DateUpdated = ts, rr_Tags = rcr_Tags req, rr_Deleted = False\<rparr>"

text \<open>
  \<^verbatim>\<open>byPID[pid] = res\<close> panics when \<^verbatim>\<open>byPID\<close> is nil, that is, when the namespace has no
  entry in \<^verbatim>\<open>resources\<close>.
\<close>

definition mem_CreateResource ::
  "string \<Rightarrow> string \<Rightarrow> ResourceCreateRequest \<Rightarrow> time \<Rightarrow> (memory, ResourceResponse) writing" where
  "mem_CreateResource namespace pid req now s =
     (if \<not> dhas (mem_namespaces s) namespace then (fail ErrNamespaceNotFound, s)
      else if dhas (inner (mem_resources s) namespace) pid then (fail ErrPIDAllocationFailed, s)
      else case dget (mem_resources s) namespace of
             None \<Rightarrow> (Panic, s)
           | Some byPID \<Rightarrow>
               let res = new_resource pid req (rfc3339 now)
               in (Ok res, s\<lparr>mem_resources := dset namespace (dset pid res byPID) (mem_resources s)\<rparr>))"

fun batch_check :: "(string, ResourceResponse) dict \<Rightarrow> string list \<Rightarrow> string list \<Rightarrow> bool" where
  "batch_check byPID seen [] \<longleftrightarrow> True"
| "batch_check byPID seen (pid # pids) \<longleftrightarrow>
     (if pid \<in> set seen then False
      else if dhas byPID pid then False
      else batch_check byPID (pid # seen) pids)"

fun batch_insert ::
  "string \<Rightarrow> (string \<times> ResourceCreateRequest) list \<Rightarrow> (string, ResourceResponse) dict \<Rightarrow>
     ResourceResponse list \<Rightarrow> (string, ResourceResponse) dict \<times> ResourceResponse list" where
  "batch_insert ts [] byPID out = (byPID, out)"
| "batch_insert ts ((pid, req) # rest) byPID out =
     (let res = new_resource pid req ts
      in batch_insert ts rest (dset pid res byPID) (out @ [res]))"

definition mem_BatchCreateResources ::
  "string \<Rightarrow> string list \<Rightarrow> ResourceCreateRequest list \<Rightarrow> time \<Rightarrow> (memory, ResourceResponse list) writing" where
  "mem_BatchCreateResources namespace pids reqs now s =
     (if \<not> dhas (mem_namespaces s) namespace then (fail ErrNamespaceNotFound, s)
      else if length pids \<noteq> length reqs then (fail ErrPIDAllocationFailed, s)
      else if \<not> batch_check (inner (mem_resources s) namespace) [] pids then (fail ErrPIDAllocationFailed, s)
      else case dget (mem_resources s) namespace of
             None \<Rightarrow> if reqs = [] then (Ok [], s) else (Panic, s)
           | Some byPID \<Rightarrow>
               (case batch_insert (rfc3339 now) (zip pids reqs) byPID [] of
                  (byPID', out) \<Rightarrow> (Ok out, s\<lparr>mem_resources := dset namespace byPID' (mem_resources s)\<rparr>)))"

definition mem_GetResource :: "string \<Rightarrow> string \<Rightarrow> (memory, ResourceResponse) reading" where
  "mem_GetResource namespace pid s =
     (if \<not> dhas (mem_namespaces s) namespace then fail ErrNamespaceNotFound
      else case dget (inner (mem_resources s) namespace) pid of
             None \<Rightarrow> fail ErrResourceNotFound
           | Some res \<Rightarrow> Ok res)"

definition apply_update :: "ResourceUpdateRequest \<Rightarrow> ResourceResponse \<Rightarrow> ResourceResponse" where
  "apply_update req res =
     (let res = (case rur_URL req of None \<Rightarrow> res | Some u \<Rightarrow> res\<lparr>rr_URL := u\<rparr>);
          res = (case rur_Tags req of None \<Rightarrow> res | Some t \<Rightarrow> res\<lparr>rr_Tags := t\<rparr>);
          res = (case rur_Deleted req of None \<Rightarrow> res | Some b \<Rightarrow> res\<lparr>rr_Deleted := b\<rparr>)
      in (case rur_Metadata req of None \<Rightarrow> res | Some m \<Rightarrow> res\<lparr>rr_Metadata := m\<rparr>))"

definition mem_UpdateResource ::
  "string \<Rightarrow> string \<Rightarrow> ResourceUpdateRequest \<Rightarrow> time \<Rightarrow> (memory, ResourceResponse) writing" where
  "mem_UpdateResource namespace pid req now s =
     (if \<not> dhas (mem_namespaces s) namespace then (fail ErrNamespaceNotFound, s)
      else case dget (inner (mem_resources s) namespace) pid of
             None \<Rightarrow> (fail ErrResourceNotFound, s)
           | Some prev \<Rightarrow>
               let res = (apply_update req prev)\<lparr>rr_DateUpdated := rfc3339 now\<rparr>
               in (Ok res, s\<lparr>mem_resources :=
                     dset namespace (dset pid res (inner (mem_resources s) namespace)) (mem_resources s)\<rparr>))"

section \<open>Roles (memory_roles.go)\<close>

definition mem_GetNamespaceRole :: "string \<Rightarrow> string \<Rightarrow> (memory, Role) reading" where
  "mem_GetNamespaceRole namespace username s =
     (if \<not> dhas (mem_namespaces s) namespace then fail ErrNamespaceNotFound
      else case dget (mem_roles s) namespace of
             None \<Rightarrow> Ok RoleNone
           | Some byUser \<Rightarrow> (case dget byUser username of None \<Rightarrow> Ok RoleNone | Some role \<Rightarrow> Ok role))"

definition drop_role :: "string \<Rightarrow> string \<Rightarrow> (string, (string, Role) dict) dict \<Rightarrow> (string, (string, Role) dict) dict" where
  "drop_role namespace username roles =
     (case dget roles namespace of
        None \<Rightarrow> roles
      | Some byUser \<Rightarrow>
          let byUser = ddel username byUser
          in if length byUser = 0 then ddel namespace roles else dset namespace byUser roles)"

definition mem_SetNamespaceRole :: "string \<Rightarrow> string \<Rightarrow> Role \<Rightarrow> (memory, unit) writing" where
  "mem_SetNamespaceRole namespace username role s =
     (if Role_Validate role \<noteq> None then (fail ErrInvalidRole, s)
      else if \<not> dhas (mem_namespaces s) namespace then (fail ErrNamespaceNotFound, s)
      else if role = RoleNone then (Ok (), s\<lparr>mem_roles := drop_role namespace username (mem_roles s)\<rparr>)
      else (Ok (), s\<lparr>mem_roles :=
              dset namespace (dset username role (inner (mem_roles s) namespace)) (mem_roles s)\<rparr>))"

definition mem_DeleteNamespaceRole :: "string \<Rightarrow> string \<Rightarrow> (memory, unit) writing" where
  "mem_DeleteNamespaceRole namespace username s =
     (case dget (mem_roles s) namespace of
        None \<Rightarrow> (fail ErrRoleNotFound, s)
      | Some byUser \<Rightarrow>
          if \<not> dhas byUser username then (fail ErrRoleNotFound, s)
          else (Ok (), s\<lparr>mem_roles := drop_role namespace username (mem_roles s)\<rparr>))"

definition mem_ListNamespaceRoles :: "string \<Rightarrow> int \<Rightarrow> int \<Rightarrow> (memory, NamespaceRole page) reading" where
  "mem_ListNamespaceRoles namespace limit offset s =
     (if \<not> dhas (mem_namespaces s) namespace then fail ErrNamespaceNotFound
      else paginate
        (listing nrl_Username (\<lambda>(username, role). Some \<lparr>nrl_Username = username, nrl_Role = role\<rparr>)
           (inner (mem_roles s) namespace))
        limit offset)"

definition mem_ListUserRoles :: "string \<Rightarrow> int \<Rightarrow> int \<Rightarrow> (memory, UserRole page) reading" where
  "mem_ListUserRoles username limit offset s =
     (if \<not> dhas (mem_users s) username then fail ErrUserNotFound
      else paginate
        (listing usr_Namespace
           (\<lambda>(namespace, byUser). map_option (\<lambda>role. \<lparr>usr_Namespace = namespace, usr_Role = role\<rparr>)
              (dget byUser username))
           (mem_roles s))
        limit offset)"

section \<open>Mounts (memory_mounts.go)\<close>

definition mem_GetMount :: "string \<Rightarrow> (memory, string) reading" where
  "mem_GetMount baseURI s =
     (case dget (mem_mounts s) baseURI of None \<Rightarrow> fail ErrMountNotFound | Some ns \<Rightarrow> Ok ns)"

definition mem_SetMount :: "string \<Rightarrow> string \<Rightarrow> (memory, unit) writing" where
  "mem_SetMount baseURI namespace s =
     (if \<not> dhas (mem_namespaces s) namespace then (fail ErrNamespaceNotFound, s)
      else (Ok (), s\<lparr>mem_mounts := dset baseURI namespace (mem_mounts s)\<rparr>))"

definition mem_DeleteMount :: "string \<Rightarrow> (memory, unit) writing" where
  "mem_DeleteMount baseURI s =
     (if \<not> dhas (mem_mounts s) baseURI then (fail ErrMountNotFound, s)
      else (Ok (), s\<lparr>mem_mounts := ddel baseURI (mem_mounts s)\<rparr>))"

definition mem_ListMounts :: "int \<Rightarrow> int \<Rightarrow> (memory, MountResponse page) reading" where
  "mem_ListMounts limit offset s =
     paginate
       (listing (\<lambda>m. (mr_Namespace m, mr_BaseURI m))
          (\<lambda>(baseURI, namespaceID). Some \<lparr>mr_BaseURI = baseURI, mr_Namespace = namespaceID\<rparr>)
          (mem_mounts s))
       limit offset"

definition mem_ListNamespaceMounts :: "string \<Rightarrow> int \<Rightarrow> int \<Rightarrow> (memory, string page) reading" where
  "mem_ListNamespaceMounts namespace limit offset s =
     (if \<not> dhas (mem_namespaces s) namespace then fail ErrNamespaceNotFound
      else paginate
        (listing (\<lambda>b. b) (\<lambda>(baseURI, namespaceID). if namespaceID = namespace then Some baseURI else None)
           (mem_mounts s))
        limit offset)"

section \<open>Mount grants (memory_mount_grants.go)\<close>

definition mem_ListUserMountGrants :: "string \<Rightarrow> int \<Rightarrow> int \<Rightarrow> (memory, string page) reading" where
  "mem_ListUserMountGrants username limit offset s =
     (if \<not> dhas (mem_users s) username then fail ErrUserNotFound
      else paginate (listing (\<lambda>p. p) (\<lambda>(pattern, _). Some pattern) (inner (mem_mountGrants s) username))
             limit offset)"

definition mem_SetMountGrant :: "string \<Rightarrow> string \<Rightarrow> (memory, unit) writing" where
  "mem_SetMountGrant username pattern s =
     (if \<not> dhas (mem_users s) username then (fail ErrUserNotFound, s)
      else (Ok (), s\<lparr>mem_mountGrants :=
              dset username (dset pattern () (inner (mem_mountGrants s) username)) (mem_mountGrants s)\<rparr>))"

definition mem_DeleteMountGrant :: "string \<Rightarrow> string \<Rightarrow> (memory, unit) writing" where
  "mem_DeleteMountGrant username pattern s =
     (if \<not> dhas (mem_users s) username then (fail ErrUserNotFound, s)
      else case dget (mem_mountGrants s) username of
             None \<Rightarrow> (fail ErrMountGrantNotFound, s)
           | Some patterns \<Rightarrow>
               if \<not> dhas patterns pattern then (fail ErrMountGrantNotFound, s)
               else let patterns = ddel pattern patterns
                    in (Ok (), s\<lparr>mem_mountGrants :=
                          if length patterns = 0 then ddel username (mem_mountGrants s)
                          else dset username patterns (mem_mountGrants s)\<rparr>))"

section \<open>The backend\<close>

definition memory_backend :: "crypto \<Rightarrow> memory Backend" where
  "memory_backend cr =
     \<lparr>Users = \<lparr>be_CreateUser = mem_CreateUser, be_GetUser = mem_GetUser, be_ListUsers = mem_ListUsers,
        be_AutocompleteUsers = mem_AutocompleteUsers, be_DeleteUser = mem_DeleteUser,
        be_UpdateUser = mem_UpdateUser\<rparr>,
      Creds = \<lparr>be_SetPassword = mem_SetPassword cr, be_CheckPassword = mem_CheckPassword cr,
        be_CreateKey = mem_CreateKey cr, be_ListKeys = mem_ListKeys, be_RevokeKey = mem_RevokeKey,
        be_LookupUserByKey = mem_LookupUserByKey cr\<rparr>,
      Namespaces = \<lparr>be_ListNamespaces = mem_ListNamespaces, be_CreateNamespace = mem_CreateNamespace,
        be_GetNamespace = mem_GetNamespace, be_UpdateNamespace = mem_UpdateNamespace\<rparr>,
      Resources = \<lparr>be_ListResources = mem_ListResources, be_CountAllResources = mem_CountAllResources,
        be_GetResource = mem_GetResource, be_CreateResource = mem_CreateResource,
        be_BatchCreateResources = mem_BatchCreateResources, be_UpdateResource = mem_UpdateResource\<rparr>,
      Roles = \<lparr>be_GetNamespaceRole = mem_GetNamespaceRole, be_SetNamespaceRole = mem_SetNamespaceRole,
        be_DeleteNamespaceRole = mem_DeleteNamespaceRole, be_ListNamespaceRoles = mem_ListNamespaceRoles,
        be_ListUserRoles = mem_ListUserRoles\<rparr>,
      Mounts = \<lparr>be_GetMount = mem_GetMount, be_SetMount = mem_SetMount, be_DeleteMount = mem_DeleteMount,
        be_ListMounts = mem_ListMounts, be_ListNamespaceMounts = mem_ListNamespaceMounts\<rparr>,
      MountGrants = \<lparr>be_ListUserMountGrants = mem_ListUserMountGrants, be_SetMountGrant = mem_SetMountGrant,
        be_DeleteMountGrant = mem_DeleteMountGrant\<rparr>\<rparr>"

end
