(* ===== verification/Memory_Inv.thy ===== *)
theory Memory_Inv
  imports Memory
begin

text \<open>
  The reachable states of the in-memory backend. \<open>mem_step\<close> has one rule per writing
  operation, with arbitrary arguments, so a sequence of steps is any order in which concurrent
  requests take the backend's lock. \<open>mem_inv\<close> is the representation invariant that ties the six maps
  together; it holds in every reachable state.
\<close>

section \<open>Steps\<close>

inductive mem_step :: "memory \<Rightarrow> memory \<Rightarrow> bool" where
  step_CreateUser: "mem_step s (snd (mem_CreateUser req now s))"
| step_DeleteUser: "mem_step s (snd (mem_DeleteUser u s))"
| step_UpdateUser: "mem_step s (snd (mem_UpdateUser u su s))"
| step_SetPassword: "mem_step s (snd (mem_SetPassword cr u p s))"
| step_CreateKey: "mem_step s (snd (mem_CreateKey cr f u kid key kreq now s))"
| step_RevokeKey: "mem_step s (snd (mem_RevokeKey f u kid s))"
| step_CreateNamespace: "mem_step s (snd (mem_CreateNamespace n nreq owner now s))"
| step_UpdateNamespace: "mem_step s (snd (mem_UpdateNamespace n ureq now s))"
| step_CreateResource: "mem_step s (snd (mem_CreateResource n pid rreq now s))"
| step_BatchCreateResources: "mem_step s (snd (mem_BatchCreateResources n pids rreqs now s))"
| step_UpdateResource: "mem_step s (snd (mem_UpdateResource n pid rureq now s))"
| step_SetNamespaceRole: "mem_step s (snd (mem_SetNamespaceRole n u role s))"
| step_DeleteNamespaceRole: "mem_step s (snd (mem_DeleteNamespaceRole n u s))"
| step_SetMount: "mem_step s (snd (mem_SetMount b n s))"
| step_DeleteMount: "mem_step s (snd (mem_DeleteMount b s))"
| step_SetMountGrant: "mem_step s (snd (mem_SetMountGrant u pat s))"
| step_DeleteMountGrant: "mem_step s (snd (mem_DeleteMountGrant u pat s))"

inductive reachable :: "memory \<Rightarrow> bool" where
  reach_init: "reachable NewMemoryBackend"
| reach_step: "reachable s \<Longrightarrow> mem_step s s' \<Longrightarrow> reachable s'"

section \<open>The invariant\<close>

definition key_at :: "(string, userRecord) dict \<Rightarrow> string \<Rightarrow> string \<Rightarrow> keyRecord \<Rightarrow> bool" where
  "key_at U u k r \<longleftrightarrow> (\<exists>user. dget U u = Some user \<and> dget (ur_keys user) k = Some r)"

definition users_ok :: "(string, userRecord) dict \<Rightarrow> bool" where
  "users_ok U \<longleftrightarrow> wf_dict U \<and> (\<forall>u user. dget U u = Some user \<longrightarrow> wf_dict (ur_keys user)) \<and>
     (\<forall>u k r. key_at U u k r \<longrightarrow> key_ID (kr_info r) = k) \<and>
     (\<forall>u k r u' k' r'. key_at U u k r \<longrightarrow> key_at U u' k' r' \<longrightarrow>
        kr_prefix r = kr_prefix r' \<longrightarrow> kr_digest r = kr_digest r' \<longrightarrow> u = u' \<and> k = k')"

definition resources_ok ::
  "(string, NamespaceResponse) dict \<Rightarrow> (string, (string, ResourceResponse) dict) dict \<Rightarrow> bool" where
  "resources_ok N R \<longleftrightarrow> wf_dict N \<and> wf_dict R \<and> (\<forall>n. dhas R n \<longleftrightarrow> dhas N n) \<and>
     (\<forall>n ns. dget N n = Some ns \<longrightarrow> nr_ID ns = n) \<and>
     (\<forall>n byPID. dget R n = Some byPID \<longrightarrow>
        wf_dict byPID \<and> (\<forall>p r. dget byPID p = Some r \<longrightarrow> rr_PID r = p))"

definition roles_ok ::
  "(string, NamespaceResponse) dict \<Rightarrow> (string, (string, Role) dict) dict \<Rightarrow> bool" where
  "roles_ok N Ro \<longleftrightarrow> wf_dict Ro \<and>
     (\<forall>n byUser. dget Ro n = Some byUser \<longrightarrow> dhas N n \<and> wf_dict byUser \<and> byUser \<noteq> [] \<and>
        (\<forall>u role. dget byUser u = Some role \<longrightarrow> Role_Validate role = None \<and> role \<noteq> RoleNone))"

definition mounts_ok :: "(string, NamespaceResponse) dict \<Rightarrow> (string, string) dict \<Rightarrow> bool" where
  "mounts_ok N M \<longleftrightarrow> wf_dict M \<and> (\<forall>b n. dget M b = Some n \<longrightarrow> dhas N n)"

definition grants_ok ::
  "(string, userRecord) dict \<Rightarrow> (string, (string, unit) dict) dict \<Rightarrow> bool" where
  "grants_ok U G \<longleftrightarrow> wf_dict G \<and>
     (\<forall>u ps. dget G u = Some ps \<longrightarrow> dhas U u \<and> wf_dict ps \<and> ps \<noteq> [])"

definition mem_inv :: "memory \<Rightarrow> bool" where
  "mem_inv s \<longleftrightarrow> users_ok (mem_users s) \<and> resources_ok (mem_namespaces s) (mem_resources s) \<and>
     roles_ok (mem_namespaces s) (mem_roles s) \<and> mounts_ok (mem_namespaces s) (mem_mounts s) \<and>
     grants_ok (mem_users s) (mem_mountGrants s)"

section \<open>Preservation, map by map\<close>

lemma dset_not_Nil [simp]: "dset k v d \<noteq> []"
  by (metis dget_dset dget_Nil fun_upd_same option.distinct(1))

lemma wf_dict_inner_mono:
  "(\<forall>n b. dget d n = Some b \<longrightarrow> wf_dict b) \<Longrightarrow> wf_dict (inner d n)"
  by (simp add: inner_def split: option.splits)

lemma dget_inner: "dget (inner d n) k = Some v \<longleftrightarrow> (\<exists>b. dget d n = Some b \<and> dget b k = Some v)"
  by (simp add: inner_def split: option.splits)

lemma grants_ok_dset:
  assumes "grants_ok U G" and "dhas U u" and "wf_dict ps" and "ps \<noteq> []"
  shows "grants_ok U (dset u ps G)"
  using assms by (auto simp: grants_ok_def dict_simps)

lemma grants_ok_ddel: "grants_ok U G \<Longrightarrow> grants_ok U (ddel u G)"
  by (auto simp: grants_ok_def dict_simps)

lemma grants_ok_users:
  "grants_ok U G \<Longrightarrow> (\<And>u. dhas U u \<Longrightarrow> dhas U' u) \<Longrightarrow> grants_ok U' G"
  by (auto simp: grants_ok_def)

lemma grants_ok_delete_user: "grants_ok U G \<Longrightarrow> grants_ok (ddel u U) (ddel u G)"
  by (auto simp: grants_ok_def dict_simps)

lemma mounts_ok_namespaces:
  "mounts_ok N M \<Longrightarrow> (\<And>n. dhas N n \<Longrightarrow> dhas N' n) \<Longrightarrow> mounts_ok N' M"
  by (auto simp: mounts_ok_def)

lemma mounts_ok_dset: "mounts_ok N M \<Longrightarrow> dhas N n \<Longrightarrow> mounts_ok N (dset b n M)"
  by (auto simp: mounts_ok_def dict_simps)

lemma mounts_ok_ddel: "mounts_ok N M \<Longrightarrow> mounts_ok N (ddel b M)"
  by (auto simp: mounts_ok_def dict_simps)

lemma roles_ok_namespaces:
  "roles_ok N Ro \<Longrightarrow> (\<And>n. dhas N n \<Longrightarrow> dhas N' n) \<Longrightarrow> roles_ok N' Ro"
  by (auto simp: roles_ok_def)

lemma roles_ok_dset:
  assumes "roles_ok N Ro" and "dhas N n" and "Role_Validate role = None" and "role \<noteq> RoleNone"
  shows "roles_ok N (dset n (dset u role (inner Ro n)) Ro)"
proof -
  have "wf_dict (inner Ro n)"
    using assms(1) by (intro wf_dict_inner_mono) (simp add: roles_ok_def)
  moreover have "Role_Validate r = None \<and> r \<noteq> RoleNone" if "dget (inner Ro n) v = Some r" for v r
    using that assms(1) by (auto simp: dget_inner roles_ok_def)
  ultimately show ?thesis
    using assms by (auto simp: roles_ok_def dict_simps)
qed

lemma roles_ok_drop: "roles_ok N Ro \<Longrightarrow> roles_ok N (drop_role n u Ro)"
  by (auto simp: roles_ok_def drop_role_def dict_simps Let_def split: option.splits)

lemma roles_ok_delete_user:
  assumes "roles_ok N Ro"
  shows "roles_ok N (dsweep (\<lambda>n byUser.
      let byUser = ddel u byUser in if length byUser = 0 then None else Some byUser) Ro)"
  using assms
  by (auto simp: roles_ok_def wf_dict_dsweep dict_simps Let_def bind_eq_Some_conv split: if_splits) blast+

lemma resources_ok_namespace:
  assumes "resources_ok N R" and "dget N n = Some ns" and "nr_ID ns' = n"
  shows "resources_ok (dset n ns' N) R"
  using assms by (auto simp: resources_ok_def dict_simps dhas_def)

lemma resources_ok_new:
  assumes "resources_ok N R" and "nr_ID ns = n"
  shows "resources_ok (dset n ns N) (dset n [] R)"
  using assms by (auto simp: resources_ok_def dict_simps)

lemma resources_ok_inner:
  assumes "resources_ok N R" and "dhas N n"
  obtains byPID where "dget R n = Some byPID" "inner R n = byPID" "wf_dict byPID"
    "\<And>p r. dget byPID p = Some r \<Longrightarrow> rr_PID r = p"
  using assms by (force simp: resources_ok_def dhas_def inner_def)

lemma resources_ok_byPID:
  assumes "resources_ok N R" and "dhas N n" and "wf_dict byPID"
    and "\<And>p r. dget byPID p = Some r \<Longrightarrow> rr_PID r = p"
  shows "resources_ok N (dset n byPID R)"
  using assms by (auto simp: resources_ok_def dict_simps)

lemma key_at_dset:
  "key_at (dset u user U) v k r \<longleftrightarrow>
     (if v = u then dget (ur_keys user) k = Some r else key_at U v k r)"
  by (auto simp: key_at_def dict_simps)

lemma users_ok_dset:
  assumes "users_ok U" and "dget U u = Some user" and "ur_keys user' = ur_keys user"
  shows "users_ok (dset u user' U)"
proof -
  have "key_at (dset u user' U) v k r \<longleftrightarrow> key_at U v k r" for v k r
    using assms by (auto simp: key_at_def dict_simps split: if_splits)
  then show ?thesis
    using assms by (auto simp: users_ok_def dict_simps)
qed

lemma users_ok_new:
  assumes "users_ok U" and "\<not> dhas U u" and "ur_keys user = []"
  shows "users_ok (dset u user U)"
proof -
  have "key_at (dset u user U) v k r \<longleftrightarrow> key_at U v k r" for v k r
    using assms by (auto simp: key_at_def dict_simps dhas_def split: if_splits)
  then show ?thesis
    using assms by (auto simp: users_ok_def dict_simps)
qed

lemma users_ok_ddel:
  assumes "users_ok U"
  shows "users_ok (ddel u U)"
proof -
  have "key_at (ddel u U) v k r \<Longrightarrow> key_at U v k r" for v k r
    by (auto simp: key_at_def dict_simps split: if_splits)
  then show ?thesis
    using assms by (auto simp: users_ok_def dict_simps split: if_splits) metis+
qed

lemma users_ok_revoke:
  assumes "users_ok U" and "dget U u = Some user"
  shows "users_ok (dset u (user\<lparr>ur_keys := ddel kid (ur_keys user)\<rparr>) U)"
proof -
  have "key_at (dset u (user\<lparr>ur_keys := ddel kid (ur_keys user)\<rparr>) U) v k r \<Longrightarrow> key_at U v k r" for v k r
    using assms(2) by (auto simp: key_at_def dict_simps split: if_splits)
  then show ?thesis
    using assms by (auto simp: users_ok_def dict_simps split: if_splits) metis+
qed

lemma set_all_keys:
  assumes "users_ok (mem_users s)"
  shows "r \<in> set (all_keys s) \<longleftrightarrow> (\<exists>u k. key_at (mem_users s) u k r)"
proof -
  have wf: "wf_dict (mem_users s)" "\<And>u user. dget (mem_users s) u = Some user \<Longrightarrow> wf_dict (ur_keys user)"
    using assms by (auto simp: users_ok_def)
  then show ?thesis
    by (force simp: all_keys_def key_at_def dget_Some_iff)
qed

lemma users_ok_create:
  assumes ok: "users_ok U" and u: "dget U u = Some user" and id: "key_ID (kr_info r) = kid"
    and fresh: "\<And>v k r'. key_at U v k r' \<Longrightarrow> \<not> (kr_prefix r' = kr_prefix r \<and> kr_digest r' = kr_digest r)"
  shows "users_ok (dset u (user\<lparr>ur_keys := dset kid r (ur_keys user)\<rparr>) U)"
proof -
  let ?U = "dset u (user\<lparr>ur_keys := dset kid r (ur_keys user)\<rparr>) U"
  have at: "key_at ?U v k r' \<longleftrightarrow> (if v = u \<and> k = kid then r' = r else key_at U v k r')" for v k r'
    using u by (auto simp: key_at_def dict_simps split: if_splits)
  show ?thesis unfolding users_ok_def
  proof (intro conjI allI impI)
    show "wf_dict ?U" using ok by (simp add: users_ok_def)
    show "wf_dict (ur_keys user')" if "dget ?U v = Some user'" for v user'
      using that ok u by (auto simp: users_ok_def dict_simps split: if_splits)
    show "key_ID (kr_info r') = k" if "key_at ?U v k r'" for v k r'
      using that ok id by (auto simp: at users_ok_def split: if_splits)
    fix v k r1 v' k' r2
    assume "key_at ?U v k r1" "key_at ?U v' k' r2" "kr_prefix r1 = kr_prefix r2" "kr_digest r1 = kr_digest r2"
    then show "v = v'" and "k = k'"
      using ok fresh by (auto simp: at users_ok_def split: if_splits)
  qed
qed

section \<open>Preservation, operation by operation\<close>

lemma inv_CreateUser: "mem_inv s \<Longrightarrow> mem_inv (snd (mem_CreateUser req now s))"
  by (auto simp: mem_inv_def mem_CreateUser_def Let_def dhas_dset
      intro: users_ok_new grants_ok_users)

lemma inv_DeleteUser: "mem_inv s \<Longrightarrow> mem_inv (snd (mem_DeleteUser u s))"
  unfolding mem_DeleteUser_def
  by (simp add: mem_inv_def users_ok_ddel grants_ok_delete_user roles_ok_delete_user
      del: length_0_conv)

lemma inv_users_dset:
  assumes "mem_inv s" and "dget (mem_users s) u = Some user" and "users_ok (dset u user' (mem_users s))"
  shows "mem_inv (s\<lparr>mem_users := dset u user' (mem_users s)\<rparr>)"
  using assms by (auto simp: mem_inv_def dhas_dset intro: grants_ok_users)

lemma inv_UpdateUser: "mem_inv s \<Longrightarrow> mem_inv (snd (mem_UpdateUser u su s))"
  by (auto simp: mem_UpdateUser_def Let_def mem_inv_def [of s]
      intro!: inv_users_dset users_ok_dset split: option.splits)

lemma inv_SetPassword: "mem_inv s \<Longrightarrow> mem_inv (snd (mem_SetPassword cr u p s))"
  by (auto simp: mem_SetPassword_def mem_inv_def [of s]
      intro!: inv_users_dset users_ok_dset split: option.splits res.splits)

lemma inv_RevokeKey: "mem_inv s \<Longrightarrow> mem_inv (snd (mem_RevokeKey f u kid s))"
  by (auto simp: mem_RevokeKey_def mem_inv_def [of s]
      intro!: inv_users_dset users_ok_revoke split: option.splits)

lemma inv_CreateKey:
  assumes "mem_inv s"
  shows "mem_inv (snd (mem_CreateKey cr f u kid key req now s))"
proof -
  have ok: "users_ok (mem_users s)" using assms by (simp add: mem_inv_def)
  have new: "mem_inv (s\<lparr>mem_users := dset u (user\<lparr>ur_keys := dset kid
        \<lparr>kr_info = info, kr_prefix = st_Prefix h, kr_digest = st_Digest h\<rparr> (ur_keys user)\<rparr>) (mem_users s)\<rparr>)"
    if "dget (mem_users s) u = Some user" and "key_ID info = kid"
      and "\<not> list_ex (\<lambda>existing. kr_prefix existing = st_Prefix h \<and> kr_digest existing = st_Digest h) (all_keys s)"
    for user info h
  proof (rule inv_users_dset [OF assms that(1)], rule users_ok_create [OF ok that(1)])
    fix v k r' assume "key_at (mem_users s) v k r'"
    then have "r' \<in> set (all_keys s)" using set_all_keys [OF ok] by blast
    then show "\<not> (kr_prefix r' = kr_prefix \<lparr>kr_info = info, kr_prefix = st_Prefix h, kr_digest = st_Digest h\<rparr> \<and>
        kr_digest r' = kr_digest \<lparr>kr_info = info, kr_prefix = st_Prefix h, kr_digest = st_Digest h\<rparr>)"
      using that(3) by (auto simp: list_ex_iff)
  qed (simp add: that(2))
  show ?thesis
    using assms by (auto simp: mem_CreateKey_def Let_def intro!: new split: option.splits res.splits)
qed

lemma inv_CreateNamespace: "mem_inv s \<Longrightarrow> mem_inv (snd (mem_CreateNamespace n req owner now s))"
  by (cases owner)
    (auto simp: mem_inv_def mem_CreateNamespace_def Let_def dhas_dset Role_Validate_def role_defs
      intro!: resources_ok_new roles_ok_dset
      intro: mounts_ok_namespaces roles_ok_namespaces)

lemma inv_UpdateNamespace:
  assumes "mem_inv s"
  shows "mem_inv (snd (mem_UpdateNamespace n req now s))"
proof (cases "dget (mem_namespaces s) n")
  case (Some ns)
  have "nr_ID ns = n" using assms Some by (simp add: mem_inv_def resources_ok_def)
  then show ?thesis
    using assms Some
    by (auto simp: mem_inv_def mem_UpdateNamespace_def Let_def dhas_dset
        intro!: resources_ok_namespace
        intro: mounts_ok_namespaces roles_ok_namespaces split: option.splits)
qed (use assms in \<open>simp add: mem_UpdateNamespace_def\<close>)

lemma inv_resources:
  assumes "mem_inv s" and "dhas (mem_namespaces s) n" and "wf_dict byPID"
    and "\<And>p r. dget byPID p = Some r \<Longrightarrow> rr_PID r = p"
  shows "mem_inv (s\<lparr>mem_resources := dset n byPID (mem_resources s)\<rparr>)"
  using assms by (simp add: mem_inv_def resources_ok_byPID)

lemma inv_byPID:
  assumes "mem_inv s" and "dhas (mem_namespaces s) n"
  obtains byPID where "dget (mem_resources s) n = Some byPID" "inner (mem_resources s) n = byPID"
    "wf_dict byPID" "\<And>p r. dget byPID p = Some r \<Longrightarrow> rr_PID r = p"
  using assms resources_ok_inner by (metis mem_inv_def)

lemma new_resource_PID [simp]: "rr_PID (new_resource pid req ts) = pid"
  by (simp add: new_resource_def)

lemma apply_update_keeps [simp]:
  "rr_PID (apply_update req r) = rr_PID r" "rr_DateCreated (apply_update req r) = rr_DateCreated r"
  by (simp_all add: apply_update_def Let_def split: option.splits)

lemma inv_CreateResource:
  assumes "mem_inv s"
  shows "mem_inv (snd (mem_CreateResource n pid req now s))"
proof (cases "dhas (mem_namespaces s) n")
  case True
  from inv_byPID [OF assms True] obtain byPID where
    "dget (mem_resources s) n = Some byPID" "wf_dict byPID" "\<And>p r. dget byPID p = Some r \<Longrightarrow> rr_PID r = p"
    by metis
  then show ?thesis
    using True assms
    by (auto simp: mem_CreateResource_def Let_def dict_simps intro!: inv_resources split: if_splits)
qed (use assms in \<open>simp add: mem_CreateResource_def\<close>)

lemma batch_insert_out:
  "snd (batch_insert ts ps byPID out) = out @ map (\<lambda>(pid, req). new_resource pid req ts) ps"
  by (induction ts ps byPID out rule: batch_insert.induct) (simp_all add: Let_def)

lemma batch_insert_wf: "wf_dict byPID \<Longrightarrow> wf_dict (fst (batch_insert ts ps byPID out))"
  by (induction ts ps byPID out rule: batch_insert.induct) (simp_all add: Let_def)

lemma batch_insert_get:
  "distinct (map fst ps) \<Longrightarrow> dget (fst (batch_insert ts ps byPID out)) q =
     (case map_of ps q of Some req \<Rightarrow> Some (new_resource q req ts) | None \<Rightarrow> dget byPID q)"
proof (induction ts ps byPID out rule: batch_insert.induct)
  case (2 ts pid req rest byPID out)
  then have "map_of rest pid = None" by (simp add: map_of_eq_None_iff)
  then show ?case
    using 2 by (simp add: Let_def dict_simps split: option.splits)
qed simp

lemma batch_check_iff:
  "batch_check byPID seen pids \<longleftrightarrow>
     distinct pids \<and> set pids \<inter> set seen = {} \<and> (\<forall>p \<in> set pids. \<not> dhas byPID p)"
  by (induction byPID seen pids rule: batch_check.induct) auto

lemma inv_BatchCreateResources:
  assumes "mem_inv s"
  shows "mem_inv (snd (mem_BatchCreateResources n pids reqs now s))"
proof (cases "dhas (mem_namespaces s) n")
  case True
  from inv_byPID [OF assms True] obtain byPID where b:
    "dget (mem_resources s) n = Some byPID" "wf_dict byPID" "\<And>p r. dget byPID p = Some r \<Longrightarrow> rr_PID r = p"
    by metis
  let ?b = "fst (batch_insert (rfc3339 now) (zip pids reqs) byPID [])"
  have "mem_inv (s\<lparr>mem_resources := dset n ?b (mem_resources s)\<rparr>)"
    if "distinct pids" "length pids = length reqs"
  proof (rule inv_resources [OF assms True batch_insert_wf [OF b(2)]])
    show "rr_PID r = p" if "dget ?b p = Some r" for p r
      using that b(3) \<open>distinct pids\<close> \<open>length pids = length reqs\<close>
      by (auto simp: batch_insert_get split: option.splits)
  qed
  then show ?thesis
    using True assms b(1)
    by (auto simp: mem_BatchCreateResources_def batch_check_iff case_prod_beta)
qed (use assms in \<open>simp add: mem_BatchCreateResources_def\<close>)

lemma inv_UpdateResource:
  assumes "mem_inv s"
  shows "mem_inv (snd (mem_UpdateResource n pid req now s))"
proof (cases "dhas (mem_namespaces s) n")
  case True
  from inv_byPID [OF assms True] obtain byPID where
    "inner (mem_resources s) n = byPID" "wf_dict byPID" "\<And>p r. dget byPID p = Some r \<Longrightarrow> rr_PID r = p"
    by metis
  then show ?thesis
    using True assms
    by (auto simp: mem_UpdateResource_def Let_def dict_simps intro!: inv_resources
        split: if_splits option.splits)
qed (use assms in \<open>simp add: mem_UpdateResource_def\<close>)

lemma inv_SetNamespaceRole: "mem_inv s \<Longrightarrow> mem_inv (snd (mem_SetNamespaceRole n u role s))"
  by (auto simp: mem_inv_def mem_SetNamespaceRole_def intro: roles_ok_drop roles_ok_dset)

lemma inv_DeleteNamespaceRole: "mem_inv s \<Longrightarrow> mem_inv (snd (mem_DeleteNamespaceRole n u s))"
  by (auto simp: mem_inv_def mem_DeleteNamespaceRole_def intro: roles_ok_drop split: option.splits)

lemma inv_SetMount: "mem_inv s \<Longrightarrow> mem_inv (snd (mem_SetMount b n s))"
  by (auto simp: mem_inv_def mem_SetMount_def intro: mounts_ok_dset)

lemma inv_DeleteMount: "mem_inv s \<Longrightarrow> mem_inv (snd (mem_DeleteMount b s))"
  by (auto simp: mem_inv_def mem_DeleteMount_def intro: mounts_ok_ddel)

lemma inv_SetMountGrant:
  assumes "mem_inv s"
  shows "mem_inv (snd (mem_SetMountGrant u pat s))"
proof -
  have "wf_dict (inner (mem_mountGrants s) u)"
    using assms by (intro wf_dict_inner_mono) (auto simp: mem_inv_def grants_ok_def)
  then show ?thesis
    using assms by (auto simp: mem_inv_def mem_SetMountGrant_def intro!: grants_ok_dset)
qed

lemma inv_DeleteMountGrant: "mem_inv s \<Longrightarrow> mem_inv (snd (mem_DeleteMountGrant u pat s))"
  by (auto simp: mem_inv_def mem_DeleteMountGrant_def Let_def
      intro!: grants_ok_dset grants_ok_ddel split: option.splits if_splits)
    (simp add: grants_ok_def)

lemmas mem_inv_steps =
  inv_CreateUser inv_DeleteUser inv_UpdateUser inv_SetPassword inv_CreateKey inv_RevokeKey
  inv_CreateNamespace inv_UpdateNamespace inv_CreateResource inv_BatchCreateResources
  inv_UpdateResource inv_SetNamespaceRole inv_DeleteNamespaceRole inv_SetMount inv_DeleteMount
  inv_SetMountGrant inv_DeleteMountGrant

lemma mem_step_inv: "mem_step s s' \<Longrightarrow> mem_inv s \<Longrightarrow> mem_inv s'"
  by (induction rule: mem_step.induct) (rule mem_inv_steps, assumption)+

lemma mem_inv_init: "mem_inv NewMemoryBackend"
  by (simp add: mem_inv_def NewMemoryBackend_def users_ok_def resources_ok_def roles_ok_def
      mounts_ok_def grants_ok_def key_at_def)

lemma reachable_inv: "reachable s \<Longrightarrow> mem_inv s"
  by (induction rule: reachable.induct) (auto intro: mem_inv_init mem_step_inv)

end
