(* ===== verification/Memory_Props.thy ===== *)
theory Memory_Props
  imports Memory_Inv
begin

text \<open>
  What the in-memory backend guarantees in its reachable states: no panic on a nil map,
  identifiers that are never lost, authentication by key that does not depend on the order in
  which maps are visited, complete removal of deleted users, atomic batches, and listings that are
  windows of one sorted list. The last section shows the behaviours that deviate from the interface's
  documentation.
\<close>

section \<open>Resources\<close>

definition res_at :: "memory \<Rightarrow> string \<Rightarrow> string \<Rightarrow> ResourceResponse \<Rightarrow> bool" where
  "res_at s n p r \<longleftrightarrow> mem_GetResource n p s = Ok r"

lemma res_at_iff:
  "res_at s n p r \<longleftrightarrow> dhas (mem_namespaces s) n \<and> dget (inner (mem_resources s) n) p = Some r"
  by (simp add: res_at_def mem_GetResource_def split: option.splits)

lemma res_at_same:
  "mem_namespaces s' = mem_namespaces s \<Longrightarrow> mem_resources s' = mem_resources s \<Longrightarrow>
     res_at s' n p r \<longleftrightarrow> res_at s n p r"
  by (simp add: res_at_iff)

lemma same_store:
  "mem_namespaces (snd (mem_CreateUser req now s)) = mem_namespaces s"
  "mem_resources (snd (mem_CreateUser req now s)) = mem_resources s"
  "mem_namespaces (snd (mem_DeleteUser u s)) = mem_namespaces s"
  "mem_resources (snd (mem_DeleteUser u s)) = mem_resources s"
  "mem_namespaces (snd (mem_UpdateUser u su s)) = mem_namespaces s"
  "mem_resources (snd (mem_UpdateUser u su s)) = mem_resources s"
  "mem_namespaces (snd (mem_SetPassword cr u pw s)) = mem_namespaces s"
  "mem_resources (snd (mem_SetPassword cr u pw s)) = mem_resources s"
  "mem_namespaces (snd (mem_CreateKey cr f u kid key kreq now s)) = mem_namespaces s"
  "mem_resources (snd (mem_CreateKey cr f u kid key kreq now s)) = mem_resources s"
  "mem_namespaces (snd (mem_RevokeKey f u kid s)) = mem_namespaces s"
  "mem_resources (snd (mem_RevokeKey f u kid s)) = mem_resources s"
  "mem_namespaces (snd (mem_SetNamespaceRole n u role s)) = mem_namespaces s"
  "mem_resources (snd (mem_SetNamespaceRole n u role s)) = mem_resources s"
  "mem_namespaces (snd (mem_DeleteNamespaceRole n u s)) = mem_namespaces s"
  "mem_resources (snd (mem_DeleteNamespaceRole n u s)) = mem_resources s"
  "mem_namespaces (snd (mem_SetMount b n s)) = mem_namespaces s"
  "mem_resources (snd (mem_SetMount b n s)) = mem_resources s"
  "mem_namespaces (snd (mem_DeleteMount b s)) = mem_namespaces s"
  "mem_resources (snd (mem_DeleteMount b s)) = mem_resources s"
  "mem_namespaces (snd (mem_SetMountGrant u pat s)) = mem_namespaces s"
  "mem_resources (snd (mem_SetMountGrant u pat s)) = mem_resources s"
  "mem_namespaces (snd (mem_DeleteMountGrant u pat s)) = mem_namespaces s"
  "mem_resources (snd (mem_DeleteMountGrant u pat s)) = mem_resources s"
  by (auto simp: mem_CreateUser_def mem_DeleteUser_def mem_UpdateUser_def mem_SetPassword_def
      mem_CreateKey_def mem_RevokeKey_def mem_SetNamespaceRole_def mem_DeleteNamespaceRole_def
      mem_SetMount_def mem_DeleteMount_def mem_SetMountGrant_def mem_DeleteMountGrant_def Let_def
      split: option.splits res.splits)

lemma inner_dset: "inner (dset n b d) m = (if m = n then b else inner d m)"
  by (simp add: inner_def dict_simps)

lemma res_at_CreateNamespace:
  "res_at s n p r \<Longrightarrow> res_at (snd (mem_CreateNamespace m req owner now s)) n p r"
  by (cases owner) (auto simp: res_at_iff mem_CreateNamespace_def Let_def dict_simps inner_dset)

lemma res_at_UpdateNamespace:
  "res_at (snd (mem_UpdateNamespace m req now s)) n p r \<longleftrightarrow> res_at s n p r"
  by (auto simp: res_at_iff mem_UpdateNamespace_def Let_def dict_simps dhas_def split: option.splits)

lemma res_at_CreateResource:
  "res_at s n p r \<Longrightarrow> res_at (snd (mem_CreateResource m pid req now s)) n p r"
  by (auto simp: res_at_iff mem_CreateResource_def Let_def inner_dset dict_simps dhas_iff inner_def
      split: option.splits)

lemma res_at_BatchCreateResources:
  assumes "res_at s n p r"
  shows "res_at (snd (mem_BatchCreateResources m pids reqs now s)) n p r"
proof (cases "fst (mem_BatchCreateResources m pids reqs now s)")
  case (Ok out)
  show ?thesis
  proof (cases "dget (mem_resources s) m")
    case (Some byPID)
    then have i: "inner (mem_resources s) m = byPID" by (simp add: inner_def)
    from Some Ok have c: "distinct pids" "length pids = length reqs" "\<forall>q \<in> set pids. \<not> dhas byPID q"
      by (auto simp: mem_BatchCreateResources_def batch_check_iff i split: if_splits)
    have "dget (fst (batch_insert ts (zip pids reqs) byPID [])) p = dget byPID p"
      if "dhas byPID p" for ts
      using c that by (auto simp: batch_insert_get dest: map_of_SomeD set_zip_leftD split: option.splits)
    then show ?thesis
      using assms Ok Some
      by (auto simp: res_at_iff mem_BatchCreateResources_def case_prod_beta inner_dset i dhas_def
          split: if_splits)
  qed (use assms Ok in \<open>auto simp: mem_BatchCreateResources_def split: if_splits\<close>)
qed (use assms in \<open>auto simp: mem_BatchCreateResources_def case_prod_beta split: if_splits option.splits\<close>)

lemma res_at_UpdateResource:
  assumes "res_at s n p r"
  shows "\<exists>r'. res_at (snd (mem_UpdateResource m pid req now s)) n p r' \<and>
    rr_PID r' = rr_PID r \<and> rr_DateCreated r' = rr_DateCreated r"
  using assms
  by (auto simp: res_at_iff mem_UpdateResource_def Let_def inner_dset dict_simps split: option.splits)

lemma res_at_step:
  assumes "mem_step s s'" and "res_at s n p r"
  shows "\<exists>r'. res_at s' n p r' \<and> rr_PID r' = rr_PID r \<and> rr_DateCreated r' = rr_DateCreated r"
  using assms
  by (induction rule: mem_step.induct)
    (blast intro: res_at_UpdateResource res_at_CreateNamespace res_at_UpdateNamespace [THEN iffD2]
      res_at_CreateResource res_at_BatchCreateResources res_at_same [THEN iffD2] same_store)+

lemma res_at_steps:
  "mem_step\<^sup>*\<^sup>* s s' \<Longrightarrow> res_at s n p r \<Longrightarrow>
     \<exists>r'. res_at s' n p r' \<and> rr_PID r' = rr_PID r \<and> rr_DateCreated r' = rr_DateCreated r"
proof (induction rule: rtranclp_induct)
  case (step y z)
  then obtain r1 where "res_at y n p r1" "rr_PID r1 = rr_PID r" "rr_DateCreated r1 = rr_DateCreated r"
    by blast
  with res_at_step [OF step.hyps(2) this(1)] show ?case by auto
qed blast

section \<open>Counting\<close>

lemma foldl_count: "foldl (\<lambda>n (_, b). n + int (length b)) k d = k + int (sum_list (map (length \<circ> snd) d))"
  by (induction d arbitrary: k) auto

lemma sum_list_inner:
  "wf_dict d \<Longrightarrow> sum_list (map (length \<circ> snd) d) = (\<Sum>n \<in> fst ` set d. length (inner d n))"
proof (induction d)
  case (Cons e d)
  then have wf: "wf_dict d" "fst e \<notin> fst ` set d" by (auto simp: wf_dict_def)
  have "inner (e # d) n = inner d n" if "n \<in> fst ` set d" for n
    using that wf(2) by (cases e) (auto simp: inner_def dget_def)
  moreover have "inner (e # d) (fst e) = snd e" by (cases e) (simp add: inner_def dget_def)
  ultimately show ?case using Cons.IH wf by simp
qed simp

lemma CountAllResources_card:
  assumes "mem_inv s"
  shows "mem_CountAllResources s = Ok (int (card {(n, p). \<exists>r. res_at s n p r}))"
proof -
  let ?R = "mem_resources s"
  have ok: "resources_ok (mem_namespaces s) ?R" using assms by (simp add: mem_inv_def)
  then have wf: "wf_dict ?R" by (simp add: resources_ok_def)
  have keys: "n \<in> fst ` set ?R \<longleftrightarrow> dhas (mem_namespaces s) n" for n
    using ok by (metis (no_types) dget_def dhas_def map_of_eq_None_iff resources_ok_def)
  have len: "length (inner ?R n) = card {p. dhas (inner ?R n) p}" for n
  proof -
    have "wf_dict (inner ?R n)" using ok by (intro wf_dict_inner_mono) (simp add: resources_ok_def)
    moreover have "{p. dhas (inner ?R n) p} = dom (dget (inner ?R n))" by (auto simp: dhas_def)
    ultimately show ?thesis by (simp add: length_dict_card)
  qed
  have fin: "finite {p. dhas (inner ?R n) p}" for n
  proof -
    have "{p. dhas (inner ?R n) p} \<subseteq> fst ` set (inner ?R n)"
      by (auto simp: dhas_def dget_def map_of_eq_None_iff)
    then show ?thesis by (rule finite_subset) simp
  qed
  have "{(n, p). \<exists>r. res_at s n p r} = (SIGMA n : fst ` set ?R. {p. dhas (inner ?R n) p})"
    by (auto simp: res_at_iff keys [symmetric] dhas_def [of "inner ?R _"])
  then show ?thesis
    using fin by (simp add: mem_CountAllResources_def foldl_count sum_list_inner [OF wf] len)
qed

section \<open>API keys\<close>

lemma Key_Verify_iff:
  "Key_Verify sha f key st \<longleftrightarrow> Key_Hash sha f key = Ok st"
  by (cases st)
    (auto simp: Key_Verify_def Key_Hash_def digestMatches_eq split: res.splits)

lemma Key_Prefix_of_Hash: "Key_Hash sha f key = Ok st \<Longrightarrow> Key_Prefix f key = Ok (st_Prefix st)"
  by (auto simp: Key_Hash_def Key_Prefix_def bind_res_Ok_iff)

lemma Key_Prefix_no_panic: "Key_Prefix f key \<noteq> Panic"
  using splitKey_no_panic [of f key] by (cases "splitKey f key") (auto simp: Key_Prefix_def)

lemma set_key_entries:
  assumes "users_ok U"
  shows "(u, r) \<in> set (concat (map (\<lambda>(username, user). map (\<lambda>(_, record). (username, record)) (ur_keys user)) U))
    \<longleftrightarrow> (\<exists>k. key_at U u k r)"
proof -
  have "wf_dict U" "\<And>u user. dget U u = Some user \<Longrightarrow> wf_dict (ur_keys user)"
    using assms by (auto simp: users_ok_def)
  then show ?thesis
    by (force simp: key_at_def dget_Some_iff)
qed

lemma key_at_unique: "key_at U u k r \<Longrightarrow> key_at U u k r' \<Longrightarrow> r = r'"
  by (auto simp: key_at_def)

lemma LookupUserByKey_Ok:
  assumes ok: "users_ok (mem_users s)"
  shows "mem_LookupUserByKey cr f key s = Ok (u, info) \<longleftrightarrow>
    (\<exists>k r. key_at (mem_users s) u k r \<and> kr_info r = info \<and>
       Key_Hash (cr_sha256 cr) f key = Ok \<lparr>st_Prefix = kr_prefix r, st_Digest = kr_digest r\<rparr>)"
proof -
  let ?es = "concat (map (\<lambda>(username, user). map (\<lambda>(_, record). (username, record)) (ur_keys user)) (mem_users s))"
  let ?Q = "\<lambda>(u, r). Key_Hash (cr_sha256 cr) f key = Ok \<lparr>st_Prefix = kr_prefix r, st_Digest = kr_digest r\<rparr>"
  have eq: "mem_LookupUserByKey cr f key s = Ok (u, info) \<longleftrightarrow>
      (\<exists>r. List.find ?Q ?es = Some (u, r) \<and> kr_info r = info)"
  proof (cases "Key_Prefix f key")
    case (Ok p)
    then have q: "(\<lambda>(username, record). kr_prefix record = p \<and>
        Key_Verify (cr_sha256 cr) f key \<lparr>st_Prefix = kr_prefix record, st_Digest = kr_digest record\<rparr>) = ?Q"
      by (auto simp: Key_Verify_iff fun_eq_iff dest: Key_Prefix_of_Hash)
    show ?thesis
      unfolding mem_LookupUserByKey_def Ok res.case q by (auto split: option.splits)
  next
    case (Err e)
    then have "\<not> ?Q x" for x by (cases x) (auto dest: Key_Prefix_of_Hash)
    then have "List.find ?Q ?es = None" unfolding find_None_iff by blast
    with Err show ?thesis by (simp add: mem_LookupUserByKey_def)
  qed (simp add: Key_Prefix_no_panic)
  show ?thesis
  proof
    assume "mem_LookupUserByKey cr f key s = Ok (u, info)"
    with eq obtain r where f: "List.find ?Q ?es = Some (u, r)" and "kr_info r = info" by blast
    moreover from find_SomeD [OF f] have "?Q (u, r)" "(u, r) \<in> set ?es" by blast+
    ultimately show "\<exists>k r. key_at (mem_users s) u k r \<and> kr_info r = info \<and>
        Key_Hash (cr_sha256 cr) f key = Ok \<lparr>st_Prefix = kr_prefix r, st_Digest = kr_digest r\<rparr>"
      using set_key_entries [OF ok] by auto
  next
    assume "\<exists>k r. key_at (mem_users s) u k r \<and> kr_info r = info \<and>
        Key_Hash (cr_sha256 cr) f key = Ok \<lparr>st_Prefix = kr_prefix r, st_Digest = kr_digest r\<rparr>"
    then obtain k r where at: "key_at (mem_users s) u k r" and i: "kr_info r = info" and q: "?Q (u, r)" by auto
    then have "(u, r) \<in> set ?es" using set_key_entries [OF ok] by blast
    with q have "List.find ?Q ?es \<noteq> None" unfolding find_None_iff by blast
    then obtain u' r' where f: "List.find ?Q ?es = Some (u', r')" by auto
    from find_SomeD [OF this] have "?Q (u', r')" "(u', r') \<in> set ?es" by blast+
    then obtain k' where at': "key_at (mem_users s) u' k' r'" using set_key_entries [OF ok] by blast
    have "kr_prefix r = kr_prefix r'" "kr_digest r = kr_digest r'" using q \<open>?Q (u', r')\<close> by auto
    then have "u = u'" "k = k'" using ok at at' unfolding users_ok_def by blast+
    then have "r = r'" using at at' key_at_unique by blast
    with f i \<open>u = u'\<close> eq show "mem_LookupUserByKey cr f key s = Ok (u, info)" by blast
  qed
qed

lemma LookupUserByKey_Err:
  "mem_LookupUserByKey cr f key s = Err e \<Longrightarrow> errors_is e ErrInvalidKey"
  "mem_LookupUserByKey cr f key s \<noteq> Panic"
  using Key_Prefix_no_panic [of f key]
  by (auto simp: mem_LookupUserByKey_def split: res.splits option.splits)

section \<open>Listings\<close>

lemma ListResources_window:
  assumes "mem_inv s" and "dhas (mem_namespaces s) n"
    and "0 \<le> lrp_Limit ps" and "0 \<le> lrp_Offset ps" and "lrp_Offset ps + lrp_Limit ps \<le> max_int"
  shows "\<exists>all. sorted_wrt (\<lambda>a b. rr_PID a < rr_PID b) all \<and>
    set all = {r. (\<exists>p. res_at s n p r) \<and> \<not> nonnil (lrp_Tag ps) (\<lambda>t. t \<notin> set (rr_Tags r)) \<and>
                  \<not> nonnil (lrp_Deleted ps) (\<lambda>b. rr_Deleted r \<noteq> b)} \<and>
    mem_ListResources n ps s = Ok \<lparr>pg_Total = int (length all), pg_Offset = lrp_Offset ps,
      pg_Items = page_window all (lrp_Limit ps) (lrp_Offset ps)\<rparr>"
proof -
  let ?sel = "\<lambda>(_ :: string, r). if nonnil (lrp_Tag ps) (\<lambda>t. t \<notin> set (rr_Tags r)) then None
     else if nonnil (lrp_Deleted ps) (\<lambda>b. rr_Deleted r \<noteq> b) then None else Some r"
  from inv_byPID [OF assms(1,2)] obtain b where b: "inner (mem_resources s) n = b" "wf_dict b"
    "\<And>p r. dget b p = Some r \<Longrightarrow> rr_PID r = p" by metis
  let ?all = "listing rr_PID ?sel b"
  have "sorted_wrt (\<lambda>a b. rr_PID a < rr_PID b) ?all"
    by (rule strict_sorted_listing [OF b(2)]) (auto dest!: b(3) split: if_splits)
  moreover have "set ?all = {r. (\<exists>p. res_at s n p r) \<and> \<not> nonnil (lrp_Tag ps) (\<lambda>t. t \<notin> set (rr_Tags r)) \<and>
                  \<not> nonnil (lrp_Deleted ps) (\<lambda>b. rr_Deleted r \<noteq> b)}"
    using assms(2) by (auto simp: set_listing [OF b(2)] res_at_iff b(1) split: if_splits)
  moreover have "mem_ListResources n ps s = Ok \<lparr>pg_Total = int (length ?all), pg_Offset = lrp_Offset ps,
      pg_Items = page_window ?all (lrp_Limit ps) (lrp_Offset ps)\<rparr>"
    using assms(2) paginate_window [OF assms(3-5), of ?all] by (simp add: mem_ListResources_def b(1))
  ultimately show ?thesis by blast
qed

section \<open>A concrete state\<close>

text \<open>Two namespaces, one resource, one user: the state the witnesses use.\<close>

definition demo_req :: NamespaceCreateRequest where
  "demo_req = \<lparr>ncr_Tags = [''t''], ncr_PIDFormat = \<lparr>fmt_Pattern = ''**'', fmt_Characters = ''hex''\<rparr>\<rparr>"

definition demo_res :: ResourceCreateRequest where
  "demo_res = \<lparr>rcr_URL = Some ''http://x/'', rcr_Metadata = None, rcr_Tags = [''t'']\<rparr>"

definition demo0 :: memory where
  "demo0 = snd (mem_CreateUser \<lparr>ucr_Username = ''alice'', ucr_Superuser = False\<rparr> 0 NewMemoryBackend)"

definition demo1 :: memory where
  "demo1 = snd (mem_CreateNamespace ''b'' demo_req None 0
     (snd (mem_CreateNamespace ''a'' demo_req (Some ''alice'') 0 demo0)))"

definition demo2 :: memory where
  "demo2 = snd (mem_CreateResource ''a'' ''00'' demo_res 0 demo1)"

lemma demo1_eq:
  "demo1 = \<lparr>mem_users = [(''alice'', \<lparr>ur_superuser = False, ur_passwordHash = [], ur_keys = []\<rparr>)],
     mem_namespaces =
       [(''a'', \<lparr>nr_ID = ''a'', nr_Tags = [''t''], nr_PIDFormat = \<lparr>fmt_Pattern = ''**'', fmt_Characters = ''hex''\<rparr>,
          nr_DateCreated = 0, nr_DateUpdated = 0\<rparr>),
        (''b'', \<lparr>nr_ID = ''b'', nr_Tags = [''t''], nr_PIDFormat = \<lparr>fmt_Pattern = ''**'', fmt_Characters = ''hex''\<rparr>,
          nr_DateCreated = 0, nr_DateUpdated = 0\<rparr>)],
     mem_resources = [(''a'', []), (''b'', [])], mem_roles = [(''a'', [(''alice'', RoleManager)])],
     mem_mounts = [], mem_mountGrants = []\<rparr>"
  by (simp add: demo1_def demo0_def NewMemoryBackend_def mem_CreateUser_def mem_CreateNamespace_def
      Let_def dhas_def dget_def dset_def inner_def demo_req_def)

lemma demo2_eq:
  "demo2 = demo1\<lparr>mem_resources :=
     [(''a'', [(''00'', new_resource ''00'' demo_res (rfc3339 0))]), (''b'', [])]\<rparr>"
  unfolding demo2_def
  by (simp add: demo1_eq mem_CreateResource_def Let_def dhas_def dget_def dset_def inner_def)

lemma demo_reachable: "reachable demo0" "reachable demo1" "reachable demo2"
proof -
  show 0: "reachable demo0"
    unfolding demo0_def by (rule reach_step [OF reach_init step_CreateUser])
  show 1: "reachable demo1"
    unfolding demo1_def by (intro reach_step [OF reach_step [OF 0 step_CreateNamespace] step_CreateNamespace])
  show "reachable demo2"
    unfolding demo2_def by (rule reach_step [OF 1 step_CreateResource])
qed

section \<open>Properties\<close>

text \<open>
  C3. The representation invariant of the in-memory backend. After any sequence of operations with any
  arguments, in any interleaving: every namespace has a resource map and no other has, stored records carry the
  identifier they are filed under, mounts and roles refer to existing namespaces and grants to existing users, no
  empty role or grant map is kept, no stored role is \<open>none\<close>, and no two API keys share prefix and digest.
\<close>

theorem memory_invariant:
  assumes "reachable s"
  shows "mem_inv s"
  using assms by (rule reachable_inv)

theorem memory_invariant_witness: "mem_inv demo2"
  by (rule memory_invariant [OF demo_reachable(3)])

text \<open>
  Persistence of identifiers. Once a PID resolves in a namespace, it resolves after every sequence
  of backend operations (deletion only marks it), with the same PID and creation date.
\<close>

lemma pid_persistent:
  assumes "mem_GetResource n p s = Ok r" and "mem_step\<^sup>*\<^sup>* s s'"
  shows "\<exists>r'. mem_GetResource n p s' = Ok r' \<and> rr_PID r' = rr_PID r \<and> rr_DateCreated r' = rr_DateCreated r"
  using res_at_steps [OF assms(2)] assms(1) unfolding res_at_def by blast

text \<open>
  No write to a nil map. In every reachable state, creating one resource or a batch never panics; it
  returns the new records or an error.
\<close>

lemma create_no_panic:
  assumes "reachable s"
  shows "fst (mem_CreateResource n pid req now s) \<noteq> Panic \<and>
    fst (mem_BatchCreateResources n pids reqs now s) \<noteq> Panic"
proof (cases "dhas (mem_namespaces s) n")
  case True
  with inv_byPID [OF reachable_inv [OF assms]] obtain b where "dget (mem_resources s) n = Some b" by metis
  then show ?thesis
    by (simp add: mem_CreateResource_def mem_BatchCreateResources_def Let_def case_prod_beta)
qed (simp add: mem_CreateResource_def mem_BatchCreateResources_def)

text \<open>
  Batches are all or nothing. If a batch fails, the state is unchanged. If it succeeds, there is one
  record per request, in order, each under its own fresh PID, every PID of the batch now
  resolves to its record, and everything else resolves as before.
\<close>

lemma batch_atomic:
  assumes "mem_inv s" and "mem_BatchCreateResources n pids reqs now s = (r, s')"
  shows "(\<forall>e. r = Err e \<longrightarrow> s' = s) \<and>
    (\<forall>out. r = Ok out \<longrightarrow> distinct pids \<and> length pids = length reqs \<and>
       out = map (\<lambda>(pid, req). new_resource pid req (rfc3339 now)) (zip pids reqs) \<and>
       (\<forall>m p. mem_GetResource m p s' =
          (case map_of (zip pids reqs) p of
             Some req \<Rightarrow> if m = n then Ok (new_resource p req (rfc3339 now)) else mem_GetResource m p s
           | None \<Rightarrow> mem_GetResource m p s)) \<and>
       (\<forall>p \<in> set pids. mem_GetResource n p s = Err (Sentinel ErrResourceNotFound)))"
proof (intro conjI allI impI)
  show "s' = s" if "r = Err e" for e
    using assms(2) that
    by (auto simp: mem_BatchCreateResources_def case_prod_beta split: if_splits option.splits)
  fix out assume ok: "r = Ok out"
  with assms(2) have n: "dhas (mem_namespaces s) n"
    by (auto simp: mem_BatchCreateResources_def split: if_splits)
  from inv_byPID [OF assms(1) n] obtain b where b: "dget (mem_resources s) n = Some b"
    "inner (mem_resources s) n = b" by metis
  from ok assms(2) n b have c: "distinct pids" "length pids = length reqs" "\<forall>p \<in> set pids. \<not> dhas b p"
    and out: "out = snd (batch_insert (rfc3339 now) (zip pids reqs) b [])"
    and s': "s' = s\<lparr>mem_resources :=
      dset n (fst (batch_insert (rfc3339 now) (zip pids reqs) b [])) (mem_resources s)\<rparr>"
    by (auto simp: mem_BatchCreateResources_def batch_check_iff case_prod_beta split: if_splits)
  show "distinct pids" "length pids = length reqs" by (rule c)+
  show "out = map (\<lambda>(pid, req). new_resource pid req (rfc3339 now)) (zip pids reqs)"
    by (simp add: out batch_insert_out)
  show "mem_GetResource m p s' =
      (case map_of (zip pids reqs) p of
         Some req \<Rightarrow> if m = n then Ok (new_resource p req (rfc3339 now)) else mem_GetResource m p s
       | None \<Rightarrow> mem_GetResource m p s)" for m p
    using c n b by (auto simp: mem_GetResource_def s' inner_dset batch_insert_get
        dest: set_zip_leftD split: option.splits)
  show "\<forall>p \<in> set pids. mem_GetResource n p s = Err (Sentinel ErrResourceNotFound)"
    using c(3) n b by (auto simp: mem_GetResource_def dhas_def split: option.splits)
qed

lemma CreateKey_at:
  assumes "mem_CreateKey cr f u kid key req now s = (Ok info, s1)"
  obtains h where "Key_Hash (cr_sha256 cr) f key = Ok h"
    "\<And>r. \<not> key_at (mem_users s) u kid r"
    "\<And>v k r. key_at (mem_users s1) v k r \<longleftrightarrow>
      (if v = u \<and> k = kid then r = \<lparr>kr_info = info, kr_prefix = st_Prefix h, kr_digest = st_Digest h\<rparr>
       else key_at (mem_users s) v k r)"
proof -
  from assms obtain user h where u: "dget (mem_users s) u = Some user"
    and h: "Key_Hash (cr_sha256 cr) f key = Ok h" and new: "\<not> dhas (ur_keys user) kid"
    and s1: "s1 = s\<lparr>mem_users := dset u (user\<lparr>ur_keys := dset kid
      \<lparr>kr_info = info, kr_prefix = st_Prefix h, kr_digest = st_Digest h\<rparr> (ur_keys user)\<rparr>) (mem_users s)\<rparr>"
    by (auto simp: mem_CreateKey_def Let_def split: option.splits res.splits if_splits)
  show ?thesis
  proof (rule that [OF h])
    show "\<not> key_at (mem_users s) u kid r" for r
      using u new by (auto simp: key_at_def dhas_def)
    show "key_at (mem_users s1) v k r \<longleftrightarrow>
      (if v = u \<and> k = kid then r = \<lparr>kr_info = info, kr_prefix = st_Prefix h, kr_digest = st_Digest h\<rparr>
       else key_at (mem_users s) v k r)" for v k r
      using u by (auto simp: s1 key_at_def dict_simps split: if_splits)
  qed
qed

lemma lookup_created:
  assumes "mem_inv s" and "mem_CreateKey cr f u kid key req now s = (Ok info, s1)"
  shows "mem_LookupUserByKey cr f key s1 = Ok (u, info)"
proof -
  have ok: "users_ok (mem_users s1)"
    using inv_CreateKey [OF assms(1)] assms(2) by (metis mem_inv_def snd_conv)
  from CreateKey_at [OF assms(2)] obtain h where "Key_Hash (cr_sha256 cr) f key = Ok h"
    "key_at (mem_users s1) u kid \<lparr>kr_info = info, kr_prefix = st_Prefix h, kr_digest = st_Digest h\<rparr>" by metis
  then show ?thesis unfolding LookupUserByKey_Ok [OF ok] by force
qed

lemma RevokeKey_at:
  assumes "key_at (mem_users s) u kid r0" and "mem_RevokeKey f u kid s = (r, s')"
  shows "r = Ok ()"
    and "key_at (mem_users s') v k r' \<longleftrightarrow> \<not> (v = u \<and> k = kid) \<and> key_at (mem_users s) v k r'"
  using assms by (auto simp: mem_RevokeKey_def key_at_def dict_simps dhas_def split: if_splits)

lemma lookup_missing:
  assumes "users_ok (mem_users s)" and "Key_Hash (cr_sha256 cr) f key = Ok h"
    and "\<And>v k r. key_at (mem_users s) v k r \<Longrightarrow> \<not> (kr_prefix r = st_Prefix h \<and> kr_digest r = st_Digest h)"
  shows "\<exists>e. mem_LookupUserByKey cr f key s = Err e \<and> errors_is e ErrInvalidKey"
proof -
  have "mem_LookupUserByKey cr f key s \<noteq> Ok (v, i)" for v i
    using assms(2,3) unfolding LookupUserByKey_Ok [OF assms(1)] by fastforce
  then show ?thesis
    using LookupUserByKey_Err [of cr f key s] by (cases "mem_LookupUserByKey cr f key s") auto
qed

text \<open>
  The life of an API key. After a key was created for a user, presenting it identifies that user and that
  key, whatever order the maps are visited in. After it was revoked, presenting it is refused
  as an invalid key, and no other key stops working.
\<close>

lemma key_lifecycle:
  assumes "mem_inv s" and "mem_CreateKey cr f u kid key req now s = (Ok info, s1)"
    and "mem_RevokeKey f u kid s1 = (r, s2)"
  shows "mem_LookupUserByKey cr f key s1 = Ok (u, info) \<and> r = Ok () \<and>
    (\<exists>e. mem_LookupUserByKey cr f key s2 = Err e \<and> errors_is e ErrInvalidKey) \<and>
    (\<forall>key' v info'. mem_LookupUserByKey cr f key' s = Ok (v, info') \<longrightarrow>
       mem_LookupUserByKey cr f key' s2 = Ok (v, info'))"
proof -
  have inv1: "mem_inv s1" using inv_CreateKey [OF assms(1)] assms(2) by (metis snd_conv)
  have inv2: "mem_inv s2" using inv_RevokeKey [OF inv1] assms(3) by (metis snd_conv)
  have ok: "users_ok (mem_users s)" "users_ok (mem_users s1)" "users_ok (mem_users s2)"
    using assms(1) inv1 inv2 by (simp_all add: mem_inv_def)
  from CreateKey_at [OF assms(2)] obtain h where h: "Key_Hash (cr_sha256 cr) f key = Ok h"
    and new: "\<And>r. \<not> key_at (mem_users s) u kid r"
    and at1: "\<And>v k r. key_at (mem_users s1) v k r \<longleftrightarrow>
      (if v = u \<and> k = kid then r = \<lparr>kr_info = info, kr_prefix = st_Prefix h, kr_digest = st_Digest h\<rparr>
       else key_at (mem_users s) v k r)" by metis
  let ?r0 = "\<lparr>kr_info = info, kr_prefix = st_Prefix h, kr_digest = st_Digest h\<rparr>"
  have at0: "key_at (mem_users s1) u kid ?r0" by (simp add: at1)
  note rev = RevokeKey_at [OF at0 assms(3)]
  have "mem_LookupUserByKey cr f key s1 = Ok (u, info)"
    by (rule lookup_created [OF assms(1,2)])
  moreover have "\<exists>e. mem_LookupUserByKey cr f key s2 = Err e \<and> errors_is e ErrInvalidKey"
  proof (rule lookup_missing [OF ok(3) h])
    fix v k r' assume "key_at (mem_users s2) v k r'"
    then have "key_at (mem_users s1) v k r'" "\<not> (v = u \<and> k = kid)" by (simp_all add: rev(2))
    then show "\<not> (kr_prefix r' = st_Prefix h \<and> kr_digest r' = st_Digest h)"
      using ok(2) at0 unfolding users_ok_def by (metis keyRecord.select_convs(2,3))
  qed
  moreover have "mem_LookupUserByKey cr f key' s2 = Ok (v, i)"
    if "mem_LookupUserByKey cr f key' s = Ok (v, i)" for key' v i
    using that new unfolding LookupUserByKey_Ok [OF ok(1)] LookupUserByKey_Ok [OF ok(3)] rev(2) at1
    by metis
  ultimately show ?thesis using rev(1) by blast
qed

lemma inner_sweep_user:
  assumes "wf_dict roles" and "v \<noteq> u"
  shows "dget (inner (dsweep (\<lambda>n byUser. let byUser = ddel u byUser in if byUser = [] then None else Some byUser) roles) n) v =
    dget (inner roles n) v"
proof (cases "dget roles n")
  case (Some b)
  have "dget b v = dget (ddel u b) v" using assms(2) by (simp add: dict_simps)
  with Some assms(1) show ?thesis by (cases "ddel u b = []") (simp_all add: inner_def dict_simps Let_def)
qed (use assms(1) in \<open>simp add: inner_def dict_simps\<close>)

text \<open>
  C29. Deleting a user removes everything of the user and nothing else. Afterwards the account, its keys and its grants are gone, and
  an account that is created again under the same name starts without any role, grant or key. The namespaces, resources and mounts are as before, and so are
  the account (with its password and its keys), the grants and the roles of every other user.
\<close>

theorem delete_user_complete:
  assumes "mem_inv s" and "mem_DeleteUser u s = (Ok (), s1)" and "mem_CreateUser req now s1 = (r, s2)"
    and "ucr_Username req = u" and "0 \<le> limit" and "limit \<le> max_int"
  shows "mem_GetUser u s1 = Err (Sentinel ErrUserNotFound) \<and>
    (\<forall>cr f key info. mem_LookupUserByKey cr f key s1 \<noteq> Ok (u, info)) \<and>
    mem_namespaces s1 = mem_namespaces s \<and> mem_resources s1 = mem_resources s \<and> mem_mounts s1 = mem_mounts s \<and>
    (\<forall>v. v \<noteq> u \<longrightarrow> dget (mem_users s1) v = dget (mem_users s) v \<and> dget (mem_mountGrants s1) v = dget (mem_mountGrants s) v \<and>
       (\<forall>n. dget (inner (mem_roles s1) n) v = dget (inner (mem_roles s) n) v)) \<and>
    (\<forall>n role. mem_GetNamespaceRole n u s2 = Ok role \<longrightarrow> role = RoleNone) \<and>
    mem_ListUserMountGrants u limit 0 s2 = Ok \<lparr>pg_Total = 0, pg_Offset = 0, pg_Items = []\<rparr> \<and>
    mem_ListKeys f (Some u) limit 0 s2 = Ok \<lparr>pg_Total = 0, pg_Offset = 0, pg_Items = []\<rparr>"
proof -
  have wf: "wf_dict (mem_roles s)" using assms(1) by (simp add: mem_inv_def roles_ok_def)
  have s1: "s1 = snd (mem_DeleteUser u s)" "dhas (mem_users s) u"
    using assms(2) by (auto simp: mem_DeleteUser_def split: if_splits)
  have others: "mem_namespaces s1 = mem_namespaces s" "mem_resources s1 = mem_resources s" "mem_mounts s1 = mem_mounts s"
    "v \<noteq> u \<Longrightarrow> dget (mem_users s1) v = dget (mem_users s) v" "v \<noteq> u \<Longrightarrow> dget (mem_mountGrants s1) v = dget (mem_mountGrants s) v" for v
    using s1 by (simp_all add: mem_DeleteUser_def dict_simps)
  have other_roles: "dget (inner (mem_roles s1) n) v = dget (inner (mem_roles s) n) v" if "v \<noteq> u" for n v
    using that s1 by (simp add: mem_DeleteUser_def inner_sweep_user [OF wf])
  have gone: "dget (mem_users s1) u = None" "dget (mem_mountGrants s1) u = None"
    using s1 by (simp_all add: mem_DeleteUser_def dict_simps)
  have role: "dget b u = None" if "dget (mem_roles s1) n = Some b" for n b
    using that s1 wf by (auto simp: mem_DeleteUser_def dict_simps Let_def bind_eq_Some_conv split: if_splits)
  have s2: "s2 = s1\<lparr>mem_users := dset u \<lparr>ur_superuser = ucr_Superuser req, ur_passwordHash = [], ur_keys = []\<rparr> (mem_users s1)\<rparr>"
    using assms(3,4) gone by (auto simp: mem_CreateUser_def Let_def dhas_def)
  have ok: "users_ok (mem_users s1)"
    using inv_DeleteUser [OF assms(1)] s1(1) by (simp add: mem_inv_def)
  have "mem_LookupUserByKey cr f' key s1 \<noteq> Ok (u, info)" for cr f' key info
    unfolding LookupUserByKey_Ok [OF ok] using gone(1) by (simp add: key_at_def)
  moreover have "role = RoleNone" if "mem_GetNamespaceRole n u s2 = Ok role" for n role
    using that by (auto simp: mem_GetNamespaceRole_def s2 dest: role split: if_splits option.splits)
  ultimately show ?thesis
    using gone others other_roles
    by (auto simp: mem_GetUser_def mem_ListUserMountGrants_def mem_ListKeys_def s2 dict_simps inner_def
        listing_def List.map_filter_def paginate_def)
qed

theorem delete_user_complete_witness:
  "mem_GetNamespaceRole ''a'' ''alice'' (snd (mem_CreateUser \<lparr>ucr_Username = ''alice'', ucr_Superuser = False\<rparr> 0
     (snd (mem_DeleteUser ''alice'' demo1)))) = Ok RoleNone"
proof -
  let ?s1 = "snd (mem_DeleteUser ''alice'' demo1)"
  let ?req = "\<lparr>ucr_Username = ''alice'', ucr_Superuser = False\<rparr>"
  have d: "mem_DeleteUser ''alice'' demo1 = (Ok (), ?s1)"
    by (simp add: mem_DeleteUser_def demo1_eq dhas_def dget_def)
  have c: "mem_CreateUser ?req 0 ?s1 = (fst (mem_CreateUser ?req 0 ?s1), snd (mem_CreateUser ?req 0 ?s1))"
    by simp
  have "\<exists>role. mem_GetNamespaceRole ''a'' ''alice'' (snd (mem_CreateUser ?req 0 ?s1)) = Ok role"
    by (auto simp: mem_GetNamespaceRole_def same_store demo1_eq dhas_def dget_def split: option.splits)
  then show ?thesis
    using delete_user_complete [OF reachable_inv [OF demo_reachable(2)] d c, of 1 key_Default]
    by (auto simp: max_int_def)
qed

text \<open>
  The resource counter is exact: it is the number of (namespace, PID) pairs that resolve, and no
  operation makes it smaller.
\<close>

lemma count_exact:
  assumes "reachable s" and "mem_step s s'"
  shows "mem_CountAllResources s = Ok (int (card {(n, p). \<exists>r. mem_GetResource n p s = Ok r})) \<and>
    (\<exists>k k'. mem_CountAllResources s = Ok k \<and> mem_CountAllResources s' = Ok k' \<and> k \<le> k')"
proof -
  let ?C = "\<lambda>s. {(n, p). \<exists>r. res_at s n p r}"
  have inv: "mem_inv s" "mem_inv s'"
    using assms reachable_inv mem_step_inv by blast+
  have "?C s \<subseteq> ?C s'" using res_at_step [OF assms(2)] by blast
  moreover have "finite (?C s')"
  proof (rule finite_subset)
    show "?C s' \<subseteq> (SIGMA n : fst ` set (mem_namespaces s'). fst ` set (inner (mem_resources s') n))"
      by (auto simp: res_at_iff dhas_def dget_def map_of_eq_None_iff dest!: map_of_SomeD intro: rev_image_eqI)
  qed simp
  ultimately have "card (?C s) \<le> card (?C s')" by (simp add: card_mono)
  then show ?thesis
    using CountAllResources_card [OF inv(1)] CountAllResources_card [OF inv(2)]
    by (simp add: res_at_def)
qed

text \<open>
  Listing resources. In a reachable state, for a limit and an offset whose sum fits in a machine
  integer, \<open>ListResources\<close> returns the requested window of one list: all resources of the namespace that
  match the filters, each once, in strictly increasing order of PID. The list is determined by the stored
  records, not by the order in which the map is visited.
\<close>

lemma list_resources_spec:
  assumes "reachable s" and "mem_GetNamespace n s = Ok ns"
    and "0 \<le> lrp_Limit ps" and "0 \<le> lrp_Offset ps" and "lrp_Offset ps + lrp_Limit ps \<le> max_int"
  shows "\<exists>all. sorted_wrt (\<lambda>a b. rr_PID a < rr_PID b) all \<and>
    set all = {r. (\<exists>p. mem_GetResource n p s = Ok r) \<and> \<not> nonnil (lrp_Tag ps) (\<lambda>t. t \<notin> set (rr_Tags r)) \<and>
                  \<not> nonnil (lrp_Deleted ps) (\<lambda>b. rr_Deleted r \<noteq> b)} \<and>
    mem_ListResources n ps s = Ok \<lparr>pg_Total = int (length all), pg_Offset = lrp_Offset ps,
      pg_Items = page_window all (lrp_Limit ps) (lrp_Offset ps)\<rparr>"
proof -
  have "dhas (mem_namespaces s) n"
    using assms(2) by (auto simp: mem_GetNamespace_def dhas_def split: option.splits)
  from ListResources_window [OF reachable_inv [OF assms(1)] this assms(3-5)] show ?thesis
    by (simp add: res_at_def)
qed

section \<open>Deviations\<close>

text \<open>
  An extreme page limit crashes a listing. With at least two namespaces stored, a request for the page at offset 1
  with the largest machine integer as limit makes \<open>offset + limit\<close> wrap around, and the slice
  expression panics instead of returning the rest of the list. The HTTP layer forwards
  such a limit when no maximal page size is configured.
\<close>

lemma list_namespaces_overflow:
  assumes "2 \<le> length (mem_namespaces s)"
  shows "mem_ListNamespaces \<lparr>lnp_Tag = None, lnp_Limit = max_int, lnp_Offset = 1\<rparr> s = Panic"
proof -
  have "filter (\<lambda>e. (case e of (_ :: string, ns) \<Rightarrow> Some ns) \<noteq> None) (mem_namespaces s) = mem_namespaces s"
    by (rule filter_True) auto
  then have "length (listing nr_ID (\<lambda>(_, ns). Some ns) (mem_namespaces s)) = length (mem_namespaces s)"
    by (simp add: length_listing)
  then show ?thesis
    using assms by (simp add: mem_ListNamespaces_def) (rule paginate_overflow; simp add: max_int_def)
qed

text \<open>
  Roles for users that do not exist. The interface says that setting a role reports an unknown user; the in-memory backend
  does not look the user up. The role is stored, and a user who is created later under that name holds it.
\<close>

lemma role_for_unknown_user:
  assumes "mem_GetUser u s = Err (Sentinel ErrUserNotFound)" and "mem_GetNamespace n s = Ok ns"
    and "Role_Validate role = None" and "role \<noteq> RoleNone" and "ucr_Username req = u"
  shows "fst (mem_SetNamespaceRole n u role s) = Ok () \<and>
    mem_GetNamespaceRole n u (snd (mem_CreateUser req now (snd (mem_SetNamespaceRole n u role s)))) = Ok role"
  using assms
  by (auto simp: mem_SetNamespaceRole_def mem_GetNamespaceRole_def mem_CreateUser_def Let_def
      mem_GetNamespace_def dhas_def dict_simps split: option.splits)

end
