(* ===== verification/Service_Props.thy ===== *)
theory Service_Props
  imports Service_Users Memory_Props
begin

text \<open>
  Correctness of the service over a backend that keeps the contracts stated here as locales, and
  the interpretation of each contract on the in-memory backend: allocation of identifiers.
\<close>

section \<open>Error translation\<close>

lemma translate_code:
  "GetErrorCode (translate table e) \<in> Some ` insert DatabaseError (snd ` set table)"
  by (force simp: translate_def dest!: find_SomeD split: option.splits)

lemma reply_simps [simp]:
  "reply t (Ok x) = Ok x" "reply t (Err e) = Err (translate t e)" "reply t Panic = Panic"
  by (simp_all add: reply_def)

lemma fmap_res_simps [simp]:
  "fmap_res f (Ok x) = Ok (f x)" "fmap_res f (Err e) = Err e" "fmap_res f Panic = Panic"
  by (simp_all add: fmap_res_def)

lemma fmap_res_Ok [simp]: "fmap_res f r = Ok y \<longleftrightarrow> (\<exists>x. r = Ok x \<and> y = f x)"
  by (cases r) auto

lemma reply_Ok [simp]: "reply t r = Ok x \<longleftrightarrow> r = Ok x"
  by (cases r) auto

section \<open>Allocation of identifiers\<close>

lemma candidate_loop_ok:
  "candidate_loop gen tot k seen st = (Ok (Some p), seen', st') \<Longrightarrow>
     p \<notin> set seen \<and> seen' = p # seen \<and> id_match p"
  by (induction gen tot k seen st rule: candidate_loop.induct)
    (auto split: prod.splits res.splits if_splits)

lemma slots_loop_ok:
  "slots_loop gen f m n pids seen tot st = (Ok out, tot', st') \<Longrightarrow> distinct pids \<Longrightarrow> set pids \<subseteq> set seen \<Longrightarrow>
     (\<forall>p \<in> set pids. IsValid f p \<and> id_match p) \<Longrightarrow>
     length out = length pids + n \<and> distinct out \<and> (\<forall>p \<in> set out. IsValid f p \<and> id_match p)"
proof (induction n arbitrary: pids seen tot st)
  case (Suc n)
  from Suc.prems(1) obtain p seen' st1 where
    c: "candidate_loop gen tot m seen st = (Ok (Some p), seen', st1)" and v: "IsValid f p"
    and rest: "slots_loop gen f m n (pids @ [p]) seen' (map_option (\<lambda>t. t + 1) tot) st1 = (Ok out, tot', st')"
    by (auto split: prod.splits res.splits option.splits if_splits)
  note cand = candidate_loop_ok [OF c]
  from Suc.IH [OF rest] cand v Suc.prems(2-4) show ?case by auto
qed simp

lemma allocate_loop_ok:
  assumes "\<And>now pids e s'. ins now pids s = (Err e, s') \<Longrightarrow> s' = s"
    and "allocate_loop gen f m n ins clock k tot st s = (Ok out, s')"
  shows "\<exists>now pids. ins now pids s = (Ok out, s') \<and> length pids = n \<and> distinct pids \<and>
    (\<forall>p \<in> set pids. IsValid f p \<and> id_match p)"
  using assms(2)
proof (induction k arbitrary: tot st)
  case (Suc k)
  from Suc.prems obtain pids tot' st' where
    sl: "slots_loop gen f m n [] [] tot st = (Ok pids, tot', st')"
    by (auto split: prod.splits res.splits if_splits)
  note props = slots_loop_ok [OF sl]
  show ?case
  proof (cases "ins (clock k) pids s")
    case (Pair r s1)
    show ?thesis
    proof (cases r)
      case (Ok out')
      then show ?thesis using Suc.prems sl Pair props by auto
    next
      case (Err e)
      with Pair assms(1) have "s1 = s" by blast
      then show ?thesis
        using Suc.IH Suc.prems sl Pair Err by (auto split: if_splits)
    next
      case Panic
      then show ?thesis using Suc.prems sl Pair by simp
    qed
  qed
qed simp

lemma allocate_loop_err:
  assumes "\<And>now pids e s'. ins now pids s = (Err e, s') \<Longrightarrow> s' = s"
    and "allocate_loop gen f m n ins clock k tot st s = (Err e, s')"
  shows "s' = s"
  using assms(2)
proof (induction k arbitrary: tot st)
  case (Suc k)
  then show ?case
    using assms(1) by (auto split: prod.splits res.splits if_splits) blast+
qed simp

text \<open>
  The contract of resource storage: a creation that succeeds files the new record under a PID that was
  free, one that fails changes nothing.
\<close>

locale resource_store =
  fixes be :: "'s Backend" and inv :: "'s \<Rightarrow> bool"
  assumes create_ok: "\<And>n p req now s r s'. inv s \<Longrightarrow>
      be_CreateResource (Resources be) n p req now s = (Ok r, s') \<Longrightarrow>
      inv s' \<and> rr_PID r = p \<and> rr_URL r = rcr_URL req \<and> rr_Metadata r = rcr_Metadata req \<and>
      rr_Tags r = rcr_Tags req \<and> \<not> rr_Deleted r \<and> be_GetResource (Resources be) n p s' = Ok r \<and>
      (\<exists>e. be_GetResource (Resources be) n p s = Err e \<and> errors_is e ErrResourceNotFound)"
    and create_err: "\<And>n p req now s e s'. inv s \<Longrightarrow>
      be_CreateResource (Resources be) n p req now s = (Err e, s') \<Longrightarrow> s' = s"
    and batch_ok: "\<And>n ps reqs now s rs s'. inv s \<Longrightarrow>
      be_BatchCreateResources (Resources be) n ps reqs now s = (Ok rs, s') \<Longrightarrow>
      inv s' \<and> map rr_PID rs = ps \<and> map rr_URL rs = map rcr_URL reqs \<and>
      (\<forall>r \<in> set rs. be_GetResource (Resources be) n (rr_PID r) s' = Ok r) \<and>
      (\<forall>p \<in> set ps. \<exists>e. be_GetResource (Resources be) n p s = Err e \<and> errors_is e ErrResourceNotFound)"
    and batch_err: "\<And>n ps reqs now s e s'. inv s \<Longrightarrow>
      be_BatchCreateResources (Resources be) n ps reqs now s = (Err e, s') \<Longrightarrow> s' = s"
begin

lemma single_err:
  assumes "inv s"
    and "apfst (fmap_res (\<lambda>r. [r])) (be_CreateResource (Resources be) n (hd pids) req now s) = (Err e, s1)"
  shows "s1 = s"
  using assms create_err [OF assms(1)]
  by (auto simp: apfst_def map_prod_def fmap_res_def split: prod.splits res.splits)

lemma svc_create_fresh:
  assumes "sv_backend sv = be" and "inv s" and "svc_CreateResource sv n req clock s = (Ok r, s')"
  shows "inv s' \<and> rr_URL r = rcr_URL req \<and> \<not> rr_Deleted r \<and>
    be_GetResource (Resources be) n (rr_PID r) s' = Ok r \<and>
    (\<exists>e. be_GetResource (Resources be) n (rr_PID r) s = Err e \<and> errors_is e ErrResourceNotFound) \<and>
    (\<exists>ns. be_GetNamespace (Namespaces be) n s = Ok ns \<and> IsValid (nr_PIDFormat ns) (rr_PID r) \<and> id_match (rr_PID r))"
proof -
  let ?ins = "\<lambda>now pids s. apfst (fmap_res (\<lambda>r. [r])) (be_CreateResource (Resources be) n (hd pids) req now s)"
  from assms(1,3) obtain ns tot out where ns: "be_GetNamespace (Namespaces be) n s = Ok ns"
    and al: "allocatePIDs sv (nr_PIDFormat ns) tot 1 ?ins clock s = (Ok out, s')" and r: "r = hd out"
    by (auto simp: svc_CreateResource_def allocatePID_def apfst_def map_prod_def
        split: res.splits prod.splits)
  from al obtain gen m k where "allocate_loop gen (nr_PIDFormat ns) m 1 ?ins clock k tot PullIDs s = (Ok out, s')"
    by (auto simp: allocatePIDs_def Let_def)
  then have "\<exists>now pids. ?ins now pids s = (Ok out, s') \<and> length pids = 1 \<and> distinct pids \<and>
      (\<forall>p \<in> set pids. IsValid (nr_PIDFormat ns) p \<and> id_match p)"
    by (rule allocate_loop_ok [rotated]) (erule single_err [OF assms(2)])
  then obtain now pids where
    i: "?ins now pids s = (Ok out, s')" "length pids = 1" "\<forall>p \<in> set pids. IsValid (nr_PIDFormat ns) p \<and> id_match p"
    by blast
  then obtain p where p: "pids = [p]" by (cases pids) auto
  with i(1) r have "be_CreateResource (Resources be) n p req now s = (Ok r, s')"
    by (auto simp: apfst_def map_prod_def split: prod.splits)
  from create_ok [OF assms(2) this] i(3) p ns show ?thesis by auto
qed

lemma create_resource_fails:
  assumes "sv_backend sv = be" and "inv s" and "svc_CreateResource sv n req clock s = (Err e, s')"
  shows "s' = s"
proof -
  let ?ins = "\<lambda>now pids s. apfst (fmap_res (\<lambda>r. [r])) (be_CreateResource (Resources be) n (hd pids) req now s)"
  have "s1 = s" if "allocate_loop gen f m k ?ins clock j tot PullIDs s = (Err e1, s1)" for gen f m k j tot e1 s1
    using that by (rule allocate_loop_err [rotated]) (erule single_err [OF assms(2)])
  then show ?thesis
    using assms(1,3)
    by (auto simp: svc_CreateResource_def allocatePID_def allocatePIDs_def Let_def apfst_def
        map_prod_def fmap_res_def split: res.splits prod.splits if_splits)
qed

lemma svc_batch_fresh:
  assumes "sv_backend sv = be" and "inv s" and "svc_BatchCreateResources sv n reqs clock s = (Ok rs, s')"
    and "reqs \<noteq> []"
  shows "inv s' \<and> length rs = length reqs \<and> distinct (map rr_PID rs) \<and> map rr_URL rs = map rcr_URL reqs \<and>
    (\<forall>r \<in> set rs. be_GetResource (Resources be) n (rr_PID r) s' = Ok r \<and>
       (\<exists>e. be_GetResource (Resources be) n (rr_PID r) s = Err e \<and> errors_is e ErrResourceNotFound)) \<and>
    (\<exists>ns. be_GetNamespace (Namespaces be) n s = Ok ns \<and> (\<forall>r \<in> set rs. IsValid (nr_PIDFormat ns) (rr_PID r)))"
proof -
  let ?ins = "\<lambda>now pids. be_BatchCreateResources (Resources be) n pids reqs now"
  from assms(1,3,4) obtain ns tot gen m k where ns: "be_GetNamespace (Namespaces be) n s = Ok ns"
    and al: "allocate_loop gen (nr_PIDFormat ns) m (length reqs) ?ins clock k tot PullIDs s = (Ok rs, s')"
    by (auto simp: svc_BatchCreateResources_def allocatePIDs_def Let_def split: if_splits res.splits)
  from allocate_loop_ok [OF _ al] batch_err [OF assms(2)] obtain now pids where
    i: "?ins now pids s = (Ok rs, s')" "length pids = length reqs" "distinct pids"
    "\<forall>p \<in> set pids. IsValid (nr_PIDFormat ns) p \<and> id_match p"
    by blast
  from batch_ok [OF assms(2) i(1)] have b: "inv s'" "map rr_PID rs = pids" "map rr_URL rs = map rcr_URL reqs"
    "\<forall>r \<in> set rs. be_GetResource (Resources be) n (rr_PID r) s' = Ok r"
    "\<forall>p \<in> set pids. \<exists>e. be_GetResource (Resources be) n p s = Err e \<and> errors_is e ErrResourceNotFound"
    by auto
  then have "rr_PID r \<in> set pids" if "r \<in> set rs" for r using that by auto
  with b i ns show ?thesis by (metis length_map)
qed

end

section \<open>The in-memory backend keeps the contract\<close>

lemma backend_simps [simp]:
  "Users (memory_backend cr) = \<lparr>be_CreateUser = mem_CreateUser, be_GetUser = mem_GetUser, be_ListUsers = mem_ListUsers,
        be_AutocompleteUsers = mem_AutocompleteUsers, be_DeleteUser = mem_DeleteUser, be_UpdateUser = mem_UpdateUser\<rparr>"
  "Creds (memory_backend cr) = \<lparr>be_SetPassword = mem_SetPassword cr, be_CheckPassword = mem_CheckPassword cr,
        be_CreateKey = mem_CreateKey cr, be_ListKeys = mem_ListKeys, be_RevokeKey = mem_RevokeKey,
        be_LookupUserByKey = mem_LookupUserByKey cr\<rparr>"
  "Namespaces (memory_backend cr) = \<lparr>be_ListNamespaces = mem_ListNamespaces, be_CreateNamespace = mem_CreateNamespace,
        be_GetNamespace = mem_GetNamespace, be_UpdateNamespace = mem_UpdateNamespace\<rparr>"
  "Resources (memory_backend cr) = \<lparr>be_ListResources = mem_ListResources, be_CountAllResources = mem_CountAllResources,
        be_GetResource = mem_GetResource, be_CreateResource = mem_CreateResource,
        be_BatchCreateResources = mem_BatchCreateResources, be_UpdateResource = mem_UpdateResource\<rparr>"
  "Roles (memory_backend cr) = \<lparr>be_GetNamespaceRole = mem_GetNamespaceRole, be_SetNamespaceRole = mem_SetNamespaceRole,
        be_DeleteNamespaceRole = mem_DeleteNamespaceRole, be_ListNamespaceRoles = mem_ListNamespaceRoles,
        be_ListUserRoles = mem_ListUserRoles\<rparr>"
  "Mounts (memory_backend cr) = \<lparr>be_GetMount = mem_GetMount, be_SetMount = mem_SetMount, be_DeleteMount = mem_DeleteMount,
        be_ListMounts = mem_ListMounts, be_ListNamespaceMounts = mem_ListNamespaceMounts\<rparr>"
  "MountGrants (memory_backend cr) = \<lparr>be_ListUserMountGrants = mem_ListUserMountGrants, be_SetMountGrant = mem_SetMountGrant,
        be_DeleteMountGrant = mem_DeleteMountGrant\<rparr>"
  by (simp_all add: memory_backend_def)

lemma mem_CreateResource_ok:
  assumes "mem_CreateResource n p req now s = (Ok r, s')"
  shows "r = new_resource p req (rfc3339 now) \<and> mem_GetResource n p s' = Ok r \<and>
    mem_GetResource n p s = Err (Sentinel ErrResourceNotFound)"
  using assms
  by (auto simp: mem_CreateResource_def mem_GetResource_def Let_def dhas_def inner_def dict_simps
      split: if_splits option.splits)

lemma mem_create_err:
  "mem_CreateResource n p req now s = (Err e, s') \<Longrightarrow> s' = s"
  "mem_BatchCreateResources n ps reqs now s = (Err e, s') \<Longrightarrow> s' = s"
  by (auto simp: mem_CreateResource_def mem_BatchCreateResources_def Let_def case_prod_beta
      split: if_splits option.splits)

lemma mem_BatchCreateResources_ok:
  assumes "mem_inv s" and "mem_BatchCreateResources n ps reqs now s = (Ok rs, s')"
  shows "map rr_PID rs = ps \<and> map rr_URL rs = map rcr_URL reqs \<and>
    (\<forall>r \<in> set rs. mem_GetResource n (rr_PID r) s' = Ok r) \<and>
    (\<forall>p \<in> set ps. mem_GetResource n p s = Err (Sentinel ErrResourceNotFound))"
proof -
  from assms(2) have n: "dhas (mem_namespaces s) n"
    by (auto simp: mem_BatchCreateResources_def split: if_splits)
  from inv_byPID [OF assms(1) n] obtain b where b: "dget (mem_resources s) n = Some b"
    "inner (mem_resources s) n = b" by metis
  let ?zs = "zip ps reqs"
  from assms(2) n b have c: "distinct ps" "length ps = length reqs" "\<forall>p \<in> set ps. \<not> dhas b p"
    and rs: "rs = map (\<lambda>(p, q). new_resource p q (rfc3339 now)) ?zs"
    and s': "s' = s\<lparr>mem_resources := dset n (fst (batch_insert (rfc3339 now) ?zs b [])) (mem_resources s)\<rparr>"
    using batch_insert_out [of "rfc3339 now" ?zs b "[]"]
    by (auto simp: mem_BatchCreateResources_def batch_check_iff case_prod_beta split: if_splits)
  have "map rr_PID rs = map fst ?zs" "map rr_URL rs = map (rcr_URL \<circ> snd) ?zs"
    by (auto simp: rs new_resource_def)
  then have "map rr_PID rs = ps" "map rr_URL rs = map rcr_URL reqs"
    using c(2) by (simp_all flip: map_map)
  moreover have "mem_GetResource n (rr_PID r) s' = Ok r" if "r \<in> set rs" for r
  proof -
    from that obtain p q where pq: "(p, q) \<in> set ?zs" "r = new_resource p q (rfc3339 now)"
      by (auto simp: rs)
    then have "map_of ?zs p = Some q" using c by (intro map_of_is_SomeI) simp_all
    then show ?thesis
      using pq n c by (simp add: mem_GetResource_def s' inner_dset batch_insert_get)
  qed
  ultimately show ?thesis
    using c(3) n b by (auto simp: mem_GetResource_def dhas_def split: option.splits)
qed

interpretation mem_res: resource_store "memory_backend cr" mem_inv for cr
proof (unfold_locales, goal_cases)
  case (1 n p req now s r s')
  from mem_CreateResource_ok [of n p req now s r s'] inv_CreateResource [OF 1(1), of n p req now] 1(2)
  show ?case by (simp add: new_resource_def)
next
  case (2 n p req now s e s') then show ?case by (simp add: mem_create_err(1))
next
  case (3 n ps reqs now s rs s')
  from mem_BatchCreateResources_ok [OF 3(1), of n ps reqs now rs s']
    inv_BatchCreateResources [OF 3(1), of n ps reqs now] 3(2)
  show ?case by simp
next
  case (4 n ps reqs now s e s') then show ?case by (simp add: mem_create_err(2))
qed

section \<open>A concrete service\<close>

definition demo_runtime :: Runtime where
  "demo_runtime = \<lparr>rt_NewNamespaceID = (\<lambda>_. list_generator [[''a'', ''c'']]),
     rt_NewAPIKeyID = (\<lambda>_. list_generator [[''k1'', ''k2'']]),
     rt_NewAPIKey = (\<lambda>_ _. list_generator [[''0123456789abcdef0123456789abcdef'']]),
     rt_NewPID = (\<lambda>_ _. list_generator [[''00'', ''0a'', ''0b'']])\<rparr>"

definition demo_crypto :: crypto where
  "demo_crypto = \<lparr>cr_sha256 = map (of_nat \<circ> of_char), cr_bcrypt_generate = (\<lambda>p. Ok (1 # map (of_nat \<circ> of_char) p)),
     cr_bcrypt_compare = (\<lambda>h p. h = 1 # map (of_nat \<circ> of_char) p)\<rparr>"

definition demo_sv :: "memory Service" where
  "demo_sv = Service_New (memory_backend demo_crypto) demo_runtime
     \<lparr>opt_InfoEnabled = True, opt_Anonymous = False,
      opt_Limits = DefaultLimits\<lparr>lim_MaxPIDAttempts := 2, lim_MaxNamespaceIDAttempts := 2, lim_MaxAPIKeyAttempts := 2\<rparr>\<rparr>"

lemma demo_sv_simps [simp]:
  "sv_backend demo_sv = memory_backend demo_crypto" "sv_runtime demo_sv = demo_runtime"
  "lim_MaxPIDAttempts (limits demo_sv) = 2" "lim_MaxNamespaceIDAttempts (limits demo_sv) = 2"
  "lim_MaxAPIKeyAttempts (limits demo_sv) = 2" "lim_MaxBatchItems (limits demo_sv) = 100"
  "InternalPageLimit (limits demo_sv) = 100" "\<not> AnonymousMode demo_sv"
  by (simp_all add: demo_sv_def Service_New_def withValidValues_def WithValidValues_def DefaultLimits_def
      InternalPageLimit_def AnonymousMode_def)

lemma demo_valid: "IsValid \<lparr>fmt_Pattern = ''**'', fmt_Characters = ''hex''\<rparr> [c, d] \<longleftrightarrow>
    c \<in> set ''0123456789abcdef'' \<and> d \<in> set ''0123456789abcdef''"
  by (subst IsValid_slots [of _ "''0123456789abcdef''"])
    (simp_all add: Format_Validate_None Alphabet_def alphabets_def slot_def)

lemma demo_ids: "id_match ''00'' \<and> id_match ''0a'' \<and> id_match ''0b'' \<and> id_match ''a'' \<and> id_match ''c''"
  by (simp add: id_match_def id_chars_def)

lemma demo_create:
  "\<exists>s'. svc_CreateResource demo_sv ''a'' demo_res (\<lambda>_. 0) demo2 = (Ok (new_resource ''0a'' demo_res (rfc3339 0)), s')"
proof -
  have pl: "pull_next (list_generator [[''00'', ''0a'', ''0b'']]) t PullIDs = (Ok ''00'', PullIDs\<lparr>pl_pos := Suc 0\<rparr>)"
    "pull_next (list_generator [[''00'', ''0a'', ''0b'']]) t (PullIDs\<lparr>pl_pos := Suc 0\<rparr>) = (Ok ''0a'', PullIDs\<lparr>pl_pos := Suc (Suc 0)\<rparr>)" for t
    by (simp_all add: pull_next_def list_generator_def PullIDs_def pull_yield_def)
  have sl: "slots_loop (list_generator [[''00'', ''0a'', ''0b'']]) \<lparr>fmt_Pattern = ''**'', fmt_Characters = ''hex''\<rparr> (Suc (Suc 0)) (Suc 0) [] [] t PullIDs =
      (Ok [''00''], map_option (\<lambda>t. t + 1) t, PullIDs\<lparr>pl_pos := Suc 0\<rparr>)"
    "slots_loop (list_generator [[''00'', ''0a'', ''0b'']]) \<lparr>fmt_Pattern = ''**'', fmt_Characters = ''hex''\<rparr> (Suc (Suc 0)) (Suc 0) [] [] t (PullIDs\<lparr>pl_pos := Suc 0\<rparr>) =
      (Ok [''0a''], map_option (\<lambda>t. t + 1) t, PullIDs\<lparr>pl_pos := Suc (Suc 0)\<rparr>)" for t
    using demo_ids by (simp_all add: pl NewPID_def demo_valid)
  show ?thesis
    by (simp add: svc_CreateResource_def allocatePID_def allocatePIDs_def Let_def demo2_eq demo1_eq
        mem_GetNamespace_def mem_ListResources_def dget_def dhas_def inner_def count_total_def paginate_def
        go_slice_def listing_def List.map_filter_def wrap_int_def demo_runtime_def sl numeral_2_eq_2
        mem_CreateResource_def dset_def del: slots_loop.simps)
qed

section \<open>Properties of allocation\<close>

text \<open>
  C2. Creating a resource allocates a fresh, well-formed identifier. When the service reports success over the in-memory
  backend, the returned record resolves under its PID, that PID did not resolve before, it is
  valid for the namespace's PID format and accepted by the API, and the record carries the requested URL.
\<close>

theorem create_resource_fresh:
  assumes "sv_backend sv = memory_backend cr" and "reachable s"
    and "svc_CreateResource sv n req clock s = (Ok r, s')"
  shows "rr_URL r = rcr_URL req \<and> \<not> rr_Deleted r \<and> mem_GetResource n (rr_PID r) s' = Ok r \<and>
    (\<exists>e. mem_GetResource n (rr_PID r) s = Err e \<and> errors_is e ErrResourceNotFound) \<and>
    (\<exists>ns. mem_GetNamespace n s = Ok ns \<and> IsValid (nr_PIDFormat ns) (rr_PID r)) \<and> NewPID (rr_PID r) = Ok (rr_PID r)"
  using mem_res.svc_create_fresh [OF assms(1) reachable_inv [OF assms(2)] assms(3)] by auto

theorem create_resource_fresh_witness:
  "\<exists>s'. mem_GetResource ''a'' ''0a'' s' = Ok (new_resource ''0a'' demo_res (rfc3339 0)) \<and>
     svc_CreateResource demo_sv ''a'' demo_res (\<lambda>_. 0) demo2 = (Ok (new_resource ''0a'' demo_res (rfc3339 0)), s')"
proof -
  obtain s' where c: "svc_CreateResource demo_sv ''a'' demo_res (\<lambda>_. 0) demo2 = (Ok (new_resource ''0a'' demo_res (rfc3339 0)), s')"
    using demo_create by blast
  from create_resource_fresh [OF _ demo_reachable(3) c] c show ?thesis by auto
qed

text \<open>
  C17. Batch creation. On success there is one record per request in the order of the requests, with pairwise
  different PIDs that are valid for the namespace's format, all of which resolve now and
  none of which resolved before.
\<close>

theorem batch_create_fresh:
  assumes "sv_backend sv = memory_backend cr" and "reachable s"
    and "svc_BatchCreateResources sv n reqs clock s = (Ok rs, s')" and "reqs \<noteq> []"
  shows "length rs = length reqs \<and> distinct (map rr_PID rs) \<and> map rr_URL rs = map rcr_URL reqs \<and>
    (\<forall>r \<in> set rs. mem_GetResource n (rr_PID r) s' = Ok r \<and>
       (\<exists>e. mem_GetResource n (rr_PID r) s = Err e \<and> errors_is e ErrResourceNotFound)) \<and>
    (\<exists>ns. mem_GetNamespace n s = Ok ns \<and> (\<forall>r \<in> set rs. IsValid (nr_PIDFormat ns) (rr_PID r)))"
  using mem_res.svc_batch_fresh [OF assms(1) reachable_inv [OF assms(2)] assms(3,4)] by simp

theorem batch_create_fresh_witness:
  "\<exists>rs s'. svc_BatchCreateResources demo_sv ''b'' [demo_res] (\<lambda>_. 0) demo2 = (Ok rs, s') \<and> length rs = 1"
proof -
  have "slots_loop (list_generator [[''00'', ''0a'', ''0b'']]) \<lparr>fmt_Pattern = ''**'', fmt_Characters = ''hex''\<rparr>
      (Suc (Suc 0)) (Suc 0) [] [] t PullIDs = (Ok [''00''], map_option (\<lambda>t. t + 1) t, PullIDs\<lparr>pl_pos := Suc 0\<rparr>)" for t
    using demo_ids
    by (simp add: NewPID_def demo_valid pull_next_def list_generator_def PullIDs_def pull_yield_def)
  then obtain rs s' where c: "svc_BatchCreateResources demo_sv ''b'' [demo_res] (\<lambda>_. 0) demo2 = (Ok rs, s')"
    by (simp add: svc_BatchCreateResources_def allocatePIDs_def Let_def demo2_eq demo1_eq
        mem_GetNamespace_def mem_ListResources_def dget_def dhas_def inner_def count_total_def paginate_def
        listing_def List.map_filter_def wrap_int_def demo_runtime_def numeral_2_eq_2
        mem_BatchCreateResources_def dset_def del: slots_loop.simps)
  from batch_create_fresh [OF _ demo_reachable(3) c] c show ?thesis by auto
qed

end
