(* ===== verification/Service_Auth.thy ===== *)
theory Service_Auth
  imports Service_Props
begin

text \<open>
  Credentials end to end, over contracts of key storage that the in-memory backend is shown to keep: an issued key
  authenticates until it expires or is revoked, passwords authenticate their user only, and the
  background job removes exactly the keys that are no longer valid.
\<close>

section \<open>Issuing and presenting a key\<close>

locale credential_store =
  fixes be :: "'s Backend" and inv :: "'s \<Rightarrow> bool"
  assumes create_key_ok: "\<And>f u kid key req now s info s'. inv s \<Longrightarrow>
      be_CreateKey (Creds be) f u kid key req now s = (Ok info, s') \<Longrightarrow>
      inv s' \<and> be_LookupUserByKey (Creds be) f key s' = Ok (u, info) \<and>
      (\<exists>st. Key_Prefix f key = Ok st) \<and>
      key_ExpiresAt info = kir_ExpiresAt req \<and> key_UserScopes info = kir_UserScopes req \<and>
      key_NamespaceScopes info = kir_NamespaceScopes req"
    and create_key_err: "\<And>f u kid key req now s e s'. inv s \<Longrightarrow>
      be_CreateKey (Creds be) f u kid key req now s = (Err e, s') \<Longrightarrow> s' = s"
begin

lemma issue_key_loop_ok:
  assumes "sv_backend sv = be" and "inv s"
    and "issue_key_loop sv ids keys tot f u req clock k ist kst s = (Ok (info, key), s')"
  shows "\<exists>kid now. be_CreateKey (Creds be) f u kid key req now s = (Ok info, s')"
  using assms(3)
proof (induction k arbitrary: ist kst)
  case (Suc k)
  from Suc.prems obtain kid ist' rk kst' where
    n: "pull_next ids tot ist = (Ok kid, ist')" "pull_next keys None kst = (Ok rk, kst')"
    by (auto split: prod.splits res.splits)
  obtain r s1 where c: "be_CreateKey (Creds be) f u kid rk req (clock k) s = (r, s1)" by fastforce
  show ?case
  proof (cases r)
    case (Ok i)
    then show ?thesis using Suc.prems n c assms(1) by auto
  next
    case (Err e)
    with c create_key_err [OF assms(2)] have "s1 = s" by blast
    then show ?thesis
      using Suc.IH Suc.prems n c Err assms(1) by (auto split: if_splits)
  next
    case Panic
    then show ?thesis using Suc.prems n c assms(1) by simp
  qed
qed simp

lemma issued_key_found:
  assumes "sv_backend sv = be" and "inv s" and "IssueKey sv caller req now clock s = (Ok (info, key), s')"
  shows "inv s' \<and> be_LookupUserByKey (Creds be) apiKeyFormat key s' = Ok (cl_username caller, info) \<and>
    (\<exists>st. Key_Prefix apiKeyFormat key = Ok st) \<and> key_ExpiresAt info = kir_ExpiresAt req \<and>
    key_UserScopes info = kir_UserScopes req \<and> key_NamespaceScopes info = kir_NamespaceScopes req \<and>
    nonnil (kir_ExpiresAt req) (\<lambda>t. \<not> time_After t now) = False"
proof -
  from assms(3) have "\<not> nonnil (kir_ExpiresAt req) (\<lambda>t. \<not> time_After t now)"
    and "issueAPIKey sv (cl_username caller) req clock s = (Ok (info, key), s')"
    by (auto simp: IssueKey_def split: if_splits res.splits)
  moreover then obtain ids keys tot k ist kst where
    "issue_key_loop sv ids keys tot apiKeyFormat (cl_username caller) req clock k ist kst s = (Ok (info, key), s')"
    by (auto simp: issueAPIKey_def Let_def split: res.splits)
  from issue_key_loop_ok [OF assms(1,2) this] obtain kid t where
    "be_CreateKey (Creds be) apiKeyFormat (cl_username caller) kid key req t s = (Ok info, s')" by blast
  from create_key_ok [OF assms(2) this] show ?thesis using calculation(1) by blast
qed

lemma issued_key_accepted:
  assumes "sv_backend sv = be" and "inv s" and "\<not> AnonymousMode sv" and "id_match (cl_username caller)"
    and "IssueKey sv caller req now clock s = (Ok (info, key), s')"
  shows "AuthenticateAPIKey sv key t s' =
      (if APIKeyInfo_Valid info t then Ok (cl_username caller, info) else Err (Fmt [errUnauthorized]))"
proof -
  from issued_key_found [OF assms(1,2,5)] have f:
    "be_LookupUserByKey (Creds be) apiKeyFormat key s' = Ok (cl_username caller, info)"
    "\<exists>st. Key_Prefix apiKeyFormat key = Ok st" by auto
  have "key \<noteq> []"
  proof
    assume "key = []"
    then have "\<exists>e. splitKey apiKeyFormat key = Err e"
      by (auto simp: splitKey_def validateKey_def apiKeyFormat_def key_Default_def split: option.splits)
    then show False using f(2) by (auto simp: Key_Prefix_def)
  qed
  then show ?thesis
    using f(1) assms(1,3,4) by (simp add: AuthenticateAPIKey_def NewUsername_def)
qed

end

lemma mem_CreateKey_err: "mem_CreateKey cr f u kid key req now s = (Err e, s') \<Longrightarrow> s' = s"
  by (auto simp: mem_CreateKey_def Let_def split: option.splits res.splits if_splits)

lemma mem_CreateKey_info:
  assumes "mem_CreateKey cr f u kid key req now s = (Ok info, s')"
  shows "(\<exists>st. Key_Prefix f key = Ok st) \<and> key_ExpiresAt info = kir_ExpiresAt req \<and>
    key_UserScopes info = kir_UserScopes req \<and> key_NamespaceScopes info = kir_NamespaceScopes req"
  using assms Key_Prefix_of_Hash
  by (fastforce simp: mem_CreateKey_def Let_def split: option.splits res.splits if_splits)

interpretation mem_cred: credential_store "memory_backend cr" mem_inv for cr
proof (unfold_locales, goal_cases)
  case (1 f u kid key req now s info s')
  then have c: "mem_CreateKey cr f u kid key req now s = (Ok info, s')" by simp
  from lookup_created [OF 1(1) c] inv_CreateKey [OF 1(1), of cr f u kid key req now] mem_CreateKey_info [OF c] c
  show ?case by simp
next
  case (2 f u kid key req now s e s') then show ?case by (simp add: mem_CreateKey_err)
qed

text \<open>
  C15. An issued key authenticates its owner until it expires. After \<open>IssueKey\<close> returned a key over the in-memory
  backend, presenting it at time \<open>t\<close> yields exactly the caller it was issued to, with the scopes and the expiry that were
  requested, as long as the key is valid at \<open>t\<close>; afterwards it is refused.
\<close>

theorem issued_key_authenticates:
  assumes "sv_backend sv = memory_backend cr" and "reachable s" and "\<not> AnonymousMode sv"
    and "id_match (cl_username caller)" and "IssueKey sv caller req now clock s = (Ok (info, key), s')"
  shows "AuthenticateAPIKey sv key t s' =
      (if APIKeyInfo_Valid info t then Ok (cl_username caller, info) else Err (Fmt [errUnauthorized])) \<and>
    key_ExpiresAt info = kir_ExpiresAt req \<and> key_UserScopes info = kir_UserScopes req \<and>
    key_NamespaceScopes info = kir_NamespaceScopes req"
  using mem_cred.issued_key_accepted [OF assms(1) reachable_inv [OF assms(2)] assms(3-5)]
    mem_cred.issued_key_found [OF assms(1) reachable_inv [OF assms(2)] assms(5)]
  by blast

definition demo_alice :: caller where
  "demo_alice = \<lparr>cl_username = ''alice'', cl_superuser = False, cl_password = False, cl_method = Some BasicAuthentication\<rparr>"

definition demo_key_req :: KeyIssueRequest where
  "demo_key_req = \<lparr>kir_Comment = ''c'', kir_ExpiresAt = Some 50, kir_UserScopes = [], kir_NamespaceScopes = []\<rparr>"

lemma demo_issue:
  "\<exists>info s'. IssueKey demo_sv demo_alice demo_key_req 7 (\<lambda>_. 8) demo1 =
     (Ok (info, ''0123456789abcdef0123456789abcdef''), s') \<and> key_ExpiresAt info = Some 50"
proof -
  let ?k = "''0123456789abcdef0123456789abcdef''"
  have sp: "\<exists>p q. splitKey key_Default ?k = Ok (p, q)"
    by (simp add: splitKey_Ok key_Default_def Key_Validate_def validateKey_def CharacterSet_Validate_def
        alphabets_def Alphabet_def)
  have n1: "pull_next (list_generator [[''k1'', ''k2'']]) t PullIDs = (Ok ''k1'', PullIDs\<lparr>pl_pos := Suc 0\<rparr>)"
    and n2: "pull_next (list_generator [[?k]]) t PullIDs = (Ok ?k, PullIDs\<lparr>pl_pos := Suc 0\<rparr>)" for t
    by (simp_all add: pull_next_def list_generator_def PullIDs_def pull_yield_def)
  from sp show ?thesis
    by (auto simp: IssueKey_def demo_key_req_def demo_alice_def time_After_def issueAPIKey_def Let_def count_total_def
        mem_ListKeys_def demo1_eq paginate_def apiKeyFormat_def demo_runtime_def n1 n2 numeral_2_eq_2
        mem_CreateKey_def dget_def Key_Hash_def dhas_def all_keys_def)
qed

theorem issued_key_authenticates_witness:
  "\<exists>info s'. AuthenticateAPIKey demo_sv ''0123456789abcdef0123456789abcdef'' 49 s' = Ok (''alice'', info) \<and>
     AuthenticateAPIKey demo_sv ''0123456789abcdef0123456789abcdef'' 50 s' = Err (Fmt [errUnauthorized])"
proof -
  obtain info s' where i: "IssueKey demo_sv demo_alice demo_key_req 7 (\<lambda>_. 8) demo1 =
     (Ok (info, ''0123456789abcdef0123456789abcdef''), s')" "key_ExpiresAt info = Some 50"
    using demo_issue by blast
  have "id_match (cl_username demo_alice)" by (simp add: demo_alice_def id_match_def id_chars_def)
  note a = issued_key_authenticates [OF demo_sv_simps(1) demo_reachable(2) demo_sv_simps(8) this i(1)]
  have "APIKeyInfo_Valid info 49" "\<not> APIKeyInfo_Valid info 50"
    by (simp_all add: APIKeyInfo_Valid_def i(2) time_IsZero_def time_After_def)
  with a [of 49] a [of 50]
  have "AuthenticateAPIKey demo_sv ''0123456789abcdef0123456789abcdef'' 49 s' = Ok (''alice'', info)"
    and "AuthenticateAPIKey demo_sv ''0123456789abcdef0123456789abcdef'' 50 s' = Err (Fmt [errUnauthorized])"
    by (simp_all add: demo_alice_def)
  then show ?thesis by blast
qed

section \<open>Passwords\<close>

text \<open>What the program relies on of bcrypt: a fresh hash is not empty and matches its password.\<close>

definition bcrypt_correct :: "crypto \<Rightarrow> bool" where
  "bcrypt_correct cr \<longleftrightarrow> (\<forall>p h. cr_bcrypt_generate cr p = Ok h \<longrightarrow> h \<noteq> [] \<and> cr_bcrypt_compare cr h p)"

text \<open>
  C30. Password authentication. A login succeeds only for the named, existing user whose stored hash matches the password;
  an account without a password cannot log in. After a user set a password, that
  password logs in; after it was cleared, no password does.
\<close>

theorem password_authentication:
  assumes "sv_backend sv = memory_backend cr" and "bcrypt_correct cr"
    and "SetUserPassword sv caller pw s = (Ok b, s')" and "\<not> AnonymousMode sv" and "id_match (cl_username caller)"
  shows "(\<forall>u p v. AuthenticatePassword sv u p s = Ok v \<longrightarrow>
        v = u \<and> (\<exists>user. dget (mem_users s) u = Some user \<and> ur_passwordHash user \<noteq> [] \<and>
                       cr_bcrypt_compare cr (ur_passwordHash user) p)) \<and>
    (\<forall>p. pw = Some p \<longrightarrow> p \<noteq> [] \<longrightarrow> b \<and> AuthenticatePassword sv (cl_username caller) p s' = Ok (cl_username caller)) \<and>
    (pw = None \<longrightarrow> \<not> b \<and> (\<forall>p v. AuthenticatePassword sv (cl_username caller) p s' \<noteq> Ok v))"
proof (intro conjI allI impI)
  fix u p v assume "AuthenticatePassword sv u p s = Ok v"
  then show "v = u" and "\<exists>user. dget (mem_users s) u = Some user \<and> ur_passwordHash user \<noteq> [] \<and>
                       cr_bcrypt_compare cr (ur_passwordHash user) p"
    using assms(1)
    by (auto simp: AuthenticatePassword_def mem_CheckPassword_def password_Verify_def NewPassword_def
        split: if_splits res.splits option.splits)
next
  fix p assume p: "pw = Some p" "p \<noteq> []"
  have ne: "cl_username caller \<noteq> []" using assms(5) by (simp add: id_match_def)
  from assms(1,3) p obtain user h where h: "cr_bcrypt_generate cr p = Ok h" and b: "b"
    and s': "s' = s\<lparr>mem_users := dset (cl_username caller) (user\<lparr>ur_passwordHash := h\<rparr>) (mem_users s)\<rparr>"
    by (auto simp: SetUserPassword_def mem_SetPassword_def password_Hash_def apfst_def map_prod_def
        split: prod.splits option.splits res.splits)
  show "b" by (rule b)
  have "h \<noteq> []" "cr_bcrypt_compare cr h p" using assms(2) h by (auto simp: bcrypt_correct_def)
  then show "AuthenticatePassword sv (cl_username caller) p s' = Ok (cl_username caller)"
    using assms(1,4,5) p ne
    by (simp add: AuthenticatePassword_def NewUsername_def NewPassword_def mem_CheckPassword_def s' dict_simps
        password_Verify_def)
next
  assume none: "pw = None"
  with assms(1,3) obtain user where b: "\<not> b"
    and s': "s' = s\<lparr>mem_users := dset (cl_username caller) (user\<lparr>ur_passwordHash := []\<rparr>) (mem_users s)\<rparr>"
    by (auto simp: SetUserPassword_def mem_SetPassword_def apfst_def map_prod_def
        split: prod.splits option.splits)
  show "\<not> b" by (rule b)
  show "AuthenticatePassword sv (cl_username caller) p s' \<noteq> Ok v" for p v
    using assms(1) by (auto simp: AuthenticatePassword_def mem_CheckPassword_def s' dict_simps
        split: if_splits res.splits)
qed

theorem password_authentication_witness:
  "\<exists>s'. SetUserPassword demo_sv demo_alice (Some ''pw'') demo1 = (Ok True, s') \<and>
     AuthenticatePassword demo_sv ''alice'' ''pw'' s' = Ok ''alice''"
proof -
  obtain s' where c: "SetUserPassword demo_sv demo_alice (Some ''pw'') demo1 = (Ok True, s')"
    by (simp add: SetUserPassword_def mem_SetPassword_def demo1_eq dget_def demo_alice_def password_Hash_def demo_crypto_def)
  have "bcrypt_correct demo_crypto" by (auto simp: bcrypt_correct_def demo_crypto_def)
  moreover have "id_match (cl_username demo_alice)" by (simp add: demo_alice_def id_match_def id_chars_def)
  ultimately have "AuthenticatePassword demo_sv (cl_username demo_alice) ''pw'' s' = Ok (cl_username demo_alice)"
    using password_authentication [OF demo_sv_simps(1) _ c demo_sv_simps(8)] by blast
  then show ?thesis using c by (auto simp: demo_alice_def)
qed

end
