(* ===== verification/Server_Effects.thy ===== *)
theory Server_Effects
  imports Server_Errors Service_Auth
begin

text \<open>
  What a request can change when the service runs on the in-memory backend. Every request either leaves the state
  as it is, or it is one of the writing operations, its scope was granted to the resolved caller, and the new
  state is that of one backend operation. The security properties of the server follow from this.
\<close>

section \<open>Handlers that changed the state\<close>

lemma seq_changed: "seq_impl x f s = Some (res, s') \<Longrightarrow> s' \<noteq> s \<Longrightarrow> \<exists>v. x = Ok v \<and> f v s = Some (res, s')"
  by (cases x) (auto simp: seq_impl_def)

lemma not_changed [simp]:
  "reading f s = Some (res, s') \<longleftrightarrow> res = wrap_result (f s) \<and> s' = s"
  "searching g s = Some (res, s') \<longleftrightarrow> (\<exists>x. g s = Some x \<and> res = wrap_result x) \<and> s' = s"
  by (auto simp: reading_def searching_def)

lemma writing_changed: "writing f s = Some (res, s') \<Longrightarrow> s' = snd (f s)"
  by (cases "f s") (simp add: writing_def)

lemma handle_impl_state: "handle_impl impl ok A r u s = Some (resp, s') \<Longrightarrow> \<exists>res. impl r u s = Some (res, s')"
proof (cases "impl r u s")
  case (Some p)
  then show "handle_impl impl ok A r u s = Some (resp, s') \<Longrightarrow> ?thesis"
    by (cases p; cases "fst p") (simp_all add: handle_impl_def)
qed (simp add: handle_impl_def)

lemma handle_changed:
  assumes "handle auth authenticate impl ok A r s = Some (resp, s')" and "s' \<noteq> s"
  shows "\<exists>c res. (if authenticate then resolveCaller auth r s else Ok None) = Ok c \<and> impl r c s = Some (res, s')"
proof (cases "if authenticate then resolveCaller auth r s else Ok None")
  case (Ok c)
  then have "handle_impl impl ok A r c s = Some (resp, s')" using assms(1) by (simp add: handle_def)
  from handle_impl_state [OF this] Ok show ?thesis by blast
qed (use assms in \<open>simp_all add: handle_def\<close>)

lemma answer_changed: "answer f impl r c s = Some (res, s') \<Longrightarrow> \<exists>res'. impl r c s = Some (res', s')"
  by (auto simp: answer_def)

lemma public_changed:
  assumes "Public_handler auth (answer_public f impl) ok A r s = Some (resp, s')" and "s' \<noteq> s"
  shows "\<exists>res. impl r s = Some (res, s')"
  using handle_changed [OF assms(1) [unfolded Public_handler_def] assms(2)] by (auto simp: answer_public_def)

lemma user_scope_changed:
  assumes "UserScope_handler auth sc (answer f impl) ok A r s = Some (resp, s')" and "s' \<noteq> s"
  shows "\<exists>c res. resolveCaller auth r s = Ok c \<and> CheckUserScope auth c sc = None \<and> impl r c s = Some (res, s')"
proof -
  from handle_changed [OF assms(1) [unfolded UserScope_handler_def dynamicUserScope_def] assms(2)]
  obtain c res where c: "resolveCaller auth r s = Ok c"
    and i: "user_scope_impl auth (\<lambda>_ _. Ok ((), sc)) (\<lambda>_. answer f impl) r c s = Some (res, s')" by auto
  from i assms(2) obtain res' where "CheckUserScope auth c sc = None" and a: "answer f impl r c s = Some (res', s')"
    by (auto simp: user_scope_impl_def split: option.splits)
  with c answer_changed [OF a] show ?thesis by blast
qed

lemma dynamic_scope_changed:
  assumes "DynamicNamespaceScope auth scope (\<lambda>n v. answer f (impl n v)) ok A r s = Some (resp, s')" and "s' \<noteq> s"
  shows "\<exists>c v sc res. resolveCaller auth r s = Ok c \<and> scope r c = Ok (v, sc) \<and> id_match (rq_PathValue r ''namespace'') \<and>
    CheckNamespaceScope auth (rq_PathValue r ''namespace'') c sc s = Ok () \<and>
    impl (rq_PathValue r ''namespace'') v r c s = Some (res, s')"
proof -
  from handle_changed [OF assms(1) [unfolded DynamicNamespaceScope_def] assms(2)]
  obtain c res where c: "resolveCaller auth r s = Ok c"
    and i: "namespace_scope_impl auth scope (\<lambda>n v. answer f (impl n v)) r c s = Some (res, s')" by auto
  from i assms(2) obtain v sc res' where "scope r c = Ok (v, sc)" "id_match (rq_PathValue r ''namespace'')"
    "CheckNamespaceScope auth (rq_PathValue r ''namespace'') c sc s = Ok ()"
    and a: "answer f (impl (rq_PathValue r ''namespace'') v) r c s = Some (res', s')"
    by (auto simp: namespace_scope_impl_def readNamespaceParam_def split: res.splits)
  with c answer_changed [OF a] show ?thesis by blast
qed

lemma namespace_scope_changed:
  assumes "NamespaceScope_handler auth sc (\<lambda>n. answer f (impl n)) ok A r s = Some (resp, s')" and "s' \<noteq> s"
  shows "\<exists>c res. resolveCaller auth r s = Ok c \<and> id_match (rq_PathValue r ''namespace'') \<and>
    CheckNamespaceScope auth (rq_PathValue r ''namespace'') c sc s = Ok () \<and>
    impl (rq_PathValue r ''namespace'') r c s = Some (res, s')"
  using dynamic_scope_changed [OF assms(1) [unfolded NamespaceScope_handler_def] assms(2)] by auto

section \<open>Service operations on the in-memory backend\<close>

lemma mem_CreateNamespace_err: "mem_CreateNamespace n req owner now s = (Err e, s') \<Longrightarrow> s' = s"
  by (auto simp: mem_CreateNamespace_def Let_def split: if_splits option.splits)

lemma create_namespace_loop_effect:
  assumes "sv_backend sv = memory_backend cr"
  shows "snd (create_namespace_loop sv gen tot req owner clock k st s) = s \<or>
    (\<exists>n now. id_match n \<and> snd (create_namespace_loop sv gen tot req owner clock k st s) = snd (mem_CreateNamespace n req owner now s))"
proof (induction k arbitrary: st)
  case (Suc k)
  show ?case
  proof (cases "pull_next gen tot st")
    case (Pair p st')
    show ?thesis
    proof (cases p)
      case (Ok name)
      obtain x s1 where x: "mem_CreateNamespace name req owner (clock k) s = (x, s1)" by fastforce
      show ?thesis
      proof (cases x)
        case (Err e)
        then have "s1 = s" using mem_CreateNamespace_err x by blast
        then show ?thesis using Suc [of st'] Pair Ok Err x assms by (auto simp: NewNamespaceID_def)
      qed (use Pair Ok x assms in \<open>auto simp: NewNamespaceID_def intro!: exI [of _ name] exI [of _ "clock k"]\<close>)
    qed (use Pair in simp_all)
  qed
qed simp

lemma allocate_loop_effect:
  assumes "\<And>now pids e s'. ins now pids s = (Err e, s') \<Longrightarrow> s' = s"
  shows "snd (allocate_loop gen f m n ins clock k tot st s) = s \<or>
    (\<exists>now pids. snd (allocate_loop gen f m n ins clock k tot st s) = snd (ins now pids s))"
proof (induction k arbitrary: tot st)
  case (Suc k)
  obtain p tot' st' where sl: "slots_loop gen f m n [] [] tot st = (p, tot', st')" by (metis prod_cases3)
  show ?case
  proof (cases p)
    case (Ok pids)
    obtain x s1 where x: "ins (clock k) pids s = (x, s1)" by fastforce
    show ?thesis
    proof (cases x)
      case (Err e)
      then have "s1 = s" using assms x by blast
      then show ?thesis using Suc [of tot' st'] sl Ok Err x by auto
    next
      case (Ok v)
      then show ?thesis using sl \<open>p = Ok pids\<close> x by (auto intro!: exI [of _ "clock k"] exI [of _ pids])
    next
      case Panic
      then show ?thesis using sl \<open>p = Ok pids\<close> x by (auto intro!: exI [of _ "clock k"] exI [of _ pids])
    qed
  qed (use sl in simp_all)
qed simp

lemma issue_key_loop_effect:
  assumes "sv_backend sv = memory_backend cr"
  shows "snd (issue_key_loop sv ids keys tot f u req clock k ist kst s) = s \<or>
    (\<exists>kid key now. snd (issue_key_loop sv ids keys tot f u req clock k ist kst s) =
       snd (mem_CreateKey cr f u kid key req now s))"
proof (induction k arbitrary: ist kst)
  case (Suc k)
  obtain p ist' where p: "pull_next ids tot ist = (p, ist')" by fastforce
  obtain q kst' where q: "pull_next keys None kst = (q, kst')" by fastforce
  show ?case
  proof (cases "\<exists>kid key. p = Ok kid \<and> q = Ok key")
    case True
    then obtain kid key where k: "p = Ok kid" "q = Ok key" by blast
    obtain x s1 where x: "mem_CreateKey cr f u kid key req (clock k) s = (x, s1)" by fastforce
    then have e: "\<exists>kid key now. s1 = snd (mem_CreateKey cr f u kid key req now s)" by (metis snd_conv)
    show ?thesis
    proof (cases x)
      case (Err e)
      then have "s1 = s" using mem_CreateKey_err x by blast
      then show ?thesis using Suc [of ist' kst'] p q k Err x assms by auto
    qed (use p q k x e assms in simp_all)
  next
    case False
    then show ?thesis using p q by (cases p; cases q) auto
  qed
qed simp

text \<open>Each writing operation of the service is one operation of the backend, or nothing.\<close>

lemma svc_loop_effects:
  assumes "sv_backend sv = memory_backend cr"
  shows "snd (svc_CreateNamespace sv c req clock s) = s \<or>
      (\<exists>n now. id_match n \<and> snd (svc_CreateNamespace sv c req clock s) = snd (mem_CreateNamespace n req (map_option cl_username c) now s))"
    "snd (svc_CreateResource sv n rreq clock s) = s \<or>
      (\<exists>p now. snd (svc_CreateResource sv n rreq clock s) = snd (mem_CreateResource n p rreq now s))"
    "snd (svc_BatchCreateResources sv n reqs clock s) = s \<or>
      (\<exists>ps now. snd (svc_BatchCreateResources sv n reqs clock s) = snd (mem_BatchCreateResources n ps reqs now s))"
    "snd (IssueKey sv d kreq t clock s) = s \<or>
      (\<exists>kid key now. snd (IssueKey sv d kreq t clock s) = snd (mem_CreateKey cr apiKeyFormat (cl_username d) kid key kreq now s))"
proof -
  show "snd (svc_CreateNamespace sv c req clock s) = s \<or>
      (\<exists>n now. id_match n \<and> snd (svc_CreateNamespace sv c req clock s) = snd (mem_CreateNamespace n req (map_option cl_username c) now s))"
    using create_namespace_loop_effect [OF assms]
    by (auto simp: svc_CreateNamespace_def Let_def split: res.splits)
next
  let ?ins = "\<lambda>now pids s. apfst (fmap_res (\<lambda>r. [r])) (mem_CreateResource n (hd pids) rreq now s)"
  have "s' = s" if "?ins now pids s = (Err e, s')" for now pids e s'
    using that mem_create_err(1) by (cases "mem_CreateResource n (hd pids) rreq now s"; cases "fst (mem_CreateResource n (hd pids) rreq now s)")
      (auto simp: fmap_res_def)
  from allocate_loop_effect [of ?ins, OF this]
  show "snd (svc_CreateResource sv n rreq clock s) = s \<or>
      (\<exists>p now. snd (svc_CreateResource sv n rreq clock s) = snd (mem_CreateResource n p rreq now s))"
    using assms by (fastforce simp: svc_CreateResource_def allocatePID_def allocatePIDs_def Let_def split: res.splits)
next
  have "s' = s" if "mem_BatchCreateResources n pids reqs now s = (Err e, s')" for now pids e s'
    using that by (rule mem_create_err(2))
  from allocate_loop_effect [of "\<lambda>now pids. mem_BatchCreateResources n pids reqs now", OF this]
  show "snd (svc_BatchCreateResources sv n reqs clock s) = s \<or>
      (\<exists>ps now. snd (svc_BatchCreateResources sv n reqs clock s) = snd (mem_BatchCreateResources n ps reqs now s))"
    using assms by (fastforce simp: svc_BatchCreateResources_def allocatePIDs_def Let_def split: res.splits)
next
  show "snd (IssueKey sv d kreq t clock s) = s \<or>
      (\<exists>kid key now. snd (IssueKey sv d kreq t clock s) = snd (mem_CreateKey cr apiKeyFormat (cl_username d) kid key kreq now s))"
    using issue_key_loop_effect [OF assms]
    by (auto simp: IssueKey_def issueAPIKey_def Let_def split: res.splits)
qed

lemma snd_apfst [simp]: "snd (apfst f x) = snd x"
  by (cases x) simp

lemma svc_effects:
  assumes "sv_backend sv = memory_backend cr"
  shows "snd (svc_UpdateNamespace sv n ur now s) = snd (mem_UpdateNamespace n ur now s)"
    "snd (svc_UpdateResource sv n p rr now s) = snd (mem_UpdateResource n p rr now s)"
    "snd (svc_SetNamespaceRole sv n u role s) = (if role = RoleNone then s else snd (mem_SetNamespaceRole n u role s))"
    "snd (svc_DeleteNamespaceRole sv n u s) = (if dhas (mem_namespaces s) n then snd (mem_DeleteNamespaceRole n u s) else s)"
    "snd (svc_SetMountGrant sv u pat s) = snd (mem_SetMountGrant u pat s)"
    "snd (svc_DeleteMountGrant sv u pat s) = snd (mem_DeleteMountGrant u pat s)"
    "snd (svc_SetMount sv b n s) = snd (mem_SetMount b n s)"
    "snd (svc_DeleteMount sv b s) = snd (mem_DeleteMount b s)"
    "snd (svc_CreateUser sv cu now s) = snd (mem_CreateUser cu now s)"
    "snd (svc_DeleteUser sv c u s) = (if u = cl_username c then s else snd (mem_DeleteUser u s))"
    "snd (svc_UpdateUser sv c u b' s) = (if u = cl_username c then s else snd (mem_UpdateUser u b' s))"
    "snd (SetUserPassword sv c pw s) = snd (mem_SetPassword cr (cl_username c) pw s)"
    "snd (svc_RevokeKey sv c k s) = snd (mem_RevokeKey apiKeyFormat (cl_username c) k s)"
  using assms
  by (auto simp: svc_UpdateNamespace_def svc_UpdateResource_def svc_SetMountGrant_def svc_DeleteMountGrant_def
      svc_SetMount_def svc_DeleteMount_def svc_CreateUser_def svc_DeleteUser_def svc_UpdateUser_def SetUserPassword_def
      svc_RevokeKey_def svc_SetNamespaceRole_def svc_DeleteNamespaceRole_def mem_GetNamespace_def dhas_def reply_def
      split: prod.splits res.splits option.splits)

section \<open>The writing operations\<close>

text \<open>
  The backend operation that a request of each writing route may perform, with the arguments that come
  from the request and from the caller.
\<close>

inductive mem_effect :: "crypto \<Rightarrow> http_request \<Rightarrow> caller option \<Rightarrow> memory \<Rightarrow> operation \<Rightarrow> memory \<Rightarrow> bool"
  for cr r c s where
  "id_match n \<Longrightarrow> mem_effect cr r c s (Op_createNamespace b) (snd (mem_CreateNamespace n req (map_option cl_username c) now s))"
| "mem_effect cr r c s (Op_updateNamespace b) (snd (mem_UpdateNamespace (rq_PathValue r ''namespace'') ureq now s))"
| "mem_effect cr r c s (Op_upsertNamespaceMount b) (snd (mem_SetMount (rq_PathValue r ''baseUri'') n s))"
| "mem_effect cr r c s Op_deleteNamespaceMount (snd (mem_DeleteMount (rq_PathValue r ''baseUri'') s))"
| "mem_effect cr r c s (Op_setMountGrant b) (snd (mem_SetMountGrant u pat s))"
| "mem_effect cr r c s Op_deleteMountGrant (snd (mem_DeleteMountGrant u pat s))"
| "role \<noteq> RoleNone \<Longrightarrow>
     mem_effect cr r c s (Op_setNamespaceRole b) (snd (mem_SetNamespaceRole (rq_PathValue r ''namespace'') (rq_PathValue r ''username'') role s))"
| "mem_effect cr r c s Op_removeNamespaceRole (snd (mem_DeleteNamespaceRole (rq_PathValue r ''namespace'') (rq_PathValue r ''username'') s))"
| "mem_effect cr r c s (Op_createResource b) (snd (mem_CreateResource (rq_PathValue r ''namespace'') p rreq now s))"
| "mem_effect cr r c s (Op_createResourceBatch b) (snd (mem_BatchCreateResources (rq_PathValue r ''namespace'') ps rreqs now s))"
| "mem_effect cr r c s (Op_updateResource b) (snd (mem_UpdateResource (rq_PathValue r ''namespace'') p rureq now s))"
| "c = Some d \<Longrightarrow> u \<noteq> cl_username d \<Longrightarrow> mem_effect cr r c s (Op_updateUser b) (snd (mem_UpdateUser u su s))"
| "c = Some d \<Longrightarrow> mem_effect cr r c s (Op_createUser b) (snd (mem_CreateUser cu now s))"
| "c = Some d \<Longrightarrow> u \<noteq> cl_username d \<Longrightarrow> mem_effect cr r c s Op_deleteUser (snd (mem_DeleteUser u s))"
| "c = Some d \<Longrightarrow> mem_effect cr r c s (Op_issueUserKey b) (snd (mem_CreateKey cr f (cl_username d) kid key kreq now s))"
| "c = Some d \<Longrightarrow> mem_effect cr r c s (Op_setUserPassword b) (snd (mem_SetPassword cr (cl_username d) pw s))"
| "c = Some d \<Longrightarrow> mem_effect cr r c s (Op_revokeUserKey b) (snd (mem_RevokeKey f (cl_username d) kid s))"

text \<open>The scope that guards a writing operation; \<open>None\<close> for the operations that only read.\<close>

definition role_scope :: "NamespaceScope \<Rightarrow> NamespaceScope \<Rightarrow> http_request \<Rightarrow> caller option \<Rightarrow> NamespaceScope" where
  "role_scope self other r c = (if Caller_Username c = Some (rq_PathValue r ''username'') then self else other)"

fun write_scope :: "operation \<Rightarrow> http_request \<Rightarrow> caller option \<Rightarrow> (UserScope + NamespaceScope) option" where
  "write_scope (Op_createNamespace b) r c = Some (Inl ScopeCreateNamespace)"
| "write_scope (Op_updateNamespace b) r c = Some (Inr ScopeUpdateNamespace)"
| "write_scope (Op_upsertNamespaceMount b) r c = Some (Inl ScopeSetMount)"
| "write_scope Op_deleteNamespaceMount r c = Some (Inl ScopeDeleteMount)"
| "write_scope (Op_setMountGrant b) r c = Some (Inl ScopeSetMountGrant)"
| "write_scope Op_deleteMountGrant r c = Some (Inl ScopeDeleteMountGrant)"
| "write_scope (Op_setNamespaceRole b) r c = Some (Inr (role_scope ScopeSetNamespaceRoleSelf ScopeSetNamespaceRoleOther r c))"
| "write_scope Op_removeNamespaceRole r c = Some (Inr (role_scope ScopeRemoveNamespaceRoleSelf ScopeRemoveNamespaceRoleOther r c))"
| "write_scope (Op_createResource b) r c = Some (Inr ScopeCreateResource)"
| "write_scope (Op_createResourceBatch b) r c = Some (Inr ScopeCreateResourceBatch)"
| "write_scope (Op_updateResource b) r c = Some (Inr ScopeUpdateResource)"
| "write_scope (Op_updateUser b) r c = Some (Inl ScopeUpdateUser)"
| "write_scope (Op_createUser b) r c = Some (Inl ScopeCreateUser)"
| "write_scope Op_deleteUser r c = Some (Inl ScopeDeleteUser)"
| "write_scope (Op_issueUserKey b) r c = Some (Inl ScopeIssueUserKey)"
| "write_scope (Op_setUserPassword b) r c = Some (Inl ScopeSetUserPassword)"
| "write_scope (Op_revokeUserKey b) r c = Some (Inl ScopeRevokeUserKey)"
| "write_scope _ r c = None"

definition scope_granted :: "'s AuthService \<Rightarrow> operation \<Rightarrow> http_request \<Rightarrow> caller option \<Rightarrow> 's \<Rightarrow> bool" where
  "scope_granted auth op r c s \<longleftrightarrow>
     (case write_scope op r c of
        None \<Rightarrow> False
      | Some (Inl sc) \<Rightarrow> CheckUserScope auth c sc = None
      | Some (Inr sc) \<Rightarrow> CheckNamespaceScope auth (rq_PathValue r ''namespace'') c sc s = Ok ())"

section \<open>The reading operations\<close>

named_theorems read_intros \<open>implementations that leave the state as it is\<close>

definition reads_only :: "('s \<Rightarrow> ((gerr, 'a) res \<times> 's) option) \<Rightarrow> bool" where
  "reads_only f \<longleftrightarrow> (\<forall>s res s'. f s = Some (res, s') \<longrightarrow> s' = s)"

lemma reads_seq [read_intros]: "(\<And>v. reads_only (f v)) \<Longrightarrow> reads_only (seq_impl x f)"
  by (cases x) (auto simp: reads_only_def seq_impl_def)

lemma reads_simple [read_intros]: "reads_only (reading f)" "reads_only (searching g)" "reads_only (\<lambda>s. Some (v, s))"
  by (simp_all add: reads_only_def)

lemma reads_case_prod [read_intros]: "reads_only (f (fst p) (snd p)) \<Longrightarrow> reads_only (case p of (x, y) \<Rightarrow> f x y)"
  by (cases p) simp

lemma reads_mount [read_intros]: "reads_only (h_resolveResourceByMountAndPID h env r u)"
  by (auto simp: reads_only_def h_resolveResourceByMountAndPID_def seq_impl_def split: res.splits)

lemma reads_public [read_intros]: "reads_only (h_getResolverInfo h r)" "reads_only (h_getResolverMeta h r)" "reads_only (h_listScopes h r)"
  by (simp_all add: reads_only_def h_getResolverInfo_def h_getResolverMeta_def h_listScopes_def)

lemma handlers_read:
  "Public_handler auth (answer_public f pimpl) ok A r s = Some (resp, s') \<Longrightarrow> reads_only (pimpl r) \<Longrightarrow> s' = s"
  "UserScope_handler auth sc (answer f uimpl) ok A r s = Some (resp, s') \<Longrightarrow> (\<And>c. reads_only (uimpl r c)) \<Longrightarrow> s' = s"
  "NamespaceScope_handler auth nsc (\<lambda>n. answer f (nimpl n)) ok A r s = Some (resp, s') \<Longrightarrow> (\<And>n c. reads_only (nimpl n r c)) \<Longrightarrow> s' = s"
  "DynamicNamespaceScope auth dsc (\<lambda>n v. answer f (dimpl n v)) ok A r s = Some (resp, s') \<Longrightarrow> (\<And>n v c. reads_only (dimpl n v r c)) \<Longrightarrow> s' = s"
  using public_changed [of auth f pimpl ok A r s resp s'] user_scope_changed [of auth sc f uimpl ok A r s resp s']
    namespace_scope_changed [of auth nsc f nimpl ok A r s resp s'] dynamic_scope_changed [of auth dsc f dimpl ok A r s resp s']
  unfolding reads_only_def by blast+

lemma reading_routes:
  "route_getResolverInfo h env r s = Some (resp, s') \<Longrightarrow> s' = s"
  "route_getResolverMeta h env r s = Some (resp, s') \<Longrightarrow> s' = s"
  "route_listScopes h env r s = Some (resp, s') \<Longrightarrow> s' = s"
  "route_listNamespaces h env r s = Some (resp, s') \<Longrightarrow> s' = s"
  "route_countAllResources h env r s = Some (resp, s') \<Longrightarrow> s' = s"
  "route_listMounts h env r s = Some (resp, s') \<Longrightarrow> s' = s"
  "route_resolveMountByBaseUri h env r s = Some (resp, s') \<Longrightarrow> s' = s"
  "route_resolveResourceByMountAndPID h env r s = Some (resp, s') \<Longrightarrow> s' = s"
  "route_getNamespace h env r s = Some (resp, s') \<Longrightarrow> s' = s"
  "route_listNamespaceMounts h env r s = Some (resp, s') \<Longrightarrow> s' = s"
  "route_listNamespaceRoles h env r s = Some (resp, s') \<Longrightarrow> s' = s"
  "route_getNamespaceRole h env r s = Some (resp, s') \<Longrightarrow> s' = s"
  "route_listResources h env r s = Some (resp, s') \<Longrightarrow> s' = s"
  "route_getResource h env r s = Some (resp, s') \<Longrightarrow> s' = s"
  "route_getUserInfo h env r s = Some (resp, s') \<Longrightarrow> s' = s"
  "route_autocompleteUsers h env r s = Some (resp, s') \<Longrightarrow> s' = s"
  "route_listUsers h env r s = Some (resp, s') \<Longrightarrow> s' = s"
  "route_getUserRoles h env r s = Some (resp, s') \<Longrightarrow> s' = s"
  "route_listOwnMountGrants h env r s = Some (resp, s') \<Longrightarrow> s' = s"
  "route_listUserKeys h env r s = Some (resp, s') \<Longrightarrow> s' = s"
  unfolding public_routes user_routes namespace_routes role_routes
  by (erule handlers_read, (unfold user_impls namespace_impls role_impls)?, (intro read_intros)[1])+

section \<open>The effect of a request\<close>

lemma deref_Ok [simp]: "deref c = Ok d \<longleftrightarrow> c = Some d"
  by (cases c) (simp_all add: deref_def)

lemma NewBaseURI_id: "NewBaseURI parse x = Ok u \<Longrightarrow> u = x"
  by (auto simp: NewBaseURI_def Let_def split: if_splits res.splits option.splits)

lemma readBaseURIParam_Ok: "readBaseURIParam parse r = Ok u \<Longrightarrow> u = rq_PathValue r ''baseUri''"
  by (auto simp: readBaseURIParam_def with_code_def split: res.splits dest: NewBaseURI_id)

text \<open>Changing a mount needs a superuser or a matching grant.\<close>

definition mount_granted :: "'s Server \<Rightarrow> env \<Rightarrow> http_request \<Rightarrow> caller option \<Rightarrow> 's \<Rightarrow> bool" where
  "mount_granted h env r c s \<longleftrightarrow>
     (\<forall>d. c = Some d \<longrightarrow> \<not> AnonymousMode (hs_svc h) \<longrightarrow> \<not> cl_superuser d \<longrightarrow>
        MountGrantMatches (hs_svc h) (env_re env) (cl_username d) (rq_PathValue r ''baseUri'') s = Some (Ok True))"

lemma wrap_result_Ok: "wrap_result x = Ok v \<longleftrightarrow> x = Ok v"
  by (cases x) (simp_all add: wrap_result_def)

lemma grant_changed:
  assumes "checkBaseUriGrant h env impl r c s = Some (res, s')" and "s' \<noteq> s"
  shows "mount_granted h env r c s \<and> impl (rq_PathValue r ''baseUri'') r c s = Some (res, s')"
proof -
  from assms obtain u where u: "readBaseURIParam (env_parse env) r = Ok u"
    by (cases "readBaseURIParam (env_parse env) r") (auto simp: checkBaseUriGrant_def seq_impl_def)
  note uri = readBaseURIParam_Ok [OF u]
  show ?thesis
  proof (cases "\<exists>d. c = Some d \<and> \<not> AnonymousMode (hs_svc h) \<and> \<not> cl_superuser d")
    case True
    then obtain d where d: "c = Some d" "\<not> AnonymousMode (hs_svc h)" "\<not> cl_superuser d" by blast
    let ?m = "MountGrantMatches (hs_svc h) (env_re env) (cl_username d) u s"
    from assms u d obtain m where m: "?m = Some m" by (cases ?m) (auto simp: checkBaseUriGrant_def seq_impl_def)
    with assms u d show ?thesis
      by (cases m) (auto simp: checkBaseUriGrant_def seq_impl_def wrap_result_def mount_granted_def uri split: if_splits)
  next
    case False
    with assms u show ?thesis
      by (auto simp: checkBaseUriGrant_def seq_impl_def mount_granted_def uri split: option.splits if_splits)
  qed
qed

lemma self_or_other_Ok:
  "self_or_other a b r c = Ok (u, sc) \<Longrightarrow> u = rq_PathValue r ''username'' \<and> sc = role_scope a b r c"
  by (auto simp: self_or_other_def role_scope_def readUsernameParam_def with_code_def bind_res_Ok_iff NewUsername_def
      split: res.splits if_splits)

definition request_allowed :: "'s Server \<Rightarrow> env \<Rightarrow> operation \<Rightarrow> http_request \<Rightarrow> caller option \<Rightarrow> 's \<Rightarrow> bool" where
  "request_allowed h env op r c s \<longleftrightarrow> scope_granted (auth_of h env) op r c s \<and>
     ((\<exists>b. op = Op_upsertNamespaceMount b) \<or> op = Op_deleteNamespaceMount \<longrightarrow> mount_granted h env r c s)"

definition request_effect :: "crypto \<Rightarrow> memory Server \<Rightarrow> env \<Rightarrow> operation \<Rightarrow> http_request \<Rightarrow> memory \<Rightarrow> memory \<Rightarrow> bool" where
  "request_effect cr h env op r s s' \<longleftrightarrow>
     (\<exists>c. resolveCaller (auth_of h env) r s = Ok c \<and> request_allowed h env op r c s \<and> mem_effect cr r c s op s')"

lemma user_effect:
  assumes "UserScope_handler (auth_of h env) sc (answer f impl) ok A r s = Some (resp, s')" and "s' \<noteq> s"
    and "\<And>c. write_scope op r c = Some (Inl sc)"
    and "\<And>c res. impl r c s = Some (res, s') \<Longrightarrow> mem_effect cr r c s op s' \<and>
      ((\<exists>b. op = Op_upsertNamespaceMount b) \<or> op = Op_deleteNamespaceMount \<longrightarrow> mount_granted h env r c s)"
  shows "request_effect cr h env op r s s'"
  using user_scope_changed [OF assms(1,2)] assms(3,4)
  unfolding request_effect_def request_allowed_def scope_granted_def by fastforce

lemma namespace_effect:
  assumes "NamespaceScope_handler (auth_of h env) sc (\<lambda>n. answer f (impl n)) ok A r s = Some (resp, s')" and "s' \<noteq> s"
    and "\<And>c. write_scope op r c = Some (Inr sc)"
    and "\<And>c res. impl (rq_PathValue r ''namespace'') r c s = Some (res, s') \<Longrightarrow> mem_effect cr r c s op s'"
    and "(\<forall>b. op \<noteq> Op_upsertNamespaceMount b) \<and> op \<noteq> Op_deleteNamespaceMount"
  shows "request_effect cr h env op r s s'"
  using namespace_scope_changed [OF assms(1,2)] assms(3-5)
  unfolding request_effect_def request_allowed_def scope_granted_def by fastforce

lemma role_effect:
  assumes "DynamicNamespaceScope (auth_of h env) (self_or_other a b) (\<lambda>n v. answer f (impl n v)) ok A r s = Some (resp, s')"
    and "s' \<noteq> s" and "\<And>c. write_scope op r c = Some (Inr (role_scope a b r c))"
    and "\<And>c res. impl (rq_PathValue r ''namespace'') (rq_PathValue r ''username'') r c s = Some (res, s') \<Longrightarrow>
      mem_effect cr r c s op s'"
    and "(\<forall>b. op \<noteq> Op_upsertNamespaceMount b) \<and> op \<noteq> Op_deleteNamespaceMount"
  shows "request_effect cr h env op r s s'"
proof -
  from dynamic_scope_changed [OF assms(1,2)] obtain c v sc res where c: "resolveCaller (auth_of h env) r s = Ok c"
    and sc: "self_or_other a b r c = Ok (v, sc)" and n: "CheckNamespaceScope (auth_of h env) (rq_PathValue r ''namespace'') c sc s = Ok ()"
    and i: "impl (rq_PathValue r ''namespace'') v r c s = Some (res, s')" by blast
  from self_or_other_Ok [OF sc] i n have "impl (rq_PathValue r ''namespace'') (rq_PathValue r ''username'') r c s = Some (res, s')"
    "CheckNamespaceScope (auth_of h env) (rq_PathValue r ''namespace'') c (role_scope a b r c) s = Ok ()" by simp_all
  with c assms(3-5) show ?thesis
    unfolding request_effect_def request_allowed_def scope_granted_def by fastforce
qed

lemma loop_effects:
  assumes "sv_backend sv = memory_backend cr" and "s' \<noteq> s"
  shows "s' = snd (svc_CreateNamespace sv c req clock s) \<Longrightarrow> mem_effect cr r c s (Op_createNamespace b) s'"
    "s' = snd (svc_CreateResource sv (rq_PathValue r ''namespace'') rreq clock s) \<Longrightarrow> mem_effect cr r c s (Op_createResource b') s'"
    "s' = snd (svc_BatchCreateResources sv (rq_PathValue r ''namespace'') reqs clock s) \<Longrightarrow>
      mem_effect cr r c s (Op_createResourceBatch b'') s'"
    "s' = snd (IssueKey sv d kreq t clock s) \<Longrightarrow> c = Some d \<Longrightarrow> mem_effect cr r c s (Op_issueUserKey b3) s'"
  using svc_loop_effects [OF assms(1)] assms(2) by (metis mem_effect.intros)+

end
