(* ===== verification/Server_Writes.thy ===== *)
theory Server_Writes
  imports Server_Effects
begin

text \<open>
  The writing routes on the in-memory backend, and with them the effect of every request: \<open>request_effects\<close>
  is what the properties of the server rest on.
\<close>

lemmas direct_effects = mem_effect.intros(2-8,11-14,16-17)

lemmas writing_dests = grant_changed seq_changed writing_changed

lemma user_writes:
  assumes "sv_backend (hs_svc h) = memory_backend cr" and "s' \<noteq> s"
  shows
    "route_createNamespace h env b1 r s = Some (resp, s') \<Longrightarrow> request_effect cr h env (Op_createNamespace b1) r s s'"
    "route_upsertNamespaceMount h env b2 r s = Some (resp, s') \<Longrightarrow> request_effect cr h env (Op_upsertNamespaceMount b2) r s s'"
    "route_deleteNamespaceMount h env r s = Some (resp, s') \<Longrightarrow> request_effect cr h env Op_deleteNamespaceMount r s s'"
    "route_setMountGrant h env b3 r s = Some (resp, s') \<Longrightarrow> request_effect cr h env (Op_setMountGrant b3) r s s'"
    "route_deleteMountGrant h env r s = Some (resp, s') \<Longrightarrow> request_effect cr h env Op_deleteMountGrant r s s'"
    "route_updateUser h env b4 r s = Some (resp, s') \<Longrightarrow> request_effect cr h env (Op_updateUser b4) r s s'"
    "route_createUser h env b5 r s = Some (resp, s') \<Longrightarrow> request_effect cr h env (Op_createUser b5) r s s'"
    "route_deleteUser h env r s = Some (resp, s') \<Longrightarrow> request_effect cr h env Op_deleteUser r s s'"
    "route_issueUserKey h env b6 r s = Some (resp, s') \<Longrightarrow> request_effect cr h env (Op_issueUserKey b6) r s s'"
    "route_setUserPassword h env b7 r s = Some (resp, s') \<Longrightarrow> request_effect cr h env (Op_setUserPassword b7) r s s'"
    "route_revokeUserKey h env b8 r s = Some (resp, s') \<Longrightarrow> request_effect cr h env (Op_revokeUserKey b8) r s s'"
  unfolding user_routes
  by (erule user_effect; use assms in \<open>(auto simp: user_impls svc_effects split: if_splits dest!: writing_dests
        intro!: direct_effects intro: loop_effects [OF assms(1)]; fail)\<close>)+

lemma namespace_writes:
  assumes "sv_backend (hs_svc h) = memory_backend cr" and "s' \<noteq> s"
  shows
    "route_updateNamespace h env b1 r s = Some (resp, s') \<Longrightarrow> request_effect cr h env (Op_updateNamespace b1) r s s'"
    "route_createResource h env b2 r s = Some (resp, s') \<Longrightarrow> request_effect cr h env (Op_createResource b2) r s s'"
    "route_createResourceBatch h env b3 r s = Some (resp, s') \<Longrightarrow> request_effect cr h env (Op_createResourceBatch b3) r s s'"
    "route_updateResource h env b4 r s = Some (resp, s') \<Longrightarrow> request_effect cr h env (Op_updateResource b4) r s s'"
  unfolding namespace_routes
  by (erule namespace_effect; use assms in \<open>(auto simp: namespace_impls svc_effects split: if_splits dest!: writing_dests
        intro!: direct_effects intro: loop_effects [OF assms(1)]; fail)\<close>)+

lemma role_writes:
  assumes "sv_backend (hs_svc h) = memory_backend cr" and "s' \<noteq> s"
  shows
    "route_setNamespaceRole h env b r s = Some (resp, s') \<Longrightarrow> request_effect cr h env (Op_setNamespaceRole b) r s s'"
    "route_removeNamespaceRole h env r s = Some (resp, s') \<Longrightarrow> request_effect cr h env Op_removeNamespaceRole r s s'"
  unfolding role_routes role_scopes
  by (erule role_effect; use assms in \<open>(auto simp: role_impls svc_effects split: if_splits dest!: writing_dests
        intro!: direct_effects; fail)\<close>)+

lemma request_effects:
  assumes "sv_backend (hs_svc h) = memory_backend cr" and "s' \<noteq> s" and "ServeHTTP h env op r s = Some (resp, s')"
  shows "request_effect cr h env op r s s'"
proof -
  note writes = user_writes [OF assms(1,2)] namespace_writes [OF assms(1,2)] role_writes [OF assms(1,2)]
  show ?thesis
    using assms(3)
    by (cases op; (simp_all only: ServeHTTP.simps)?) (erule writes | (drule reading_routes, simp add: assms(2)))+
qed

end
