(* ===== verification/Access.thy ===== *)
theory Access
  imports Server_Writes
begin

text \<open>
  Access control, end to end: which caller a request acts for, and what a request may change on the in-memory backend
  depending on the account and the role of that caller.
\<close>

section \<open>Roles and callers in a state\<close>

definition role_in :: "memory \<Rightarrow> string \<Rightarrow> string \<Rightarrow> Role" where
  "role_in s n u = (case dget (inner (mem_roles s) n) u of None \<Rightarrow> RoleNone | Some role \<Rightarrow> role)"

definition at_least :: "memory \<Rightarrow> caller \<Rightarrow> string \<Rightarrow> Role \<Rightarrow> bool" where
  "at_least s d n role \<longleftrightarrow> cl_superuser d \<or> Role_LessThan role (role_in s n (cl_username d))"

lemma ExplicitNamespaceRole_memory:
  "sv_backend sv = memory_backend cr \<Longrightarrow> ExplicitNamespaceRole sv n u s = Ok role \<Longrightarrow> role = role_in s n u"
  by (auto simp: ExplicitNamespaceRole_def mem_GetNamespaceRole_def role_in_def inner_def split: if_splits option.splits)

lemma CheckNamespaceScope_granted:
  assumes "sv_backend sv = memory_backend cr" and "\<not> AnonymousMode sv"
    and "CheckNamespaceScope (service_auth sv now) n c sc s = Ok ()"
  shows "EvaluateNamespaceScope n (case c of None \<Rightarrow> RoleNone | Some d \<Rightarrow> role_in s n (cl_username d)) c sc = None"
  using assms
  by (auto simp: CheckNamespaceScope_def service_auth_def split: option.splits res.splits
      dest: ExplicitNamespaceRole_memory [OF assms(1)])

text \<open>The rows of the scope tables for the scopes that guard changes.\<close>

lemma namespace_write_scopes:
  "EvaluateNamespaceScope n role c ScopeUpdateNamespace = None \<Longrightarrow> \<exists>d. c = Some d \<and> (cl_superuser d \<or> Role_LessThan RoleManager role)"
  "EvaluateNamespaceScope n role c ScopeCreateResource = None \<Longrightarrow> \<exists>d. c = Some d \<and> (cl_superuser d \<or> Role_LessThan RoleContributor role)"
  "EvaluateNamespaceScope n role c ScopeCreateResourceBatch = None \<Longrightarrow> \<exists>d. c = Some d \<and> (cl_superuser d \<or> Role_LessThan RoleContributor role)"
  "EvaluateNamespaceScope n role c ScopeUpdateResource = None \<Longrightarrow> \<exists>d. c = Some d \<and> (cl_superuser d \<or> Role_LessThan RoleEditor role)"
  "EvaluateNamespaceScope n role c ScopeSetNamespaceRoleSelf = None \<Longrightarrow> \<exists>d. c = Some d \<and> cl_superuser d"
  "EvaluateNamespaceScope n role c ScopeSetNamespaceRoleOther = None \<Longrightarrow> \<exists>d. c = Some d \<and> (cl_superuser d \<or> Role_LessThan RoleManager role)"
  "EvaluateNamespaceScope n role c ScopeRemoveNamespaceRoleSelf = None \<Longrightarrow> \<exists>d. c = Some d \<and> cl_superuser d"
  "EvaluateNamespaceScope n role c ScopeRemoveNamespaceRoleOther = None \<Longrightarrow> \<exists>d. c = Some d \<and> (cl_superuser d \<or> Role_LessThan RoleManager role)"
  by (cases c; simp add: EvaluateNamespaceScope_def NamespaceScope_Definition_def namespaceDefs_def namespace_def_def
      namespace_scope_names Caller_Superuser_def errRequireUser_def split: option.splits if_splits)+

lemma user_write_scopes:
  "EvaluateUserScope None sc = None \<Longrightarrow> sc \<in> {ScopeCountAllResources, ScopeResolveMountByBaseUri, ScopeGetMount}"
  "EvaluateUserScope (Some d) ScopeSetMountGrant = None \<Longrightarrow> cl_superuser d"
  "EvaluateUserScope (Some d) ScopeDeleteMountGrant = None \<Longrightarrow> cl_superuser d"
  "EvaluateUserScope (Some d) ScopeUpdateUser = None \<Longrightarrow> cl_superuser d"
  "EvaluateUserScope (Some d) ScopeCreateUser = None \<Longrightarrow> cl_superuser d"
  "EvaluateUserScope (Some d) ScopeDeleteUser = None \<Longrightarrow> cl_superuser d"
  "EvaluateUserScope (Some d) ScopeImpersonate = None \<Longrightarrow> cl_superuser d"
proof -
  show "EvaluateUserScope None sc = None \<Longrightarrow> sc \<in> {ScopeCountAllResources, ScopeResolveMountByBaseUri, ScopeGetMount}"
    unfolding EvaluateUserScope_None ex_entry by (simp add: userDefs_def user_def_def Caller_Method_def)
qed (simp_all add: EvaluateUserScope_def UserScope_Definition_def userDefs_def user_def_def
      user_scope_names Caller_Superuser_def split: option.splits if_splits)

section \<open>The caller of a request\<close>

lemma LoadUser_memory:
  assumes "sv_backend sv = memory_backend cr" and "LoadUser sv u s = Ok info"
  shows "\<exists>user. dget (mem_users s) u = Some user \<and> info = toSpec user u \<and> id_match u"
  using assms
  by (auto simp: LoadUser_def mem_GetUser_def UserInfo_Validate_def bind_res_Ok_iff toSpec_def split: res.splits option.splits)

text \<open>The request carries the credentials of the account \<open>u\<close>; \<open>m\<close> is the method of authentication.\<close>

definition authenticates :: "'s Service \<Rightarrow> time \<Rightarrow> http_request \<Rightarrow> 's \<Rightarrow> string \<Rightarrow> AuthenticationMethod \<Rightarrow> bool" where
  "authenticates sv now r s u m \<longleftrightarrow>
     (\<exists>token key. BearerToken (Parse (rq_Authorization r)) = Ok token \<and>
        AuthenticateAPIKey sv token now s = Ok (u, key) \<and> m = TokenAuthentication (Some key)) \<or>
     (\<exists>name pw. BasicAuth (Parse (rq_Authorization r)) = Ok (name, pw) \<and>
        AuthenticatePassword sv name pw s = Ok u \<and> m = BasicAuthentication)"

lemma resolveCaller_authenticates:
  assumes "resolveCaller (service_auth sv now) r s = Ok (Some c)"
  shows "\<exists>u m. authenticates sv now r s u m \<and> load_caller (service_auth sv now) r u m s = Ok (Some c)"
  using assms unfolding authenticates_def
  by (fastforce simp: resolveCaller_def Let_def service_auth_def split: Kind.splits res.splits prod.splits)

lemma load_caller_memory:
  assumes "sv_backend sv = memory_backend cr" and "load_caller (service_auth sv now) r u m s = Ok (Some c)"
  shows "\<exists>account. dget (mem_users s) u = Some account \<and>
    (if rq_Impersonate r = [] then c = UserInfo_Caller (toSpec account u) m
     else \<exists>header target user. rq_Impersonate r = [header] \<and> target = TrimSpace header \<and> ur_superuser account \<and>
       EvaluateUserScope (Some (UserInfo_Caller (toSpec account u) m)) ScopeImpersonate = None \<and>
       dget (mem_users s) target = Some user \<and> c = UserInfo_Caller (toSpec user target) (Impersonation target m))"
proof -
  from assms(2) obtain info where i: "LoadUser sv u s = Ok info"
    and c: "resolveImpersonatedUser (service_auth sv now) r (UserInfo_Caller info m) s = Ok (Some c)"
    by (auto simp: load_caller_def service_auth_def split: res.splits)
  from LoadUser_memory [OF assms(1) i] obtain account where a: "dget (mem_users s) u = Some account" "info = toSpec account u"
    by blast
  show ?thesis
  proof (cases "rq_Impersonate r")
    case Nil
    then show ?thesis using c a by (simp add: resolveImpersonatedUser_def)
  next
    case (Cons header rest)
    with c have rest: "rest = []" by (cases rest) (simp_all add: resolveImpersonatedUser_def)
    with Cons c obtain user' where e: "EvaluateUserScope (Some (UserInfo_Caller info m)) ScopeImpersonate = None"
      and u: "LoadUser sv (TrimSpace header) s = Ok user'"
      and c': "c = UserInfo_Caller user' (Impersonation (TrimSpace header) m)"
      by (auto simp: resolveImpersonatedUser_def service_auth_def Caller_Method_def UserInfo_Caller_def
          split: option.splits res.splits)
    from LoadUser_memory [OF assms(1) u] obtain user where "dget (mem_users s) (TrimSpace header) = Some user"
      "user' = toSpec user (TrimSpace header)" by blast
    moreover have "ur_superuser account"
      using user_write_scopes(7) [OF e] by (simp add: UserInfo_Caller_def a(2) toSpec_def)
    ultimately show ?thesis using Cons rest e c' a by auto
  qed
qed

lemma caller_account:
  assumes "sv_backend sv = memory_backend cr" and "resolveCaller (service_auth sv now) r s = Ok (Some c)"
  shows "\<exists>user. dget (mem_users s) (cl_username c) = Some user \<and> cl_superuser c = ur_superuser user"
  using resolveCaller_authenticates [OF assms(2)] load_caller_memory [OF assms(1)]
  by (fastforce simp: UserInfo_Caller_def toSpec_def split: if_splits)

section \<open>What the operations of the backend leave alone\<close>

lemmas mem_writes = mem_CreateUser_def mem_DeleteUser_def mem_UpdateUser_def mem_SetPassword_def mem_CreateKey_def
  mem_RevokeKey_def mem_CreateNamespace_def mem_UpdateNamespace_def mem_CreateResource_def mem_BatchCreateResources_def
  mem_UpdateResource_def mem_SetNamespaceRole_def mem_DeleteNamespaceRole_def mem_SetMount_def mem_DeleteMount_def
  mem_SetMountGrant_def mem_DeleteMountGrant_def

lemma frame_users:
  "mem_users (snd (mem_CreateNamespace n req owner now s)) = mem_users s"
  "mem_users (snd (mem_UpdateNamespace n ureq now s)) = mem_users s"
  "mem_users (snd (mem_CreateResource n p rreq now s)) = mem_users s"
  "mem_users (snd (mem_BatchCreateResources n ps rreqs now s)) = mem_users s"
  "mem_users (snd (mem_UpdateResource n p rureq now s)) = mem_users s"
  "mem_users (snd (mem_SetNamespaceRole n u role s)) = mem_users s"
  "mem_users (snd (mem_DeleteNamespaceRole n u s)) = mem_users s"
  "mem_users (snd (mem_SetMount b n s)) = mem_users s"
  "mem_users (snd (mem_DeleteMount b s)) = mem_users s"
  "mem_users (snd (mem_SetMountGrant u pat s)) = mem_users s"
  "mem_users (snd (mem_DeleteMountGrant u pat s)) = mem_users s"
  by (auto simp: mem_writes Let_def case_prod_beta split: option.splits res.splits)

lemma frame_stores:
  "mem_namespaces (snd (mem_CreateResource n p rreq now s)) = mem_namespaces s"
  "mem_namespaces (snd (mem_BatchCreateResources n ps rreqs now s)) = mem_namespaces s"
  "mem_namespaces (snd (mem_UpdateResource n p rureq now s)) = mem_namespaces s"
  "mem_resources (snd (mem_UpdateNamespace n ureq now s)) = mem_resources s"
  by (auto simp: mem_writes Let_def case_prod_beta split: option.splits res.splits)

lemma frame_roles:
  "mem_roles (snd (mem_CreateUser cu now s)) = mem_roles s"
  "mem_roles (snd (mem_UpdateUser u su s)) = mem_roles s"
  "mem_roles (snd (mem_SetPassword cr u pw s)) = mem_roles s"
  "mem_roles (snd (mem_CreateKey cr f u kid key kreq now s)) = mem_roles s"
  "mem_roles (snd (mem_RevokeKey f u kid s)) = mem_roles s"
  "mem_roles (snd (mem_UpdateNamespace n ureq now s)) = mem_roles s"
  "mem_roles (snd (mem_CreateResource n p rreq now s)) = mem_roles s"
  "mem_roles (snd (mem_BatchCreateResources n ps rreqs now s)) = mem_roles s"
  "mem_roles (snd (mem_UpdateResource n p rureq now s)) = mem_roles s"
  "mem_roles (snd (mem_SetMount b n s)) = mem_roles s"
  "mem_roles (snd (mem_DeleteMount b s)) = mem_roles s"
  "mem_roles (snd (mem_SetMountGrant u pat s)) = mem_roles s"
  "mem_roles (snd (mem_DeleteMountGrant u pat s)) = mem_roles s"
  by (auto simp: mem_writes Let_def case_prod_beta split: option.splits res.splits)

lemma frame_mounts:
  "mem_mounts (snd (mem_CreateUser cu now s)) = mem_mounts s"
  "mem_mounts (snd (mem_DeleteUser u s)) = mem_mounts s"
  "mem_mounts (snd (mem_UpdateUser u su s)) = mem_mounts s"
  "mem_mounts (snd (mem_SetPassword cr u pw s)) = mem_mounts s"
  "mem_mounts (snd (mem_CreateKey cr f u kid key kreq now s)) = mem_mounts s"
  "mem_mounts (snd (mem_RevokeKey f u kid s)) = mem_mounts s"
  "mem_mounts (snd (mem_CreateNamespace n req owner now s)) = mem_mounts s"
  "mem_mounts (snd (mem_UpdateNamespace n ureq now s)) = mem_mounts s"
  "mem_mounts (snd (mem_CreateResource n p rreq now s)) = mem_mounts s"
  "mem_mounts (snd (mem_BatchCreateResources n ps rreqs now s)) = mem_mounts s"
  "mem_mounts (snd (mem_UpdateResource n p rureq now s)) = mem_mounts s"
  "mem_mounts (snd (mem_SetNamespaceRole n u role s)) = mem_mounts s"
  "mem_mounts (snd (mem_DeleteNamespaceRole n u s)) = mem_mounts s"
  "mem_mounts (snd (mem_SetMountGrant u pat s)) = mem_mounts s"
  "mem_mounts (snd (mem_DeleteMountGrant u pat s)) = mem_mounts s"
  by (auto simp: mem_writes Let_def case_prod_beta split: option.splits res.splits)

lemma frame_grants:
  "mem_mountGrants (snd (mem_CreateUser cu now s)) = mem_mountGrants s"
  "mem_mountGrants (snd (mem_UpdateUser u su s)) = mem_mountGrants s"
  "mem_mountGrants (snd (mem_SetPassword cr u pw s)) = mem_mountGrants s"
  "mem_mountGrants (snd (mem_CreateKey cr f u kid key kreq now s)) = mem_mountGrants s"
  "mem_mountGrants (snd (mem_RevokeKey f u kid s)) = mem_mountGrants s"
  "mem_mountGrants (snd (mem_CreateNamespace n req owner now s)) = mem_mountGrants s"
  "mem_mountGrants (snd (mem_UpdateNamespace n ureq now s)) = mem_mountGrants s"
  "mem_mountGrants (snd (mem_CreateResource n p rreq now s)) = mem_mountGrants s"
  "mem_mountGrants (snd (mem_BatchCreateResources n ps rreqs now s)) = mem_mountGrants s"
  "mem_mountGrants (snd (mem_UpdateResource n p rureq now s)) = mem_mountGrants s"
  "mem_mountGrants (snd (mem_SetNamespaceRole n u role s)) = mem_mountGrants s"
  "mem_mountGrants (snd (mem_DeleteNamespaceRole n u s)) = mem_mountGrants s"
  "mem_mountGrants (snd (mem_SetMount b n s)) = mem_mountGrants s"
  "mem_mountGrants (snd (mem_DeleteMount b s)) = mem_mountGrants s"
  by (auto simp: mem_writes Let_def case_prod_beta split: option.splits res.splits)

lemmas frames = same_store frame_users frame_stores frame_roles frame_mounts frame_grants

text \<open>And where they change something.\<close>

lemma change_users:
  "dget (mem_users (snd (mem_SetPassword cr u pw s))) v \<noteq> dget (mem_users s) v \<Longrightarrow> v = u"
  "dget (mem_users (snd (mem_CreateKey cr f u kid key kreq now s))) v \<noteq> dget (mem_users s) v \<Longrightarrow> v = u"
  "dget (mem_users (snd (mem_RevokeKey f u kid s))) v \<noteq> dget (mem_users s) v \<Longrightarrow> v = u"
  by (auto simp: mem_writes Let_def dict_simps split: option.splits res.splits if_splits)

lemma keep_superuser:
  "map_option ur_superuser (dget (mem_users (snd (mem_SetPassword cr u pw s))) v) = map_option ur_superuser (dget (mem_users s) v)"
  "map_option ur_superuser (dget (mem_users (snd (mem_CreateKey cr f u kid key kreq now s))) v) = map_option ur_superuser (dget (mem_users s) v)"
  "map_option ur_superuser (dget (mem_users (snd (mem_RevokeKey f u kid s))) v) = map_option ur_superuser (dget (mem_users s) v)"
  "v \<noteq> u \<Longrightarrow> map_option ur_superuser (dget (mem_users (snd (mem_UpdateUser u su s))) v) = map_option ur_superuser (dget (mem_users s) v)"
  "v \<noteq> u \<Longrightarrow> map_option ur_superuser (dget (mem_users (snd (mem_DeleteUser u s))) v) = map_option ur_superuser (dget (mem_users s) v)"
  "dhas (mem_users s) v \<Longrightarrow>
     map_option ur_superuser (dget (mem_users (snd (mem_CreateUser cu now s))) v) = map_option ur_superuser (dget (mem_users s) v)"
  by (auto simp: mem_writes Let_def dict_simps split: option.splits res.splits if_splits)

lemma change_resources:
  "dget (inner (mem_resources (snd (mem_CreateNamespace m req owner now s))) n) p \<noteq> dget (inner (mem_resources s) n) p \<Longrightarrow>
     n = m \<and> dhas (mem_resources s) m \<and> \<not> dhas (mem_namespaces s) m"
  "dget (inner (mem_resources (snd (mem_CreateResource m q rreq now s))) n) p \<noteq> dget (inner (mem_resources s) n) p \<Longrightarrow>
     n = m \<and> \<not> dhas (inner (mem_resources s) n) p"
  "dget (inner (mem_resources (snd (mem_UpdateResource m q rureq now s))) n) p \<noteq> dget (inner (mem_resources s) n) p \<Longrightarrow> n = m"
  by (auto simp: mem_writes Let_def dict_simps inner_dset dhas_def inner_def split: option.splits res.splits if_splits)

lemma change_batch:
  assumes "dget (inner (mem_resources (snd (mem_BatchCreateResources m ps reqs now s))) n) p \<noteq> dget (inner (mem_resources s) n) p"
  shows "n = m \<and> \<not> dhas (inner (mem_resources s) n) p"
proof -
  from assms obtain byPID where b: "dget (mem_resources s) m = Some byPID" "batch_check byPID [] ps" "length ps = length reqs"
    and n: "n = m" and i: "inner (mem_resources s) m = byPID"
    and g: "dget (fst (batch_insert (rfc3339 now) (zip ps reqs) byPID [])) p \<noteq> dget byPID p"
    by (auto simp: mem_BatchCreateResources_def case_prod_beta dict_simps inner_def split: if_splits option.splits)
  from b(2) have "distinct ps" "\<forall>q \<in> set ps. \<not> dhas byPID q" by (simp_all add: batch_check_iff)
  with g b(3) n i show ?thesis
    by (auto simp: batch_insert_get dest: map_of_SomeD set_zip_leftD split: option.splits)
qed

lemma ddel_empty: "ddel v d = [] \<Longrightarrow> dget d u = Some x \<Longrightarrow> u = v"
  by (metis dget_Nil dget_ddel fun_upd_other option.distinct(1))

lemma change_roles:
  "role_in (snd (mem_CreateNamespace m req owner now s)) n u \<noteq> role_in s n u \<Longrightarrow>
     n = m \<and> \<not> dhas (mem_namespaces s) n \<and> owner = Some u"
  "role_in (snd (mem_SetNamespaceRole m v role s)) n u \<noteq> role_in s n u \<Longrightarrow> n = m \<and> u = v"
  "role_in (snd (mem_DeleteNamespaceRole m v s)) n u \<noteq> role_in s n u \<Longrightarrow> n = m \<and> u = v"
  by (auto simp: mem_writes role_in_def Let_def drop_role_def dict_simps inner_dset inner_def dhas_def
      split: option.splits res.splits if_splits dest: ddel_empty)

lemma change_namespaces:
  "dget (mem_namespaces (snd (mem_CreateNamespace m req owner now s))) n \<noteq> dget (mem_namespaces s) n \<Longrightarrow>
     n = m \<and> \<not> dhas (mem_namespaces s) n"
  "dget (mem_namespaces (snd (mem_UpdateNamespace m ureq now s))) n \<noteq> dget (mem_namespaces s) n \<Longrightarrow> n = m"
  by (auto simp: mem_writes Let_def dict_simps dhas_def split: option.splits if_splits)

lemma change_mounts:
  "dget (mem_mounts (snd (mem_SetMount b n s))) b' \<noteq> dget (mem_mounts s) b' \<Longrightarrow> b' = b"
  "dget (mem_mounts (snd (mem_DeleteMount b s))) b' \<noteq> dget (mem_mounts s) b' \<Longrightarrow> b' = b"
  by (auto simp: mem_writes Let_def dict_simps split: option.splits if_splits)

section \<open>What a change needs\<close>

fun op_guard :: "operation \<Rightarrow> http_request \<Rightarrow> memory \<Rightarrow> caller \<Rightarrow> bool" where
  "op_guard (Op_updateNamespace b) r s d = at_least s d (rq_PathValue r ''namespace'') RoleManager"
| "op_guard (Op_createResource b) r s d = at_least s d (rq_PathValue r ''namespace'') RoleContributor"
| "op_guard (Op_createResourceBatch b) r s d = at_least s d (rq_PathValue r ''namespace'') RoleContributor"
| "op_guard (Op_updateResource b) r s d = at_least s d (rq_PathValue r ''namespace'') RoleEditor"
| "op_guard (Op_setNamespaceRole b) r s d = at_least s d (rq_PathValue r ''namespace'') RoleManager"
| "op_guard Op_removeNamespaceRole r s d = at_least s d (rq_PathValue r ''namespace'') RoleManager"
| "op_guard (Op_setMountGrant b) r s d = cl_superuser d"
| "op_guard Op_deleteMountGrant r s d = cl_superuser d"
| "op_guard (Op_updateUser b) r s d = cl_superuser d"
| "op_guard (Op_createUser b) r s d = cl_superuser d"
| "op_guard Op_deleteUser r s d = cl_superuser d"
| "op_guard _ r s d = True"

lemma scope_granted_guard:
  assumes "sv_backend (hs_svc h) = memory_backend cr" and "\<not> AnonymousMode (hs_svc h)"
    and "scope_granted (auth_of h env) op r c s"
  shows "\<exists>d. c = Some d \<and> op_guard op r s d"
proof (cases "\<exists>sc. write_scope op r c = Some (Inr sc)")
  case True
  then obtain sc where sc: "write_scope op r c = Some (Inr sc)" by blast
  let ?n = "rq_PathValue r ''namespace''"
  from sc assms(3) have "CheckNamespaceScope (auth_of h env) ?n c sc s = Ok ()" by (simp add: scope_granted_def)
  note e = CheckNamespaceScope_granted [OF assms(1,2) this]
  with sc show ?thesis
    by (cases op) (auto simp: at_least_def role_scope_def split: if_splits option.splits dest!: namespace_write_scopes)
next
  case False
  with assms(3) obtain sc where sc: "write_scope op r c = Some (Inl sc)" and "CheckUserScope (auth_of h env) c sc = None"
    by (auto simp: scope_granted_def split: option.splits sum.splits)
  with assms(2) have e: "EvaluateUserScope c sc = None" by (simp add: CheckUserScope_def service_auth_def split: if_splits)
  show ?thesis
  proof (cases c)
    case None
    then show ?thesis using e sc user_write_scopes(1) [of sc] by (cases op) (auto simp: user_scope_names)
  next
    case (Some d)
    then show ?thesis using e sc user_write_scopes(2-6) [of d] by (cases op) auto
  qed
qed

lemma effect_resources:
  assumes "mem_effect cr r (Some d) s op s'" and "op_guard op r s d" and "mem_inv s"
    and "dget (inner (mem_resources s') n) p \<noteq> dget (inner (mem_resources s) n) p"
  shows "at_least s d n (if dhas (inner (mem_resources s) n) p then RoleEditor else RoleContributor)"
  using assms(1)
proof cases
  case (1 m req now)
  then have "dhas (mem_resources s) m" "\<not> dhas (mem_namespaces s) m" using assms(4) change_resources(1) by blast+
  then show ?thesis using assms(3) by (simp add: mem_inv_def resources_ok_def)
next
  case (9 b p rreq now)
  then show ?thesis using assms(2,4) change_resources(2) by fastforce
next
  case (10 b ps rreqs now)
  then show ?thesis using assms(2,4) change_batch by fastforce
next
  case (11 b p rureq now)
  have "at_least s d n RoleEditor" using 11 assms(2,4) change_resources(3) by fastforce
  then show ?thesis by (auto simp: at_least_def Role_LessThan_def)
qed (use assms(4) in \<open>simp_all add: frames\<close>)

lemma effect_roles:
  assumes "mem_effect cr r (Some d) s op s'" and "op_guard op r s d" and "role_in s' n u \<noteq> role_in s n u"
  shows "at_least s d n RoleManager \<or> \<not> dhas (mem_namespaces s) n \<and> u = cl_username d"
  using assms(1)
proof cases
  case 1
  from assms(3) [unfolded 1(2)] show ?thesis by (auto dest!: change_roles(1))
next
  case 7
  from assms(3) [unfolded 7(2)] assms(2) 7(1) show ?thesis by (auto dest!: change_roles(2))
next
  case 8
  from assms(3) [unfolded 8(2)] assms(2) 8(1) show ?thesis by (auto dest!: change_roles(3))
next
  case 14
  then show ?thesis using assms(2) by (simp add: at_least_def)
qed (use assms(3) in \<open>simp_all add: frames role_in_def\<close>)

lemma effect_namespaces:
  assumes "mem_effect cr r (Some d) s op s'" and "op_guard op r s d"
    and "dget (mem_namespaces s') n \<noteq> dget (mem_namespaces s) n" and "dhas (mem_namespaces s) n"
  shows "at_least s d n RoleManager"
  using assms(1)
  by cases (use assms(2-4) in \<open>(auto simp: frames dest!: change_namespaces; fail)+\<close>)

lemma effect_users:
  assumes "mem_effect cr r (Some d) s op s'" and "op_guard op r s d"
    and "dget (mem_users s') u \<noteq> dget (mem_users s) u" and "u \<noteq> cl_username d"
  shows "cl_superuser d"
  using assms(1)
  by cases (use assms(2-4) in \<open>(auto simp: frames dest!: change_users; fail)+\<close>)

lemma effect_superuser:
  assumes "mem_effect cr r (Some d) s op s'" and "dhas (mem_users s) (cl_username d)"
  shows "map_option ur_superuser (dget (mem_users s') (cl_username d)) = map_option ur_superuser (dget (mem_users s) (cl_username d))"
  using assms(1)
  by cases (use assms(2) in \<open>(auto simp: frames keep_superuser; fail)+\<close>)

lemma effect_grants:
  assumes "mem_effect cr r (Some d) s op s'" and "op_guard op r s d" and "mem_mountGrants s' \<noteq> mem_mountGrants s"
  shows "cl_superuser d"
  using assms(1) by cases (use assms(2,3) in \<open>simp_all add: frames\<close>)

lemma effect_mounts:
  assumes "mem_effect cr r (Some d) s op s'" and "dget (mem_mounts s') b \<noteq> dget (mem_mounts s) b"
  shows "((\<exists>b. op = Op_upsertNamespaceMount b) \<or> op = Op_deleteNamespaceMount) \<and> b = rq_PathValue r ''baseUri''"
  using assms(1)
  by cases (use assms(2) in \<open>(auto simp: frames dest!: change_mounts; fail)+\<close>)

end
