(* ===== verification/Server_Props.thy ===== *)
theory Server_Props
  imports Access
begin

text \<open>
  The properties of the HTTP interface as a whole, for every endpoint at once: the error codes it can answer with, the
  identity a request acts under, what a request may change, and that serving requests keeps the invariant of the backend.
\<close>

section \<open>A concrete server\<close>

text \<open>The account \<open>alice\<close>, manager of namespace \<open>a\<close>, with a password, and the request that presents it.\<close>

definition demo_state :: memory where
  "demo_state = snd (mem_SetPassword demo_crypto ''alice'' (Some ''pw'') demo1)"

definition demo_server :: "memory Server" where
  "demo_server = NewServer
     \<lparr>so_MountPath = ''/api'', so_DisableSwaggerUI = True, so_Limits = DefaultLimits, so_InfoEnabled = True, so_Anonymous = False,
      so_Meta = \<lparr>meta_About = [], meta_Comment = [], meta_Software = [], meta_Version = []\<rparr>, so_BackgroundInterval = 0\<rparr>
     demo_sv"

definition demo_env :: env where
  "demo_env = \<lparr>env_parse = (\<lambda>_. Err (Sentinel Foreign)),
     env_re = \<lparr>re_Compile = (\<lambda>_. None), re_MatchString = (\<lambda>p u. p = u)\<rparr>, env_now = 0, env_clock = (\<lambda>_. 0)\<rparr>"

definition demo_request :: http_request where
  "demo_request = \<lparr>rq_Authorization = [''Basic '' @ b64_encode (''alice'' @ '':'' @ ''pw'')], rq_Impersonate = [], rq_Query = [],
     rq_PathValue = (\<lambda>_. ''a'')\<rparr>"

definition demo_body :: "'a \<Rightarrow> 'a request_body" where
  "demo_body v limit = \<lparr>jb_First = Ok False, jb_Seek = None, jb_Value = Ok v, jb_Next = Some (Sentinel ErrEOF), jb_Close = None\<rparr>"

lemma demo_state_eq: "demo_state = demo1\<lparr>mem_users := [(''alice'', \<lparr>ur_superuser = False,
    ur_passwordHash = 1 # map (of_nat \<circ> of_char) ''pw'', ur_keys = []\<rparr>)]\<rparr>"
  by (simp add: demo_state_def mem_SetPassword_def demo1_eq dget_def dset_def password_Hash_def demo_crypto_def)

lemma demo_state_reachable: "reachable demo_state"
  unfolding demo_state_def by (rule reach_step [OF demo_reachable(2) step_SetPassword])

lemma demo_server_simps [simp]: "hs_svc demo_server = demo_sv"
  by (simp add: demo_server_def NewServer_def)

lemma demo_caller:
  "resolveCaller (auth_of demo_server demo_env) demo_request demo_state =
     Ok (Some \<lparr>cl_username = ''alice'', cl_superuser = False, cl_password = True, cl_method = Some BasicAuthentication\<rparr>)"
proof -
  have p: "Parse (rq_Authorization demo_request) =
      zero_credentials\<lparr>crd_basic := True, crd_basicUsername := ''alice'', crd_basicPassword := ''pw''\<rparr>"
    using Parse_schemes(2) [of "''Bearer ''" "''Basic ''" "[]" "''alice''" "''pw''"]
    by (simp add: demo_request_def bearer_prefix_def basic_prefix_def lower_ascii_def byte_def runes_ascii)
  have i: "rq_Impersonate demo_request = []" by (simp add: demo_request_def)
  have "id_match ''alice''" by (simp add: id_match_def id_chars_def)
  then show ?thesis
    by (simp add: resolveCaller_def p Credentials_Kind_def BasicAuth_def zero_credentials_def service_auth_def
        AuthenticatePassword_def NewUsername_def NewPassword_def mem_CheckPassword_def demo_state_eq demo1_eq dget_def
        password_Verify_def demo_crypto_def load_caller_def LoadUser_def mem_GetUser_def toSpec_def UserInfo_Validate_def
        resolveImpersonatedUser_def i UserInfo_Caller_def)
qed

section \<open>Errors\<close>

text \<open>
  C7. The declared error codes are complete. Whatever the backend, the request and the state: when an endpoint answers,
  the handler did not panic for an error without a code, and it did not panic for an error whose code the
  endpoint does not declare, except for \<^verbatim>\<open>UserNotFound\<close> in the two endpoints that list and issue API keys.
\<close>

theorem declared_errors:
  assumes "ServeHTTP h env op r s = Some (resp, s')"
  shows "resp \<noteq> Panicked NoErrorCode \<and>
    (\<forall>c. resp = Panicked (UnexpectedError c) \<longrightarrow>
       c = UserNotFound \<and> (op = Op_listUserKeys \<or> (\<exists>b. op = Op_issueUserKey b)))"
proof -
  have "response_ok (if op = Op_listUserKeys \<or> (\<exists>b. op = Op_issueUserKey b) then {UserNotFound} else {}) resp"
    using assms
    by (cases op) (simp_all add: public_routes_ok user_routes_ok namespace_routes_ok role_routes_ok)
  then show ?thesis by (auto simp: response_ok_def split: if_splits)
qed

theorem declared_errors_witness:
  "\<exists>resp s'. ServeHTTP demo_server demo_env Op_listScopes demo_request demo_state = Some (resp, s') \<and> resp \<noteq> Panicked NoErrorCode"
proof -
  obtain resp s' where "ServeHTTP demo_server demo_env Op_listScopes demo_request demo_state = Some (resp, s')"
    by (simp add: route_listScopes_def Public_handler_def handle_def handle_impl_def answer_public_def h_listScopes_def)
  with declared_errors [OF this] show ?thesis by blast
qed

section \<open>The caller\<close>

text \<open>
  C6. A request acts for the account whose credentials it carries. When the caller of a request is resolved over the in-memory
  backend, the request carries an API key or a password that authenticates an existing account; without the
  impersonation header the caller is that account, and with it the account is a superuser that
  holds the scope for impersonation and the caller is the existing account that the header names.
\<close>

theorem caller_authentic:
  assumes "sv_backend sv = memory_backend cr" and "resolveCaller (service_auth sv now) r s = Ok (Some c)"
  shows "\<exists>u m account. authenticates sv now r s u m \<and> dget (mem_users s) u = Some account \<and>
    (if rq_Impersonate r = [] then c = UserInfo_Caller (toSpec account u) m
     else \<exists>header target user. rq_Impersonate r = [header] \<and> target = TrimSpace header \<and> ur_superuser account \<and>
       EvaluateUserScope (Some (UserInfo_Caller (toSpec account u) m)) ScopeImpersonate = None \<and>
       dget (mem_users s) target = Some user \<and> c = UserInfo_Caller (toSpec user target) (Impersonation target m))"
  using resolveCaller_authenticates [OF assms(2)] load_caller_memory [OF assms(1)] by meson

theorem caller_authentic_witness:
  "\<exists>u m. authenticates demo_sv 0 demo_request demo_state u m"
  using caller_authentic [OF demo_sv_simps(1), of 0 demo_request demo_state] demo_caller
  by (fastforce simp: demo_env_def)

section \<open>Changes\<close>

text \<open>
  C4. Access control. Without anonymous mode, a request that changes anything has an authenticated caller, and what
  it changes depends on the account: a resource is added only by a superuser or a contributor of its namespace, and
  changed only by an editor; roles and the data of a namespace are changed only by a manager, apart from the role that the
  creator of a new namespace gets; other accounts and mount grants only by a superuser; nobody changes the own superuser
  status; a mount only by a superuser or a user whose grant matches its base URI.
\<close>

theorem access_control:
  assumes "sv_backend (hs_svc h) = memory_backend cr" and "\<not> AnonymousMode (hs_svc h)" and "reachable s"
    and "ServeHTTP h env op r s = Some (resp, s')" and "s' \<noteq> s"
  shows "\<exists>d. resolveCaller (auth_of h env) r s = Ok (Some d) \<and>
    (\<forall>n p. dget (inner (mem_resources s') n) p \<noteq> dget (inner (mem_resources s) n) p \<longrightarrow>
       at_least s d n (if dhas (inner (mem_resources s) n) p then RoleEditor else RoleContributor)) \<and>
    (\<forall>n u. role_in s' n u \<noteq> role_in s n u \<longrightarrow>
       at_least s d n RoleManager \<or> \<not> dhas (mem_namespaces s) n \<and> u = cl_username d) \<and>
    (\<forall>n. dhas (mem_namespaces s) n \<longrightarrow> dget (mem_namespaces s') n \<noteq> dget (mem_namespaces s) n \<longrightarrow>
       at_least s d n RoleManager) \<and>
    (\<forall>u. u \<noteq> cl_username d \<longrightarrow> dget (mem_users s') u \<noteq> dget (mem_users s) u \<longrightarrow> cl_superuser d) \<and>
    map_option ur_superuser (dget (mem_users s') (cl_username d)) = map_option ur_superuser (dget (mem_users s) (cl_username d)) \<and>
    (mem_mountGrants s' \<noteq> mem_mountGrants s \<longrightarrow> cl_superuser d) \<and>
    (\<forall>b. dget (mem_mounts s') b \<noteq> dget (mem_mounts s) b \<longrightarrow> cl_superuser d \<or>
       MountGrantMatches (hs_svc h) (env_re env) (cl_username d) b s = Some (Ok True))"
proof -
  from request_effects [OF assms(1,5,4)] obtain c where c: "resolveCaller (auth_of h env) r s = Ok c"
    and a: "scope_granted (auth_of h env) op r c s"
    and m: "(\<exists>b. op = Op_upsertNamespaceMount b) \<or> op = Op_deleteNamespaceMount \<longrightarrow> mount_granted h env r c s"
    and e: "mem_effect cr r c s op s'"
    by (auto simp: request_effect_def request_allowed_def)
  from scope_granted_guard [OF assms(1,2) a] obtain d where d: "c = Some d" and g: "op_guard op r s d" by blast
  note e = e [unfolded d] and c = c [unfolded d]
  have u: "dhas (mem_users s) (cl_username d)" using caller_account [OF assms(1) c] by (auto simp: dhas_iff)
  have mt: "cl_superuser d \<or> MountGrantMatches (hs_svc h) (env_re env) (cl_username d) b s = Some (Ok True)"
    if "dget (mem_mounts s') b \<noteq> dget (mem_mounts s) b" for b
    using effect_mounts [OF e that] m assms(2) by (auto simp: mount_granted_def d)
  show ?thesis
    using c effect_resources [OF e g reachable_inv [OF assms(3)]] effect_roles [OF e g] effect_namespaces [OF e g]
      effect_users [OF e g] effect_superuser [OF e u] effect_grants [OF e g] mt
    by blast
qed

text \<open>The request with which \<open>alice\<close> clears her password.\<close>

lemma demo_clear:
  "ServeHTTP demo_server demo_env (Op_setUserPassword (demo_body None)) demo_request demo_state =
     Some (Response 200 (Some (Inl (RPassword False))), demo1) \<and> demo1 \<noteq> demo_state"
proof -
  have sc: "EvaluateUserScope (Some \<lparr>cl_username = ''alice'', cl_superuser = False, cl_password = True, cl_method = Some BasicAuthentication\<rparr>)
      ScopeSetUserPassword = None"
    by (simp add: EvaluateUserScope_def UserScope_Definition_def userDefs_def user_def_def user_scope_names
        Caller_Method_def Caller_Superuser_def)
  show ?thesis
    using demo_caller
    by (simp add: route_setUserPassword_def UserScope_handler_def dynamicUserScope_def handle_def handle_impl_def
        user_scope_impl_def CheckUserScope_def service_auth_def sc answer_def h_setUserPassword_def decodeJSON_def
        UnmarshalStrictTo_def mustNotBeNull_def demo_body_def seq_impl_def with_code_def SetPasswordRequest_Validate_def
        deref_def writing_def SetUserPassword_def mem_SetPassword_def demo_state_eq demo1_eq dget_def dset_def
        wrap_result_def FixedStatusCode_def writeJSONResponse_def Let_def)
qed

theorem access_control_witness:
  "\<exists>d. resolveCaller (auth_of demo_server demo_env) demo_request demo_state = Ok (Some d) \<and>
     map_option ur_superuser (dget (mem_users demo1) (cl_username d)) =
       map_option ur_superuser (dget (mem_users demo_state) (cl_username d))"
proof -
  note c = demo_clear [THEN conjunct1] and ne = demo_clear [THEN conjunct2]
  have "sv_backend (hs_svc demo_server) = memory_backend demo_crypto" "\<not> AnonymousMode (hs_svc demo_server)" by simp_all
  from access_control [OF this demo_state_reachable c ne] show ?thesis by blast
qed

section \<open>Requests without credentials\<close>

text \<open>The endpoints that answer without authentication: three public ones, and the five guarded by an open scope.\<close>

definition open_operations :: "operation set" where
  "open_operations = {Op_getResolverInfo, Op_getResolverMeta, Op_listScopes, Op_countAllResources, Op_resolveMountByBaseUri,
     Op_resolveResourceByMountAndPID, Op_getNamespace, Op_getResource}"

definition refusals :: "api_response http_response set" where
  "refusals = {Response 401 (Some (Inr Unauthorized)), Response 400 (Some (Inr InvalidNamespaceID)),
     Response 400 (Some (Inr InvalidUsername))}"

lemma resolveCaller_empty: "rq_Authorization r = [] \<Longrightarrow> resolveCaller auth r s = Ok None"
  by (simp add: resolveCaller_def Parse_def Credentials_Kind_def zero_credentials_def)

lemma handle_refused:
  assumes "handle auth True impl ok A r s = Some (resp, s')" and "rq_Authorization r = []"
    and "\<exists>e. impl r None s = Some (Err e, s) \<and>
      (\<exists>c \<in> set A \<inter> {Unauthorized, InvalidNamespaceID, InvalidUsername}. GetErrorCode e = Some c)"
  shows "resp \<in> refusals \<and> s' = s"
  using assms
  by (auto simp: handle_def resolveCaller_empty handle_impl_def writeHandledError_def writeJSONResponse_def refusals_def HTTPCode_def)

lemma user_scope_refused:
  assumes "UserScope_handler (service_auth sv now) sc impl ok A r s = Some (resp, s')" and "rq_Authorization r = []"
    and "\<not> AnonymousMode sv" and "sc \<notin> {ScopeCountAllResources, ScopeResolveMountByBaseUri, ScopeGetMount}"
    and "Unauthorized \<in> set A"
  shows "resp \<in> refusals \<and> s' = s"
proof -
  obtain e where e: "EvaluateUserScope None sc = Some e" using user_write_scopes(1) [of sc] assms(4) by blast
  then have "GetErrorCode e = Some Unauthorized"
    by (auto simp: EvaluateUserScope_def errRequireUser_def Caller_Method_def split: res.splits option.splits if_splits)
  with e assms(3,5) show ?thesis
    by (intro handle_refused [OF assms(1) [unfolded UserScope_handler_def dynamicUserScope_def] assms(2)])
      (simp add: user_scope_impl_def CheckUserScope_def service_auth_def)
qed

lemma namespace_refusal:
  assumes "EvaluateNamespaceScope n RoleNone None sc \<noteq> None" and "\<not> AnonymousMode sv"
  shows "\<exists>e. CheckNamespaceScope (service_auth sv now) n None sc s = Err e \<and> GetErrorCode e = Some Unauthorized"
proof -
  from assms(1) obtain e where e: "EvaluateNamespaceScope n RoleNone None sc = Some e" by blast
  then have "GetErrorCode e = Some Unauthorized"
    by (auto simp: EvaluateNamespaceScope_def errRequireUser_def Caller_Method_def split: res.splits option.splits if_splits)
  with e assms(2) show ?thesis by (simp add: CheckNamespaceScope_def service_auth_def)
qed

lemma dynamic_scope_refused:
  assumes "DynamicNamespaceScope (service_auth sv now) scope impl ok A r s = Some (resp, s')" and "rq_Authorization r = []"
    and "\<not> AnonymousMode sv"
    and "(\<exists>e. scope r None = Err e \<and> GetErrorCode e = Some InvalidUsername) \<or>
      (\<exists>v sc. scope r None = Ok (v, sc) \<and> (\<forall>n. EvaluateNamespaceScope n RoleNone None sc \<noteq> None))"
    and "Unauthorized \<in> set A" and "InvalidNamespaceID \<in> set A"
    and "InvalidUsername \<in> set A \<or> (\<exists>x. scope r None = Ok x)"
  shows "resp \<in> refusals \<and> s' = s"
proof (rule handle_refused [OF assms(1) [unfolded DynamicNamespaceScope_def] assms(2)], goal_cases)
  case 1
  show ?case
  proof (cases "scope r None")
    case (Ok x)
    then obtain v sc where x: "scope r None = Ok (v, sc)" and sc: "\<And>n. EvaluateNamespaceScope n RoleNone None sc \<noteq> None"
      using assms(4) by auto
    show ?thesis
    proof (cases "id_match (rq_PathValue r ''namespace'')")
      case True
      then show ?thesis
        using x namespace_refusal [OF sc [of "rq_PathValue r ''namespace''"] assms(3), of now s] assms(5)
        by (auto simp: namespace_scope_impl_def readNamespaceParam_def NewNamespaceID_def)
    qed (use x assms(6) in \<open>simp add: namespace_scope_impl_def readNamespaceParam_def NewNamespaceID_def\<close>)
  qed (use assms(4,7) in \<open>auto simp: namespace_scope_impl_def\<close>)
qed

lemma self_or_other_refused:
  "(\<exists>e. self_or_other a b r None = Err e \<and> GetErrorCode e = Some InvalidUsername) \<or> (\<exists>v. self_or_other a b r None = Ok (v, b))"
  by (simp add: self_or_other_def readUsernameParam_def with_code_def NewUsername_def Caller_Username_def)

lemma closed_scopes:
  "EvaluateNamespaceScope n role None sc \<noteq> None \<longleftrightarrow> sc \<notin> {ScopeGetNamespace, ScopeGetResource}"
  unfolding EvaluateNamespaceScope_None ex_entry
  by (simp add: namespaceDefs_def namespace_def_def Caller_Method_def)

lemma namespace_scope_refused:
  assumes "NamespaceScope_handler (service_auth sv now) sc impl ok A r s = Some (resp, s')" and "rq_Authorization r = []"
    and "\<not> AnonymousMode sv" and "sc \<notin> {ScopeGetNamespace, ScopeGetResource}"
    and "Unauthorized \<in> set A" and "InvalidNamespaceID \<in> set A"
  shows "resp \<in> refusals \<and> s' = s"
  using assms(1) unfolding NamespaceScope_handler_def
  by (rule dynamic_scope_refused [OF _ assms(2,3)]) (use assms(4-6) closed_scopes in auto)

lemma role_scope_refused:
  assumes "DynamicNamespaceScope (service_auth sv now) (self_or_other a b) impl ok A r s = Some (resp, s')"
    and "rq_Authorization r = []" and "\<not> AnonymousMode sv" and "b \<notin> {ScopeGetNamespace, ScopeGetResource}"
    and "{Unauthorized, InvalidNamespaceID, InvalidUsername} \<subseteq> set A"
  shows "resp \<in> refusals \<and> s' = s"
  using assms(1)
proof (rule dynamic_scope_refused [OF _ assms(2,3)])
  show "(\<exists>e. self_or_other a b r None = Err e \<and> GetErrorCode e = Some InvalidUsername) \<or>
      (\<exists>v sc. self_or_other a b r None = Ok (v, sc) \<and> (\<forall>n. EvaluateNamespaceScope n RoleNone None sc \<noteq> None))"
    using self_or_other_refused [of a b r] closed_scopes assms(4) by blast
qed (use assms(5) in auto)

text \<open>
  C5. Without credentials nothing but the open endpoints works. On a server that is not in anonymous mode, whatever the backend: a
  request without an \<^verbatim>\<open>Authorization\<close> header leaves the state as it is, and unless the endpoint is one of the
  eight open ones, it is answered with 401 Unauthorized, or with 400 when the namespace or the user name in
  the path is malformed.
\<close>

theorem unauthenticated_requests:
  assumes "\<not> AnonymousMode (hs_svc h)" and "rq_Authorization r = []" and "ServeHTTP h env op r s = Some (resp, s')"
  shows "s' = s \<and> (op \<notin> open_operations \<longrightarrow> resp \<in> refusals)"
proof (cases "op \<in> open_operations")
  case True
  then show ?thesis using assms(3) by (auto simp: open_operations_def dest: reading_routes)
next
  case False
  note refused = user_scope_refused [OF _ assms(2,1)] namespace_scope_refused [OF _ assms(2,1)]
    role_scope_refused [OF _ assms(2,1)]
  from False assms(3) have "resp \<in> refusals \<and> s' = s"
    by (cases op; (simp_all only: ServeHTTP.simps user_routes namespace_routes role_routes role_scopes)?)
      (simp add: open_operations_def; fail | erule refused, (simp add: user_scope_names namespace_scope_names; fail)+)+
  then show ?thesis by simp
qed

theorem unauthenticated_requests_witness:
  "\<exists>resp. ServeHTTP demo_server demo_env Op_listUsers (demo_request\<lparr>rq_Authorization := []\<rparr>) demo_state = Some (resp, demo_state) \<and>
     resp \<in> refusals"
proof -
  let ?r = "demo_request\<lparr>rq_Authorization := []\<rparr>"
  obtain resp s' where "ServeHTTP demo_server demo_env Op_listUsers ?r demo_state = Some (resp, s')"
    by (simp add: route_listUsers_def UserScope_handler_def dynamicUserScope_def handle_def handle_impl_def resolveCaller_empty
        user_scope_impl_def CheckUserScope_def service_auth_def EvaluateUserScope_def UserScope_Definition_def userDefs_def
        user_def_def user_scope_names Caller_Method_def)
  with unauthenticated_requests [OF _ _ this] show ?thesis by (auto simp: open_operations_def)
qed

section \<open>Anonymous mode\<close>

lemma resolveCaller_anonymous:
  "AnonymousMode sv \<Longrightarrow> resolveCaller (service_auth sv now) r s = Ok c \<Longrightarrow> c = None"
  by (auto simp: resolveCaller_def Let_def service_auth_def AuthenticateAPIKey_def AuthenticatePassword_def
      split: Kind.splits res.splits prod.splits)

lemma anonymous_refused:
  "EvaluateAnonymousModeUserScope ScopeSetMountGrant \<noteq> None" "EvaluateAnonymousModeUserScope ScopeDeleteMountGrant \<noteq> None"
  "EvaluateAnonymousModeNamespaceScope n ScopeSetNamespaceRoleOther \<noteq> None"
  "EvaluateAnonymousModeNamespaceScope n ScopeRemoveNamespaceRoleOther \<noteq> None"
  by (simp_all add: EvaluateAnonymousModeUserScope_def UserScope_Definition_def userDefs_def user_def_def user_scope_names
      EvaluateAnonymousModeNamespaceScope_def NamespaceScope_Definition_def namespaceDefs_def namespace_def_def
      namespace_scope_names)

text \<open>
  C34. Anonymous mode has no accounts. In anonymous mode a request with credentials never gets to the implementation of an
  endpoint, and no request changes accounts, keys, roles or mount grants, whoever sends it: they are
  the same when authentication is switched on again.
\<close>

theorem anonymous_mode:
  assumes "sv_backend (hs_svc h) = memory_backend cr" and "AnonymousMode (hs_svc h)"
    and "ServeHTTP h env op r s = Some (resp, s')"
  shows "mem_users s' = mem_users s \<and> mem_roles s' = mem_roles s \<and> mem_mountGrants s' = mem_mountGrants s \<and>
    (\<forall>c. resolveCaller (auth_of h env) r s = Ok c \<longrightarrow> c = None)"
proof (cases "s' = s")
  case True
  then show ?thesis using resolveCaller_anonymous [OF assms(2)] by simp
next
  case False
  from request_effects [OF assms(1) False assms(3)] obtain c where c: "resolveCaller (auth_of h env) r s = Ok c"
    and g: "scope_granted (auth_of h env) op r c s" and e: "mem_effect cr r c s op s'"
    by (auto simp: request_effect_def request_allowed_def)
  have none: "c = None" using c resolveCaller_anonymous [OF assms(2)] by blast
  have ro: "mem_roles (snd (mem_CreateNamespace n req None now s)) = mem_roles s" for n req now
    by (simp add: mem_CreateNamespace_def Let_def)
  from e [unfolded none] have "mem_users s' = mem_users s \<and> mem_roles s' = mem_roles s \<and> mem_mountGrants s' = mem_mountGrants s"
    by cases (use g none assms(2) anonymous_refused(1,2) anonymous_refused(3,4) [of "rq_PathValue r ''namespace''"] in \<open>auto simp: frames ro scope_granted_def CheckUserScope_def
        CheckNamespaceScope_def service_auth_def role_scope_def Caller_Username_def split: option.splits\<close>)
  then show ?thesis using resolveCaller_anonymous [OF assms(2)] by simp
qed

theorem anonymous_mode_witness:
  "\<exists>h resp s'. AnonymousMode (hs_svc h) \<and> ServeHTTP h demo_env Op_listScopes demo_request demo_state = Some (resp, s') \<and>
     mem_users s' = mem_users demo_state"
proof -
  define h where "h = demo_server\<lparr>hs_svc := demo_sv\<lparr>sv_opts := (sv_opts demo_sv)\<lparr>opt_Anonymous := True\<rparr>\<rparr>\<rparr>"
  have h: "AnonymousMode (hs_svc h)" "sv_backend (hs_svc h) = memory_backend demo_crypto"
    by (simp_all add: h_def AnonymousMode_def)
  obtain resp s' where r: "ServeHTTP h demo_env Op_listScopes demo_request demo_state = Some (resp, s')"
    by (simp add: route_listScopes_def Public_handler_def handle_def handle_impl_def answer_public_def h_listScopes_def)
  from anonymous_mode [OF h(2,1) r] r h(1) show ?thesis by blast
qed

section \<open>Sequences of requests\<close>

lemma effect_step: "mem_effect cr r c s op s' \<Longrightarrow> mem_step s s'"
  by (cases rule: mem_effect.cases) (auto intro: mem_step.intros)

text \<open>Requests one after the other, with any options in between, on one in-memory backend.\<close>

inductive http_run :: "crypto \<Rightarrow> memory \<Rightarrow> memory \<Rightarrow> bool" for cr where
  run_start: "http_run cr s s"
| run_request: "http_run cr s s' \<Longrightarrow> sv_backend (hs_svc h) = memory_backend cr \<Longrightarrow>
    ServeHTTP h env op r s' = Some (resp, s'') \<Longrightarrow> http_run cr s s''"

lemma request_step:
  assumes "sv_backend (hs_svc h) = memory_backend cr" and "ServeHTTP h env op r s = Some (resp, s')"
  shows "mem_step\<^sup>*\<^sup>* s s'"
proof (cases "s' = s")
  case False
  then show ?thesis using request_effects [OF assms(1) False assms(2)] effect_step by (auto simp: request_effect_def)
qed simp

lemma run_steps: "http_run cr s s' \<Longrightarrow> mem_step\<^sup>*\<^sup>* s s'"
  by (induction rule: http_run.induct) (auto dest: request_step)

lemma reachable_steps: "mem_step\<^sup>*\<^sup>* s s' \<Longrightarrow> reachable s \<Longrightarrow> reachable s'"
  by (induction rule: rtranclp_induct) (auto intro: reach_step)

text \<open>
  C8. The server refines the backend. Every sequence of HTTP requests, whatever they contain and whoever sends them, is a sequence of
  backend operations. So every state that the server gets to satisfies the invariant of the backend, and a resource that resolves keeps
  resolving under the same identifier and creation date, whatever requests follow.
\<close>

theorem server_refinement:
  assumes "http_run cr s s'" and "reachable s"
  shows "mem_step\<^sup>*\<^sup>* s s' \<and> reachable s' \<and> mem_inv s' \<and>
    (\<forall>n p r. mem_GetResource n p s = Ok r \<longrightarrow>
       (\<exists>r'. mem_GetResource n p s' = Ok r' \<and> rr_PID r' = rr_PID r \<and> rr_DateCreated r' = rr_DateCreated r))"
proof -
  note st = run_steps [OF assms(1)]
  have "reachable s'" using reachable_steps [OF st assms(2)] .
  then show ?thesis using st reachable_inv res_at_steps [OF st] by (simp add: res_at_def)
qed

theorem server_refinement_witness: "mem_step\<^sup>*\<^sup>* demo_state demo1 \<and> mem_inv demo1"
proof -
  have "http_run demo_crypto demo_state demo1"
    by (rule run_request [OF run_start, of demo_server]) (simp, rule demo_clear [THEN conjunct1])
  from server_refinement [OF this demo_state_reachable] show ?thesis by simp
qed

section \<open>A caller that is deleted during the request\<close>

text \<open>
  C40. A request can outlive its account. The caller of a request is resolved before the implementation runs, with no lock in between. When
  a superuser deletes the account in between, listing the keys of the account fails with \<^verbatim>\<open>UserNotFound\<close>, a
  code that the endpoint does not declare, and the handler panics.
\<close>

theorem deleted_caller_panics:
  assumes "sv_backend (hs_svc h) = memory_backend cr" and "\<not> AnonymousMode (hs_svc h)"
    and "resolveCaller (auth_of h env) r s = Ok (Some d)" and "EvaluateUserScope (Some d) ScopeListUserKeys = None"
    and "parsePagination (hs_svc h) r = Ok (limit, offset)" and "0 \<le> InternalPageLimit (limits (hs_svc h))"
    and "s1 = snd (mem_DeleteUser (cl_username d) s)"
  shows "handle_impl (user_scope_impl (auth_of h env) (\<lambda>_ _. Ok ((), ScopeListUserKeys)) (\<lambda>_. answer RKeys (h_listUserKeys h env)))
      (FixedStatusCode 200) [InvalidQueryParameter, Unauthorized, Forbidden, UnavailableInAnonymousMode, DatabaseError]
      r (Some d) s1 = Some (Panicked (UnexpectedError UserNotFound), s1)"
proof -
  have "dget (mem_users s1) (cl_username d) = None"
    by (auto simp: assms(7) mem_DeleteUser_def dict_simps dhas_def)
  then have "Filter
        (\<lambda>l off. case mem_ListKeys apiKeyFormat (Some (cl_username d)) l off s1 of
             Ok result \<Rightarrow> Ok (pg_Items result) | Err e \<Rightarrow> Err (Fmt [e]) | Panic \<Rightarrow> Panic)
        cond (InternalPageLimit (limits (hs_svc h))) limit offset = Some (Err (Fmt [Fmt [Sentinel ErrUserNotFound]]))" for cond
    using assms(6) by (simp add: Filter_def filter_pages.simps mem_ListKeys_def)
  then show ?thesis
    using assms(1,2,4,5)
    by (simp add: handle_impl_def user_scope_impl_def CheckUserScope_def service_auth_def answer_def h_listUserKeys_def
        seq_impl_def deref_def searching_def svc_ListKeys_def listValidKeys_def wrap_result_def translate_def writeHandledError_def)
qed

theorem deleted_caller_panics_witness:
  "\<exists>d. resolveCaller (auth_of demo_server demo_env) demo_request demo_state = Ok (Some d) \<and>
     (let s1 = snd (mem_DeleteUser (cl_username d) demo_state) in
      handle_impl (user_scope_impl (auth_of demo_server demo_env) (\<lambda>_ _. Ok ((), ScopeListUserKeys))
          (\<lambda>_. answer RKeys (h_listUserKeys demo_server demo_env)))
        (FixedStatusCode 200) [InvalidQueryParameter, Unauthorized, Forbidden, UnavailableInAnonymousMode, DatabaseError]
        demo_request (Some d) s1 = Some (Panicked (UnexpectedError UserNotFound), s1))"
proof -
  have sc: "EvaluateUserScope (Some \<lparr>cl_username = ''alice'', cl_superuser = False, cl_password = True, cl_method = Some BasicAuthentication\<rparr>)
      ScopeListUserKeys = None"
    by (simp add: EvaluateUserScope_def UserScope_Definition_def userDefs_def user_def_def user_scope_names
        Caller_Method_def Caller_Superuser_def)
  obtain limit offset where p: "parsePagination (hs_svc demo_server) demo_request = Ok (limit, offset)"
    by (auto simp: parsePagination_def read_int_def query_Has_def demo_request_def Let_def)
  show ?thesis
    using deleted_caller_panics [OF _ _ demo_caller sc p _ refl] demo_caller by (simp add: Let_def)
qed

section \<open>Pagination\<close>

text \<open>What the listing of a window computes for any limit and offset that are not negative.\<close>

lemma paginate_cases:
  assumes "0 \<le> l" "l \<le> max_int" "0 \<le> off" "off \<le> max_int"
  shows "paginate all l off =
    (if off < int (length all) \<and> max_int < off + l then Panic
     else Ok \<lparr>pg_Total = int (length all), pg_Offset = off, pg_Items = page_window all l off\<rparr>)"
proof (cases "off < int (length all) \<and> max_int < off + l")
  case True
  have "(off + l + 2 ^ 63) mod 2 ^ 64 = (off + l + 2 ^ 63 - 2 ^ 64) mod 2 ^ 64" by (simp only: minus_mod_self2)
  also have "\<dots> = off + l + 2 ^ 63 - 2 ^ 64"
    using True assms by (intro mod_pos_pos_trivial) (simp_all add: max_int_def)
  finally have "wrap_int (off + l) < 0" using assms by (simp add: wrap_int_def max_int_def)
  with True show ?thesis by (simp add: paginate_def Let_def go_slice_def)
next
  case False
  then show ?thesis
  proof (cases "int (length all) \<le> off")
    case True
    with False show ?thesis by (simp add: paginate_def page_window_def)
  next
    case less: False
    with False assms show ?thesis using paginate_window [of l off all] by auto
  qed
qed

text \<open>
  C35. Pagination parameters are in range. With normalised limits, a limit and an offset that are read from the query are
  non-negative 64-bit integers, and the limit does not exceed the configured maximum, if there is one. A listing with them is exactly the requested window,
  unless the offset lies in the list and its sum with the limit overflows: then it panics. With a positive maximum and a list whose length
  stays below the largest integer by that maximum, the listing is always the window.
\<close>

theorem pagination_bounds:
  fixes all :: "'a list"
  assumes "limits sv = WithValidValues lim" and "lim_DefaultPageLimit lim \<le> max_int" and "parsePagination sv r = Ok (l, off)"
  shows "0 \<le> l \<and> l \<le> max_int \<and> 0 \<le> off \<and> off \<le> max_int \<and>
    (paginate all l off :: (gerr, 'a page) res) =
      (if off < int (length all) \<and> max_int < off + l then Panic
       else Ok \<lparr>pg_Total = int (length all), pg_Offset = off, pg_Items = page_window all l off\<rparr>) \<and>
    (0 < lim_MaxPageLimit lim \<longrightarrow> l \<le> lim_MaxPageLimit lim \<and>
      (int (length all) + lim_MaxPageLimit lim \<le> max_int \<longrightarrow>
        (paginate all l off :: (gerr, 'a page) res) = Ok \<lparr>pg_Total = int (length all), pg_Offset = off, pg_Items = page_window all l off\<rparr>))"
proof -
  have atoi: "v \<le> max_int" if "Atoi x = Ok v" for x v
    using that by (auto simp: Atoi_def Let_def split: if_splits prod.splits list.splits)
  have ri: "0 \<le> v \<and> v \<le> max_int" if "read_int r a b c unset = Ok v" "0 \<le> unset" "unset \<le> max_int" for a b c unset v
    using that atoi by (auto simp: read_int_def split: if_splits res.splits)
  from assms(3) obtain l0 where l0: "read_int r ''limit'' ''errLimitInvalid'' ''errLimitMustBeNonNegative'' (lim_DefaultPageLimit (limits sv)) = Ok l0"
    and o: "read_int r ''offset'' ''errOffsetInvalid'' ''errOffsetMustBeNonNegative'' 0 = Ok off"
    and l: "l = (if lim_MaxPageLimit (limits sv) > 0 \<and> l0 > lim_MaxPageLimit (limits sv) then lim_MaxPageLimit (limits sv) else l0)"
    by (auto simp: parsePagination_def bind_res_Ok_iff Let_def)
  have "0 \<le> l0 \<and> l0 \<le> max_int"
    using ri [OF l0] assms(1,2) by (simp add: WithValidValues_def max_int_def split: if_splits)
  moreover have "0 \<le> off \<and> off \<le> max_int" using ri [OF o] by (simp add: max_int_def)
  moreover have mx: "0 < lim_MaxPageLimit lim \<Longrightarrow> lim_MaxPageLimit (limits sv) = lim_MaxPageLimit lim"
    using assms(1) by (simp add: WithValidValues_def)
  ultimately have b: "0 \<le> l \<and> l \<le> max_int \<and> 0 \<le> off \<and> off \<le> max_int \<and> (0 < lim_MaxPageLimit lim \<longrightarrow> l \<le> lim_MaxPageLimit lim)"
    by (auto simp: l)
  moreover have p: "(paginate all l off :: (gerr, 'a page) res) =
      (if off < int (length all) \<and> max_int < off + l then Panic
       else Ok \<lparr>pg_Total = int (length all), pg_Offset = off, pg_Items = page_window all l off\<rparr>)"
    using b by (intro paginate_cases) simp_all
  moreover have "(paginate all l off :: (gerr, 'a page) res) = Ok \<lparr>pg_Total = int (length all), pg_Offset = off, pg_Items = page_window all l off\<rparr>"
    if "0 < lim_MaxPageLimit lim" "int (length all) + lim_MaxPageLimit lim \<le> max_int"
    using that b p by auto
  ultimately show ?thesis by blast
qed

theorem pagination_bounds_witness:
  "\<exists>l off. parsePagination demo_sv (demo_request\<lparr>rq_Query := [(''limit'', ''5000''), (''offset'', ''7'')]\<rparr>) = Ok (l, off) \<and>
     l \<le> 1000"
proof -
  let ?r = "demo_request\<lparr>rq_Query := [(''limit'', ''5000''), (''offset'', ''7'')]\<rparr>"
  have p: "\<exists>l off. parsePagination demo_sv ?r = Ok (l, off)"
    by (simp add: parsePagination_def read_int_def query_Has_def query_Get_def Atoi_def digits_value_def is_digit_def byte_def
        max_int_def Let_def)
  then obtain l off where lo: "parsePagination demo_sv ?r = Ok (l, off)" by blast
  let ?lim = "DefaultLimits\<lparr>lim_MaxPIDAttempts := 2, lim_MaxNamespaceIDAttempts := 2, lim_MaxAPIKeyAttempts := 2\<rparr>"
  have "limits demo_sv = WithValidValues ?lim" by (simp add: demo_sv_def Service_New_def withValidValues_def)
  from pagination_bounds [OF this _ lo, of "[0::nat]"] have "l \<le> 1000" by (auto simp: DefaultLimits_def max_int_def)
  with lo show ?thesis by blast
qed

end
