(* ===== verification/Seekzero.thy ===== *)
theory Seekzero
  imports Errors
begin

text \<open>
  The package \<^verbatim>\<open>internal/seekzero\<close>: a reader that can be rewound once. It keeps a copy of what is read, and after the
  rewind it serves the copy first. Strict JSON decoding reads a body twice through it. A reader of the world is a
  function from its state and the size of the buffer to the bytes read, an error, and the next state; the
  locale \<open>byte_source\<close> is the contract of \<^verbatim>\<open>io.Reader\<close> that the package relies on.
\<close>

section \<open>Readers\<close>

type_synonym 'r raw_reader = "'r \<Rightarrow> nat \<Rightarrow> string \<times> gerr option \<times> 'r"

text \<open>A plain reader, a reader that can seek by itself, and a \<^verbatim>\<open>OnceSeekStartReader\<close> with its flag, its buffer and its reader.\<close>

datatype 'r io_reader = Plain 'r | Seeker 'r | Once bool string "'r io_reader"

definition NewOnceSeekStartReader :: "'r io_reader \<Rightarrow> 'r io_reader" where
  "NewOnceSeekStartReader reader = Once False [] reader"

fun MakeOnceSeekable :: "'r io_reader \<Rightarrow> 'r io_reader" where
  "MakeOnceSeekable (Seeker r) = Seeker r"
| "MakeOnceSeekable (Plain r) = NewOnceSeekStartReader (Plain r)"
| "MakeOnceSeekable (Once did buffer reader) = NewOnceSeekStartReader (Once did buffer reader)"

definition wrapReadError :: "gerr option \<Rightarrow> gerr option" where
  "wrapReadError err =
     (case err of
        None \<Rightarrow> None
      | Some e \<Rightarrow> if e = Sentinel ErrEOF then Some e else Some (Fmt [e]))"

fun io_Read :: "'r raw_reader \<Rightarrow> 'r io_reader \<Rightarrow> nat \<Rightarrow> string \<times> gerr option \<times> 'r io_reader" where
  "io_Read rd (Plain r) n = (case rd r n of (bs, e, r') \<Rightarrow> (bs, e, Plain r'))"
| "io_Read rd (Seeker r) n = (case rd r n of (bs, e, r') \<Rightarrow> (bs, e, Seeker r'))"
| "io_Read rd (Once didSeekToZero buffer reader) n =
     (if \<not> didSeekToZero
      then (case io_Read rd reader n of (bs, e, reader') \<Rightarrow> (bs, wrapReadError e, Once didSeekToZero (buffer @ bs) reader'))
      else if 0 < length buffer
      then (take n buffer, None, Once didSeekToZero (drop n buffer) reader)
      else (case io_Read rd reader n of (bs, e, reader') \<Rightarrow> (bs, wrapReadError e, Once didSeekToZero buffer reader')))"

text \<open>The seek operations only touch the flag \<^verbatim>\<open>didSeekToZero\<close>.\<close>

definition SeekToStart :: "bool \<Rightarrow> gerr option \<times> bool" where
  "SeekToStart didSeekToZero =
     (if didSeekToZero then (Some (Sentinel (Named ''errAlreadySoughtOnce'')), didSeekToZero) else (None, True))"

definition Seek :: "int \<Rightarrow> int \<Rightarrow> bool \<Rightarrow> gerr option \<times> bool" where
  "Seek offset whence didSeekToZero =
     (if whence = 0 \<and> offset = 0 then SeekToStart didSeekToZero
      else (Some (Sentinel (Named ''errInvalidSeek'')), didSeekToZero))"

definition SeekToOffset :: "int \<Rightarrow> bool \<Rightarrow> gerr option \<times> bool" where
  "SeekToOffset offset didSeekToZero =
     (if didSeekToZero then (Some (Sentinel (Named ''errAlreadySoughtOnce'')), didSeekToZero) else (None, True))"

text \<open>A sequence of reads with the given buffer sizes.\<close>

fun io_reads :: "'r raw_reader \<Rightarrow> 'r io_reader \<Rightarrow> nat list \<Rightarrow> string \<times> 'r io_reader" where
  "io_reads rd st [] = ([], st)"
| "io_reads rd st (n # ns) =
     (case io_Read rd st n of (bs, e, st') \<Rightarrow> (case io_reads rd st' ns of (cs, st'') \<Rightarrow> (bs @ cs, st'')))"

section \<open>The contract of a reader\<close>

text \<open>What is still to be read, given what a reader of the world has left.\<close>

primrec io_content :: "('r \<Rightarrow> string) \<Rightarrow> 'r io_reader \<Rightarrow> string" where
  "io_content content (Plain r) = content r"
| "io_content content (Seeker r) = content r"
| "io_content content (Once did buffer reader) =
     (if did then buffer @ io_content content reader else io_content content reader)"

locale byte_source =
  fixes read :: "'r raw_reader" and content :: "'r \<Rightarrow> string"
  assumes read_content: "read r n = (bs, e, r') \<Longrightarrow> content r = bs @ content r'"
    and read_bound: "read r n = (bs, e, r') \<Longrightarrow> length bs \<le> n"
begin

lemma io_Read_content:
  "io_Read read st n = (bs, e, st') \<Longrightarrow> io_content content st = bs @ io_content content st' \<and> length bs \<le> n"
proof (induction st arbitrary: bs e st')
  case (Once did buffer st)
  then show ?case by (force split: if_splits prod.splits)
qed (auto split: prod.splits dest: read_content read_bound)

lemma io_reads_content: "io_reads read st ns = (bs, st') \<Longrightarrow> io_content content st = bs @ io_content content st'"
proof (induction ns arbitrary: st bs st')
  case (Cons n ns)
  obtain b e st1 where r: "io_Read read st n = (b, e, st1)" by (metis prod_cases3)
  obtain cs st2 where rs: "io_reads read st1 ns = (cs, st2)" by fastforce
  with Cons.prems r have "bs = b @ cs" "st' = st2" by auto
  with Cons.IH [OF rs] io_Read_content [OF r] show ?case by simp
qed simp

text \<open>Before the rewind the buffer has everything that was read.\<close>

lemma io_reads_buffer:
  "io_reads read (Once False buffer reader) ns = (bs, st') \<Longrightarrow>
     \<exists>reader'. st' = Once False (buffer @ bs) reader' \<and> io_content content reader = bs @ io_content content reader'"
proof (induction ns arbitrary: buffer reader bs st')
  case (Cons n ns)
  obtain b e reader1 where r: "io_Read read reader n = (b, e, reader1)" by (metis prod_cases3)
  obtain cs st2 where rs: "io_reads read (Once False (buffer @ b) reader1) ns = (cs, st2)" by fastforce
  with Cons.prems r have bs: "bs = b @ cs" "st' = st2" by auto
  from Cons.IH [OF rs] obtain reader' where "st2 = Once False ((buffer @ b) @ cs) reader'"
    "io_content content reader1 = cs @ io_content content reader'" by blast
  with bs io_Read_content [OF r] show ?case by simp
qed simp

end

text \<open>A reader over a byte slice, as \<^verbatim>\<open>bytes.NewReader\<close> makes it.\<close>

definition bytes_Read :: "string raw_reader" where
  "bytes_Read data n = (if data = [] then ([], Some (Sentinel ErrEOF), []) else (take n data, None, drop n data))"

interpretation bytes_reader: byte_source bytes_Read "\<lambda>data. data"
  by unfold_locales (auto simp: bytes_Read_def split: if_splits)

section \<open>The property\<close>

text \<open>
  C33. A rewound reader starts again. After any reads, of any sizes, through the wrapper of a plain reader, the first seek to
  the start succeeds; what is read afterwards, in any portions, is a prefix of the whole input from its beginning, and what is not
  yet read is the rest of it: no byte is lost or doubled. A second seek fails and changes nothing, and so does a
  seek to anywhere else.
\<close>

theorem rewind_rereads:
  assumes "byte_source read content" and "io_reads read (MakeOnceSeekable (Plain r)) ns = (bs, st1)"
  shows "\<exists>reader. st1 = Once False bs reader \<and> Seek 0 0 False = (None, True) \<and>
    io_content content (Once True bs reader) = content r \<and>
    (\<forall>ms cs st2. io_reads read (Once True bs reader) ms = (cs, st2) \<longrightarrow>
       content r = cs @ io_content content st2) \<and>
    (\<forall>offset whence. fst (Seek offset whence True) \<noteq> None \<and> snd (Seek offset whence True)) \<and>
    (\<forall>offset whence. (offset, whence) \<noteq> (0, 0) \<longrightarrow> fst (Seek offset whence False) \<noteq> None \<and> \<not> snd (Seek offset whence False))"
proof -
  note c = byte_source.io_reads_buffer [OF assms(1), of "[]" "Plain r" ns bs st1]
  from c assms(2) obtain reader where r: "st1 = Once False bs reader" and
    k: "content r = bs @ io_content content reader"
    by (auto simp: NewOnceSeekStartReader_def)
  have w: "io_content content (Once True bs reader) = content r"
    by (simp add: k)
  have "content r = cs @ io_content content st2" if "io_reads read (Once True bs reader) ms = (cs, st2)" for ms cs st2
    using byte_source.io_reads_content [OF assms(1) that] w by simp
  then show ?thesis using r w by (auto simp: Seek_def SeekToStart_def)
qed

theorem rewind_rereads_witness:
  "\<exists>reader. io_reads bytes_Read (MakeOnceSeekable (Plain ''hello'')) [2, 1] = (''hel'', Once False ''hel'' reader) \<and>
     io_content (\<lambda>data. data) (Once True ''hel'' reader) = ''hello''"
proof -
  have "io_reads bytes_Read (MakeOnceSeekable (Plain ''hello'')) [2, 1] = (''hel'', Once False ''hel'' (Plain ''lo''))"
    by (simp add: NewOnceSeekStartReader_def bytes_Read_def wrapReadError_def)
  from rewind_rereads [OF bytes_reader.byte_source_axioms this] this show ?thesis by auto
qed

end
