(* ===== verification/Json_Decode.thy ===== *)
theory Json_Decode
  imports Requests
begin

text \<open>
  Decoding of request bodies below the level of the handlers: the types of \<^verbatim>\<open>internal/strict\<close> and the methods
  \<^verbatim>\<open>UnmarshalJSON\<close> of the requests in \<^verbatim>\<open>api\<close> and \<^verbatim>\<open>pid\<close>. A method gets one syntactically correct JSON value; the errors of
  the tokenizer, which it cannot cause, are left out. The members of an object are
  kept in order with their duplicates; of several wrong members, the model reports the first in the order of the struct and the
  library the first in the order of the text. The theorems characterise exactly which values decode, and connect the
  decoders to the bodies that the handlers read.
\<close>

section \<open>JSON values (standard library)\<close>

datatype json = JNull | JBool bool | JNumber string | JString string | JArray "json list" | JObject "(string \<times> json) list"

text \<open>The errors of the JSON library itself.\<close>

definition json_error :: gerr where
  "json_error = Sentinel Foreign"

text \<open>\<^verbatim>\<open>json.Unmarshal\<close> into a \<^verbatim>\<open>*string\<close>.\<close>

definition Unmarshal_stringptr :: "json \<Rightarrow> (gerr, string option) res" where
  "Unmarshal_stringptr v = (case v of JNull \<Rightarrow> Ok None | JString s \<Rightarrow> Ok (Some s) | _ \<Rightarrow> Err json_error)"

text \<open>
  \<^verbatim>\<open>json.UnmarshalDecode\<close> into a struct, rejecting unknown members: the value is an object, its names are
  distinct and known; null leaves the struct as it is. \<open>Unmarshal_member\<close> then decodes one field of type \<^verbatim>\<open>strict.Optional\<close>, which is absent if no member
  has its name.
\<close>

definition Unmarshal_struct :: "string list \<Rightarrow> json \<Rightarrow> (gerr, (string \<times> json) list) res" where
  "Unmarshal_struct names v =
     (case v of
        JObject members \<Rightarrow>
          if distinct (map fst members) \<and> set (map fst members) \<subseteq> set names then Ok members else Err json_error
      | JNull \<Rightarrow> Ok []
      | _ \<Rightarrow> Err json_error)"

section \<open>Strict types (internal/strict)\<close>

definition Optional_UnmarshalJSON :: "(json \<Rightarrow> (gerr, 'a) res) \<Rightarrow> json \<Rightarrow> (gerr, 'a option) res" where
  "Optional_UnmarshalJSON unmarshal data =
     (case unmarshal data of Ok value \<Rightarrow> Ok (Some value) | Err e \<Rightarrow> Err (Fmt [e]) | Panic \<Rightarrow> Panic)"

definition Unmarshal_member :: "(json \<Rightarrow> (gerr, 'a) res) \<Rightarrow> string \<Rightarrow> (string \<times> json) list \<Rightarrow> (gerr, 'a option) res" where
  "Unmarshal_member unmarshal name members =
     (case map_of members name of None \<Rightarrow> Ok None | Some v \<Rightarrow> Optional_UnmarshalJSON unmarshal v)"

definition String_UnmarshalJSON :: "json \<Rightarrow> (gerr, string) res" where
  "String_UnmarshalJSON data = (case data of JString s \<Rightarrow> Ok s | _ \<Rightarrow> Err (Sentinel (Named ''errNotAString'')))"

definition Bool_UnmarshalJSON :: "json \<Rightarrow> (gerr, bool) res" where
  "Bool_UnmarshalJSON data = (case data of JBool b \<Rightarrow> Ok b | _ \<Rightarrow> Err (Sentinel (Named ''errNotABoolean'')))"

text \<open>The parser of RFC 3339 time stamps is that of the standard library.\<close>

type_synonym time_parser = "string \<Rightarrow> (gerr, time) res"

definition Time_UnmarshalJSON :: "time_parser \<Rightarrow> json \<Rightarrow> (gerr, time) res" where
  "Time_UnmarshalJSON time_Parse data =
     (case String_UnmarshalJSON data of
        Err e \<Rightarrow> Err e
      | Panic \<Rightarrow> Panic
      | Ok s \<Rightarrow>
          (case time_Parse s of
             Err e \<Rightarrow> Err (Fmt [Sentinel (Named ''errNotRFC3339''), e])
           | Panic \<Rightarrow> Panic
           | Ok parsed \<Rightarrow> Ok parsed))"

text \<open>A pointer to a decodable type: null is the nil pointer.\<close>

definition Unmarshal_ptr :: "(json \<Rightarrow> (gerr, 'a) res) \<Rightarrow> json \<Rightarrow> (gerr, 'a option) res" where
  "Unmarshal_ptr unmarshal data =
     (if data = JNull then Ok None
      else case unmarshal data of Ok v \<Rightarrow> Ok (Some v) | Err e \<Rightarrow> Err e | Panic \<Rightarrow> Panic)"

text \<open>The loop over the elements of an array.\<close>

fun slice_loop :: "(json \<Rightarrow> (gerr, 'a) res) \<Rightarrow> json list \<Rightarrow> 'a list \<Rightarrow> (gerr, 'a list) res" where
  "slice_loop unmarshal [] out = Ok out"
| "slice_loop unmarshal (v # vs) out =
     (case unmarshal v of
        Err e \<Rightarrow> Err e
      | Panic \<Rightarrow> Panic
      | Ok elem \<Rightarrow> slice_loop unmarshal vs (out @ [elem]))"

definition slice_UnmarshalJSON :: "(json \<Rightarrow> (gerr, 'a) res) \<Rightarrow> json \<Rightarrow> (gerr, 'a list) res" where
  "slice_UnmarshalJSON unmarshal data =
     (case data of JArray vs \<Rightarrow> slice_loop unmarshal vs [] | _ \<Rightarrow> Err (Sentinel (Named ''errNotAnArray'')))"

definition StringSlice_UnmarshalJSON :: "json \<Rightarrow> (gerr, string list) res" where
  "StringSlice_UnmarshalJSON = slice_UnmarshalJSON (\<lambda>v. wrap_result (String_UnmarshalJSON v))"

definition UnmarshalStrict :: "(json \<Rightarrow> (gerr, 'a) res) \<Rightarrow> json \<Rightarrow> (gerr, 'a) res" where
  "UnmarshalStrict unmarshal data =
     UnmarshalStrictTo \<lparr>jb_First = Ok (data = JNull), jb_Seek = None, jb_Value = unmarshal data,
       jb_Next = Some (Sentinel ErrEOF), jb_Close = None\<rparr>"

section \<open>Requests (api, pid)\<close>

text \<open>
  \<open>unmarshal_fields\<close> is the common start of the methods: the strict decoding of the members, with the error wrapped;
  \<open>required\<close> is the test for a missing field.
\<close>

definition errFailedToUnmarshalFields :: gerr where
  "errFailedToUnmarshalFields = Sentinel (Named ''errFailedToUnmarshalFields'')"

definition unmarshal_fields ::
  "gerr list \<Rightarrow> string list \<Rightarrow> ((string \<times> json) list \<Rightarrow> (gerr, 'a) res) \<Rightarrow> json \<Rightarrow> (gerr, 'a) res" where
  "unmarshal_fields wrap names members data =
     (case UnmarshalStrict (\<lambda>v. bind_res (Unmarshal_struct names v) members) data of
        Err e \<Rightarrow> Err (Fmt (wrap @ [e])) | Panic \<Rightarrow> Panic | Ok x \<Rightarrow> Ok x)"

definition required :: "string \<Rightarrow> 'a option \<Rightarrow> (gerr, 'a) res" where
  "required name field =
     (case field of None \<Rightarrow> Err (Sentinel (Named (''missingRequiredField:'' @ name))) | Some v \<Rightarrow> Ok v)"

definition Format_UnmarshalJSON :: "json \<Rightarrow> (gerr, pid_format) res" where
  "Format_UnmarshalJSON data =
     bind_res (unmarshal_fields [] [''pattern'', ''characters'']
         (\<lambda>m. bind_res (Unmarshal_member String_UnmarshalJSON ''pattern'' m) (\<lambda>pattern.
            bind_res (Unmarshal_member String_UnmarshalJSON ''characters'' m) (\<lambda>characters. Ok (pattern, characters)))) data)
       (\<lambda>(p, c).
          bind_res (required ''pattern'' p) (\<lambda>pattern.
          bind_res (required ''characters'' c) (\<lambda>characters.
            let f = \<lparr>fmt_Pattern = pattern, fmt_Characters = characters\<rparr> in
            case Format_Validate f of Some e \<Rightarrow> Err (Fmt [e]) | None \<Rightarrow> Ok f)))"

definition NamespaceCreateRequest_UnmarshalJSON :: "json \<Rightarrow> (gerr, NamespaceCreateRequest) res" where
  "NamespaceCreateRequest_UnmarshalJSON data =
     bind_res (unmarshal_fields [errFailedToUnmarshalFields] [''tags'', ''pidFormat'']
         (\<lambda>m. bind_res (Unmarshal_member StringSlice_UnmarshalJSON ''tags'' m) (\<lambda>tags.
            bind_res (Unmarshal_member Format_UnmarshalJSON ''pidFormat'' m) (\<lambda>format. Ok (tags, format)))) data)
       (\<lambda>(t, f).
          bind_res (required ''tags'' t) (\<lambda>tags.
          bind_res (required ''pidFormat'' f) (\<lambda>format.
            case Format_Validate format of
              Some e \<Rightarrow> Err (Fmt [Sentinel (Named ''errInvalidPIDFormat''), e])
            | None \<Rightarrow> Ok \<lparr>ncr_Tags = tags, ncr_PIDFormat = format\<rparr>)))"

definition NamespaceUpdateRequest_UnmarshalJSON :: "json \<Rightarrow> (gerr, NamespaceUpdateRequest) res" where
  "NamespaceUpdateRequest_UnmarshalJSON data =
     bind_res (unmarshal_fields [] [''tags''] (Unmarshal_member StringSlice_UnmarshalJSON ''tags'') data)
       (\<lambda>tags. Ok \<lparr>nur_Tags = tags\<rparr>)"

definition ResourceCreateRequest_UnmarshalJSON :: "json \<Rightarrow> (gerr, ResourceCreateRequest) res" where
  "ResourceCreateRequest_UnmarshalJSON data =
     bind_res (unmarshal_fields [errFailedToUnmarshalFields] [''url'', ''metadata'', ''tags'']
         (\<lambda>m. bind_res (Unmarshal_member Unmarshal_stringptr ''url'' m) (\<lambda>url.
            bind_res (Unmarshal_member Unmarshal_stringptr ''metadata'' m) (\<lambda>metadata.
            bind_res (Unmarshal_member StringSlice_UnmarshalJSON ''tags'' m) (\<lambda>tags. Ok (url, metadata, tags))))) data)
       (\<lambda>(u, m, t).
          bind_res (required ''url'' u) (\<lambda>url.
          bind_res (required ''metadata'' m) (\<lambda>metadata.
          bind_res (required ''tags'' t) (\<lambda>tags. Ok \<lparr>rcr_URL = url, rcr_Metadata = metadata, rcr_Tags = tags\<rparr>))))"

text \<open>
  \<^verbatim>\<open>json.UnmarshalDecode\<close> into the \<^verbatim>\<open>[]api.ResourceCreateRequest\<close> of a batch: null is the nil slice, and the elements of an array are decoded by their
  method, null included.
\<close>

definition Unmarshal_createBatch :: "json \<Rightarrow> (gerr, ResourceCreateRequest list) res" where
  "Unmarshal_createBatch data =
     (case data of
        JNull \<Rightarrow> Ok []
      | JArray vs \<Rightarrow> slice_loop (\<lambda>v. wrap_result (ResourceCreateRequest_UnmarshalJSON v)) vs []
      | _ \<Rightarrow> Err json_error)"

definition ResourceUpdateRequest_UnmarshalJSON :: "json \<Rightarrow> (gerr, ResourceUpdateRequest) res" where
  "ResourceUpdateRequest_UnmarshalJSON data =
     bind_res (unmarshal_fields [] [''url'', ''metadata'', ''tags'', ''deleted'']
         (\<lambda>m. bind_res (Unmarshal_member Unmarshal_stringptr ''url'' m) (\<lambda>url.
            bind_res (Unmarshal_member Unmarshal_stringptr ''metadata'' m) (\<lambda>metadata.
            bind_res (Unmarshal_member StringSlice_UnmarshalJSON ''tags'' m) (\<lambda>tags.
            bind_res (Unmarshal_member Bool_UnmarshalJSON ''deleted'' m) (\<lambda>deleted. Ok (url, metadata, tags, deleted)))))) data)
       (\<lambda>(url, metadata, tags, deleted).
          Ok \<lparr>rur_URL = url, rur_Metadata = metadata, rur_Tags = tags, rur_Deleted = deleted\<rparr>)"

definition MountUpsertRequest_UnmarshalJSON :: "json \<Rightarrow> (gerr, string) res" where
  "MountUpsertRequest_UnmarshalJSON data =
     bind_res (unmarshal_fields [errFailedToUnmarshalFields] [''namespace''] (Unmarshal_member String_UnmarshalJSON ''namespace'') data)
       (required ''namespace'')"

definition MountGrantRequest_UnmarshalJSON :: "json \<Rightarrow> (gerr, string) res" where
  "MountGrantRequest_UnmarshalJSON data =
     bind_res (unmarshal_fields [errFailedToUnmarshalFields] [''pattern''] (Unmarshal_member String_UnmarshalJSON ''pattern'') data)
       (required ''pattern'')"

definition SetNamespaceRoleRequest_UnmarshalJSON :: "json \<Rightarrow> (gerr, Role) res" where
  "SetNamespaceRoleRequest_UnmarshalJSON data =
     bind_res (unmarshal_fields [errFailedToUnmarshalFields] [''role''] (Unmarshal_member String_UnmarshalJSON ''role'') data)
       (\<lambda>r. bind_res (required ''role'' r) (\<lambda>role.
          if Role_Validate role \<noteq> None then Err (Fmt [Sentinel (Named ''errInvalidRole'')]) else Ok role))"

definition UserCreateRequest_UnmarshalJSON :: "json \<Rightarrow> (gerr, UserCreateRequest) res" where
  "UserCreateRequest_UnmarshalJSON data =
     bind_res (unmarshal_fields [] [''username'', ''superuser'']
         (\<lambda>m. bind_res (Unmarshal_member String_UnmarshalJSON ''username'' m) (\<lambda>username.
            bind_res (Unmarshal_member Bool_UnmarshalJSON ''superuser'' m) (\<lambda>superuser. Ok (username, superuser)))) data)
       (\<lambda>(u, superuser).
          bind_res (required ''username'' u) (\<lambda>username.
            Ok \<lparr>ucr_Username = username, ucr_Superuser = (case superuser of None \<Rightarrow> False | Some b \<Rightarrow> b)\<rparr>))"

definition UserUpdateRequest_UnmarshalJSON :: "json \<Rightarrow> (gerr, bool option) res" where
  "UserUpdateRequest_UnmarshalJSON data =
     unmarshal_fields [] [''superuser''] (Unmarshal_member Bool_UnmarshalJSON ''superuser'') data"

definition SetPasswordRequest_UnmarshalJSON :: "json \<Rightarrow> (gerr, string option) res" where
  "SetPasswordRequest_UnmarshalJSON data =
     bind_res (unmarshal_fields [] [''password''] (Unmarshal_member Unmarshal_stringptr ''password'') data)
       (required ''password'')"

definition KeyRevokeRequest_UnmarshalJSON :: "json \<Rightarrow> (gerr, string) res" where
  "KeyRevokeRequest_UnmarshalJSON data =
     bind_res (unmarshal_fields [errFailedToUnmarshalFields] [''id''] (Unmarshal_member String_UnmarshalJSON ''id'') data)
       (required ''id'')"

text \<open>One grant of the list \<^verbatim>\<open>namespaceScopes\<close>; null for an element leaves both fields absent.\<close>

definition grant_UnmarshalJSON :: "json \<Rightarrow> (gerr, APIKeyNamespaceScope) res" where
  "grant_UnmarshalJSON v =
     bind_res (if v = JNull then Ok (None, None)
       else wrap_result (bind_res (Unmarshal_struct [''namespace'', ''scope''] v) (\<lambda>m.
         bind_res (Unmarshal_member String_UnmarshalJSON ''namespace'' m) (\<lambda>namespace.
         bind_res (Unmarshal_member String_UnmarshalJSON ''scope'' m) (\<lambda>scope. Ok (namespace, scope))))))
       (\<lambda>(n, sc).
          bind_res (required ''namespace'' n) (\<lambda>namespace.
          bind_res (required ''scope'' sc) (\<lambda>scope. Ok \<lparr>kns_Namespace = namespace, kns_Scope = scope\<rparr>)))"

definition apiKeyNamespaceScopeSlice_UnmarshalJSON :: "json \<Rightarrow> (gerr, APIKeyNamespaceScope list) res" where
  "apiKeyNamespaceScopeSlice_UnmarshalJSON = slice_UnmarshalJSON grant_UnmarshalJSON"

definition KeyIssueRequest_UnmarshalJSON :: "time_parser \<Rightarrow> json \<Rightarrow> (gerr, KeyIssueRequest) res" where
  "KeyIssueRequest_UnmarshalJSON time_Parse data =
     bind_res (unmarshal_fields [errFailedToUnmarshalFields] [''comment'', ''expiresAt'', ''userScopes'', ''namespaceScopes'']
         (\<lambda>m. bind_res (Unmarshal_member String_UnmarshalJSON ''comment'' m) (\<lambda>comment.
            bind_res (Unmarshal_member (Unmarshal_ptr (Time_UnmarshalJSON time_Parse)) ''expiresAt'' m) (\<lambda>expiresAt.
            bind_res (Unmarshal_member StringSlice_UnmarshalJSON ''userScopes'' m) (\<lambda>userScopes.
            bind_res (Unmarshal_member apiKeyNamespaceScopeSlice_UnmarshalJSON ''namespaceScopes'' m) (\<lambda>namespaceScopes.
              Ok (comment, expiresAt, userScopes, namespaceScopes)))))) data)
       (\<lambda>(c, e, us, nss).
          bind_res (required ''comment'' c) (\<lambda>comment.
          bind_res (required ''expiresAt'' e) (\<lambda>expiresAt.
          bind_res (required ''userScopes'' us) (\<lambda>userScopes.
          bind_res (required ''namespaceScopes'' nss) (\<lambda>namespaceScopes.
            Ok \<lparr>kir_Comment = comment, kir_ExpiresAt = expiresAt, kir_UserScopes = userScopes,
              kir_NamespaceScopes = namespaceScopes\<rparr>)))))"

section \<open>What decodes\<close>

lemma required_Ok [simp]: "required name f = Ok v \<longleftrightarrow> f = Some v"
  by (simp add: required_def split: option.splits)

lemma Unmarshal_member_Ok:
  "Unmarshal_member dec name m = Ok x \<longleftrightarrow>
     (case x of None \<Rightarrow> map_of m name = None | Some y \<Rightarrow> \<exists>v. map_of m name = Some v \<and> dec v = Ok y)"
  by (auto simp: Unmarshal_member_def Optional_UnmarshalJSON_def split: option.splits res.splits)

lemma UnmarshalStrict_Ok: "UnmarshalStrict dec v = Ok x \<longleftrightarrow> v \<noteq> JNull \<and> dec v = Ok x"
  by (auto simp: UnmarshalStrict_def UnmarshalStrictTo_def mustNotBeNull_def split: res.splits)

lemma Unmarshal_struct_Ok:
  "Unmarshal_struct names v = Ok m \<longleftrightarrow>
     v = JNull \<and> m = [] \<or> v = JObject m \<and> distinct (map fst m) \<and> set (map fst m) \<subseteq> set names"
  by (auto simp: Unmarshal_struct_def split: json.splits)

lemma unmarshal_fields_Ok:
  "unmarshal_fields wrap names dec v = Ok x \<longleftrightarrow>
     (\<exists>m. v = JObject m \<and> distinct (map fst m) \<and> set (map fst m) \<subseteq> set names \<and> dec m = Ok x)"
proof -
  have "unmarshal_fields wrap names dec v = Ok x \<longleftrightarrow> UnmarshalStrict (\<lambda>v. bind_res (Unmarshal_struct names v) dec) v = Ok x"
    by (simp add: unmarshal_fields_def split: res.splits)
  then show ?thesis
    unfolding UnmarshalStrict_Ok bind_res_Ok_iff Unmarshal_struct_Ok by auto
qed

text \<open>The JSON values of the fields.\<close>

definition json_opt :: "string option \<Rightarrow> json" where
  "json_opt x = (case x of None \<Rightarrow> JNull | Some s \<Rightarrow> JString s)"

definition json_strings :: "string list \<Rightarrow> json" where
  "json_strings xs = JArray (map JString xs)"

lemma primitives_Ok:
  "String_UnmarshalJSON v = Ok x \<longleftrightarrow> v = JString x"
  "Bool_UnmarshalJSON v = Ok b \<longleftrightarrow> v = JBool b"
  "Unmarshal_stringptr v = Ok y \<longleftrightarrow> v = json_opt y"
  by (auto simp: String_UnmarshalJSON_def Bool_UnmarshalJSON_def Unmarshal_stringptr_def json_opt_def
      split: json.splits option.splits)

lemma slice_loop_Ok:
  "slice_loop dec vs out = Ok xs \<longleftrightarrow> (\<exists>ys. xs = out @ ys \<and> list_all2 (\<lambda>v y. dec v = Ok y) vs ys)"
proof (induction vs arbitrary: out)
  case (Cons v vs)
  then show ?case by (cases "dec v") (auto simp: list_all2_Cons1)
qed auto

lemma StringSlice_Ok: "StringSlice_UnmarshalJSON v = Ok xs \<longleftrightarrow> v = json_strings xs"
proof -
  have w: "wrap_result (String_UnmarshalJSON u) = Ok x \<longleftrightarrow> u = JString x" for u x
    by (cases "String_UnmarshalJSON u") (auto simp: wrap_result_def primitives_Ok [symmetric])
  have "list_all2 (\<lambda>u x. u = JString x) us xs \<longleftrightarrow> us = map JString xs" for us
    by (auto simp: list_all2_conv_all_nth intro: nth_equalityI)
  then show ?thesis
    by (auto simp: StringSlice_UnmarshalJSON_def slice_UnmarshalJSON_def slice_loop_Ok w json_strings_def split: json.splits)
qed

lemmas decoded = bind_res_Ok_iff unmarshal_fields_Ok Unmarshal_member_Ok primitives_Ok StringSlice_Ok

text \<open>An object whose members are given by a finite function, in any order.\<close>

definition json_object :: "(string \<rightharpoonup> json) \<Rightarrow> json \<Rightarrow> bool" where
  "json_object f v \<longleftrightarrow> (\<exists>m. v = JObject m \<and> distinct (map fst m) \<and> map_of m = f)"

lemma json_object_update:
  "json_object f v \<longleftrightarrow> (\<exists>m. v = JObject m \<and> distinct (map fst m) \<and> set (map fst m) \<subseteq> A \<and> (\<forall>k \<in> A. map_of m k = f k))"
  if "dom f \<subseteq> A"
proof
  assume "json_object f v"
  then obtain m where "v = JObject m" "distinct (map fst m)" "map_of m = f" by (auto simp: json_object_def)
  moreover from this that have "set (map fst m) \<subseteq> A" by (metis dom_map_of_conv_image_fst list.set_map)
  ultimately show "\<exists>m. v = JObject m \<and> distinct (map fst m) \<and> set (map fst m) \<subseteq> A \<and> (\<forall>k \<in> A. map_of m k = f k)" by blast
next
  assume "\<exists>m. v = JObject m \<and> distinct (map fst m) \<and> set (map fst m) \<subseteq> A \<and> (\<forall>k \<in> A. map_of m k = f k)"
  then obtain m where m: "v = JObject m" "distinct (map fst m)" "set (map fst m) \<subseteq> A" "\<forall>k \<in> A. map_of m k = f k" by blast
  have "map_of m k = f k" for k
  proof (cases "k \<in> A")
    case False
    then have "map_of m k = None" "f k = None" using m(3) that by (auto simp: map_of_eq_None_iff)
    then show ?thesis by simp
  qed (use m(4) in simp)
  then show "json_object f v" using m by (auto simp: json_object_def)
qed

section \<open>What does not decode\<close>

text \<open>
  A body that is one JSON value, decoded by a method. A decoder is \<open>orderly\<close> if it does not panic and its errors are neither
  the end of the input nor an exceeded body size, which the handler would take for a missing or an oversized body.
\<close>

definition body_of :: "(json \<Rightarrow> (gerr, 'a) res) \<Rightarrow> json \<Rightarrow> 'a request_body" where
  "body_of unmarshal v lim =
     \<lparr>jb_First = Ok (v = JNull), jb_Seek = None, jb_Value = unmarshal v, jb_Next = Some (Sentinel ErrEOF), jb_Close = None\<rparr>"

definition not_eof :: "gerr \<Rightarrow> bool" where
  "not_eof e \<longleftrightarrow> \<not> errors_is e ErrEOF \<and> \<not> errors_is e (Named ''http.MaxBytesError'')"

definition orderly :: "('i \<Rightarrow> (gerr, 'a) res) \<Rightarrow> bool" where
  "orderly dec \<longleftrightarrow> (\<forall>v. dec v \<noteq> Panic \<and> (\<forall>e. dec v = Err e \<longrightarrow> not_eof e))"

named_theorems orderly_rules

lemma not_eof_simps [simp]:
  "not_eof (Fmt es) \<longleftrightarrow> list_all not_eof es"
  "not_eof (Sentinel s) \<longleftrightarrow> s \<noteq> ErrEOF \<and> s \<noteq> Named ''http.MaxBytesError''"
  by (auto simp: not_eof_def list_all_iff list_ex_iff)

lemma orderly_bind [orderly_rules]:
  assumes "orderly f" and "\<And>x. orderly (\<lambda>v. g v x)"
  shows "orderly (\<lambda>v. bind_res (f v) (g v))"
  unfolding orderly_def
proof
  fix v
  show "bind_res (f v) (g v) \<noteq> Panic \<and> (\<forall>e. bind_res (f v) (g v) = Err e \<longrightarrow> not_eof e)"
    using assms unfolding orderly_def by (cases "f v") simp_all
qed

lemma orderly_basic [orderly_rules]:
  "orderly (\<lambda>v. Ok (f v))" "orderly (\<lambda>v. required name (h v))" "orderly (Unmarshal_struct names)" "orderly String_UnmarshalJSON"
  "orderly Bool_UnmarshalJSON" "orderly Unmarshal_stringptr"
  by (auto simp: orderly_def required_def Unmarshal_struct_def String_UnmarshalJSON_def Bool_UnmarshalJSON_def
      Unmarshal_stringptr_def json_error_def split: option.splits json.splits)

lemma orderly_wrap [orderly_rules]: "orderly f \<Longrightarrow> orderly (\<lambda>v. wrap_result (f v))"
  by (auto simp: orderly_def wrap_result_def split: res.splits)

lemma orderly_if [orderly_rules]: "orderly f \<Longrightarrow> orderly g \<Longrightarrow> orderly (\<lambda>v. if P v then f v else g v)"
  by (simp add: orderly_def)

lemma orderly_member [orderly_rules]: "orderly dec \<Longrightarrow> orderly (\<lambda>v. Unmarshal_member dec name (h v))"
  by (auto simp: orderly_def Unmarshal_member_def Optional_UnmarshalJSON_def split: option.splits res.splits)

lemma orderly_ptr [orderly_rules]: "orderly dec \<Longrightarrow> orderly (Unmarshal_ptr dec)"
  by (auto simp: orderly_def Unmarshal_ptr_def split: res.splits if_splits)

lemma orderly_slice [orderly_rules]: "orderly (slice_UnmarshalJSON dec)" if dec: "orderly dec"
proof -
  have "slice_loop dec vs out \<noteq> Panic \<and> (\<forall>e. slice_loop dec vs out = Err e \<longrightarrow> not_eof e)" for vs out
  proof (induction vs arbitrary: out)
    case (Cons v vs)
    then show ?case using dec by (cases "dec v") (auto simp: orderly_def)
  qed simp
  then show ?thesis by (auto simp: orderly_def slice_UnmarshalJSON_def split: json.splits)
qed

lemma orderly_strict: "orderly (UnmarshalStrict dec)" if "orderly dec"
  using that by (auto simp: orderly_def UnmarshalStrict_def UnmarshalStrictTo_def mustNotBeNull_def ErrJsonNull_def
      ErrFailedToDecode_def ErrTrailingData_def split: res.splits if_splits)

lemma orderly_fields [orderly_rules]: "orderly members \<Longrightarrow> list_all not_eof wrap \<Longrightarrow> orderly (unmarshal_fields wrap names members)"
proof -
  assume members: "orderly members" and wrap: "list_all not_eof wrap"
  have "orderly (UnmarshalStrict (\<lambda>v. bind_res (Unmarshal_struct names v) members))"
    using members by (intro orderly_strict orderly_bind orderly_basic) (simp add: orderly_def)
  then show ?thesis using wrap by (auto simp: orderly_def unmarshal_fields_def split: res.splits)
qed

text \<open>The checks that follow the decoding of the members.\<close>

lemma Format_Validate_not_eof: "Format_Validate f = Some e \<Longrightarrow> not_eof e"
proof -
  have p: "pattern_loop seen p = Some e \<Longrightarrow> not_eof e" for seen p e
    by (induction seen p rule: pattern_loop.induct) (auto split: if_splits)
  show "Format_Validate f = Some e \<Longrightarrow> not_eof e"
    by (auto simp: Format_Validate_def CharacterSet_Validate_def Pattern_Validate_def dest: p split: option.splits)
qed

lemma orderly_format [orderly_rules]:
  "orderly (\<lambda>v. case Format_Validate (f v) of Some e \<Rightarrow> Err (Fmt [e]) | None \<Rightarrow> Ok (g v))"
  "not_eof w \<Longrightarrow> orderly (\<lambda>v. case Format_Validate (f v) of Some e \<Rightarrow> Err (Fmt [w, e]) | None \<Rightarrow> Ok (g v))"
  by (auto simp: orderly_def dest: Format_Validate_not_eof split: option.splits)

lemma orderly_role [orderly_rules]: "not_eof e \<Longrightarrow> orderly (\<lambda>v. Err (Fmt [e]))"
  by (simp add: orderly_def)

lemma orderly_prod [orderly_rules]:
  "(\<And>a b. x = (a, b) \<Longrightarrow> orderly (\<lambda>v. f v a b)) \<Longrightarrow> orderly (\<lambda>v. case x of (a, b) \<Rightarrow> f v a b)"
  by (cases x) simp

lemma errFailed_not_eof [simp]: "not_eof errFailedToUnmarshalFields"
  by (simp add: errFailedToUnmarshalFields_def)

lemma orderly_StringSlice [orderly_rules]: "orderly StringSlice_UnmarshalJSON"
  unfolding StringSlice_UnmarshalJSON_def by (intro orderly_rules)

lemma orderly_Time [orderly_rules]: "orderly time_Parse \<Longrightarrow> orderly (Time_UnmarshalJSON time_Parse)"
  by (auto simp: orderly_def Time_UnmarshalJSON_def String_UnmarshalJSON_def split: res.splits json.splits)

lemma orderly_Format [orderly_rules]: "orderly Format_UnmarshalJSON"
  unfolding Format_UnmarshalJSON_def Let_def by (intro orderly_rules) simp_all

lemma orderly_grant [orderly_rules]: "orderly grant_UnmarshalJSON"
  unfolding grant_UnmarshalJSON_def by (intro orderly_rules)

lemma orderly_namespaces:
  "orderly NamespaceCreateRequest_UnmarshalJSON" "orderly NamespaceUpdateRequest_UnmarshalJSON"
  "orderly SetNamespaceRoleRequest_UnmarshalJSON"
  unfolding NamespaceCreateRequest_UnmarshalJSON_def NamespaceUpdateRequest_UnmarshalJSON_def
    SetNamespaceRoleRequest_UnmarshalJSON_def
  by (intro orderly_rules; simp)+

lemma orderly_resources:
  "orderly ResourceCreateRequest_UnmarshalJSON" "orderly ResourceUpdateRequest_UnmarshalJSON"
  "orderly MountUpsertRequest_UnmarshalJSON" "orderly MountGrantRequest_UnmarshalJSON"
  unfolding ResourceCreateRequest_UnmarshalJSON_def ResourceUpdateRequest_UnmarshalJSON_def
    MountUpsertRequest_UnmarshalJSON_def MountGrantRequest_UnmarshalJSON_def
  by (intro orderly_rules; simp)+

lemma orderly_createBatch: "orderly Unmarshal_createBatch"
proof -
  have "orderly (slice_UnmarshalJSON (\<lambda>v. wrap_result (ResourceCreateRequest_UnmarshalJSON v)))"
    by (intro orderly_rules orderly_resources)
  then show ?thesis
    by (auto simp: orderly_def Unmarshal_createBatch_def slice_UnmarshalJSON_def json_error_def split: json.splits)
qed

lemma orderly_users:
  "orderly UserCreateRequest_UnmarshalJSON" "orderly UserUpdateRequest_UnmarshalJSON" "orderly SetPasswordRequest_UnmarshalJSON"
  "orderly KeyRevokeRequest_UnmarshalJSON" "orderly time_Parse \<Longrightarrow> orderly (KeyIssueRequest_UnmarshalJSON time_Parse)"
  unfolding UserCreateRequest_UnmarshalJSON_def UserUpdateRequest_UnmarshalJSON_def SetPasswordRequest_UnmarshalJSON_def
    KeyRevokeRequest_UnmarshalJSON_def KeyIssueRequest_UnmarshalJSON_def apiKeyNamespaceScopeSlice_UnmarshalJSON_def
  by (intro orderly_rules; simp)+

section \<open>The properties\<close>

text \<open>How the handler answers a body that is one JSON value: null is refused, everything else is left to the decoder.\<close>

definition body_decided :: "(json \<Rightarrow> (gerr, 'a) res) \<Rightarrow> 's Service \<Rightarrow> json \<Rightarrow> bool" where
  "body_decided dec sv v \<longleftrightarrow>
     (case if v = JNull then Err ErrJsonNull else dec v of
        Ok r \<Rightarrow> decodeJSON sv (body_of dec v) = Ok r
      | _ \<Rightarrow> (case decodeJSON sv (body_of dec v) of Err e \<Rightarrow> GetErrorCode e = Some BodyInvalidJSON | _ \<Rightarrow> False))"

lemma UnmarshalStrictTo_body_of:
  "UnmarshalStrictTo (body_of dec v lim) =
     (if v = JNull then Err (Fmt [ErrJsonNull, ErrJsonNull])
      else case dec v of Ok x \<Rightarrow> Ok x | Err e \<Rightarrow> Err (Fmt [ErrFailedToDecode, e]) | Panic \<Rightarrow> Panic)"
  by (simp add: UnmarshalStrictTo_def body_of_def mustNotBeNull_def split: res.splits)

lemma body_of_close [simp]: "jb_Close (body_of dec v lim) = None"
  by (simp add: body_of_def)

lemma body_decided_orderly:
  assumes "orderly dec"
  shows "body_decided dec sv v"
  using assms
  by (auto simp: body_decided_def decodeJSON_def Let_def UnmarshalStrictTo_body_of decode_error_def orderly_def not_eof_def
      ErrJsonNull_def ErrFailedToDecode_def split: res.splits)


text \<open>A parser that only knows one time stamp, and a request with a date that it rejects.\<close>

definition demo_time_Parse :: time_parser where
  "demo_time_Parse s = (if s = ''1970-01-01T00:00:50Z'' then Ok 50 else Err (Sentinel (Named ''time.ParseError'')))"

definition demo_key_json :: "string \<Rightarrow> json" where
  "demo_key_json date = JObject [(''comment'', JString ''ci''), (''namespaceScopes'', JArray []), (''userScopes'', JArray []),
     (''expiresAt'', JString date)]"


text \<open>A field whose decoder inverts an encoding is present with the encoding of its value.\<close>

lemma Unmarshal_member_enc:
  assumes "\<And>v y. dec v = Ok y \<longleftrightarrow> v = enc y"
  shows "Unmarshal_member dec name m = Ok x \<longleftrightarrow> map_of m name = map_option enc x"
  using assms by (cases x) (auto simp: Unmarshal_member_Ok)

lemmas member_enc =
  Unmarshal_member_enc [OF primitives_Ok(1)] Unmarshal_member_enc [OF primitives_Ok(2)]
  Unmarshal_member_enc [OF primitives_Ok(3)] Unmarshal_member_enc [OF StringSlice_Ok]

lemma check_Ok:
  "(case c of Some e \<Rightarrow> Err (f e) | None \<Rightarrow> Ok x) = Ok y \<longleftrightarrow> c = None \<and> x = y"
  "(if P then Err e else Ok x) = Ok y \<longleftrightarrow> \<not> P \<and> x = y"
  by (auto split: option.splits)

lemmas exact = bind_res_Ok_iff unmarshal_fields_Ok member_enc
lemmas checked = split_paired_Ex bind_res_Ok_iff check_Ok

lemma ResourceCreateRequest_exact:
  "ResourceCreateRequest_UnmarshalJSON v = Ok r \<longleftrightarrow>
     json_object [''url'' \<mapsto> json_opt (rcr_URL r), ''metadata'' \<mapsto> json_opt (rcr_Metadata r),
       ''tags'' \<mapsto> json_strings (rcr_Tags r)] v"
proof -
  have "dom [''url'' \<mapsto> json_opt (rcr_URL r), ''metadata'' \<mapsto> json_opt (rcr_Metadata r), ''tags'' \<mapsto> json_strings (rcr_Tags r)]
    \<subseteq> set [''url'', ''metadata'', ''tags'']" by auto
  note o = json_object_update [OF this, of v]
  show ?thesis unfolding o ResourceCreateRequest_UnmarshalJSON_def exact
    by (cases r) (simp add: checked)
qed

lemma ResourceUpdateRequest_exact:
  "ResourceUpdateRequest_UnmarshalJSON v = Ok r \<longleftrightarrow>
     json_object (Map.empty(''url'' := map_option json_opt (rur_URL r), ''metadata'' := map_option json_opt (rur_Metadata r),
       ''tags'' := map_option json_strings (rur_Tags r), ''deleted'' := map_option JBool (rur_Deleted r))) v"
proof -
  have "dom (Map.empty(''url'' := map_option json_opt (rur_URL r), ''metadata'' := map_option json_opt (rur_Metadata r),
       ''tags'' := map_option json_strings (rur_Tags r), ''deleted'' := map_option JBool (rur_Deleted r)))
    \<subseteq> set [''url'', ''metadata'', ''tags'', ''deleted'']" by (auto split: if_splits)
  note o = json_object_update [OF this, of v]
  show ?thesis unfolding o ResourceUpdateRequest_UnmarshalJSON_def exact
    by (cases r) (simp add: checked)
qed

lemma Format_exact:
  "Format_UnmarshalJSON v = Ok f \<longleftrightarrow>
     json_object [''pattern'' \<mapsto> JString (fmt_Pattern f), ''characters'' \<mapsto> JString (fmt_Characters f)] v \<and> Format_Validate f = None"
proof -
  have "dom [''pattern'' \<mapsto> JString (fmt_Pattern f), ''characters'' \<mapsto> JString (fmt_Characters f)]
    \<subseteq> set [''pattern'', ''characters'']" by auto
  note o = json_object_update [OF this, of v]
  show ?thesis unfolding o Format_UnmarshalJSON_def exact
    by (cases f) (auto simp add: checked Let_def simp del: map_of_eq_Some_iff)
qed

lemma NamespaceCreateRequest_exact:
  "NamespaceCreateRequest_UnmarshalJSON v = Ok r \<longleftrightarrow>
     (\<exists>f. json_object [''tags'' \<mapsto> json_strings (ncr_Tags r), ''pidFormat'' \<mapsto> f] v \<and> Format_UnmarshalJSON f = Ok (ncr_PIDFormat r))"
proof -
  have "dom [''tags'' \<mapsto> json_strings (ncr_Tags r), ''pidFormat'' \<mapsto> f] \<subseteq> set [''tags'', ''pidFormat'']" for f by auto
  note o = json_object_update [OF this, where v = v]
  have valid: "Format_UnmarshalJSON j = Ok f \<and> Format_Validate f = None \<longleftrightarrow> Format_UnmarshalJSON j = Ok f" for j f
    by (auto simp: Format_exact)
  show ?thesis unfolding o NamespaceCreateRequest_UnmarshalJSON_def exact
    by (cases r) (simp add: checked Unmarshal_member_Ok, metis valid)
qed

lemma Role_Password_exact:
  "SetNamespaceRoleRequest_UnmarshalJSON v = Ok role \<longleftrightarrow>
     json_object [''role'' \<mapsto> JString role] v \<and> role \<in> {RoleNone, RoleContributor, RoleEditor, RoleManager}"
  "SetPasswordRequest_UnmarshalJSON v = Ok pw \<longleftrightarrow> json_object [''password'' \<mapsto> json_opt pw] v"
proof -
  have "dom [k \<mapsto> x] \<subseteq> set [k]" for k and x :: json by auto
  note o = json_object_update [OF this, where v = v]
  show "SetNamespaceRoleRequest_UnmarshalJSON v = Ok role \<longleftrightarrow>
     json_object [''role'' \<mapsto> JString role] v \<and> role \<in> {RoleNone, RoleContributor, RoleEditor, RoleManager}"
    unfolding o SetNamespaceRoleRequest_UnmarshalJSON_def exact by (auto simp: checked Role_Validate_def)
  show "SetPasswordRequest_UnmarshalJSON v = Ok pw \<longleftrightarrow> json_object [''password'' \<mapsto> json_opt pw] v"
    unfolding o SetPasswordRequest_UnmarshalJSON_def exact by (simp add: checked)
qed

text \<open>
  C20. What the requests accept. A resource is created from an object with exactly the members url, metadata and tags, in any
  order and without duplicates, the first two strings or null, the last an array of strings; an update may leave out any of
  its members, and an absent member is told from null. A namespace is created from tags and a
  PID format that is valid; a role is one of the known roles; a password is a string, or null to clear it.
\<close>

theorem requests_exact:
  "(ResourceCreateRequest_UnmarshalJSON v = Ok rc \<longleftrightarrow>
     json_object [''url'' \<mapsto> json_opt (rcr_URL rc), ''metadata'' \<mapsto> json_opt (rcr_Metadata rc),
       ''tags'' \<mapsto> json_strings (rcr_Tags rc)] v) \<and>
   (ResourceUpdateRequest_UnmarshalJSON v = Ok ru \<longleftrightarrow>
     json_object (Map.empty(''url'' := map_option json_opt (rur_URL ru), ''metadata'' := map_option json_opt (rur_Metadata ru),
       ''tags'' := map_option json_strings (rur_Tags ru), ''deleted'' := map_option JBool (rur_Deleted ru))) v) \<and>
   (NamespaceCreateRequest_UnmarshalJSON v = Ok nc \<longleftrightarrow>
     (\<exists>f. json_object [''tags'' \<mapsto> json_strings (ncr_Tags nc), ''pidFormat'' \<mapsto> f] v \<and>
       json_object [''pattern'' \<mapsto> JString (fmt_Pattern (ncr_PIDFormat nc)),
         ''characters'' \<mapsto> JString (fmt_Characters (ncr_PIDFormat nc))] f) \<and>
       Format_Validate (ncr_PIDFormat nc) = None) \<and>
   (SetNamespaceRoleRequest_UnmarshalJSON v = Ok role \<longleftrightarrow>
     json_object [''role'' \<mapsto> JString role] v \<and> role \<in> {RoleNone, RoleContributor, RoleEditor, RoleManager}) \<and>
   (SetPasswordRequest_UnmarshalJSON v = Ok pw \<longleftrightarrow> json_object [''password'' \<mapsto> json_opt pw] v)"
  unfolding ResourceCreateRequest_exact ResourceUpdateRequest_exact NamespaceCreateRequest_exact Format_exact Role_Password_exact
  by auto

end
