(* ===== verification/Flags.thy ===== *)
theory Flags
  imports Requests
begin

text \<open>
  The command line of the programs (\<^verbatim>\<open>cmd/cmd.go\<close>, \<^verbatim>\<open>cmd/internal/gormflag\<close>): the options with their defaults, the flags with
  the field that each of them sets, and what the packages \<^verbatim>\<open>flag\<close> and \<^verbatim>\<open>strconv\<close> do with the arguments. The syntax of a duration
  (\<^verbatim>\<open>time.ParseDuration\<close>, which computes with floating point numbers) is an argument.
\<close>

section \<open>Values of flags (strconv)\<close>

definition lower_char :: "char \<Rightarrow> char" where
  "lower_char c = (if 65 \<le> (of_char c :: nat) \<and> (of_char c :: nat) \<le> 90 then char_of ((of_char c :: nat) + 32) else c)"

text \<open>The value of a digit in the largest base, and of a sequence of digits; underscores are skipped here and checked below.\<close>

definition digit_value :: "char \<Rightarrow> nat option" where
  "digit_value c =
     (let n = of_char c :: nat; l = of_char (lower_char c) :: nat in
      if 48 \<le> n \<and> n \<le> 57 then Some (n - 48)
      else if 97 \<le> l \<and> l \<le> 122 then Some (l - 97 + 10)
      else None)"

fun base_digits :: "nat \<Rightarrow> string \<Rightarrow> nat \<Rightarrow> nat option" where
  "base_digits base [] n = Some n"
| "base_digits base (c # cs) n =
     (if c = CHR ''_'' then base_digits base cs n
      else case digit_value c of
        None \<Rightarrow> None
      | Some d \<Rightarrow> if d \<ge> base then None else base_digits base cs (n * base + d))"

text \<open>The last character that \<^verbatim>\<open>underscoreOK\<close> saw: the beginning, a digit or a prefix, an underscore, another one.\<close>

datatype seen = SawBegin | SawDigit | SawUnderscore | SawOther

fun underscore_scan :: "bool \<Rightarrow> seen \<Rightarrow> string \<Rightarrow> bool" where
  "underscore_scan hex saw [] \<longleftrightarrow> saw \<noteq> SawUnderscore"
| "underscore_scan hex saw (c # cs) \<longleftrightarrow>
     (let n = of_char c :: nat; l = of_char (lower_char c) :: nat in
      if 48 \<le> n \<and> n \<le> 57 \<or> hex \<and> 97 \<le> l \<and> l \<le> 102 then underscore_scan hex SawDigit cs
      else if c = CHR ''_'' then saw = SawDigit \<and> underscore_scan hex SawUnderscore cs
      else saw \<noteq> SawUnderscore \<and> underscore_scan hex SawOther cs)"

text \<open>The base of an unsigned number and its digits.\<close>

definition number_base :: "string \<Rightarrow> nat \<times> string" where
  "number_base s =
     (case s of
        c0 # rest \<Rightarrow>
          if c0 \<noteq> CHR ''0'' then (10, s)
          else (case rest of
                  c1 # digits \<Rightarrow>
                    if digits \<noteq> [] \<and> lower_char c1 = CHR ''b'' then (2, digits)
                    else if digits \<noteq> [] \<and> lower_char c1 = CHR ''o'' then (8, digits)
                    else if digits \<noteq> [] \<and> lower_char c1 = CHR ''x'' then (16, digits)
                    else (8, rest)
                | [] \<Rightarrow> (8, rest))
      | [] \<Rightarrow> (10, s))"

definition underscoreOK :: "string \<Rightarrow> bool" where
  "underscoreOK s =
     (case s of
        c0 # c1 # rest \<Rightarrow>
          if c0 = CHR ''0'' \<and> lower_char c1 \<in> {CHR ''b'', CHR ''o'', CHR ''x''}
          then underscore_scan (lower_char c1 = CHR ''x'') SawDigit rest
          else underscore_scan False SawBegin s
      | _ \<Rightarrow> underscore_scan False SawBegin s)"

definition ParseUint :: "string \<Rightarrow> nat option" where
  "ParseUint s =
     (if s = [] then None
      else let (base, digits) = number_base s in
        case base_digits base digits 0 of
          None \<Rightarrow> None
        | Some n \<Rightarrow> if CHR ''_'' \<in> set digits \<and> \<not> underscoreOK s then None else Some n)"

text \<open>\<^verbatim>\<open>strconv.ParseInt(s, 0, 64)\<close>; a number out of range is an error like a syntax error.\<close>

definition ParseInt :: "string \<Rightarrow> int option" where
  "ParseInt s =
     (case s of
        [] \<Rightarrow> None
      | c # rest \<Rightarrow>
          if c = CHR ''-'' then
            (case ParseUint rest of
               Some n \<Rightarrow> if n \<le> 2 ^ 63 then Some (- int n) else None
             | None \<Rightarrow> None)
          else
            (case ParseUint (if c = CHR ''+'' then rest else s) of
               Some n \<Rightarrow> if n < 2 ^ 63 then Some (int n) else None
             | None \<Rightarrow> None))"

definition Itoa :: "int \<Rightarrow> string" where
  "Itoa n = (if n < 0 then ''-'' @ dec_digits (nat (- n)) else dec_digits (nat n))"

section \<open>Flags (flag)\<close>

text \<open>A flag: its name, whether it is a boolean flag, and how a value changes the variables.\<close>

record 'm flag =
  fl_name :: string
  fl_IsBoolFlag :: bool
  fl_Set :: "string \<Rightarrow> 'm \<Rightarrow> 'm option"

definition StringVar :: "(string \<Rightarrow> 'm \<Rightarrow> 'm) \<Rightarrow> string \<Rightarrow> 'm flag" where
  "StringVar p name = \<lparr>fl_name = name, fl_IsBoolFlag = False, fl_Set = (\<lambda>value m. Some (p value m))\<rparr>"

definition BoolVar :: "(bool \<Rightarrow> 'm \<Rightarrow> 'm) \<Rightarrow> string \<Rightarrow> 'm flag" where
  "BoolVar p name =
     \<lparr>fl_name = name, fl_IsBoolFlag = True, fl_Set = (\<lambda>value m. case ParseBool value of Ok b \<Rightarrow> Some (p b m) | _ \<Rightarrow> None)\<rparr>"

definition IntVar :: "(int \<Rightarrow> 'm \<Rightarrow> 'm) \<Rightarrow> string \<Rightarrow> 'm flag" where
  "IntVar p name =
     \<lparr>fl_name = name, fl_IsBoolFlag = False, fl_Set = (\<lambda>value m. map_option (\<lambda>n. p n m) (ParseInt value))\<rparr>"

definition DurationVar :: "(string \<Rightarrow> int option) \<Rightarrow> (int \<Rightarrow> 'm \<Rightarrow> 'm) \<Rightarrow> string \<Rightarrow> 'm flag" where
  "DurationVar ParseDuration p name =
     \<lparr>fl_name = name, fl_IsBoolFlag = False, fl_Set = (\<lambda>value m. map_option (\<lambda>n. p n m) (ParseDuration value))\<rparr>"

text \<open>A parsed command line, or an exit of the process with a code.\<close>

datatype 'm parsed = Parsed 'm | ParseExit int

text \<open>The name of a flag and its value behind the first equals sign, which cannot be the first character.\<close>

definition split_flag :: "string \<Rightarrow> string \<times> string option" where
  "split_flag name =
     (let front = takeWhile (\<lambda>c. c \<noteq> CHR ''='') (tl name); rest = drop (Suc (length front)) name in
      (take (Suc (length front)) name, case rest of [] \<Rightarrow> None | _ # value \<Rightarrow> Some value))"

text \<open>
  \<^verbatim>\<open>FlagSet.parseOne\<close>: one flag is read and its variable set; or the flags end, at the first argument that is not a flag
  or after the argument \<^verbatim>\<open>--\<close>; or the process exits (\<^verbatim>\<open>ExitOnError\<close>), with code 2 for a flag that is not defined, a missing value
  or a value that is refused, and with code 0 for a request for help.
\<close>

datatype 'm parse_step = SeenFlag 'm "string list" | FlagsEnd | FlagExit int

definition set_flag :: "'m flag \<Rightarrow> string \<Rightarrow> string list \<Rightarrow> 'm \<Rightarrow> 'm parse_step" where
  "set_flag f value args m = (case fl_Set f value m of Some m' \<Rightarrow> SeenFlag m' args | None \<Rightarrow> FlagExit 2)"

definition read_flag :: "'m flag list \<Rightarrow> string \<Rightarrow> string option \<Rightarrow> string list \<Rightarrow> 'm \<Rightarrow> 'm parse_step" where
  "read_flag formal name value args m =
     (case List.find (\<lambda>f. fl_name f = name) formal of
        None \<Rightarrow> if name = ''help'' \<or> name = ''h'' then FlagExit 0 else FlagExit 2
      | Some f \<Rightarrow>
          (case value of
             Some v \<Rightarrow> set_flag f v args m
           | None \<Rightarrow>
               if fl_IsBoolFlag f then set_flag f ''true'' args m
               else (case args of [] \<Rightarrow> FlagExit 2 | v # args' \<Rightarrow> set_flag f v args' m)))"

definition parseOne :: "'m flag list \<Rightarrow> string list \<Rightarrow> 'm \<Rightarrow> 'm parse_step" where
  "parseOne formal arguments m =
     (case arguments of
        [] \<Rightarrow> FlagsEnd
      | s # args \<Rightarrow>
          if length s < 2 \<or> hd s \<noteq> CHR ''-'' then FlagsEnd
          else if s = ''--'' then FlagsEnd
          else let name = (if s ! 1 = CHR ''-'' then drop 2 s else drop 1 s) in
            if hd name = CHR ''-'' \<or> hd name = CHR ''='' then FlagExit 2
            else (case split_flag name of (name, value) \<Rightarrow> read_flag formal name value args m))"

lemma set_flag_cases:
  "set_flag f v args m = SeenFlag m' args' \<Longrightarrow> args' = args" "set_flag f v args m = FlagExit code \<Longrightarrow> code = 2"
  by (auto simp: set_flag_def split: option.splits)

lemma read_flag_shorter: "read_flag formal name v args m = SeenFlag m' args' \<Longrightarrow> length args' \<le> length args"
  by (auto simp: read_flag_def dest: set_flag_cases split: option.splits list.splits if_splits)

lemma parseOne_shorter: "parseOne formal args m = SeenFlag m' args' \<Longrightarrow> length args' < length args"
  by (auto simp: parseOne_def Let_def less_Suc_eq_le dest: read_flag_shorter split: list.splits if_splits prod.splits)

lemma read_flag_exit: "read_flag formal name v args m = FlagExit code \<Longrightarrow> code = 0 \<or> code = 2"
  by (auto simp: read_flag_def dest: set_flag_cases split: option.splits list.splits if_splits)

lemma parseOne_exit: "parseOne formal args m = FlagExit code \<Longrightarrow> code = 0 \<or> code = 2"
  by (auto simp: parseOne_def Let_def dest: read_flag_exit split: list.splits if_splits prod.splits)

function flag_Parse :: "'m flag list \<Rightarrow> string list \<Rightarrow> 'm \<Rightarrow> 'm parsed" where
  "flag_Parse formal args m =
     (case parseOne formal args m of
        SeenFlag m' args' \<Rightarrow> flag_Parse formal args' m'
      | FlagsEnd \<Rightarrow> Parsed m
      | FlagExit code \<Rightarrow> ParseExit code)"
  by pat_completeness auto
termination
  by (relation "measure (\<lambda>(formal, args, m). length args)") (auto dest: parseOne_shorter)

declare flag_Parse.simps [simp del]

text \<open>Defining a flag twice panics.\<close>

fun flag_Vars :: "'m flag list \<Rightarrow> 'm flag list \<Rightarrow> 'm flag list option" where
  "flag_Vars formal [] = Some formal"
| "flag_Vars formal (f # fs) =
     (if fl_name f \<in> fl_name ` set formal then None else flag_Vars (formal @ [f]) fs)"

section \<open>The options (cmd.go)\<close>

text \<open>
  \<^verbatim>\<open>slog\<close>: levels are integers, and a handler writes the records of its level and above. The variables of a program that has flags of
  its own extend the record.
\<close>

definition LevelDebug :: int where "LevelDebug = - 4"
definition LevelInfo :: int where "LevelInfo = 0"
definition LevelWarn :: int where "LevelWarn = 4"
definition LevelError :: int where "LevelError = 8"

datatype handler = DiscardHandler | JSONHandler int | TextHandler int

definition handler_Enabled :: "handler \<Rightarrow> int \<Rightarrow> bool" where
  "handler_Enabled lh level = (case lh of DiscardHandler \<Rightarrow> False | JSONHandler l \<Rightarrow> l \<le> level | TextHandler l \<Rightarrow> l \<le> level)"

record mainCmd =
  mc_name :: string
  mc_listenHost :: string
  mc_listenPort :: int
  mc_mountPath :: string
  mc_disableSwagger :: bool
  mc_disableRootRedirect :: bool
  mc_disableInfo :: bool
  mc_anonymous :: bool
  mc_limits :: Limits
  mc_about :: string
  mc_comment :: string
  mc_logLevel :: string
  mc_logJSON :: bool
  mc_legal :: bool
  mc_noCreateRoot :: bool
  mc_createSuperUser :: string
  mc_backgroundInterval :: int
  mc_readHeaderTimeout :: int
  mc_shutdownTimeout :: int
  mc_addr :: string
  mc_logger :: "handler option"

text \<open>Durations are nanoseconds.\<close>

definition Main_defaults :: "string \<Rightarrow> 'x \<Rightarrow> 'x mainCmd_scheme" where
  "Main_defaults name extra =
     \<lparr>mc_name = name, mc_listenHost = ''127.0.0.1'', mc_listenPort = 8080, mc_mountPath = ''/api/v2'',
      mc_disableSwagger = False, mc_disableRootRedirect = False, mc_disableInfo = False, mc_anonymous = False,
      mc_limits = DefaultLimits, mc_about = [], mc_comment = [], mc_logLevel = ''info'', mc_logJSON = False, mc_legal = False,
      mc_noCreateRoot = False, mc_createSuperUser = [], mc_backgroundInterval = 3600000000000,
      mc_readHeaderTimeout = 60000000000, mc_shutdownTimeout = 60000000000, mc_addr = [], mc_logger = None, \<dots> = extra\<rparr>"

definition limit_flags :: "'x mainCmd_scheme flag list" where
  "limit_flags =
     [IntVar (\<lambda>n m. m\<lparr>mc_limits := (mc_limits m)\<lparr>lim_MaxBodyBytes := n\<rparr>\<rparr>) ''max-body-bytes'',
      IntVar (\<lambda>n m. m\<lparr>mc_limits := (mc_limits m)\<lparr>lim_DefaultPageLimit := n\<rparr>\<rparr>) ''default-page-limit'',
      IntVar (\<lambda>n m. m\<lparr>mc_limits := (mc_limits m)\<lparr>lim_MaxPageLimit := n\<rparr>\<rparr>) ''max-page-limit'',
      IntVar (\<lambda>n m. m\<lparr>mc_limits := (mc_limits m)\<lparr>lim_MaxBatchItems := n\<rparr>\<rparr>) ''max-batch-items'',
      IntVar (\<lambda>n m. m\<lparr>mc_limits := (mc_limits m)\<lparr>lim_MaxAutocompleteUsers := n\<rparr>\<rparr>) ''max-autocomplete-users'',
      IntVar (\<lambda>n m. m\<lparr>mc_limits := (mc_limits m)\<lparr>lim_MaxNamespaceIDAttempts := n\<rparr>\<rparr>) ''max-namespace-id-attempts'',
      IntVar (\<lambda>n m. m\<lparr>mc_limits := (mc_limits m)\<lparr>lim_MaxPIDAttempts := n\<rparr>\<rparr>) ''max-pid-attempts'',
      IntVar (\<lambda>n m. m\<lparr>mc_limits := (mc_limits m)\<lparr>lim_MaxAPIKeyAttempts := n\<rparr>\<rparr>) ''max-api-key-attempts'']"

definition main_flags :: "(string \<Rightarrow> int option) \<Rightarrow> 'x mainCmd_scheme flag list" where
  "main_flags ParseDuration =
     [StringVar (\<lambda>v m. m\<lparr>mc_listenHost := v\<rparr>) ''host'',
      IntVar (\<lambda>n m. m\<lparr>mc_listenPort := n\<rparr>) ''port'',
      StringVar (\<lambda>v m. m\<lparr>mc_mountPath := v\<rparr>) ''mount-path'',
      BoolVar (\<lambda>b m. m\<lparr>mc_disableSwagger := b\<rparr>) ''disable-swagger'',
      BoolVar (\<lambda>b m. m\<lparr>mc_disableInfo := b\<rparr>) ''disable-info'',
      BoolVar (\<lambda>b m. m\<lparr>mc_anonymous := b\<rparr>) ''anon'',
      BoolVar (\<lambda>b m. m\<lparr>mc_disableRootRedirect := b\<rparr>) ''disable-root-redirect'',
      StringVar (\<lambda>v m. m\<lparr>mc_about := v\<rparr>) ''about'',
      StringVar (\<lambda>v m. m\<lparr>mc_comment := v\<rparr>) ''comment''] @
     limit_flags @
     [StringVar (\<lambda>v m. m\<lparr>mc_logLevel := v\<rparr>) ''log-level'',
      BoolVar (\<lambda>b m. m\<lparr>mc_logJSON := b\<rparr>) ''log-json'',
      BoolVar (\<lambda>b m. m\<lparr>mc_legal := b\<rparr>) ''legal'',
      BoolVar (\<lambda>b m. m\<lparr>mc_noCreateRoot := b\<rparr>) ''no-create-root'',
      StringVar (\<lambda>v m. m\<lparr>mc_createSuperUser := v\<rparr>) ''create-superuser'',
      DurationVar ParseDuration (\<lambda>n m. m\<lparr>mc_backgroundInterval := n\<rparr>) ''background-interval'',
      DurationVar ParseDuration (\<lambda>n m. m\<lparr>mc_readHeaderTimeout := n\<rparr>) ''read-header-timeout'',
      DurationVar ParseDuration (\<lambda>n m. m\<lparr>mc_shutdownTimeout := n\<rparr>) ''shutdown-timeout'']"

text \<open>\<open>None\<close> is the panic of a flag that is defined twice; the program defines its own flags first.\<close>

definition parseFlags ::
  "(string \<Rightarrow> int option) \<Rightarrow> 'x mainCmd_scheme flag list \<Rightarrow> string list \<Rightarrow> 'x mainCmd_scheme \<Rightarrow> 'x mainCmd_scheme parsed option" where
  "parseFlags ParseDuration extra args m =
     map_option (\<lambda>formal. flag_Parse formal args m) (flag_Vars extra (main_flags ParseDuration))"

definition TrimSuffix :: "string \<Rightarrow> string \<Rightarrow> string" where
  "TrimSuffix s suffix =
     (if length suffix \<le> length s \<and> drop (length s - length suffix) s = suffix then take (length s - length suffix) s else s)"

definition JoinHostPort :: "string \<Rightarrow> string \<Rightarrow> string" where
  "JoinHostPort host port =
     (if CHR '':'' \<in> set host then ''['' @ host @ '']:'' @ port else host @ '':'' @ port)"

definition parseOptions :: "'x mainCmd_scheme \<Rightarrow> 'x mainCmd_scheme" where
  "parseOptions m =
     m\<lparr>mc_mountPath := TrimSuffix (mc_mountPath m) ''/'', mc_addr := JoinHostPort (mc_listenHost m) (Itoa (mc_listenPort m))\<rparr>"

text \<open>
  \<^verbatim>\<open>strings.ToLower\<close> as far as it can yield ASCII: two letters outside ASCII have an ASCII lower case, a dotted capital I (bytes C4 B0)
  and the Kelvin sign (E2 84 AA). All others stay outside ASCII, so that no comparison with an ASCII word depends on them.
\<close>

fun ToLower :: "string \<Rightarrow> string" where
  "ToLower (a # b # c # s) =
     (if a = CHR 0xC4 \<and> b = CHR 0xB0 then CHR ''i'' # ToLower (c # s)
      else if a = CHR 0xE2 \<and> b = CHR 0x84 \<and> c = CHR 0xAA then CHR ''k'' # ToLower s
      else lower_char a # ToLower (b # c # s))"
| "ToLower [a, b] = (if a = CHR 0xC4 \<and> b = CHR 0xB0 then ''i'' else [lower_char a, lower_char b])"
| "ToLower [a] = [lower_char a]"
| "ToLower [] = []"

definition errInvalidLogLevel :: gerr where
  "errInvalidLogLevel = Sentinel (Named ''errInvalidLogLevel'')"

definition parse_level :: "string \<Rightarrow> int option option" where
  "parse_level name =
     (let l = ToLower name in
      if l = ''error'' then Some (Some LevelError)
      else if l = ''warn'' \<or> l = ''warning'' then Some (Some LevelWarn)
      else if l = ''info'' then Some (Some LevelInfo)
      else if l = ''debug'' then Some (Some LevelDebug)
      else if l = ''none'' then Some None
      else None)"

definition setupLogger :: "'x mainCmd_scheme \<Rightarrow> (gerr, 'x mainCmd_scheme) res" where
  "setupLogger m =
     (case parse_level (mc_logLevel m) of
        None \<Rightarrow> Err (Fmt [errInvalidLogLevel])
      | Some None \<Rightarrow> Ok (m\<lparr>mc_logger := Some DiscardHandler\<rparr>)
      | Some (Some level) \<Rightarrow>
          Ok (m\<lparr>mc_logger := Some (if mc_logJSON m then JSONHandler level else TextHandler level)\<rparr>))"

section \<open>The log level of GORM (cmd/internal/gormflag)\<close>

text \<open>The levels of the library with their names, and any other number.\<close>

datatype gorm_level = gorm_Silent | gorm_Error | gorm_Warn | gorm_Info | gorm_Level int

definition DefaultLogLevel :: gorm_level where
  "DefaultLogLevel = gorm_Silent"

fun LogLevel_String :: "gorm_level \<Rightarrow> string" where
  "LogLevel_String gorm_Silent = ''silent''"
| "LogLevel_String gorm_Error = ''error''"
| "LogLevel_String gorm_Warn = ''warn''"
| "LogLevel_String gorm_Info = ''info''"
| "LogLevel_String (gorm_Level n) = ''LogLevel('' @ Itoa n @ '')''"

definition LogLevel_Set :: "string \<Rightarrow> gorm_level option" where
  "LogLevel_Set value =
     (let l = ToLower value in
      if l = ''silent'' then Some gorm_Silent
      else if l = ''error'' then Some gorm_Error
      else if l = ''warn'' \<or> l = ''warning'' then Some gorm_Warn
      else if l = ''info'' then Some gorm_Info
      else None)"

end
