(* ===== verification/Json_Encode.thy ===== *)
theory Json_Encode
  imports Json_Decode Routes Flags
begin

text \<open>
  The JSON encoding of responses: the methods \<^verbatim>\<open>MarshalJSON\<close> and the field tags of \<^verbatim>\<open>api\<close> and \<^verbatim>\<open>pid\<close>, and what
  \<^verbatim>\<open>writeJSONResponse\<close> and \<^verbatim>\<open>Log\<close> (\<^verbatim>\<open>server/internal/lowlevel/io.go\<close>) make of a response. The encoder of the library
  (\<^verbatim>\<open>encoding/json/v2\<close>) writes the members of a structure in the order of its fields and an empty array for a slice without elements. The text
  of a time stamp depends on the time zone of the process and is an argument. Strings are taken to be UTF-8, which the encoder demands
  and the decoder of the requests guarantees.
\<close>

section \<open>Data (api, pid)\<close>

definition json_int :: "int \<Rightarrow> json" where
  "json_int n = JNumber (Itoa n)"

definition Format_json :: "pid_format \<Rightarrow> json" where
  "Format_json f = JObject [(''pattern'', JString (fmt_Pattern f)), (''characters'', JString (fmt_Characters f))]"

definition NamespaceResponse_MarshalJSON :: "(time \<Rightarrow> string) \<Rightarrow> NamespaceResponse \<Rightarrow> json" where
  "NamespaceResponse_MarshalJSON ft n =
     JObject [(''id'', JString (nr_ID n)), (''tags'', json_strings (nr_Tags n)), (''pidFormat'', Format_json (nr_PIDFormat n)),
       (''dateCreated'', JString (ft (nr_DateCreated n))), (''dateUpdated'', JString (ft (nr_DateUpdated n)))]"

definition ResourceResponse_MarshalJSON :: "ResourceResponse \<Rightarrow> json" where
  "ResourceResponse_MarshalJSON r =
     JObject [(''pid'', JString (rr_PID r)), (''url'', json_opt (rr_URL r)), (''metadata'', json_opt (rr_Metadata r)),
       (''dateCreated'', JString (rr_DateCreated r)), (''dateUpdated'', JString (rr_DateUpdated r)),
       (''tags'', json_strings (rr_Tags r)), (''deleted'', JBool (rr_Deleted r))]"

definition RedactedResourceResponse_MarshalJSON :: "RedactedResourceResponse \<Rightarrow> json" where
  "RedactedResourceResponse_MarshalJSON r =
     JObject [(''pid'', JString (rrr_PID r)), (''dateCreated'', JString (rrr_DateCreated r)),
       (''dateUpdated'', JString (rrr_DateUpdated r)), (''deleted'', JBool True)]"

fun ResourceGetResult_MarshalJSON :: "ResourceGetResult \<Rightarrow> json" where
  "ResourceGetResult_MarshalJSON (FullResource r) = ResourceResponse_MarshalJSON r"
| "ResourceGetResult_MarshalJSON (RedactedResource r) = RedactedResourceResponse_MarshalJSON r"

text \<open>The paginated responses have the same three members.\<close>

definition Paginated_json :: "('a \<Rightarrow> json) \<Rightarrow> 'a page \<Rightarrow> json" where
  "Paginated_json item pg =
     JObject [(''total'', json_int (pg_Total pg)), (''offset'', json_int (pg_Offset pg)), (''items'', JArray (map item (pg_Items pg)))]"

definition ResourceCountResponse_json :: "int \<Rightarrow> json" where
  "ResourceCountResponse_json n = JObject [(''total'', json_int n)]"

definition MountResponse_json :: "MountResponse \<Rightarrow> json" where
  "MountResponse_json m = JObject [(''baseUri'', JString (mr_BaseURI m)), (''namespace'', JString (mr_Namespace m))]"

definition MountGrant_json :: "string \<Rightarrow> json" where
  "MountGrant_json pattern = JObject [(''pattern'', JString pattern)]"

definition NamespaceRole_json :: "NamespaceRole \<Rightarrow> json" where
  "NamespaceRole_json r = JObject [(''username'', JString (nrl_Username r)), (''role'', JString (nrl_Role r))]"

definition UserRole_json :: "UserRole \<Rightarrow> json" where
  "UserRole_json r = JObject [(''namespace'', JString (usr_Namespace r)), (''role'', JString (usr_Role r))]"

definition UserInfo_json :: "UserInfo \<Rightarrow> json" where
  "UserInfo_json u =
     JObject [(''username'', JString (ui_Username u)), (''superuser'', JBool (ui_Superuser u)), (''password'', JBool (ui_Password u))]"

definition SetPasswordResponse_json :: "bool \<Rightarrow> json" where
  "SetPasswordResponse_json b = JObject [(''password'', JBool b)]"

definition APIKeyNamespaceScope_json :: "APIKeyNamespaceScope \<Rightarrow> json" where
  "APIKeyNamespaceScope_json g = JObject [(''namespace'', JString (kns_Namespace g)), (''scope'', JString (kns_Scope g))]"

definition APIKeyInfo_members :: "(time \<Rightarrow> string) \<Rightarrow> APIKeyInfo \<Rightarrow> (string \<times> json) list" where
  "APIKeyInfo_members ft k =
     [(''id'', JString (key_ID k)), (''comment'', JString (key_Comment k)), (''createdAt'', JString (ft (key_CreatedAt k))),
      (''expiresAt'', json_opt (map_option ft (key_ExpiresAt k))), (''userScopes'', json_strings (key_UserScopes k)),
      (''namespaceScopes'', JArray (map APIKeyNamespaceScope_json (key_NamespaceScopes k)))]"

definition IssueKeyResponse_json :: "(time \<Rightarrow> string) \<Rightarrow> APIKeyInfo \<times> string \<Rightarrow> json" where
  "IssueKeyResponse_json ft = (\<lambda>(k, key). JObject (APIKeyInfo_members ft k @ [(''key'', JString key)]))"

text \<open>\<^verbatim>\<open>omitzero\<close> and \<^verbatim>\<open>omitempty\<close> drop a member.\<close>

definition InfoResponse_json :: "InfoResponse \<Rightarrow> json" where
  "InfoResponse_json i =
     JObject ([(''maxBodyBytes'', json_int (inf_MaxBodyBytes i)), (''defaultPageLimit'', json_int (inf_DefaultPageLimit i)),
        (''maxPageLimit'', json_int (inf_MaxPageLimit i)), (''maxBatchItems'', json_int (inf_MaxBatchItems i))] @
       (if inf_MaxAutocompleteUsers i = 0 then [] else [(''maxAutocompleteUsers'', json_int (inf_MaxAutocompleteUsers i))]) @
       (if inf_Authentication i then [(''authentication'', JBool True)] else []))"

definition MetaResponse_json :: "MetaResponse \<Rightarrow> json" where
  "MetaResponse_json m =
     JObject (map (apsnd JString) (filter (\<lambda>(name, v). v \<noteq> [])
       [(''about'', meta_About m), (''comment'', meta_Comment m), (''software'', meta_Software m), (''version'', meta_Version m)]))"

text \<open>The descriptions in the scope tables.\<close>

definition userDescriptions :: "(UserScope \<times> string) list" where
  "userDescriptions =
     [(ScopeListNamespaces, ''List namespaces available on the resolver.''),
      (ScopeCreateNamespace, ''Creates a new namespace.''),
      (ScopeCountAllResources, ''Return the total number of resources (issued PIDs) stored across all namespaces.''),
      (ScopeListMounts, ''List all namespace mounts.''),
      (ScopeResolveMountByBaseUri, ''Resolve a namespace mount by base URI.''),
      (ScopeSetMount, ''Create or replace a namespace mount.''),
      (ScopeDeleteMount, ''Delete a namespace mount.''),
      (ScopeGetMount, ''Resolve a resource using a mounted base URI and PID.''),
      (ScopeSetMountGrant, ''Grant a user permission to manage mounts matching a regexp pattern.''),
      (ScopeDeleteMountGrant, ''Revoke a user's mount-management grant pattern.''),
      (ScopeGetUserInfo, ''Return information about a user account.''),
      (ScopeUpdateUser, ''Update a user account.''),
      (ScopeCreateUser, ''Create a new user account.''),
      (ScopeDeleteUser, ''Delete a user account.''),
      (ScopeAutocompleteUsers, ''Autocomplete usernames by prefix.''),
      (ScopeListUsers, ''List all user accounts.''),
      (ScopeGetUserRoles, ''List explicit namespace roles for a user.''),
      (ScopeListOwnMountGrants, ''List mount-management grant patterns for a user.''),
      (ScopeListUserKeys, ''List API keys for a user account.''),
      (ScopeIssueUserKey, ''Issue a new API key.''),
      (ScopeSetUserPassword, ''Set or clear a user password.''),
      (ScopeRevokeUserKey, ''Revoke an API key for a user account.''),
      (ScopeImpersonate, ''Impersonate another user.'')]"

definition namespaceDescriptions :: "(NamespaceScope \<times> string) list" where
  "namespaceDescriptions =
     [(ScopeGetNamespace, ''Retrieve a single namespace by id.''),
      (ScopeUpdateNamespace, ''Update a namespace by id.''),
      (ScopeListNamespaceMounts, ''List mounts for a namespace.''),
      (ScopeListNamespaceRoles, ''List explicit namespace roles.''),
      (ScopeGetNamespaceRoleSelf, ''Get own role in a namespace.''),
      (ScopeGetNamespaceRoleOther, ''Get another user's role in a namespace.''),
      (ScopeSetNamespaceRoleSelf, ''Set own role in a namespace.''),
      (ScopeSetNamespaceRoleOther, ''Set another user's role in a namespace.''),
      (ScopeRemoveNamespaceRoleSelf, ''Remove own explicit role in a namespace.''),
      (ScopeRemoveNamespaceRoleOther, ''Remove another user's explicit role in a namespace.''),
      (ScopeListResources, ''List resources within a namespace.''),
      (ScopeCreateResource, ''Create a resource within a namespace.''),
      (ScopeCreateResourceBatch, ''Create several resources within a namespace.''),
      (ScopeGetResource, ''Retrieve a resource by PID within a namespace.''),
      (ScopeUpdateResource, ''Update a resource by PID within a namespace.''),
      (ScopeSeeDeletedResource, ''See an un-redacted deleted resource.''),
      (ScopeSeeInNamespaceList, ''See a namespace in the list of namespaces.'')]"

definition description :: "('a \<times> string) list \<Rightarrow> 'a \<Rightarrow> string" where
  "description table scope = (case map_of table scope of None \<Rightarrow> [] | Some text \<Rightarrow> text)"

definition UserScopeDefinition_json :: "UserScopeDefinition \<Rightarrow> json" where
  "UserScopeDefinition_json d =
     JObject [(''scope'', JString (usd_Scope d)), (''description'', JString (description userDescriptions (usd_Scope d))),
       (''anonymousMode'', JBool (usd_AnonymousMode d)), (''allowUnauthenticated'', JBool (usd_AllowUnauthenticated d)),
       (''requireSuperuser'', JBool (usd_RequireSuperuser d))]"

definition NamespaceScopeDefinition_json :: "NamespaceScopeDefinition \<Rightarrow> json" where
  "NamespaceScopeDefinition_json d =
     JObject [(''scope'', JString (nsd_Scope d)), (''description'', JString (description namespaceDescriptions (nsd_Scope d))),
       (''anonymousMode'', JBool (nsd_AnonymousMode d)), (''allowUnauthenticated'', JBool (nsd_AllowUnauthenticated d)),
       (''minRole'', JString (nsd_MinRole d)), (''requireSuperuser'', JBool (nsd_RequireSuperuser d))]"

definition ErrorResponse_json :: "ErrorCode \<Rightarrow> json" where
  "ErrorResponse_json code = JObject [(''error'', JString (ErrorCode_String code))]"

text \<open>How a caller was authenticated (\<^verbatim>\<open>api/caller.go\<close>).\<close>

fun AuthenticationMethod_MarshalJSON :: "AuthenticationMethod \<Rightarrow> json" where
  "AuthenticationMethod_MarshalJSON NoAuthentication = JObject [(''type'', JString ''none'')]"
| "AuthenticationMethod_MarshalJSON (Impersonation user reason) =
     JObject [(''type'', JString ''impersonate''), (''user'', JString user), (''reason'', AuthenticationMethod_MarshalJSON reason)]"
| "AuthenticationMethod_MarshalJSON BasicAuthentication = JObject [(''type'', JString ''basic'')]"
| "AuthenticationMethod_MarshalJSON (TokenAuthentication token) = JObject [(''type'', JString ''token'')]"

section \<open>Responses (server/internal/lowlevel/io.go)\<close>

text \<open>The value that an endpoint returns, as the encoder writes it.\<close>

fun response_json :: "(time \<Rightarrow> string) \<Rightarrow> api_response \<Rightarrow> json" where
  "response_json ft (RInfo i) = InfoResponse_json i"
| "response_json ft (RMeta m) = MetaResponse_json m"
| "response_json ft (RScopes (us, ns)) =
     JObject [(''user'', JArray (map UserScopeDefinition_json us)), (''namespace'', JArray (map NamespaceScopeDefinition_json ns))]"
| "response_json ft (RNamespaces pg) = Paginated_json (NamespaceResponse_MarshalJSON ft) pg"
| "response_json ft (RNamespace n) = NamespaceResponse_MarshalJSON ft n"
| "response_json ft (RCount n) = ResourceCountResponse_json n"
| "response_json ft (RMounts pg) = Paginated_json MountResponse_json pg"
| "response_json ft (RMount m) = MountResponse_json m"
| "response_json ft (RNothing _) = JObject []"
| "response_json ft (RRedirect (res, location)) = ResourceGetResult_MarshalJSON res"
| "response_json ft (RMountGrant p) = MountGrant_json p"
| "response_json ft (RBaseURIs pg) = Paginated_json JString pg"
| "response_json ft (RRoles pg) = Paginated_json NamespaceRole_json pg"
| "response_json ft (RRole r) = NamespaceRole_json r"
| "response_json ft (RResources pg) = Paginated_json ResourceResponse_MarshalJSON pg"
| "response_json ft (RResource r) = ResourceResponse_MarshalJSON r"
| "response_json ft (RResourceList rs) = JArray (map ResourceResponse_MarshalJSON rs)"
| "response_json ft (RResourceGet res) = ResourceGetResult_MarshalJSON res"
| "response_json ft (RUser u) = UserInfo_json u"
| "response_json ft (RUsernames us) = json_strings us"
| "response_json ft (RUsers pg) = Paginated_json UserInfo_json pg"
| "response_json ft (RUserRoles pg) = Paginated_json UserRole_json pg"
| "response_json ft (RMountGrants pg) = Paginated_json MountGrant_json pg"
| "response_json ft (RKeys pg) = Paginated_json (JObject \<circ> APIKeyInfo_members ft) pg"
| "response_json ft (RIssuedKey ik) = IssueKeyResponse_json ft ik"
| "response_json ft (RPassword b) = SetPasswordResponse_json b"

text \<open>
  What goes over the wire: status, content type, the \<^verbatim>\<open>Location\<close> header that \<^verbatim>\<open>resolveResourceByMountAndPID\<close>
  sets, and body. A response with the status 204 has no body.
\<close>

record wire =
  wi_Status :: nat
  wi_ContentType :: "string option"
  wi_Location :: "string option"
  wi_Body :: "json option"

fun location :: "api_response \<Rightarrow> string option" where
  "location (RRedirect (res, url)) = Some url"
| "location _ = None"

fun wire_response :: "(time \<Rightarrow> string) \<Rightarrow> api_response http_response \<Rightarrow> wire option" where
  "wire_response ft (Panicked _) = None"
| "wire_response ft (Response status None) =
     Some \<lparr>wi_Status = status, wi_ContentType = None, wi_Location = None, wi_Body = None\<rparr>"
| "wire_response ft (Response status (Some (Inl v))) =
     Some \<lparr>wi_Status = status, wi_ContentType = Some ''application/json'', wi_Location = location v,
       wi_Body = Some (response_json ft v)\<rparr>"
| "wire_response ft (Response status (Some (Inr code))) =
     Some \<lparr>wi_Status = status, wi_ContentType = Some ''application/json'', wi_Location = None,
       wi_Body = Some (ErrorResponse_json code)\<rparr>"

text \<open>The level and the message with which \<^verbatim>\<open>Log\<close> records a response.\<close>

definition Log_entry :: "nat \<Rightarrow> int \<times> string" where
  "Log_entry status =
     (if 200 \<le> status \<and> status < 400 then (LevelDebug, ''request success'')
      else if 400 \<le> status \<and> status < 500 then (LevelDebug, ''request client error'')
      else if 500 \<le> status \<and> status < 600 then (LevelError, ''request server error'')
      else (LevelInfo, ''unknown event''))"

end
