(* ===== verification/Json_Props.thy ===== *)
theory Json_Props
  imports Json_Encode Server_Props
begin

text \<open>
  What clients read in the JSON of the responses: a resource and a namespace can be sent back and are stored
  as they were, and the answers to a caller that may not see deleted resources do not depend on their content.
\<close>

section \<open>Sending back what was read\<close>

text \<open>What a client does that sends back some members of an object it has read.\<close>

fun select :: "string list \<Rightarrow> json \<Rightarrow> json" where
  "select names (JObject m) = JObject (filter (\<lambda>(name, v). name \<in> set names) m)"
| "select names v = v"

lemma select_update:
  "ResourceUpdateRequest_UnmarshalJSON (select [''url'', ''metadata'', ''tags'', ''deleted''] (ResourceResponse_MarshalJSON r)) =
     Ok \<lparr>rur_URL = Some (rr_URL r), rur_Metadata = Some (rr_Metadata r), rur_Tags = Some (rr_Tags r), rur_Deleted = Some (rr_Deleted r)\<rparr>"
  unfolding ResourceUpdateRequest_exact by (auto simp: json_object_def ResourceResponse_MarshalJSON_def)

lemma select_create:
  "ResourceCreateRequest_UnmarshalJSON (select [''url'', ''metadata'', ''tags''] (ResourceResponse_MarshalJSON r)) =
     Ok \<lparr>rcr_URL = rr_URL r, rcr_Metadata = rr_Metadata r, rcr_Tags = rr_Tags r\<rparr>"
  unfolding ResourceCreateRequest_exact by (auto simp: json_object_def ResourceResponse_MarshalJSON_def)

lemma whole_refused:
  "ResourceUpdateRequest_UnmarshalJSON (ResourceResponse_MarshalJSON r) \<noteq> Ok req"
  unfolding ResourceUpdateRequest_UnmarshalJSON_def bind_res_Ok_iff unmarshal_fields_Ok
  by (simp add: ResourceResponse_MarshalJSON_def)

lemma select_namespace:
  "NamespaceCreateRequest_UnmarshalJSON (select [''tags'', ''pidFormat''] (NamespaceResponse_MarshalJSON ft n)) =
     Ok \<lparr>ncr_Tags = nr_Tags n, ncr_PIDFormat = nr_PIDFormat n\<rparr>" if "Format_Validate (nr_PIDFormat n) = None"
proof -
  have "Format_UnmarshalJSON (Format_json (nr_PIDFormat n)) = Ok (nr_PIDFormat n)"
    unfolding Format_exact using that by (auto simp: json_object_def Format_json_def)
  then show ?thesis
    unfolding NamespaceCreateRequest_exact
    by (intro exI [of _ "Format_json (nr_PIDFormat n)"]) (auto simp: json_object_def NamespaceResponse_MarshalJSON_def)
qed

text \<open>Decoding what was encoded.\<close>

lemma fields_enc:
  "dec m = Ok x \<Longrightarrow> distinct (map fst m) \<Longrightarrow> set (map fst m) \<subseteq> set names \<Longrightarrow> unmarshal_fields wrap names dec (JObject m) = Ok x"
  by (auto simp: unmarshal_fields_Ok)

lemma member_known: "map_of m name = Some v \<Longrightarrow> dec v = Ok y \<Longrightarrow> Unmarshal_member dec name m = Ok (Some y)"
  by (auto simp: Unmarshal_member_Ok)

lemma primitives_enc [simp]:
  "String_UnmarshalJSON (JString x) = Ok x" "Bool_UnmarshalJSON (JBool b) = Ok b" "Unmarshal_stringptr (json_opt y) = Ok y"
  "StringSlice_UnmarshalJSON (json_strings xs) = Ok xs"
  by (simp_all add: primitives_Ok StringSlice_Ok)

lemma grant_enc: "grant_UnmarshalJSON (APIKeyNamespaceScope_json gr) = Ok gr"
  by (simp add: grant_UnmarshalJSON_def APIKeyNamespaceScope_json_def Unmarshal_struct_def bind_res_def member_known
      required_def wrap_result_def)

lemma grants_enc: "apiKeyNamespaceScopeSlice_UnmarshalJSON (JArray (map APIKeyNamespaceScope_json gs)) = Ok gs"
  by (simp add: apiKeyNamespaceScopeSlice_UnmarshalJSON_def slice_UnmarshalJSON_def slice_loop_Ok list_all2_conv_all_nth grant_enc)

lemma time_enc:
  "Unmarshal_ptr (Time_UnmarshalJSON time_Parse) (json_opt (map_option ft e)) = Ok e"
  if "\<And>t. e = Some t \<Longrightarrow> time_Parse (ft t) = Ok t"
  by (cases e) (simp_all add: Unmarshal_ptr_def json_opt_def Time_UnmarshalJSON_def that)

lemmas enc = fields_enc member_known bind_res_def required_def

lemma select_others:
  "MountUpsertRequest_UnmarshalJSON (select [''namespace''] (MountResponse_json m)) = Ok (mr_Namespace m)"
  "MountGrantRequest_UnmarshalJSON (MountGrant_json pattern) = Ok pattern"
  "Role_Validate (nrl_Role rl) = None \<Longrightarrow>
     SetNamespaceRoleRequest_UnmarshalJSON (select [''role''] (NamespaceRole_json rl)) = Ok (nrl_Role rl)"
  "UserCreateRequest_UnmarshalJSON (select [''username'', ''superuser''] (UserInfo_json u)) =
     Ok \<lparr>ucr_Username = ui_Username u, ucr_Superuser = ui_Superuser u\<rparr>"
  "KeyRevokeRequest_UnmarshalJSON (select [''id''] (JObject (APIKeyInfo_members ft k))) = Ok (key_ID k)"
  by (simp_all add: MountUpsertRequest_UnmarshalJSON_def MountResponse_json_def MountGrantRequest_UnmarshalJSON_def MountGrant_json_def
      SetNamespaceRoleRequest_UnmarshalJSON_def NamespaceRole_json_def UserCreateRequest_UnmarshalJSON_def UserInfo_json_def
      KeyRevokeRequest_UnmarshalJSON_def APIKeyInfo_members_def enc)

lemma select_key:
  "KeyIssueRequest_UnmarshalJSON time_Parse
      (select [''comment'', ''expiresAt'', ''userScopes'', ''namespaceScopes''] (JObject (APIKeyInfo_members ft k))) =
     Ok \<lparr>kir_Comment = key_Comment k, kir_ExpiresAt = key_ExpiresAt k, kir_UserScopes = key_UserScopes k,
       kir_NamespaceScopes = key_NamespaceScopes k\<rparr>"
  if "\<And>t. key_ExpiresAt k = Some t \<Longrightarrow> time_Parse (ft t) = Ok t"
  by (simp add: KeyIssueRequest_UnmarshalJSON_def APIKeyInfo_members_def enc grants_enc time_enc [of "key_ExpiresAt k", OF that])

lemma update_same:
  assumes "mem_GetResource n p s = Ok r"
  shows "case mem_UpdateResource n p \<lparr>rur_URL = Some (rr_URL r), rur_Metadata = Some (rr_Metadata r), rur_Tags = Some (rr_Tags r),
        rur_Deleted = Some (rr_Deleted r)\<rparr> now s of (res, s') \<Rightarrow>
      res = Ok (r\<lparr>rr_DateUpdated := rfc3339 now\<rparr>) \<and> mem_GetResource n p s' = res \<and>
      (\<forall>n' p'. (n', p') \<noteq> (n, p) \<longrightarrow> mem_GetResource n' p' s' = mem_GetResource n' p' s)"
proof -
  let ?req = "\<lparr>rur_URL = Some (rr_URL r), rur_Metadata = Some (rr_Metadata r), rur_Tags = Some (rr_Tags r), rur_Deleted = Some (rr_Deleted r)\<rparr>"
  have a: "apply_update ?req r = r" by (simp add: apply_update_def)
  from assms have d: "dhas (mem_namespaces s) n" "dget (inner (mem_resources s) n) p = Some r"
    by (simp_all add: mem_GetResource_def split: if_splits option.splits)
  then have "mem_UpdateResource n p ?req now s = (Ok (r\<lparr>rr_DateUpdated := rfc3339 now\<rparr>), s\<lparr>mem_resources :=
      dset n (dset p (r\<lparr>rr_DateUpdated := rfc3339 now\<rparr>) (inner (mem_resources s) n)) (mem_resources s)\<rparr>)"
    by (simp add: mem_UpdateResource_def a Let_def)
  with d(1) show ?thesis by (auto simp: mem_GetResource_def inner_def dict_simps)
qed



text \<open>
  C28. The other responses can be sent back too. The members of a response that the matching request has decode to the content of the
  response: those of a namespace with a valid format for the creation of a namespace, those of a mount, of a mount grant and of
  a valid role for the requests that set them, those of an account for its creation, the identifier of a key for
  its revocation, and the rest of a key for the issue of an equal key, if the parser of time stamps
  reads the time at which the key expires as the encoder writes it.
\<close>

theorem responses_resent:
  assumes "\<And>t. key_ExpiresAt k = Some t \<Longrightarrow> time_Parse (ft t) = Ok t" and "Format_Validate (nr_PIDFormat n) = None" and "Role_Validate (nrl_Role rl) = None"
  shows "NamespaceCreateRequest_UnmarshalJSON (select [''tags'', ''pidFormat''] (NamespaceResponse_MarshalJSON ft n)) =
      Ok \<lparr>ncr_Tags = nr_Tags n, ncr_PIDFormat = nr_PIDFormat n\<rparr> \<and>
    MountUpsertRequest_UnmarshalJSON (select [''namespace''] (MountResponse_json m)) = Ok (mr_Namespace m) \<and>
    MountGrantRequest_UnmarshalJSON (MountGrant_json pattern) = Ok pattern \<and>
    SetNamespaceRoleRequest_UnmarshalJSON (select [''role''] (NamespaceRole_json rl)) = Ok (nrl_Role rl) \<and>
    UserCreateRequest_UnmarshalJSON (select [''username'', ''superuser''] (UserInfo_json u)) =
      Ok \<lparr>ucr_Username = ui_Username u, ucr_Superuser = ui_Superuser u\<rparr> \<and>
    KeyRevokeRequest_UnmarshalJSON (select [''id''] (JObject (APIKeyInfo_members ft k))) = Ok (key_ID k) \<and>
    KeyIssueRequest_UnmarshalJSON time_Parse
        (select [''comment'', ''expiresAt'', ''userScopes'', ''namespaceScopes''] (JObject (APIKeyInfo_members ft k))) =
      Ok \<lparr>kir_Comment = key_Comment k, kir_ExpiresAt = key_ExpiresAt k, kir_UserScopes = key_UserScopes k,
        kir_NamespaceScopes = key_NamespaceScopes k\<rparr>"
  by (intro conjI select_namespace select_others select_key assms)

theorem responses_resent_witness:
  "\<exists>k. key_ExpiresAt k = Some 50 \<and> KeyIssueRequest_UnmarshalJSON demo_time_Parse
        (select [''comment'', ''expiresAt'', ''userScopes'', ''namespaceScopes''] (JObject (APIKeyInfo_members (\<lambda>_. ''1970-01-01T00:00:50Z'') k))) =
      Ok \<lparr>kir_Comment = key_Comment k, kir_ExpiresAt = Some 50, kir_UserScopes = key_UserScopes k,
        kir_NamespaceScopes = key_NamespaceScopes k\<rparr>"
proof -
  let ?k = "\<lparr>key_ID = ''i'', key_Comment = ''ci'', key_CreatedAt = 0, key_ExpiresAt = Some 50, key_UserScopes = [ScopeListUsers],
    key_NamespaceScopes = [\<lparr>kns_Namespace = ''a'', kns_Scope = ScopeGetResource\<rparr>]\<rparr>"
  let ?n = "\<lparr>nr_ID = ''a'', nr_Tags = [], nr_PIDFormat = \<lparr>fmt_Pattern = ''**'', fmt_Characters = ''hex''\<rparr>,
    nr_DateCreated = 0, nr_DateUpdated = 0\<rparr>"
  have "Format_Validate (nr_PIDFormat ?n) = None" by code_simp
  moreover have "Role_Validate (nrl_Role \<lparr>nrl_Username = ''alice'', nrl_Role = RoleManager\<rparr>) = None" by (simp add: Role_Validate_def role_defs)
  moreover have "demo_time_Parse ''1970-01-01T00:00:50Z'' = Ok t" if "key_ExpiresAt ?k = Some t" for t
    using that by (simp add: demo_time_Parse_def)
  ultimately show ?thesis
    using responses_resent [of ?k demo_time_Parse "\<lambda>_. ''1970-01-01T00:00:50Z''" ?n "\<lparr>nrl_Username = ''alice'', nrl_Role = RoleManager\<rparr>"]
    by (intro exI [of _ ?k]) simp
qed

section \<open>Deleted resources\<close>

text \<open>
  Another state with the same resources, in which every deleted resource has another target, other metadata and other tags.
\<close>

type_synonym wording = "string \<Rightarrow> string \<Rightarrow> string option \<times> string option \<times> string list"

definition reworded :: "wording \<Rightarrow> string \<Rightarrow> string \<Rightarrow> ResourceResponse \<Rightarrow> ResourceResponse" where
  "reworded g n p r =
     (if rr_Deleted r then (case g n p of (u, m, t) \<Rightarrow> r\<lparr>rr_URL := u, rr_Metadata := m, rr_Tags := t\<rparr>) else r)"

definition reword :: "wording \<Rightarrow> memory \<Rightarrow> memory" where
  "reword g s = s\<lparr>mem_resources :=
     map (\<lambda>(n, byPID). (n, map (\<lambda>(p, r). (p, reworded g n p r)) byPID)) (mem_resources s)\<rparr>"

lemma dget_map [simp]: "dget (map (\<lambda>(k, v). (k, f k v)) d) k = map_option (f k) (dget d k)"
  by (induction d) (auto simp: dget_def)

lemma reword_simps [simp]:
  "mem_users (reword g s) = mem_users s" "mem_namespaces (reword g s) = mem_namespaces s"
  "mem_roles (reword g s) = mem_roles s" "mem_mounts (reword g s) = mem_mounts s"
  "mem_mountGrants (reword g s) = mem_mountGrants s"
  by (simp_all add: reword_def)

lemma reworded_simps [simp]: "rr_Deleted (reworded g n p r) = rr_Deleted r" "Redact (reworded g n p r) = Redact r"
  "\<not> rr_Deleted r \<Longrightarrow> reworded g n p r = r"
  by (simp_all add: reworded_def Redact_def split: prod.splits)

lemma GetResource_reword: "mem_GetResource n p (reword g s) = fmap_res (reworded g n p) (mem_GetResource n p s)"
  by (simp add: mem_GetResource_def reword_def inner_def split: option.splits)

lemma foldl_sizes: "foldl (\<lambda>n (_, b). n + int (length b)) k (map (\<lambda>(n, b). (n, map (f n) b)) d) =
    foldl (\<lambda>n (_, b). n + int (length b)) k d"
  by (induction d arbitrary: k) auto

lemma mem_reword [simp]:
  "mem_LookupUserByKey cr format key (reword g s) = mem_LookupUserByKey cr format key s"
  "mem_CheckPassword cr u p (reword g s) = mem_CheckPassword cr u p s"
  "mem_GetUser u (reword g s) = mem_GetUser u s"
  "mem_GetNamespaceRole n u (reword g s) = mem_GetNamespaceRole n u s"
  "mem_GetNamespace n (reword g s) = mem_GetNamespace n s"
  "mem_GetMount b (reword g s) = mem_GetMount b s"
  "mem_CountAllResources (reword g s) = mem_CountAllResources s"
  by (simp_all add: mem_LookupUserByKey_def mem_CheckPassword_def mem_GetUser_def mem_GetNamespaceRole_def
      mem_GetNamespace_def mem_GetMount_def mem_CountAllResources_def reword_def foldl_sizes split: res.split)

lemma reading_reword:
  "be_LookupUserByKey (Creds (memory_backend cr)) format key (reword g s) = be_LookupUserByKey (Creds (memory_backend cr)) format key s"
  "be_CheckPassword (Creds (memory_backend cr)) u p (reword g s) = be_CheckPassword (Creds (memory_backend cr)) u p s"
  "be_GetUser (Users (memory_backend cr)) u (reword g s) = be_GetUser (Users (memory_backend cr)) u s"
  "be_GetNamespaceRole (Roles (memory_backend cr)) n u (reword g s) = be_GetNamespaceRole (Roles (memory_backend cr)) n u s"
  by (simp_all add: memory_backend_def)

lemma auth_reword:
  assumes "sv_backend sv = memory_backend cr"
  shows "au_AuthenticateAPIKey (service_auth sv now) key (reword g s) = au_AuthenticateAPIKey (service_auth sv now) key s"
    "au_AuthenticatePassword (service_auth sv now) u p (reword g s) = au_AuthenticatePassword (service_auth sv now) u p s"
    "au_LoadUser (service_auth sv now) u (reword g s) = au_LoadUser (service_auth sv now) u s"
    "au_ExplicitNamespaceRole (service_auth sv now) n u (reword g s) = au_ExplicitNamespaceRole (service_auth sv now) n u s"
  unfolding service_auth_def AuthenticateAPIKey_def AuthenticatePassword_def LoadUser_def ExplicitNamespaceRole_def
    AuthService.simps assms reading_reword by (rule refl)+

lemma caller_reword:
  assumes "sv_backend sv = memory_backend cr"
  shows "resolveCaller (service_auth sv now) r (reword g s) = resolveCaller (service_auth sv now) r s"
    "CheckNamespaceScope (service_auth sv now) n c sc (reword g s) = CheckNamespaceScope (service_auth sv now) n c sc s"
  unfolding resolveCaller_def load_caller_def resolveImpersonatedUser_def CheckNamespaceScope_def auth_reword [OF assms] by (rule refl)+

text \<open>An implementation that does the same in both states.\<close>

definition blind :: "wording \<Rightarrow> (memory \<Rightarrow> ('a \<times> memory) option) \<Rightarrow> memory \<Rightarrow> bool" where
  "blind g f s \<longleftrightarrow> f (reword g s) = map_option (apsnd (reword g)) (f s)"

lemma blind_handle:
  assumes "sv_backend sv = memory_backend cr"
    and "\<And>c. (if authenticate then resolveCaller (service_auth sv now) r s else Ok None) = Ok c \<Longrightarrow> blind g (impl r c) s"
  shows "blind g (handle (service_auth sv now) authenticate impl ok A r) s"
proof (cases "if authenticate then resolveCaller (service_auth sv now) r s else Ok None")
  case (Ok c)
  with assms(2) have b: "blind g (impl r c) s" by simp
  have "handle_impl impl ok A r c (reword g s) = map_option (apsnd (reword g)) (handle_impl impl ok A r c s)"
    using b by (cases "impl r c s") (auto simp: blind_def handle_impl_def split: res.splits)
  with Ok show ?thesis by (simp add: blind_def handle_def caller_reword [OF assms(1)] cong: if_cong)
qed (simp_all add: blind_def handle_def caller_reword [OF assms(1)] cong: if_cong)

lemma blind_user_scope:
  assumes "\<And>v sc. scope r c = Ok (v, sc) \<Longrightarrow> CheckUserScope auth c sc = None \<Longrightarrow> blind g (impl v r c) s"
  shows "blind g (user_scope_impl auth scope impl r c) s"
proof (cases "scope r c")
  case (Ok x)
  then obtain v sc where x: "scope r c = Ok (v, sc)" by (cases x) simp
  show ?thesis
  proof (cases "CheckUserScope auth c sc")
    case None
    then show ?thesis using assms [OF x] x
      by (cases "impl v r c s") (auto simp: blind_def user_scope_impl_def apfst_def apsnd_def map_prod_def)
  qed (simp add: x blind_def user_scope_impl_def)
qed (simp_all add: blind_def user_scope_impl_def)

lemma blind_namespace_scope:
  assumes "sv_backend sv = memory_backend cr"
    and "\<And>n v sc. scope r c = Ok (v, sc) \<Longrightarrow> readNamespaceParam r = Ok n \<Longrightarrow> CheckNamespaceScope (service_auth sv now) n c sc s = Ok () \<Longrightarrow>
      blind g (impl n v r c) s"
  shows "blind g (namespace_scope_impl (service_auth sv now) scope impl r c) s"
proof (cases "scope r c")
  case (Ok x)
  then obtain v sc where x: "scope r c = Ok (v, sc)" by (cases x) simp
  show ?thesis
  proof (cases "readNamespaceParam r")
    case n: (Ok n)
    show ?thesis
    proof (cases "CheckNamespaceScope (service_auth sv now) n c sc s")
      case (Ok u)
      then show ?thesis using assms(2) [OF x n] x n
        by (cases "impl n v r c s")
          (auto simp: blind_def namespace_scope_impl_def caller_reword [OF assms(1)] apfst_def apsnd_def map_prod_def)
    qed (simp_all add: x n blind_def namespace_scope_impl_def caller_reword [OF assms(1)])
  qed (simp_all add: x blind_def namespace_scope_impl_def)
qed (simp_all add: blind_def namespace_scope_impl_def)

text \<open>The endpoints that are open or that read a resource.\<close>

lemma blind_answer: "blind g (f r c) s \<Longrightarrow> blind g (answer k f r c) s"
  by (cases "f r c s") (auto simp: blind_def answer_def split: res.splits)

lemma blind_seq: "(\<And>v. x = Ok v \<Longrightarrow> blind g (f v) s) \<Longrightarrow> blind g (seq_impl x f) s"
  by (cases x) (simp_all add: blind_def seq_impl_def)

lemma blind_reading: "f (reword g s) = f s \<Longrightarrow> blind g (reading f) s"
  by (simp add: blind_def reading_def)

lemmas blind_rules = blind_answer blind_seq blind_reading

lemma blind_open:
  assumes "sv_backend (hs_svc h) = memory_backend cr"
  shows "blind g (h_countAllResources h r c) s" "blind g (h_resolveMountByBaseUri h env r c) s" "blind g (h_getNamespace h n r c) s"
  unfolding h_countAllResources_def h_resolveMountByBaseUri_def h_getNamespace_def
  by (intro blind_rules; simp add: svc_CountAllResources_def svc_GetMount_def svc_GetNamespace_def assms memory_backend_def)+

lemma svc_GetResource_reword:
  assumes "sv_backend sv = memory_backend cr" and "redact ()"
  shows "svc_GetResource sv n p redact (reword g s) = svc_GetResource sv n p redact s"
  using assms by (cases "mem_GetResource n p s")
    (simp_all add: svc_GetResource_def memory_backend_def GetResource_reword fmap_res_def reply_def)

lemma shouldRedact_reword:
  "shouldRedactResource h env c n (reword g s) = shouldRedactResource h env c n s" if "sv_backend (hs_svc h) = memory_backend cr"
  by (intro ext) (simp add: shouldRedactResource_def caller_reword [OF that])

lemma blind_getResource:
  assumes "sv_backend (hs_svc h) = memory_backend cr"
    and "CheckNamespaceScope (auth_of h env) n c ScopeSeeDeletedResource s \<noteq> Ok ()"
  shows "blind g (h_getResource h env n r c) s"
  unfolding h_getResource_def
  by (intro blind_rules)
    (simp add: shouldRedact_reword [OF assms(1)] svc_GetResource_reword [OF assms(1)] shouldRedactResource_def assms(2))

lemma blind_resolve:
  assumes "sv_backend (hs_svc h) = memory_backend cr"
    and "\<And>n. CheckNamespaceScope (auth_of h env) n c ScopeSeeDeletedResource s \<noteq> Ok ()"
  shows "blind g (h_resolveResourceByMountAndPID h env r c) s"
proof -
  have m: "svc_GetMount (hs_svc h) b (reword g s) = svc_GetMount (hs_svc h) b s" for b
    by (simp add: svc_GetMount_def assms(1))
  show ?thesis
    unfolding blind_def h_resolveResourceByMountAndPID_def m
    unfolding blind_def [symmetric]
    by (intro blind_rules)
      (simp add: shouldRedact_reword [OF assms(1)] svc_GetResource_reword [OF assms(1)] shouldRedactResource_def assms(2))
qed

lemma blind_routes:
  assumes "sv_backend (hs_svc h) = memory_backend cr"
    and "\<And>n c. resolveCaller (auth_of h env) r s = Ok c \<Longrightarrow> CheckNamespaceScope (auth_of h env) n c ScopeSeeDeletedResource s \<noteq> Ok ()"
  shows "blind g (ServeHTTP h env Op_getResource r) s" "blind g (ServeHTTP h env Op_resolveResourceByMountAndPID r) s"
proof -
  show "blind g (ServeHTTP h env Op_getResource r) s"
    unfolding ServeHTTP.simps route_getResource_def NamespaceScope_handler_def DynamicNamespaceScope_def
    by (intro blind_handle [OF assms(1)] blind_namespace_scope [OF assms(1)] blind_answer blind_getResource [OF assms(1)] assms(2)) simp
  show "blind g (ServeHTTP h env Op_resolveResourceByMountAndPID r) s"
    unfolding ServeHTTP.simps route_resolveResourceByMountAndPID_def UserScope_handler_def dynamicUserScope_def
    by (intro blind_handle [OF assms(1)] blind_user_scope blind_answer blind_resolve [OF assms(1)] assms(2)) simp
qed

lemma blind_open_routes:
  assumes "sv_backend (hs_svc h) = memory_backend cr"
  shows "blind g (ServeHTTP h env Op_getResolverInfo r) s" "blind g (ServeHTTP h env Op_getResolverMeta r) s"
    "blind g (ServeHTTP h env Op_listScopes r) s" "blind g (ServeHTTP h env Op_countAllResources r) s"
    "blind g (ServeHTTP h env Op_resolveMountByBaseUri r) s" "blind g (ServeHTTP h env Op_getNamespace r) s"
  unfolding ServeHTTP.simps user_routes namespace_routes NamespaceScope_handler_def DynamicNamespaceScope_def
    UserScope_handler_def dynamicUserScope_def route_getResolverInfo_def route_getResolverMeta_def route_listScopes_def
    Public_handler_def answer_public_def h_getResolverInfo_def h_getResolverMeta_def h_listScopes_def
  by (intro blind_handle [OF assms] blind_namespace_scope [OF assms] blind_user_scope blind_answer blind_open [OF assms];
      simp add: blind_def reading_def)+

lemma blind_refused_user:
  assumes "sv_backend sv = memory_backend cr" and "rq_Authorization r = []" and "\<not> AnonymousMode sv"
    and "sc \<notin> {ScopeCountAllResources, ScopeResolveMountByBaseUri, ScopeGetMount}"
  shows "blind g (UserScope_handler (service_auth sv now) sc impl ok A r) s"
proof -
  have "CheckUserScope (service_auth sv now) None sc \<noteq> None"
    using user_write_scopes(1) [of sc] assms(3,4) by (auto simp: CheckUserScope_def service_auth_def)
  then show ?thesis
    unfolding UserScope_handler_def dynamicUserScope_def using assms(2)
    by (intro blind_handle [OF assms(1)] blind_user_scope) (auto simp: resolveCaller_empty)
qed

lemma unauthenticated_refusal:
  assumes "\<not> AnonymousMode sv" and "sc \<notin> {ScopeGetNamespace, ScopeGetResource}"
  shows "CheckNamespaceScope (service_auth sv now) n None sc s \<noteq> Ok ()"
  using namespace_refusal [OF _ assms(1), of n sc now s] closed_scopes [of n RoleNone sc] assms(2) by auto

lemma blind_refused_namespace:
  assumes "sv_backend sv = memory_backend cr" and "rq_Authorization r = []" and "\<not> AnonymousMode sv"
    and "\<And>v sc. scope r None = Ok (v, sc) \<Longrightarrow> sc \<notin> {ScopeGetNamespace, ScopeGetResource}"
  shows "blind g (DynamicNamespaceScope (service_auth sv now) scope impl ok A r) s"
  unfolding DynamicNamespaceScope_def using assms(2,4) unauthenticated_refusal [OF assms(3)]
  by (intro blind_handle [OF assms(1)] blind_namespace_scope [OF assms(1)]) (auto simp: resolveCaller_empty)

lemma blind_unauthenticated:
  assumes "sv_backend (hs_svc h) = memory_backend cr" and "rq_Authorization r = []" and "\<not> AnonymousMode (hs_svc h)"
  shows "blind g (ServeHTTP h env op r) s"
proof (cases "op \<in> open_operations")
  case True
  have "CheckNamespaceScope (auth_of h env) n c ScopeSeeDeletedResource s \<noteq> Ok ()" if "resolveCaller (auth_of h env) r s = Ok c" for n c
    using that resolveCaller_empty [OF assms(2), of "auth_of h env" s] unauthenticated_refusal [OF assms(3), of ScopeSeeDeletedResource]
    by (auto simp: namespace_scope_names)
  from blind_routes [OF assms(1) this] True blind_open_routes [OF assms(1)] show ?thesis by (auto simp: open_operations_def)
next
  case False
  note refused = blind_refused_user [OF assms] blind_refused_namespace [OF assms]
  from False show ?thesis
    by (cases op; (simp_all only: ServeHTTP.simps user_routes namespace_routes role_routes role_scopes NamespaceScope_handler_def)?)
      (simp add: open_operations_def; fail |
        rule refused, (auto simp: user_scope_names namespace_scope_names self_or_other_def bind_res_Ok_iff split: if_splits; fail)+)+
qed

text \<open>What the endpoint sends.\<close>

lemma getResource_wire:
  assumes "sv_backend (hs_svc h) = memory_backend cr" and "resolveCaller (auth_of h env) r s = Ok c"
    and "readNamespaceParam r = Ok n" and "readPidParam r = Ok p" and "mem_GetResource n p s = Ok res"
    and "CheckNamespaceScope (auth_of h env) n c ScopeGetResource s = Ok ()"
  shows "map_option (wire_response ft \<circ> fst) (ServeHTTP h env Op_getResource r s) =
    Some (Some (if rr_Deleted res \<and> CheckNamespaceScope (auth_of h env) n c ScopeSeeDeletedResource s \<noteq> Ok ()
      then \<lparr>wi_Status = 410, wi_ContentType = Some ''application/json'', wi_Location = None,
             wi_Body = Some (RedactedResourceResponse_MarshalJSON (Redact res))\<rparr>
      else \<lparr>wi_Status = 200, wi_ContentType = Some ''application/json'', wi_Location = None,
             wi_Body = Some (ResourceResponse_MarshalJSON res)\<rparr>))"
  using assms
  by (simp add: route_getResource_def NamespaceScope_handler_def DynamicNamespaceScope_def handle_def handle_impl_def
      namespace_scope_impl_def answer_def h_getResource_def seq_impl_def reading_def svc_GetResource_def reply_def fmap_res_def
      wrap_result_def writeJSONResponse_def resource_status_def shouldRedactResource_def)

text \<open>
  C26. A deleted resource is hidden. Over the in-memory backend, let a caller not have the scope to see deleted resources of any
  namespace, and let the request read a resource by its identifier, directly or through a mount; or let it be any request
  without credentials to a server that is not in anonymous mode. Then the answer is the same in a state in which the deleted
  resources have any other targets, metadata and tags, and so are all other effects. A deleted resource that is read
  by its identifier is answered with the status 410 and an object with exactly four members: the
  identifier, the two dates and the mark that it is deleted.
\<close>

theorem deleted_hidden:
  assumes "sv_backend (hs_svc h) = memory_backend cr"
    and "rq_Authorization r = [] \<and> \<not> AnonymousMode (hs_svc h) \<or>
      op \<in> {Op_getResource, Op_resolveResourceByMountAndPID} \<and>
      (\<forall>c n. resolveCaller (auth_of h env) r s = Ok c \<longrightarrow>
         CheckNamespaceScope (auth_of h env) n c ScopeSeeDeletedResource s \<noteq> Ok ())"
  shows "ServeHTTP h env op r (reword g s) = map_option (apsnd (reword g)) (ServeHTTP h env op r s) \<and>
    (\<forall>c n p res. op = Op_getResource \<and> resolveCaller (auth_of h env) r s = Ok c \<and> readNamespaceParam r = Ok n \<and>
       readPidParam r = Ok p \<and> CheckNamespaceScope (auth_of h env) n c ScopeGetResource s = Ok () \<and>
       mem_GetResource n p s = Ok res \<and> rr_Deleted res \<longrightarrow>
         map_option (wire_response ft \<circ> fst) (ServeHTTP h env op r s) =
           Some (Some \<lparr>wi_Status = 410, wi_ContentType = Some ''application/json'', wi_Location = None,
             wi_Body = Some (JObject [(''pid'', JString (rr_PID res)), (''dateCreated'', JString (rr_DateCreated res)),
               (''dateUpdated'', JString (rr_DateUpdated res)), (''deleted'', JBool True)])\<rparr>))"
proof -
  have hidden: "CheckNamespaceScope (auth_of h env) n c ScopeSeeDeletedResource s \<noteq> Ok ()"
    if "resolveCaller (auth_of h env) r s = Ok c" for n c
    using that assms(2) resolveCaller_empty [of r "auth_of h env" s] unauthenticated_refusal [of "hs_svc h" ScopeSeeDeletedResource]
    by (auto simp: namespace_scope_names)
  have "blind g (ServeHTTP h env op r) s"
    using assms(2) blind_unauthenticated [OF assms(1)] blind_routes [OF assms(1) hidden] by blast
  moreover have "map_option (wire_response ft \<circ> fst) (ServeHTTP h env Op_getResource r s) =
      Some (Some \<lparr>wi_Status = 410, wi_ContentType = Some ''application/json'', wi_Location = None,
        wi_Body = Some (JObject [(''pid'', JString (rr_PID res)), (''dateCreated'', JString (rr_DateCreated res)),
          (''dateUpdated'', JString (rr_DateUpdated res)), (''deleted'', JBool True)])\<rparr>)"
    if "resolveCaller (auth_of h env) r s = Ok c" "readNamespaceParam r = Ok n" "readPidParam r = Ok p"
      "CheckNamespaceScope (auth_of h env) n c ScopeGetResource s = Ok ()" "mem_GetResource n p s = Ok res" "rr_Deleted res" for c n p res
    unfolding getResource_wire [OF assms(1) that(1-3,5,4)]
    using that(6) hidden [OF that(1), of n] by (simp add: RedactedResourceResponse_MarshalJSON_def Redact_def)
  ultimately show ?thesis unfolding blind_def by blast
qed

text \<open>The resource of the demonstration state, deleted, read without credentials: its target and its tags do not matter.\<close>

definition demo_deleted :: memory where
  "demo_deleted = snd (mem_UpdateResource ''a'' ''00'' \<lparr>rur_URL = None, rur_Metadata = None, rur_Tags = None, rur_Deleted = Some True\<rparr> 0 demo2)"

definition demo_visit :: http_request where
  "demo_visit = \<lparr>rq_Authorization = [], rq_Impersonate = [], rq_Query = [],
     rq_PathValue = (\<lambda>name. if name = ''pid'' then ''00'' else ''a'')\<rparr>"

theorem deleted_hidden_witness:
  "let resp = \<lambda>s. map_option (wire_response (\<lambda>_. []) \<circ> fst) (ServeHTTP demo_server demo_env Op_getResource demo_visit s)
   in resp demo_deleted = Some (Some \<lparr>wi_Status = 410, wi_ContentType = Some ''application/json'', wi_Location = None,
        wi_Body = Some (JObject [(''pid'', JString ''00''), (''dateCreated'', JString (rfc3339 0)),
          (''dateUpdated'', JString (rfc3339 0)), (''deleted'', JBool True)])\<rparr>) \<and>
      resp (reword (\<lambda>_ _. (None, Some ''m'', [])) demo_deleted) = resp demo_deleted"
proof -
  let ?res = "(new_resource ''00'' demo_res (rfc3339 0))\<lparr>rr_Deleted := True\<rparr>"
  have a: "rq_Authorization demo_visit = []" "\<not> AnonymousMode demo_sv" by (simp_all add: demo_visit_def)
  have c: "resolveCaller (auth_of demo_server demo_env) demo_visit demo_deleted = Ok None" by (rule resolveCaller_empty [OF a(1)])
  have p: "readNamespaceParam demo_visit = Ok ''a''" "readPidParam demo_visit = Ok ''00''"
    by (simp_all add: demo_visit_def readNamespaceParam_def readPidParam_def with_code_def NewNamespaceID_def NewPID_def id_match_def id_chars_def)
  have g: "mem_GetResource ''a'' ''00'' demo_deleted = Ok ?res"
    by (simp add: demo_deleted_def mem_UpdateResource_def demo2_eq demo1_eq dhas_def dget_def dset_def inner_def apply_update_def
        mem_GetResource_def new_resource_def Let_def)
  have sc: "CheckNamespaceScope (auth_of demo_server demo_env) ''a'' None ScopeGetResource demo_deleted = Ok ()"
    using closed_scopes [of "''a''" RoleNone ScopeGetResource] a(2) by (simp add: CheckNamespaceScope_def service_auth_def)
  have "rr_Deleted ?res" by simp
  with deleted_hidden [of demo_server demo_crypto demo_visit Op_getResource demo_env demo_deleted "\<lambda>_ _. (None, Some ''m'', [])" "\<lambda>_. []"]
    a c p g sc show ?thesis
    by (simp add: new_resource_def option.map_comp comp_def)
qed

end
