(* ===== verification/Locks.thy ===== *)
theory Locks
  imports Prelude
begin

text \<open>
  The locks of the server and who waits for whom. A goroutine is the list of what it still does with locks; the reader-writer lock is that of
  the package \<^verbatim>\<open>sync\<close>: \<^verbatim>\<open>Lock\<close> first announces the writer, which blocks every later \<^verbatim>\<open>RLock\<close>, and then
  waits for the readers to leave. Readers that wait when a writer leaves may be overtaken by the next writer, which the package excludes: the model has
  every interleaving of the program and some more.

  Goroutines that take locks in ascending order always finish. The handler of the Swagger interface takes the lock of the server a
  second time, and hangs forever if the options are changed in between.
\<close>

section \<open>Reader-writer locks (sync)\<close>

datatype 'l lock_action = RLock 'l | RUnlock 'l | Announce 'l | Await 'l | Unlock 'l

record rwmutex =
  rw_readers :: int
  rw_writer :: bool

type_synonym 'l locks = "'l \<Rightarrow> rwmutex"

definition unlocked :: "'l locks" where
  "unlocked l = \<lparr>rw_readers = 0, rw_writer = False\<rparr>"

definition Lock :: "'l \<Rightarrow> 'l lock_action list" where
  "Lock l = [Announce l, Await l]"

fun enabled :: "'l locks \<Rightarrow> 'l lock_action \<Rightarrow> bool" where
  "enabled L (RLock l) \<longleftrightarrow> \<not> rw_writer (L l)"
| "enabled L (RUnlock l) \<longleftrightarrow> True"
| "enabled L (Announce l) \<longleftrightarrow> \<not> rw_writer (L l)"
| "enabled L (Await l) \<longleftrightarrow> rw_readers (L l) = 0"
| "enabled L (Unlock l) \<longleftrightarrow> True"

fun act :: "'l lock_action \<Rightarrow> 'l locks \<Rightarrow> 'l locks" where
  "act (RLock l) L = L(l := (L l)\<lparr>rw_readers := rw_readers (L l) + 1\<rparr>)"
| "act (RUnlock l) L = L(l := (L l)\<lparr>rw_readers := rw_readers (L l) - 1\<rparr>)"
| "act (Announce l) L = L(l := (L l)\<lparr>rw_writer := True\<rparr>)"
| "act (Await l) L = L"
| "act (Unlock l) L = L(l := (L l)\<lparr>rw_writer := False\<rparr>)"

type_synonym 'l threads = "'l lock_action list list"

inductive lock_step :: "'l locks \<times> 'l threads \<Rightarrow> 'l locks \<times> 'l threads \<Rightarrow> bool" where
  lock_stepI: "i < length ts \<Longrightarrow> ts ! i = a # rest \<Longrightarrow> enabled L a \<Longrightarrow> lock_step (L, ts) (act a L, ts[i := rest])"

inductive_cases lock_stepE: "lock_step (L, ts) s'"

section \<open>The goroutines of the server\<close>

text \<open>The locks of the server, of the service, of the in-memory backend, and of the scope index of each key.\<close>

datatype lock = ServerLock | ServiceLock | BackendLock | KeyLock nat

definition service_Options :: "lock lock_action list" where
  "service_Options = [RLock ServiceLock, RUnlock ServiceLock]"

definition Lazy_Get :: "nat \<Rightarrow> lock lock_action list" where
  "Lazy_Get k = Lock (KeyLock k) @ [Unlock (KeyLock k)]"

datatype lock_call = ReadOptions | ReadBackend | WriteBackend | KeyScopes nat

fun call :: "lock_call \<Rightarrow> lock lock_action list" where
  "call ReadOptions = service_Options"
| "call ReadBackend = [RLock BackendLock, RUnlock BackendLock]"
| "call WriteBackend = Lock BackendLock @ [Unlock BackendLock]"
| "call (KeyScopes k) = Lazy_Get k"

definition calls :: "lock_call list \<Rightarrow> lock lock_action list" where
  "calls cs = concat (map call cs)"

text \<open>
  A request is served under the read lock of the server, which a deferred call releases; the handler of an endpoint makes any calls. The handler of the Swagger interface reads an option
  under the same lock again.
\<close>

definition serve_under_lock :: "lock lock_action list \<Rightarrow> lock lock_action list" where
  "serve_under_lock handler = RLock ServerLock # handler @ [RUnlock ServerLock]"

definition swagger_handler :: "lock lock_action list" where
  "swagger_handler = [RLock ServerLock, RUnlock ServerLock]"

definition service_SetOptions :: "lock lock_action list" where
  "service_SetOptions = Lock ServiceLock @ [Unlock ServiceLock]"

definition server_SetOptions :: "lock lock_action list" where
  "server_SetOptions = Lock ServerLock @ service_SetOptions @ [Unlock ServerLock]"

section \<open>What a goroutine holds\<close>

text \<open>Since every lock that is taken is released, what a goroutine holds follows from what it still does.\<close>

fun reads :: "'l \<Rightarrow> 'l lock_action list \<Rightarrow> int" where
  "reads l [] = 0"
| "reads l (a # t) = reads l t + (if a = RUnlock l then 1 else if a = RLock l then - 1 else 0)"

fun writes :: "'l \<Rightarrow> 'l lock_action list \<Rightarrow> int" where
  "writes l [] = 0"
| "writes l (a # t) = writes l t + (if a = Unlock l then 1 else if a = Announce l then - 1 else 0)"

fun balanced :: "'l lock_action list \<Rightarrow> bool" where
  "balanced [] \<longleftrightarrow> True"
| "balanced (a # t) \<longleftrightarrow> balanced t \<and> (\<forall>l. 0 \<le> reads l (a # t) \<and> 0 \<le> writes l (a # t))"

text \<open>Locks are taken in ascending order: whatever is held has a lower rank than what is asked for.\<close>

fun asks_in_order :: "('l \<Rightarrow> nat) \<Rightarrow> 'l lock_action list \<Rightarrow> bool" where
  "asks_in_order rank (RLock l # t) \<longleftrightarrow>
     (\<forall>l'. 0 < reads l' (RLock l # t) \<or> 0 < writes l' (RLock l # t) \<longrightarrow> rank l' < rank l)"
| "asks_in_order rank (Announce l # t) \<longleftrightarrow>
     (\<forall>l'. 0 < reads l' (Announce l # t) \<or> 0 < writes l' (Announce l # t) \<longrightarrow> rank l' < rank l)"
| "asks_in_order rank (Await l # t) \<longleftrightarrow>
     (\<forall>l'. 0 < reads l' (Await l # t) \<or> 0 < writes l' (Await l # t) \<and> l' \<noteq> l \<longrightarrow> rank l' < rank l)"
| "asks_in_order rank t \<longleftrightarrow> True"

fun ascending :: "('l \<Rightarrow> nat) \<Rightarrow> 'l lock_action list \<Rightarrow> bool" where
  "ascending rank [] \<longleftrightarrow> True"
| "ascending rank (a # t) \<longleftrightarrow> ascending rank t \<and> asks_in_order rank (a # t)"

definition counted :: "'l locks \<times> 'l threads \<Rightarrow> bool" where
  "counted s \<longleftrightarrow> (case s of (L, ts) \<Rightarrow> list_all balanced ts \<and>
     (\<forall>l. (\<Sum>t\<leftarrow>ts. reads l t) = rw_readers (L l) \<and> (\<Sum>t\<leftarrow>ts. writes l t) = of_bool (rw_writer (L l))))"

lemma sum_update:
  "i < length ts \<Longrightarrow> (\<Sum>t\<leftarrow>ts[i := u]. f t) = (\<Sum>t\<leftarrow>ts. f t) - f (ts ! i) + (f u :: int)"
  by (induction ts arbitrary: i) (auto split: nat.splits simp: nth_Cons)

lemma balanced_nonneg: "balanced t \<Longrightarrow> 0 \<le> reads l t \<and> 0 \<le> writes l t"
  by (cases t) auto

lemma sum_ge: "f (ts ! i) \<le> (\<Sum>t\<leftarrow>ts. f t :: int)" if "\<And>t. t \<in> set ts \<Longrightarrow> 0 \<le> f t" "i < length ts"
  using that
proof (induction ts arbitrary: i)
  case (Cons t ts)
  have "0 \<le> (\<Sum>t\<leftarrow>ts. f t)" using Cons.prems(1) by (intro sum_list_nonneg) auto
  moreover have "f (ts ! j) \<le> (\<Sum>t\<leftarrow>ts. f t)" if "j < length ts" for j using Cons that by simp
  ultimately show ?case using Cons.prems by (cases i) fastforce+
qed simp

lemma counted_balanced: "counted (L, ts) \<Longrightarrow> i < length ts \<Longrightarrow> balanced (ts ! i)"
  by (simp add: counted_def list_all_length)

lemma counted_holds:
  assumes "counted (L, ts)" and "i < length ts"
  shows "reads l (ts ! i) \<le> rw_readers (L l)" "writes l (ts ! i) \<le> of_bool (rw_writer (L l))"
proof -
  have n: "0 \<le> reads l t" "0 \<le> writes l t" if "t \<in> set ts" for t
    using assms(1) that balanced_nonneg [of t l] by (auto simp: counted_def list_all_iff)
  show "reads l (ts ! i) \<le> rw_readers (L l)" "writes l (ts ! i) \<le> of_bool (rw_writer (L l))"
    using sum_ge [of ts "reads l", OF n(1) assms(2)] sum_ge [of ts "writes l", OF n(2) assms(2)] assms(1)
    by (simp_all add: counted_def)
qed

lemma counted_Unlock:
  assumes "counted (L, ts)" and "i < length ts" and "ts ! i = Unlock l # rest"
  shows "rw_writer (L l)"
proof -
  have "balanced rest" using counted_balanced [OF assms(1,2)] assms(3) by simp
  then have "0 \<le> writes l rest" by (simp add: balanced_nonneg)
  then show ?thesis using counted_holds(2) [OF assms(1,2), of l] assms(3) by (cases "rw_writer (L l)") auto
qed

lemma counted_step: "counted s'" if "lock_step s s'" "counted s"
  using that
proof cases
  case (lock_stepI i ts a rest L)
  then have "balanced rest" using that(2) counted_balanced [of L ts i] by simp
  then have "list_all balanced (ts[i := rest])"
    using that(2) lock_stepI(1) by (auto simp: counted_def list_all_iff dest!: subsetD [OF set_update_subset_insert])
  moreover have "rw_writer (L l)" if "a = Unlock l" for l
    using counted_Unlock [of L ts i l rest] \<open>counted s\<close> lock_stepI that by simp
  ultimately show ?thesis
    using lock_stepI that(2) by (cases a) (auto simp: counted_def sum_update)
qed

lemma counted_start: "counted (unlocked, ts)" if "\<And>t. t \<in> set ts \<Longrightarrow> balanced t \<and> (\<forall>l. reads l t = 0 \<and> writes l t = 0)"
  using that by (auto simp: counted_def list_all_iff unlocked_def cong: map_cong)

lemma counted_steps: "lock_step\<^sup>*\<^sup>* s s' \<Longrightarrow> counted s \<Longrightarrow> counted s'"
  by (induction rule: rtranclp_induct) (auto intro: counted_step)

lemma tail_step:
  assumes "lock_step (L, ts) (L', ts')" and "\<And>a t. P (a # t) \<Longrightarrow> P t" and "list_all P ts"
  shows "list_all P ts'"
  using assms(1)
proof (rule lock_stepE)
  fix i a rest assume *: "(L', ts') = (act a L, ts[i := rest])" "i < length ts" "ts ! i = a # rest"
  then have "P rest" using assms(2,3) by (metis list_all_length)
  with * assms(3) show ?thesis by (auto simp: list_all_length nth_list_update)
qed

section \<open>Ascending order\<close>

lemma ascending_asks: "ascending rank t \<Longrightarrow> asks_in_order rank t"
  by (cases t) auto

text \<open>Who is in the way of a goroutine that waits.\<close>

lemma sum_pos: "0 < (\<Sum>t\<leftarrow>ts. f t :: int) \<Longrightarrow> \<exists>i < length ts. 0 < f (ts ! i)"
proof (induction ts)
  case (Cons t ts)
  then show ?case by (cases "0 < f t") fastforce+
qed simp

lemma holder:
  assumes "counted (L, ts)" and "0 < rw_readers (L l) \<or> rw_writer (L l)"
  shows "\<exists>i < length ts. 0 < (if rw_readers (L l) > 0 then reads l (ts ! i) else writes l (ts ! i))"
  using assms sum_pos [of "reads l" ts] sum_pos [of "writes l" ts] by (auto simp: counted_def)

fun wanted :: "'l lock_action list \<Rightarrow> 'l option" where
  "wanted (RLock l # t) = Some l"
| "wanted (Announce l # t) = Some l"
| "wanted (Await l # t) = Some l"
| "wanted t = None"

definition stuck :: "'l locks \<times> 'l threads \<Rightarrow> bool" where
  "stuck s \<longleftrightarrow> (\<nexists>s'. lock_step s s')"

lemma stuck_wanted:
  assumes "stuck (L, ts)" and "i < length ts" and "ts ! i \<noteq> []"
  shows "\<exists>l. wanted (ts ! i) = Some l"
proof -
  obtain a rest where a: "ts ! i = a # rest" using assms(3) by (cases "ts ! i") auto
  with assms(1,2) have "\<not> enabled L a" unfolding stuck_def by (blast intro: lock_stepI)
  with a show ?thesis by (cases a) auto
qed

lemma reader_wants_higher:
  assumes "stuck (L, ts)" and "list_all (ascending rank) ts" and "i < length ts" and "0 < reads l (ts ! i)"
  shows "\<exists>l'. wanted (ts ! i) = Some l' \<and> rank l < rank l'"
proof -
  from assms(4) have "ts ! i \<noteq> []" by auto
  from stuck_wanted [OF assms(1,3) this] obtain l' where w: "wanted (ts ! i) = Some l'" by blast
  have "asks_in_order rank (ts ! i)" using assms(2,3) by (simp add: list_all_length ascending_asks)
  with w assms(4) show ?thesis by (cases "ts ! i" rule: wanted.cases) (auto simp del: reads.simps writes.simps)
qed

lemma writer_wants_higher:
  assumes "stuck (L, ts)" and "list_all (ascending rank) ts" and "i < length ts" and "0 < writes l (ts ! i)"
  shows "(\<exists>t. ts ! i = Await l # t) \<or> (\<exists>l'. wanted (ts ! i) = Some l' \<and> rank l < rank l')"
proof -
  from assms(4) have "ts ! i \<noteq> []" by auto
  from stuck_wanted [OF assms(1,3) this] obtain l' where w: "wanted (ts ! i) = Some l'" by blast
  have "asks_in_order rank (ts ! i)" using assms(2,3) by (simp add: list_all_length ascending_asks)
  with w assms(4) show ?thesis by (cases "ts ! i" rule: wanted.cases) (auto simp del: reads.simps writes.simps)
qed

lemma readers_higher:
  assumes "counted (L, ts)" and "stuck (L, ts)" and "list_all (ascending rank) ts" and "i < length ts" and "ts ! i = Await l # t"
  shows "\<exists>j < length ts. \<exists>l'. wanted (ts ! j) = Some l' \<and> rank l < rank l'"
proof -
  have "0 \<le> (\<Sum>t\<leftarrow>ts. reads l t)"
    using assms(1) by (intro sum_list_nonneg) (auto simp: counted_def list_all_iff balanced_nonneg)
  moreover have "rw_readers (L l) \<noteq> 0" using assms(2,4,5) unfolding stuck_def by (metis enabled.simps(4) lock_stepI)
  ultimately have "0 < (\<Sum>t\<leftarrow>ts. reads l t)" using assms(1) by (simp add: counted_def)
  from sum_pos [OF this] reader_wants_higher [OF assms(2,3)] show ?thesis by blast
qed

lemma wants_higher:
  assumes "counted (L, ts)" and "stuck (L, ts)" and "list_all (ascending rank) ts" and "i < length ts" and "wanted (ts ! i) = Some l"
  shows "\<exists>j < length ts. \<exists>l'. wanted (ts ! j) = Some l' \<and> rank l < rank l'"
proof (cases "\<exists>t. ts ! i = Await l # t")
  case True
  then show ?thesis using readers_higher [OF assms(1-4)] by blast
next
  case False
  with assms(5) obtain a t where a: "ts ! i = a # t" "a = RLock l \<or> a = Announce l" by (cases "ts ! i" rule: wanted.cases) auto
  then have "\<not> enabled L a" using assms(2,4) unfolding stuck_def by (blast intro: lock_stepI)
  with a(2) have "0 < (\<Sum>t\<leftarrow>ts. writes l t)" using assms(1) by (auto simp: counted_def)
  from sum_pos [OF this] obtain j where j: "j < length ts" "0 < writes l (ts ! j)" by blast
  from writer_wants_higher [OF assms(2,3) this] readers_higher [OF assms(1-3) j(1)] j(1) show ?thesis by blast
qed

lemma ascending_stuck:
  assumes "counted (L, ts)" and "stuck (L, ts)" and "list_all (ascending rank) ts"
  shows "ts = replicate (length ts) [] \<and> L = unlocked"
proof -
  let ?W = "{rank l | i l. i < length ts \<and> wanted (ts ! i) = Some l}"
  have "?W \<subseteq> (\<lambda>i. rank (the (wanted (ts ! i)))) ` {..<length ts}" by force
  then have fin: "finite ?W" by (rule finite_subset) simp
  have "?W = {}"
  proof (rule ccontr)
    assume "?W \<noteq> {}"
    with Max_in [OF fin] obtain i l where "i < length ts" "wanted (ts ! i) = Some l" "Max ?W = rank l" by auto
    with wants_higher [OF assms, of i l] obtain x where "x \<in> ?W" "Max ?W < x" by auto
    with Max_ge [OF fin, of x] show False by simp
  qed
  then have done_all: "ts ! i = []" if "i < length ts" for i using stuck_wanted [OF assms(2) that] that by fastforce
  then have ts: "ts = replicate (length ts) []" by (intro nth_equalityI) simp_all
  have "reads l t = 0 \<and> writes l t = 0" if "t \<in> set ts" for l t
    using that done_all by (metis in_set_conv_nth reads.simps(1) writes.simps(1))
  then have "(\<Sum>t\<leftarrow>ts. reads l t) = 0 \<and> (\<Sum>t\<leftarrow>ts. writes l t) = 0" for l
    by (simp add: sum_list_0 cong: map_cong)
  with assms(1) have "rw_readers (L l) = 0 \<and> \<not> rw_writer (L l)" for l by (simp add: counted_def)
  then have "L = unlocked" by (intro ext) (simp add: unlocked_def rwmutex.equality)
  with ts show ?thesis by simp
qed

text \<open>Every step is progress.\<close>

definition work :: "'l threads \<Rightarrow> nat" where
  "work ts = (\<Sum>t\<leftarrow>ts. length t)"

lemma work_update: "i < length ts \<Longrightarrow> ts ! i = a # rest \<Longrightarrow> Suc (work (ts[i := rest])) = work ts"
  unfolding work_def by (induction ts arbitrary: i) (auto split: nat.splits simp: nth_Cons)

lemma work_step: "lock_step (L, ts) (L', ts') \<Longrightarrow> Suc (work ts') = work ts \<and> length ts' = length ts"
  by (erule lock_stepE) (auto simp: work_update)

lemma ascending_finishes:
  assumes "counted (L, ts)" and "list_all (ascending rank) ts"
  shows "lock_step\<^sup>*\<^sup>* (L, ts) (unlocked, replicate (length ts) [])"
  using assms
proof (induction "work ts" arbitrary: L ts rule: less_induct)
  case less
  show ?case
  proof (cases "stuck (L, ts)")
    case True
    from ascending_stuck [OF less.prems(1) this less.prems(2)] show ?thesis by (metis rtranclp.rtrancl_refl)
  next
    case False
    then obtain L' ts' where st: "lock_step (L, ts) (L', ts')" unfolding stuck_def by (metis surj_pair)
    from work_step [OF st] have w: "work ts' < work ts" "length ts' = length ts" by simp_all
    have "list_all (ascending rank) ts'" by (rule tail_step [OF st _ less.prems(2)]) simp
    from less.hyps [OF w(1) counted_step [OF st less.prems(1)] this] st w(2) show ?thesis
      by (simp add: converse_rtranclp_into_rtranclp)
  qed
qed

section \<open>Changing the options while requests are served\<close>

fun lock_rank :: "lock \<Rightarrow> nat" where
  "lock_rank ServerLock = 0"
| "lock_rank ServiceLock = 1"
| "lock_rank BackendLock = 2"
| "lock_rank (KeyLock k) = 3"

text \<open>Requests to the endpoints, changes of the options, and other goroutines that use the service, such as the background job.\<close>

definition api_goroutine :: "lock lock_action list \<Rightarrow> bool" where
  "api_goroutine t \<longleftrightarrow> (\<exists>cs. t = serve_under_lock (calls cs) \<or> t = calls cs) \<or> t = server_SetOptions \<or> t = service_SetOptions"

definition complete :: "lock lock_action list \<Rightarrow> bool" where
  "complete t \<longleftrightarrow> balanced t \<and> (\<forall>l. reads l t = 0 \<and> writes l t = 0)"

lemma calls_simps [simp]: "calls [] = []" "calls (c # cs) = call c @ calls cs"
  by (simp_all add: calls_def)

lemmas lock_defs = Lock_def service_Options_def Lazy_Get_def

lemma call_counts [simp]: "reads l (call c @ u) = reads l u" "writes l (call c @ u) = writes l u"
  by (cases c; simp add: lock_defs)+

lemma calls_counts [simp]: "reads l (calls cs @ u) = reads l u" "writes l (calls cs @ u) = writes l u"
  by (induction cs) simp_all

lemma call_balanced: "balanced u \<Longrightarrow> balanced (call c @ u)"
  using balanced_nonneg [of u] by (cases c) (auto simp: lock_defs)

lemma calls_balanced: "balanced u \<Longrightarrow> balanced (calls cs @ u)"
  by (induction cs) (auto simp: call_balanced)

lemma call_ascending:
  assumes "ascending lock_rank u" and "\<And>l. 0 < reads l u \<or> 0 < writes l u \<Longrightarrow> l = ServerLock"
    and "\<And>l. reads l u \<ge> 0 \<and> writes l u \<ge> 0"
  shows "ascending lock_rank (call c @ u)"
proof -
  have z: "reads l u = 0 \<and> writes l u = 0" if "l \<noteq> ServerLock" for l using assms(2,3) [of l] that by force
  have "0 < reads l u \<Longrightarrow> lock_rank l = 0" "0 < writes l u \<Longrightarrow> lock_rank l = 0" for l
    using assms(2) [of l] by auto
  with assms(1) z show ?thesis by (cases c) (auto simp: lock_defs)
qed

lemma calls_ascending:
  assumes "ascending lock_rank u" and "\<And>l. 0 < reads l u \<or> 0 < writes l u \<Longrightarrow> l = ServerLock"
    and "\<And>l. reads l u \<ge> 0 \<and> writes l u \<ge> 0"
  shows "ascending lock_rank (calls cs @ u)"
  by (induction cs) (use assms in \<open>auto intro: call_ascending\<close>)

lemma api_goroutine_ok:
  assumes "api_goroutine t"
  shows "complete t \<and> ascending lock_rank t"
proof -
  have "complete (serve_under_lock (calls cs)) \<and> ascending lock_rank (serve_under_lock (calls cs))" for cs
    using calls_balanced [of "[RUnlock ServerLock]" cs] calls_ascending [of "[RUnlock ServerLock]" cs]
    by (auto simp: complete_def serve_under_lock_def split: if_splits)
  moreover have "complete (calls cs) \<and> ascending lock_rank (calls cs)" for cs
    using calls_balanced [of "[]" cs] calls_ascending [of "[]" cs] calls_counts [of _ cs "[]"] by (simp add: complete_def)
  moreover have "complete server_SetOptions \<and> ascending lock_rank server_SetOptions"
    "complete service_SetOptions \<and> ascending lock_rank service_SetOptions"
    by (auto simp: complete_def server_SetOptions_def service_SetOptions_def Lock_def split: if_splits)
  ultimately show ?thesis using assms unfolding api_goroutine_def by blast
qed

lemma complete_start: "list_all complete ts \<Longrightarrow> counted (unlocked, ts)"
  by (rule counted_start) (simp add: list_all_iff complete_def)

text \<open>
  C24. The options can be changed while requests to the endpoints are served. Take any number of goroutines that serve a request to an
  endpoint, use the service otherwise, or call \<^verbatim>\<open>SetOptions\<close>, in any interleaving: no run is longer than the work there
  is, a run ends only when all goroutines are through and all locks are free, and from every state the run can be finished.
\<close>

theorem options_no_deadlock:
  assumes "list_all api_goroutine ts" and "(lock_step ^^ n) (unlocked, ts) s"
  shows "n \<le> work ts \<and> (stuck s \<longrightarrow> s = (unlocked, replicate (length ts) [])) \<and>
    lock_step\<^sup>*\<^sup>* s (unlocked, replicate (length ts) [])"
proof -
  have start: "counted (unlocked, ts)" "list_all (ascending lock_rank) ts"
    using assms(1) api_goroutine_ok by (auto simp: list_all_iff intro!: complete_start)
  have "counted s \<and> list_all (ascending lock_rank) (snd s) \<and> n + work (snd s) = work ts \<and> length (snd s) = length ts"
    using assms(2)
  proof (induction n arbitrary: s)
    case (Suc n)
    then obtain L us L' us' where st: "(lock_step ^^ n) (unlocked, ts) (L, us)" "lock_step (L, us) (L', us')" "s = (L', us')"
      by (metis relpowp_Suc_E surj_pair)
    from Suc.IH [OF st(1)] have "list_all (ascending lock_rank) us'" by (intro tail_step [OF st(2)]) simp_all
    with Suc.IH [OF st(1)] counted_step [OF st(2)] work_step [OF st(2)] st(3) show ?case by simp
  qed (use start in simp)
  moreover obtain L us where "s = (L, us)" by (cases s)
  ultimately show ?thesis
    using ascending_stuck [of L us lock_rank] ascending_finishes [of L us lock_rank] by auto
qed

theorem options_no_deadlock_witness:
  "lock_step\<^sup>*\<^sup>* (unlocked, [server_SetOptions, serve_under_lock (calls [ReadOptions, WriteBackend])]) (unlocked, [[], []])"
proof -
  have "list_all api_goroutine [server_SetOptions, serve_under_lock (calls [ReadOptions, WriteBackend])]"
    unfolding api_goroutine_def by (simp del: calls_simps) blast
  from options_no_deadlock [OF this, of 0 "(unlocked, [server_SetOptions, serve_under_lock (calls [ReadOptions, WriteBackend])])"]
  show ?thesis by (simp add: numeral_2_eq_2)
qed

section \<open>The Swagger interface\<close>

text \<open>A reader that asks again for a lock a writer has announced itself for, and the writer that waits for the reader, wait forever.\<close>

definition hung :: "'l \<Rightarrow> nat \<Rightarrow> nat \<Rightarrow> 'l locks \<times> 'l threads \<Rightarrow> bool" where
  "hung l i j s \<longleftrightarrow> (case s of (L, ts) \<Rightarrow> counted s \<and> i < length ts \<and> j < length ts \<and>
     (\<exists>t. ts ! i = RLock l # t \<and> 0 < reads l (RLock l # t)) \<and> (\<exists>t. ts ! j = Await l # t \<and> 0 < writes l (Await l # t)))"

lemma hung_step:
  assumes "hung l i j (L, ts)" and "lock_step (L, ts) (L', ts')"
  shows "hung l i j (L', ts') \<and> ts' ! i = ts ! i \<and> ts' ! j = ts ! j \<and> (\<forall>k. \<forall>t. ts ! k = RLock l # t \<longrightarrow> ts' ! k = ts ! k)"
proof -
  from assms(1) have c: "counted (L, ts)" "i < length ts" "j < length ts" "0 < reads l (ts ! i)" "0 < writes l (ts ! j)"
    by (auto simp: hung_def)
  from counted_holds(1) [OF c(1,2), of l] counted_holds(2) [OF c(1,3), of l] c(4,5)
  have L: "0 < rw_readers (L l)" "rw_writer (L l)" by (auto split: if_splits simp: of_bool_def)
  have keep: "ts' ! k = ts ! k" if "ts ! k = RLock l # t \<or> ts ! k = Await l # t" for k t
    using assms(2)
  proof (rule lock_stepE)
    fix m a rest assume *: "(L', ts') = (act a L, ts[m := rest])" "m < length ts" "ts ! m = a # rest" "enabled L a"
    have "m \<noteq> k" using that * L by auto
    with * show ?thesis by simp
  qed
  have "counted (L', ts')" using counted_step [OF assms(2)] c(1) by simp
  moreover have "length ts' = length ts" using work_step [OF assms(2)] by simp
  ultimately show ?thesis using assms(1) keep by (auto simp: hung_def)
qed

lemma hung_forever:
  assumes "hung l i j (L, ts)" and "lock_step\<^sup>*\<^sup>* (L, ts) (L', ts')"
  shows "hung l i j (L', ts') \<and> (\<forall>k. \<forall>t. ts ! k = RLock l # t \<longrightarrow> ts' ! k = ts ! k)"
  using assms(2)
proof (induction "(L', ts')" arbitrary: L' ts' rule: rtranclp_induct)
  case base
  then show ?case using assms(1) by simp
next
  case (step y)
  obtain L1 ts1 where y: "y = (L1, ts1)" by (cases y)
  from step(3) [OF y] hung_step [of l i j L1 ts1 L' ts'] step(2) y show ?case by simp
qed

text \<open>
  C37. The Swagger interface can hang the server. If a request to the Swagger interface and a call of \<^verbatim>\<open>SetOptions\<close> are among the
  goroutines, there is an interleaving after which neither of them ever returns, whatever the others do, and no request that has not
  begun yet is ever served. The documentation says that \<^verbatim>\<open>SetOptions\<close> may be called while requests are served.
\<close>

theorem swagger_deadlock:
  assumes "list_all (\<lambda>t. api_goroutine t \<or> t = serve_under_lock swagger_handler) ts"
    and "i < length ts" and "ts ! i = serve_under_lock swagger_handler"
    and "j < length ts" and "ts ! j = server_SetOptions"
  shows "\<exists>L us. lock_step\<^sup>*\<^sup>* (unlocked, ts) (L, us) \<and>
    (\<forall>L' us'. lock_step\<^sup>*\<^sup>* (L, us) (L', us') \<longrightarrow> us' ! i \<noteq> [] \<and> us' ! j \<noteq> [] \<and>
       (\<forall>k t. k < length ts \<and> k \<noteq> i \<and> ts ! k = serve_under_lock t \<longrightarrow> us' ! k = ts ! k))"
proof -
  let ?u = "[RLock ServerLock, RUnlock ServerLock, RUnlock ServerLock]"
  let ?v = "Await ServerLock # service_SetOptions @ [Unlock ServerLock]"
  let ?L = "act (RLock ServerLock) unlocked"
  let ?ts = "ts[i := ?u]" and ?us = "ts[i := ?u, j := ?v]"
  have ij: "i \<noteq> j" using assms(3,5) by (auto simp: serve_under_lock_def server_SetOptions_def Lock_def)
  have "complete (serve_under_lock swagger_handler)" by (auto simp: complete_def serve_under_lock_def swagger_handler_def)
  then have "list_all complete ts" using assms(1) api_goroutine_ok by (auto simp: list_all_iff)
  then have start: "counted (unlocked, ts)" by (rule complete_start)
  have st1: "lock_step (unlocked, ts) (?L, ?ts)"
    by (rule lock_stepI) (use assms in \<open>simp_all add: serve_under_lock_def swagger_handler_def unlocked_def\<close>)
  have st2: "lock_step (?L, ?ts) (act (Announce ServerLock) ?L, ?us)"
    by (rule lock_stepI) (use assms ij in \<open>simp_all add: server_SetOptions_def Lock_def unlocked_def\<close>)
  from st1 st2 have run: "lock_step\<^sup>*\<^sup>* (unlocked, ts) (act (Announce ServerLock) ?L, ?us)" by simp
  have "hung ServerLock i j (act (Announce ServerLock) ?L, ?us)"
    using assms(2,4) ij counted_steps [OF run start] by (simp add: hung_def service_SetOptions_def Lock_def)
  note hung = hung_forever [OF this]
  have "us' ! i \<noteq> [] \<and> us' ! j \<noteq> [] \<and> (\<forall>k t. k < length ts \<and> k \<noteq> i \<and> ts ! k = serve_under_lock t \<longrightarrow> us' ! k = ts ! k)"
    if "lock_step\<^sup>*\<^sup>* (act (Announce ServerLock) ?L, ?us) (L', us')" for L' us'
  proof (intro conjI allI impI)
    show "us' ! i \<noteq> []" "us' ! j \<noteq> []" using hung [OF that] by (auto simp: hung_def)
    fix k t assume k: "k < length ts \<and> k \<noteq> i \<and> ts ! k = serve_under_lock t"
    then have "k \<noteq> j" using assms(5) by (auto simp: serve_under_lock_def server_SetOptions_def Lock_def)
    with k have "?us ! k = ts ! k" "\<exists>r. ?us ! k = RLock ServerLock # r" by (simp_all add: serve_under_lock_def)
    with hung [OF that] show "us' ! k = ts ! k" by metis
  qed
  with run show ?thesis by blast
qed

theorem swagger_deadlock_witness:
  "\<exists>L us. lock_step\<^sup>*\<^sup>* (unlocked, [serve_under_lock swagger_handler, server_SetOptions, serve_under_lock (calls [])]) (L, us) \<and>
     (\<forall>L' us'. lock_step\<^sup>*\<^sup>* (L, us) (L', us') \<longrightarrow> us' ! 0 \<noteq> [] \<and> us' ! 1 \<noteq> [] \<and> us' ! 2 = serve_under_lock (calls []))"
proof -
  let ?ts = "[serve_under_lock swagger_handler, server_SetOptions, serve_under_lock (calls [])]"
  have "api_goroutine server_SetOptions" "api_goroutine (serve_under_lock (calls []))" unfolding api_goroutine_def by blast+
  then have "list_all (\<lambda>t. api_goroutine t \<or> t = serve_under_lock swagger_handler) ?ts" by simp
  from swagger_deadlock [OF this, of 0 1] obtain L us where run: "lock_step\<^sup>*\<^sup>* (unlocked, ?ts) (L, us)"
    and never: "\<And>L' us'. lock_step\<^sup>*\<^sup>* (L, us) (L', us') \<Longrightarrow> us' ! 0 \<noteq> [] \<and> us' ! 1 \<noteq> [] \<and>
       (\<forall>k t. k < length ?ts \<and> k \<noteq> 0 \<and> ?ts ! k = serve_under_lock t \<longrightarrow> us' ! k = ?ts ! k)" by auto
  have "us' ! 0 \<noteq> [] \<and> us' ! 1 \<noteq> [] \<and> us' ! 2 = serve_under_lock (calls [])" if "lock_step\<^sup>*\<^sup>* (L, us) (L', us')" for L' us'
    using never [OF that, THEN conjunct2, THEN conjunct2, rule_format, of 2 "calls []"] never [OF that] by simp
  with run show ?thesis by blast
qed

end
