(* ===== verification/Mux.thy ===== *)
theory Mux
  imports Routes
begin

text \<open>
  The choice of an endpoint: the patterns that \<^verbatim>\<open>NewServer\<close> registers (\<^verbatim>\<open>server/server.go\<close>) and their matching by
  \<^verbatim>\<open>http.ServeMux\<close>. A path is given by its unescaped segments, after the multiplexer has cleaned it, and by whether it
  ends in a slash.
\<close>

section \<open>Patterns (net/http)\<close>

datatype seg = Lit string | Var string

fun split_slash :: "string \<Rightarrow> string \<Rightarrow> string list" where
  "split_slash cur [] = [rev cur]"
| "split_slash cur (c # cs) = (if c = CHR ''/'' then rev cur # split_slash [] cs else split_slash (c # cur) cs)"

definition parse_seg :: "string \<Rightarrow> seg" where
  "parse_seg s = (case s of CHR ''{'' # name \<Rightarrow> Var (butlast name) | _ \<Rightarrow> Lit s)"

definition parse_segments :: "string \<Rightarrow> seg list" where
  "parse_segments path = map parse_seg (split_slash [] (tl path))"

fun match_segments :: "seg list \<Rightarrow> string list \<Rightarrow> (string \<times> string) list option" where
  "match_segments [] [] = Some []"
| "match_segments (Lit x # ps) (s # ss) = (if x = s then match_segments ps ss else None)"
| "match_segments (Var v # ps) (s # ss) = map_option ((#) (v, s)) (match_segments ps ss)"
| "match_segments _ _ = None"

section \<open>The routes (server/server.go)\<close>

datatype endpoint =
    E_getResolverInfo | E_getResolverMeta | E_listScopes | E_listNamespaces | E_createNamespace | E_countAllResources |
    E_listMounts | E_resolveMountByBaseUri | E_upsertNamespaceMount | E_deleteNamespaceMount | E_resolveResourceByMountAndPID |
    E_setMountGrant | E_deleteMountGrant | E_getNamespace | E_updateNamespace | E_listNamespaceMounts | E_listNamespaceRoles |
    E_getNamespaceRole | E_setNamespaceRole | E_removeNamespaceRole | E_listResources | E_createResource | E_createResourceBatch |
    E_getResource | E_updateResource | E_getUserInfo | E_updateUser | E_createUser | E_deleteUser | E_autocompleteUsers |
    E_listUsers | E_getUserRoles | E_listOwnMountGrants | E_listUserKeys | E_issueUserKey | E_setUserPassword | E_revokeUserKey |
    E_openAPISpec | E_swaggerUI

definition server_mux :: "(string \<times> string \<times> endpoint) list" where
  "server_mux =
    [(''GET'', ''/resolver'', E_getResolverInfo), (''GET'', ''/resolver/info'', E_getResolverMeta),
     (''GET'', ''/resolver/scopes'', E_listScopes), (''GET'', ''/resolver/namespaces'', E_listNamespaces),
     (''POST'', ''/resolver/namespaces'', E_createNamespace), (''GET'', ''/resolver/resources/count'', E_countAllResources),
     (''GET'', ''/resolver/mounts'', E_listMounts), (''GET'', ''/resolver/mounts/{baseUri}'', E_resolveMountByBaseUri),
     (''PUT'', ''/resolver/mounts/{baseUri}'', E_upsertNamespaceMount),
     (''DELETE'', ''/resolver/mounts/{baseUri}'', E_deleteNamespaceMount),
     (''GET'', ''/resolver/mounts/{baseUri}/{pid}'', E_resolveResourceByMountAndPID),
     (''PUT'', ''/resolver/mount-grants/{username}'', E_setMountGrant),
     (''DELETE'', ''/resolver/mount-grants/{username}/{pattern}'', E_deleteMountGrant),
     (''GET'', ''/resolver/namespaces/{namespace}'', E_getNamespace),
     (''PATCH'', ''/resolver/namespaces/{namespace}'', E_updateNamespace),
     (''GET'', ''/resolver/namespaces/{namespace}/mounts'', E_listNamespaceMounts),
     (''GET'', ''/resolver/namespaces/{namespace}/roles'', E_listNamespaceRoles),
     (''GET'', ''/resolver/namespaces/{namespace}/roles/{username}'', E_getNamespaceRole),
     (''PUT'', ''/resolver/namespaces/{namespace}/roles/{username}'', E_setNamespaceRole),
     (''DELETE'', ''/resolver/namespaces/{namespace}/roles/{username}'', E_removeNamespaceRole),
     (''GET'', ''/resolver/namespaces/{namespace}/resources'', E_listResources),
     (''POST'', ''/resolver/namespaces/{namespace}/resources'', E_createResource),
     (''POST'', ''/resolver/namespaces/{namespace}/resources/batch'', E_createResourceBatch),
     (''GET'', ''/resolver/namespaces/{namespace}/resources/{pid}'', E_getResource),
     (''PATCH'', ''/resolver/namespaces/{namespace}/resources/{pid}'', E_updateResource), (''GET'', ''/user'', E_getUserInfo),
     (''PATCH'', ''/user'', E_updateUser), (''POST'', ''/user'', E_createUser), (''DELETE'', ''/user'', E_deleteUser),
     (''GET'', ''/users/autocomplete'', E_autocompleteUsers), (''GET'', ''/users'', E_listUsers),
     (''GET'', ''/user/roles'', E_getUserRoles), (''GET'', ''/user/mount-grants'', E_listOwnMountGrants),
     (''GET'', ''/user/key'', E_listUserKeys), (''POST'', ''/user/key'', E_issueUserKey),
     (''POST'', ''/user/password'', E_setUserPassword), (''POST'', ''/user/key/revoke'', E_revokeUserKey),
     (''GET'', ''/openapi.yaml'', E_openAPISpec)]"

text \<open>
  A pattern with the method of the request goes before the pattern \<^verbatim>\<open>/\<close>, which has none and matches every path; patterns for
  \<^verbatim>\<open>GET\<close> serve \<^verbatim>\<open>HEAD\<close> too. No path matches two patterns of the same method, as proved below, so that their precedence
  does not matter. Since the pattern \<^verbatim>\<open>/\<close> is for every method, no request is answered with 405.
\<close>

definition mux_find :: "string \<Rightarrow> string list \<Rightarrow> (endpoint \<times> (string \<times> string) list) option" where
  "mux_find m segs =
     (case List.map_filter (\<lambda>(m', p, e). if m' = m then map_option (Pair e) (match_segments (parse_segments p) segs) else None) server_mux of
        [] \<Rightarrow> None | r # _ \<Rightarrow> Some r)"

definition mux_dispatch :: "string \<Rightarrow> string list \<Rightarrow> bool \<Rightarrow> endpoint \<times> (string \<times> string) list" where
  "mux_dispatch m segs slash =
     (if slash then (E_swaggerUI, [])
      else case mux_find m segs of
        Some r \<Rightarrow> r
      | None \<Rightarrow> (case (if m = ''HEAD'' then mux_find ''GET'' segs else None) of Some r \<Rightarrow> r | None \<Rightarrow> (E_swaggerUI, [])))"

definition path_value :: "(string \<times> string) list \<Rightarrow> string \<Rightarrow> string" where
  "path_value vs name = (case map_of vs name of None \<Rightarrow> [] | Some v \<Rightarrow> v)"

text \<open>The endpoint that serves an operation.\<close>

fun op_endpoint :: "operation \<Rightarrow> endpoint" where
  "op_endpoint Op_getResolverInfo = E_getResolverInfo"
| "op_endpoint Op_getResolverMeta = E_getResolverMeta"
| "op_endpoint Op_listScopes = E_listScopes"
| "op_endpoint Op_listNamespaces = E_listNamespaces"
| "op_endpoint (Op_createNamespace body) = E_createNamespace"
| "op_endpoint Op_countAllResources = E_countAllResources"
| "op_endpoint Op_listMounts = E_listMounts"
| "op_endpoint Op_resolveMountByBaseUri = E_resolveMountByBaseUri"
| "op_endpoint (Op_upsertNamespaceMount body) = E_upsertNamespaceMount"
| "op_endpoint Op_deleteNamespaceMount = E_deleteNamespaceMount"
| "op_endpoint Op_resolveResourceByMountAndPID = E_resolveResourceByMountAndPID"
| "op_endpoint (Op_setMountGrant body) = E_setMountGrant"
| "op_endpoint Op_deleteMountGrant = E_deleteMountGrant"
| "op_endpoint Op_getNamespace = E_getNamespace"
| "op_endpoint (Op_updateNamespace body) = E_updateNamespace"
| "op_endpoint Op_listNamespaceMounts = E_listNamespaceMounts"
| "op_endpoint Op_listNamespaceRoles = E_listNamespaceRoles"
| "op_endpoint Op_getNamespaceRole = E_getNamespaceRole"
| "op_endpoint (Op_setNamespaceRole body) = E_setNamespaceRole"
| "op_endpoint Op_removeNamespaceRole = E_removeNamespaceRole"
| "op_endpoint Op_listResources = E_listResources"
| "op_endpoint (Op_createResource body) = E_createResource"
| "op_endpoint (Op_createResourceBatch body) = E_createResourceBatch"
| "op_endpoint Op_getResource = E_getResource"
| "op_endpoint (Op_updateResource body) = E_updateResource"
| "op_endpoint Op_getUserInfo = E_getUserInfo"
| "op_endpoint (Op_updateUser body) = E_updateUser"
| "op_endpoint (Op_createUser body) = E_createUser"
| "op_endpoint Op_deleteUser = E_deleteUser"
| "op_endpoint Op_autocompleteUsers = E_autocompleteUsers"
| "op_endpoint Op_listUsers = E_listUsers"
| "op_endpoint Op_getUserRoles = E_getUserRoles"
| "op_endpoint Op_listOwnMountGrants = E_listOwnMountGrants"
| "op_endpoint Op_listUserKeys = E_listUserKeys"
| "op_endpoint (Op_issueUserKey body) = E_issueUserKey"
| "op_endpoint (Op_setUserPassword body) = E_setUserPassword"
| "op_endpoint (Op_revokeUserKey body) = E_revokeUserKey"

section \<open>Matching\<close>

fun fill :: "seg list \<Rightarrow> (string \<Rightarrow> string) \<Rightarrow> string list" where
  "fill [] f = []"
| "fill (Lit x # ps) f = x # fill ps f"
| "fill (Var v # ps) f = f v # fill ps f"

fun vars :: "seg list \<Rightarrow> string list" where
  "vars [] = []"
| "vars (Lit x # ps) = vars ps"
| "vars (Var v # ps) = v # vars ps"

definition bindings :: "seg list \<Rightarrow> (string \<Rightarrow> string) \<Rightarrow> (string \<times> string) list" where
  "bindings ps f = map (\<lambda>v. (v, f v)) (vars ps)"

lemma match_fill: "match_segments ps (fill ps f) = Some (bindings ps f)"
  by (induction ps rule: vars.induct) (simp_all add: bindings_def)

lemma fill_cong: "(\<And>v. v \<in> set (vars ps) \<Longrightarrow> f v = g v) \<Longrightarrow> fill ps f = fill ps g \<and> bindings ps f = bindings ps g"
  by (induction ps rule: vars.induct) (auto simp: bindings_def)

lemma match_Some:
  "match_segments ps ss = Some vs \<Longrightarrow> distinct (vars ps) \<Longrightarrow> \<exists>f. ss = fill ps f \<and> vs = bindings ps f"
proof (induction ps ss arbitrary: vs rule: match_segments.induct)
  case (3 v ps s ss)
  then obtain vs' where vs: "match_segments ps ss = Some vs'" "vs = (v, s) # vs'" by auto
  with 3 obtain f where f: "ss = fill ps f" "vs' = bindings ps f" by auto
  have "fill ps (f(v := s)) = fill ps f \<and> bindings ps (f(v := s)) = bindings ps f"
    by (rule fill_cong) (use 3(3) in auto)
  moreover obtain g where "g = f(v := s)" by blast
  ultimately have "fill ps g = ss" "bindings ps g = vs'" "g v = s" using f by simp_all
  with vs show ?case by (intro exI [of _ g]) (auto simp: bindings_def)
qed (auto simp: bindings_def split: if_splits)

lemma path_value_bindings: "v \<in> set (vars ps) \<Longrightarrow> path_value (bindings ps f) v = f v"
  by (simp add: path_value_def bindings_def map_of_map_restrict)

text \<open>Two patterns that no path matches both.\<close>

fun seg_matches :: "seg \<Rightarrow> string \<Rightarrow> bool" where
  "seg_matches (Lit x) s \<longleftrightarrow> x = s"
| "seg_matches (Var v) s \<longleftrightarrow> True"

lemma match_list_all2: "match_segments ps ss \<noteq> None \<longleftrightarrow> list_all2 seg_matches ps ss"
  by (induction ps ss rule: match_segments.induct) auto

fun segs_differ :: "seg \<Rightarrow> seg \<Rightarrow> bool" where
  "segs_differ (Lit x) (Lit y) \<longleftrightarrow> x \<noteq> y"
| "segs_differ _ _ \<longleftrightarrow> False"

definition clash :: "seg list \<Rightarrow> seg list \<Rightarrow> bool" where
  "clash ps qs \<longleftrightarrow> length ps \<noteq> length qs \<or> list_ex (\<lambda>(p, q). segs_differ p q) (zip ps qs)"

lemma segs_differ_matches: "segs_differ p q \<Longrightarrow> seg_matches p s \<Longrightarrow> \<not> seg_matches q s"
  by (cases "(p, q)" rule: segs_differ.cases) auto

lemma clash_match: "clash ps qs \<Longrightarrow> match_segments ps ss = None \<or> match_segments qs ss = None"
proof (rule ccontr)
  assume "clash ps qs" "\<not> (match_segments ps ss = None \<or> match_segments qs ss = None)"
  then have m: "list_all2 seg_matches ps ss" "list_all2 seg_matches qs ss" by (simp_all flip: match_list_all2)
  then have "length ps = length qs" by (simp add: list_all2_lengthD)
  with \<open>clash ps qs\<close> obtain k where "k < length ps" "segs_differ (ps ! k) (qs ! k)"
    by (auto simp: clash_def list_ex_iff set_zip)
  with m segs_differ_matches show False by (metis list_all2_conv_all_nth)
qed

fun unambiguous :: "(string \<times> seg list \<times> endpoint) list \<Rightarrow> bool" where
  "unambiguous [] \<longleftrightarrow> True"
| "unambiguous ((m, p, e) # t) \<longleftrightarrow> list_all (\<lambda>(m', q, e'). e \<noteq> e' \<and> (m = m' \<longrightarrow> clash p q)) t \<and> unambiguous t"

abbreviation parsed_mux :: "(string \<times> seg list \<times> endpoint) list" where
  "parsed_mux \<equiv> map (\<lambda>(m, p, e). (m, parse_segments p, e)) server_mux"

lemma server_mux_unambiguous: "unambiguous parsed_mux" "list_all (\<lambda>(m, p, e). distinct (vars p)) parsed_mux"
  by code_simp+

lemma unambiguous_match:
  assumes "unambiguous t" and "(m, p, e) \<in> set t" and "(m, q, e') \<in> set t"
    and "match_segments p ss \<noteq> None" and "match_segments q ss \<noteq> None"
  shows "p = q \<and> e = e'"
  using assms
proof (induction t rule: unambiguous.induct)
  case (2 m0 p0 e0 t)
  then show ?case using clash_match [of p0 q ss] clash_match [of p0 p ss] by (auto simp: list_all_iff)
qed simp

lemma mux_find_iff:
  "mux_find m segs = Some (e, vs) \<longleftrightarrow> (\<exists>p. (m, p, e) \<in> set server_mux \<and> match_segments (parse_segments p) segs = Some vs)"
  (is "_ \<longleftrightarrow> ?R e vs")
proof -
  let ?f = "\<lambda>(m', p, e). if m' = m then map_option (Pair e) (match_segments (parse_segments p) segs) else None"
  have in_set: "(e, vs) \<in> set (List.map_filter ?f server_mux) \<longleftrightarrow> ?R e vs" for e vs
    by (force simp: List.map_filter_def image_iff split: if_splits)
  have unique: "e1 = e2 \<and> vs1 = vs2" if R: "?R e1 vs1" "?R e2 vs2" for e1 vs1 e2 vs2
  proof -
    from R obtain p1 p2 where p: "(m, p1, e1) \<in> set server_mux" "match_segments (parse_segments p1) segs = Some vs1"
      "(m, p2, e2) \<in> set server_mux" "match_segments (parse_segments p2) segs = Some vs2" by blast
    then have "(m, parse_segments p1, e1) \<in> set parsed_mux" "(m, parse_segments p2, e2) \<in> set parsed_mux" by force+
    from unambiguous_match [OF server_mux_unambiguous(1) this, of segs] p show ?thesis by simp
  qed
  show ?thesis
  proof (cases "List.map_filter ?f server_mux")
    case Nil
    then show ?thesis using in_set [of e vs] by (simp add: mux_find_def)
  next
    case (Cons r rs)
    then have "?R (fst r) (snd r)" using in_set [of "fst r" "snd r"] by simp
    then show ?thesis using Cons unique [of "fst r" "snd r" e vs] by (auto simp: mux_find_def prod_eq_iff)
  qed
qed

lemma server_endpoints: "op_endpoint op \<in> set (map (\<lambda>(m, p, e). e) server_mux)"
  unfolding server_mux_def by (cases op) (simp_all only: list.map prod.case op_endpoint.simps list.set insert_iff simp_thms endpoint.distinct)

lemma endpoint_registered: "\<exists>m p. (m, p, op_endpoint op) \<in> set server_mux"
  using server_endpoints [of op] by auto

lemma server_mux_vars: "(m, p, e) \<in> set server_mux \<Longrightarrow> distinct (vars (parse_segments p)) \<and> m \<noteq> ''HEAD'' \<and> e \<noteq> E_swaggerUI"
proof -
  assume "(m, p, e) \<in> set server_mux"
  then have "(m, parse_segments p, e) \<in> set parsed_mux" by force
  moreover have "list_all (\<lambda>(m, p, e). distinct (vars p) \<and> m \<noteq> ''HEAD'' \<and> e \<noteq> E_swaggerUI) parsed_mux" by code_simp
  ultimately show ?thesis by (auto simp: list_all_iff)
qed

text \<open>
  C25. Every endpoint is reached by its paths and by no others. No two of the registered patterns conflict. Each operation has a
  pattern; a request with its method and a path that fills in values for its variables gets to the endpoint of the operation, which
  reads these values back. Conversely, a request that does not end up at the Swagger interface has the method (or \<^verbatim>\<open>HEAD\<close> for
  \<^verbatim>\<open>GET\<close>) and such a path of the endpoint that it gets to.
\<close>

theorem routes_exact:
  "unambiguous parsed_mux \<and>
   (\<forall>op f. \<exists>m p. (m, p, op_endpoint op) \<in> set server_mux \<and>
      (let (e, vs) = mux_dispatch m (fill (parse_segments p) f) False
       in e = op_endpoint op \<and> list_all (\<lambda>v. path_value vs v = f v) (vars (parse_segments p)))) \<and>
   (\<forall>m segs slash e vs. mux_dispatch m segs slash = (e, vs) \<and> e \<noteq> E_swaggerUI \<longrightarrow> \<not> slash \<and>
      (\<exists>m' p f. (m', p, e) \<in> set server_mux \<and> (m' = m \<or> m' = ''GET'' \<and> m = ''HEAD'') \<and>
         segs = fill (parse_segments p) f \<and> vs = bindings (parse_segments p) f))"
proof (intro conjI allI impI)
  show "unambiguous parsed_mux" by (rule server_mux_unambiguous(1))
next
  fix op f
  obtain m p where p: "(m, p, op_endpoint op) \<in> set server_mux" using endpoint_registered by blast
  with match_fill have "mux_find m (fill (parse_segments p) f) = Some (op_endpoint op, bindings (parse_segments p) f)"
    unfolding mux_find_iff by blast
  with p show "\<exists>m p. (m, p, op_endpoint op) \<in> set server_mux \<and>
      (let (e, vs) = mux_dispatch m (fill (parse_segments p) f) False
       in e = op_endpoint op \<and> list_all (\<lambda>v. path_value vs v = f v) (vars (parse_segments p)))"
    by (intro exI [of _ m] exI [of _ p]) (simp add: mux_dispatch_def list_all_iff path_value_bindings)
next
  fix m segs slash e vs assume *: "mux_dispatch m segs slash = (e, vs) \<and> e \<noteq> E_swaggerUI"
  then show "\<not> slash" by (auto simp: mux_dispatch_def)
  from * have "mux_find m segs = Some (e, vs) \<or> m = ''HEAD'' \<and> mux_find ''GET'' segs = Some (e, vs)"
    by (auto simp: mux_dispatch_def split: if_splits option.splits)
  then obtain m' p where p: "(m', p, e) \<in> set server_mux" "m' = m \<or> m' = ''GET'' \<and> m = ''HEAD''"
    "match_segments (parse_segments p) segs = Some vs" unfolding mux_find_iff by blast
  with match_Some [OF p(3)] server_mux_vars [OF p(1)]
  show "\<exists>m' p f. (m', p, e) \<in> set server_mux \<and> (m' = m \<or> m' = ''GET'' \<and> m = ''HEAD'') \<and>
      segs = fill (parse_segments p) f \<and> vs = bindings (parse_segments p) f" by blast
qed

theorem routes_exact_witness:
  "\<exists>m' p f. (m', p, E_getResource) \<in> set server_mux \<and> m' = ''GET'' \<and>
     [''resolver'', ''namespaces'', ''a'', ''resources'', ''00''] = fill (parse_segments p) f"
proof -
  have "mux_dispatch ''HEAD'' [''resolver'', ''namespaces'', ''a'', ''resources'', ''00''] False =
      (E_getResource, [(''namespace'', ''a''), (''pid'', ''00'')])" by code_simp
  with routes_exact have "\<exists>m' p f. (m', p, E_getResource) \<in> set server_mux \<and> (m' = ''HEAD'' \<or> m' = ''GET'') \<and>
      [''resolver'', ''namespaces'', ''a'', ''resources'', ''00''] = fill (parse_segments p) f" by blast
  then show ?thesis using server_mux_vars by blast
qed

end
