(* ===== verification/Random_Runtime.thy ===== *)
theory Random_Runtime
  imports Service_Props
begin

text \<open>
  The runtime of a deployed service (\<^verbatim>\<open>NewRuntime\<close> of \<^verbatim>\<open>service/runtime.go\<close>): identifiers and keys from the
  system's random reader and from random UUIDs. The state of the random reader when round \<open>k\<close> of a generator is asked, and the
  UUIDs, are arguments, and nothing is assumed of them. Composed with the allocation of the service, a resource gets the first
  drawn identifier that is free, and a batch that is larger than the identifier space of its namespace crashes.
\<close>

section \<open>The runtime\<close>

text \<open>
  What the body of a generator yields for an outcome of \<^verbatim>\<open>Generate\<close>. There is no panic in it for any format
  (\<open>Generate_no_panic\<close>, \<open>Key_Generate_no_panic\<close>).
\<close>

definition yield_generated :: "string \<Rightarrow> (gerr, string) res \<Rightarrow> string \<times> gerr option" where
  "yield_generated on_error result =
     (case result of Ok x \<Rightarrow> (x, None) | Err e \<Rightarrow> (on_error, Some (Fmt [e])) | Panic \<Rightarrow> (on_error, None))"

definition NewRuntime :: "'r reader \<Rightarrow> (64 word \<Rightarrow> 'r) \<Rightarrow> (64 word \<Rightarrow> nat \<Rightarrow> string) \<Rightarrow> Runtime" where
  "NewRuntime rand_Reader entropy uuid =
     \<lparr>rt_NewNamespaceID = (\<lambda>maxAttempts tot round i. Some (uuid round i, None)),
      rt_NewAPIKeyID = (\<lambda>maxAttempts tot round i. if i = 0 then Some (uuid round 0, None) else None),
      rt_NewAPIKey = (\<lambda>format maxAttempts tot round i.
        if i = 0 then Some (yield_generated [] (fst (Key_Generate rand_Reader format (entropy round)))) else None),
      rt_NewPID = (\<lambda>format maxAttempts tot round i.
        if i = 0 then Some (yield_generated [] (fst (Generate rand_Reader format (entropy round)))) else None)\<rparr>"

lemma Pick_no_panic: "Alphabet chars = Some a \<Longrightarrow> Pick rd chars r \<noteq> (Panic, r')"
  using pick_loop_no_panic [of rd a] by (auto simp: Pick_def Let_def dest: arg_cong [where f = fst] split: if_splits)

lemma Generate_no_panic: "fst (Generate rd f r) \<noteq> Panic"
proof -
  have "fst (generate_loop rd chars p out r) \<noteq> Panic" if "Alphabet chars = Some a" for chars a p out r
    using Pick_no_panic [OF that, of rd]
    by (induction rd chars p out r rule: generate_loop.induct) (auto split: prod.splits res.splits)
  then show ?thesis by (auto simp: Generate_def Format_Validate_None split: option.splits)
qed

lemma Key_Generate_no_panic: "fst (Key_Generate rd f r) \<noteq> Panic"
proof -
  have "fst (key_generate_loop rd chars k out r) \<noteq> Panic" if "Alphabet chars = Some a" for chars a k out r
    using Pick_no_panic [OF that, of rd]
    by (induction rd chars k out r rule: key_generate_loop.induct) (auto split: prod.splits res.splits)
  then show ?thesis
    by (auto simp: Key_Generate_def Key_Validate_def CharacterSet_Validate_def Alphabet_def split: option.splits if_splits)
qed

section \<open>One outcome per round\<close>

text \<open>A generator whose sequences have one element each, and the state after \<open>k\<close> calls.\<close>

definition one_per_round :: "(64 word \<Rightarrow> string \<times> gerr option) \<Rightarrow> id_generator" where
  "one_per_round outcome tot round i = (if i = 0 then Some (outcome round) else None)"

definition pulled :: "nat \<Rightarrow> pull_state" where
  "pulled k = (if k = 0 then PullIDs else \<lparr>pl_round = of_nat (k - 1), pl_pos = 1, pl_done = False\<rparr>)"

lemma pull_outcome:
  "outcome (of_nat k) = (p, None) \<Longrightarrow> pull_next (one_per_round outcome) tot (pulled k) = (Ok p, pulled (Suc k))"
  "outcome (of_nat k) = (p, Some e) \<Longrightarrow> \<exists>st. pull_next (one_per_round outcome) tot (pulled k) = (Err e, st)"
  by (cases k; simp add: pull_next_def pulled_def PullIDs_def one_per_round_def pull_yield_def Let_def add.commute)+

definition bad_generation :: "gerr \<Rightarrow> gerr" where
  "bad_generation e = WithErrorCode (Fmt [e]) BadIDGeneration"

text \<open>
  The candidate for a slot: the first identifier that is new to the batch, unless the generator fails before or the attempts do not suffice.
\<close>

lemma candidate_outcome:
  assumes "\<And>k p. outcome k = (p, None) \<Longrightarrow> id_match p"
  shows "(\<exists>seen' st. candidate_loop (one_per_round outcome) tot m seen (pulled k) = (Ok None, seen', st)) \<or>
    (\<exists>p i k'. candidate_loop (one_per_round outcome) tot m seen (pulled k) = (Ok (Some p), p # seen, pulled k') \<and>
       outcome i = (p, None) \<and> p \<notin> set seen) \<or>
    (\<exists>p i e seen' st. candidate_loop (one_per_round outcome) tot m seen (pulled k) = (Err (bad_generation e), seen', st) \<and>
       outcome (of_nat i) = (p, Some e))"
proof (induction m arbitrary: k)
  case (Suc m)
  obtain p err where o: "outcome (of_nat k) = (p, err)" by fastforce
  show ?case
  proof (cases err)
    case None
    note pull = pull_outcome(1) [where outcome = outcome and k = k and tot = tot, OF o [unfolded None]]
    show ?thesis
    proof (cases "p \<in> set seen")
      case True
      then show ?thesis using Suc.IH [of "Suc k"] pull by simp
    next
      case False
      then have "candidate_loop (one_per_round outcome) tot (Suc m) seen (pulled k) = (Ok (Some p), p # seen, pulled (Suc k))"
        using pull assms [OF o [unfolded None]] by (simp add: NewPID_def)
      then show ?thesis using False o None by blast
    qed
  next
    case (Some e)
    obtain st where "pull_next (one_per_round outcome) tot (pulled k) = (Err e, st)"
      using pull_outcome(2) [where outcome = outcome and k = k and tot = tot, OF o [unfolded Some]] by blast
    then have "candidate_loop (one_per_round outcome) tot (Suc m) seen (pulled k) = (Err (bad_generation e), seen, st)"
      by (simp add: bad_generation_def)
    then show ?thesis using o Some by blast
  qed
qed simp

text \<open>One slot.\<close>

lemma slots_outcome:
  assumes "\<And>k p. outcome k = (p, None) \<Longrightarrow> IsValid f p \<and> id_match p" and "0 < m"
  shows "outcome (of_nat k) = (p, None) \<Longrightarrow>
      slots_loop (one_per_round outcome) f m (Suc 0) [] [] tot (pulled k) = (Ok [p], map_option (\<lambda>t. t + 1) tot, pulled (Suc k))"
    and "outcome (of_nat k) = (p, Some e) \<Longrightarrow>
      \<exists>st. slots_loop (one_per_round outcome) f m (Suc 0) [] [] tot (pulled k) = (Err (bad_generation e), tot, st)"
proof -
  obtain m' where m: "m = Suc m'" using assms(2) by (cases m) auto
  assume o: "outcome (of_nat k) = (p, None)"
  from m pull_outcome(1) [where outcome = outcome and k = k and tot = tot, OF o] assms(1) [OF o]
  have "candidate_loop (one_per_round outcome) tot m [] (pulled k) = (Ok (Some p), [p], pulled (Suc k))" by (simp add: NewPID_def)
  then show "slots_loop (one_per_round outcome) f m (Suc 0) [] [] tot (pulled k) = (Ok [p], map_option (\<lambda>t. t + 1) tot, pulled (Suc k))"
    using assms(1) [OF o] by simp
next
  obtain m' where m: "m = Suc m'" using assms(2) by (cases m) auto
  assume o: "outcome (of_nat k) = (p, Some e)"
  from pull_outcome(2) [where outcome = outcome and k = k and tot = tot, OF o] obtain st where "pull_next (one_per_round outcome) tot (pulled k) = (Err e, st)" by blast
  then have "candidate_loop (one_per_round outcome) tot m [] (pulled k) = (Err (bad_generation e), [], st)"
    using m by (simp add: bad_generation_def)
  then show "\<exists>st. slots_loop (one_per_round outcome) f m (Suc 0) [] [] tot (pulled k) = (Err (bad_generation e), tot, st)" by simp
qed

text \<open>One slot in each attempt: the first outcome that is an error or an identifier that is not taken decides.\<close>

definition decides :: "(string \<Rightarrow> bool) \<Rightarrow> string \<times> gerr option \<Rightarrow> bool" where
  "decides taken x \<longleftrightarrow> (case x of (p, None) \<Rightarrow> \<not> taken p | (p, Some e) \<Rightarrow> True)"

lemma allocate_outcome:
  assumes "\<And>k p. outcome k = (p, None) \<Longrightarrow> IsValid f p \<and> id_match p" and "0 < m"
    and ins: "\<And>now p. ins now [p] s = (if taken p then (fail ErrPIDAllocationFailed, s) else (Ok (out now p), upd now p))"
  shows "allocate_loop (one_per_round outcome) f m (Suc 0) ins clock j tot (pulled k) s =
    (case find (\<lambda>i. decides taken (outcome (of_nat i))) [k..<k + j] of
       None \<Rightarrow> (Err errInsufficientEntropy, s)
     | Some i \<Rightarrow> (case outcome (of_nat i) of
         (p, None) \<Rightarrow> (Ok (out (clock (k + j - 1 - i)) p), upd (clock (k + j - 1 - i)) p)
       | (p, Some e) \<Rightarrow> (Err (bad_generation e), s)))"
proof (induction j arbitrary: k tot)
  case (Suc j)
  have l: "[k..<k + Suc j] = k # [Suc k..<Suc k + j]" and e: "k + Suc j - 1 = Suc k + j - 1" by (simp_all add: upt_conv_Cons)
  obtain p err where o: "outcome (of_nat k) = (p, err)" by fastforce
  show ?case
  proof (cases err)
    case None
    have slot: "slots_loop (one_per_round outcome) f m (Suc 0) [] [] tot (pulled k) = (Ok [p], map_option (\<lambda>t. t + 1) tot, pulled (Suc k))"
      by (rule slots_outcome(1)) (use assms(1,2) o None in auto)
    show ?thesis
      unfolding l e using o None Suc.IH [of _ "Suc k"] by (simp add: slot ins decides_def del: slots_loop.simps upt_Suc)
  next
    case (Some er)
    have "\<exists>st. slots_loop (one_per_round outcome) f m (Suc 0) [] [] tot (pulled k) = (Err (bad_generation er), tot, st)"
      by (rule slots_outcome(2)) (use assms(1,2) o Some in auto)
    then show ?thesis unfolding l using o Some by (auto simp: decides_def simp del: slots_loop.simps upt_Suc)
  qed
qed simp

section \<open>The identifiers of the runtime\<close>

text \<open>What is drawn in a round. The service accepts every identifier that its own generator makes.\<close>

definition drawn :: "'r reader \<Rightarrow> (64 word \<Rightarrow> 'r) \<Rightarrow> pid_format \<Rightarrow> 64 word \<Rightarrow> (gerr, string) res" where
  "drawn rd entropy f round = fst (Generate rd f (entropy round))"

lemma drawn_no_panic: "drawn rd entropy f k \<noteq> Panic"
  by (simp add: drawn_def Generate_no_panic)

lemma runtime_NewPID:
  "rt_NewPID (NewRuntime rd entropy uuid) f m = one_per_round (\<lambda>r. yield_generated [] (drawn rd entropy f r))"
  by (intro ext) (simp add: NewRuntime_def one_per_round_def drawn_def)

lemma drawn_outcome:
  "yield_generated [] (drawn rd entropy f k) = (p, None) \<longleftrightarrow> drawn rd entropy f k = Ok p"
  "yield_generated [] (drawn rd entropy f k) = (p, Some e) \<longleftrightarrow> p = [] \<and> (\<exists>e'. drawn rd entropy f k = Err e' \<and> e = Fmt [e'])"
  using drawn_no_panic [of rd entropy f k] by (cases "drawn rd entropy f k"; auto simp: yield_generated_def)+

lemma drawn_valid: "drawn rd entropy f k = Ok p \<Longrightarrow> IsValid f p \<and> id_match p"
  using Generate_accepted [of rd f "entropy k" p] unfolding drawn_def by (cases "Generate rd f (entropy k)") auto

section \<open>Creating a resource\<close>

lemma svc_CreateResource_loop:
  assumes "sv_backend sv = memory_backend cr" and "mem_GetNamespace n s = Ok ns"
  shows "\<exists>tot. svc_CreateResource sv n req clock s =
    apfst (fmap_res hd) (allocate_loop
      (rt_NewPID (sv_runtime sv) (nr_PIDFormat ns) (wrap_int (lim_MaxPIDAttempts (limits sv)))) (nr_PIDFormat ns)
      (nat (lim_MaxPIDAttempts (limits sv))) (Suc 0)
      (\<lambda>now pids s. apfst (fmap_res (\<lambda>r. [r])) (mem_CreateResource n (hd pids) req now s)) clock
      (nat (lim_MaxPIDAttempts (limits sv))) tot PullIDs s)"
  using assms
  by (auto simp: svc_CreateResource_def allocatePID_def allocatePIDs_def Let_def mem_GetNamespace_def mem_ListResources_def
      count_total_def paginate_def go_slice_def dhas_def wrap_int_def split: option.splits)

text \<open>
  C19. Allocation with the random runtime. Whatever the random reader delivers, creating a resource in a namespace goes through the draws in order, up
  to the permitted number of attempts, until one is an identifier that is free in the namespace or an error. In the first case the
  resource is created under that identifier with the time of that attempt, and can be read back; an error is reported as BadIDGeneration, and if there is no
  such draw, the request fails with InsufficientEntropy; both store nothing. No other outcome is possible; in particular the service never
  rejects an identifier that its own generator made, and never panics.
\<close>

theorem create_resource_random:
  assumes "sv_backend sv = memory_backend cr" and "sv_runtime sv = NewRuntime rd entropy uuid"
    and "reachable s" and "mem_GetNamespace n s = Ok ns"
  shows "let tries = nat (lim_MaxPIDAttempts (limits sv));
             draw = (\<lambda>k. drawn rd entropy (nr_PIDFormat ns) (of_nat k));
             free = (\<lambda>p. \<not> dhas (inner (mem_resources s) n) p);
             result = svc_CreateResource sv n req clock s
         in case find (\<lambda>k. case draw k of Ok p \<Rightarrow> free p | _ \<Rightarrow> True) [0..<tries] of
              None \<Rightarrow> result = (Err errInsufficientEntropy, s)
            | Some k \<Rightarrow> (case draw k of
                Ok p \<Rightarrow> fst result = Ok (new_resource p req (rfc3339 (clock (tries - 1 - k)))) \<and>
                  mem_GetResource n p (snd result) = fst result
              | Err e \<Rightarrow> result = (Err (WithErrorCode (Fmt [Fmt [e]]) BadIDGeneration), s)
              | Panic \<Rightarrow> False)"
proof -
  let ?m = "nat (lim_MaxPIDAttempts (limits sv))" and ?f = "nr_PIDFormat ns"
  let ?draw = "drawn rd entropy ?f" and ?taken = "dhas (inner (mem_resources s) n)"
  let ?out = "\<lambda>r. yield_generated [] (?draw r)"
  let ?ins = "\<lambda>now pids s. apfst (fmap_res (\<lambda>r. [r])) (mem_CreateResource n (hd pids) req now s)"
  from assms(4) have n: "dhas (mem_namespaces s) n" by (auto simp: mem_GetNamespace_def dhas_def split: option.splits)
  from inv_byPID [OF reachable_inv [OF assms(3)] n] obtain b where b: "dget (mem_resources s) n = Some b" by metis
  define upd where "upd = (\<lambda>now p. s\<lparr>mem_resources := dset n (dset p (new_resource p req (rfc3339 now)) b) (mem_resources s)\<rparr>)"
  have ins: "?ins now [p] s = (if ?taken p then (fail ErrPIDAllocationFailed, s)
      else (Ok [new_resource p req (rfc3339 now)], upd now p))" for now p
    by (simp add: mem_CreateResource_def n b Let_def upd_def)
  have get: "mem_GetResource n p (upd now p) = Ok (new_resource p req (rfc3339 now))" for now p
    by (simp add: mem_GetResource_def upd_def n inner_dset dict_simps)
  have dec: "decides ?taken (?out r) \<longleftrightarrow> (case ?draw r of Ok p \<Rightarrow> \<not> ?taken p | _ \<Rightarrow> True)" for r
    using drawn_no_panic [of rd entropy ?f r] by (auto simp: decides_def yield_generated_def split: res.split)
  obtain tot where c: "svc_CreateResource sv n req clock s =
      apfst (fmap_res hd) (allocate_loop (one_per_round ?out) ?f ?m (Suc 0) ?ins clock ?m tot (pulled 0) s)"
    using svc_CreateResource_loop [OF assms(1,4), of req clock] by (auto simp: assms(2) runtime_NewPID pulled_def)
  have "allocate_loop (one_per_round ?out) ?f ?m (Suc 0) ?ins clock ?m tot (pulled 0) s =
    (case find (\<lambda>i. decides ?taken (?out (of_nat i))) [0..<0 + ?m] of
       None \<Rightarrow> (Err errInsufficientEntropy, s)
     | Some i \<Rightarrow> (case ?out (of_nat i) of
         (p, None) \<Rightarrow> (Ok [new_resource p req (rfc3339 (clock (0 + ?m - 1 - i)))], upd (clock (0 + ?m - 1 - i)) p)
       | (p, Some e) \<Rightarrow> (Err (bad_generation e), s)))"
  proof (cases "?m = 0")
    case False
    then show ?thesis by (intro allocate_outcome ins) (simp_all add: drawn_outcome drawn_valid)
  qed simp
  then have "svc_CreateResource sv n req clock s =
    (case find (\<lambda>i. case ?draw (of_nat i) of Ok p \<Rightarrow> \<not> ?taken p | _ \<Rightarrow> True) [0..<?m] of
       None \<Rightarrow> (Err errInsufficientEntropy, s)
     | Some i \<Rightarrow> (case ?draw (of_nat i) of
         Ok p \<Rightarrow> (Ok (new_resource p req (rfc3339 (clock (?m - 1 - i)))), upd (clock (?m - 1 - i)) p)
       | Err e \<Rightarrow> (Err (bad_generation (Fmt [e])), s)
       | Panic \<Rightarrow> (Ok undefined, undefined)))"
    unfolding c dec using drawn_no_panic [of rd entropy ?f]
    by (auto simp: yield_generated_def split: option.split res.split)
  then show ?thesis
    using drawn_no_panic [of rd entropy ?f] by (auto simp: Let_def get bad_generation_def split: option.split res.split)
qed

text \<open>
  A reader that counts: the first draw is taken in the namespace, the second one is free.
\<close>

definition random_sv :: "memory Service" where
  "random_sv = demo_sv\<lparr>sv_runtime := NewRuntime word_reader (\<lambda>round. round) (\<lambda>_ _. ''a'')\<rparr>"

lemma random_sv_simps:
  "sv_backend random_sv = memory_backend demo_crypto" "sv_runtime random_sv = NewRuntime word_reader (\<lambda>round. round) (\<lambda>_ _. ''a'')"
  "lim_MaxPIDAttempts (limits random_sv) = 2"
  by (simp_all add: random_sv_def demo_sv_def Service_New_def withValidValues_def WithValidValues_def)

lemma Pick_count: "w < 16 \<Longrightarrow> Alphabet chars = Some a \<Longrightarrow> Pick word_reader chars w = (Ok (a ! (unat w mod length a)), w)"
proof -
  assume w: "w < 16" and a: "Alphabet chars = Some a"
  have "length a \<in> {36, 32, 16, 10}" by (rule Alphabet_length [OF a])
  then have "16 \<le> max_multiple (of_nat (length a))" by (auto simp: max_multiple_def)
  with w have "w < max_multiple (of_nat (length a))" by (rule less_le_trans)
  then show ?thesis by (simp add: Pick_word_reader [OF a])
qed

theorem create_resource_random_witness:
  "\<exists>s'. svc_CreateResource random_sv ''a'' demo_res (\<lambda>_. 0) demo2 = (Ok (new_resource ''11'' demo_res (rfc3339 0)), s') \<and>
     mem_GetResource ''a'' ''11'' s' = Ok (new_resource ''11'' demo_res (rfc3339 0))"
proof -
  obtain ns where ns: "mem_GetNamespace ''a'' demo2 = Ok ns" "nr_PIDFormat ns = \<lparr>fmt_Pattern = ''**'', fmt_Characters = ''hex''\<rparr>"
    by (simp add: mem_GetNamespace_def demo2_eq demo1_eq dget_def)
  have pick: "Pick word_reader ''hex'' 0 = (Ok (CHR ''0''), 0)" "Pick word_reader ''hex'' 1 = (Ok (CHR ''1''), 1)"
    by (subst Pick_count [of _ _ "''0123456789abcdef''"]; simp add: Alphabet_def alphabets_def)+
  have draw: "drawn word_reader (\<lambda>round. round) (nr_PIDFormat ns) 0 = Ok ''00''" "drawn word_reader (\<lambda>round. round) (nr_PIDFormat ns) 1 = Ok ''11''"
    by (simp_all add: drawn_def ns(2) Generate_def Format_Validate_def Pattern_Validate_def CharacterSet_Validate_def alphabets_def pick)
  have "dhas (inner (mem_resources demo2) ''a'') ''00''" "\<not> dhas (inner (mem_resources demo2) ''a'') ''11''"
    by (simp_all add: demo2_eq inner_def dget_def dhas_def)
  then have "find (\<lambda>k. case drawn word_reader (\<lambda>round. round) (nr_PIDFormat ns) (of_nat k) of
      Ok p \<Rightarrow> \<not> dhas (inner (mem_resources demo2) ''a'') p | _ \<Rightarrow> True) [0..<nat 2] = Some 1"
    by (simp add: numeral_2_eq_2 upt_rec draw)
  with create_resource_random [OF random_sv_simps(1,2) demo_reachable(3) ns(1), of demo_res "\<lambda>_. 0"] random_sv_simps(3)
  show ?thesis
    by (cases "svc_CreateResource random_sv ''a'' demo_res (\<lambda>_. 0) demo2") (auto simp: Let_def draw)
qed

section \<open>Exhausted formats\<close>

lemma slots_exhausted:
  assumes "\<And>k p. outcome k = (p, None) \<Longrightarrow> IsValid f p \<and> id_match p" and fin: "finite {p. IsValid f p}"
  shows "distinct seen \<Longrightarrow> (\<forall>p \<in> set seen. IsValid f p) \<Longrightarrow> card {p. IsValid f p} < length seen + n \<Longrightarrow>
    \<exists>r tot' st'. slots_loop (one_per_round outcome) f m n pids seen tot (pulled k) = (r, tot', st') \<and>
      (r = Panic \<or> (\<exists>p i e. outcome (of_nat i) = (p, Some e) \<and> r = Err (bad_generation e)))"
proof (induction n arbitrary: pids seen tot k)
  case 0
  have "card (set seen) \<le> card {p. IsValid f p}"
    using 0(2) by (intro card_mono [OF fin]) auto
  then show ?case using 0(1,3) by (simp add: distinct_card)
next
  case (Suc n)
  let ?c = "candidate_loop (one_per_round outcome) tot m seen (pulled k)"
  from candidate_outcome [of outcome tot m seen k] assms(1)
  consider (zero) seen' st where "?c = (Ok None, seen', st)"
    | (ok) p i k' where "?c = (Ok (Some p), p # seen, pulled k')" "outcome i = (p, None)" "p \<notin> set seen"
    | (err) p i e seen' st where "?c = (Err (bad_generation e), seen', st)" "outcome (of_nat i) = (p, Some e)"
    by blast
  then show ?case
  proof cases
    case ok
    with Suc.prems assms(1) [OF ok(2)]
      Suc.IH [of "p # seen" "pids @ [p]" "map_option (\<lambda>t. t + 1) tot" k'] show ?thesis by simp
  next
    case err
    then show ?thesis by auto
  qed simp
qed

lemma finite_valid: "finite {p. IsValid f p}"
proof (cases "Format_Validate f")
  case None
  then obtain a where a: "Alphabet (fmt_Characters f) = Some a" by (auto simp: Format_Validate_None)
  have "0 < length a" using Alphabet_length [OF a] by auto
  then have "0 < card {p. IsValid f p}"
    using IsValid_slots [OF None a] card_slots [OF Alphabet_distinct [OF a]] by simp
  then show ?thesis by (rule card_ge_0_finite)
next
  case (Some e)
  then show ?thesis by (simp add: IsValid_def)
qed

text \<open>
  C36. A batch larger than the identifier space crashes. When a batch that is within the limit for batches asks for more resources than the
  namespace's format has identifiers, and at least one attempt is permitted, then, whatever the random reader delivers, the attempts for
  some slot are used up by identifiers that are in the batch already; the slot keeps the zero value, whose use panics, instead of the
  documented error InsufficientEntropy. The only other outcome is that a draw failed before, which is reported as BadIDGeneration.
  Nothing is stored.
\<close>

theorem batch_exhausted_panics:
  assumes "sv_backend sv = memory_backend cr" and "sv_runtime sv = NewRuntime rd entropy uuid"
    and "mem_GetNamespace n s = Ok ns" and "reachable s"
    and "card {p. IsValid (nr_PIDFormat ns) p} < length reqs" and "1 \<le> lim_MaxPIDAttempts (limits sv)"
    and "lim_MaxBatchItems (limits sv) \<le> 0 \<or> int (length reqs) \<le> lim_MaxBatchItems (limits sv)"
  shows "svc_BatchCreateResources sv n reqs clock s = (Panic, s) \<or>
    (\<exists>k e. drawn rd entropy (nr_PIDFormat ns) (of_nat k) = Err e \<and>
       svc_BatchCreateResources sv n reqs clock s = (Err (WithErrorCode (Fmt [Fmt [e]]) BadIDGeneration), s))"
proof -
  let ?f = "nr_PIDFormat ns" and ?m = "lim_MaxPIDAttempts (limits sv)"
  have ne: "reqs \<noteq> []" using assms(5) by auto
  obtain k where k: "nat ?m = Suc k" using assms(6) by (cases "nat ?m") auto
  have n: "dhas (mem_namespaces s) n"
    using assms(3) by (auto simp: mem_GetNamespace_def dhas_def split: option.splits)
  from ListResources_window [OF reachable_inv [OF assms(4)] n, of "\<lparr>lrp_Tag = None, lrp_Deleted = None, lrp_Limit = 0, lrp_Offset = 0\<rparr>"]
  obtain pg where pg: "mem_ListResources n \<lparr>lrp_Tag = None, lrp_Deleted = None, lrp_Limit = 0, lrp_Offset = 0\<rparr> s = Ok pg"
    by (auto simp: max_int_def)
  let ?out = "\<lambda>r. yield_generated [] (drawn rd entropy ?f r)"
  have "\<exists>r tot' st'. slots_loop (one_per_round ?out) ?f (Suc k) (length reqs) [] [] (Some (pg_Total pg)) (pulled 0) = (r, tot', st') \<and>
      (r = Panic \<or> (\<exists>p i e. ?out (of_nat i) = (p, Some e) \<and> r = Err (bad_generation e)))"
    by (rule slots_exhausted) (use assms(5) in \<open>simp_all add: drawn_outcome drawn_valid finite_valid\<close>)
  then obtain r tot' st' where slots: "slots_loop (rt_NewPID (sv_runtime sv) ?f (wrap_int (?m * int (length reqs)))) ?f
      (Suc k) (length reqs) [] [] (Some (pg_Total pg)) PullIDs = (r, tot', st')"
    and r: "r = Panic \<or> (\<exists>i e. drawn rd entropy ?f (of_nat i) = Err e \<and> r = Err (bad_generation (Fmt [e])))"
    unfolding drawn_outcome assms(2) runtime_NewPID pulled_def by fastforce
  have "svc_BatchCreateResources sv n reqs clock s = (case r of Ok _ \<Rightarrow> (Panic, s) | Err e \<Rightarrow> (Err e, s) | Panic \<Rightarrow> (Panic, s))"
    using assms(1,3,7) ne k pg slots r
    by (auto simp: svc_BatchCreateResources_def Let_def allocatePIDs_def count_total_def simp del: slots_loop.simps)
  with r show ?thesis by (auto simp: bad_generation_def)
qed

text \<open>Eleven resources in a namespace with ten identifiers, with the default limits and a reader that counts.\<close>

definition tiny_sv :: "memory Service" where
  "tiny_sv = Service_New (memory_backend demo_crypto) (NewRuntime word_reader (\<lambda>round. round mod 16) (\<lambda>_ _. ''a''))
     \<lparr>opt_InfoEnabled = True, opt_Anonymous = True, opt_Limits = DefaultLimits\<rparr>"

theorem batch_exhausted_panics_witness:
  "svc_BatchCreateResources tiny_sv ''d'' (replicate 11 demo_res) (\<lambda>_. 0)
     (snd (mem_CreateNamespace ''d'' \<lparr>ncr_Tags = [], ncr_PIDFormat = \<lparr>fmt_Pattern = ''*'', fmt_Characters = ''decimal''\<rparr>\<rparr>
        None 0 demo1)) =
   (Panic, snd (mem_CreateNamespace ''d'' \<lparr>ncr_Tags = [], ncr_PIDFormat = \<lparr>fmt_Pattern = ''*'', fmt_Characters = ''decimal''\<rparr>\<rparr>
        None 0 demo1))"
proof -
  let ?f = "\<lparr>fmt_Pattern = ''*'', fmt_Characters = ''decimal''\<rparr>"
  let ?s = "snd (mem_CreateNamespace ''d'' \<lparr>ncr_Tags = [], ncr_PIDFormat = ?f\<rparr> None 0 demo1)"
  let ?ns = "\<lparr>nr_ID = ''d'', nr_Tags = [], nr_PIDFormat = ?f, nr_DateCreated = 0, nr_DateUpdated = 0\<rparr>"
  have a: "Alphabet ''decimal'' = Some ''0123456789''" by (simp add: Alphabet_def alphabets_def)
  have ok: "Format_Validate ?f = None" using a by (auto simp: Format_Validate_None)
  have card: "card {p. IsValid ?f p} = 10"
    using IsValid_slots [OF ok, of "''0123456789''"] a card_slots [of "''0123456789''" "''*''"] by simp
  have "Pick word_reader ''decimal'' (w mod 16) = (Ok (''0123456789'' ! (unat (w mod 16) mod 10)), w mod 16)" for w
    using Pick_count [OF _ a, of "w mod 16"] by (simp add: word_mod_less_divisor)
  then have draw: "drawn word_reader (\<lambda>round. round mod 16) ?f w \<noteq> Err e" for w e
    using ok by (simp add: drawn_def Generate_def)
  have "reachable ?s" by (rule reach_step [OF demo_reachable(2)]) (rule mem_step.intros)
  then have "svc_BatchCreateResources tiny_sv ''d'' (replicate 11 demo_res) (\<lambda>_. 0) ?s = (Panic, ?s) \<or>
    (\<exists>k e. drawn word_reader (\<lambda>round. round mod 16) (nr_PIDFormat ?ns) (of_nat k) = Err e \<and>
       svc_BatchCreateResources tiny_sv ''d'' (replicate 11 demo_res) (\<lambda>_. 0) ?s = (Err (WithErrorCode (Fmt [Fmt [e]]) BadIDGeneration), ?s))"
    using card
    by (intro batch_exhausted_panics [where cr = demo_crypto and uuid = "\<lambda>_ _. ''a''"])
      (simp_all add: tiny_sv_def Service_New_def withValidValues_def WithValidValues_def DefaultLimits_def
        mem_GetNamespace_def mem_CreateNamespace_def demo1_eq dhas_def dget_def dset_def Let_def)
  then show ?thesis using draw by auto
qed

end
