(* ===== verification/Cleanup.thy ===== *)
theory Cleanup
  imports Service_Auth
begin

text \<open>
  The periodic removal of expired API keys (\<^verbatim>\<open>CleanupExpiredAPIKeys\<close> in \<^verbatim>\<open>service/credentials.go\<close>). The loop
  revokes keys while it pages through them, so that an offset is only correct if it skips the keys that stay. The locale
  states what the loop needs of a backend; inside it the loop is shown to end and to remove exactly the expired keys.
\<close>

lemma filter_other_keys:
  assumes "distinct (map f (pre @ k # post))"
  shows "filter (\<lambda>i. f i \<noteq> f k) (pre @ k # post) = pre @ post"
proof -
  from assms have "f k \<notin> f ` set pre" "f k \<notin> f ` set post" by auto
  then have "\<forall>i \<in> set pre. f i \<noteq> f k" "\<forall>i \<in> set post. f i \<noteq> f k" by (metis imageI)+
  then show ?thesis by simp
qed

section \<open>What the loop needs of a backend\<close>

locale key_admin =
  fixes B :: "'s Backend" and inv :: "'s \<Rightarrow> bool" and users :: "'s \<Rightarrow> string list" and keys :: "'s \<Rightarrow> string \<Rightarrow> APIKeyInfo list"
  assumes list_keys: "inv s \<Longrightarrow> u \<in> set (users s) \<Longrightarrow> 0 < l \<Longrightarrow> 0 \<le> off \<Longrightarrow> off + l \<le> max_int \<Longrightarrow>
      \<exists>pg. be_ListKeys (Creds B) f (Some u) l off s = Ok pg \<and> pg_Items pg = page_window (keys s u) l off"
    and keys_distinct: "inv s \<Longrightarrow> distinct (map key_ID (keys s u))"
    and revoke: "inv s \<Longrightarrow> u \<in> set (users s) \<Longrightarrow> k \<in> set (keys s u) \<Longrightarrow>
      \<exists>s'. be_RevokeKey (Creds B) f u (key_ID k) s = (Ok (), s') \<and> inv s' \<and> users s' = users s \<and>
        (\<forall>v. keys s' v = (if v = u then filter (\<lambda>i. key_ID i \<noteq> key_ID k) (keys s u) else keys s v))"
    and list_users: "inv s \<Longrightarrow> 0 < l \<Longrightarrow> 0 \<le> off \<Longrightarrow> off + l \<le> max_int \<Longrightarrow>
      \<exists>pg. be_ListUsers (Users B) \<lparr>lup_Superuser = None, lup_Password = None, lup_Limit = l, lup_Offset = off\<rparr> s = Ok pg \<and>
        pg_Total pg = int (length (users s)) \<and> map ui_Username (pg_Items pg) = page_window (users s) l off"
begin

text \<open>The state after the keys of \<open>u\<close> were replaced by \<open>ks\<close>.\<close>

definition cleaned :: "'s \<Rightarrow> string \<Rightarrow> APIKeyInfo list \<Rightarrow> 's \<Rightarrow> bool" where
  "cleaned s u ks s' \<longleftrightarrow> inv s' \<and> users s' = users s \<and> keys s' = (keys s)(u := ks)"

text \<open>The state after some keys were removed, none of which is valid.\<close>

definition pruned :: "time \<Rightarrow> 's \<Rightarrow> 's \<Rightarrow> bool" where
  "pruned now s s' \<longleftrightarrow> inv s' \<and> users s' = users s \<and>
     (\<forall>u. \<exists>P. keys s' u = filter P (keys s u) \<and> (\<forall>k \<in> set (keys s u). APIKeyInfo_Valid k now \<longrightarrow> P k))"

lemma pruned_refl: "inv s \<Longrightarrow> pruned now s s"
  by (auto simp: pruned_def intro!: exI [of _ "\<lambda>k. True"])

lemma pruned_trans:
  assumes "pruned now s s'" and "pruned now s' s''"
  shows "pruned now s s''"
  unfolding pruned_def
proof (intro conjI allI)
  fix u
  from assms(1) obtain P where P: "keys s' u = filter P (keys s u)" "\<forall>k \<in> set (keys s u). APIKeyInfo_Valid k now \<longrightarrow> P k"
    unfolding pruned_def by blast
  from assms(2) obtain Q where Q: "keys s'' u = filter Q (keys s' u)" "\<forall>k \<in> set (keys s' u). APIKeyInfo_Valid k now \<longrightarrow> Q k"
    unfolding pruned_def by blast
  show "\<exists>P. keys s'' u = filter P (keys s u) \<and> (\<forall>k \<in> set (keys s u). APIKeyInfo_Valid k now \<longrightarrow> P k)"
    using P Q by (intro exI [of _ "\<lambda>k. P k \<and> Q k"]) (auto simp: conj_commute)
qed (use assms in \<open>simp_all add: pruned_def\<close>)

lemma revoke_prunes:
  assumes "inv s" and "inv s'" and "users s' = users s" and "k \<in> set (keys s u)" and "\<not> APIKeyInfo_Valid k now"
    and "\<And>v. keys s' v = (if v = u then filter (\<lambda>i. key_ID i \<noteq> key_ID k) (keys s u) else keys s v)"
  shows "pruned now s s'"
  unfolding pruned_def
proof (intro conjI allI)
  fix v
  have "key_ID i = key_ID k \<Longrightarrow> i = k" if "i \<in> set (keys s u)" for i
    using keys_distinct [OF assms(1), of u] that assms(4) by (auto simp: distinct_map inj_on_def)
  then show "\<exists>P. keys s' v = filter P (keys s v) \<and> (\<forall>k \<in> set (keys s v). APIKeyInfo_Valid k now \<longrightarrow> P k)"
    using assms(5,6) by (intro exI [of _ "\<lambda>i. v \<noteq> u \<or> key_ID i \<noteq> key_ID k"]) auto
qed (use assms in simp_all)

text \<open>
  The outcomes: the work is done, or the context was cancelled, which is impossible if it never is, and only invalid keys are gone.
\<close>

definition finished :: "time \<Rightarrow> go_context \<Rightarrow> 's \<Rightarrow> (gerr, 'x) res \<Rightarrow> 's \<Rightarrow> ('x \<Rightarrow> bool) \<Rightarrow> bool" where
  "finished now ctx s r s' done \<longleftrightarrow> pruned now s s' \<and>
     ((\<exists>x. r = Ok x \<and> done x) \<or> ctx \<noteq> None \<and> r = Err errContextCancelled)"

lemma ctx_None [simp]: "\<not> ctx_Err None" "ctx_polled c = None \<longleftrightarrow> c = None"
  by (simp_all add: ctx_Err_def ctx_polled_def)

lemma finished_cancelled: "inv s \<Longrightarrow> ctx_Err ctx \<Longrightarrow> finished now ctx s (Err errContextCancelled) s done"
  by (auto simp: finished_def pruned_refl ctx_Err_def)

lemma finished_later: "pruned now s s1 \<Longrightarrow> finished now ctx' s1 r s' done \<Longrightarrow> (ctx = None \<Longrightarrow> ctx' = None) \<Longrightarrow>
    (\<And>x. done x \<Longrightarrow> done' x) \<Longrightarrow> finished now ctx s r s' done'"
  by (auto simp: finished_def intro: pruned_trans)

lemma revoke_loop_cleans:
  assumes "sv_backend sv = B" and "inv s" and "u \<in> set (users s)" and "keys s u = pre @ ks @ post"
  shows "\<exists>r s'. revoke_loop sv f u now ctx ks n s = (r, s') \<and>
    finished now ctx s r s' (\<lambda>(a, c). a = n + length (filter (\<lambda>k. APIKeyInfo_Valid k now) ks) \<and> (ctx = None \<longrightarrow> c = None) \<and>
      cleaned s u (pre @ filter (\<lambda>k. APIKeyInfo_Valid k now) ks @ post) s')"
  using assms(2-4)
proof (induction ks arbitrary: s pre n ctx)
  case Nil
  then show ?case by (auto simp: cleaned_def finished_def pruned_refl)
next
  case (Cons k ks)
  show ?case
  proof (cases "ctx_Err ctx")
    case True
    then show ?thesis using finished_cancelled [OF Cons.prems(1)] by auto
  next
    case alive: False
    show ?thesis
    proof (cases "APIKeyInfo_Valid k now")
      case True
      with Cons.IH [OF Cons.prems(1,2), of "pre @ [k]" "ctx_polled ctx" "n + 1"] Cons.prems(3) alive show ?thesis
        by (auto simp: finished_def)
    next
      case False
      from revoke [OF Cons.prems(1,2), of k f] Cons.prems(3) obtain s1 where
        r: "be_RevokeKey (Creds B) f u (key_ID k) s = (Ok (), s1)" and i: "inv s1" "users s1 = users s"
        and k1: "\<And>v. keys s1 v = (if v = u then filter (\<lambda>i. key_ID i \<noteq> key_ID k) (keys s u) else keys s v)" by auto
      have "filter (\<lambda>i. key_ID i \<noteq> key_ID k) (keys s u) = pre @ ks @ post"
        using keys_distinct [OF Cons.prems(1), of u] filter_other_keys [of key_ID pre k "ks @ post"] Cons.prems(3) by simp
      with k1 have ku: "keys s1 u = pre @ ks @ post" by simp
      have ks1: "keys s1 = (keys s)(u := pre @ ks @ post)" using k1 ku by (auto simp: fun_eq_iff)
      have p: "pruned now s s1" using revoke_prunes [OF Cons.prems(1) i _ False k1] Cons.prems(3) by simp
      from Cons.IH [OF i(1) _ ku, of "ctx_polled ctx" n] i(2) Cons.prems(2) obtain x s' where
        "revoke_loop sv f u now (ctx_polled ctx) ks n s1 = (x, s')" and fin: "finished now (ctx_polled ctx) s1 x s'
          (\<lambda>(a, c). a = n + length (filter (\<lambda>k. APIKeyInfo_Valid k now) ks) \<and> (ctx_polled ctx = None \<longrightarrow> c = None) \<and>
            cleaned s1 u (pre @ filter (\<lambda>k. APIKeyInfo_Valid k now) ks @ post) s')" by auto
      moreover have "finished now ctx s x s'
          (\<lambda>(a, c). a = n + length (filter (\<lambda>k. APIKeyInfo_Valid k now) (k # ks)) \<and> (ctx = None \<longrightarrow> c = None) \<and>
            cleaned s u (pre @ filter (\<lambda>k. APIKeyInfo_Valid k now) (k # ks) @ post) s')"
        by (rule finished_later [OF p fin]) (use False i(2) in \<open>auto simp: cleaned_def ks1\<close>)
      ultimately show ?thesis using False alive r assms(1) by simp
    qed
  qed
qed

text \<open>One user: the first \<open>off\<close> keys are valid, and the rest shrinks with every page.\<close>

lemma cleanup_user:
  assumes "sv_backend sv = B" and "inv s" and "u \<in> set (users s)" and "0 < l"
    and "int (length (keys s u)) + l \<le> max_int" and "off \<le> length (keys s u)"
    and "filter (\<lambda>k. APIKeyInfo_Valid k now) (take off (keys s u)) = take off (keys s u)"
  shows "\<exists>r s'. cleanupExpiredKeysForUser sv f u now l ctx (int off) s = Some (r, s') \<and>
    finished now ctx s r s' (\<lambda>c. (ctx = None \<longrightarrow> c = None) \<and> cleaned s u (filter (\<lambda>k. APIKeyInfo_Valid k now) (keys s u)) s')"
  using assms(2,3,5-7)
proof (induction "length (keys s u) - off" arbitrary: s off ctx rule: less_induct)
  case less
  let ?V = "filter (\<lambda>k. APIKeyInfo_Valid k now)" and ?pre = "take off (keys s u)"
  let ?page = "page_window (keys s u) l (int off)" and ?post = "drop (nat l) (drop off (keys s u))"
  have split: "keys s u = ?pre @ ?page @ ?post" by (simp only: page_window_def nat_int append_take_drop_id)
  from list_keys [OF less.prems(1,2) assms(4), of "int off" f] less.prems(3,4) obtain pg where
    pg: "be_ListKeys (Creds B) f (Some u) l (int off) s = Ok pg" "pg_Items pg = ?page" by auto
  consider "ctx_Err ctx" | "\<not> ctx_Err ctx" "?page = []" | "\<not> ctx_Err ctx" "?page \<noteq> []" by blast
  then show ?case
  proof cases
    case 1
    then show ?thesis
      using finished_cancelled [OF less.prems(1)] by (subst cleanupExpiredKeysForUser.simps) auto
  next
    case 2
    then have "?V (keys s u) = keys s u" using less.prems(4,5) assms(4) by (simp add: page_window_def)
    then show ?thesis
      using 2 pg assms(1) less.prems(1)
      by (subst cleanupExpiredKeysForUser.simps) (simp add: cleaned_def finished_def pruned_refl)
  next
    case 3
    from revoke_loop_cleans [OF assms(1) less.prems(1,2) split, of f now "ctx_polled ctx" 0] obtain r s1 where
      r: "revoke_loop sv f u now (ctx_polled ctx) ?page 0 s = (r, s1)"
      and fin: "finished now (ctx_polled ctx) s r s1 (\<lambda>(a, c). a = length (?V ?page) \<and> (ctx_polled ctx = None \<longrightarrow> c = None) \<and>
        cleaned s u (?pre @ ?V ?page @ ?post) s1)" by auto
    note unf = cleanupExpiredKeysForUser.simps [of sv f u now l ctx "int off" s]
    show ?thesis
    proof (cases "r = Err errContextCancelled")
      case True
      then show ?thesis using 3 r fin pg assms(1) by (simp add: unf finished_def)
    next
      case False
      with fin obtain c where ok: "r = Ok (length (?V ?page), c)" and ctx: "ctx = None \<longrightarrow> c = None"
        and c: "cleaned s u (?pre @ ?V ?page @ ?post) s1" and p: "pruned now s s1" by (auto simp: finished_def)
      show ?thesis
      proof (cases "int (length ?page) < l \<and> length (?V ?page) = length ?page")
        case True
        then have "?V ?page = ?page" by (metis filter_True length_filter_less less_irrefl)
        moreover have "?post = []" using True by (auto simp: page_window_def)
        ultimately have "?V (keys s u) = ?pre @ ?V ?page @ ?post" using less.prems(5) by (subst split) simp
        then show ?thesis using True 3 r ok ctx c p pg assms(1) by (simp add: unf finished_def)
      next
        case more: False
        let ?off = "off + length (?V ?page)"
        have k1: "keys s1 u = ?pre @ ?V ?page @ ?post" and i1: "inv s1" "users s1 = users s" using c by (simp_all add: cleaned_def)
        have len: "length ?pre = off" using less.prems(4) by simp
        have "length (keys s1 u) - ?off < length (keys s u) - off"
          using 3 len by (subst k1, subst split) simp
        moreover have "length (keys s1 u) \<le> length (keys s u)" by (subst k1, subst (3) split) simp
        moreover have "?off \<le> length (keys s1 u)" using len by (simp add: k1)
        moreover have "?V (take ?off (keys s1 u)) = take ?off (keys s1 u)" using len less.prems(5) by (simp add: k1)
        ultimately obtain r' s' where rec: "cleanupExpiredKeysForUser sv f u now l c (int ?off) s1 = Some (r', s')"
          and fin': "finished now c s1 r' s' (\<lambda>c'. (c = None \<longrightarrow> c' = None) \<and> cleaned s1 u (?V (keys s1 u)) s')"
          using less.hyps [of s1 ?off c] i1 less.prems(2,3) by auto
        have v: "?V (keys s1 u) = ?V (keys s u)" by (subst split) (simp add: k1)
        have "finished now ctx s r' s' (\<lambda>c'. (ctx = None \<longrightarrow> c' = None) \<and> cleaned s u (?V (keys s u)) s')"
          by (rule finished_later [OF p fin']) (use ctx c in \<open>auto simp: cleaned_def v\<close>)
        then show ?thesis using 3 more r ok rec pg assms(1) by (auto simp: unf)
      qed
    qed
  qed
qed

text \<open>The state after the keys of the users in \<open>U\<close> were cleaned.\<close>

definition cleaned_all :: "time \<Rightarrow> 's \<Rightarrow> string set \<Rightarrow> 's \<Rightarrow> bool" where
  "cleaned_all now s U s' \<longleftrightarrow> inv s' \<and> users s' = users s \<and>
     keys s' = (\<lambda>u. if u \<in> U then filter (\<lambda>k. APIKeyInfo_Valid k now) (keys s u) else keys s u)"

definition small :: "int \<Rightarrow> 's \<Rightarrow> bool" where
  "small l s \<longleftrightarrow> int (length (users s)) + l \<le> max_int \<and> (\<forall>u. int (length (keys s u)) + l \<le> max_int)"

lemma cleaned_all_small: "cleaned_all now s U s' \<Longrightarrow> small l s \<Longrightarrow> small l s'"
  unfolding small_def cleaned_all_def
  by (smt (verit) length_filter_le of_nat_mono)

lemma cleaned_all_trans: "cleaned_all now s U s' \<Longrightarrow> cleaned_all now s' V s'' \<Longrightarrow> cleaned_all now s (U \<union> V) s''"
  by (auto simp: cleaned_all_def fun_eq_iff)

lemma cleanup_users_ok:
  assumes "sv_backend sv = B" and "0 < l" and "inv s" and "small l s" and "set (map ui_Username us) \<subseteq> set (users s)"
    and "\<forall>u \<in> set (users s). id_match u"
  shows "\<exists>r s'. cleanup_users sv f now l ctx us s = Some (r, s') \<and>
    finished now ctx s r s' (\<lambda>c. (ctx = None \<longrightarrow> c = None) \<and> cleaned_all now s (set (map ui_Username us)) s')"
  using assms(3-6)
proof (induction us arbitrary: s ctx)
  case Nil
  then show ?case by (simp add: cleaned_all_def finished_def pruned_refl)
next
  case (Cons a us)
  let ?u = "ui_Username a"
  have u: "?u \<in> set (users s)" "id_match ?u" using Cons.prems(3,4) by auto
  from cleanup_user [OF assms(1) Cons.prems(1) u(1) assms(2), of 0 now f ctx] Cons.prems(2) obtain r s1 where
    c: "cleanupExpiredKeysForUser sv f ?u now l ctx 0 s = Some (r, s1)"
    and c1: "finished now ctx s r s1 (\<lambda>c. (ctx = None \<longrightarrow> c = None) \<and> cleaned s ?u (filter (\<lambda>k. APIKeyInfo_Valid k now) (keys s ?u)) s1)"
    by (auto simp: small_def)
  show ?case
  proof (cases "r = Err errContextCancelled")
    case True
    then show ?thesis using c c1 u(2) by (simp add: finished_def NewUsername_def)
  next
    case False
    with c1 obtain c' where r: "r = Ok c'" and ctx: "ctx = None \<longrightarrow> c' = None" and p: "pruned now s s1"
      and d: "cleaned s ?u (filter (\<lambda>k. APIKeyInfo_Valid k now) (keys s ?u)) s1" by (auto simp: finished_def)
    from d have s1: "cleaned_all now s {?u} s1" by (auto simp: cleaned_def cleaned_all_def)
    then have "inv s1" "users s1 = users s" by (simp_all add: cleaned_all_def)
    with Cons.IH [of s1 c'] cleaned_all_small [OF s1 Cons.prems(2)] Cons.prems(3,4) obtain r' s' where
      rec: "cleanup_users sv f now l c' us s1 = Some (r', s')"
      and fin: "finished now c' s1 r' s' (\<lambda>c. (c' = None \<longrightarrow> c = None) \<and> cleaned_all now s1 (set (map ui_Username us)) s')" by auto
    have "finished now ctx s r' s' (\<lambda>c. (ctx = None \<longrightarrow> c = None) \<and> cleaned_all now s (set (map ui_Username (a # us))) s')"
      by (rule finished_later [OF p fin]) (use ctx cleaned_all_trans [OF s1] in auto)
    then show ?thesis using c r rec u(2) by (simp add: NewUsername_def)
  qed
qed

lemma cleanup_pages_ok:
  assumes "sv_backend sv = B" and "0 < l" and "inv s" and "small l s" and "\<forall>u \<in> set (users s). id_match u"
    and "off \<le> length (users s)"
  shows "\<exists>r s'. cleanup_pages sv f now l ctx (int off) s = Some (r, s') \<and>
    finished now ctx s r s' (\<lambda>_. cleaned_all now s (set (drop off (users s))) s')"
  using assms(3-6)
proof (induction "length (users s) - off" arbitrary: s off ctx rule: less_induct)
  case less
  let ?page = "page_window (users s) l (int off)"
  from list_users [OF less.prems(1) assms(2), of "int off"] less.prems(2,4) obtain pg where
    pg: "be_ListUsers (Users B) \<lparr>lup_Superuser = None, lup_Password = None, lup_Limit = l, lup_Offset = int off\<rparr> s = Ok pg"
    and tot: "pg_Total pg = int (length (users s))" and items: "map ui_Username (pg_Items pg) = ?page"
    by (auto simp: small_def)
  have len: "length (pg_Items pg) = length ?page" using arg_cong [OF items, of length] by simp
  have split: "drop off (users s) = ?page @ drop (off + length ?page) (users s)"
  proof -
    have "ys = take n ys @ drop (length (take n ys)) ys" for n and ys :: "string list" by (cases "n \<le> length ys") auto
    from this [of "drop off (users s)" "nat l"] show ?thesis by (simp add: page_window_def add.commute)
  qed
  note unf = cleanup_pages.simps [of sv f now l ctx "int off" s]
  consider "ctx_Err ctx" | "\<not> ctx_Err ctx" "?page = []" | "\<not> ctx_Err ctx" "?page \<noteq> []" by blast
  then show ?case
  proof cases
    case 1
    then show ?thesis using finished_cancelled [OF less.prems(1)] by (auto simp: unf)
  next
    case 2
    then have "drop off (users s) = []" using assms(2) by (simp add: page_window_def)
    then show ?thesis
      using pg 2 len assms(1) less.prems(1) by (simp add: unf cleaned_all_def finished_def pruned_refl)
  next
    case 3
    have "set (map ui_Username (pg_Items pg)) \<subseteq> set (users s)" using items set_page_window by metis
    from cleanup_users_ok [OF assms(1,2) less.prems(1,2) this less.prems(3), of f now "ctx_polled ctx"] items obtain r s1 where
      c: "cleanup_users sv f now l (ctx_polled ctx) (pg_Items pg) s = Some (r, s1)"
      and fin: "finished now (ctx_polled ctx) s r s1 (\<lambda>c. (ctx_polled ctx = None \<longrightarrow> c = None) \<and> cleaned_all now s (set ?page) s1)"
      by auto
    show ?thesis
    proof (cases "r = Err errContextCancelled")
      case True
      then show ?thesis using 3 c fin pg len assms(1) by (simp add: unf finished_def)
    next
      case False
      with fin obtain c' where ok: "r = Ok c'" and ctx: "ctx = None \<longrightarrow> c' = None" and p: "pruned now s s1"
        and s1: "cleaned_all now s (set ?page) s1" by (auto simp: finished_def)
      have i1: "inv s1" "users s1 = users s" using s1 by (simp_all add: cleaned_all_def)
      show ?thesis
      proof (cases "int off + int (length ?page) \<ge> int (length (users s)) \<or> int (length ?page) < l")
        case True
        then have "drop (off + length ?page) (users s) = []" using assms(2) by (auto simp: page_window_def)
        then have "set (drop off (users s)) = set ?page" by (subst split) simp
        then show ?thesis using True 3 pg tot len c ok p s1 assms(1) by (auto simp: unf Let_def finished_def)
      next
        case more: False
        let ?off = "off + length ?page"
        have "length (users s1) - ?off < length (users s) - off" using 3 more i1(2) by (cases ?page) auto
        with less.hyps [of s1 ?off c'] i1 less.prems(3) cleaned_all_small [OF s1 less.prems(2)] more obtain r' s' where
          rec: "cleanup_pages sv f now l c' (int ?off) s1 = Some (r', s')"
          and fin': "finished now c' s1 r' s' (\<lambda>_. cleaned_all now s1 (set (drop ?off (users s))) s')" by auto
        have "set (drop off (users s)) = set ?page \<union> set (drop ?off (users s))" by (subst split) simp
        then have "finished now ctx s r' s' (\<lambda>_. cleaned_all now s (set (drop off (users s))) s')"
          using cleaned_all_trans [OF s1] by (intro finished_later [OF p fin']) (use ctx in auto)
        then show ?thesis using 3 more pg tot len c ok rec assms(1) by (auto simp: unf Let_def)
      qed
    qed
  qed
qed

lemma cleanup_ok:
  assumes "sv_backend sv = B" and "\<not> AnonymousMode sv" and "0 < InternalPageLimit (limits sv)" and "inv s"
    and "small (InternalPageLimit (limits sv)) s" and "\<forall>u \<in> set (users s). id_match u"
  shows "\<exists>r s'. CleanupExpiredAPIKeys sv ctx now s = Some (r, s') \<and> finished now ctx s r s' (\<lambda>_. cleaned_all now s (set (users s)) s')"
  using cleanup_pages_ok [OF assms(1,3-6), of 0 apiKeyFormat now ctx] assms(2) by (simp add: CleanupExpiredAPIKeys_def)

end

section \<open>The in-memory backend\<close>

definition user_names :: "memory \<Rightarrow> string list" where
  "user_names s = sort (map fst (mem_users s))"

definition user_keys :: "memory \<Rightarrow> string \<Rightarrow> APIKeyInfo list" where
  "user_keys s u = (case dget (mem_users s) u of
      None \<Rightarrow> [] | Some user \<Rightarrow> sort_key key_ID (map (kr_info \<circ> snd) (ur_keys user)))"

definition key_inv :: "memory \<Rightarrow> memory \<Rightarrow> bool" where
  "key_inv s0 s \<longleftrightarrow> mem_inv s \<and> (\<exists>U. s = s0\<lparr>mem_users := U\<rparr>)"

lemma map_sort_key: "map f (sort_key f xs) = sort (map f xs)"
  by (rule sym, rule properties_for_sort) simp_all

lemma page_window_map: "map f (page_window xs l off) = page_window (map f xs) l off"
  by (simp add: page_window_def take_map drop_map)

lemma user_names_iff: "u \<in> set (user_names s) \<longleftrightarrow> dhas (mem_users s) u"
  by (force simp: user_names_def dhas_def dget_def map_of_eq_None_iff)

lemma user_entry:
  assumes "mem_inv s" and "dget (mem_users s) u = Some user" and "e \<in> set (ur_keys user)"
  shows "key_ID (kr_info (snd e)) = fst e"
proof -
  have "wf_dict (ur_keys user)" using assms by (auto simp: mem_inv_def users_ok_def)
  then have "key_at (mem_users s) u (fst e) (snd e)" using assms(2,3) by (simp add: key_at_def dget_Some_iff)
  then show ?thesis using assms(1) by (auto simp: mem_inv_def users_ok_def)
qed

lemma user_key_IDs:
  assumes "mem_inv s" and "dget (mem_users s) u = Some user"
  shows "map (key_ID \<circ> (kr_info \<circ> snd)) (ur_keys user) = map fst (ur_keys user)"
  using user_entry [OF assms] by simp

lemma user_keys_distinct: "mem_inv s \<Longrightarrow> distinct (map key_ID (user_keys s u))"
proof (cases "dget (mem_users s) u")
  case (Some user)
  assume i: "mem_inv s"
  have "distinct (map fst (ur_keys user))"
    using i Some by (auto simp: mem_inv_def users_ok_def wf_dict_def)
  then have "distinct (map (key_ID \<circ> (kr_info \<circ> snd)) (ur_keys user))" by (simp only: user_key_IDs [OF i Some])
  then show ?thesis using Some by (simp add: user_keys_def map_sort_key)
qed (simp add: user_keys_def)

lemma RevokeKey_user_keys:
  assumes "mem_inv s" and "k \<in> set (user_keys s u)"
  shows "\<exists>U. mem_RevokeKey f u (key_ID k) s = (Ok (), s\<lparr>mem_users := U\<rparr>) \<and> user_names (s\<lparr>mem_users := U\<rparr>) = user_names s \<and>
    user_keys (s\<lparr>mem_users := U\<rparr>) =
      (\<lambda>v. if v = u then filter (\<lambda>i. key_ID i \<noteq> key_ID k) (user_keys s u) else user_keys s v)"
proof -
  from assms(2) obtain user where u: "dget (mem_users s) u = Some user"
    by (cases "dget (mem_users s) u") (simp_all add: user_keys_def)
  from assms(2) u obtain e where e: "e \<in> set (ur_keys user)" "k = kr_info (snd e)" by (auto simp: user_keys_def)
  have "fst e = key_ID k" using user_entry [OF assms(1) u e(1)] e(2) by simp
  moreover have "wf_dict (ur_keys user)" using assms(1) u by (auto simp: mem_inv_def users_ok_def)
  ultimately have has: "dhas (ur_keys user) (key_ID k)" using e(1) by (metis dget_Some_iff dhas_iff prod.collapse)
  let ?user = "user\<lparr>ur_keys := ddel (key_ID k) (ur_keys user)\<rparr>"
  let ?U = "dset u ?user (mem_users s)"
  have "map fst ?U = map fst (mem_users s)"
    using u by (simp add: dset_def AList.update_keys dget_def) (metis image_eqI fst_conv map_of_SomeD)
  moreover have "map (kr_info \<circ> snd) (ddel (key_ID k) (ur_keys user)) =
      filter (\<lambda>i. key_ID i \<noteq> key_ID k) (map (kr_info \<circ> snd) (ur_keys user))"
    using user_entry [OF assms(1) u] by (auto simp: ddel_def AList.delete_eq filter_map intro!: arg_cong [of _ _ "map _"] filter_cong)
  ultimately show ?thesis
    using u has by (intro exI [of _ ?U]) (auto simp: mem_RevokeKey_def user_names_def user_keys_def dict_simps filter_sort fun_eq_iff)
qed

interpretation mem_keys: key_admin "memory_backend cr" "key_inv s0" user_names user_keys for cr s0
proof (unfold_locales, goal_cases)
  case (1 s u l off f)
  then obtain user where "dget (mem_users s) u = Some user" by (auto simp: user_names_iff dhas_iff)
  then show ?case using 1 by (simp add: mem_ListKeys_def user_keys_def paginate_window)
next
  case (2 s u)
  then show ?case by (simp add: key_inv_def user_keys_distinct)
next
  case (3 s u k f)
  from 3(1) have i: "mem_inv s" by (simp add: key_inv_def)
  from RevokeKey_user_keys [OF i 3(3), of f] obtain U where
    r: "mem_RevokeKey f u (key_ID k) s = (Ok (), s\<lparr>mem_users := U\<rparr>)" and "user_names (s\<lparr>mem_users := U\<rparr>) = user_names s"
    and "user_keys (s\<lparr>mem_users := U\<rparr>) = (\<lambda>v. if v = u then filter (\<lambda>i. key_ID i \<noteq> key_ID k) (user_keys s u) else user_keys s v)"
    by blast
  moreover have "key_inv s0 (s\<lparr>mem_users := U\<rparr>)"
    using inv_RevokeKey [OF i, of f u "key_ID k"] r 3(1) by (auto simp: key_inv_def)
  ultimately show ?case by simp
next
  case (4 s l off)
  have names: "map ui_Username (listing ui_Username (\<lambda>(n, u). Some (toSpec u n)) (mem_users s)) = user_names s"
    by (simp add: listing_def map_sort_key user_names_def List.map_filter_def case_prod_beta toSpec_def comp_def)
  have "length (listing ui_Username (\<lambda>(n, u). Some (toSpec u n)) (mem_users s)) = length (user_names s)"
    using arg_cong [OF names, of length] by (simp only: length_map)
  then show ?case
    using 4 names by (simp add: mem_ListUsers_def paginate_window page_window_map)
qed

section \<open>The property\<close>

text \<open>
  C14. The cleanup of expired keys ends and is exact. On a reachable state of the in-memory backend with well-formed user
  names, and with normalised limits, \<^verbatim>\<open>CleanupExpiredAPIKeys\<close> always returns, whenever its context is cancelled. Without a
  cancellation it succeeds; when it succeeds every user has exactly the keys that are still valid, in the same order, although
  the keys are revoked while the pages are read; the only error is that of the cancelled context, and then
  too only keys that are not valid are gone. Nothing but accounts changes.
\<close>

theorem cleanup_complete:
  assumes "sv_backend sv = memory_backend cr" and "\<not> AnonymousMode sv" and "limits sv = WithValidValues lim" and "reachable s"
    and "\<forall>u. dhas (mem_users s) u \<longrightarrow> id_match u"
    and "int (length (mem_users s)) + InternalPageLimit (limits sv) \<le> max_int"
    and "\<forall>u. int (length (user_keys s u)) + InternalPageLimit (limits sv) \<le> max_int"
  shows "\<exists>r U. CleanupExpiredAPIKeys sv ctx now s = Some (r, s\<lparr>mem_users := U\<rparr>) \<and> mem_inv (s\<lparr>mem_users := U\<rparr>) \<and>
    r \<in> {Ok (), Err errContextCancelled} \<and> (ctx = None \<longrightarrow> r = Ok ()) \<and>
    (r = Ok () \<longrightarrow> (\<forall>u. user_keys (s\<lparr>mem_users := U\<rparr>) u = filter (\<lambda>k. APIKeyInfo_Valid k now) (user_keys s u))) \<and>
    (\<forall>u. \<exists>P. user_keys (s\<lparr>mem_users := U\<rparr>) u = filter P (user_keys s u) \<and>
       (\<forall>k \<in> set (user_keys s u). APIKeyInfo_Valid k now \<longrightarrow> P k))"
proof -
  have "0 < InternalPageLimit (limits sv)" using assms(3) by (auto simp: InternalPageLimit_def WithValidValues_def)
  moreover have "key_inv s s" using reachable_inv [OF assms(4)] by (auto simp: key_inv_def intro: exI [of _ "mem_users s"])
  moreover have "mem_keys.small (InternalPageLimit (limits sv)) s"
    using assms(6,7) by (simp add: mem_keys.small_def user_names_def)
  moreover have "\<forall>u \<in> set (user_names s). id_match u" using assms(5) by (simp add: user_names_iff)
  ultimately obtain r s' where c: "CleanupExpiredAPIKeys sv ctx now s = Some (r, s')"
    and fin: "mem_keys.finished s now ctx s r s' (\<lambda>_. mem_keys.cleaned_all s now s (set (user_names s)) s')"
    using mem_keys.cleanup_ok [OF assms(1,2), of s s ctx now] by blast
  from fin have p: "mem_keys.pruned s now s s'" by (simp add: mem_keys.finished_def)
  then obtain U where s': "s' = s\<lparr>mem_users := U\<rparr>" "mem_inv s'" by (auto simp: mem_keys.pruned_def key_inv_def)
  have "user_keys s' u = filter (\<lambda>k. APIKeyInfo_Valid k now) (user_keys s u)"
    if "mem_keys.cleaned_all s now s (set (user_names s)) s'" for u
    using that by (cases "dget (mem_users s) u") (auto simp: mem_keys.cleaned_all_def user_names_iff dhas_def user_keys_def)
  moreover have "\<forall>u. \<exists>P. user_keys s' u = filter P (user_keys s u) \<and> (\<forall>k \<in> set (user_keys s u). APIKeyInfo_Valid k now \<longrightarrow> P k)"
    using p by (simp add: mem_keys.pruned_def)
  ultimately show ?thesis using c s' fin unfolding mem_keys.finished_def by (intro exI [of _ r] exI [of _ U]) auto
qed

definition demo_keyed :: memory where
  "demo_keyed = snd (mem_CreateKey demo_crypto key_Default ''alice'' ''k1'' ''0123456789abcdef0123456789abcdef'' demo_key_req 8 demo1)"

lemma demo_keyed_eq:
  "\<exists>rec. demo_keyed = demo1\<lparr>mem_users := [(''alice'', \<lparr>ur_superuser = False, ur_passwordHash = [], ur_keys = [(''k1'', rec)]\<rparr>)]\<rparr> \<and>
     key_ExpiresAt (kr_info rec) = Some 50"
proof -
  have "\<exists>p q. splitKey key_Default ''0123456789abcdef0123456789abcdef'' = Ok (p, q)"
    by (simp add: splitKey_Ok key_Default_def Key_Validate_def validateKey_def CharacterSet_Validate_def
        alphabets_def Alphabet_def)
  then obtain hashed where "Key_Hash (cr_sha256 demo_crypto) key_Default ''0123456789abcdef0123456789abcdef'' = Ok hashed"
    by (auto simp: Key_Hash_def)
  then show ?thesis
    by (simp add: demo_keyed_def mem_CreateKey_def demo1_eq dget_def dhas_def all_keys_def dset_def demo_key_req_def Let_def)
qed

theorem cleanup_complete_witness:
  "length (user_keys demo_keyed ''alice'') = 1 \<and>
   (\<exists>s'. CleanupExpiredAPIKeys demo_sv None 60 demo_keyed = Some (Ok (), s') \<and> user_keys s' ''alice'' = [])"
proof -
  from demo_keyed_eq obtain rec where
    d: "demo_keyed = demo1\<lparr>mem_users := [(''alice'', \<lparr>ur_superuser = False, ur_passwordHash = [], ur_keys = [(''k1'', rec)]\<rparr>)]\<rparr>"
    and e: "key_ExpiresAt (kr_info rec) = Some 50" by blast
  have k: "user_keys demo_keyed u = (if u = ''alice'' then [kr_info rec] else [])" for u
    by (simp add: user_keys_def d dget_def)
  have "reachable demo_keyed" unfolding demo_keyed_def by (rule reach_step [OF demo_reachable(2) step_CreateKey])
  moreover have "\<forall>u. dhas (mem_users demo_keyed) u \<longrightarrow> id_match u"
    by (simp add: d dhas_def dget_def id_match_def id_chars_def)
  moreover have "limits demo_sv = WithValidValues (DefaultLimits\<lparr>lim_MaxPIDAttempts := 2, lim_MaxNamespaceIDAttempts := 2, lim_MaxAPIKeyAttempts := 2\<rparr>)"
    by (simp add: demo_sv_def Service_New_def withValidValues_def)
  moreover have "int (length (mem_users demo_keyed)) + InternalPageLimit (limits demo_sv) \<le> max_int"
    "\<forall>u. int (length (user_keys demo_keyed u)) + InternalPageLimit (limits demo_sv) \<le> max_int"
    by (simp_all add: k max_int_def) (simp add: d)
  ultimately have "\<exists>U. CleanupExpiredAPIKeys demo_sv None 60 demo_keyed = Some (Ok (), demo_keyed\<lparr>mem_users := U\<rparr>) \<and>
    (\<forall>u. user_keys (demo_keyed\<lparr>mem_users := U\<rparr>) u = filter (\<lambda>k. APIKeyInfo_Valid k 60) (user_keys demo_keyed u))"
    using cleanup_complete [OF demo_sv_simps(1) demo_sv_simps(8), of _ demo_keyed None 60] by blast
  then show ?thesis by (auto simp: k APIKeyInfo_Valid_def e time_IsZero_def time_After_def)
qed

end
