(* ===== verification/Background.thy ===== *)
theory Background
  imports Server Cleanup
begin

text \<open>
  The background job of the server (\<^verbatim>\<open>server/background.go\<close>): a goroutine that is started at most once, runs the cleanup of
  expired keys at once and at every tick, and ends when it is cancelled. The goroutine, the callers and all other
  activity on the store interleave; \<open>bg_step\<close> is one step of any of them. The select statement may choose the tick although the
  context is cancelled, so both steps are possible then.
\<close>

section \<open>The operations\<close>

text \<open>Where the goroutine is: not started, before its first instruction, at the select statement, or returned.\<close>

datatype goroutine = NotStarted | AtStart | AtSelect | Returned

text \<open>\<open>bg_runs\<close> counts the calls of \<^verbatim>\<open>doCron\<close> and \<open>bg_store\<close> is the state behind the service.\<close>

record 's background =
  bg_createdViaNew :: bool
  bg_backgroundStart :: bool
  bg_cancelled :: bool
  bg_backgroundDone :: bool
  bg_goroutine :: goroutine
  bg_store :: 's
  bg_runs :: nat

definition new_background :: "'s \<Rightarrow> 's background" where
  "new_background s = \<lparr>bg_createdViaNew = True, bg_backgroundStart = False, bg_cancelled = False, bg_backgroundDone = False,
     bg_goroutine = NotStarted, bg_store = s, bg_runs = 0\<rparr>"

definition startBackground :: "'s background \<Rightarrow> 's background" where
  "startBackground st = st\<lparr>bg_backgroundDone := False, bg_cancelled := False, bg_goroutine := AtStart\<rparr>"

text \<open>\<^verbatim>\<open>sync.Once\<close> runs its function on the first call only.\<close>

definition StartBackground :: "'s background \<Rightarrow> (gerr, unit) res \<times> 's background" where
  "StartBackground st =
     (if \<not> bg_createdViaNew st then (Panic, st)
      else (Ok (), if bg_backgroundStart st then st else startBackground (st\<lparr>bg_backgroundStart := True\<rparr>)))"

text \<open>
  \<^verbatim>\<open>stopBackground\<close> cancels, and then waits: it can return without an error once the channel \<^verbatim>\<open>backgroundDone\<close> is closed, and with
  an error once its own context is done.
\<close>

definition stop_cancel :: "'s background \<Rightarrow> 's background" where
  "stop_cancel st = st\<lparr>bg_cancelled := True\<rparr>"

definition stop_returns :: "bool \<Rightarrow> 's background \<Rightarrow> gerr option \<Rightarrow> bool" where
  "stop_returns ctx_done st result \<longleftrightarrow>
     result = None \<and> bg_backgroundDone st \<or> result = Some (Fmt [Sentinel (Named ''ctx.Err'')]) \<and> ctx_done"

text \<open>
  \<^verbatim>\<open>doCron\<close> only logs an error; \<open>None\<close> is a cleanup that does not return, because it runs on or because it panics, which ends the process.
  A cleanup is one step; what other activity does to the store comes before or after it. Its context is that of the goroutine: cancelled
  from the start, or at some poll during the run, or not at all.
\<close>

definition doCron :: "'s Service \<Rightarrow> go_context \<Rightarrow> time \<Rightarrow> 's background \<Rightarrow> 's background option" where
  "doCron sv ctx now st =
     (case CleanupExpiredAPIKeys sv ctx now (bg_store st) of
        None \<Rightarrow> None
      | Some (Panic, s') \<Rightarrow> None
      | Some (result, s') \<Rightarrow> Some (st\<lparr>bg_store := s', bg_runs := bg_runs st + 1, bg_cancelled := bg_cancelled st \<or> ctx \<noteq> None\<rparr>))"

definition ctx_of :: "'s background \<Rightarrow> go_context \<Rightarrow> bool" where
  "ctx_of st ctx \<longleftrightarrow> (bg_cancelled st \<longrightarrow> ctx = Some 0)"

text \<open>The end of the goroutine, with its deferred close of the channel.\<close>

definition goroutine_returns :: "'s background \<Rightarrow> 's background" where
  "goroutine_returns st = st\<lparr>bg_goroutine := Returned, bg_backgroundDone := True\<rparr>"

text \<open>\<^verbatim>\<open>doBackground\<close> up to the loop, and the two branches of the select statement in the loop.\<close>

definition doBackground_start :: "'s Server \<Rightarrow> go_context \<Rightarrow> time \<Rightarrow> 's background \<Rightarrow> 's background option" where
  "doBackground_start h ctx now st =
     (if so_BackgroundInterval (hs_ops h) \<le> 0 then Some (goroutine_returns st)
      else map_option (\<lambda>st'. st'\<lparr>bg_goroutine := AtSelect\<rparr>) (doCron (hs_svc h) ctx now st))"

definition doBackground_tick :: "'s Server \<Rightarrow> go_context \<Rightarrow> time \<Rightarrow> 's background \<Rightarrow> 's background option" where
  "doBackground_tick h ctx now st = doCron (hs_svc h) ctx now st"

definition doBackground_done :: "'s background \<Rightarrow> 's background" where
  "doBackground_done st = goroutine_returns st"

section \<open>Interleavings\<close>

inductive bg_step :: "'s Server \<Rightarrow> ('s \<Rightarrow> 's \<Rightarrow> bool) \<Rightarrow> 's background \<Rightarrow> 's background \<Rightarrow> bool" for h other where
  bg_Start: "StartBackground st = (Ok (), st') \<Longrightarrow> bg_step h other st st'"
| bg_Stop: "bg_backgroundStart st \<Longrightarrow> bg_step h other st (stop_cancel st)"
| bg_Begin: "bg_goroutine st = AtStart \<Longrightarrow> ctx_of st ctx \<Longrightarrow> doBackground_start h ctx now st = Some st' \<Longrightarrow> bg_step h other st st'"
| bg_Tick: "bg_goroutine st = AtSelect \<Longrightarrow> ctx_of st ctx \<Longrightarrow> doBackground_tick h ctx now st = Some st' \<Longrightarrow> bg_step h other st st'"
| bg_Done: "bg_goroutine st = AtSelect \<Longrightarrow> bg_cancelled st \<Longrightarrow> bg_step h other st (doBackground_done st)"
| bg_Other: "other (bg_store st) s' \<Longrightarrow> bg_step h other st (st\<lparr>bg_store := s'\<rparr>)"

lemmas bg_defs = StartBackground_def startBackground_def stop_cancel_def doCron_def goroutine_returns_def doBackground_start_def
  doBackground_tick_def doBackground_done_def

text \<open>The invariant of the reachable states.\<close>

definition bg_inv :: "int \<Rightarrow> 's background \<Rightarrow> bool" where
  "bg_inv interval st \<longleftrightarrow> bg_createdViaNew st \<and>
     (case bg_goroutine st of
        NotStarted \<Rightarrow> \<not> bg_backgroundStart st \<and> \<not> bg_backgroundDone st \<and> \<not> bg_cancelled st \<and> bg_runs st = 0
      | AtStart \<Rightarrow> bg_backgroundStart st \<and> \<not> bg_backgroundDone st \<and> bg_runs st = 0
      | AtSelect \<Rightarrow> bg_backgroundStart st \<and> \<not> bg_backgroundDone st \<and> 0 < interval \<and> 0 < bg_runs st
      | Returned \<Rightarrow> bg_backgroundStart st \<and> bg_backgroundDone st \<and>
          (if interval \<le> 0 then bg_runs st = 0 else 0 < bg_runs st \<and> bg_cancelled st))"

lemma bg_inv_step:
  assumes "bg_step h other st st'" and "bg_inv (so_BackgroundInterval (hs_ops h)) st"
  shows "bg_inv (so_BackgroundInterval (hs_ops h)) st'"
  using assms
proof (induction rule: bg_step.induct)
  case (bg_Start st st')
  then show ?case by (cases "bg_goroutine st") (auto simp: bg_inv_def bg_defs split: if_splits)
next
  case (bg_Stop st)
  then show ?case by (cases "bg_goroutine st") (auto simp: bg_inv_def bg_defs)
next
  case (bg_Other st s')
  then show ?case by (cases "bg_goroutine st") (auto simp: bg_inv_def)
qed (auto simp: bg_inv_def bg_defs split: if_splits option.splits res.splits)

lemma bg_inv_reachable:
  "(bg_step h other)\<^sup>*\<^sup>* (new_background s) st \<Longrightarrow> bg_inv (so_BackgroundInterval (hs_ops h)) st"
  by (induction rule: rtranclp_induct) (simp add: bg_inv_def new_background_def, erule bg_inv_step)

text \<open>Once the goroutine has returned only others change the store.\<close>

lemma bg_done_step:
  assumes "bg_step h other st st'" and "bg_backgroundDone st" and "bg_inv i st"
  shows "bg_backgroundDone st' \<and> bg_runs st' = bg_runs st \<and> other\<^sup>=\<^sup>= (bg_store st) (bg_store st')"
proof -
  have r: "bg_goroutine st = Returned" "bg_backgroundStart st"
    using assms(2,3) by (cases "bg_goroutine st"; simp add: bg_inv_def)+
  from assms(1) show ?thesis
    by (cases rule: bg_step.cases) (use r assms(2) in \<open>auto simp: bg_defs split: if_splits\<close>)
qed

lemma bg_done_steps:
  assumes "(bg_step h other)\<^sup>*\<^sup>* st st'" and "bg_backgroundDone st" and "bg_inv (so_BackgroundInterval (hs_ops h)) st"
  shows "bg_backgroundDone st' \<and> bg_inv (so_BackgroundInterval (hs_ops h)) st' \<and> bg_runs st' = bg_runs st \<and>
    other\<^sup>*\<^sup>* (bg_store st) (bg_store st')"
  using assms
proof (induction rule: rtranclp_induct)
  case (step y z)
  then have y: "bg_backgroundDone y" "bg_inv (so_BackgroundInterval (hs_ops h)) y" by simp_all
  from bg_done_step [OF step(2) y] bg_inv_step [OF step(2) y(2)] step show ?case
    by (auto intro: rtranclp.rtrancl_into_rtrancl)
qed simp

section \<open>The property\<close>

text \<open>
  C22. The background job starts once and stops for good. In every interleaving with callers and other activity: starting
  it again has no effect; with no positive interval it never runs the cleanup; otherwise it does not end before the cleanup
  ran at least once and somebody asked it to stop; if the stop function returns without an error, then no cleanup
  runs afterwards and the store is changed by others only; and a job that waits and was asked to stop can end.
\<close>

theorem background_lifecycle:
  assumes "(bg_step h other)\<^sup>*\<^sup>* (new_background s) st"
  shows "(bg_backgroundStart st \<longrightarrow> StartBackground st = (Ok (), st)) \<and>
    (so_BackgroundInterval (hs_ops h) \<le> 0 \<longrightarrow> bg_runs st = 0) \<and>
    (bg_backgroundDone st \<longrightarrow> so_BackgroundInterval (hs_ops h) \<le> 0 \<or> 0 < bg_runs st \<and> bg_cancelled st) \<and>
    (\<forall>ctx_done st'. stop_returns ctx_done st None \<and> (bg_step h other)\<^sup>*\<^sup>* st st' \<longrightarrow>
       bg_runs st' = bg_runs st \<and> other\<^sup>*\<^sup>* (bg_store st) (bg_store st')) \<and>
    (bg_goroutine st = AtSelect \<and> bg_cancelled st \<longrightarrow> (\<exists>st'. bg_step h other st st' \<and> stop_returns False st' None))"
proof -
  note i = bg_inv_reachable [OF assms]
  have "\<exists>st'. bg_step h other st st' \<and> stop_returns False st' None" if "bg_goroutine st = AtSelect" "bg_cancelled st"
    using bg_Done [OF that, of h other] by (auto simp: stop_returns_def bg_defs)
  moreover have "bg_runs st' = bg_runs st \<and> other\<^sup>*\<^sup>* (bg_store st) (bg_store st')"
    if "stop_returns ctx_done st None" "(bg_step h other)\<^sup>*\<^sup>* st st'" for ctx_done st'
    using bg_done_steps [OF that(2) _ i] that(1) by (simp add: stop_returns_def)
  moreover have "bg_backgroundStart st \<longrightarrow> StartBackground st = (Ok (), st)" using i by (simp add: bg_inv_def StartBackground_def)
  moreover have "so_BackgroundInterval (hs_ops h) \<le> 0 \<longrightarrow> bg_runs st = 0"
    "bg_backgroundDone st \<longrightarrow> so_BackgroundInterval (hs_ops h) \<le> 0 \<or> 0 < bg_runs st \<and> bg_cancelled st"
    using i by (cases "bg_goroutine st"; simp add: bg_inv_def split: if_splits)+
  ultimately show ?thesis by blast
qed

text \<open>A run over the in-memory backend: start, first cleanup, stop, end.\<close>

definition demo_job :: "memory Server" where
  "demo_job = NewServer
     \<lparr>so_MountPath = ''/api'', so_DisableSwaggerUI = True, so_Limits = DefaultLimits, so_InfoEnabled = False, so_Anonymous = False,
      so_Meta = \<lparr>meta_About = [], meta_Comment = [], meta_Software = ''quickpid'', meta_Version = ''1''\<rparr>,
      so_BackgroundInterval = 60\<rparr> demo_sv"

definition demo_ended :: "memory background" where
  "demo_ended = (new_background NewMemoryBackend)\<lparr>bg_backgroundStart := True, bg_cancelled := True, bg_backgroundDone := True,
     bg_goroutine := Returned, bg_runs := 1\<rparr>"

lemma demo_ended_reachable: "(bg_step demo_job mem_step)\<^sup>*\<^sup>* (new_background NewMemoryBackend) demo_ended"
proof -
  let ?s0 = "new_background NewMemoryBackend"
  let ?s1 = "?s0\<lparr>bg_backgroundStart := True, bg_goroutine := AtStart\<rparr>"
  let ?s2 = "?s1\<lparr>bg_goroutine := AtSelect, bg_runs := 1\<rparr>"
  have job: "hs_svc demo_job = demo_sv" "so_BackgroundInterval (hs_ops demo_job) = 60"
    by (simp_all add: demo_job_def NewServer_def server_withValidValues_def)
  have "CleanupExpiredAPIKeys demo_sv None 0 NewMemoryBackend = Some (Ok (), NewMemoryBackend)"
    by (simp add: CleanupExpiredAPIKeys_def cleanup_pages.simps ctx_Err_def mem_ListUsers_def NewMemoryBackend_def listing_def
        List.map_filter_def paginate_def go_slice_def wrap_int_def)
  then have "bg_step demo_job mem_step ?s1 ?s2"
    by (intro bg_Begin [where ctx = None and now = 0]) (simp_all add: ctx_of_def doBackground_start_def job doCron_def new_background_def)
  moreover have "bg_step demo_job mem_step ?s0 ?s1"
    by (rule bg_Start) (simp add: bg_defs new_background_def)
  moreover have "bg_step demo_job mem_step ?s2 (stop_cancel ?s2)" by (rule bg_Stop) simp
  moreover have "bg_step demo_job mem_step (stop_cancel ?s2) (doBackground_done (stop_cancel ?s2))"
    by (rule bg_Done) (simp_all add: stop_cancel_def)
  moreover have "doBackground_done (stop_cancel ?s2) = demo_ended"
    by (simp add: bg_defs demo_ended_def new_background_def)
  ultimately show ?thesis by (metis converse_rtranclp_into_rtranclp rtranclp.rtrancl_refl)
qed

theorem background_lifecycle_witness:
  "0 < bg_runs demo_ended \<and> stop_returns False demo_ended None \<and>
   \<not> (\<exists>st'. (bg_step demo_job mem_step)\<^sup>*\<^sup>* demo_ended st' \<and> bg_runs st' \<noteq> 1)"
proof -
  have "stop_returns False demo_ended None" "bg_runs demo_ended = 1" by (simp_all add: stop_returns_def demo_ended_def)
  with background_lifecycle [OF demo_ended_reachable] show ?thesis by auto
qed

end
