(* ===== verification/Sql_Rows.thy ===== *)
theory Sql_Rows
  imports Backend
begin

text \<open>
  The rows of the SQL backend (\<^verbatim>\<open>backend/gorm\<close>): one record per struct, with the associated rows that the
  library loads into a struct, and the conversions between rows and the types of the API. The fields that only tell the library about an
  association (keys of a user, roles, mounts and resources of a namespace) are left out. A time stamp is an instant.
\<close>

section \<open>Users (gorm_user.go)\<close>

record userPasswordRow =
  pw_Username :: string
  pw_Hash :: "byte list"

record userRow =
  u_Username :: string
  u_Superuser :: bool
  u_Password :: "userPasswordRow option"

definition userRow_toSpec :: "userRow \<Rightarrow> UserInfo" where
  "userRow_toSpec u =
     \<lparr>ui_Username = u_Username u, ui_Superuser = u_Superuser u,
      ui_Password = nonnil (u_Password u) (\<lambda>p. 0 < length (pw_Hash p))\<rparr>"

section \<open>API keys (gorm_credentials.go)\<close>

record apiKeyUserScopeRow =
  us_Username :: string
  us_KeyID :: string
  us_Pos :: int
  us_Scope :: UserScope

record apiKeyNamespaceScopeRow =
  nss_Username :: string
  nss_KeyID :: string
  nss_Pos :: int
  nss_NamespaceID :: string
  nss_Scope :: NamespaceScope

record apiKeyRow =
  ak_Username :: string
  ak_KeyID :: string
  ak_Comment :: string
  ak_DateCreated :: time
  ak_ExpiresAt :: "time option"
  ak_Prefix :: string
  ak_Digest :: "byte list"
  ak_UserScopeRows :: "apiKeyUserScopeRow list"
  ak_NamespaceScopeRows :: "apiKeyNamespaceScopeRow list"

text \<open>The loops that number the rows of a slice.\<close>

definition userScopeRowsFor :: "string \<Rightarrow> string \<Rightarrow> UserScope list \<Rightarrow> apiKeyUserScopeRow list" where
  "userScopeRowsFor username keyID scopes =
     map (\<lambda>(i, scope). \<lparr>us_Username = username, us_KeyID = keyID, us_Pos = int i, us_Scope = scope\<rparr>) (enumerate 0 scopes)"

definition namespaceScopeRowsFor :: "string \<Rightarrow> string \<Rightarrow> APIKeyNamespaceScope list \<Rightarrow> apiKeyNamespaceScopeRow list" where
  "namespaceScopeRowsFor username keyID scopes =
     map (\<lambda>(i, grant). \<lparr>nss_Username = username, nss_KeyID = keyID, nss_Pos = int i, nss_NamespaceID = kns_Namespace grant,
        nss_Scope = kns_Scope grant\<rparr>) (enumerate 0 scopes)"

definition userScopesFromRows :: "apiKeyUserScopeRow list \<Rightarrow> UserScope list" where
  "userScopesFromRows rows = map us_Scope rows"

definition namespaceScopesFromRows :: "apiKeyNamespaceScopeRow list \<Rightarrow> APIKeyNamespaceScope list" where
  "namespaceScopesFromRows rows = map (\<lambda>r. \<lparr>kns_Namespace = nss_NamespaceID r, kns_Scope = nss_Scope r\<rparr>) rows"

definition apiKeyRow_toSpec :: "apiKeyRow \<Rightarrow> APIKeyInfo" where
  "apiKeyRow_toSpec k =
     \<lparr>key_ID = ak_KeyID k, key_Comment = ak_Comment k, key_CreatedAt = ak_DateCreated k, key_ExpiresAt = ak_ExpiresAt k,
      key_UserScopes = userScopesFromRows (ak_UserScopeRows k),
      key_NamespaceScopes = namespaceScopesFromRows (ak_NamespaceScopeRows k)\<rparr>"

section \<open>Namespaces (gorm_namespaces.go)\<close>

record namespaceTagRow =
  nt_NamespaceID :: string
  nt_Pos :: int
  nt_Tag :: string

record namespaceRow =
  ns_ID :: string
  ns_DateCreated :: time
  ns_DateUpdated :: time
  ns_PIDPattern :: string
  ns_PIDChars :: string
  ns_TagRows :: "namespaceTagRow list"

definition namespaceTagRowsFor :: "string \<Rightarrow> string list \<Rightarrow> namespaceTagRow list" where
  "namespaceTagRowsFor namespaceID tags =
     map (\<lambda>(i, tag). \<lparr>nt_NamespaceID = namespaceID, nt_Pos = int i, nt_Tag = tag\<rparr>) (enumerate 0 tags)"

definition namespaceTagsFromRows :: "namespaceTagRow list \<Rightarrow> string list" where
  "namespaceTagsFromRows rows = map nt_Tag rows"

definition namespaceRow_toSpec :: "namespaceRow \<Rightarrow> NamespaceResponse" where
  "namespaceRow_toSpec n =
     \<lparr>nr_ID = ns_ID n, nr_Tags = namespaceTagsFromRows (ns_TagRows n),
      nr_PIDFormat = \<lparr>fmt_Pattern = ns_PIDPattern n, fmt_Characters = ns_PIDChars n\<rparr>,
      nr_DateCreated = ns_DateCreated n, nr_DateUpdated = ns_DateUpdated n\<rparr>"

section \<open>Resources (gorm_resources.go)\<close>

record resourceTagRow =
  rt_NamespaceID :: string
  rt_PID :: string
  rt_Pos :: int
  rt_Tag :: string

record resourceRow =
  rs_NamespaceID :: string
  rs_PID :: string
  rs_URL :: "string option"
  rs_Metadata :: "string option"
  rs_DateCreated :: time
  rs_DateUpdated :: time
  rs_Deleted :: bool
  rs_TagRows :: "resourceTagRow list"

definition resourceTagRowsFor :: "string \<Rightarrow> string \<Rightarrow> string list \<Rightarrow> resourceTagRow list" where
  "resourceTagRowsFor namespaceID pid tags =
     map (\<lambda>(i, tag). \<lparr>rt_NamespaceID = namespaceID, rt_PID = pid, rt_Pos = int i, rt_Tag = tag\<rparr>) (enumerate 0 tags)"

definition resourceTagsFromRows :: "resourceTagRow list \<Rightarrow> string list" where
  "resourceTagsFromRows rows = map rt_Tag rows"

definition resourceRow_toSpec :: "resourceRow \<Rightarrow> ResourceResponse" where
  "resourceRow_toSpec r =
     \<lparr>rr_PID = rs_PID r, rr_URL = rs_URL r, rr_Metadata = rs_Metadata r, rr_DateCreated = rfc3339 (rs_DateCreated r),
      rr_DateUpdated = rfc3339 (rs_DateUpdated r), rr_Tags = resourceTagsFromRows (rs_TagRows r), rr_Deleted = rs_Deleted r\<rparr>"

section \<open>Roles, mounts and grants (gorm_roles.go, gorm_mounts.go, gorm_mount_grants.go)\<close>

record namespaceRoleRow =
  ro_NamespaceID :: string
  ro_Username :: string
  ro_Role :: Role

definition namespaceRoleRow_toSpec :: "namespaceRoleRow \<Rightarrow> NamespaceRole" where
  "namespaceRoleRow_toSpec p = \<lparr>nrl_Username = ro_Username p, nrl_Role = ro_Role p\<rparr>"

definition toUserRole :: "namespaceRoleRow \<Rightarrow> UserRole" where
  "toUserRole p = \<lparr>usr_Namespace = ro_NamespaceID p, usr_Role = ro_Role p\<rparr>"

record mountRow =
  mo_BaseURI :: string
  mo_NamespaceID :: string

record userMountGrantRow =
  mg_Username :: string
  mg_Pattern :: string

section \<open>Round trips\<close>

lemma sort_key_sorted: "sorted (map f xs) \<Longrightarrow> sort_key f xs = xs"
  by (induction xs) (auto simp: insort_is_Cons)

lemma sorted_positions: "sorted (map (\<lambda>x. int (fst x)) (enumerate n xs))"
  by (induction xs arbitrary: n) (auto simp: in_set_enumerate_eq)

text \<open>Numbered rows come back in their order.\<close>

lemma rows_in_order:
  "sort_key nt_Pos (namespaceTagRowsFor n tags) = namespaceTagRowsFor n tags"
  "sort_key rt_Pos (resourceTagRowsFor n p tags) = resourceTagRowsFor n p tags"
  "sort_key us_Pos (userScopeRowsFor u k us) = userScopeRowsFor u k us"
  "sort_key nss_Pos (namespaceScopeRowsFor u k nss) = namespaceScopeRowsFor u k nss"
  by (intro sort_key_sorted; simp add: namespaceTagRowsFor_def resourceTagRowsFor_def userScopeRowsFor_def
      namespaceScopeRowsFor_def case_prod_beta comp_def sorted_positions)+

lemma map_snd_enumerate': "map (\<lambda>x. f (snd x)) (enumerate n xs) = map f xs"
  by (metis (no_types, lifting) comp_apply map_map map_cong map_snd_enumerate)

lemma map_fst_enumerate': "map (\<lambda>x. f (fst x)) (enumerate 0 xs) = map f [0..<length xs]"
  using map_fst_enumerate [of 0 xs] by (metis (no_types, lifting) comp_apply map_map map_cong add_0)

lemma grant_eta: "\<lparr>kns_Namespace = kns_Namespace g, kns_Scope = kns_Scope g\<rparr> = g"
  by simp

lemma tags_roundtrip [simp]:
  "namespaceTagsFromRows (namespaceTagRowsFor n tags) = tags"
  "resourceTagsFromRows (resourceTagRowsFor n p tags) = tags"
  "userScopesFromRows (userScopeRowsFor u k us) = us"
  "namespaceScopesFromRows (namespaceScopeRowsFor u k nss) = nss"
  by (simp_all add: namespaceTagsFromRows_def namespaceTagRowsFor_def resourceTagsFromRows_def resourceTagRowsFor_def
      userScopesFromRows_def userScopeRowsFor_def namespaceScopesFromRows_def namespaceScopeRowsFor_def
      case_prod_beta comp_def map_snd_enumerate' [where f = "\<lambda>x. x", simplified]
      map_snd_enumerate' [where f = "\<lambda>x. \<lparr>kns_Namespace = kns_Namespace x, kns_Scope = kns_Scope x\<rparr>", simplified grant_eta] grant_eta)

end
