(* ===== verification/Sql_Backend.thy ===== *)
theory Sql_Backend
  imports Sql_Rows Memory
begin

text \<open>
  The operations of the SQL backend (\<^verbatim>\<open>backend/gorm\<close>). The GORM library and the database behind it are the argument \<open>G\<close>, a record of
  the calls that the package makes; \<open>'d\<close> is the state of a database connection. Every method runs one transaction. What the package
  relies on of the library is stated with the theory \<open>Sql_Laws\<close>.
\<close>

section \<open>The library\<close>

text \<open>
  The calls on one table. A condition is the predicate on rows that the text of a \<^verbatim>\<open>Where\<close> denotes; a subquery over an
  associated table is a predicate on the associated rows. An order is the list of its columns, ascending.
  \<^item> \<open>t_Count\<close>, \<open>t_First\<close>, \<open>t_Find\<close> read: the number of matching rows, one matching row, the matching rows in an order,
    with a limit and an offset; associations are preloaded.
  \<^item> \<open>t_Create\<close>, \<open>t_CreateInBatches\<close> insert rows with their associated rows, \<open>t_Save\<close> writes a row by its primary key without
    associations, \<open>t_Update\<close> changes a column of the matching rows, \<open>t_Delete\<close> deletes the matching rows and returns their number,
    \<open>t_DeleteAssociations\<close> deletes a row by its primary key together with its associations.
\<close>

record ('d, 'r) table =
  t_Count :: "('r \<Rightarrow> bool) \<Rightarrow> ('d, int) reading"
  t_First :: "('r \<Rightarrow> bool) \<Rightarrow> ('d, 'r) reading"
  t_Find :: "('r \<Rightarrow> bool) \<Rightarrow> ('r \<Rightarrow> string list) option \<Rightarrow> int \<Rightarrow> int \<Rightarrow> ('d, 'r list) reading"
  t_Create :: "'r list \<Rightarrow> ('d, unit) writing"
  t_CreateInBatches :: "'r list \<Rightarrow> int \<Rightarrow> ('d, unit) writing"
  t_Save :: "'r \<Rightarrow> ('d, unit) writing"
  t_Update :: "('r \<Rightarrow> bool) \<Rightarrow> ('r \<Rightarrow> 'r) \<Rightarrow> ('d, unit) writing"
  t_Delete :: "('r \<Rightarrow> bool) \<Rightarrow> ('d, int) writing"
  t_DeleteAssociations :: "'r \<Rightarrow> ('d, unit) writing"

text \<open>
  The tables, the three steps of \<^verbatim>\<open>db.Transaction\<close> (the second argument of a rollback is the state that is left), the operator
  \<^verbatim>\<open>LIKE\<close> (pattern and text), and the lower-case text of an error; and what depends on the database and its configuration: the
  collation by which \<^verbatim>\<open>ORDER BY\<close> compares texts, and the instants that a column for time stamps keeps exactly.
\<close>

record 'd gorm =
  g_users :: "('d, userRow) table"
  g_passwords :: "('d, userPasswordRow) table"
  g_keys :: "('d, apiKeyRow) table"
  g_namespaces :: "('d, namespaceRow) table"
  g_nstags :: "('d, namespaceTagRow) table"
  g_resources :: "('d, resourceRow) table"
  g_restags :: "('d, resourceTagRow) table"
  g_roles :: "('d, namespaceRoleRow) table"
  g_mounts :: "('d, mountRow) table"
  g_grants :: "('d, userMountGrantRow) table"
  g_Begin :: "'d \<Rightarrow> (gerr, 'd) res"
  g_Commit :: "'d \<Rightarrow> (gerr, 'd) res"
  g_Rollback :: "'d \<Rightarrow> 'd \<Rightarrow> 'd"
  g_Like :: "string \<Rightarrow> string \<Rightarrow> bool"
  g_Collate :: "string \<Rightarrow> string \<Rightarrow> bool"
  g_Keeps :: "time \<Rightarrow> bool"
  g_ErrorText :: "gerr \<Rightarrow> string"

definition ErrRecordNotFound :: sentinel where "ErrRecordNotFound = Named ''gorm.ErrRecordNotFound''"
definition ErrDuplicatedKey :: sentinel where "ErrDuplicatedKey = Named ''gorm.ErrDuplicatedKey''"

section \<open>Transactions (gorm.go)\<close>

definition tx_return :: "'a \<Rightarrow> ('d, 'a) writing" where
  "tx_return x d = (Ok x, d)"

definition tx_error :: "gerr \<Rightarrow> ('d, 'a) writing" where
  "tx_error e d = (Err e, d)"

definition tx_read :: "('d, 'a) reading \<Rightarrow> ('d, 'a) writing" where
  "tx_read f d = (f d, d)"

definition tx_bind :: "('d, 'a) writing \<Rightarrow> ('a \<Rightarrow> ('d, 'b) writing) \<Rightarrow> ('d, 'b) writing" where
  "tx_bind m f d = (case m d of (Ok x, d') \<Rightarrow> f x d' | (Err e, d') \<Rightarrow> (Err e, d') | (Panic, d') \<Rightarrow> (Panic, d'))"

text \<open>The treatment of an error: \<open>tx_catch\<close> replaces the errors that a test recognises.\<close>

definition tx_catch :: "('d, 'a) writing \<Rightarrow> (gerr \<Rightarrow> bool) \<Rightarrow> ('d, 'a) writing \<Rightarrow> ('d, 'a) writing" where
  "tx_catch m test handler d =
     (case m d of (Err e, d') \<Rightarrow> if test e then handler d' else (Err e, d') | (Ok x, d') \<Rightarrow> (Ok x, d') | (Panic, d') \<Rightarrow> (Panic, d'))"

definition withTx2 :: "'d gorm \<Rightarrow> ('d, 'v) writing \<Rightarrow> ('d, 'v) writing" where
  "withTx2 G fn d =
     (case g_Begin G d of
        Err e \<Rightarrow> (Err (Fmt [e]), d)
      | Panic \<Rightarrow> (Panic, d)
      | Ok tx \<Rightarrow>
          (case fn tx of
             (Err e, d') \<Rightarrow> (Err (Fmt [e]), g_Rollback G d d')
           | (Panic, d') \<Rightarrow> (Panic, g_Rollback G d d')
           | (Ok v, d') \<Rightarrow>
               (case g_Commit G d' of
                  Err e \<Rightarrow> (Err (Fmt [e]), g_Rollback G d d')
                | Panic \<Rightarrow> (Panic, g_Rollback G d d')
                | Ok d'' \<Rightarrow> (Ok v, d''))))"

definition withTx :: "'d gorm \<Rightarrow> ('d, 'v) writing \<Rightarrow> ('d, 'v) writing" where
  "withTx G fn d = withTx2 G fn d"

definition cascadingDelete :: "('d, 'r) table \<Rightarrow> 'r \<Rightarrow> ('d, unit) writing" where
  "cascadingDelete T value = t_DeleteAssociations T value"

definition strings_Contains :: "string \<Rightarrow> string \<Rightarrow> bool" where
  "strings_Contains s sub \<longleftrightarrow> list_ex (\<lambda>i. take (length sub) (drop i s) = sub) [0..<Suc (length s)]"

definition isUniqueConstraintError :: "'d gorm \<Rightarrow> gerr \<Rightarrow> bool" where
  "isUniqueConstraintError G err \<longleftrightarrow>
     (if errors_is err ErrDuplicatedKey then True
      else let msg = g_ErrorText G err in
        strings_Contains msg ''unique constraint failed'' \<or> strings_Contains msg ''duplicate'' \<or>
        strings_Contains msg ''duplicated'' \<or> strings_Contains msg ''unique constraint'')"

text \<open>\<^verbatim>\<open>errors.Is(err, gorm.ErrRecordNotFound)\<close> after a \<^verbatim>\<open>First\<close>.\<close>

definition record_not_found :: "gerr \<Rightarrow> bool" where
  "record_not_found e \<longleftrightarrow> errors_is e ErrRecordNotFound"

text \<open>
  The end of the listing methods: the number of rows, an empty page past the end (and, for some, for a limit of zero), or the
  converted rows.
\<close>

definition sql_page ::
  "('d, 'r) table \<Rightarrow> ('r \<Rightarrow> bool) \<Rightarrow> ('r \<Rightarrow> string list) \<Rightarrow> ('r \<Rightarrow> 'a) \<Rightarrow> bool \<Rightarrow> int \<Rightarrow> int \<Rightarrow> ('d, 'a page) writing" where
  "sql_page T cond order conv zeroIsEmpty limit offset =
     tx_bind (tx_read (t_Count T cond)) (\<lambda>total.
       if zeroIsEmpty \<and> limit = 0 \<or> total \<le> offset
       then tx_return \<lparr>pg_Total = total, pg_Offset = offset, pg_Items = []\<rparr>
       else tx_bind (tx_read (t_Find T cond (Some order) limit offset)) (\<lambda>rows.
         tx_return \<lparr>pg_Total = total, pg_Offset = offset, pg_Items = map conv rows\<rparr>))"

section \<open>Users (gorm_user.go)\<close>

definition ensureUserExists :: "'d gorm \<Rightarrow> string \<Rightarrow> ('d, unit) writing" where
  "ensureUserExists G user =
     tx_bind (tx_read (t_Count (g_users G) (\<lambda>r. u_Username r = user))) (\<lambda>n.
       if n = 0 then tx_error (Sentinel ErrUserNotFound) else tx_return ())"

definition findUser :: "'d gorm \<Rightarrow> string \<Rightarrow> ('d, userRow) writing" where
  "findUser G username =
     tx_catch (tx_read (t_First (g_users G) (\<lambda>r. u_Username r = username)))
       record_not_found (tx_error (Sentinel ErrUserNotFound))"

definition sql_CreateUser :: "'d gorm \<Rightarrow> UserCreateRequest \<Rightarrow> time \<Rightarrow> ('d, UserInfo) writing" where
  "sql_CreateUser G req now =
     withTx G (let row = \<lparr>u_Username = ucr_Username req, u_Superuser = ucr_Superuser req, u_Password = None\<rparr> in
       tx_bind (tx_catch (t_Create (g_users G) [row]) (isUniqueConstraintError G) (tx_error (Sentinel ErrDuplicateUsername)))
         (\<lambda>_. tx_return (userRow_toSpec row)))"

definition sql_GetUser :: "'d gorm \<Rightarrow> string \<Rightarrow> ('d, UserInfo) writing" where
  "sql_GetUser G username = withTx G (tx_bind (findUser G username) (\<lambda>row. tx_return (userRow_toSpec row)))"

definition sql_ListUsers :: "'d gorm \<Rightarrow> ListUsersParams \<Rightarrow> ('d, UserInfo page) writing" where
  "sql_ListUsers G params =
     withTx G (sql_page (g_users G)
       (\<lambda>r. \<not> nonnil (lup_Superuser params) (\<lambda>b. u_Superuser r \<noteq> b) \<and>
            \<not> nonnil (lup_Password params) (\<lambda>b. (u_Password r \<noteq> None) \<noteq> b))
       (\<lambda>r. [u_Username r]) userRow_toSpec False (lup_Limit params) (lup_Offset params))"

definition sql_AutocompleteUsers :: "'d gorm \<Rightarrow> string \<Rightarrow> int \<Rightarrow> ('d, string list) writing" where
  "sql_AutocompleteUsers G query limit =
     withTx G (tx_bind (tx_read (t_Find (g_users G) (\<lambda>r. g_Like G (query @ ''%'') (u_Username r)) (Some (\<lambda>r. [u_Username r])) limit 0))
       (\<lambda>rows. tx_return (map u_Username rows)))"

definition sql_DeleteUser :: "'d gorm \<Rightarrow> string \<Rightarrow> ('d, unit) writing" where
  "sql_DeleteUser G username =
     withTx G (
       tx_bind (ensureUserExists G username) (\<lambda>_.
       tx_bind (t_Delete (g_roles G) (\<lambda>r. ro_Username r = username)) (\<lambda>_.
       tx_bind (t_Delete (g_grants G) (\<lambda>r. mg_Username r = username)) (\<lambda>_.
         cascadingDelete (g_users G) \<lparr>u_Username = username, u_Superuser = False, u_Password = None\<rparr>))))"

definition sql_UpdateUser :: "'d gorm \<Rightarrow> string \<Rightarrow> bool option \<Rightarrow> ('d, UserInfo) writing" where
  "sql_UpdateUser G username superuser =
     withTx G (tx_bind (findUser G username) (\<lambda>row.
       case superuser of
         None \<Rightarrow> tx_return (userRow_toSpec row)
       | Some b \<Rightarrow>
           (let row = row\<lparr>u_Superuser := b\<rparr> in
            tx_bind (t_Update (g_users G) (\<lambda>r. u_Username r = username) (u_Superuser_update (\<lambda>_. b)))
              (\<lambda>_. tx_return (userRow_toSpec row)))))"

section \<open>Credentials (gorm_credentials.go)\<close>

definition sql_SetPassword :: "'d gorm \<Rightarrow> crypto \<Rightarrow> string \<Rightarrow> string option \<Rightarrow> ('d, bool) writing" where
  "sql_SetPassword G cr username newPassword =
     withTx G (tx_bind (ensureUserExists G username) (\<lambda>_.
       case newPassword of
         None \<Rightarrow> tx_bind (t_Delete (g_passwords G) (\<lambda>r. pw_Username r = username)) (\<lambda>_. tx_return False)
       | Some p \<Rightarrow>
           (case password_Hash cr p of
              Err e \<Rightarrow> tx_error (Fmt [e])
            | Panic \<Rightarrow> (\<lambda>d. (Panic, d))
            | Ok hash \<Rightarrow>
                tx_bind (t_Save (g_passwords G) \<lparr>pw_Username = username, pw_Hash = hash\<rparr>) (\<lambda>_. tx_return True))))"

definition sql_CheckPassword :: "'d gorm \<Rightarrow> crypto \<Rightarrow> string \<Rightarrow> string \<Rightarrow> ('d, bool) writing" where
  "sql_CheckPassword G cr username candidate =
     withTx G (tx_bind (ensureUserExists G username) (\<lambda>_.
       tx_catch (tx_bind (tx_read (t_First (g_passwords G) (\<lambda>r. pw_Username r = username)))
           (\<lambda>row. tx_return (password_Verify cr candidate (pw_Hash row))))
         record_not_found (tx_return False)))"

definition sql_CreateKey ::
  "'d gorm \<Rightarrow> crypto \<Rightarrow> key_format \<Rightarrow> string \<Rightarrow> string \<Rightarrow> string \<Rightarrow> KeyIssueRequest \<Rightarrow> time \<Rightarrow> ('d, APIKeyInfo) writing" where
  "sql_CreateKey G cr format username keyID key req now =
     withTx G (tx_bind (ensureUserExists G username) (\<lambda>_.
       case Key_Hash (cr_sha256 cr) format key of
         Err e \<Rightarrow> tx_error (Fmt [e])
       | Panic \<Rightarrow> (\<lambda>d. (Panic, d))
       | Ok hashed \<Rightarrow>
           (let row = \<lparr>ak_Username = username, ak_KeyID = keyID, ak_Comment = kir_Comment req, ak_DateCreated = now,
                  ak_ExpiresAt = kir_ExpiresAt req, ak_Prefix = st_Prefix hashed, ak_Digest = st_Digest hashed,
                  ak_UserScopeRows = userScopeRowsFor username keyID (kir_UserScopes req),
                  ak_NamespaceScopeRows = namespaceScopeRowsFor username keyID (kir_NamespaceScopes req)\<rparr> in
            tx_bind (tx_catch (t_Create (g_keys G) [row]) (isUniqueConstraintError G) (tx_error (Sentinel ErrKeyCollision)))
              (\<lambda>_. tx_return (apiKeyRow_toSpec row)))))"

definition sql_ListKeys ::
  "'d gorm \<Rightarrow> key_format \<Rightarrow> string option \<Rightarrow> int \<Rightarrow> int \<Rightarrow> ('d, APIKeyInfo page) writing" where
  "sql_ListKeys G format username limit offset =
     withTx G (tx_bind (case username of None \<Rightarrow> tx_return () | Some u \<Rightarrow> ensureUserExists G u) (\<lambda>_.
       sql_page (g_keys G) (\<lambda>r. \<not> nonnil username (\<lambda>u. ak_Username r \<noteq> u)) (\<lambda>r. [ak_KeyID r]) apiKeyRow_toSpec
         False limit offset))"

definition sql_RevokeKey :: "'d gorm \<Rightarrow> key_format \<Rightarrow> string \<Rightarrow> string \<Rightarrow> ('d, unit) writing" where
  "sql_RevokeKey G format username keyID =
     withTx G (
       tx_bind (ensureUserExists G username) (\<lambda>_.
       tx_bind (tx_read (t_Count (g_keys G) (\<lambda>r. ak_Username r = username \<and> ak_KeyID r = keyID))) (\<lambda>n.
         if n = 0 then tx_error (Sentinel ErrKeyNotFound)
         else cascadingDelete (g_keys G)
           \<lparr>ak_Username = username, ak_KeyID = keyID, ak_Comment = [], ak_DateCreated = 0, ak_ExpiresAt = None, ak_Prefix = [],
            ak_Digest = [], ak_UserScopeRows = [], ak_NamespaceScopeRows = []\<rparr>)))"

text \<open>The loop returns the first row whose stored form verifies.\<close>

definition sql_LookupUserByKey ::
  "'d gorm \<Rightarrow> crypto \<Rightarrow> key_format \<Rightarrow> string \<Rightarrow> ('d, string \<times> APIKeyInfo) writing" where
  "sql_LookupUserByKey G cr format key =
     withTx2 G (
       case Key_Prefix format key of
         Err e \<Rightarrow> tx_error (Fmt [Sentinel ErrInvalidKey])
       | Panic \<Rightarrow> (\<lambda>d. (Panic, d))
       | Ok lookupPrefix \<Rightarrow>
           tx_bind (tx_read (t_Find (g_keys G) (\<lambda>r. ak_Prefix r = lookupPrefix) None (- 1) 0)) (\<lambda>rows.
             case List.find (\<lambda>row. Key_Verify (cr_sha256 cr) format key \<lparr>st_Prefix = ak_Prefix row, st_Digest = ak_Digest row\<rparr>) rows of
               Some row \<Rightarrow> tx_return (ak_Username row, apiKeyRow_toSpec row)
             | None \<Rightarrow> tx_error (Fmt [Sentinel ErrInvalidKey])))"

section \<open>Namespaces (gorm_namespaces.go)\<close>

definition ensureNamespaceExists :: "'d gorm \<Rightarrow> string \<Rightarrow> ('d, unit) writing" where
  "ensureNamespaceExists G namespace =
     tx_bind (tx_read (t_Count (g_namespaces G) (\<lambda>r. ns_ID r = namespace))) (\<lambda>n.
       if n = 0 then tx_error (Sentinel ErrNamespaceNotFound) else tx_return ())"

definition sql_ListNamespaces :: "'d gorm \<Rightarrow> ListNamespacesParams \<Rightarrow> ('d, NamespaceResponse page) writing" where
  "sql_ListNamespaces G params =
     withTx G (sql_page (g_namespaces G)
       (\<lambda>r. \<not> nonnil (lnp_Tag params) (\<lambda>t. \<not> list_ex (\<lambda>row. nt_Tag row = t) (ns_TagRows r)))
       (\<lambda>r. [ns_ID r]) namespaceRow_toSpec True (lnp_Limit params) (lnp_Offset params))"

definition sql_CreateNamespace ::
  "'d gorm \<Rightarrow> string \<Rightarrow> NamespaceCreateRequest \<Rightarrow> string option \<Rightarrow> time \<Rightarrow> ('d, NamespaceResponse) writing" where
  "sql_CreateNamespace G namespace req owner now =
     withTx G (
       tx_bind (case owner of None \<Rightarrow> tx_return () | Some u \<Rightarrow> ensureUserExists G u) (\<lambda>_.
       let ns = \<lparr>ns_ID = namespace, ns_DateCreated = now, ns_DateUpdated = now,
             ns_PIDPattern = fmt_Pattern (ncr_PIDFormat req), ns_PIDChars = fmt_Characters (ncr_PIDFormat req),
             ns_TagRows = namespaceTagRowsFor namespace (ncr_Tags req)\<rparr> in
       tx_bind (tx_catch (t_Create (g_namespaces G) [ns]) (isUniqueConstraintError G) (tx_error (Sentinel ErrDuplicateNamespaceID))) (\<lambda>_.
       tx_bind (case owner of
           None \<Rightarrow> tx_return ()
         | Some u \<Rightarrow> t_Create (g_roles G) [\<lparr>ro_NamespaceID = namespace, ro_Username = u, ro_Role = RoleManager\<rparr>]) (\<lambda>_.
         tx_return (namespaceRow_toSpec ns)))))"

definition findNamespace :: "'d gorm \<Rightarrow> string \<Rightarrow> ('d, namespaceRow) writing" where
  "findNamespace G namespace =
     tx_catch (tx_read (t_First (g_namespaces G) (\<lambda>r. ns_ID r = namespace)))
       record_not_found (tx_error (Sentinel ErrNamespaceNotFound))"

definition sql_GetNamespace :: "'d gorm \<Rightarrow> string \<Rightarrow> ('d, NamespaceResponse) writing" where
  "sql_GetNamespace G namespace =
     withTx G (tx_bind (findNamespace G namespace) (\<lambda>ns. tx_return (namespaceRow_toSpec ns)))"

definition sql_UpdateNamespace ::
  "'d gorm \<Rightarrow> string \<Rightarrow> NamespaceUpdateRequest \<Rightarrow> time \<Rightarrow> ('d, NamespaceResponse) writing" where
  "sql_UpdateNamespace G namespace req now =
     withTx G (tx_bind (findNamespace G namespace) (\<lambda>ns.
       tx_bind (case nur_Tags req of
           None \<Rightarrow> tx_return ns
         | Some tags \<Rightarrow>
             tx_bind (t_Delete (g_nstags G) (\<lambda>r. nt_NamespaceID r = namespace)) (\<lambda>_.
               let ns = ns\<lparr>ns_TagRows := namespaceTagRowsFor namespace tags\<rparr> in
               if 0 < length (ns_TagRows ns) then tx_bind (t_Create (g_nstags G) (ns_TagRows ns)) (\<lambda>_. tx_return ns)
               else tx_return ns)) (\<lambda>ns.
       let ns = ns\<lparr>ns_DateUpdated := now\<rparr> in
       tx_bind (t_Save (g_namespaces G) ns) (\<lambda>_. tx_return (namespaceRow_toSpec ns)))))"

section \<open>Resources (gorm_resources.go)\<close>

definition sql_ListResources ::
  "'d gorm \<Rightarrow> string \<Rightarrow> ListResourcesParams \<Rightarrow> ('d, ResourceResponse page) writing" where
  "sql_ListResources G namespace params =
     withTx G (tx_bind (ensureNamespaceExists G namespace) (\<lambda>_.
       sql_page (g_resources G)
         (\<lambda>r. rs_NamespaceID r = namespace \<and> \<not> nonnil (lrp_Tag params) (\<lambda>t. \<not> list_ex (\<lambda>row. rt_Tag row = t) (rs_TagRows r)) \<and>
              \<not> nonnil (lrp_Deleted params) (\<lambda>b. rs_Deleted r \<noteq> b))
         (\<lambda>r. [rs_PID r]) resourceRow_toSpec True (lrp_Limit params) (lrp_Offset params)))"

definition sql_CountAllResources :: "'d gorm \<Rightarrow> ('d, int) writing" where
  "sql_CountAllResources G = withTx G (tx_read (t_Count (g_resources G) (\<lambda>r. True)))"

definition new_resourceRow :: "string \<Rightarrow> string \<Rightarrow> ResourceCreateRequest \<Rightarrow> time \<Rightarrow> resourceRow" where
  "new_resourceRow namespace pid req ts =
     \<lparr>rs_NamespaceID = namespace, rs_PID = pid, rs_URL = rcr_URL req, rs_Metadata = rcr_Metadata req, rs_DateCreated = ts,
      rs_DateUpdated = ts, rs_Deleted = False, rs_TagRows = resourceTagRowsFor namespace pid (rcr_Tags req)\<rparr>"

definition sql_CreateResource ::
  "'d gorm \<Rightarrow> string \<Rightarrow> string \<Rightarrow> ResourceCreateRequest \<Rightarrow> time \<Rightarrow> ('d, ResourceResponse) writing" where
  "sql_CreateResource G namespace pid req now =
     withTx G (tx_bind (ensureNamespaceExists G namespace) (\<lambda>_.
       let row = new_resourceRow namespace pid req now in
       tx_bind (tx_catch (t_Create (g_resources G) [row]) (isUniqueConstraintError G) (tx_error (Sentinel ErrPIDAllocationFailed)))
         (\<lambda>_. tx_return (resourceRow_toSpec row))))"

definition sql_BatchCreateResources ::
  "'d gorm \<Rightarrow> int \<Rightarrow> string \<Rightarrow> string list \<Rightarrow> ResourceCreateRequest list \<Rightarrow> time \<Rightarrow> ('d, ResourceResponse list) writing" where
  "sql_BatchCreateResources G batchSize namespace pids reqs now =
     (if length reqs = 0 then tx_return []
      else if length pids \<noteq> length reqs then tx_error (Sentinel ErrPIDAllocationFailed)
      else withTx G (tx_bind (ensureNamespaceExists G namespace) (\<lambda>_.
        let rows = map (\<lambda>(pid, req). new_resourceRow namespace pid req now) (zip pids reqs) in
        tx_bind (tx_catch (t_CreateInBatches (g_resources G) rows batchSize) (isUniqueConstraintError G)
            (tx_error (Sentinel ErrPIDAllocationFailed)))
          (\<lambda>_. tx_return (map resourceRow_toSpec rows)))))"

definition findResource :: "'d gorm \<Rightarrow> string \<Rightarrow> string \<Rightarrow> ('d, resourceRow) writing" where
  "findResource G namespace pid =
     tx_catch (tx_read (t_First (g_resources G) (\<lambda>r. rs_NamespaceID r = namespace \<and> rs_PID r = pid)))
       record_not_found (tx_error (Sentinel ErrResourceNotFound))"

definition sql_GetResource :: "'d gorm \<Rightarrow> string \<Rightarrow> string \<Rightarrow> ('d, ResourceResponse) writing" where
  "sql_GetResource G namespace pid =
     withTx G (tx_bind (ensureNamespaceExists G namespace) (\<lambda>_.
       tx_bind (findResource G namespace pid) (\<lambda>row. tx_return (resourceRow_toSpec row))))"

definition sql_UpdateResource ::
  "'d gorm \<Rightarrow> string \<Rightarrow> string \<Rightarrow> ResourceUpdateRequest \<Rightarrow> time \<Rightarrow> ('d, ResourceResponse) writing" where
  "sql_UpdateResource G namespace pid req now =
     withTx G (tx_bind (ensureNamespaceExists G namespace) (\<lambda>_.
       tx_bind (findResource G namespace pid) (\<lambda>row.
       let row = (case rur_URL req of None \<Rightarrow> row | Some u \<Rightarrow> row\<lparr>rs_URL := u\<rparr>);
           row = (case rur_Deleted req of None \<Rightarrow> row | Some b \<Rightarrow> row\<lparr>rs_Deleted := b\<rparr>);
           row = (case rur_Metadata req of None \<Rightarrow> row | Some m \<Rightarrow> row\<lparr>rs_Metadata := m\<rparr>);
           row = row\<lparr>rs_DateUpdated := now\<rparr> in
       tx_bind (t_Save (g_resources G) row) (\<lambda>_.
       tx_bind (case rur_Tags req of
           None \<Rightarrow> tx_return row
         | Some tags \<Rightarrow>
             tx_bind (t_Delete (g_restags G) (\<lambda>r. rt_NamespaceID r = namespace \<and> rt_PID r = pid)) (\<lambda>_.
               let row = row\<lparr>rs_TagRows := resourceTagRowsFor namespace pid tags\<rparr> in
               if 0 < length (rs_TagRows row) then tx_bind (t_Create (g_restags G) (rs_TagRows row)) (\<lambda>_. tx_return row)
               else tx_return row)) (\<lambda>row.
         tx_return (resourceRow_toSpec row))))))"

section \<open>Roles (gorm_roles.go)\<close>

definition sql_GetNamespaceRole :: "'d gorm \<Rightarrow> string \<Rightarrow> string \<Rightarrow> ('d, Role) writing" where
  "sql_GetNamespaceRole G namespace username =
     withTx G (tx_bind (ensureNamespaceExists G namespace) (\<lambda>_.
       tx_catch (tx_bind (tx_read (t_First (g_roles G) (\<lambda>r. ro_NamespaceID r = namespace \<and> ro_Username r = username)))
           (\<lambda>row. tx_return (ro_Role row)))
         record_not_found (tx_return RoleNone)))"

definition sql_SetNamespaceRole :: "'d gorm \<Rightarrow> string \<Rightarrow> string \<Rightarrow> Role \<Rightarrow> ('d, unit) writing" where
  "sql_SetNamespaceRole G namespace username role =
     (if Role_Validate role \<noteq> None then tx_error (Sentinel ErrInvalidRole)
      else withTx G (tx_bind (ensureNamespaceExists G namespace) (\<lambda>_.
        if role = RoleNone
        then tx_bind (t_Delete (g_roles G) (\<lambda>r. ro_NamespaceID r = namespace \<and> ro_Username r = username)) (\<lambda>_. tx_return ())
        else t_Save (g_roles G) \<lparr>ro_NamespaceID = namespace, ro_Username = username, ro_Role = role\<rparr>)))"

definition sql_DeleteNamespaceRole :: "'d gorm \<Rightarrow> string \<Rightarrow> string \<Rightarrow> ('d, unit) writing" where
  "sql_DeleteNamespaceRole G namespace username =
     withTx G (tx_bind (t_Delete (g_roles G) (\<lambda>r. ro_NamespaceID r = namespace \<and> ro_Username r = username)) (\<lambda>affected.
       if affected = 0 then tx_error (Sentinel ErrRoleNotFound) else tx_return ()))"

definition sql_ListNamespaceRoles :: "'d gorm \<Rightarrow> string \<Rightarrow> int \<Rightarrow> int \<Rightarrow> ('d, NamespaceRole page) writing" where
  "sql_ListNamespaceRoles G namespace limit offset =
     withTx G (tx_bind (ensureNamespaceExists G namespace) (\<lambda>_.
       sql_page (g_roles G) (\<lambda>r. ro_NamespaceID r = namespace) (\<lambda>r. [ro_Username r]) namespaceRoleRow_toSpec True limit offset))"

definition sql_ListUserRoles :: "'d gorm \<Rightarrow> string \<Rightarrow> int \<Rightarrow> int \<Rightarrow> ('d, UserRole page) writing" where
  "sql_ListUserRoles G username limit offset =
     withTx G (tx_bind (ensureUserExists G username) (\<lambda>_.
       sql_page (g_roles G) (\<lambda>r. ro_Username r = username) (\<lambda>r. [ro_NamespaceID r]) toUserRole True limit offset))"

section \<open>Mounts (gorm_mounts.go)\<close>

definition sql_GetMount :: "'d gorm \<Rightarrow> string \<Rightarrow> ('d, string) writing" where
  "sql_GetMount G baseURI =
     withTx G (tx_bind (tx_catch (tx_read (t_First (g_mounts G) (\<lambda>r. mo_BaseURI r = baseURI)))
         record_not_found (tx_error (Sentinel ErrMountNotFound)))
       (\<lambda>row. tx_return (mo_NamespaceID row)))"

definition sql_SetMount :: "'d gorm \<Rightarrow> string \<Rightarrow> string \<Rightarrow> ('d, unit) writing" where
  "sql_SetMount G baseURI namespace =
     withTx G (tx_bind (ensureNamespaceExists G namespace) (\<lambda>_.
       t_Save (g_mounts G) \<lparr>mo_BaseURI = baseURI, mo_NamespaceID = namespace\<rparr>))"

definition sql_DeleteMount :: "'d gorm \<Rightarrow> string \<Rightarrow> ('d, unit) writing" where
  "sql_DeleteMount G baseURI =
     withTx G (tx_bind (t_Delete (g_mounts G) (\<lambda>r. mo_BaseURI r = baseURI)) (\<lambda>affected.
       if affected = 0 then tx_error (Sentinel ErrMountNotFound) else tx_return ()))"

definition sql_ListMounts :: "'d gorm \<Rightarrow> int \<Rightarrow> int \<Rightarrow> ('d, MountResponse page) writing" where
  "sql_ListMounts G limit offset =
     withTx G (sql_page (g_mounts G) (\<lambda>r. True) (\<lambda>r. [mo_NamespaceID r, mo_BaseURI r])
       (\<lambda>r. \<lparr>mr_BaseURI = mo_BaseURI r, mr_Namespace = mo_NamespaceID r\<rparr>) True limit offset)"

definition sql_ListNamespaceMounts :: "'d gorm \<Rightarrow> string \<Rightarrow> int \<Rightarrow> int \<Rightarrow> ('d, string page) writing" where
  "sql_ListNamespaceMounts G namespace limit offset =
     withTx G (tx_bind (ensureNamespaceExists G namespace) (\<lambda>_.
       sql_page (g_mounts G) (\<lambda>r. mo_NamespaceID r = namespace) (\<lambda>r. [mo_BaseURI r]) mo_BaseURI True limit offset))"

section \<open>Mount grants (gorm_mount_grants.go)\<close>

definition sql_ListUserMountGrants :: "'d gorm \<Rightarrow> string \<Rightarrow> int \<Rightarrow> int \<Rightarrow> ('d, string page) writing" where
  "sql_ListUserMountGrants G username limit offset =
     withTx G (tx_bind (ensureUserExists G username) (\<lambda>_.
       sql_page (g_grants G) (\<lambda>r. mg_Username r = username) (\<lambda>r. [mg_Pattern r]) mg_Pattern False limit offset))"

definition sql_SetMountGrant :: "'d gorm \<Rightarrow> string \<Rightarrow> string \<Rightarrow> ('d, unit) writing" where
  "sql_SetMountGrant G username pattern =
     withTx G (tx_bind (ensureUserExists G username) (\<lambda>_.
       t_Save (g_grants G) \<lparr>mg_Username = username, mg_Pattern = pattern\<rparr>))"

definition sql_DeleteMountGrant :: "'d gorm \<Rightarrow> string \<Rightarrow> string \<Rightarrow> ('d, unit) writing" where
  "sql_DeleteMountGrant G username pattern =
     withTx G (tx_bind (ensureUserExists G username) (\<lambda>_.
       tx_bind (t_Delete (g_grants G) (\<lambda>r. mg_Username r = username \<and> mg_Pattern r = pattern)) (\<lambda>affected.
         if affected = 0 then tx_error (Sentinel ErrMountGrantNotFound) else tx_return ())))"

section \<open>The backend\<close>

definition DefaultBatchSize :: int where "DefaultBatchSize = 100"

text \<open>
  \<^verbatim>\<open>NewGormBackend\<close> with the methods as an implementation of the interfaces. A reading method of an interface returns
  no state; what the transaction of a read leaves of the connection is dropped.
\<close>

definition NewGormBackend :: "'d gorm \<Rightarrow> crypto \<Rightarrow> int \<Rightarrow> 'd Backend" where
  "NewGormBackend G cr batchSize =
     (let batchSize = (if batchSize \<le> 0 then DefaultBatchSize else batchSize) in
      \<lparr>Users = \<lparr>be_CreateUser = sql_CreateUser G, be_GetUser = (\<lambda>u. fst \<circ> sql_GetUser G u),
        be_ListUsers = (\<lambda>p. fst \<circ> sql_ListUsers G p), be_AutocompleteUsers = (\<lambda>q l. fst \<circ> sql_AutocompleteUsers G q l),
        be_DeleteUser = sql_DeleteUser G, be_UpdateUser = sql_UpdateUser G\<rparr>,
      Creds = \<lparr>be_SetPassword = sql_SetPassword G cr, be_CheckPassword = (\<lambda>u p. fst \<circ> sql_CheckPassword G cr u p),
        be_CreateKey = sql_CreateKey G cr, be_ListKeys = (\<lambda>f u l off. fst \<circ> sql_ListKeys G f u l off),
        be_RevokeKey = sql_RevokeKey G, be_LookupUserByKey = (\<lambda>f k. fst \<circ> sql_LookupUserByKey G cr f k)\<rparr>,
      Namespaces = \<lparr>be_ListNamespaces = (\<lambda>p. fst \<circ> sql_ListNamespaces G p), be_CreateNamespace = sql_CreateNamespace G,
        be_GetNamespace = (\<lambda>n. fst \<circ> sql_GetNamespace G n), be_UpdateNamespace = sql_UpdateNamespace G\<rparr>,
      Resources = \<lparr>be_ListResources = (\<lambda>n p. fst \<circ> sql_ListResources G n p), be_CountAllResources = fst \<circ> sql_CountAllResources G,
        be_GetResource = (\<lambda>n p. fst \<circ> sql_GetResource G n p), be_CreateResource = sql_CreateResource G,
        be_BatchCreateResources = sql_BatchCreateResources G batchSize, be_UpdateResource = sql_UpdateResource G\<rparr>,
      Roles = \<lparr>be_GetNamespaceRole = (\<lambda>n u. fst \<circ> sql_GetNamespaceRole G n u), be_SetNamespaceRole = sql_SetNamespaceRole G,
        be_DeleteNamespaceRole = sql_DeleteNamespaceRole G, be_ListNamespaceRoles = (\<lambda>n l off. fst \<circ> sql_ListNamespaceRoles G n l off),
        be_ListUserRoles = (\<lambda>u l off. fst \<circ> sql_ListUserRoles G u l off)\<rparr>,
      Mounts = \<lparr>be_GetMount = (\<lambda>b. fst \<circ> sql_GetMount G b), be_SetMount = sql_SetMount G, be_DeleteMount = sql_DeleteMount G,
        be_ListMounts = (\<lambda>l off. fst \<circ> sql_ListMounts G l off), be_ListNamespaceMounts = (\<lambda>n l off. fst \<circ> sql_ListNamespaceMounts G n l off)\<rparr>,
      MountGrants = \<lparr>be_ListUserMountGrants = (\<lambda>u l off. fst \<circ> sql_ListUserMountGrants G u l off),
        be_SetMountGrant = sql_SetMountGrant G, be_DeleteMountGrant = sql_DeleteMountGrant G\<rparr>\<rparr>)"

end
