(* ===== verification/Sql_Laws.thy ===== *)
theory Sql_Laws
  imports Sql_Backend
begin

text \<open>
  What the SQL backend relies on of the GORM library and of the database, as the locale \<open>gorm_laws\<close>, and a calculus for the
  operations written against it. \<open>content\<close> is what a transaction sees of the database: the rows of the tables, with the rows of a
  dependent table (passwords, scopes, tags) inside the row that they reference, as the foreign keys demand. Any call may also fail
  with an error of the driver.
\<close>

section \<open>Tables\<close>

record tables =
  tb_users :: "userRow list"
  tb_keys :: "apiKeyRow list"
  tb_namespaces :: "namespaceRow list"
  tb_resources :: "resourceRow list"
  tb_roles :: "namespaceRoleRow list"
  tb_mounts :: "mountRow list"
  tb_grants :: "userMountGrantRow list"

text \<open>The primary keys.\<close>

definition key_pk :: "apiKeyRow \<Rightarrow> string \<times> string" where "key_pk r = (ak_Username r, ak_KeyID r)"
definition resource_pk :: "resourceRow \<Rightarrow> string \<times> string" where "resource_pk r = (rs_NamespaceID r, rs_PID r)"
definition role_pk :: "namespaceRoleRow \<Rightarrow> string \<times> string" where "role_pk r = (ro_NamespaceID r, ro_Username r)"
definition grant_pk :: "userMountGrantRow \<Rightarrow> string \<times> string" where "grant_pk r = (mg_Username r, mg_Pattern r)"

lemmas pk_defs = key_pk_def resource_pk_def role_pk_def grant_pk_def

text \<open>A row under its primary key, and the replacement or insertion of a row by its key.\<close>

definition row_at :: "('r \<Rightarrow> 'k) \<Rightarrow> 'r list \<Rightarrow> 'k \<Rightarrow> 'r option" where
  "row_at pk rows k = map_of (map (\<lambda>r. (pk r, r)) rows) k"

definition put_row :: "('r \<Rightarrow> 'k) \<Rightarrow> 'r \<Rightarrow> 'r list \<Rightarrow> 'r list" where
  "put_row pk row rows =
     (if pk row \<in> pk ` set rows then map (\<lambda>r. if pk r = pk row then row else r) rows else rows @ [row])"

text \<open>New rows that keep a primary key unique.\<close>

definition fresh_rows :: "('r \<Rightarrow> 'k) \<Rightarrow> 'r list \<Rightarrow> 'r list \<Rightarrow> bool" where
  "fresh_rows pk rows rs \<longleftrightarrow> distinct (map pk rs) \<and> list_all (\<lambda>r. pk r \<notin> pk ` set rows) rs"

text \<open>The dependent rows as tables of their own.\<close>

definition tb_passwords :: "tables \<Rightarrow> userPasswordRow list" where
  "tb_passwords tb = List.map_filter u_Password (tb_users tb)"

definition set_password :: "userPasswordRow \<Rightarrow> tables \<Rightarrow> tables" where
  "set_password p tb = tb\<lparr>tb_users := map (\<lambda>r. if u_Username r = pw_Username p then r\<lparr>u_Password := Some p\<rparr> else r) (tb_users tb)\<rparr>"

definition drop_passwords :: "(userPasswordRow \<Rightarrow> bool) \<Rightarrow> tables \<Rightarrow> tables" where
  "drop_passwords cond tb =
     tb\<lparr>tb_users := map (\<lambda>r. if nonnil (u_Password r) cond then r\<lparr>u_Password := None\<rparr> else r) (tb_users tb)\<rparr>"

definition nstags_of :: "string \<Rightarrow> tables \<Rightarrow> namespaceTagRow list" where
  "nstags_of n tb = (case row_at ns_ID (tb_namespaces tb) n of None \<Rightarrow> [] | Some r \<Rightarrow> ns_TagRows r)"

definition add_nstags :: "namespaceTagRow list \<Rightarrow> tables \<Rightarrow> tables" where
  "add_nstags ts tb =
     tb\<lparr>tb_namespaces := map (\<lambda>r. let new = filter (\<lambda>t. nt_NamespaceID t = ns_ID r) ts in
         if new = [] then r else r\<lparr>ns_TagRows := sort_key nt_Pos (ns_TagRows r @ new)\<rparr>) (tb_namespaces tb)\<rparr>"

definition drop_nstags :: "(namespaceTagRow \<Rightarrow> bool) \<Rightarrow> tables \<Rightarrow> tables" where
  "drop_nstags cond tb =
     tb\<lparr>tb_namespaces := map (\<lambda>r. r\<lparr>ns_TagRows := filter (\<lambda>t. \<not> cond t) (ns_TagRows r)\<rparr>) (tb_namespaces tb)\<rparr>"

definition restags_of :: "string \<times> string \<Rightarrow> tables \<Rightarrow> resourceTagRow list" where
  "restags_of k tb = (case row_at resource_pk (tb_resources tb) k of None \<Rightarrow> [] | Some r \<Rightarrow> rs_TagRows r)"

definition add_restags :: "resourceTagRow list \<Rightarrow> tables \<Rightarrow> tables" where
  "add_restags ts tb =
     tb\<lparr>tb_resources := map (\<lambda>r. let new = filter (\<lambda>t. (rt_NamespaceID t, rt_PID t) = resource_pk r) ts in
         if new = [] then r else r\<lparr>rs_TagRows := sort_key rt_Pos (rs_TagRows r @ new)\<rparr>) (tb_resources tb)\<rparr>"

definition drop_restags :: "(resourceTagRow \<Rightarrow> bool) \<Rightarrow> tables \<Rightarrow> tables" where
  "drop_restags cond tb =
     tb\<lparr>tb_resources := map (\<lambda>r. r\<lparr>rs_TagRows := filter (\<lambda>t. \<not> cond t) (rs_TagRows r)\<rparr>) (tb_resources tb)\<rparr>"

text \<open>The tag rows of the parents, in one list each.\<close>

definition tb_nstags :: "tables \<Rightarrow> namespaceTagRow list" where
  "tb_nstags tb = concat (map ns_TagRows (tb_namespaces tb))"

definition tb_restags :: "tables \<Rightarrow> resourceTagRow list" where
  "tb_restags tb = concat (map rs_TagRows (tb_resources tb))"

section \<open>Laws\<close>

text \<open>
  An error of the driver or of the connection. It is none of the package-level errors of the program or of the library, carries no code of
  the API, and its text does not speak of duplicates.
\<close>

definition db_failure :: "'d gorm \<Rightarrow> gerr \<Rightarrow> bool" where
  "db_failure G e \<longleftrightarrow> (\<forall>s. errors_is e s \<longrightarrow> s = Foreign) \<and> GetErrorCode e = None \<and> \<not> isUniqueConstraintError G e"

text \<open>
  The effect of a write: it succeeds only under its guard (the primary keys stay unique), and then returns and stores what
  \<open>upd\<close> says; otherwise it reports a violated constraint, if the guard is violated, or fails. What an aborted write leaves
  behind is not specified, it has to be rolled back.
\<close>

definition write_law ::
  "'d gorm \<Rightarrow> ('d \<Rightarrow> tables) \<Rightarrow> ('d, 'a) writing \<Rightarrow> (tables \<Rightarrow> bool) \<Rightarrow> (tables \<Rightarrow> 'a \<times> tables) \<Rightarrow> bool" where
  "write_law G content m guard upd \<longleftrightarrow>
     (\<forall>d. case m d of
        (Ok x, d') \<Rightarrow> guard (content d) \<and> (x, content d') = upd (content d)
      | (Err e, d') \<Rightarrow> db_failure G e \<or> \<not> guard (content d) \<and> isUniqueConstraintError G e
      | (Panic, d') \<Rightarrow> False)"

text \<open>The order of two rows by their columns, for a collation of the single columns.\<close>

fun columns_le :: "(string \<Rightarrow> string \<Rightarrow> bool) \<Rightarrow> string list \<Rightarrow> string list \<Rightarrow> bool" where
  "columns_le le (a # as) (b # bs) \<longleftrightarrow> le a b \<and> (a = b \<longrightarrow> columns_le le as bs)"
| "columns_le le as bs \<longleftrightarrow> as = []"

lemma columns_le_bytewise: "columns_le (\<le>) as bs \<longleftrightarrow> as \<le> bs"
proof (induction as arbitrary: bs)
  case Nil
  then show ?case by (cases bs) simp_all
next
  case (Cons a as)
  then show ?case by (cases bs) (auto simp: Cons_le_Cons order.order_iff_strict)
qed

text \<open>
  The reads of one table. The rows of \<^verbatim>\<open>ORDER BY\<close> are in the order of the database's collation, which need not be that of the bytes: it
  is for SQLite, and for PostgreSQL under the locale \<^verbatim>\<open>C\<close>.
\<close>

locale sql_reads =
  fixes G :: "'d gorm" and content :: "'d \<Rightarrow> tables" and T :: "('d, 'r) table" and rows :: "tables \<Rightarrow> 'r list"
  assumes Count_law: "t_Count T cond d = Ok (int (length (filter cond (rows (content d))))) \<or>
      (\<exists>e. t_Count T cond d = Err e \<and> db_failure G e)"
    and First_law: "(\<exists>r \<in> set (filter cond (rows (content d))). t_First T cond d = Ok r) \<or>
      filter cond (rows (content d)) = [] \<and> t_First T cond d = Err (Sentinel ErrRecordNotFound) \<or>
      (\<exists>e. t_First T cond d = Err e \<and> db_failure G e)"
    and Find_law: "0 \<le> limit \<Longrightarrow> 0 \<le> offset \<Longrightarrow>
      (\<exists>xs. mset xs = mset (filter cond (rows (content d))) \<and>
         sorted_wrt (\<lambda>r r'. columns_le (g_Collate G) (order r) (order r')) xs \<and>
         t_Find T cond (Some order) limit offset d = Ok (page_window xs limit offset)) \<or>
      (\<exists>e. t_Find T cond (Some order) limit offset d = Err e \<and> db_failure G e)"
    and Find_all_law: "(\<exists>xs. mset xs = mset (filter cond (rows (content d))) \<and> t_Find T cond None (- 1) 0 d = Ok xs) \<or>
      (\<exists>e. t_Find T cond None (- 1) 0 d = Err e \<and> db_failure G e)"

text \<open>
  The transactions and the writes.
  \<^item> A row is stored as it is given if the database keeps its time stamps exactly; SQLite does with every instant, PostgreSQL
    with whole microseconds. Whatever is stored has such time stamps.
  \<^item> \<^verbatim>\<open>Save\<close> replaces the row with the same primary key or else inserts it; but if a field of the
    primary key has its zero value, it only inserts, which violates the constraint if the row exists.
  \<^item> A deletion with the associations needs a primary key that is not zero.
\<close>

definition keeps_key :: "'d gorm \<Rightarrow> apiKeyRow \<Rightarrow> bool" where
  "keeps_key G r \<longleftrightarrow> g_Keeps G (ak_DateCreated r) \<and> pred_option (g_Keeps G) (ak_ExpiresAt r)"

definition keeps_namespace :: "'d gorm \<Rightarrow> namespaceRow \<Rightarrow> bool" where
  "keeps_namespace G r \<longleftrightarrow> g_Keeps G (ns_DateCreated r) \<and> g_Keeps G (ns_DateUpdated r)"

definition keeps_resource :: "'d gorm \<Rightarrow> resourceRow \<Rightarrow> bool" where
  "keeps_resource G r \<longleftrightarrow> g_Keeps G (rs_DateCreated r) \<and> g_Keeps G (rs_DateUpdated r)"

locale gorm_laws =
  users: sql_reads G content "g_users G" tb_users +
  passwords: sql_reads G content "g_passwords G" tb_passwords +
  keys: sql_reads G content "g_keys G" tb_keys +
  namespaces: sql_reads G content "g_namespaces G" tb_namespaces +
  resources: sql_reads G content "g_resources G" tb_resources +
  roles: sql_reads G content "g_roles G" tb_roles +
  mounts: sql_reads G content "g_mounts G" tb_mounts +
  grants: sql_reads G content "g_grants G" tb_grants
  for G :: "'d gorm" and content :: "'d \<Rightarrow> tables" +
  assumes Begin_law: "(\<exists>tx. g_Begin G d = Ok tx \<and> content tx = content d) \<or> (\<exists>e. g_Begin G d = Err e \<and> db_failure G e)"
    and Commit_law: "(\<exists>d'. g_Commit G d = Ok d' \<and> content d' = content d) \<or> (\<exists>e. g_Commit G d = Err e \<and> db_failure G e)"
    and Rollback_law: "content (g_Rollback G d d') = content d"
    and stored_keeps: "list_all (keeps_namespace G) (tb_namespaces (content d)) \<and> list_all (keeps_resource G) (tb_resources (content d))"
    and users_Create: "write_law G content (t_Create (g_users G) urs)
      (\<lambda>tb. fresh_rows u_Username (tb_users tb) urs) (\<lambda>tb. ((), tb\<lparr>tb_users := tb_users tb @ urs\<rparr>))"
    and users_Update: "(\<And>r. u_Username (f r) = u_Username r) \<Longrightarrow> write_law G content (t_Update (g_users G) ucond f)
      (\<lambda>tb. True) (\<lambda>tb. ((), tb\<lparr>tb_users := map (\<lambda>r. if ucond r then f r else r) (tb_users tb)\<rparr>))"
    and users_DeleteAssociations: "u_Username u \<noteq> [] \<Longrightarrow> write_law G content (t_DeleteAssociations (g_users G) u)
      (\<lambda>tb. True) (\<lambda>tb. ((), tb\<lparr>tb_users := filter (\<lambda>r. u_Username r \<noteq> u_Username u) (tb_users tb),
        tb_keys := filter (\<lambda>r. ak_Username r \<noteq> u_Username u) (tb_keys tb)\<rparr>))"
    and passwords_Save: "write_law G content (t_Save (g_passwords G) p)
      (\<lambda>tb. pw_Username p \<noteq> [] \<or> pw_Username p \<notin> pw_Username ` set (tb_passwords tb)) (\<lambda>tb. ((), set_password p tb))"
    and passwords_Delete: "write_law G content (t_Delete (g_passwords G) pcond)
      (\<lambda>tb. True) (\<lambda>tb. (int (length (filter pcond (tb_passwords tb))), drop_passwords pcond tb))"
    and keys_Create: "list_all (keeps_key G) krs \<Longrightarrow> write_law G content (t_Create (g_keys G) krs)
      (\<lambda>tb. fresh_rows key_pk (tb_keys tb) krs)
      (\<lambda>tb. ((), tb\<lparr>tb_keys := tb_keys tb @ map (\<lambda>r. r\<lparr>ak_UserScopeRows := sort_key us_Pos (ak_UserScopeRows r),
        ak_NamespaceScopeRows := sort_key nss_Pos (ak_NamespaceScopeRows r)\<rparr>) krs\<rparr>))"
    and keys_DeleteAssociations: "ak_Username k \<noteq> [] \<Longrightarrow> ak_KeyID k \<noteq> [] \<Longrightarrow> write_law G content (t_DeleteAssociations (g_keys G) k)
      (\<lambda>tb. True) (\<lambda>tb. ((), tb\<lparr>tb_keys := filter (\<lambda>r. key_pk r \<noteq> key_pk k) (tb_keys tb)\<rparr>))"
    and namespaces_Create: "list_all (keeps_namespace G) nrs \<Longrightarrow> write_law G content (t_Create (g_namespaces G) nrs)
      (\<lambda>tb. fresh_rows ns_ID (tb_namespaces tb) nrs)
      (\<lambda>tb. ((), tb\<lparr>tb_namespaces := tb_namespaces tb @ map (\<lambda>r. r\<lparr>ns_TagRows := sort_key nt_Pos (ns_TagRows r)\<rparr>) nrs\<rparr>))"
    and namespaces_Save: "keeps_namespace G n \<Longrightarrow> write_law G content (t_Save (g_namespaces G) n)
      (\<lambda>tb. ns_ID n \<noteq> [] \<or> ns_ID n \<notin> ns_ID ` set (tb_namespaces tb)) (\<lambda>tb. ((), tb\<lparr>tb_namespaces := put_row ns_ID (n\<lparr>ns_TagRows := nstags_of (ns_ID n) tb\<rparr>) (tb_namespaces tb)\<rparr>))"
    and nstags_Create: "write_law G content (t_Create (g_nstags G) nts)
      (\<lambda>tb. fresh_rows (\<lambda>t. (nt_NamespaceID t, nt_Pos t)) (tb_nstags tb) nts) (\<lambda>tb. ((), add_nstags nts tb))"
    and nstags_Delete: "write_law G content (t_Delete (g_nstags G) ntcond)
      (\<lambda>tb. True) (\<lambda>tb. (int (length (filter ntcond (tb_nstags tb))), drop_nstags ntcond tb))"
    and resources_Create: "list_all (keeps_resource G) rrs \<Longrightarrow> write_law G content (t_Create (g_resources G) rrs)
      (\<lambda>tb. fresh_rows resource_pk (tb_resources tb) rrs)
      (\<lambda>tb. ((), tb\<lparr>tb_resources := tb_resources tb @ map (\<lambda>r. r\<lparr>rs_TagRows := sort_key rt_Pos (rs_TagRows r)\<rparr>) rrs\<rparr>))"
    and resources_CreateInBatches: "0 < batch \<Longrightarrow> list_all (keeps_resource G) rrs \<Longrightarrow>
      write_law G content (t_CreateInBatches (g_resources G) rrs batch)
      (\<lambda>tb. fresh_rows resource_pk (tb_resources tb) rrs)
      (\<lambda>tb. ((), tb\<lparr>tb_resources := tb_resources tb @ map (\<lambda>r. r\<lparr>rs_TagRows := sort_key rt_Pos (rs_TagRows r)\<rparr>) rrs\<rparr>))"
    and resources_Save: "keeps_resource G r \<Longrightarrow> write_law G content (t_Save (g_resources G) r)
      (\<lambda>tb. rs_NamespaceID r \<noteq> [] \<and> rs_PID r \<noteq> [] \<or> resource_pk r \<notin> resource_pk ` set (tb_resources tb)) (\<lambda>tb. ((), tb\<lparr>tb_resources := put_row resource_pk (r\<lparr>rs_TagRows := restags_of (resource_pk r) tb\<rparr>) (tb_resources tb)\<rparr>))"
    and restags_Create: "write_law G content (t_Create (g_restags G) rts)
      (\<lambda>tb. fresh_rows (\<lambda>t. (rt_NamespaceID t, rt_PID t, rt_Pos t)) (tb_restags tb) rts) (\<lambda>tb. ((), add_restags rts tb))"
    and restags_Delete: "write_law G content (t_Delete (g_restags G) rtcond)
      (\<lambda>tb. True) (\<lambda>tb. (int (length (filter rtcond (tb_restags tb))), drop_restags rtcond tb))"
    and roles_Create: "write_law G content (t_Create (g_roles G) ors)
      (\<lambda>tb. fresh_rows role_pk (tb_roles tb) ors) (\<lambda>tb. ((), tb\<lparr>tb_roles := tb_roles tb @ ors\<rparr>))"
    and roles_Save: "write_law G content (t_Save (g_roles G) ro)
      (\<lambda>tb. ro_NamespaceID ro \<noteq> [] \<and> ro_Username ro \<noteq> [] \<or> role_pk ro \<notin> role_pk ` set (tb_roles tb)) (\<lambda>tb. ((), tb\<lparr>tb_roles := put_row role_pk ro (tb_roles tb)\<rparr>))"
    and roles_Delete: "write_law G content (t_Delete (g_roles G) ocond)
      (\<lambda>tb. True) (\<lambda>tb. (int (length (filter ocond (tb_roles tb))), tb\<lparr>tb_roles := filter (\<lambda>r. \<not> ocond r) (tb_roles tb)\<rparr>))"
    and mounts_Save: "write_law G content (t_Save (g_mounts G) mo)
      (\<lambda>tb. mo_BaseURI mo \<noteq> [] \<or> mo_BaseURI mo \<notin> mo_BaseURI ` set (tb_mounts tb)) (\<lambda>tb. ((), tb\<lparr>tb_mounts := put_row mo_BaseURI mo (tb_mounts tb)\<rparr>))"
    and mounts_Delete: "write_law G content (t_Delete (g_mounts G) mcond)
      (\<lambda>tb. True) (\<lambda>tb. (int (length (filter mcond (tb_mounts tb))), tb\<lparr>tb_mounts := filter (\<lambda>r. \<not> mcond r) (tb_mounts tb)\<rparr>))"
    and grants_Save: "write_law G content (t_Save (g_grants G) gr)
      (\<lambda>tb. mg_Username gr \<noteq> [] \<and> mg_Pattern gr \<noteq> [] \<or> grant_pk gr \<notin> grant_pk ` set (tb_grants tb)) (\<lambda>tb. ((), tb\<lparr>tb_grants := put_row grant_pk gr (tb_grants tb)\<rparr>))"
    and grants_Delete: "write_law G content (t_Delete (g_grants G) gcond)
      (\<lambda>tb. True) (\<lambda>tb. (int (length (filter gcond (tb_grants tb))), tb\<lparr>tb_grants := filter (\<lambda>r. \<not> gcond r) (tb_grants tb)\<rparr>))"

text \<open>
  The operator \<^verbatim>\<open>LIKE\<close> of SQL, for patterns without an escape character: a percent sign stands for any text and an underscore for
  any character. PostgreSQL compares the other characters exactly, SQLite up to the case of ASCII letters.
\<close>

fun sql_like :: "string \<Rightarrow> string \<Rightarrow> bool" where
  "sql_like [] t \<longleftrightarrow> t = []"
| "sql_like (p # ps) [] \<longleftrightarrow> p = CHR ''%'' \<and> sql_like ps []"
| "sql_like (p # ps) (c # cs) \<longleftrightarrow>
     (if p = CHR ''%'' then sql_like ps (c # cs) \<or> sql_like (p # ps) cs
      else if p = CHR ''_'' then sql_like ps cs
      else p = c \<and> sql_like ps cs)"

definition ascii_lower :: "char \<Rightarrow> char" where
  "ascii_lower c = (if 65 \<le> (of_char c :: nat) \<and> (of_char c :: nat) \<le> 90 then char_of ((of_char c :: nat) + 32) else c)"

definition sql_ilike :: "string \<Rightarrow> string \<Rightarrow> bool" where
  "sql_ilike pattern t = sql_like (map ascii_lower pattern) (map ascii_lower t)"

text \<open>Texts without upper-case letters, on which the two agree.\<close>

definition caseless :: "string \<Rightarrow> bool" where
  "caseless t \<longleftrightarrow> list_all (\<lambda>c. ascii_lower c = c) t"

lemma sql_ilike_caseless: "caseless q \<Longrightarrow> caseless t \<Longrightarrow> sql_ilike (q @ ''%'') t = sql_like (q @ ''%'') t"
proof -
  have "map ascii_lower t = t" if "caseless t" for t
    using that unfolding caseless_def list_all_iff by (simp add: map_idI)
  moreover have "ascii_lower CHR ''%'' = CHR ''%''" by (simp add: ascii_lower_def)
  ultimately show "caseless q \<Longrightarrow> caseless t \<Longrightarrow> sql_ilike (q @ ''%'') t = sql_like (q @ ''%'') t" by (simp add: sql_ilike_def)
qed

text \<open>A prefix with underscores and without percent signs.\<close>

definition wild_prefix :: "string \<Rightarrow> string \<Rightarrow> bool" where
  "wild_prefix q t \<longleftrightarrow> length q \<le> length t \<and> list_all2 (\<lambda>p c. p = CHR ''_'' \<or> p = c) q (take (length q) t)"

lemma sql_like_any: "sql_like ''%'' t"
  by (induction t) simp_all

lemma sql_like_wild: "CHR ''%'' \<notin> set q \<Longrightarrow> sql_like (q @ ''%'') t \<longleftrightarrow> wild_prefix q t"
proof (induction q arbitrary: t)
  case Nil
  then show ?case by (simp add: sql_like_any wild_prefix_def)
next
  case (Cons c q)
  then show ?case by (cases t) (auto simp: wild_prefix_def)
qed

lemma wild_prefix_plain: "CHR ''_'' \<notin> set q \<Longrightarrow> wild_prefix q t \<longleftrightarrow> take (length q) t = q"
proof (induction q arbitrary: t)
  case (Cons c q)
  then show ?case by (cases t) (auto simp: wild_prefix_def)
qed (simp add: wild_prefix_def)

lemma wild_prefix_prefix:
  assumes "take (length q) t = q"
  shows "wild_prefix q t"
proof -
  have "length q \<le> length t" using arg_cong [OF assms, of length] by simp
  with assms show ?thesis by (simp add: wild_prefix_def list_all2_same)
qed

section \<open>Rules for the operations\<close>

text \<open>
  \<open>runs G content m tb0 tb Q\<close>: from a content \<open>tb\<close>, the body \<open>m\<close> of a transaction that began at \<open>tb0\<close> fails in the database or ends
  with a result and a content that satisfy \<open>Q\<close>; the content after an error is that of the beginning. \<open>tx_runs\<close> is the same for a
  whole operation, where a failure leaves the content as it was.
\<close>

definition runs ::
  "'d gorm \<Rightarrow> ('d \<Rightarrow> tables) \<Rightarrow> ('d, 'a) writing \<Rightarrow> tables \<Rightarrow> tables \<Rightarrow> ((gerr, 'a) res \<Rightarrow> tables \<Rightarrow> bool) \<Rightarrow> bool" where
  "runs G content m tb0 tb Q \<longleftrightarrow>
     (\<forall>d. content d = tb \<longrightarrow> (case m d of
        (Ok x, d') \<Rightarrow> Q (Ok x) (content d') | (Err e, d') \<Rightarrow> db_failure G e \<or> Q (Err e) tb0 | (Panic, d') \<Rightarrow> Q Panic tb0))"

definition tx_runs ::
  "'d gorm \<Rightarrow> ('d \<Rightarrow> tables) \<Rightarrow> ('d, 'a) writing \<Rightarrow> tables \<Rightarrow> ((gerr, 'a) res \<Rightarrow> tables \<Rightarrow> bool) \<Rightarrow> bool" where
  "tx_runs G content m tb Q \<longleftrightarrow>
     (\<forall>d. content d = tb \<longrightarrow> (case m d of (r, d') \<Rightarrow>
        Q r (content d') \<or> (\<exists>e. r = Err (Fmt [e]) \<and> db_failure G e \<and> content d' = tb)))"

text \<open>The wrapping of an error by \<open>withTx\<close>.\<close>

definition tx_wrap :: "(gerr, 'a) res \<Rightarrow> (gerr, 'a) res" where
  "tx_wrap r = (case r of Ok x \<Rightarrow> Ok x | Err e \<Rightarrow> Err (Fmt [e]) | Panic \<Rightarrow> Panic)"

lemma tx_wrap_simps [simp]: "tx_wrap (Ok x) = Ok x" "tx_wrap (Err e) = Err (Fmt [e])" "tx_wrap Panic = Panic"
  by (simp_all add: tx_wrap_def)

named_theorems sql_rules \<open>rules for the bodies of transactions\<close>

lemma runs_return [sql_rules]: "Q (Ok x) tb \<Longrightarrow> runs G content (tx_return x) tb0 tb Q"
  by (simp add: runs_def tx_return_def)

lemma runs_error [sql_rules]: "Q (Err e) tb0 \<Longrightarrow> runs G content (tx_error e) tb0 tb Q"
  by (simp add: runs_def tx_error_def)

lemma runs_panic [sql_rules]: "Q Panic tb0 \<Longrightarrow> runs G content (\<lambda>d. (Panic, d)) tb0 tb Q"
  by (simp add: runs_def)

lemma runs_bind [sql_rules]:
  assumes "runs G content m tb0 tb (\<lambda>r tb'. case r of
      Ok x \<Rightarrow> runs G content (f x) tb0 tb' Q | Err e \<Rightarrow> Q (Err e) tb' | Panic \<Rightarrow> Q Panic tb')"
  shows "runs G content (tx_bind m f) tb0 tb Q"
  using assms by (auto simp: runs_def tx_bind_def split: res.splits prod.splits)

lemma runs_weaken:
  assumes "runs G content m tb0 tb Q" and "\<And>r tb'. Q r tb' \<Longrightarrow> Q' r tb'"
  shows "runs G content m tb0 tb Q'"
  using assms unfolding runs_def by (fastforce split: res.splits prod.splits)

text \<open>A write under its guard, and one whose violated guard is turned into an error of the program.\<close>

lemma runs_write:
  assumes "write_law G content m guard upd" and "guard tb" and "case upd tb of (x, tb') \<Rightarrow> Q (Ok x) tb'"
  shows "runs G content m tb0 tb Q"
  using assms unfolding runs_def write_law_def by (fastforce split: res.splits prod.splits)

lemma runs_write_catch:
  assumes "write_law G content m guard upd"
    and "guard tb \<Longrightarrow> case upd tb of (x, tb') \<Rightarrow> Q (Ok x) tb'" and "\<not> guard tb \<Longrightarrow> Q (Err e') tb0"
  shows "runs G content (tx_catch m (isUniqueConstraintError G) (tx_error e')) tb0 tb Q"
  unfolding runs_def
proof (intro allI impI)
  fix d assume d: "content d = tb"
  have law: "case m d of (Ok x, d') \<Rightarrow> guard tb \<and> (x, content d') = upd tb
      | (Err e, d') \<Rightarrow> db_failure G e \<or> \<not> guard tb \<and> isUniqueConstraintError G e | (Panic, d') \<Rightarrow> False"
    using assms(1) unfolding write_law_def d [symmetric] by (rule spec)
  obtain r d' where m: "m d = (r, d')" by (cases "m d")
  show "case tx_catch m (isUniqueConstraintError G) (tx_error e') d of
      (Ok x, d') \<Rightarrow> Q (Ok x) (content d') | (Err e, d') \<Rightarrow> db_failure G e \<or> Q (Err e) tb0 | (Panic, d') \<Rightarrow> Q Panic tb0"
  proof (cases r)
    case (Ok x)
    with law m have "guard tb" "upd tb = (x, content d')" by auto
    with assms(2) Ok m show ?thesis by (simp add: tx_catch_def)
  next
    case (Err e)
    with law m assms(3) show ?thesis by (auto simp: tx_catch_def tx_error_def db_failure_def)
  next
    case Panic
    with law m show ?thesis by simp
  qed
qed

lemma failure_not_missing: "db_failure G e \<Longrightarrow> \<not> record_not_found e"
  by (auto simp: db_failure_def record_not_found_def ErrRecordNotFound_def)

lemma failure_not_unique: "db_failure G e \<Longrightarrow> \<not> isUniqueConstraintError G e"
  by (simp add: db_failure_def)

text \<open>Reads.\<close>

lemma runs_read:
  assumes "\<And>d. content d = tb \<Longrightarrow> (\<exists>x. f d = Ok x \<and> Q (Ok x) tb) \<or> (\<exists>e. f d = Err e \<and> db_failure G e)"
  shows "runs G content (tx_read f) tb0 tb Q"
  using assms unfolding runs_def tx_read_def by (fastforce split: res.splits)

context sql_reads
begin

lemma runs_Count:
  "Q (Ok (int (length (filter cond (rows tb))))) tb \<Longrightarrow> runs G content (tx_read (t_Count T cond)) tb0 tb Q"
  by (rule runs_read) (use Count_law [of cond] in force)

lemma runs_First:
  assumes "\<And>r. r \<in> set (rows tb) \<Longrightarrow> cond r \<Longrightarrow> Q (Ok r) tb"
    and "filter cond (rows tb) = [] \<Longrightarrow> runs G content h tb0 tb Q"
  shows "runs G content (tx_catch (tx_read (t_First T cond)) record_not_found h) tb0 tb Q"
  unfolding runs_def
proof (intro allI impI)
  fix d assume d: "content d = tb"
  from First_law [of cond d] show "case tx_catch (tx_read (t_First T cond)) record_not_found h d of
      (Ok x, d') \<Rightarrow> Q (Ok x) (content d') | (Err e, d') \<Rightarrow> db_failure G e \<or> Q (Err e) tb0 | (Panic, d') \<Rightarrow> Q Panic tb0"
  proof (elim disjE)
    assume "\<exists>r \<in> set (filter cond (rows (content d))). t_First T cond d = Ok r"
    with assms(1) d show ?thesis by (auto simp: tx_catch_def tx_read_def)
  next
    assume "filter cond (rows (content d)) = [] \<and> t_First T cond d = Err (Sentinel ErrRecordNotFound)"
    with assms(2) d show ?thesis by (auto simp: tx_catch_def tx_read_def runs_def record_not_found_def)
  next
    assume "\<exists>e. t_First T cond d = Err e \<and> db_failure G e"
    then show ?thesis by (auto simp: tx_catch_def tx_read_def failure_not_missing)
  qed
qed

lemma runs_First_bind:
  assumes "\<And>r. r \<in> set (rows tb) \<Longrightarrow> cond r \<Longrightarrow> Q (Ok (f r)) tb"
    and "filter cond (rows tb) = [] \<Longrightarrow> runs G content h tb0 tb Q"
  shows "runs G content (tx_catch (tx_bind (tx_read (t_First T cond)) (\<lambda>r. tx_return (f r))) record_not_found h) tb0 tb Q"
  unfolding runs_def
proof (intro allI impI)
  fix d assume d: "content d = tb"
  from First_law [of cond d] show "case tx_catch (tx_bind (tx_read (t_First T cond)) (\<lambda>r. tx_return (f r))) record_not_found h d of
      (Ok x, d') \<Rightarrow> Q (Ok x) (content d') | (Err e, d') \<Rightarrow> db_failure G e \<or> Q (Err e) tb0 | (Panic, d') \<Rightarrow> Q Panic tb0"
  proof (elim disjE)
    assume "\<exists>r \<in> set (filter cond (rows (content d))). t_First T cond d = Ok r"
    with assms(1) d show ?thesis by (auto simp: tx_catch_def tx_read_def tx_bind_def tx_return_def)
  next
    assume "filter cond (rows (content d)) = [] \<and> t_First T cond d = Err (Sentinel ErrRecordNotFound)"
    with assms(2) d show ?thesis by (auto simp: tx_catch_def tx_read_def tx_bind_def runs_def record_not_found_def)
  next
    assume "\<exists>e. t_First T cond d = Err e \<and> db_failure G e"
    then show ?thesis by (auto simp: tx_catch_def tx_read_def tx_bind_def failure_not_missing)
  qed
qed

lemma runs_Find:
  assumes "g_Collate G = (\<le>)" and "0 \<le> limit" and "0 \<le> offset"
    and "\<And>xs. mset xs = mset (filter cond (rows tb)) \<Longrightarrow> sorted (map order xs) \<Longrightarrow> Q (Ok (page_window xs limit offset)) tb"
  shows "runs G content (tx_read (t_Find T cond (Some order) limit offset)) tb0 tb Q"
  by (rule runs_read)
    (use Find_law [OF assms(2,3), of cond _ order] assms(4) in \<open>force simp: assms(1) columns_le_bytewise sorted_map\<close>)

lemma runs_Find_all:
  assumes "\<And>xs. mset xs = mset (filter cond (rows tb)) \<Longrightarrow> Q (Ok xs) tb"
  shows "runs G content (tx_read (t_Find T cond None (- 1) 0)) tb0 tb Q"
  by (rule runs_read) (use Find_all_law [of cond] assms in force)

text \<open>The end of the listing methods serves the window of any list that has the converted rows in the order of their columns.\<close>

lemma runs_sql_page:
  assumes "g_Collate G = (\<le>)" and "0 \<le> limit" and "0 \<le> offset"
    and "\<And>xs. mset xs = mset (filter cond (rows tb)) \<Longrightarrow> sorted (map order xs) \<Longrightarrow>
      Q (Ok \<lparr>pg_Total = int (length xs), pg_Offset = offset, pg_Items = page_window (map conv xs) limit offset\<rparr>) tb"
  shows "runs G content (sql_page T cond order conv z limit offset) tb0 tb Q"
proof -
  have len: "length xs = length (filter cond (rows tb))" if "mset xs = mset (filter cond (rows tb))" for xs
    using that by (metis size_mset)
  have empty: "Q (Ok \<lparr>pg_Total = int (length (filter cond (rows tb))), pg_Offset = offset, pg_Items = []\<rparr>) tb"
    if "limit = 0 \<or> int (length (filter cond (rows tb))) \<le> offset"
    using assms(4) [of "sort_key order (filter cond (rows tb))"] that by (auto simp: page_window_def)
  have window: "map conv (page_window xs limit offset) = page_window (map conv xs) limit offset" for xs
    by (simp add: page_window_def take_map drop_map)
  show ?thesis unfolding sql_page_def
    by (rule runs_bind, rule runs_Count)
      (auto intro!: runs_return runs_bind runs_Find assms(1-3) simp: empty window len [symmetric] assms(4))
qed

end

text \<open>A transaction: an error or a failure of any step restores the content.\<close>

context gorm_laws
begin

lemma withTx2_runs:
  assumes "runs G content m tb tb (\<lambda>r. Q (tx_wrap r))"
  shows "tx_runs G content (withTx2 G m) tb Q"
  unfolding tx_runs_def
proof (intro allI impI)
  fix d assume d: "content d = tb"
  show "case withTx2 G m d of (r, d') \<Rightarrow> Q r (content d') \<or> (\<exists>e. r = Err (Fmt [e]) \<and> db_failure G e \<and> content d' = tb)"
  proof (cases "g_Begin G d")
    case (Ok tx)
    with Begin_law [of d] d have tx: "content tx = tb" by auto
    obtain r d' where m: "m tx = (r, d')" by (cases "m tx")
    with assms tx Ok d Commit_law [of d'] Rollback_law show ?thesis
      unfolding runs_def by (cases r) (fastforce simp: withTx2_def)+
  next
    case (Err e)
    with Begin_law [of d] d show ?thesis by (auto simp: withTx2_def)
  next
    case Panic
    with Begin_law [of d] show ?thesis by simp
  qed
qed

lemma withTx_runs:
  assumes "runs G content m tb tb (\<lambda>r. Q (tx_wrap r))"
  shows "tx_runs G content (withTx G m) tb Q"
  using withTx2_runs [OF assms] by (simp add: tx_runs_def withTx_def)

end

end
