(* ===== verification/Sql_Sim.thy ===== *)
theory Sql_Sim
  imports Sql_Laws Memory_Props
begin

text \<open>
  The relation between a database and a state of the in-memory backend that store the same data, table by table, and how the
  updates of a table and of a map keep it.
\<close>

section \<open>Rows by key\<close>

lemma row_at_None: "row_at pk rows k = None \<longleftrightarrow> k \<notin> pk ` set rows"
  by (induction rows) (auto simp: row_at_def)

lemma row_at_Some: "distinct (map pk rows) \<Longrightarrow> row_at pk rows k = Some r \<longleftrightarrow> r \<in> set rows \<and> pk r = k"
  by (auto simp: row_at_def map_of_eq_Some_iff comp_def)

lemma row_at_SomeD: "row_at pk rows k = Some r \<Longrightarrow> r \<in> set rows \<and> pk r = k"
  by (auto simp: row_at_def dest: map_of_SomeD)

lemma row_at_appends:
  "row_at pk (rows @ rs) k = (case row_at pk rows k of Some r \<Rightarrow> Some r | None \<Rightarrow> row_at pk rs k)"
  by (simp add: row_at_def map_add_def split: option.split)

lemma row_at_append: "row_at pk rows (pk r) = None \<Longrightarrow> row_at pk (rows @ [r]) = (row_at pk rows)(pk r \<mapsto> r)"
  by (rule ext) (auto simp: row_at_def map_add_def split: option.splits)

lemma row_at_put: "row_at pk (put_row pk r rows) = (row_at pk rows)(pk r \<mapsto> r)"
proof (cases "pk r \<in> pk ` set rows")
  case True
  have "row_at pk (map (\<lambda>x. if pk x = pk r then r else x) rows) k =
      (if k = pk r then if k \<in> pk ` set rows then Some r else None else row_at pk rows k)" for k
    by (induction rows) (auto simp: row_at_def)
  with True show ?thesis by (auto simp: put_row_def)
next
  case False
  then show ?thesis by (simp add: put_row_def row_at_append row_at_None)
qed

lemma row_at_filter:
  "distinct (map pk rows) \<Longrightarrow>
     row_at pk (filter P rows) k = (case row_at pk rows k of Some r \<Rightarrow> if P r then Some r else None | None \<Rightarrow> None)"
  by (induction rows) (auto simp: row_at_def map_of_eq_None_iff split: option.splits dest: map_of_SomeD)

text \<open>A deletion by columns of the primary key.\<close>

lemma row_at_filter_key:
  "(\<And>r. P r \<longleftrightarrow> PK (pk r)) \<Longrightarrow> row_at pk (filter P rows) k = (if PK k then row_at pk rows k else None)"
  by (induction rows) (auto simp: row_at_def)

lemma row_at_delete:
  "row_at u_Username (filter (\<lambda>r. u_Username r \<noteq> u) us) v = (if v \<noteq> u then row_at u_Username us v else None)"
  "row_at key_pk (filter (\<lambda>r. ak_Username r \<noteq> u) ks) (v, k) = (if v \<noteq> u then row_at key_pk ks (v, k) else None)"
  "row_at key_pk (filter (\<lambda>r. key_pk r \<noteq> kp) ks) (v, k) = (if (v, k) \<noteq> kp then row_at key_pk ks (v, k) else None)"
  "row_at role_pk (filter (\<lambda>r. ro_Username r \<noteq> u) rs) (n, v) = (if v \<noteq> u then row_at role_pk rs (n, v) else None)"
  "row_at role_pk (filter (\<lambda>r. ro_NamespaceID r = m \<longrightarrow> ro_Username r \<noteq> u) rs) (n, v) =
     (if n = m \<longrightarrow> v \<noteq> u then row_at role_pk rs (n, v) else None)"
  "row_at mo_BaseURI (filter (\<lambda>r. mo_BaseURI r \<noteq> b) ms) c = (if c \<noteq> b then row_at mo_BaseURI ms c else None)"
  "row_at grant_pk (filter (\<lambda>r. mg_Username r \<noteq> u) gs) (v, p) = (if v \<noteq> u then row_at grant_pk gs (v, p) else None)"
  "row_at grant_pk (filter (\<lambda>r. mg_Username r = u \<longrightarrow> mg_Pattern r \<noteq> q) gs) (v, p) =
     (if v = u \<longrightarrow> p \<noteq> q then row_at grant_pk gs (v, p) else None)"
  by (rule row_at_filter_key [where PK = "\<lambda>k. k \<noteq> u"] row_at_filter_key [where PK = "\<lambda>(v, k). v \<noteq> u" and k = "(v, k)", simplified]
      row_at_filter_key [where PK = "\<lambda>k. k \<noteq> kp"] row_at_filter_key [where PK = "\<lambda>(n, v). v \<noteq> u" and k = "(n, v)", simplified]
      row_at_filter_key [where PK = "\<lambda>(n, v). n = m \<longrightarrow> v \<noteq> u" and k = "(n, v)", simplified]
      row_at_filter_key [where PK = "\<lambda>k. k \<noteq> b"] row_at_filter_key [where PK = "\<lambda>(v, p). v \<noteq> u" and k = "(v, p)", simplified]
      row_at_filter_key [where PK = "\<lambda>(v, p). v = u \<longrightarrow> p \<noteq> q" and k = "(v, p)", simplified]; simp add: pk_defs)+

lemma row_at_map: "(\<And>r. pk (f r) = pk r) \<Longrightarrow> row_at pk (map f rows) k = map_option f (row_at pk rows k)"
  by (induction rows) (auto simp: row_at_def)

lemma distinct_put_row: "distinct (map pk rows) \<Longrightarrow> distinct (map pk (put_row pk r rows))"
proof -
  assume d: "distinct (map pk rows)"
  have "map pk (map (\<lambda>x. if pk x = pk r then r else x) rows) = map pk rows" by (induction rows) auto
  with d show ?thesis by (auto simp: put_row_def simp del: map_map map_eq_conv)
qed

lemma distinct_filter_rows: "distinct (map pk rows) \<Longrightarrow> distinct (map pk (filter P rows))"
  by (rule distinct_map_filter)

lemma distinct_map_rows: "(\<And>r. pk (f r) = pk r) \<Longrightarrow> distinct (map pk (map f rows)) \<longleftrightarrow> distinct (map pk rows)"
  by (simp add: comp_def)

lemma set_put_row: "set (put_row pk r rows) \<subseteq> insert r (set rows)"
  by (auto simp: put_row_def)

lemma set_put_rowE: "x \<in> set (put_row pk r rows) \<Longrightarrow> x = r \<or> x \<in> set rows"
  using set_put_row by fast

lemma count_key_0: "length (filter (\<lambda>r. pk r = k) rows) = 0 \<longleftrightarrow> row_at pk rows k = None"
  by (auto simp: row_at_None filter_empty_conv)

lemma fresh_row: "fresh_rows pk rows [r] \<longleftrightarrow> row_at pk rows (pk r) = None"
  by (simp add: fresh_rows_def row_at_None)

lemmas row_at_simps = row_at_append row_at_put row_at_filter row_at_map distinct_put_row distinct_filter_rows

section \<open>The relation\<close>

definition userRow_hash :: "userRow \<Rightarrow> byte list" where
  "userRow_hash r = (case u_Password r of None \<Rightarrow> [] | Some p \<Rightarrow> pw_Hash p)"

definition apiKeyRow_record :: "apiKeyRow \<Rightarrow> keyRecord" where
  "apiKeyRow_record r = \<lparr>kr_info = apiKeyRow_toSpec r, kr_prefix = ak_Prefix r, kr_digest = ak_Digest r\<rparr>"

definition sim_users :: "userRow list \<Rightarrow> (string, userRecord) dict \<Rightarrow> bool" where
  "sim_users rows U \<longleftrightarrow> distinct (map u_Username rows) \<and>
     (\<forall>r \<in> set rows. \<not> nonnil (u_Password r) (\<lambda>p. pw_Username p \<noteq> u_Username r \<or> pw_Hash p = [])) \<and>
     (\<forall>u. map_option (\<lambda>r. (u_Superuser r, userRow_hash r)) (row_at u_Username rows u) =
          map_option (\<lambda>x. (ur_superuser x, ur_passwordHash x)) (dget U u))"

definition sim_keys :: "apiKeyRow list \<Rightarrow> (string, userRecord) dict \<Rightarrow> bool" where
  "sim_keys rows U \<longleftrightarrow> distinct (map key_pk rows) \<and>
     (\<forall>u k. map_option apiKeyRow_record (row_at key_pk rows (u, k)) = Option.bind (dget U u) (\<lambda>x. dget (ur_keys x) k))"

definition sim_namespaces :: "namespaceRow list \<Rightarrow> (string, NamespaceResponse) dict \<Rightarrow> bool" where
  "sim_namespaces rows N \<longleftrightarrow> distinct (map ns_ID rows) \<and> (\<forall>r \<in> set rows. \<forall>t \<in> set (ns_TagRows r). nt_NamespaceID t = ns_ID r) \<and>
     (\<forall>n. map_option namespaceRow_toSpec (row_at ns_ID rows n) = dget N n)"

definition sim_resources :: "resourceRow list \<Rightarrow> (string, (string, ResourceResponse) dict) dict \<Rightarrow> bool" where
  "sim_resources rows R \<longleftrightarrow> distinct (map resource_pk rows) \<and>
     (\<forall>r \<in> set rows. \<forall>t \<in> set (rs_TagRows r). (rt_NamespaceID t, rt_PID t) = resource_pk r) \<and>
     (\<forall>n p. map_option resourceRow_toSpec (row_at resource_pk rows (n, p)) = dget (inner R n) p)"

definition sim_roles :: "namespaceRoleRow list \<Rightarrow> (string, (string, Role) dict) dict \<Rightarrow> bool" where
  "sim_roles rows Ro \<longleftrightarrow> distinct (map role_pk rows) \<and>
     (\<forall>n u. map_option ro_Role (row_at role_pk rows (n, u)) = dget (inner Ro n) u)"

definition sim_mounts :: "mountRow list \<Rightarrow> (string, string) dict \<Rightarrow> bool" where
  "sim_mounts rows M \<longleftrightarrow> distinct (map mo_BaseURI rows) \<and> (\<forall>b. map_option mo_NamespaceID (row_at mo_BaseURI rows b) = dget M b)"

definition sim_grants :: "userMountGrantRow list \<Rightarrow> (string, (string, unit) dict) dict \<Rightarrow> bool" where
  "sim_grants rows Gr \<longleftrightarrow> distinct (map grant_pk rows) \<and>
     (\<forall>u p. map_option (\<lambda>_. ()) (row_at grant_pk rows (u, p)) = dget (inner Gr u) p)"

definition sim :: "tables \<Rightarrow> memory \<Rightarrow> bool" where
  "sim tb s \<longleftrightarrow> mem_inv s \<and> sim_users (tb_users tb) (mem_users s) \<and> sim_keys (tb_keys tb) (mem_users s) \<and>
     sim_namespaces (tb_namespaces tb) (mem_namespaces s) \<and> sim_resources (tb_resources tb) (mem_resources s) \<and>
     sim_roles (tb_roles tb) (mem_roles s) \<and> sim_mounts (tb_mounts tb) (mem_mounts s) \<and>
     sim_grants (tb_grants tb) (mem_mountGrants s)"

text \<open>
  Two results that no caller can tell apart: the same value, or errors with the same sentinels and the same code (the SQL
  backend wraps its errors once more).
\<close>

definition agree :: "(gerr, 'a) res \<Rightarrow> (gerr, 'a) res \<Rightarrow> bool" where
  "agree r r' \<longleftrightarrow> (case (r, r') of
      (Ok x, Ok y) \<Rightarrow> x = y
    | (Err e, Err e') \<Rightarrow> (\<forall>s. errors_is e s \<longleftrightarrow> errors_is e' s) \<and> GetErrorCode e = GetErrorCode e'
    | (Panic, Panic) \<Rightarrow> True
    | _ \<Rightarrow> False)"

lemma agree_simps [simp]:
  "agree (Ok x) (Ok y) \<longleftrightarrow> x = y" "agree (Err (Fmt [e])) (Err e)" "agree Panic Panic"
  using GetErrorCode_wrap errors_is_wrap by (simp_all add: agree_def del: GetErrorCode.simps errors_is.simps)

definition refines :: "(gerr, 'a) res \<times> memory \<Rightarrow> (gerr, 'a) res \<Rightarrow> tables \<Rightarrow> bool" where
  "refines m r tb \<longleftrightarrow> agree r (fst m) \<and> sim tb (snd m)"

section \<open>Lookups\<close>

lemma option_eq_None: "map_option f x = map_option g y \<Longrightarrow> x = None \<longleftrightarrow> y = None"
  by (cases x; cases y) auto

lemma sim_user_missing: "sim tb s \<Longrightarrow> row_at u_Username (tb_users tb) u = None \<longleftrightarrow> \<not> dhas (mem_users s) u"
  unfolding sim_def sim_users_def dhas_def using option_eq_None by (metis (no_types, lifting))

lemma sim_namespace_missing: "sim tb s \<Longrightarrow> row_at ns_ID (tb_namespaces tb) n = None \<longleftrightarrow> \<not> dhas (mem_namespaces s) n"
  unfolding sim_def sim_namespaces_def dhas_def by (metis option.map_disc_iff)

lemma sim_user_row:
  assumes "sim tb s" and "r \<in> set (tb_users tb)"
  obtains x where "dget (mem_users s) (u_Username r) = Some x" "ur_superuser x = u_Superuser r"
    "ur_passwordHash x = userRow_hash r"
    "toSpec x (u_Username r) = userRow_toSpec r"
proof -
  from assms have d: "distinct (map u_Username (tb_users tb))" by (simp add: sim_def sim_users_def)
  with assms(2) have "row_at u_Username (tb_users tb) (u_Username r) = Some r" by (simp add: row_at_Some)
  with assms(1) have "map_option (\<lambda>x. (ur_superuser x, ur_passwordHash x)) (dget (mem_users s) (u_Username r)) =
      Some (u_Superuser r, userRow_hash r)"
    unfolding sim_def sim_users_def by (metis (no_types, lifting) option.simps(9))
  then obtain x where x: "dget (mem_users s) (u_Username r) = Some x" "ur_superuser x = u_Superuser r"
    "ur_passwordHash x = userRow_hash r" by auto
  moreover from this have "toSpec x (u_Username r) = userRow_toSpec r"
    by (simp add: toSpec_def userRow_toSpec_def userRow_hash_def nonnil_def split: option.splits)
  ultimately show ?thesis by (rule that)
qed

section \<open>Updates of users and keys\<close>

lemma sim_users_new:
  assumes "sim_users rows U" and "row_at u_Username rows u = None"
  shows "sim_users (rows @ [\<lparr>u_Username = u, u_Superuser = b, u_Password = None\<rparr>])
    (dset u \<lparr>ur_superuser = b, ur_passwordHash = [], ur_keys = ks\<rparr> U)"
  using assms by (auto simp: sim_users_def row_at_append row_at_None dict_simps userRow_hash_def)

lemma sim_keys_new:
  assumes "sim_keys rows U" and "\<not> dhas U u" and "ur_keys x = []"
  shows "sim_keys rows (dset u x U)"
  using assms by (auto simp: sim_keys_def dict_simps dhas_def)

lemma sim_keys_same:
  assumes "sim_keys rows U" and "dget U u = Some x" and "ur_keys x' = ur_keys x"
  shows "sim_keys rows (dset u x' U)"
  using assms by (auto simp: sim_keys_def dict_simps)

text \<open>A change of the columns of one user.\<close>

lemma sim_users_change:
  assumes "sim_users rows U" and "row_at u_Username rows u = Some r0"
    and f: "\<And>r. u_Username (f r) = u_Username r"
    and pw: "\<And>r. r \<in> set rows \<Longrightarrow> u_Username r = u \<Longrightarrow>
      \<not> nonnil (u_Password (f r)) (\<lambda>p. pw_Username p \<noteq> u_Username r \<or> pw_Hash p = [])"
    and x: "ur_superuser x' = u_Superuser (f r0)" "ur_passwordHash x' = userRow_hash (f r0)"
  shows "sim_users (map (\<lambda>r. if u_Username r = u then f r else r) rows) (dset u x' U)"
proof -
  let ?f = "\<lambda>r. if u_Username r = u then f r else r"
  have pk: "u_Username (?f r) = u_Username r" for r
    using f by simp
  have at: "row_at u_Username (map ?f rows) v = map_option ?f (row_at u_Username rows v)" for v
    by (rule row_at_map) (rule pk)
  have "map u_Username (map ?f rows) = map u_Username rows"
    using pk by simp
  then have "distinct (map u_Username (map ?f rows))"
    using assms(1) by (simp only: sim_users_def)
  moreover have "\<not> nonnil (u_Password r) (\<lambda>p. pw_Username p \<noteq> u_Username r \<or> pw_Hash p = [])" if "r \<in> set (map ?f rows)" for r
    using that assms(1) pw f by (auto simp: sim_users_def)
  moreover have "map_option (\<lambda>r. (u_Superuser r, userRow_hash r)) (row_at u_Username (map ?f rows) v) =
      map_option (\<lambda>x. (ur_superuser x, ur_passwordHash x)) (dget (dset u x' U) v)" for v
  proof (cases "v = u")
    case True
    with assms(2) have "u_Username r0 = u" using row_at_SomeD by fastforce
    with True x assms(2) show ?thesis by (simp add: at dict_simps)
  next
    case False
    then have "map_option ?f (row_at u_Username rows v) = row_at u_Username rows v"
      by (cases "row_at u_Username rows v") (auto dest: row_at_SomeD)
    with False assms(1) show ?thesis by (simp add: at dict_simps sim_users_def)
  qed
  ultimately show ?thesis unfolding sim_users_def by blast
qed

lemma sim_users_delete: "sim_users rows U \<Longrightarrow> sim_users (filter (\<lambda>r. u_Username r \<noteq> u) rows) (ddel u U)"
  by (auto simp: sim_users_def row_at_delete distinct_filter_rows dict_simps)

lemma sim_keys_delete_user: "sim_keys rows U \<Longrightarrow> sim_keys (filter (\<lambda>r. ak_Username r \<noteq> u) rows) (ddel u U)"
  by (auto simp: sim_keys_def row_at_delete distinct_filter_rows dict_simps)

lemma sim_roles_delete_user:
  assumes "sim_roles rows Ro" and "wf_dict Ro"
  shows "sim_roles (filter (\<lambda>r. ro_Username r \<noteq> u) rows) (dsweep (\<lambda>n byUser.
      let byUser = ddel u byUser in if length byUser = 0 then None else Some byUser) Ro)"
proof -
  let ?Ro = "dsweep (\<lambda>n byUser. let byUser = ddel u byUser in if length byUser = 0 then None else Some byUser) Ro"
  have "dget (inner ?Ro n) v = (if v = u then None else dget (inner Ro n) v)" for n v
    using assms(2) by (auto simp: inner_def dget_dsweep Let_def dget_ddel dict_empty_iff [of "ddel u _"]
        split: option.splits bind_splits)
  with assms(1) show ?thesis
    by (auto simp: sim_roles_def row_at_delete distinct_filter_rows)
qed

lemma sim_grants_delete_user: "sim_grants rows Gr \<Longrightarrow> sim_grants (filter (\<lambda>r. mg_Username r \<noteq> u) rows) (ddel u Gr)"
  by (auto simp: sim_grants_def row_at_delete distinct_filter_rows dict_simps inner_def)

section \<open>Listings\<close>

lemma strict_sorted_unique:
  fixes key :: "'a \<Rightarrow> 'o::linorder"
  assumes "sorted_wrt (\<lambda>a b. key a < key b) xs" and "sorted_wrt (\<lambda>a b. key a < key b) ys" and "set xs = set ys"
  shows "xs = ys"
proof -
  have s: "sorted (map key zs) \<and> distinct (map key zs)" if "sorted_wrt (\<lambda>a b. key a < key b) zs" for zs
    using that by (metis sorted_wrt_map strict_sorted_iff)
  then have "distinct xs" "distinct ys" using assms(1,2) by (auto simp: distinct_map)
  with assms(3) have "mset xs = mset ys" by (simp add: set_eq_iff_mset_eq_distinct)
  then have "sort_key key xs = sort_key key ys"
    using s [OF assms(1)] by (intro sort_key_perm_unique) simp_all
  then show ?thesis using s [OF assms(1)] s [OF assms(2)] by (simp add: sort_key_sorted)
qed

text \<open>
  Rows in the order of their columns, converted, are the sorted listing of a map with the same entries.
\<close>

lemma listing_rows:
  fixes key :: "'a \<Rightarrow> 'o::linorder" and order :: "'r \<Rightarrow> 'p::linorder"
  assumes xs: "mset xs = mset (filter cond rows)" "sorted (map order xs)"
    and ord: "\<And>r r'. order r \<le> order r' \<Longrightarrow> key (conv r) \<le> key (conv r')"
    and rows: "distinct (map pk rows)"
      "\<And>r r'. r \<in> set rows \<Longrightarrow> r' \<in> set rows \<Longrightarrow> cond r \<Longrightarrow> cond r' \<Longrightarrow> key (conv r) = key (conv r') \<Longrightarrow> pk r = pk r'"
    and D: "wf_dict D" "\<And>k v k' v' a b. dget D k = Some v \<Longrightarrow> dget D k' = Some v' \<Longrightarrow>
      sel (k, v) = Some a \<Longrightarrow> sel (k', v') = Some b \<Longrightarrow> key a = key b \<Longrightarrow> k = k'"
    and same: "\<And>r. r \<in> set rows \<Longrightarrow> cond r \<Longrightarrow> \<exists>k v. dget D k = Some v \<and> sel (k, v) = Some (conv r)"
      "\<And>k v a. dget D k = Some v \<Longrightarrow> sel (k, v) = Some a \<Longrightarrow> \<exists>r \<in> set rows. cond r \<and> conv r = a"
  shows "map conv xs = listing key sel D"
proof (rule strict_sorted_unique [where key = key])
  have set: "set xs = set (filter cond rows)" using xs(1) by (rule mset_eq_setD)
  have "inj_on pk (set rows)" "distinct rows" using rows(1) by (auto simp: distinct_map)
  then have "distinct (filter cond rows)" "inj_on (key \<circ> conv) (set (filter cond rows))"
    using rows(2) by (auto intro!: inj_onI) (metis inj_onD)
  then have "distinct (map (key \<circ> conv) xs)"
    using set mset_eq_imp_distinct_iff [OF xs(1)] by (simp add: distinct_map)
  moreover have "sorted (map (key \<circ> conv) xs)"
    using xs(2) unfolding sorted_map by (rule sorted_wrt_mono_rel [rotated]) (simp add: ord)
  ultimately show "sorted_wrt (\<lambda>a b. key a < key b) (map conv xs)"
    using strict_sorted_iff [of "map (key \<circ> conv) xs"] by (simp add: sorted_wrt_map)
  show "sorted_wrt (\<lambda>a b. key a < key b) (listing key sel D)"
    using D by (rule strict_sorted_listing)
  show "set (map conv xs) = set (listing key sel D)"
    using same(1) by (auto simp: set set_listing [OF D(1)] dest!: same(2))
qed

lemma agree_page:
  assumes "map conv xs = L" and "0 \<le> limit" and "0 \<le> offset" and "offset + limit \<le> max_int"
  shows "agree (Ok \<lparr>pg_Total = int (length xs), pg_Offset = offset, pg_Items = page_window (map conv xs) limit offset\<rparr>)
    (paginate L limit offset)"
  using assms by (auto simp: paginate_window)

lemma sim_user_record:
  assumes "sim tb s" and "dget (mem_users s) u = Some x"
  obtains r where "r \<in> set (tb_users tb)" "u_Username r = u" "ur_superuser x = u_Superuser r"
    "ur_passwordHash x = userRow_hash r" "toSpec x u = userRow_toSpec r"
proof -
  from assms have "dhas (mem_users s) u" by (simp add: dhas_def)
  then obtain r where "row_at u_Username (tb_users tb) u = Some r"
    using sim_user_missing [OF assms(1), of u] by auto
  then have r: "r \<in> set (tb_users tb)" "u_Username r = u" by (auto dest: row_at_SomeD)
  from sim_user_row [OF assms(1) r(1)] assms(2) r that show ?thesis by (metis option.inject)
qed

lemma userRow_hash_nonempty:
  "sim tb s \<Longrightarrow> r \<in> set (tb_users tb) \<Longrightarrow> 0 < length (userRow_hash r) \<longleftrightarrow> u_Password r \<noteq> None"
  by (auto simp: sim_def sim_users_def userRow_hash_def nonnil_def split: option.splits)

section \<open>Passwords and keys\<close>

lemma set_tb_passwords: "p \<in> set (tb_passwords tb) \<longleftrightarrow> (\<exists>r \<in> set (tb_users tb). u_Password r = Some p)"
  by (force simp: tb_passwords_def List.map_filter_def)

lemma sim_password_row:
  assumes "sim tb s" and "p \<in> set (tb_passwords tb)"
  obtains x where "dget (mem_users s) (pw_Username p) = Some x" "ur_passwordHash x = pw_Hash p" "pw_Hash p \<noteq> []"
proof -
  from assms(2) obtain r where r: "r \<in> set (tb_users tb)" "u_Password r = Some p" by (auto simp: set_tb_passwords)
  with assms(1) have "pw_Username p = u_Username r" "pw_Hash p \<noteq> []" by (auto simp: sim_def sim_users_def)
  with sim_user_row [OF assms(1) r(1)] r(2) that show ?thesis by (metis userRow_hash_def option.case(2))
qed

lemma sim_password_missing:
  assumes "sim tb s" and "dget (mem_users s) u = Some x" and "filter (\<lambda>p. pw_Username p = u) (tb_passwords tb) = []"
  shows "ur_passwordHash x = []"
proof -
  from assms(2) obtain r where r: "r \<in> set (tb_users tb)" "u_Username r = u" "ur_passwordHash x = userRow_hash r"
    by (rule sim_user_record [OF assms(1)])
  have "u_Password r = None"
  proof (rule ccontr)
    assume "u_Password r \<noteq> None"
    then obtain p where "u_Password r = Some p" by auto
    with r assms(1) have "pw_Username p = u" "p \<in> set (tb_passwords tb)"
      by (auto simp: set_tb_passwords sim_def sim_users_def)
    with assms(3) show False by (auto simp: filter_empty_conv)
  qed
  with r(3) show ?thesis by (simp add: userRow_hash_def)
qed

lemma sim_row_at_user: "sim tb s \<Longrightarrow> r \<in> set (tb_users tb) \<Longrightarrow> row_at u_Username (tb_users tb) (u_Username r) = Some r"
  by (simp add: row_at_Some sim_def sim_users_def)

lemma sim_users_set_password:
  assumes "sim tb s" and "dget (mem_users s) u = Some x" and "hash \<noteq> []"
  shows "sim_users (map (\<lambda>r. if u_Username r = u then r\<lparr>u_Password := Some \<lparr>pw_Username = u, pw_Hash = hash\<rparr>\<rparr> else r) (tb_users tb))
    (dset u (x\<lparr>ur_passwordHash := hash\<rparr>) (mem_users s))"
proof -
  from assms(2) obtain r where "r \<in> set (tb_users tb)" "u_Username r = u" "ur_superuser x = u_Superuser r"
    by (rule sim_user_record [OF assms(1)])
  with assms sim_row_at_user [OF assms(1), of r] show ?thesis
    by (intro sim_users_change [where ?r0.0 = r]) (auto simp: sim_def userRow_hash_def)
qed

lemma sim_users_drop_password:
  assumes "sim tb s" and "dget (mem_users s) u = Some x"
  shows "sim_users (tb_users (drop_passwords (\<lambda>p. pw_Username p = u) tb)) (dset u (x\<lparr>ur_passwordHash := []\<rparr>) (mem_users s))"
proof -
  from assms(2) obtain r where "r \<in> set (tb_users tb)" "u_Username r = u" "ur_superuser x = u_Superuser r"
    by (rule sim_user_record [OF assms(1)])
  with assms sim_row_at_user [OF assms(1), of r]
  have "sim_users (map (\<lambda>r. if u_Username r = u then r\<lparr>u_Password := None\<rparr> else r) (tb_users tb))
      (dset u (x\<lparr>ur_passwordHash := []\<rparr>) (mem_users s))"
    by (intro sim_users_change [where ?r0.0 = r]) (auto simp: sim_def userRow_hash_def)
  moreover have "(if nonnil (u_Password r) (\<lambda>p. pw_Username p = u) then r\<lparr>u_Password := None\<rparr> else r) =
      (if u_Username r = u then r\<lparr>u_Password := None\<rparr> else r)" if "r \<in> set (tb_users tb)" for r
    using assms(1) that by (cases "u_Password r") (auto simp: sim_def sim_users_def)
  ultimately show ?thesis by (simp add: drop_passwords_def cong: map_cong)
qed

lemma sim_keys_get:
  "sim tb s \<Longrightarrow> Option.bind (dget (mem_users s) u) (\<lambda>x. dget (ur_keys x) k) = map_option apiKeyRow_record (row_at key_pk (tb_keys tb) (u, k))"
  by (simp add: sim_def sim_keys_def)

lemma key_at_bind: "key_at U u k r \<longleftrightarrow> Option.bind (dget U u) (\<lambda>x. dget (ur_keys x) k) = Some r"
  by (auto simp: key_at_def bind_eq_Some_conv)

lemma sim_key_at: "sim tb s \<Longrightarrow> row_at key_pk (tb_keys tb) (u, k) = Some r \<Longrightarrow> key_at (mem_users s) u k (apiKeyRow_record r)"
  by (simp add: key_at_bind sim_keys_get)

lemma sim_key_row:
  "sim tb s \<Longrightarrow> r \<in> set (tb_keys tb) \<Longrightarrow> key_at (mem_users s) (ak_Username r) (ak_KeyID r) (apiKeyRow_record r)"
  by (rule sim_key_at) (auto simp: sim_def sim_keys_def row_at_Some key_pk_def)

lemma sim_key_record:
  assumes "sim tb s" and "key_at (mem_users s) u k x"
  obtains r where "r \<in> set (tb_keys tb)" "ak_Username r = u" "ak_KeyID r = k" "x = apiKeyRow_record r"
proof -
  from assms have "map_option apiKeyRow_record (row_at key_pk (tb_keys tb) (u, k)) = Some x"
    by (simp add: key_at_bind sim_keys_get)
  then obtain r where "row_at key_pk (tb_keys tb) (u, k) = Some r" "x = apiKeyRow_record r" by auto
  with that show ?thesis by (auto dest!: row_at_SomeD simp: key_pk_def)
qed

lemma sim_key_missing:
  assumes "sim tb s" and "dget (mem_users s) u = Some x"
  shows "row_at key_pk (tb_keys tb) (u, k) = None \<longleftrightarrow> \<not> dhas (ur_keys x) k"
  using sim_keys_get [OF assms(1), of u k] assms(2) by (auto simp: dhas_def)

lemma sim_keys_create:
  assumes "sim_keys rows U" and "dget U u = Some x" and "row_at key_pk rows (u, k) = None" and "key_pk r = (u, k)"
  shows "sim_keys (rows @ [r]) (dset u (x\<lparr>ur_keys := dset k (apiKeyRow_record r) (ur_keys x)\<rparr>) U)"
proof -
  have "row_at key_pk (rows @ [r]) = (row_at key_pk rows)((u, k) \<mapsto> r)"
    using row_at_append [of key_pk rows r] assms(3,4) by simp
  with assms show ?thesis by (auto simp: sim_keys_def dict_simps row_at_None)
qed

lemma sim_keys_revoke:
  assumes "sim_keys rows U" and "dget U u = Some x"
  shows "sim_keys (filter (\<lambda>r. key_pk r \<noteq> (u, k)) rows) (dset u (x\<lparr>ur_keys := ddel k (ur_keys x)\<rparr>) U)"
  using assms by (auto simp: sim_keys_def dict_simps row_at_delete distinct_filter_rows)

lemma sim_users_same:
  assumes "sim_users rows U" and "dget U u = Some x" and "ur_superuser x' = ur_superuser x" "ur_passwordHash x' = ur_passwordHash x"
  shows "sim_users rows (dset u x' U)"
  using assms by (auto simp: sim_users_def dict_simps)

end
