(* ===== verification/Sql_Refine.thy ===== *)
theory Sql_Refine
  imports Sql_Sim
begin

text \<open>
  The operations of the SQL backend refine those of the in-memory backend: from related states, an operation either fails in the
  database and changes nothing, or it returns what the in-memory operation returns and the states after it are related again.
\<close>

section \<open>Users\<close>

lemma sim_mem: "sim tb s \<Longrightarrow> mem_inv s"
  by (simp add: sim_def)

lemma refinesI: "agree r (fst m) \<Longrightarrow> sim tb (snd m) \<Longrightarrow> refines m r tb"
  by (simp add: refines_def)

context gorm_laws
begin

lemma runs_ensureUser:
  assumes "sim tb s" and "\<not> dhas (mem_users s) u \<Longrightarrow> Q (Err (Sentinel ErrUserNotFound)) tb0"
    and "dhas (mem_users s) u \<Longrightarrow> Q (Ok ()) tb"
  shows "runs G content (ensureUserExists G u) tb0 tb Q"
  unfolding ensureUserExists_def
  by (rule runs_bind, rule users.runs_Count)
    (use assms sim_user_missing [OF assms(1), of u] in \<open>auto simp: count_key_0 [simplified] intro!: runs_error runs_return\<close>)

lemma runs_ensureNamespace:
  assumes "sim tb s" and "\<not> dhas (mem_namespaces s) n \<Longrightarrow> Q (Err (Sentinel ErrNamespaceNotFound)) tb0"
    and "dhas (mem_namespaces s) n \<Longrightarrow> Q (Ok ()) tb"
  shows "runs G content (ensureNamespaceExists G n) tb0 tb Q"
  unfolding ensureNamespaceExists_def
  by (rule runs_bind, rule namespaces.runs_Count)
    (use assms sim_namespace_missing [OF assms(1), of n] in \<open>auto simp: count_key_0 [simplified] intro!: runs_error runs_return\<close>)

lemma runs_findUser:
  assumes "sim tb s" and "\<not> dhas (mem_users s) u \<Longrightarrow> Q (Err (Sentinel ErrUserNotFound)) tb0"
    and "\<And>r. r \<in> set (tb_users tb) \<Longrightarrow> u_Username r = u \<Longrightarrow> Q (Ok r) tb"
  shows "runs G content (findUser G u) tb0 tb Q"
  unfolding findUser_def
  by (rule users.runs_First)
    (use assms sim_user_missing [OF assms(1), of u] in \<open>auto simp: row_at_None filter_empty_conv intro!: runs_error\<close>)

lemma CreateUser_refines:
  assumes "sim tb s"
  shows "tx_runs G content (sql_CreateUser G req now) tb (refines (mem_CreateUser req now s))"
proof -
  have missing: "row_at u_Username (tb_users tb) (ucr_Username req) = None \<longleftrightarrow> \<not> dhas (mem_users s) (ucr_Username req)"
    by (rule sim_user_missing [OF assms])
  have ok: "sim (tb\<lparr>tb_users := tb_users tb @ [\<lparr>u_Username = ucr_Username req, u_Superuser = ucr_Superuser req, u_Password = None\<rparr>]\<rparr>)
      (snd (mem_CreateUser req now s))" if "\<not> dhas (mem_users s) (ucr_Username req)"
    using that assms inv_CreateUser [OF sim_mem [OF assms], of req now] missing
    by (auto simp: sim_def mem_CreateUser_def Let_def intro: sim_users_new sim_keys_new)
  show ?thesis
    unfolding sql_CreateUser_def Let_def
  proof (intro withTx_runs runs_bind runs_write_catch [OF users_Create], goal_cases)
    case 1
    then have "\<not> dhas (mem_users s) (ucr_Username req)" using missing unfolding fresh_row by simp
    with ok show ?case
      by (auto intro!: runs_return refinesI simp: mem_CreateUser_def Let_def userRow_toSpec_def toSpec_def)
  next
    case 2
    then have "dhas (mem_users s) (ucr_Username req)"
      using missing assms unfolding fresh_row by (simp add: sim_def sim_users_def)
    with assms show ?case by (auto simp: mem_CreateUser_def refines_def)
  qed
qed

lemma GetUser_refines:
  assumes "sim tb s"
  shows "tx_runs G content (sql_GetUser G u) tb (refines (mem_GetUser u s, s))"
  unfolding sql_GetUser_def
  by (intro withTx_runs runs_bind runs_findUser [OF assms])
    (auto intro!: runs_return refinesI simp: assms mem_GetUser_def dhas_def split: option.splits elim!: sim_user_row [OF assms])

lemma UpdateUser_refines:
  assumes "sim tb s"
  shows "tx_runs G content (sql_UpdateUser G u su) tb (refines (mem_UpdateUser u su s))"
  unfolding sql_UpdateUser_def
proof (intro withTx_runs runs_bind runs_findUser [OF assms], goal_cases)
  case 1
  with assms show ?case by (auto simp: mem_UpdateUser_def dhas_def refines_def)
next
  case (2 r)
  from sim_user_row [OF assms 2(1)] obtain x where x: "dget (mem_users s) u = Some x" "ur_superuser x = u_Superuser r"
    "ur_passwordHash x = userRow_hash r" "toSpec x u = userRow_toSpec r" using 2(2) by metis
  show ?case
  proof (cases su)
    case None
    with assms x show ?thesis by (auto intro!: runs_return refinesI simp: mem_UpdateUser_def)
  next
    case (Some b)
    let ?f = "u_Superuser_update (\<lambda>_. b)"
    have "row_at u_Username (tb_users tb) u = Some r"
      using 2 assms by (simp add: row_at_Some sim_def sim_users_def)
    then have "sim_users (map (\<lambda>r. if u_Username r = u then ?f r else r) (tb_users tb)) (dset u (x\<lparr>ur_superuser := b\<rparr>) (mem_users s))"
      using assms x by (intro sim_users_change) (auto simp: sim_def sim_users_def userRow_hash_def)
    then have "sim (tb\<lparr>tb_users := map (\<lambda>r. if u_Username r = u then ?f r else r) (tb_users tb)\<rparr>) (snd (mem_UpdateUser u su s))"
      using assms inv_UpdateUser [OF sim_mem [OF assms], of u su] x Some
      by (auto simp: sim_def mem_UpdateUser_def Let_def intro: sim_keys_same)
    moreover have "toSpec (x\<lparr>ur_superuser := b\<rparr>) u = userRow_toSpec (r\<lparr>u_Superuser := b\<rparr>)"
      using x(4) by (auto simp: toSpec_def userRow_toSpec_def)
    ultimately show ?thesis
      using Some x
      by (auto intro!: runs_bind runs_write [OF users_Update] runs_return refinesI simp: mem_UpdateUser_def Let_def)
  qed
qed

lemma DeleteUser_refines:
  assumes "sim tb s" and "u \<noteq> []"
  shows "tx_runs G content (sql_DeleteUser G u) tb (refines (mem_DeleteUser u s))"
  unfolding sql_DeleteUser_def cascadingDelete_def
proof (intro withTx_runs runs_bind runs_ensureUser [OF assms(1)], goal_cases)
  case 1
  with assms show ?case by (auto simp: mem_DeleteUser_def refines_def)
next
  case 2
  have "sim (tb\<lparr>tb_roles := filter (\<lambda>r. ro_Username r \<noteq> u) (tb_roles tb), tb_grants := filter (\<lambda>r. mg_Username r \<noteq> u) (tb_grants tb),
      tb_users := filter (\<lambda>r. u_Username r \<noteq> u) (tb_users tb), tb_keys := filter (\<lambda>r. ak_Username r \<noteq> u) (tb_keys tb)\<rparr>)
      (snd (mem_DeleteUser u s))"
    using assms inv_DeleteUser [OF sim_mem [OF assms(1)], of u] 2 sim_mem [OF assms(1)]
    by (simp add: sim_def mem_DeleteUser_def sim_users_delete sim_keys_delete_user sim_roles_delete_user sim_grants_delete_user
        mem_inv_def [of s] roles_ok_def [of _ "mem_roles s"] del: length_0_conv)
  with 2 assms(2) show ?case
    by (auto intro!: runs_bind runs_write [OF roles_Delete] runs_write [OF grants_Delete] runs_write [OF users_DeleteAssociations]
        runs_return refinesI simp: mem_DeleteUser_def)
qed

lemma ListUsers_refines:
  assumes "sim tb s" and "0 \<le> lup_Limit params" and "0 \<le> lup_Offset params"
    and "lup_Offset params + lup_Limit params \<le> max_int" and bytewise: "g_Collate G = (\<le>)"
  shows "tx_runs G content (sql_ListUsers G params) tb (refines (mem_ListUsers params s, s))"
  unfolding sql_ListUsers_def
proof (intro withTx_runs users.runs_sql_page bytewise assms(2,3), goal_cases)
  case (1 xs)
  let ?sel = "\<lambda>(username, user).
             if nonnil (lup_Superuser params) (\<lambda>b. ur_superuser user \<noteq> b) then None
             else if nonnil (lup_Password params) (\<lambda>b. (0 < length (ur_passwordHash user)) \<noteq> b) then None
             else Some (toSpec user username)"
  have "map userRow_toSpec xs = listing ui_Username ?sel (mem_users s)"
  proof (rule listing_rows [OF 1, where pk = u_Username], goal_cases)
    case (3 r r')
    then show ?case by (simp add: userRow_toSpec_def)
  next
    case (6 r)
    with userRow_hash_nonempty [OF assms(1) 6(1)] show ?case
      by (intro exI [of _ "u_Username r"]) (erule sim_user_row [OF assms(1)]; simp)
  next
    case (7 k v a)
    from 7(1) obtain r where r: "r \<in> set (tb_users tb)" "u_Username r = k" "ur_superuser v = u_Superuser r"
      "ur_passwordHash v = userRow_hash r" "toSpec v k = userRow_toSpec r" by (rule sim_user_record [OF assms(1)])
    with 7(2) userRow_hash_nonempty [OF assms(1) r(1)] show ?case by (intro bexI [of _ r]) (auto split: if_splits)
  qed (use sim_mem [OF assms(1)] assms(1) in \<open>auto simp: userRow_toSpec_def toSpec_def sim_def sim_users_def mem_inv_def users_ok_def split: if_splits\<close>)
  from agree_page [OF this assms(2-4)] assms(1) show ?case
    by (simp add: refines_def mem_ListUsers_def)
qed

text \<open>The completion with the names that a predicate admits on the stored names.\<close>

lemma AutocompleteUsers_runs:
  assumes "sim tb s" and "0 \<le> limit" and bytewise: "g_Collate G = (\<le>)"
    and like: "\<And>u. u \<in> u_Username ` set (tb_users tb) \<Longrightarrow> g_Like G (q @ ''%'') u \<longleftrightarrow> P u"
  shows "tx_runs G content (sql_AutocompleteUsers G q limit) tb (\<lambda>r tb'. tb' = tb \<and>
    r = Ok (take (nat limit) (listing (\<lambda>u. u) (\<lambda>(username, _). if P username then Some username else None) (mem_users s))))"
  unfolding sql_AutocompleteUsers_def
proof (intro withTx_runs runs_bind users.runs_Find bytewise assms(2), goal_cases)
  case (2 xs)
  have "map u_Username xs = listing (\<lambda>u. u) (\<lambda>(username, _). if P username then Some username else None) (mem_users s)"
  proof (rule listing_rows [OF 2, where pk = u_Username], goal_cases)
    case (6 r)
    then have "P (u_Username r)" using like [of "u_Username r"] by simp
    with 6(1) show ?case
      by (intro exI [of _ "u_Username r"]) (erule sim_user_row [OF assms(1)]; simp)
  next
    case (7 k v a)
    from 7(1) obtain r where "r \<in> set (tb_users tb)" "u_Username r = k" by (rule sim_user_record [OF assms(1)])
    with 7(2) show ?case by (intro bexI [of _ r]) (auto simp: like split: if_splits)
  qed (use sim_mem [OF assms(1)] assms(1) in \<open>auto simp: sim_def sim_users_def mem_inv_def users_ok_def split: if_splits\<close>)
  then show ?case by (auto intro!: runs_return simp: page_window_def simp flip: take_map)
qed simp

lemma AutocompleteUsers_refines:
  assumes "sim tb s" and "0 \<le> limit" and "g_Collate G = (\<le>)"
    and "\<And>u. u \<in> u_Username ` set (tb_users tb) \<Longrightarrow> g_Like G (q @ ''%'') u \<longleftrightarrow> take (length q) u = q"
  shows "tx_runs G content (sql_AutocompleteUsers G q limit) tb (refines (mem_AutocompleteUsers q limit s, s))"
proof -
  have "refines (mem_AutocompleteUsers q limit s, s) r tb" if "r = Ok (take (nat limit) (listing (\<lambda>u. u)
      (\<lambda>(username, _). if take (length q) username = q then Some username else None) (mem_users s)))" for r
    using assms(1,2) that by (auto simp: mem_AutocompleteUsers_def Let_def go_slice_def intro!: refinesI)
  with AutocompleteUsers_runs [OF assms] show ?thesis
    unfolding tx_runs_def by (fastforce split: prod.splits)
qed

end

section \<open>Credentials\<close>

context gorm_laws
begin

lemma SetPassword_refines:
  assumes "sim tb s" and "u \<noteq> []" and hash: "\<And>p h. pw = Some p \<Longrightarrow> password_Hash cr p = Ok h \<Longrightarrow> h \<noteq> []"
  shows "tx_runs G content (sql_SetPassword G cr u pw) tb (refines (mem_SetPassword cr u pw s))"
  unfolding sql_SetPassword_def
proof (intro withTx_runs runs_bind runs_ensureUser [OF assms(1)], goal_cases)
  case 1
  with assms show ?case by (auto simp: mem_SetPassword_def dhas_def refines_def)
next
  case 2
  then obtain x where x: "dget (mem_users s) u = Some x" by (auto simp: dhas_def)
  note inv = inv_SetPassword [OF sim_mem [OF assms(1)], of cr u pw]
  show ?case
  proof (cases pw)
    case None
    have "sim (drop_passwords (\<lambda>r. pw_Username r = u) tb) (snd (mem_SetPassword cr u pw s))"
      using assms(1) inv x None sim_users_drop_password [OF assms(1) x]
      by (auto simp: sim_def mem_SetPassword_def drop_passwords_def intro: sim_keys_same)
    with x None show ?thesis
      by (auto intro!: runs_bind runs_write [OF passwords_Delete] runs_return refinesI simp: mem_SetPassword_def)
  next
    case (Some p)
    show ?thesis
    proof (cases "password_Hash cr p")
      case (Ok h)
      have "sim (set_password \<lparr>pw_Username = u, pw_Hash = h\<rparr> tb) (snd (mem_SetPassword cr u pw s))"
        using assms(1) inv x Some Ok sim_users_set_password [OF assms(1) x hash [OF Some Ok]]
        by (auto simp: sim_def mem_SetPassword_def set_password_def intro: sim_keys_same)
      with x Some Ok assms(2) show ?thesis
        by (auto intro!: runs_bind runs_write [OF passwords_Save] runs_return refinesI simp: mem_SetPassword_def)
    next
      case (Err e)
      with x Some assms(1) show ?thesis by (auto intro!: runs_error refinesI simp: mem_SetPassword_def)
    next
      case Panic
      with x Some assms(1) show ?thesis by (auto intro!: runs_panic refinesI simp: mem_SetPassword_def)
    qed
  qed
qed

lemma CheckPassword_refines:
  assumes "sim tb s"
  shows "tx_runs G content (sql_CheckPassword G cr u p) tb (refines (mem_CheckPassword cr u p s, s))"
  unfolding sql_CheckPassword_def
proof (intro withTx_runs runs_bind runs_ensureUser [OF assms], goal_cases)
  case 1
  with assms show ?case by (auto simp: mem_CheckPassword_def dhas_def refines_def)
next
  case 2
  then obtain x where x: "dget (mem_users s) u = Some x" by (auto simp: dhas_def)
  have "runs G content (tx_catch (tx_bind (tx_read (t_First (g_passwords G) (\<lambda>r. pw_Username r = u)))
      (\<lambda>row. tx_return (password_Verify cr p (pw_Hash row)))) record_not_found (tx_return False)) tb tb
      (\<lambda>r. refines (mem_CheckPassword cr u p s, s) (tx_wrap r))"
  proof (rule passwords.runs_First_bind)
    fix r assume "r \<in> set (tb_passwords tb)" "pw_Username r = u"
    from sim_password_row [OF assms this(1)] this x
    have "ur_passwordHash x = pw_Hash r" "pw_Hash r \<noteq> []" by (metis option.inject)+
    with x assms show "refines (mem_CheckPassword cr u p s, s) (tx_wrap (Ok (password_Verify cr p (pw_Hash r)))) tb"
      by (simp add: refines_def mem_CheckPassword_def)
  next
    assume "filter (\<lambda>r. pw_Username r = u) (tb_passwords tb) = []"
    with sim_password_missing [OF assms x] x assms
    show "runs G content (tx_return False) tb tb (\<lambda>r. refines (mem_CheckPassword cr u p s, s) (tx_wrap r))"
      by (auto intro!: runs_return refinesI simp: mem_CheckPassword_def)
  qed
  then show ?case by simp
qed

lemma CreateKey_refines:
  assumes "sim tb s" and keeps: "g_Keeps G now" "pred_option (g_Keeps G) (kir_ExpiresAt req)"
    and fresh: "\<And>h x. Key_Hash (cr_sha256 cr) f key = Ok h \<Longrightarrow> x \<in> set (all_keys s) \<Longrightarrow>
      \<not> (kr_prefix x = st_Prefix h \<and> kr_digest x = st_Digest h)"
  shows "tx_runs G content (sql_CreateKey G cr f u kid key req now) tb (refines (mem_CreateKey cr f u kid key req now s))"
  unfolding sql_CreateKey_def
proof (intro withTx_runs runs_bind runs_ensureUser [OF assms(1)], goal_cases)
  case 1
  with assms show ?case by (auto simp: mem_CreateKey_def dhas_def refines_def)
next
  case 2
  then obtain x where x: "dget (mem_users s) u = Some x" by (auto simp: dhas_def)
  note inv = inv_CreateKey [OF sim_mem [OF assms(1)], of cr f u kid key req now]
  show ?case
  proof (cases "Key_Hash (cr_sha256 cr) f key")
    case (Ok h)
    let ?row = "\<lparr>ak_Username = u, ak_KeyID = kid, ak_Comment = kir_Comment req, ak_DateCreated = now,
      ak_ExpiresAt = kir_ExpiresAt req, ak_Prefix = st_Prefix h, ak_Digest = st_Digest h,
      ak_UserScopeRows = userScopeRowsFor u kid (kir_UserScopes req),
      ak_NamespaceScopeRows = namespaceScopeRowsFor u kid (kir_NamespaceScopes req)\<rparr>"
    have pk: "key_pk ?row = (u, kid)" by (simp add: key_pk_def)
    have no: "\<not> list_ex (\<lambda>existing. kr_prefix existing = st_Prefix h \<and> kr_digest existing = st_Digest h) (all_keys s)"
      using fresh [OF Ok] by (auto simp: list_ex_iff)
    have step: "runs G content (tx_bind (tx_catch (t_Create (g_keys G) [?row]) (isUniqueConstraintError G) (tx_error (Sentinel ErrKeyCollision)))
        (\<lambda>_. tx_return (apiKeyRow_toSpec ?row))) tb tb (\<lambda>r. refines (mem_CreateKey cr f u kid key req now s) (tx_wrap r))"
    proof (intro runs_bind runs_write_catch [OF keys_Create], goal_cases)
      case 1
      from keeps show ?case by (simp add: keeps_key_def)
    next
      case 2
      then have missing: "row_at key_pk (tb_keys tb) (u, kid) = None" unfolding fresh_row pk by simp
      then have new: "\<not> dhas (ur_keys x) kid" using sim_key_missing [OF assms(1) x] by simp
      have "sim (tb\<lparr>tb_keys := tb_keys tb @ [?row]\<rparr>) (snd (mem_CreateKey cr f u kid key req now s))"
        using assms(1) inv x Ok new no sim_keys_create [OF _ x missing pk] sim_users_same [OF _ x]
        by (auto simp: sim_def mem_CreateKey_def Let_def apiKeyRow_record_def apiKeyRow_toSpec_def)
      with x Ok new no show ?case
        by (auto intro!: runs_return refinesI simp: mem_CreateKey_def Let_def apiKeyRow_toSpec_def rows_in_order)
    next
      case 3
      with assms(1) have "row_at key_pk (tb_keys tb) (u, kid) \<noteq> None"
        unfolding fresh_row pk by (simp add: sim_def sim_keys_def)
      then have "dhas (ur_keys x) kid" using sim_key_missing [OF assms(1) x] by simp
      with x Ok assms(1) show ?case by (simp add: mem_CreateKey_def refines_def Let_def)
    qed
    show ?thesis using step Ok by (simp add: Let_def)
  next
    case (Err e)
    with x assms(1) show ?thesis by (auto intro!: runs_error refinesI simp: mem_CreateKey_def Let_def)
  next
    case Panic
    with x assms(1) show ?thesis by (auto intro!: runs_panic refinesI simp: mem_CreateKey_def Let_def)
  qed
qed

lemma RevokeKey_refines:
  assumes "sim tb s" and "u \<noteq> []" and "kid \<noteq> []"
  shows "tx_runs G content (sql_RevokeKey G f u kid) tb (refines (mem_RevokeKey f u kid s))"
  unfolding sql_RevokeKey_def cascadingDelete_def
proof (intro withTx_runs runs_bind runs_ensureUser [OF assms(1)], goal_cases)
  case 1
  with assms show ?case by (auto simp: mem_RevokeKey_def dhas_def refines_def)
next
  case 2
  then obtain x where x: "dget (mem_users s) u = Some x" by (auto simp: dhas_def)
  have "filter (\<lambda>r. ak_Username r = u \<and> ak_KeyID r = kid) (tb_keys tb) = [] \<longleftrightarrow> row_at key_pk (tb_keys tb) (u, kid) = None"
    by (auto simp: row_at_None filter_empty_conv key_pk_def)
  then have count: "filter (\<lambda>r. ak_Username r = u \<and> ak_KeyID r = kid) (tb_keys tb) = [] \<longleftrightarrow> \<not> dhas (ur_keys x) kid"
    using sim_key_missing [OF assms(1) x] by simp
  have "sim (tb\<lparr>tb_keys := filter (\<lambda>r. key_pk r \<noteq> (u, kid)) (tb_keys tb)\<rparr>) (snd (mem_RevokeKey f u kid s))" if "dhas (ur_keys x) kid"
    using assms(1) inv_RevokeKey [OF sim_mem [OF assms(1)], of f u kid] x that sim_keys_revoke [OF _ x, of _ kid] sim_users_same [OF _ x]
    by (auto simp: sim_def mem_RevokeKey_def)
  with x count assms show ?case
    by (auto intro!: runs_bind keys.runs_Count runs_error runs_write [OF keys_DeleteAssociations] refinesI simp: mem_RevokeKey_def key_pk_def)
qed

lemma ListKeys_refines:
  assumes "sim tb s" and "0 \<le> limit" and "0 \<le> offset" and "offset + limit \<le> max_int" and bytewise: "g_Collate G = (\<le>)"
  shows "tx_runs G content (sql_ListKeys G f (Some u) limit offset) tb (refines (mem_ListKeys f (Some u) limit offset s, s))"
  unfolding sql_ListKeys_def option.case
proof (intro withTx_runs runs_bind runs_ensureUser [OF assms(1)], goal_cases)
  case 1
  with assms(1) show ?case by (auto simp: mem_ListKeys_def dhas_def refines_def)
next
  case 2
  then obtain x where x: "dget (mem_users s) u = Some x" by (auto simp: dhas_def)
  let ?sel = "\<lambda>(k, r). Some (kr_info r)"
  have wf: "wf_dict (ur_keys x)"
    and id: "\<And>k r. dget (ur_keys x) k = Some r \<Longrightarrow> key_ID (kr_info r) = k"
    using sim_mem [OF assms(1)] x by (auto simp: mem_inv_def users_ok_def key_at_def) metis
  have all: "mem_ListKeys f (Some u) limit offset s = paginate (listing key_ID ?sel (ur_keys x)) limit offset"
    using x by (simp add: mem_ListKeys_def listing_def List.map_filter_def case_prod_beta comp_def)
  have "runs G content (sql_page (g_keys G) (\<lambda>r. \<not> nonnil (Some u) (\<lambda>u. ak_Username r \<noteq> u)) (\<lambda>r. [ak_KeyID r]) apiKeyRow_toSpec
      False limit offset) tb tb (\<lambda>r. refines (mem_ListKeys f (Some u) limit offset s, s) (tx_wrap r))"
  proof (rule keys.runs_sql_page [OF bytewise assms(2,3)])
    fix xs assume xs: "mset xs = mset (filter (\<lambda>r. \<not> nonnil (Some u) (\<lambda>u. ak_Username r \<noteq> u)) (tb_keys tb))"
      "sorted (map (\<lambda>r. [ak_KeyID r]) xs)"
    have "map apiKeyRow_toSpec xs = listing key_ID ?sel (ur_keys x)"
    proof (rule listing_rows [OF xs, where pk = key_pk], goal_cases)
      case (6 r)
      from sim_key_row [OF assms(1) 6(1)] 6(2) x show ?case
        by (intro exI [of _ "ak_KeyID r"] exI [of _ "apiKeyRow_record r"]) (auto simp: key_at_def apiKeyRow_record_def)
    next
      case (7 k v a)
      then have "key_at (mem_users s) u k v" using x by (simp add: key_at_def)
      from sim_key_record [OF assms(1) this] obtain r where "r \<in> set (tb_keys tb)" "ak_Username r = u" "v = apiKeyRow_record r" .
      with 7(2) show ?case by (intro bexI [of _ r]) (auto simp: apiKeyRow_record_def)
    qed (use assms(1) wf id in \<open>auto simp: apiKeyRow_toSpec_def sim_def sim_keys_def key_pk_def\<close>)
    from agree_page [OF this assms(2-4)] assms(1)
    show "refines (mem_ListKeys f (Some u) limit offset s, s) (tx_wrap (Ok \<lparr>pg_Total = int (length xs), pg_Offset = offset,
        pg_Items = page_window (map apiKeyRow_toSpec xs) limit offset\<rparr>)) tb"
      by (simp add: refines_def all)
  qed
  then show ?case by simp
qed

lemma LookupUserByKey_refines:
  assumes "sim tb s"
  shows "tx_runs G content (sql_LookupUserByKey G cr f key) tb (refines (mem_LookupUserByKey cr f key s, s))"
proof (cases "Key_Prefix f key")
  case (Ok p)
  have ok: "users_ok (mem_users s)" using sim_mem [OF assms] by (simp add: mem_inv_def)
  let ?Q = "\<lambda>row. Key_Verify (cr_sha256 cr) f key \<lparr>st_Prefix = ak_Prefix row, st_Digest = ak_Digest row\<rparr>"
  have found: "agree (tx_wrap (case List.find ?Q xs of Some row \<Rightarrow> Ok (ak_Username row, apiKeyRow_toSpec row)
      | None \<Rightarrow> Err (Fmt [Sentinel ErrInvalidKey]))) (mem_LookupUserByKey cr f key s)"
    if xs: "mset xs = mset (filter (\<lambda>r. ak_Prefix r = p) (tb_keys tb))" for xs
  proof (cases "List.find ?Q xs")
    case (Some row)
    with find_SomeD [OF Some] mset_eq_setD [OF xs] have row: "row \<in> set (tb_keys tb)" "?Q row" by auto
    have "mem_LookupUserByKey cr f key s = Ok (ak_Username row, apiKeyRow_toSpec row)"
      unfolding LookupUserByKey_Ok [OF ok]
      by (intro exI conjI, rule sim_key_row [OF assms row(1)]) (use row(2) in \<open>simp_all add: Key_Verify_iff apiKeyRow_record_def\<close>)
    with Some show ?thesis by simp
  next
    case None
    have none: "\<not> ?Q r" if "r \<in> set (tb_keys tb)" for r
    proof
      assume q: "?Q r"
      with Ok have "ak_Prefix r = p" by (auto simp: Key_Verify_iff dest!: Key_Prefix_of_Hash)
      with that mset_eq_setD [OF xs] have "r \<in> set xs" by simp
      with None q show False by (auto simp: find_None_iff)
    qed
    have "mem_LookupUserByKey cr f key s \<noteq> Ok (u, info)" for u info
      unfolding LookupUserByKey_Ok [OF ok] using none
      by (auto simp: Key_Verify_iff apiKeyRow_record_def elim!: sim_key_record [OF assms]) blast
    then have "mem_LookupUserByKey cr f key s = Err (Fmt [Sentinel ErrInvalidKey])"
      using Ok by (auto simp: mem_LookupUserByKey_def split: option.splits) blast
    with None show ?thesis by simp
  qed
  show ?thesis
    unfolding sql_LookupUserByKey_def Ok res.case
  proof (intro withTx2_runs runs_bind keys.runs_Find_all, goal_cases)
    case (1 xs)
    from found [OF 1] assms show ?case
      by (cases "List.find ?Q xs") (auto intro!: runs_return runs_error refinesI)
  qed
next
  case (Err e)
  with assms show ?thesis
    unfolding sql_LookupUserByKey_def by (auto intro!: withTx2_runs runs_error refinesI simp: mem_LookupUserByKey_def)
qed (simp add: Key_Prefix_no_panic)

end

end
