(* ===== verification/Sql_Refine_Data.thy ===== *)
theory Sql_Refine_Data
  imports Sql_Refine
begin

text \<open>
  The refinement of the theory \<open>Sql_Refine\<close> for namespaces and resources.
\<close>

section \<open>Namespaces\<close>

lemma put_row_rewritten:
  assumes "pk r \<in> pk ` set rows" and "\<And>x. pk (g x) = pk x"
  shows "put_row pk r (map (\<lambda>x. if pk x = pk r then g x else x) rows) = put_row pk r rows"
proof -
  have "pk (if pk x = pk r then g x else x) = pk x" for x using assms(2) by simp
  then have "map pk (map (\<lambda>x. if pk x = pk r then g x else x) rows) = map pk rows"
    by simp
  then have "pk ` set (map (\<lambda>x. if pk x = pk r then g x else x) rows) = pk ` set rows"
    by (metis list.set_map)
  with assms show ?thesis by (simp add: put_row_def)
qed

lemma put_row_rewrite:
  assumes "pk (g r) = pk r"
  shows "map (\<lambda>x. if pk x = pk r then g x else x) (put_row pk r rows) = put_row pk (g r) rows"
proof (cases "pk r \<in> pk ` set rows")
  case False
  then have "map (\<lambda>x. if pk x = pk r then g x else x) rows = rows" by (intro map_idI) (metis image_eqI)
  with False assms show ?thesis by (simp add: put_row_def)
qed (use assms in \<open>auto simp: put_row_def\<close>)

lemma set_put_row_key: "x \<in> set (put_row pk r rows) \<Longrightarrow> pk x = pk r \<Longrightarrow> x = r"
  by (auto simp: put_row_def split: if_splits) (metis image_eqI)

lemma sim_namespace_row: "sim tb s \<Longrightarrow> r \<in> set (tb_namespaces tb) \<Longrightarrow> dget (mem_namespaces s) (ns_ID r) = Some (namespaceRow_toSpec r)"
  by (metis (mono_tags, lifting) sim_def sim_namespaces_def row_at_Some option.simps(9))

lemma sim_namespace_record:
  assumes "sim tb s" and "dget (mem_namespaces s) n = Some x"
  obtains r where "r \<in> set (tb_namespaces tb)" "ns_ID r = n" "x = namespaceRow_toSpec r"
proof -
  from assms have "map_option namespaceRow_toSpec (row_at ns_ID (tb_namespaces tb) n) = Some x"
    by (simp add: sim_def sim_namespaces_def)
  with that show ?thesis by (auto dest: row_at_SomeD)
qed

lemma sim_namespaces_new:
  assumes "sim_namespaces rows N" and "row_at ns_ID rows (ns_ID r) = None" and "\<forall>t \<in> set (ns_TagRows r). nt_NamespaceID t = ns_ID r"
  shows "sim_namespaces (rows @ [r]) (dset (ns_ID r) (namespaceRow_toSpec r) N)"
  using assms by (auto simp: sim_namespaces_def row_at_append row_at_None dict_simps)

lemma sim_namespaces_put:
  assumes "sim_namespaces rows N" and "\<forall>t \<in> set (ns_TagRows r). nt_NamespaceID t = ns_ID r"
  shows "sim_namespaces (put_row ns_ID r rows) (dset (ns_ID r) (namespaceRow_toSpec r) N)"
  using assms by (auto simp: sim_namespaces_def row_at_put distinct_put_row dict_simps dest!: set_put_rowE)

lemma nstags_rows: "\<forall>t \<in> set (namespaceTagRowsFor n tags). nt_NamespaceID t = n"
  by (auto simp: namespaceTagRowsFor_def)

text \<open>The rewriting of the tags of a namespace.\<close>

lemma drop_nstags_of:
  assumes "sim_namespaces (tb_namespaces tb) N"
  shows "drop_nstags (\<lambda>t. nt_NamespaceID t = n) tb =
    tb\<lparr>tb_namespaces := map (\<lambda>r. if ns_ID r = n then r\<lparr>ns_TagRows := []\<rparr> else r) (tb_namespaces tb)\<rparr>"
proof -
  have "r\<lparr>ns_TagRows := filter (\<lambda>t. nt_NamespaceID t \<noteq> n) (ns_TagRows r)\<rparr> = (if ns_ID r = n then r\<lparr>ns_TagRows := []\<rparr> else r)"
    if "r \<in> set (tb_namespaces tb)" for r
    using assms that by (auto simp: sim_namespaces_def filter_empty_conv intro: filter_True)
  then show ?thesis by (simp add: drop_nstags_def cong: map_cong)
qed

lemma namespaceTagRowsFor_empty: "namespaceTagRowsFor n tags = [] \<longleftrightarrow> tags = []" "namespaceTagRowsFor n [] = []"
  by (simp_all add: namespaceTagRowsFor_def enumerate_eq_zip)

lemma nstags_positions: "distinct (map (\<lambda>t. (nt_NamespaceID t, nt_Pos t)) (namespaceTagRowsFor n tags))"
proof -
  have "map nt_Pos (namespaceTagRowsFor n tags) = map int [0..<length tags]"
    by (simp add: namespaceTagRowsFor_def case_prod_beta comp_def map_fst_enumerate' )
  then have "distinct (map nt_Pos (namespaceTagRowsFor n tags))" by (simp add: distinct_map)
  then show ?thesis by (auto simp: distinct_map inj_on_def)
qed

lemma fresh_nstags:
  assumes "sim_namespaces rows N" and "tb_namespaces tb = map (\<lambda>r. if ns_ID r = n then r\<lparr>ns_TagRows := []\<rparr> else r) rows"
  shows "fresh_rows (\<lambda>t. (nt_NamespaceID t, nt_Pos t)) (tb_nstags tb) (namespaceTagRowsFor n tags)"
proof -
  have "nt_NamespaceID t \<noteq> n" if "t \<in> set (tb_nstags tb)" for t
    using that assms by (auto simp: tb_nstags_def sim_namespaces_def split: if_splits)
  with nstags_positions [of n tags] nstags_rows [of n tags] show ?thesis
    by (auto simp: fresh_rows_def list_all_iff)
qed

lemma add_nstags_of:
  assumes "tags \<noteq> []"
  shows "add_nstags (namespaceTagRowsFor n tags) tb =
    tb\<lparr>tb_namespaces := map (\<lambda>r. if ns_ID r = n then r\<lparr>ns_TagRows := sort_key nt_Pos (ns_TagRows r @ namespaceTagRowsFor n tags)\<rparr> else r)
      (tb_namespaces tb)\<rparr>"
proof -
  have "namespaceTagRowsFor n tags \<noteq> []" using assms by (simp add: namespaceTagRowsFor_def enumerate_eq_zip)
  moreover have "filter (\<lambda>t. nt_NamespaceID t = m) (namespaceTagRowsFor n tags) = (if m = n then namespaceTagRowsFor n tags else [])" for m
    using nstags_rows [of n tags] by (auto simp: filter_empty_conv intro: filter_True)
  ultimately show ?thesis by (simp add: add_nstags_def Let_def if_distrib cong: if_cong)
qed

lemma sim_roles_new:
  assumes "sim_roles rows Ro" and "row_at role_pk rows (role_pk r) = None"
  shows "sim_roles (rows @ [r]) (dset (ro_NamespaceID r) (dset (ro_Username r) (ro_Role r) (inner Ro (ro_NamespaceID r))) Ro)"
  using assms by (auto simp: sim_roles_def row_at_append row_at_None inner_dset dict_simps role_pk_def)

lemma sim_resources_new: "sim_resources rows R \<Longrightarrow> dget R n = None \<Longrightarrow> sim_resources rows (dset n [] R)"
  by (auto simp: sim_resources_def inner_dset) (simp add: inner_def)

lemma namespace_without_data:
  assumes "sim tb s" and "\<not> dhas (mem_namespaces s) n"
  shows "dget (mem_resources s) n = None" and "row_at role_pk (tb_roles tb) (n, u) = None"
proof -
  show "dget (mem_resources s) n = None"
    using sim_mem [OF assms(1)] assms(2) unfolding mem_inv_def resources_ok_def dhas_def by blast
  have "dget (mem_roles s) n = None"
    using sim_mem [OF assms(1)] assms(2) by (cases "dget (mem_roles s) n") (auto simp: mem_inv_def roles_ok_def)
  with assms(1) have "map_option ro_Role (row_at role_pk (tb_roles tb) (n, u)) = None"
    by (simp add: sim_def sim_roles_def inner_def)
  then show "row_at role_pk (tb_roles tb) (n, u) = None" by simp
qed

context gorm_laws
begin

lemma runs_findNamespace:
  assumes "sim tb s" and "\<not> dhas (mem_namespaces s) n \<Longrightarrow> Q (Err (Sentinel ErrNamespaceNotFound)) tb0"
    and "\<And>r. r \<in> set (tb_namespaces tb) \<Longrightarrow> ns_ID r = n \<Longrightarrow> Q (Ok r) tb"
  shows "runs G content (findNamespace G n) tb0 tb Q"
  unfolding findNamespace_def
  by (rule namespaces.runs_First)
    (use assms sim_namespace_missing [OF assms(1), of n] in \<open>auto simp: row_at_None filter_empty_conv intro!: runs_error\<close>)

lemma GetNamespace_refines:
  assumes "sim tb s"
  shows "tx_runs G content (sql_GetNamespace G n) tb (refines (mem_GetNamespace n s, s))"
  unfolding sql_GetNamespace_def
  by (intro withTx_runs runs_bind runs_findNamespace [OF assms])
    (auto intro!: runs_return refinesI simp: assms mem_GetNamespace_def dhas_def sim_namespace_row [OF assms] split: option.splits)

lemma ListNamespaces_refines:
  assumes "sim tb s" and "0 \<le> lnp_Limit params" and "0 \<le> lnp_Offset params"
    and "lnp_Offset params + lnp_Limit params \<le> max_int" and bytewise: "g_Collate G = (\<le>)"
  shows "tx_runs G content (sql_ListNamespaces G params) tb (refines (mem_ListNamespaces params s, s))"
  unfolding sql_ListNamespaces_def
proof (intro withTx_runs namespaces.runs_sql_page bytewise assms(2,3), goal_cases)
  case (1 xs)
  let ?sel = "\<lambda>(_, ns). if nonnil (lnp_Tag params) (\<lambda>t. t \<notin> set (nr_Tags ns)) then None else Some ns"
  have tag: "list_ex (\<lambda>row. nt_Tag row = t) (ns_TagRows r) \<longleftrightarrow> t \<in> set (nr_Tags (namespaceRow_toSpec r))" for t r
    by (auto simp: namespaceRow_toSpec_def namespaceTagsFromRows_def list_ex_iff)
  have id: "nr_ID v = k" if "dget (mem_namespaces s) k = Some v" for k v
    using that sim_mem [OF assms(1)] by (simp add: mem_inv_def resources_ok_def)
  have "map namespaceRow_toSpec xs = listing nr_ID ?sel (mem_namespaces s)"
  proof (rule listing_rows [OF 1, where pk = ns_ID], goal_cases)
    case (6 r)
    with sim_namespace_row [OF assms(1) 6(1)] show ?case by (intro exI [of _ "ns_ID r"]) (auto simp: tag)
  next
    case (7 k v a)
    from 7(1) obtain r where "r \<in> set (tb_namespaces tb)" "v = namespaceRow_toSpec r" by (rule sim_namespace_record [OF assms(1)])
    with 7(2) show ?case by (intro bexI [of _ r]) (auto simp: tag split: if_splits)
  qed (use sim_mem [OF assms(1)] assms(1) id in
      \<open>auto simp: namespaceRow_toSpec_def sim_def sim_namespaces_def mem_inv_def resources_ok_def split: if_splits\<close>)
  from agree_page [OF this assms(2-4)] assms(1) show ?case
    by (simp add: refines_def mem_ListNamespaces_def)
qed

lemma CreateNamespace_refines:
  assumes sim: "sim tb s" and keeps: "g_Keeps G now"
  shows "tx_runs G content (sql_CreateNamespace G n req owner now) tb (refines (mem_CreateNamespace n req owner now s))"
proof -
  let ?ns = "\<lparr>ns_ID = n, ns_DateCreated = now, ns_DateUpdated = now, ns_PIDPattern = fmt_Pattern (ncr_PIDFormat req),
    ns_PIDChars = fmt_Characters (ncr_PIDFormat req), ns_TagRows = namespaceTagRowsFor n (ncr_Tags req)\<rparr>"
  let ?body = "tx_bind (tx_catch (t_Create (g_namespaces G) [?ns]) (isUniqueConstraintError G) (tx_error (Sentinel ErrDuplicateNamespaceID)))
    (\<lambda>_. tx_bind (case owner of None \<Rightarrow> tx_return ()
         | Some u \<Rightarrow> t_Create (g_roles G) [\<lparr>ro_NamespaceID = n, ro_Username = u, ro_Role = RoleManager\<rparr>]) (\<lambda>_.
      tx_return (namespaceRow_toSpec ?ns)))"
  note inv = inv_CreateNamespace [OF sim_mem [OF sim], of n req owner now]
  have spec: "namespaceRow_toSpec ?ns = \<lparr>nr_ID = n, nr_Tags = ncr_Tags req, nr_PIDFormat = ncr_PIDFormat req,
      nr_DateCreated = now, nr_DateUpdated = now\<rparr>"
    by (simp add: namespaceRow_toSpec_def)
  have body: "runs G content ?body tb tb (\<lambda>r. refines (mem_CreateNamespace n req owner now s) (tx_wrap r))"
    if u: "\<not> nonnil owner (\<lambda>u. \<not> dhas (mem_users s) u)"
  proof (intro runs_bind runs_write_catch [OF namespaces_Create], goal_cases)
    case 1
    from keeps show ?case by (simp add: keeps_namespace_def)
  next
    case 2
    then have missing: "row_at ns_ID (tb_namespaces tb) n = None" by (simp add: fresh_row)
    then have new: "\<not> dhas (mem_namespaces s) n" using sim_namespace_missing [OF sim] by simp
    have ns: "sim_namespaces (tb_namespaces tb @ [?ns]) (dset n (namespaceRow_toSpec ?ns) (mem_namespaces s))"
      using sim missing sim_namespaces_new [of "tb_namespaces tb" "mem_namespaces s" ?ns] nstags_rows [of n]
      by (simp add: sim_def)
    note facts = sim inv u new ns sim_resources_new namespace_without_data [OF sim new]
    show ?case
    proof (cases owner)
      case None
      then have "sim (tb\<lparr>tb_namespaces := tb_namespaces tb @ [?ns]\<rparr>) (snd (mem_CreateNamespace n req owner now s))"
        using facts by (simp add: sim_def mem_CreateNamespace_def Let_def spec)
      with None new show ?thesis
        by (auto intro!: runs_bind runs_return refinesI simp: mem_CreateNamespace_def Let_def rows_in_order spec)
    next
      case (Some u)
      let ?r = "\<lparr>ro_NamespaceID = n, ro_Username = u, ro_Role = RoleManager\<rparr>"
      have "sim (tb\<lparr>tb_namespaces := tb_namespaces tb @ [?ns], tb_roles := tb_roles tb @ [?r]\<rparr>) (snd (mem_CreateNamespace n req owner now s))"
        using facts Some sim_roles_new [of "tb_roles tb" "mem_roles s" ?r]
        by (simp add: sim_def mem_CreateNamespace_def Let_def spec role_pk_def)
      moreover have "fresh_rows role_pk (tb_roles tb) [?r]"
        using namespace_without_data(2) [OF sim new] by (simp add: fresh_row role_pk_def)
      ultimately show ?thesis
        using Some new facts(3)
        by (auto intro!: runs_bind runs_write [OF roles_Create] runs_return refinesI
            simp: mem_CreateNamespace_def Let_def rows_in_order spec)
    qed
  next
    case 3
    then have "dhas (mem_namespaces s) n" using sim_namespace_missing [OF sim, of n] by (simp add: fresh_row)
    with u sim show ?case by (simp add: mem_CreateNamespace_def refines_def)
  qed
  show ?thesis
  proof (cases owner)
    case None
    with body show ?thesis
      unfolding sql_CreateNamespace_def Let_def by (intro withTx_runs runs_bind) (simp add: runs_return)
  next
    case (Some u)
    with body sim show ?thesis
      unfolding sql_CreateNamespace_def Let_def
      by (auto intro!: withTx_runs runs_bind [of _ _ "ensureUserExists G u"] runs_ensureUser [OF sim]
          simp: mem_CreateNamespace_def refines_def)
  qed
qed

lemma UpdateNamespace_refines:
  assumes sim: "sim tb s" and ne: "n \<noteq> []" and keeps: "g_Keeps G now" "list_all (keeps_namespace G) (tb_namespaces tb)"
  shows "tx_runs G content (sql_UpdateNamespace G n req now) tb (refines (mem_UpdateNamespace n req now s))"
  unfolding sql_UpdateNamespace_def
proof (intro withTx_runs runs_bind runs_findNamespace [OF sim], goal_cases)
  case 1
  with sim show ?case by (auto simp: mem_UpdateNamespace_def dhas_def refines_def)
next
  case (2 r)
  note sims = sim [unfolded sim_def]
  have get: "dget (mem_namespaces s) n = Some (namespaceRow_toSpec r)"
    using sim_namespace_row [OF sim 2(1)] 2(2) by simp
  have at: "row_at ns_ID (tb_namespaces tb) n = Some r" using 2 sims by (simp add: row_at_Some sim_namespaces_def)
  have kept: "keeps_namespace G (r\<lparr>ns_DateUpdated := now\<rparr>)" "keeps_namespace G (r\<lparr>ns_TagRows := ts, ns_DateUpdated := now\<rparr>)" for ts
    using keeps 2 by (auto simp: keeps_namespace_def list_all_iff)
  have here: "n \<in> ns_ID ` set (tb_namespaces tb)" using 2 by auto
  let ?put = "\<lambda>r. tb\<lparr>tb_namespaces := put_row ns_ID r (tb_namespaces tb)\<rparr>"
  have finish: "refines (mem_UpdateNamespace n req now s) (Ok (namespaceRow_toSpec r')) (?put r')"
    if "ns_ID r' = n" "\<forall>t \<in> set (ns_TagRows r'). nt_NamespaceID t = n"
      "namespaceRow_toSpec r' = (case nur_Tags req of None \<Rightarrow> namespaceRow_toSpec r
         | Some t \<Rightarrow> (namespaceRow_toSpec r)\<lparr>nr_Tags := t\<rparr>)\<lparr>nr_DateUpdated := now\<rparr>" for r'
  proof -
    have "sim_namespaces (put_row ns_ID r' (tb_namespaces tb)) (dset n (namespaceRow_toSpec r') (mem_namespaces s))"
      using sims that(1,2) sim_namespaces_put [of "tb_namespaces tb" "mem_namespaces s" r'] by simp
    with sims inv_UpdateNamespace [OF sim_mem [OF sim], of n req now] that(3) get show ?thesis
      by (simp add: refines_def sim_def mem_UpdateNamespace_def Let_def)
  qed
  show ?case
  proof (cases "nur_Tags req")
    case None
    let ?r = "r\<lparr>ns_DateUpdated := now\<rparr>"
    have "\<forall>t \<in> set (ns_TagRows ?r). nt_NamespaceID t = n" using sims 2 by (auto simp: sim_namespaces_def)
    then have "refines (mem_UpdateNamespace n req now s) (Ok (namespaceRow_toSpec ?r)) (?put ?r)"
      using None 2 by (intro finish) (simp_all add: namespaceRow_toSpec_def)
    moreover have "?r\<lparr>ns_TagRows := nstags_of (ns_ID ?r) tb\<rparr> = ?r"
      using at 2 by (simp add: nstags_of_def)
    ultimately show ?thesis
      using None 2 ne kept(1) by (auto intro!: runs_bind runs_return runs_write [OF namespaces_Save] simp: Let_def)
  next
    case (Some tags)
    let ?new = "namespaceTagRowsFor n tags"
    let ?saved = "(r\<lparr>ns_TagRows := ?new\<rparr>)\<lparr>ns_DateUpdated := now\<rparr>"
    let ?r = "(r\<lparr>ns_DateUpdated := now\<rparr>)\<lparr>ns_TagRows := ?new\<rparr>"
    let ?set = "\<lambda>ts. tb\<lparr>tb_namespaces := map (\<lambda>r. if ns_ID r = n then r\<lparr>ns_TagRows := ts\<rparr> else r) (tb_namespaces tb)\<rparr>"
    have final: "refines (mem_UpdateNamespace n req now s) (Ok (namespaceRow_toSpec ?saved)) (?put ?r)"
      using finish [of ?r] Some 2 nstags_rows [of n tags] by (simp add: namespaceRow_toSpec_def)
    have drop: "drop_nstags (\<lambda>t. nt_NamespaceID t = n) tb = ?set []" using sims by (intro drop_nstags_of) blast
    have add: "add_nstags ?new (?set []) = ?set ?new" if "tags \<noteq> []"
      using that by (simp add: add_nstags_of rows_in_order cong: map_cong if_cong)
    have fresh: "fresh_rows (\<lambda>t. (nt_NamespaceID t, nt_Pos t)) (tb_nstags (?set [])) ?new"
      using sims by (intro fresh_nstags) auto
    have "nstags_of n (?set ?new) = ?new" using at 2 by (simp add: nstags_of_def row_at_map)
    moreover have "(?set ?new)\<lparr>tb_namespaces := put_row ns_ID ?r (tb_namespaces (?set ?new))\<rparr> = ?put ?r"
      using put_row_rewritten [of ns_ID ?r "tb_namespaces tb" "\<lambda>r. r\<lparr>ns_TagRows := ?new\<rparr>"] here 2 by simp
    ultimately have save: "runs G content (tx_bind (t_Save (g_namespaces G) ?saved) (\<lambda>_. tx_return (namespaceRow_toSpec ?saved))) tb (?set ?new)
        (\<lambda>r. refines (mem_UpdateNamespace n req now s) (tx_wrap r))"
      using final 2 ne kept(2) by (auto intro!: runs_bind runs_return runs_write [OF namespaces_Save])
    have tags: "runs G content (tx_bind (t_Delete (g_nstags G) (\<lambda>r. nt_NamespaceID r = n)) (\<lambda>_.
        if 0 < length (ns_TagRows (r\<lparr>ns_TagRows := ?new\<rparr>))
        then tx_bind (t_Create (g_nstags G) (ns_TagRows (r\<lparr>ns_TagRows := ?new\<rparr>))) (\<lambda>_. tx_return (r\<lparr>ns_TagRows := ?new\<rparr>))
        else tx_return (r\<lparr>ns_TagRows := ?new\<rparr>))) tb tb
        (\<lambda>x tb'. x = Ok (r\<lparr>ns_TagRows := ?new\<rparr>) \<and> tb' = ?set ?new)"
      using drop add fresh
      by (cases "tags = []")
        (auto intro!: runs_bind runs_write [OF nstags_Delete] runs_write [OF nstags_Create] runs_return simp: namespaceTagRowsFor_empty)
    show ?thesis
      unfolding Some option.case Let_def res.case
      by (rule runs_bind, rule runs_weaken [OF tags]) (clarify, unfold res.case, rule save)
  qed
qed

end

section \<open>Resources\<close>

lemma sim_resources_get:
  "sim tb s \<Longrightarrow> dget (inner (mem_resources s) n) p = map_option resourceRow_toSpec (row_at resource_pk (tb_resources tb) (n, p))"
  by (simp add: sim_def sim_resources_def)

lemma sim_resource_row:
  assumes "sim tb s" and "r \<in> set (tb_resources tb)"
  shows "row_at resource_pk (tb_resources tb) (resource_pk r) = Some r"
    and "dget (inner (mem_resources s) (rs_NamespaceID r)) (rs_PID r) = Some (resourceRow_toSpec r)"
proof -
  show at: "row_at resource_pk (tb_resources tb) (resource_pk r) = Some r"
    using assms by (simp add: sim_def sim_resources_def row_at_Some)
  then show "dget (inner (mem_resources s) (rs_NamespaceID r)) (rs_PID r) = Some (resourceRow_toSpec r)"
    by (simp add: sim_resources_get [OF assms(1)] resource_pk_def)
qed

lemma sim_resource_record:
  assumes "sim tb s" and "dget (inner (mem_resources s) n) p = Some x"
  obtains r where "r \<in> set (tb_resources tb)" "rs_NamespaceID r = n" "rs_PID r = p" "x = resourceRow_toSpec r"
  using assms by (auto simp: sim_resources_get resource_pk_def dest!: row_at_SomeD)

lemma sim_resource_missing:
  "sim tb s \<Longrightarrow> row_at resource_pk (tb_resources tb) (n, p) = None \<longleftrightarrow> \<not> dhas (inner (mem_resources s) n) p"
  by (simp add: dhas_def sim_resources_get)

lemma sim_resources_put:
  assumes "sim_resources rows R" and "\<forall>t \<in> set (rs_TagRows r). (rt_NamespaceID t, rt_PID t) = resource_pk r"
  shows "sim_resources (put_row resource_pk r rows) (dset (rs_NamespaceID r) (dset (rs_PID r) (resourceRow_toSpec r) (inner R (rs_NamespaceID r))) R)"
  using assms by (auto simp: sim_resources_def row_at_put distinct_put_row inner_dset dict_simps resource_pk_def dest!: set_put_rowE)

lemma restags_rows: "\<forall>t \<in> set (resourceTagRowsFor n p tags). rt_NamespaceID t = n \<and> rt_PID t = p"
  by (auto simp: resourceTagRowsFor_def)

lemma resourceTagRowsFor_empty: "resourceTagRowsFor n p tags = [] \<longleftrightarrow> tags = []" "resourceTagRowsFor n p [] = []"
  by (simp_all add: resourceTagRowsFor_def enumerate_eq_zip)

lemma new_resourceRow_simps [simp]:
  "rs_NamespaceID (new_resourceRow n p req ts) = n" "rs_PID (new_resourceRow n p req ts) = p"
  "resource_pk (new_resourceRow n p req ts) = (n, p)"
  "resourceRow_toSpec (new_resourceRow n p req ts) = new_resource p req (rfc3339 ts)"
  "(new_resourceRow n p req ts)\<lparr>rs_TagRows := resourceTagRowsFor n p (rcr_Tags req)\<rparr> = new_resourceRow n p req ts"
  "rs_TagRows (new_resourceRow n p req ts) = resourceTagRowsFor n p (rcr_Tags req)"
  by (simp_all add: new_resourceRow_def resource_pk_def resourceRow_toSpec_def new_resource_def rows_in_order)

context gorm_laws
begin

lemma runs_findResource:
  assumes "sim tb s" and "\<not> dhas (inner (mem_resources s) n) p \<Longrightarrow> Q (Err (Sentinel ErrResourceNotFound)) tb0"
    and "\<And>r. r \<in> set (tb_resources tb) \<Longrightarrow> rs_NamespaceID r = n \<Longrightarrow> rs_PID r = p \<Longrightarrow> Q (Ok r) tb"
  shows "runs G content (findResource G n p) tb0 tb Q"
  unfolding findResource_def
  by (rule resources.runs_First)
    (use assms sim_resource_missing [OF assms(1), of n p] in \<open>auto simp: row_at_None filter_empty_conv resource_pk_def intro!: runs_error\<close>)

lemma GetResource_refines:
  assumes "sim tb s"
  shows "tx_runs G content (sql_GetResource G n p) tb (refines (mem_GetResource n p s, s))"
  unfolding sql_GetResource_def
  by (intro withTx_runs runs_bind runs_ensureNamespace [OF assms])
    (auto intro!: runs_bind runs_findResource [OF assms] runs_return refinesI
      simp: assms mem_GetResource_def dhas_def [of "inner _ _"] sim_resource_row [OF assms])

lemma CountAllResources_refines:
  assumes "sim tb s"
  shows "tx_runs G content (sql_CountAllResources G) tb (refines (mem_CountAllResources s, s))"
proof -
  have inv: "mem_inv s" by (rule sim_mem [OF assms])
  have "{(n, p). \<exists>r. res_at s n p r} = resource_pk ` set (tb_resources tb)"
  proof (intro set_eqI iffI; clarify)
    fix n p r assume "res_at s n p r"
    then have "dget (inner (mem_resources s) n) p = Some r" by (simp add: res_at_iff)
    from sim_resource_record [OF assms this] show "(n, p) \<in> resource_pk ` set (tb_resources tb)"
      by (auto simp: resource_pk_def image_iff)
  next
    fix n p r assume "r \<in> set (tb_resources tb)" "(n, p) = resource_pk r"
    with sim_resource_row(2) [OF assms, of r] have "dget (inner (mem_resources s) n) p = Some (resourceRow_toSpec r)"
      by (simp add: resource_pk_def)
    moreover from this have "dhas (mem_namespaces s) n"
      using inv by (auto simp: mem_inv_def resources_ok_def inner_def dhas_def split: option.splits)
    ultimately show "\<exists>r. res_at s n p r" by (auto simp: res_at_iff)
  qed
  moreover have "card (resource_pk ` set (tb_resources tb)) = length (tb_resources tb)"
    using assms by (metis sim_def sim_resources_def distinct_card length_map list.set_map)
  ultimately have "mem_CountAllResources s = Ok (int (length (tb_resources tb)))"
    using CountAllResources_card [OF inv] by simp
  with assms show ?thesis
    unfolding sql_CountAllResources_def by (auto intro!: withTx_runs resources.runs_Count refinesI)
qed

lemma ListResources_refines:
  assumes "sim tb s" and "0 \<le> lrp_Limit params" and "0 \<le> lrp_Offset params"
    and "lrp_Offset params + lrp_Limit params \<le> max_int" and bytewise: "g_Collate G = (\<le>)"
  shows "tx_runs G content (sql_ListResources G n params) tb (refines (mem_ListResources n params s, s))"
  unfolding sql_ListResources_def
proof (intro withTx_runs runs_bind runs_ensureNamespace [OF assms(1)], goal_cases)
  case 1
  with assms(1) show ?case by (simp add: mem_ListResources_def refines_def)
next
  case 2
  let ?cond = "\<lambda>r. rs_NamespaceID r = n \<and> \<not> nonnil (lrp_Tag params) (\<lambda>t. \<not> list_ex (\<lambda>row. rt_Tag row = t) (rs_TagRows r)) \<and>
      \<not> nonnil (lrp_Deleted params) (\<lambda>b. rs_Deleted r \<noteq> b)"
  let ?sel = "\<lambda>(_, r). if nonnil (lrp_Tag params) (\<lambda>t. t \<notin> set (rr_Tags r)) then None
                     else if nonnil (lrp_Deleted params) (\<lambda>b. rr_Deleted r \<noteq> b) then None
                     else Some r"
  have tag: "list_ex (\<lambda>row. rt_Tag row = t) (rs_TagRows r) \<longleftrightarrow> t \<in> set (rr_Tags (resourceRow_toSpec r))" for t r
    by (auto simp: resourceRow_toSpec_def resourceTagsFromRows_def list_ex_iff)
  have spec: "rr_Deleted (resourceRow_toSpec r) = rs_Deleted r" "rr_PID (resourceRow_toSpec r) = rs_PID r" for r
    by (simp_all add: resourceRow_toSpec_def)
  from inv_byPID [OF sim_mem [OF assms(1)] 2] have wf: "wf_dict (inner (mem_resources s) n)"
    and id: "\<And>p r. dget (inner (mem_resources s) n) p = Some r \<Longrightarrow> rr_PID r = p" by metis+
  have "runs G content (sql_page (g_resources G) ?cond (\<lambda>r. [rs_PID r]) resourceRow_toSpec True (lrp_Limit params) (lrp_Offset params)) tb tb
      (\<lambda>r. refines (mem_ListResources n params s, s) (tx_wrap r))"
  proof (rule resources.runs_sql_page [OF bytewise assms(2,3)])
    fix xs assume xs: "mset xs = mset (filter ?cond (tb_resources tb))" "sorted (map (\<lambda>r. [rs_PID r]) xs)"
    have "map resourceRow_toSpec xs = listing rr_PID ?sel (inner (mem_resources s) n)"
    proof (rule listing_rows [OF xs, where pk = resource_pk], goal_cases)
      case (6 r)
      with sim_resource_row(2) [OF assms(1) 6(1)] show ?case by (intro exI [of _ "rs_PID r"]) (auto simp: tag spec)
    next
      case (7 k v a)
      from sim_resource_record [OF assms(1) 7(1)] obtain r where "r \<in> set (tb_resources tb)" "rs_NamespaceID r = n" "v = resourceRow_toSpec r" .
      with 7(2) show ?case by (intro bexI [of _ r]) (auto simp: tag spec split: if_splits)
    qed (use assms(1) wf in \<open>auto simp: spec sim_def sim_resources_def resource_pk_def dest!: id split: if_splits\<close>)
    from agree_page [OF this assms(2-4)] assms(1) 2
    show "refines (mem_ListResources n params s, s) (tx_wrap (Ok \<lparr>pg_Total = int (length xs), pg_Offset = lrp_Offset params,
        pg_Items = page_window (map resourceRow_toSpec xs) (lrp_Limit params) (lrp_Offset params)\<rparr>)) tb"
      by (simp add: refines_def mem_ListResources_def)
  qed
  then show ?case by simp
qed

lemma CreateResource_refines:
  assumes sim: "sim tb s" and keeps: "g_Keeps G now"
  shows "tx_runs G content (sql_CreateResource G n p req now) tb (refines (mem_CreateResource n p req now s))"
  unfolding sql_CreateResource_def Let_def
proof (intro withTx_runs runs_bind runs_ensureNamespace [OF sim], goal_cases)
  case 1
  with sim show ?case by (simp add: mem_CreateResource_def refines_def)
next
  case ns: 2
  let ?row = "new_resourceRow n p req now"
  from inv_byPID [OF sim_mem [OF sim] ns] obtain byPID where
    b: "dget (mem_resources s) n = Some byPID" "inner (mem_resources s) n = byPID" by metis
  have "runs G content (tx_bind (tx_catch (t_Create (g_resources G) [?row]) (isUniqueConstraintError G) (tx_error (Sentinel ErrPIDAllocationFailed)))
      (\<lambda>_. tx_return (resourceRow_toSpec ?row))) tb tb (\<lambda>r. refines (mem_CreateResource n p req now s) (tx_wrap r))"
  proof (intro runs_bind runs_write_catch [OF resources_Create], goal_cases)
    case 1
    from keeps show ?case by (simp add: keeps_resource_def new_resourceRow_def)
  next
    case 2
    then have new: "row_at resource_pk (tb_resources tb) (n, p) = None" "\<not> dhas byPID p"
      using sim_resource_missing [OF sim, of n p] b by (simp_all add: fresh_row)
    then have "put_row resource_pk ?row (tb_resources tb) = tb_resources tb @ [?row]"
      by (simp add: put_row_def row_at_None)
    with sim_resources_put [of "tb_resources tb" "mem_resources s" ?row] restags_rows sim
    have "sim_resources (tb_resources tb @ [?row]) (dset n (dset p (new_resource p req (rfc3339 now)) byPID) (mem_resources s))"
      by (simp add: sim_def b)
    with sim inv_CreateResource [OF sim_mem [OF sim], of n p req now] ns new b
    have "refines (mem_CreateResource n p req now s) (Ok (resourceRow_toSpec ?row)) (tb\<lparr>tb_resources := tb_resources tb @ [?row]\<rparr>)"
      by (simp add: refines_def sim_def mem_CreateResource_def Let_def)
    then show ?case by (auto intro!: runs_return simp: rows_in_order)
  next
    case 3
    then have "dhas byPID p" using sim_resource_missing [OF sim, of n p] b by (simp add: fresh_row)
    with sim ns b show ?case by (simp add: mem_CreateResource_def refines_def)
  qed
  then show ?case by simp
qed

end

subsection \<open>Batches\<close>

lemma row_at_batch:
  "row_at resource_pk (map (\<lambda>(pid, req). new_resourceRow n pid req now) ps) (m, q) =
     (if m = n then map_option (\<lambda>req. new_resourceRow n q req now) (map_of ps q) else None)"
  by (induction ps) (auto simp: row_at_def split: if_splits)

lemma fresh_rows_keys: "fresh_rows pk rows rs \<longleftrightarrow> distinct (map pk rs) \<and> (\<forall>k \<in> set (map pk rs). k \<notin> pk ` set rows)"
  by (auto simp: fresh_rows_def list_all_iff)

lemma row_at_present: "row_at pk rows k \<noteq> None \<Longrightarrow> k \<in> set (map pk rows)"
  by (auto simp: row_at_None)

lemma fresh_batch:
  assumes "sim tb s" and "dget (mem_resources s) n = Some byPID" and "length pids = length reqs"
  shows "fresh_rows resource_pk (tb_resources tb) (map (\<lambda>(pid, req). new_resourceRow n pid req now) (zip pids reqs)) \<longleftrightarrow>
    batch_check byPID [] pids"
proof -
  have i: "inner (mem_resources s) n = byPID" using assms(2) by (simp add: inner_def)
  have "map resource_pk (map (\<lambda>(pid, req). new_resourceRow n pid req now) (zip pids reqs)) = map (Pair n) pids"
    using assms(3) by (induction pids reqs rule: list_induct2) simp_all
  then have "fresh_rows resource_pk (tb_resources tb) (map (\<lambda>(pid, req). new_resourceRow n pid req now) (zip pids reqs)) \<longleftrightarrow>
      distinct (map (Pair n) pids) \<and> (\<forall>k \<in> set (map (Pair n) pids). k \<notin> resource_pk ` set (tb_resources tb))"
    by (simp only: fresh_rows_keys)
  also have "\<dots> \<longleftrightarrow> distinct pids \<and> (\<forall>q \<in> set pids. \<not> dhas byPID q)"
    using sim_resource_missing [OF assms(1), of n] by (auto simp: distinct_map inj_on_def row_at_None i)
  finally show ?thesis by (auto simp: batch_check_iff)
qed

lemma sim_resources_batch:
  assumes "sim_resources rows R" and "dget R n = Some byPID" and "distinct (map fst ps)"
    and "fresh_rows resource_pk rows (map (\<lambda>(pid, req). new_resourceRow n pid req now) ps)"
  shows "sim_resources (rows @ map (\<lambda>(pid, req). new_resourceRow n pid req now) ps)
    (dset n (fst (batch_insert (rfc3339 now) ps byPID [])) R)"
proof -
  let ?new = "map (\<lambda>(pid, req). new_resourceRow n pid req now) ps"
  have i: "inner R n = byPID" using assms(2) by (simp add: inner_def)
  have "distinct (map resource_pk (rows @ ?new))"
    using assms(1,4) by (auto simp: sim_resources_def fresh_rows_def list_all_iff)
  moreover have "\<forall>r \<in> set (rows @ ?new). \<forall>t \<in> set (rs_TagRows r). (rt_NamespaceID t, rt_PID t) = resource_pk r"
    using assms(1) restags_rows by (fastforce simp: sim_resources_def)
  moreover have "map_option resourceRow_toSpec (row_at resource_pk (rows @ ?new) (m, q)) =
      dget (inner (dset n (fst (batch_insert (rfc3339 now) ps byPID [])) R) m) q" for m q
  proof (cases "row_at resource_pk rows (m, q)")
    case None
    then show ?thesis
      using assms(1,3) i
      by (auto simp: row_at_appends row_at_batch inner_dset batch_insert_get sim_resources_def split: option.splits)
        (metis option.map_disc_iff)+
  next
    case (Some r)
    have "map_of ps q = None" if "m = n"
    proof (rule ccontr)
      assume "map_of ps q \<noteq> None"
      then have "row_at resource_pk ?new (n, q) \<noteq> None" by (simp add: row_at_batch)
      then have "(n, q) \<in> set (map resource_pk ?new)" by (rule row_at_present)
      with assms(4) have "(n, q) \<notin> resource_pk ` set rows" unfolding fresh_rows_keys by blast
      with Some that show False by (metis option.distinct(1) row_at_None)
    qed
    with Some assms(1,3) i show ?thesis
      by (auto simp: row_at_appends inner_dset batch_insert_get sim_resources_def) (metis option.simps(9))+
  qed
  ultimately show ?thesis unfolding sim_resources_def by blast
qed

context gorm_laws
begin

lemma BatchCreateResources_refines:
  assumes "sim tb s" and "reqs \<noteq> []" and len: "length pids = length reqs" and "0 < batch" and keeps: "g_Keeps G now"
  shows "tx_runs G content (sql_BatchCreateResources G batch n pids reqs now) tb (refines (mem_BatchCreateResources n pids reqs now s))"
proof -
  let ?rows = "map (\<lambda>(pid, req). new_resourceRow n pid req now) (zip pids reqs)"
  have stored: "map (\<lambda>r. r\<lparr>rs_TagRows := sort_key rt_Pos (rs_TagRows r)\<rparr>) ?rows = ?rows"
    by (auto simp: rows_in_order)
  have body: "runs G content (tx_bind (tx_catch (t_CreateInBatches (g_resources G) ?rows batch) (isUniqueConstraintError G)
      (tx_error (Sentinel ErrPIDAllocationFailed))) (\<lambda>_. tx_return (map resourceRow_toSpec ?rows))) tb tb
      (\<lambda>r. refines (mem_BatchCreateResources n pids reqs now s) (tx_wrap r))" if ns: "dhas (mem_namespaces s) n"
  proof -
    from inv_byPID [OF sim_mem [OF assms(1)] ns] obtain byPID where
      b: "dget (mem_resources s) n = Some byPID" "inner (mem_resources s) n = byPID" by metis
    note check = fresh_batch [OF assms(1) b(1) len, of now]
    show ?thesis
    proof (intro runs_bind runs_write_catch [OF resources_CreateInBatches] assms(4), goal_cases)
      case 1
      from keeps show ?case by (auto simp: list_all_iff keeps_resource_def new_resourceRow_def)
    next
      case 2
      then have c: "batch_check byPID [] pids" by (simp only: check)
      then have "distinct (map fst (zip pids reqs))" using len by (auto simp: batch_check_iff)
      from sim_resources_batch [OF _ b(1) this 2] assms(1)
      have "sim_resources (tb_resources tb @ ?rows) (dset n (fst (batch_insert (rfc3339 now) (zip pids reqs) byPID [])) (mem_resources s))"
        by (simp add: sim_def)
      with assms(1) inv_BatchCreateResources [OF sim_mem [OF assms(1)], of n pids reqs now] ns len b c
      have "refines (mem_BatchCreateResources n pids reqs now s) (Ok (map resourceRow_toSpec ?rows)) (tb\<lparr>tb_resources := tb_resources tb @ ?rows\<rparr>)"
        by (simp add: refines_def sim_def mem_BatchCreateResources_def case_prod_beta batch_insert_out)
      then show ?case unfolding stored prod.case res.case by (intro runs_return) simp
    next
      case 3
      then have "\<not> batch_check byPID [] pids" unfolding check .
      with assms(1) ns len b show ?case by (simp add: mem_BatchCreateResources_def refines_def)
    qed
  qed
  have "tx_runs G content (withTx G (tx_bind (ensureNamespaceExists G n) (\<lambda>_.
      tx_bind (tx_catch (t_CreateInBatches (g_resources G) ?rows batch) (isUniqueConstraintError G)
      (tx_error (Sentinel ErrPIDAllocationFailed))) (\<lambda>_. tx_return (map resourceRow_toSpec ?rows))))) tb
      (refines (mem_BatchCreateResources n pids reqs now s))"
    by (intro withTx_runs runs_bind [of _ _ "ensureNamespaceExists G n"] runs_ensureNamespace [OF assms(1)])
      (use assms(1) body in \<open>auto simp: mem_BatchCreateResources_def refines_def\<close>)
  with assms(2) len show ?thesis by (simp add: sql_BatchCreateResources_def Let_def)
qed

end

subsection \<open>Updates\<close>

text \<open>The row of a resource after the fields of an update other than the tags.\<close>

definition updated_row :: "ResourceUpdateRequest \<Rightarrow> time \<Rightarrow> resourceRow \<Rightarrow> resourceRow" where
  "updated_row req now row =
     (let row = (case rur_URL req of None \<Rightarrow> row | Some u \<Rightarrow> row\<lparr>rs_URL := u\<rparr>);
          row = (case rur_Deleted req of None \<Rightarrow> row | Some b \<Rightarrow> row\<lparr>rs_Deleted := b\<rparr>);
          row = (case rur_Metadata req of None \<Rightarrow> row | Some m \<Rightarrow> row\<lparr>rs_Metadata := m\<rparr>)
      in row\<lparr>rs_DateUpdated := now\<rparr>)"

lemma updated_row_simps [simp]:
  "rs_NamespaceID (updated_row req now r) = rs_NamespaceID r" "rs_PID (updated_row req now r) = rs_PID r"
  "rs_TagRows (updated_row req now r) = rs_TagRows r" "resource_pk (updated_row req now r) = resource_pk r"
  by (simp_all add: updated_row_def Let_def resource_pk_def split: option.split)

lemma updated_row_spec:
  "rur_Tags req = None \<Longrightarrow>
     resourceRow_toSpec (updated_row req now r) = (apply_update req (resourceRow_toSpec r))\<lparr>rr_DateUpdated := rfc3339 now\<rparr>"
  "rur_Tags req = Some tags \<Longrightarrow>
     resourceRow_toSpec ((updated_row req now r)\<lparr>rs_TagRows := resourceTagRowsFor n p tags\<rparr>) =
       (apply_update req (resourceRow_toSpec r))\<lparr>rr_DateUpdated := rfc3339 now\<rparr>"
  by (simp_all add: updated_row_def apply_update_def Let_def resourceRow_toSpec_def split: option.split)

lemma sql_UpdateResource_row:
  "sql_UpdateResource G n p req now =
     withTx G (tx_bind (ensureNamespaceExists G n) (\<lambda>_. tx_bind (findResource G n p) (\<lambda>r.
       tx_bind (t_Save (g_resources G) (updated_row req now r)) (\<lambda>_.
       tx_bind (case rur_Tags req of
           None \<Rightarrow> tx_return (updated_row req now r)
         | Some tags \<Rightarrow>
             tx_bind (t_Delete (g_restags G) (\<lambda>r. rt_NamespaceID r = n \<and> rt_PID r = p)) (\<lambda>_.
               if 0 < length (resourceTagRowsFor n p tags)
               then tx_bind (t_Create (g_restags G) (resourceTagRowsFor n p tags))
                 (\<lambda>_. tx_return ((updated_row req now r)\<lparr>rs_TagRows := resourceTagRowsFor n p tags\<rparr>))
               else tx_return ((updated_row req now r)\<lparr>rs_TagRows := resourceTagRowsFor n p tags\<rparr>))) (\<lambda>row.
         tx_return (resourceRow_toSpec row))))))"
  unfolding sql_UpdateResource_def updated_row_def Let_def by (simp cong: if_cong option.case_cong)

definition restags_ok :: "resourceRow list \<Rightarrow> bool" where
  "restags_ok rows \<longleftrightarrow> (\<forall>r \<in> set rows. \<forall>t \<in> set (rs_TagRows r). (rt_NamespaceID t, rt_PID t) = resource_pk r)"

lemma restags_ok_put: "restags_ok rows \<Longrightarrow> \<forall>t \<in> set (rs_TagRows r). (rt_NamespaceID t, rt_PID t) = resource_pk r \<Longrightarrow>
    restags_ok (put_row resource_pk r rows)"
  by (auto simp: restags_ok_def dest!: set_put_rowE)

lemma drop_restags_of:
  assumes "restags_ok (tb_resources tb)"
  shows "drop_restags (\<lambda>t. rt_NamespaceID t = n \<and> rt_PID t = p) tb =
    tb\<lparr>tb_resources := map (\<lambda>r. if resource_pk r = (n, p) then r\<lparr>rs_TagRows := []\<rparr> else r) (tb_resources tb)\<rparr>"
proof -
  have "r\<lparr>rs_TagRows := filter (\<lambda>t. \<not> (rt_NamespaceID t = n \<and> rt_PID t = p)) (rs_TagRows r)\<rparr> =
      (if resource_pk r = (n, p) then r\<lparr>rs_TagRows := []\<rparr> else r)" if "r \<in> set (tb_resources tb)" for r
  proof -
    have "(rt_NamespaceID t = n \<and> rt_PID t = p) \<longleftrightarrow> resource_pk r = (n, p)" if "t \<in> set (rs_TagRows r)" for t
      using assms that \<open>r \<in> set (tb_resources tb)\<close> by (auto simp: restags_ok_def)
    then have "filter (\<lambda>t. \<not> (rt_NamespaceID t = n \<and> rt_PID t = p)) (rs_TagRows r) =
        filter (\<lambda>t. resource_pk r \<noteq> (n, p)) (rs_TagRows r)" by (intro filter_cong) auto
    then show ?thesis by simp
  qed
  then show ?thesis by (simp add: drop_restags_def cong: map_cong)
qed

lemma add_restags_of:
  assumes "tags \<noteq> []"
  shows "add_restags (resourceTagRowsFor n p tags) tb =
    tb\<lparr>tb_resources := map (\<lambda>r. if resource_pk r = (n, p)
        then r\<lparr>rs_TagRows := sort_key rt_Pos (rs_TagRows r @ resourceTagRowsFor n p tags)\<rparr> else r) (tb_resources tb)\<rparr>"
proof -
  have "resourceTagRowsFor n p tags \<noteq> []" using assms by (simp add: resourceTagRowsFor_empty)
  moreover have "filter (\<lambda>t. (rt_NamespaceID t, rt_PID t) = k) (resourceTagRowsFor n p tags) =
      (if k = (n, p) then resourceTagRowsFor n p tags else [])" for k
    using restags_rows [of n p tags] by (auto simp: filter_empty_conv intro: filter_True)
  ultimately show ?thesis by (simp add: add_restags_def Let_def if_distrib cong: if_cong)
qed

lemma fresh_restags:
  assumes "restags_ok (tb_resources tb)" and "\<And>r. r \<in> set (tb_resources tb) \<Longrightarrow> resource_pk r = (n, p) \<Longrightarrow> rs_TagRows r = []"
  shows "fresh_rows (\<lambda>t. (rt_NamespaceID t, rt_PID t, rt_Pos t)) (tb_restags tb) (resourceTagRowsFor n p tags)"
proof -
  have "map rt_Pos (resourceTagRowsFor n p tags) = map int [0..<length tags]"
    by (simp add: resourceTagRowsFor_def case_prod_beta comp_def map_fst_enumerate')
  then have "distinct (map rt_Pos (resourceTagRowsFor n p tags))" by (simp add: distinct_map)
  then have "distinct (map (\<lambda>t. (rt_NamespaceID t, rt_PID t, rt_Pos t)) (resourceTagRowsFor n p tags))"
    by (auto simp: distinct_map inj_on_def)
  moreover have "(rt_NamespaceID t, rt_PID t) \<noteq> (n, p)" if "t \<in> set (tb_restags tb)" for t
    using that assms by (fastforce simp: tb_restags_def restags_ok_def)
  ultimately show ?thesis
    using restags_rows [of n p tags] by (auto simp: fresh_rows_def list_all_iff)
qed

context gorm_laws
begin

lemma UpdateResource_refines:
  assumes sim: "sim tb s" and ne: "n \<noteq> []" "p \<noteq> []" and keeps: "g_Keeps G now" "list_all (keeps_resource G) (tb_resources tb)"
  shows "tx_runs G content (sql_UpdateResource G n p req now) tb (refines (mem_UpdateResource n p req now s))"
  unfolding sql_UpdateResource_row
proof (rule withTx_runs, rule runs_bind, rule runs_ensureNamespace [OF sim], goal_cases)
  case 1
  with sim show ?case by (simp add: mem_UpdateResource_def refines_def)
next
  case ns: 2
  show ?case unfolding res.case
  proof (rule runs_bind, rule runs_findResource [OF sim], goal_cases)
    case 1
    with sim ns show ?case by (auto simp: mem_UpdateResource_def refines_def dhas_def [of "inner _ _"])
  next
    case (2 r)
    let ?row = "updated_row req now r"
    let ?put = "\<lambda>row. tb\<lparr>tb_resources := put_row resource_pk row (tb_resources tb)\<rparr>"
    have pk: "resource_pk r = (n, p)" using 2 by (simp add: resource_pk_def)
    have ok: "restags_ok (tb_resources tb)" "\<forall>t \<in> set (rs_TagRows r). (rt_NamespaceID t, rt_PID t) = resource_pk r"
      using sim 2 by (auto simp: sim_def sim_resources_def restags_ok_def)
    have finish: "refines (mem_UpdateResource n p req now s) (Ok (resourceRow_toSpec row)) (?put row)"
      if "rs_NamespaceID row = n" "rs_PID row = p" "\<forall>t \<in> set (rs_TagRows row). (rt_NamespaceID t, rt_PID t) = resource_pk row"
        "resourceRow_toSpec row = (apply_update req (resourceRow_toSpec r))\<lparr>rr_DateUpdated := rfc3339 now\<rparr>" for row
    proof -
      have "sim_resources (put_row resource_pk row (tb_resources tb))
          (dset n (dset p (resourceRow_toSpec row) (inner (mem_resources s) n)) (mem_resources s))"
        using sim that(1-3) sim_resources_put [of "tb_resources tb" "mem_resources s" row] by (simp add: sim_def)
      with sim inv_UpdateResource [OF sim_mem [OF sim], of n p req now] that(4) ns sim_resource_row(2) [OF sim 2(1)] 2
      show ?thesis by (simp add: refines_def sim_def mem_UpdateResource_def Let_def)
    qed
    have keep: "?row\<lparr>rs_TagRows := restags_of (resource_pk ?row) tb\<rparr> = ?row"
      using sim_resource_row(1) [OF sim 2(1)] by (simp add: restags_of_def)
    have kept: "keeps_resource G ?row"
      using keeps 2 by (auto simp: keeps_resource_def list_all_iff updated_row_def Let_def split: option.split)
    show ?case unfolding res.case
    proof (rule runs_bind, rule runs_write [OF resources_Save [OF kept]], use ne 2 in simp, unfold keep prod.case res.case, cases "rur_Tags req", goal_cases)
      case 1
      have "refines (mem_UpdateResource n p req now s) (Ok (resourceRow_toSpec ?row)) (?put ?row)"
        using 1 2 ok(2) by (intro finish updated_row_spec(1)) simp_all
      with 1 show ?case by (auto intro!: runs_bind runs_return)
    next
      case (2 tags)
      let ?new = "resourceTagRowsFor n p tags"
      let ?row' = "?row\<lparr>rs_TagRows := ?new\<rparr>"
      have put_ok: "restags_ok (tb_resources (?put ?row))" using ok by (simp add: restags_ok_put)
      have set: "map (\<lambda>x. if resource_pk x = (n, p) then x\<lparr>rs_TagRows := ts\<rparr> else x) (put_row resource_pk ?row (tb_resources tb)) =
          put_row resource_pk (?row\<lparr>rs_TagRows := ts\<rparr>) (tb_resources tb)" for ts
        using put_row_rewrite [of resource_pk "\<lambda>x. x\<lparr>rs_TagRows := ts\<rparr>" ?row] pk by (simp add: resource_pk_def)
      have drop: "drop_restags (\<lambda>t. rt_NamespaceID t = n \<and> rt_PID t = p) (?put ?row) = ?put (?row\<lparr>rs_TagRows := []\<rparr>)"
        by (simp add: drop_restags_of [OF put_ok] set)
      have add: "add_restags ?new (?put (?row\<lparr>rs_TagRows := []\<rparr>)) = ?put ?row'" if "tags \<noteq> []"
        using put_row_rewrite [of resource_pk "\<lambda>x. x\<lparr>rs_TagRows := sort_key rt_Pos (rs_TagRows x @ ?new)\<rparr>" "?row\<lparr>rs_TagRows := []\<rparr>"]
          pk that by (simp add: add_restags_of rows_in_order resource_pk_def)
      have fresh: "fresh_rows (\<lambda>t. (rt_NamespaceID t, rt_PID t, rt_Pos t)) (tb_restags (?put (?row\<lparr>rs_TagRows := []\<rparr>))) ?new"
      proof (rule fresh_restags)
        show "restags_ok (tb_resources (?put (?row\<lparr>rs_TagRows := []\<rparr>)))" using ok(1) by (simp add: restags_ok_put)
        fix x assume "x \<in> set (tb_resources (?put (?row\<lparr>rs_TagRows := []\<rparr>)))" "resource_pk x = (n, p)"
        with pk have "x = ?row\<lparr>rs_TagRows := []\<rparr>"
          by (intro set_put_row_key [of x resource_pk _ "tb_resources tb"]) (simp_all add: resource_pk_def)
        then show "rs_TagRows x = []" by simp
      qed
      have tags: "runs G content (tx_bind (t_Delete (g_restags G) (\<lambda>r. rt_NamespaceID r = n \<and> rt_PID r = p)) (\<lambda>_.
          if 0 < length ?new then tx_bind (t_Create (g_restags G) ?new) (\<lambda>_. tx_return ?row') else tx_return ?row')) tb (?put ?row)
          (\<lambda>x tb'. x = Ok ?row' \<and> tb' = ?put ?row')"
        using drop add fresh
        by (cases "tags = []")
          (auto intro!: runs_bind runs_write [OF restags_Delete] runs_write [OF restags_Create] runs_return simp: resourceTagRowsFor_empty)
      have "refines (mem_UpdateResource n p req now s) (Ok (resourceRow_toSpec ?row')) (?put ?row')"
        using 2 pk restags_rows [of n p tags] by (intro finish updated_row_spec(2)) (simp_all add: resource_pk_def)
      then show ?case
        unfolding 2 option.case
        by - (rule runs_bind, rule runs_weaken [OF tags], auto intro!: runs_return)
    qed
  qed
qed

end

end
