(* ===== verification/Sql_Refine_Access.thy ===== *)
theory Sql_Refine_Access
  imports Sql_Refine_Data
begin

text \<open>
  The refinement of the theory \<open>Sql_Refine\<close> for roles, mounts and mount grants.
\<close>

section \<open>Roles\<close>

lemma agree_refl: "agree r r"
  by (cases r) (simp_all add: agree_def)

lemma sim_roles_get: "sim tb s \<Longrightarrow> dget (inner (mem_roles s) n) u = map_option ro_Role (row_at role_pk (tb_roles tb) (n, u))"
  by (simp add: sim_def sim_roles_def)

lemma sim_role_row:
  assumes "sim tb s" and "r \<in> set (tb_roles tb)"
  shows "dget (inner (mem_roles s) (ro_NamespaceID r)) (ro_Username r) = Some (ro_Role r)"
proof -
  have "row_at role_pk (tb_roles tb) (role_pk r) = Some r"
    using assms by (simp add: sim_def sim_roles_def row_at_Some)
  then show ?thesis by (simp add: sim_roles_get [OF assms(1)] role_pk_def)
qed

lemma sim_role_record:
  assumes "sim tb s" and "dget (inner (mem_roles s) n) u = Some role"
  obtains r where "r \<in> set (tb_roles tb)" "ro_NamespaceID r = n" "ro_Username r = u" "ro_Role r = role"
  using assms by (auto simp: sim_roles_get role_pk_def dest!: row_at_SomeD)

lemma sim_roles_put:
  "sim_roles rows Ro \<Longrightarrow> sim_roles (put_row role_pk r rows)
    (dset (ro_NamespaceID r) (dset (ro_Username r) (ro_Role r) (inner Ro (ro_NamespaceID r))) Ro)"
  by (auto simp: sim_roles_def row_at_put distinct_put_row inner_dset dict_simps role_pk_def)

lemma inner_drop_role: "dget (inner (drop_role n u Ro) m) v = (if m = n \<and> v = u then None else dget (inner Ro m) v)"
  by (auto simp: drop_role_def inner_def dict_simps Let_def dict_empty_iff [of "ddel u _"] split: option.splits)

lemma sim_roles_drop:
  "sim_roles rows Ro \<Longrightarrow> sim_roles (filter (\<lambda>r. ro_NamespaceID r = n \<longrightarrow> ro_Username r \<noteq> u) rows) (drop_role n u Ro)"
  by (auto simp: sim_roles_def row_at_delete distinct_filter_rows inner_drop_role)

lemma no_role_rows:
  "filter (\<lambda>r. ro_NamespaceID r = n \<and> ro_Username r = u) rows = [] \<longleftrightarrow> row_at role_pk rows (n, u) = None"
  by (auto simp: row_at_None role_pk_def filter_empty_conv)

context gorm_laws
begin

lemma GetNamespaceRole_refines:
  assumes "sim tb s"
  shows "tx_runs G content (sql_GetNamespaceRole G n u) tb (refines (mem_GetNamespaceRole n u s, s))"
  unfolding sql_GetNamespaceRole_def
proof (intro withTx_runs runs_bind [of _ _ "ensureNamespaceExists G n"] runs_ensureNamespace [OF assms], goal_cases)
  case 1
  with assms show ?case by (simp add: mem_GetNamespaceRole_def refines_def)
next
  case 2
  then have mem: "mem_GetNamespaceRole n u s =
      Ok (case dget (inner (mem_roles s) n) u of None \<Rightarrow> RoleNone | Some role \<Rightarrow> role)"
    by (simp add: mem_GetNamespaceRole_def inner_def split: option.splits)
  show ?case unfolding res.case
  proof (rule roles.runs_First_bind)
    fix r assume "r \<in> set (tb_roles tb)" "ro_NamespaceID r = n \<and> ro_Username r = u"
    with sim_role_row [OF assms] have "dget (inner (mem_roles s) n) u = Some (ro_Role r)" by metis
    with assms show "refines (mem_GetNamespaceRole n u s, s) (tx_wrap (Ok (ro_Role r))) tb" by (simp add: refines_def mem)
  next
    assume "filter (\<lambda>r. ro_NamespaceID r = n \<and> ro_Username r = u) (tb_roles tb) = []"
    then have "dget (inner (mem_roles s) n) u = None" by (simp add: no_role_rows sim_roles_get [OF assms])
    with assms show "runs G content (tx_return RoleNone) tb tb (\<lambda>r. refines (mem_GetNamespaceRole n u s, s) (tx_wrap r))"
      by (auto intro!: runs_return refinesI simp: mem)
  qed
qed

lemma SetNamespaceRole_refines:
  assumes "sim tb s" and "n \<noteq> []" and "u \<noteq> []"
  shows "tx_runs G content (sql_SetNamespaceRole G n u role) tb (refines (mem_SetNamespaceRole n u role s))"
proof (cases "Role_Validate role")
  case (Some e)
  with assms show ?thesis
    by (simp add: sql_SetNamespaceRole_def tx_runs_def tx_error_def mem_SetNamespaceRole_def refines_def agree_refl)
next
  case None
  note inv = inv_SetNamespaceRole [OF sim_mem [OF assms(1)], of n u role]
  have set: "refines (mem_SetNamespaceRole n u role s) (Ok ()) (tb\<lparr>tb_roles := put_row role_pk \<lparr>ro_NamespaceID = n, ro_Username = u, ro_Role = role\<rparr> (tb_roles tb)\<rparr>)"
    if "dhas (mem_namespaces s) n" "role \<noteq> RoleNone"
    using that assms None inv sim_roles_put [of "tb_roles tb" "mem_roles s" "\<lparr>ro_NamespaceID = n, ro_Username = u, ro_Role = role\<rparr>"]
    by (simp add: refines_def sim_def mem_SetNamespaceRole_def)
  have drop: "refines (mem_SetNamespaceRole n u role s) (Ok ())
      (tb\<lparr>tb_roles := filter (\<lambda>r. ro_NamespaceID r = n \<longrightarrow> ro_Username r \<noteq> u) (tb_roles tb)\<rparr>)"
    if "dhas (mem_namespaces s) n" "role = RoleNone"
    using that assms None inv by (simp add: refines_def sim_def mem_SetNamespaceRole_def sim_roles_drop)
  have missing: "refines (mem_SetNamespaceRole n u role s) (Err (Fmt [Sentinel ErrNamespaceNotFound])) tb" if "\<not> dhas (mem_namespaces s) n"
    using that assms None by (simp add: refines_def mem_SetNamespaceRole_def)
  have "tx_runs G content (withTx G (tx_bind (ensureNamespaceExists G n) (\<lambda>_.
        if role = RoleNone
        then tx_bind (t_Delete (g_roles G) (\<lambda>r. ro_NamespaceID r = n \<and> ro_Username r = u)) (\<lambda>_. tx_return ())
        else t_Save (g_roles G) \<lparr>ro_NamespaceID = n, ro_Username = u, ro_Role = role\<rparr>))) tb
      (refines (mem_SetNamespaceRole n u role s))"
    by (intro withTx_runs runs_bind [of _ _ "ensureNamespaceExists G n"] runs_ensureNamespace [OF assms(1)])
      (use assms(2,3) set drop missing in \<open>auto intro!: runs_bind runs_write [OF roles_Delete] runs_write [OF roles_Save] runs_return\<close>)
  with None show ?thesis by (simp add: sql_SetNamespaceRole_def)
qed

lemma DeleteNamespaceRole_refines:
  assumes "sim tb s"
  shows "tx_runs G content (sql_DeleteNamespaceRole G n u) tb (refines (mem_DeleteNamespaceRole n u s))"
proof -
  have mem: "mem_DeleteNamespaceRole n u s =
      (if dhas (inner (mem_roles s) n) u then (Ok (), s\<lparr>mem_roles := drop_role n u (mem_roles s)\<rparr>) else (fail ErrRoleNotFound, s))"
    by (simp add: mem_DeleteNamespaceRole_def inner_def split: option.splits)
  have missing: "filter (\<lambda>r. ro_NamespaceID r = n \<and> ro_Username r = u) (tb_roles tb) = [] \<longleftrightarrow> \<not> dhas (inner (mem_roles s) n) u"
    by (simp add: no_role_rows dhas_def sim_roles_get [OF assms])
  have "sim (tb\<lparr>tb_roles := filter (\<lambda>r. ro_NamespaceID r = n \<longrightarrow> ro_Username r \<noteq> u) (tb_roles tb)\<rparr>)
      (s\<lparr>mem_roles := drop_role n u (mem_roles s)\<rparr>)" if "dhas (inner (mem_roles s) n) u"
    using that assms inv_DeleteNamespaceRole [OF sim_mem [OF assms], of n u] by (simp add: sim_def mem sim_roles_drop)
  with assms show ?thesis
    unfolding sql_DeleteNamespaceRole_def
    by (auto intro!: withTx_runs runs_bind runs_write [OF roles_Delete] runs_error runs_return refinesI simp: mem missing)
qed

lemma ListNamespaceRoles_refines:
  assumes "sim tb s" and "0 \<le> limit" and "0 \<le> offset" and "offset + limit \<le> max_int" and bytewise: "g_Collate G = (\<le>)"
  shows "tx_runs G content (sql_ListNamespaceRoles G n limit offset) tb (refines (mem_ListNamespaceRoles n limit offset s, s))"
  unfolding sql_ListNamespaceRoles_def
proof (intro withTx_runs runs_bind [of _ _ "ensureNamespaceExists G n"] runs_ensureNamespace [OF assms(1)], goal_cases)
  case 1
  with assms(1) show ?case by (simp add: mem_ListNamespaceRoles_def refines_def)
next
  case ns: 2
  let ?sel = "\<lambda>(username, role). Some \<lparr>nrl_Username = username, nrl_Role = role\<rparr>"
  have wf: "wf_dict (inner (mem_roles s) n)"
    using sim_mem [OF assms(1)] by (intro wf_dict_inner_mono) (simp add: mem_inv_def roles_ok_def)
  show ?case unfolding res.case
  proof (rule roles.runs_sql_page [OF bytewise assms(2,3)])
    fix xs assume xs: "mset xs = mset (filter (\<lambda>r. ro_NamespaceID r = n) (tb_roles tb))" "sorted (map (\<lambda>r. [ro_Username r]) xs)"
    have "map namespaceRoleRow_toSpec xs = listing nrl_Username ?sel (inner (mem_roles s) n)"
    proof (rule listing_rows [OF xs, where pk = role_pk], goal_cases)
      case (6 r)
      with sim_role_row [OF assms(1) 6(1)] show ?case
        by (intro exI [of _ "ro_Username r"] exI [of _ "ro_Role r"]) (simp add: namespaceRoleRow_toSpec_def)
    next
      case (7 k v a)
      from sim_role_record [OF assms(1) 7(1)] obtain r where "r \<in> set (tb_roles tb)" "ro_NamespaceID r = n" "ro_Username r = k" "ro_Role r = v" .
      with 7(2) show ?case by (intro bexI [of _ r]) (auto simp: namespaceRoleRow_toSpec_def)
    qed (use assms(1) wf in \<open>auto simp: namespaceRoleRow_toSpec_def sim_def sim_roles_def role_pk_def\<close>)
    from agree_page [OF this assms(2-4)] assms(1) ns
    show "refines (mem_ListNamespaceRoles n limit offset s, s) (tx_wrap (Ok \<lparr>pg_Total = int (length xs), pg_Offset = offset,
        pg_Items = page_window (map namespaceRoleRow_toSpec xs) limit offset\<rparr>)) tb"
      by (simp add: refines_def mem_ListNamespaceRoles_def)
  qed
qed

lemma ListUserRoles_refines:
  assumes "sim tb s" and "0 \<le> limit" and "0 \<le> offset" and "offset + limit \<le> max_int" and bytewise: "g_Collate G = (\<le>)"
  shows "tx_runs G content (sql_ListUserRoles G u limit offset) tb (refines (mem_ListUserRoles u limit offset s, s))"
  unfolding sql_ListUserRoles_def
proof (intro withTx_runs runs_bind [of _ _ "ensureUserExists G u"] runs_ensureUser [OF assms(1)], goal_cases)
  case 1
  with assms(1) show ?case by (simp add: mem_ListUserRoles_def refines_def)
next
  case user: 2
  let ?sel = "\<lambda>(namespace, byUser). map_option (\<lambda>role. \<lparr>usr_Namespace = namespace, usr_Role = role\<rparr>) (dget byUser u)"
  show ?case unfolding res.case
  proof (rule roles.runs_sql_page [OF bytewise assms(2,3)])
    fix xs assume xs: "mset xs = mset (filter (\<lambda>r. ro_Username r = u) (tb_roles tb))" "sorted (map (\<lambda>r. [ro_NamespaceID r]) xs)"
    have "map toUserRole xs = listing usr_Namespace ?sel (mem_roles s)"
    proof (rule listing_rows [OF xs, where pk = role_pk], goal_cases)
      case (6 r)
      from sim_role_row [OF assms(1) 6(1)] obtain byUser where
        "dget (mem_roles s) (ro_NamespaceID r) = Some byUser" "dget byUser (ro_Username r) = Some (ro_Role r)"
        by (auto simp: dget_inner)
      with 6(2) show ?case by (intro exI [of _ "ro_NamespaceID r"] exI [of _ byUser]) (simp add: toUserRole_def)
    next
      case (7 k v a)
      from 7 obtain role where "dget (inner (mem_roles s) k) u = Some role" "a = \<lparr>usr_Namespace = k, usr_Role = role\<rparr>"
        by (auto simp: inner_def)
      from sim_role_record [OF assms(1) this(1)] this(2) show ?case
        by (auto simp: toUserRole_def)
    qed (use sim_mem [OF assms(1)] assms(1) in \<open>auto simp: toUserRole_def sim_def sim_roles_def role_pk_def mem_inv_def roles_ok_def\<close>)
    from agree_page [OF this assms(2-4)] assms(1) user
    show "refines (mem_ListUserRoles u limit offset s, s) (tx_wrap (Ok \<lparr>pg_Total = int (length xs), pg_Offset = offset,
        pg_Items = page_window (map toUserRole xs) limit offset\<rparr>)) tb"
      by (simp add: refines_def mem_ListUserRoles_def)
  qed
qed

end

section \<open>Mounts\<close>

lemma sim_mounts_get: "sim tb s \<Longrightarrow> dget (mem_mounts s) b = map_option mo_NamespaceID (row_at mo_BaseURI (tb_mounts tb) b)"
  by (simp add: sim_def sim_mounts_def)

lemma sim_mount_row: "sim tb s \<Longrightarrow> r \<in> set (tb_mounts tb) \<Longrightarrow> dget (mem_mounts s) (mo_BaseURI r) = Some (mo_NamespaceID r)"
proof -
  assume sim: "sim tb s" and "r \<in> set (tb_mounts tb)"
  then have "row_at mo_BaseURI (tb_mounts tb) (mo_BaseURI r) = Some r" by (simp add: sim_def sim_mounts_def row_at_Some)
  with sim show ?thesis by (simp add: sim_mounts_get)
qed

lemma sim_mount_record:
  assumes "sim tb s" and "dget (mem_mounts s) b = Some n"
  obtains r where "r \<in> set (tb_mounts tb)" "mo_BaseURI r = b" "mo_NamespaceID r = n"
  using assms by (auto simp: sim_mounts_get dest!: row_at_SomeD)

lemma no_mount_rows: "filter (\<lambda>r. mo_BaseURI r = b) rows = [] \<longleftrightarrow> row_at mo_BaseURI rows b = None"
  by (auto simp: row_at_None filter_empty_conv)

context gorm_laws
begin

lemma GetMount_refines:
  assumes "sim tb s"
  shows "tx_runs G content (sql_GetMount G b) tb (refines (mem_GetMount b s, s))"
  unfolding sql_GetMount_def
proof (intro withTx_runs runs_bind mounts.runs_First, goal_cases)
  case (1 r)
  with assms sim_mount_row [OF assms 1(1)] show ?case by (auto simp: mem_GetMount_def intro!: runs_return refinesI)
next
  case 2
  with assms show ?case by (auto simp: mem_GetMount_def no_mount_rows sim_mounts_get [OF assms] intro!: runs_error refinesI)
qed

lemma SetMount_refines:
  assumes "sim tb s" and "b \<noteq> []"
  shows "tx_runs G content (sql_SetMount G b n) tb (refines (mem_SetMount b n s))"
proof -
  have "refines (mem_SetMount b n s) (Ok ()) (tb\<lparr>tb_mounts := put_row mo_BaseURI \<lparr>mo_BaseURI = b, mo_NamespaceID = n\<rparr> (tb_mounts tb)\<rparr>)"
    if "dhas (mem_namespaces s) n"
    using that assms inv_SetMount [OF sim_mem [OF assms(1)], of b n]
    by (simp add: refines_def sim_def mem_SetMount_def sim_mounts_def row_at_put distinct_put_row dict_simps)
  moreover have "refines (mem_SetMount b n s) (Err (Fmt [Sentinel ErrNamespaceNotFound])) tb" if "\<not> dhas (mem_namespaces s) n"
    using that assms by (simp add: refines_def mem_SetMount_def)
  ultimately show ?thesis using assms(2-)
    unfolding sql_SetMount_def
    by (auto intro!: withTx_runs runs_bind runs_ensureNamespace [OF assms(1)] runs_write [OF mounts_Save])
qed

lemma DeleteMount_refines:
  assumes "sim tb s"
  shows "tx_runs G content (sql_DeleteMount G b) tb (refines (mem_DeleteMount b s))"
proof -
  have missing: "filter (\<lambda>r. mo_BaseURI r = b) (tb_mounts tb) = [] \<longleftrightarrow> \<not> dhas (mem_mounts s) b"
    by (simp add: no_mount_rows dhas_def sim_mounts_get [OF assms])
  have "sim (tb\<lparr>tb_mounts := filter (\<lambda>r. mo_BaseURI r \<noteq> b) (tb_mounts tb)\<rparr>) (s\<lparr>mem_mounts := ddel b (mem_mounts s)\<rparr>)"
    if "dhas (mem_mounts s) b"
    using that assms inv_DeleteMount [OF sim_mem [OF assms], of b]
    by (simp add: sim_def mem_DeleteMount_def sim_mounts_def row_at_delete distinct_filter_rows dict_simps)
  with assms show ?thesis
    unfolding sql_DeleteMount_def
    by (auto intro!: withTx_runs runs_bind runs_write [OF mounts_Delete] runs_error runs_return refinesI simp: mem_DeleteMount_def missing)
qed

lemma ListMounts_refines:
  assumes "sim tb s" and "0 \<le> limit" and "0 \<le> offset" and "offset + limit \<le> max_int" and bytewise: "g_Collate G = (\<le>)"
  shows "tx_runs G content (sql_ListMounts G limit offset) tb (refines (mem_ListMounts limit offset s, s))"
  unfolding sql_ListMounts_def
proof (intro withTx_runs mounts.runs_sql_page bytewise assms(2,3), goal_cases)
  case (1 xs)
  let ?conv = "\<lambda>r. \<lparr>mr_BaseURI = mo_BaseURI r, mr_Namespace = mo_NamespaceID r\<rparr>"
  have "map ?conv xs = listing (\<lambda>m. (mr_Namespace m, mr_BaseURI m))
      (\<lambda>(baseURI, namespaceID). Some \<lparr>mr_BaseURI = baseURI, mr_Namespace = namespaceID\<rparr>) (mem_mounts s)"
  proof (rule listing_rows [OF 1, where pk = mo_BaseURI], goal_cases)
    case (6 r)
    with sim_mount_row [OF assms(1) 6(1)] show ?case by auto
  next
    case (7 k v a)
    from sim_mount_record [OF assms(1) 7(1)] obtain r where "r \<in> set (tb_mounts tb)" "mo_BaseURI r = k" "mo_NamespaceID r = v" .
    with 7(2) show ?case by (intro bexI [of _ r]) auto
  qed (use sim_mem [OF assms(1)] assms(1) in \<open>auto simp: sim_def sim_mounts_def mem_inv_def mounts_ok_def\<close>)
  from agree_page [OF this assms(2-4)] assms(1) show ?case by (simp add: refines_def mem_ListMounts_def)
qed

lemma ListNamespaceMounts_refines:
  assumes "sim tb s" and "0 \<le> limit" and "0 \<le> offset" and "offset + limit \<le> max_int" and bytewise: "g_Collate G = (\<le>)"
  shows "tx_runs G content (sql_ListNamespaceMounts G n limit offset) tb (refines (mem_ListNamespaceMounts n limit offset s, s))"
  unfolding sql_ListNamespaceMounts_def
proof (intro withTx_runs runs_bind [of _ _ "ensureNamespaceExists G n"] runs_ensureNamespace [OF assms(1)], goal_cases)
  case 1
  with assms(1) show ?case by (simp add: mem_ListNamespaceMounts_def refines_def)
next
  case ns: 2
  show ?case unfolding res.case
  proof (rule mounts.runs_sql_page [OF bytewise assms(2,3)])
    fix xs assume xs: "mset xs = mset (filter (\<lambda>r. mo_NamespaceID r = n) (tb_mounts tb))" "sorted (map (\<lambda>r. [mo_BaseURI r]) xs)"
    have "map mo_BaseURI xs = listing (\<lambda>b. b) (\<lambda>(baseURI, namespaceID). if namespaceID = n then Some baseURI else None) (mem_mounts s)"
    proof (rule listing_rows [OF xs, where pk = mo_BaseURI], goal_cases)
      case (6 r)
      with sim_mount_row [OF assms(1) 6(1)] show ?case by auto
    next
      case (7 k v a)
      from sim_mount_record [OF assms(1) 7(1)] obtain r where "r \<in> set (tb_mounts tb)" "mo_BaseURI r = k" "mo_NamespaceID r = v" .
      with 7(2) show ?case by (intro bexI [of _ r]) (auto split: if_splits)
    qed (use sim_mem [OF assms(1)] assms(1) in \<open>auto simp: sim_def sim_mounts_def mem_inv_def mounts_ok_def split: if_splits\<close>)
    from agree_page [OF this assms(2-4)] assms(1) ns
    show "refines (mem_ListNamespaceMounts n limit offset s, s) (tx_wrap (Ok \<lparr>pg_Total = int (length xs), pg_Offset = offset,
        pg_Items = page_window (map mo_BaseURI xs) limit offset\<rparr>)) tb"
      by (simp add: refines_def mem_ListNamespaceMounts_def)
  qed
qed

end

section \<open>Mount grants\<close>

lemma sim_grants_get: "sim tb s \<Longrightarrow> dget (inner (mem_mountGrants s) u) p = map_option (\<lambda>_. ()) (row_at grant_pk (tb_grants tb) (u, p))"
  by (simp add: sim_def sim_grants_def)

lemma sim_grant_row:
  assumes "sim tb s" and "r \<in> set (tb_grants tb)"
  shows "dget (inner (mem_mountGrants s) (mg_Username r)) (mg_Pattern r) = Some ()"
proof -
  have "row_at grant_pk (tb_grants tb) (grant_pk r) = Some r"
    using assms by (simp add: sim_def sim_grants_def row_at_Some)
  then show ?thesis by (simp add: sim_grants_get [OF assms(1)] grant_pk_def)
qed

lemma sim_grant_record:
  assumes "sim tb s" and "dget (inner (mem_mountGrants s) u) p = Some x"
  obtains r where "r \<in> set (tb_grants tb)" "mg_Username r = u" "mg_Pattern r = p"
  using assms by (auto simp: sim_grants_get grant_pk_def dest!: row_at_SomeD)

lemma mem_DeleteMountGrant_inner:
  "mem_DeleteMountGrant u p s =
     (if \<not> dhas (mem_users s) u then (fail ErrUserNotFound, s)
      else if \<not> dhas (inner (mem_mountGrants s) u) p then (fail ErrMountGrantNotFound, s)
      else (Ok (), s\<lparr>mem_mountGrants := (let ps = ddel p (inner (mem_mountGrants s) u) in
             if ps = [] then ddel u (mem_mountGrants s) else dset u ps (mem_mountGrants s))\<rparr>))"
  by (simp add: mem_DeleteMountGrant_def inner_def Let_def split: option.splits)

lemma inner_drop_grant:
  "dget (inner (let ps = ddel p (inner Gr u) in if ps = [] then ddel u Gr else dset u ps Gr) v) q =
     (if v = u \<and> q = p then None else dget (inner Gr v) q)"
  by (auto simp: Let_def inner_dset dict_simps dict_empty_iff [of "ddel p _"]) (auto simp: inner_def dict_simps dest: spec)

context gorm_laws
begin

lemma ListUserMountGrants_refines:
  assumes "sim tb s" and "0 \<le> limit" and "0 \<le> offset" and "offset + limit \<le> max_int" and bytewise: "g_Collate G = (\<le>)"
  shows "tx_runs G content (sql_ListUserMountGrants G u limit offset) tb (refines (mem_ListUserMountGrants u limit offset s, s))"
  unfolding sql_ListUserMountGrants_def
proof (intro withTx_runs runs_bind [of _ _ "ensureUserExists G u"] runs_ensureUser [OF assms(1)], goal_cases)
  case 1
  with assms(1) show ?case by (simp add: mem_ListUserMountGrants_def refines_def)
next
  case user: 2
  have wf: "wf_dict (inner (mem_mountGrants s) u)"
    using sim_mem [OF assms(1)] by (intro wf_dict_inner_mono) (simp add: mem_inv_def grants_ok_def)
  show ?case unfolding res.case
  proof (rule grants.runs_sql_page [OF bytewise assms(2,3)])
    fix xs assume xs: "mset xs = mset (filter (\<lambda>r. mg_Username r = u) (tb_grants tb))" "sorted (map (\<lambda>r. [mg_Pattern r]) xs)"
    have "map mg_Pattern xs = listing (\<lambda>p. p) (\<lambda>(pattern, _). Some pattern) (inner (mem_mountGrants s) u)"
    proof (rule listing_rows [OF xs, where pk = grant_pk], goal_cases)
      case (6 r)
      with sim_grant_row [OF assms(1) 6(1)] show ?case by auto
    next
      case (7 k v a)
      from sim_grant_record [OF assms(1) 7(1)] obtain r where "r \<in> set (tb_grants tb)" "mg_Username r = u" "mg_Pattern r = k" .
      with 7(2) show ?case by (intro bexI [of _ r]) auto
    qed (use assms(1) wf in \<open>auto simp: sim_def sim_grants_def grant_pk_def\<close>)
    from agree_page [OF this assms(2-4)] assms(1) user
    show "refines (mem_ListUserMountGrants u limit offset s, s) (tx_wrap (Ok \<lparr>pg_Total = int (length xs), pg_Offset = offset,
        pg_Items = page_window (map mg_Pattern xs) limit offset\<rparr>)) tb"
      by (simp add: refines_def mem_ListUserMountGrants_def)
  qed
qed

lemma SetMountGrant_refines:
  assumes "sim tb s" and "u \<noteq> []" and "p \<noteq> []"
  shows "tx_runs G content (sql_SetMountGrant G u p) tb (refines (mem_SetMountGrant u p s))"
proof -
  have "refines (mem_SetMountGrant u p s) (Ok ()) (tb\<lparr>tb_grants := put_row grant_pk \<lparr>mg_Username = u, mg_Pattern = p\<rparr> (tb_grants tb)\<rparr>)"
    if "dhas (mem_users s) u"
    using that assms inv_SetMountGrant [OF sim_mem [OF assms(1)], of u p]
    by (auto simp: refines_def sim_def mem_SetMountGrant_def sim_grants_def row_at_put distinct_put_row inner_dset dict_simps grant_pk_def)
  moreover have "refines (mem_SetMountGrant u p s) (Err (Fmt [Sentinel ErrUserNotFound])) tb" if "\<not> dhas (mem_users s) u"
    using that assms by (simp add: refines_def mem_SetMountGrant_def)
  ultimately show ?thesis using assms(2-)
    unfolding sql_SetMountGrant_def
    by (auto intro!: withTx_runs runs_bind runs_ensureUser [OF assms(1)] runs_write [OF grants_Save])
qed

lemma DeleteMountGrant_refines:
  assumes "sim tb s"
  shows "tx_runs G content (sql_DeleteMountGrant G u p) tb (refines (mem_DeleteMountGrant u p s))"
proof -
  have missing: "filter (\<lambda>r. mg_Username r = u \<and> mg_Pattern r = p) (tb_grants tb) = [] \<longleftrightarrow> \<not> dhas (inner (mem_mountGrants s) u) p"
    by (auto simp: dhas_def sim_grants_get [OF assms] row_at_None grant_pk_def filter_empty_conv)
  have gone: "refines (mem_DeleteMountGrant u p s) (Ok ())
      (tb\<lparr>tb_grants := filter (\<lambda>r. mg_Username r = u \<longrightarrow> mg_Pattern r \<noteq> p) (tb_grants tb)\<rparr>)"
    if "dhas (mem_users s) u" "dhas (inner (mem_mountGrants s) u) p"
  proof -
    have "sim_grants (filter (\<lambda>r. mg_Username r = u \<longrightarrow> mg_Pattern r \<noteq> p) (tb_grants tb)) (mem_mountGrants (snd (mem_DeleteMountGrant u p s)))"
      using assms that
      by (auto simp: sim_def sim_grants_def row_at_delete distinct_filter_rows mem_DeleteMountGrant_inner inner_drop_grant)
    with that assms inv_DeleteMountGrant [OF sim_mem [OF assms], of u p] show ?thesis
      by (simp add: refines_def sim_def mem_DeleteMountGrant_inner)
  qed
  have none: "refines (mem_DeleteMountGrant u p s) (Err (Fmt [Sentinel ErrUserNotFound])) tb" if "\<not> dhas (mem_users s) u"
    using that assms by (simp add: refines_def mem_DeleteMountGrant_inner)
  have absent: "refines (mem_DeleteMountGrant u p s) (Err (Fmt [Sentinel ErrMountGrantNotFound])) tb"
    if "dhas (mem_users s) u" "\<not> dhas (inner (mem_mountGrants s) u) p"
    using that assms by (simp add: refines_def mem_DeleteMountGrant_inner)
  show ?thesis
    unfolding sql_DeleteMountGrant_def using gone none absent
    by (auto intro!: withTx_runs runs_bind runs_ensureUser [OF assms] runs_write [OF grants_Delete] runs_error runs_return simp: missing)
qed

end

end
