(* ===== verification/Sql_Calls.thy ===== *)
theory Sql_Calls
  imports Sql_Refine_Access
begin

text \<open>
  The calls of the backend interfaces as data, so that statements about every operation, and about every sequence of operations, are
  one statement. \<open>sql_call\<close> and \<open>mem_call\<close> dispatch a call to the two backends.
\<close>

section \<open>Calls and answers\<close>

datatype backend_call =
    Do_CreateUser UserCreateRequest time
  | Do_GetUser string
  | Do_ListUsers ListUsersParams
  | Do_AutocompleteUsers string int
  | Do_DeleteUser string
  | Do_UpdateUser string "bool option"
  | Do_SetPassword string "string option"
  | Do_CheckPassword string string
  | Do_CreateKey key_format string string string KeyIssueRequest time
  | Do_ListKeys key_format "string option" int int
  | Do_RevokeKey key_format string string
  | Do_LookupUserByKey key_format string
  | Do_ListNamespaces ListNamespacesParams
  | Do_CreateNamespace string NamespaceCreateRequest "string option" time
  | Do_GetNamespace string
  | Do_UpdateNamespace string NamespaceUpdateRequest time
  | Do_ListResources string ListResourcesParams
  | Do_CountAllResources
  | Do_GetResource string string
  | Do_CreateResource string string ResourceCreateRequest time
  | Do_BatchCreateResources string "string list" "ResourceCreateRequest list" time
  | Do_UpdateResource string string ResourceUpdateRequest time
  | Do_GetNamespaceRole string string
  | Do_SetNamespaceRole string string Role
  | Do_DeleteNamespaceRole string string
  | Do_ListNamespaceRoles string int int
  | Do_ListUserRoles string int int
  | Do_GetMount string
  | Do_SetMount string string
  | Do_DeleteMount string
  | Do_ListMounts int int
  | Do_ListNamespaceMounts string int int
  | Do_ListUserMountGrants string int int
  | Do_SetMountGrant string string
  | Do_DeleteMountGrant string string

datatype answer =
    A_unit unit | A_bool bool | A_int int | A_string string | A_strings "string list" | A_string_page "string page"
  | A_user UserInfo | A_users "UserInfo page" | A_key APIKeyInfo | A_keys "APIKeyInfo page" | A_lookup "string \<times> APIKeyInfo"
  | A_namespace NamespaceResponse | A_namespaces "NamespaceResponse page"
  | A_resource ResourceResponse | A_resources "ResourceResponse page" | A_batch "ResourceResponse list"
  | A_role Role | A_namespace_roles "NamespaceRole page" | A_user_roles "UserRole page" | A_mounts "MountResponse page"

definition answered :: "('a \<Rightarrow> answer) \<Rightarrow> (gerr, 'a) res \<times> 's \<Rightarrow> (gerr, answer) res \<times> 's" where
  "answered f rs = (bind_res (fst rs) (\<lambda>x. Ok (f x)), snd rs)"

fun sql_call :: "'d gorm \<Rightarrow> crypto \<Rightarrow> int \<Rightarrow> backend_call \<Rightarrow> ('d, answer) writing" where
  "sql_call G cr batch (Do_CreateUser req now) = answered A_user \<circ> sql_CreateUser G req now"
| "sql_call G cr batch (Do_GetUser u) = answered A_user \<circ> sql_GetUser G u"
| "sql_call G cr batch (Do_ListUsers p) = answered A_users \<circ> sql_ListUsers G p"
| "sql_call G cr batch (Do_AutocompleteUsers q l) = answered A_strings \<circ> sql_AutocompleteUsers G q l"
| "sql_call G cr batch (Do_DeleteUser u) = answered A_unit \<circ> sql_DeleteUser G u"
| "sql_call G cr batch (Do_UpdateUser u su) = answered A_user \<circ> sql_UpdateUser G u su"
| "sql_call G cr batch (Do_SetPassword u pw) = answered A_bool \<circ> sql_SetPassword G cr u pw"
| "sql_call G cr batch (Do_CheckPassword u pw) = answered A_bool \<circ> sql_CheckPassword G cr u pw"
| "sql_call G cr batch (Do_CreateKey f u kid key req now) = answered A_key \<circ> sql_CreateKey G cr f u kid key req now"
| "sql_call G cr batch (Do_ListKeys f u l off) = answered A_keys \<circ> sql_ListKeys G f u l off"
| "sql_call G cr batch (Do_RevokeKey f u kid) = answered A_unit \<circ> sql_RevokeKey G f u kid"
| "sql_call G cr batch (Do_LookupUserByKey f key) = answered A_lookup \<circ> sql_LookupUserByKey G cr f key"
| "sql_call G cr batch (Do_ListNamespaces p) = answered A_namespaces \<circ> sql_ListNamespaces G p"
| "sql_call G cr batch (Do_CreateNamespace n req owner now) = answered A_namespace \<circ> sql_CreateNamespace G n req owner now"
| "sql_call G cr batch (Do_GetNamespace n) = answered A_namespace \<circ> sql_GetNamespace G n"
| "sql_call G cr batch (Do_UpdateNamespace n req now) = answered A_namespace \<circ> sql_UpdateNamespace G n req now"
| "sql_call G cr batch (Do_ListResources n p) = answered A_resources \<circ> sql_ListResources G n p"
| "sql_call G cr batch Do_CountAllResources = answered A_int \<circ> sql_CountAllResources G"
| "sql_call G cr batch (Do_GetResource n p) = answered A_resource \<circ> sql_GetResource G n p"
| "sql_call G cr batch (Do_CreateResource n p req now) = answered A_resource \<circ> sql_CreateResource G n p req now"
| "sql_call G cr batch (Do_BatchCreateResources n ps reqs now) = answered A_batch \<circ> sql_BatchCreateResources G batch n ps reqs now"
| "sql_call G cr batch (Do_UpdateResource n p req now) = answered A_resource \<circ> sql_UpdateResource G n p req now"
| "sql_call G cr batch (Do_GetNamespaceRole n u) = answered A_role \<circ> sql_GetNamespaceRole G n u"
| "sql_call G cr batch (Do_SetNamespaceRole n u role) = answered A_unit \<circ> sql_SetNamespaceRole G n u role"
| "sql_call G cr batch (Do_DeleteNamespaceRole n u) = answered A_unit \<circ> sql_DeleteNamespaceRole G n u"
| "sql_call G cr batch (Do_ListNamespaceRoles n l off) = answered A_namespace_roles \<circ> sql_ListNamespaceRoles G n l off"
| "sql_call G cr batch (Do_ListUserRoles u l off) = answered A_user_roles \<circ> sql_ListUserRoles G u l off"
| "sql_call G cr batch (Do_GetMount b) = answered A_string \<circ> sql_GetMount G b"
| "sql_call G cr batch (Do_SetMount b n) = answered A_unit \<circ> sql_SetMount G b n"
| "sql_call G cr batch (Do_DeleteMount b) = answered A_unit \<circ> sql_DeleteMount G b"
| "sql_call G cr batch (Do_ListMounts l off) = answered A_mounts \<circ> sql_ListMounts G l off"
| "sql_call G cr batch (Do_ListNamespaceMounts n l off) = answered A_string_page \<circ> sql_ListNamespaceMounts G n l off"
| "sql_call G cr batch (Do_ListUserMountGrants u l off) = answered A_string_page \<circ> sql_ListUserMountGrants G u l off"
| "sql_call G cr batch (Do_SetMountGrant u p) = answered A_unit \<circ> sql_SetMountGrant G u p"
| "sql_call G cr batch (Do_DeleteMountGrant u p) = answered A_unit \<circ> sql_DeleteMountGrant G u p"

fun mem_call :: "crypto \<Rightarrow> backend_call \<Rightarrow> (memory, answer) writing" where
  "mem_call cr (Do_CreateUser req now) s = answered A_user (mem_CreateUser req now s)"
| "mem_call cr (Do_GetUser u) s = answered A_user (mem_GetUser u s, s)"
| "mem_call cr (Do_ListUsers p) s = answered A_users (mem_ListUsers p s, s)"
| "mem_call cr (Do_AutocompleteUsers q l) s = answered A_strings (mem_AutocompleteUsers q l s, s)"
| "mem_call cr (Do_DeleteUser u) s = answered A_unit (mem_DeleteUser u s)"
| "mem_call cr (Do_UpdateUser u su) s = answered A_user (mem_UpdateUser u su s)"
| "mem_call cr (Do_SetPassword u pw) s = answered A_bool (mem_SetPassword cr u pw s)"
| "mem_call cr (Do_CheckPassword u pw) s = answered A_bool (mem_CheckPassword cr u pw s, s)"
| "mem_call cr (Do_CreateKey f u kid key req now) s = answered A_key (mem_CreateKey cr f u kid key req now s)"
| "mem_call cr (Do_ListKeys f u l off) s = answered A_keys (mem_ListKeys f u l off s, s)"
| "mem_call cr (Do_RevokeKey f u kid) s = answered A_unit (mem_RevokeKey f u kid s)"
| "mem_call cr (Do_LookupUserByKey f key) s = answered A_lookup (mem_LookupUserByKey cr f key s, s)"
| "mem_call cr (Do_ListNamespaces p) s = answered A_namespaces (mem_ListNamespaces p s, s)"
| "mem_call cr (Do_CreateNamespace n req owner now) s = answered A_namespace (mem_CreateNamespace n req owner now s)"
| "mem_call cr (Do_GetNamespace n) s = answered A_namespace (mem_GetNamespace n s, s)"
| "mem_call cr (Do_UpdateNamespace n req now) s = answered A_namespace (mem_UpdateNamespace n req now s)"
| "mem_call cr (Do_ListResources n p) s = answered A_resources (mem_ListResources n p s, s)"
| "mem_call cr Do_CountAllResources s = answered A_int (mem_CountAllResources s, s)"
| "mem_call cr (Do_GetResource n p) s = answered A_resource (mem_GetResource n p s, s)"
| "mem_call cr (Do_CreateResource n p req now) s = answered A_resource (mem_CreateResource n p req now s)"
| "mem_call cr (Do_BatchCreateResources n ps reqs now) s = answered A_batch (mem_BatchCreateResources n ps reqs now s)"
| "mem_call cr (Do_UpdateResource n p req now) s = answered A_resource (mem_UpdateResource n p req now s)"
| "mem_call cr (Do_GetNamespaceRole n u) s = answered A_role (mem_GetNamespaceRole n u s, s)"
| "mem_call cr (Do_SetNamespaceRole n u role) s = answered A_unit (mem_SetNamespaceRole n u role s)"
| "mem_call cr (Do_DeleteNamespaceRole n u) s = answered A_unit (mem_DeleteNamespaceRole n u s)"
| "mem_call cr (Do_ListNamespaceRoles n l off) s = answered A_namespace_roles (mem_ListNamespaceRoles n l off s, s)"
| "mem_call cr (Do_ListUserRoles u l off) s = answered A_user_roles (mem_ListUserRoles u l off s, s)"
| "mem_call cr (Do_GetMount b) s = answered A_string (mem_GetMount b s, s)"
| "mem_call cr (Do_SetMount b n) s = answered A_unit (mem_SetMount b n s)"
| "mem_call cr (Do_DeleteMount b) s = answered A_unit (mem_DeleteMount b s)"
| "mem_call cr (Do_ListMounts l off) s = answered A_mounts (mem_ListMounts l off s, s)"
| "mem_call cr (Do_ListNamespaceMounts n l off) s = answered A_string_page (mem_ListNamespaceMounts n l off s, s)"
| "mem_call cr (Do_ListUserMountGrants u l off) s = answered A_string_page (mem_ListUserMountGrants u l off s, s)"
| "mem_call cr (Do_SetMountGrant u p) s = answered A_unit (mem_SetMountGrant u p s)"
| "mem_call cr (Do_DeleteMountGrant u p) s = answered A_unit (mem_DeleteMountGrant u p s)"

text \<open>
  The calls on which the two backends are meant to agree, for a database \<open>G\<close> with the content \<open>tb\<close>: limits and offsets in
  range; a prefix without the wildcards of \<^verbatim>\<open>LIKE\<close> and, like the stored user names, without upper-case letters; the keys of one user; a new key whose
  stored form no other key has; a hash that is not empty; a batch that is not empty and has one identifier for each of its requests;
  time stamps that the database keeps exactly; and names that are not empty where a row is replaced or deleted by its primary key.
\<close>

definition page_ok :: "int \<Rightarrow> int \<Rightarrow> bool" where
  "page_ok limit offset \<longleftrightarrow> 0 \<le> limit \<and> 0 \<le> offset \<and> offset + limit \<le> max_int"

fun portable :: "'d gorm \<Rightarrow> crypto \<Rightarrow> tables \<Rightarrow> backend_call \<Rightarrow> bool" where
  "portable G cr tb (Do_ListUsers p) \<longleftrightarrow> page_ok (lup_Limit p) (lup_Offset p)"
| "portable G cr tb (Do_AutocompleteUsers q l) \<longleftrightarrow> 0 \<le> l \<and> CHR ''%'' \<notin> set q \<and> CHR ''_'' \<notin> set q \<and>
     caseless q \<and> list_all (\<lambda>r. caseless (u_Username r)) (tb_users tb)"
| "portable G cr tb (Do_DeleteUser u) \<longleftrightarrow> u \<noteq> []"
| "portable G cr tb (Do_SetPassword u pw) \<longleftrightarrow> u \<noteq> [] \<and> \<not> nonnil pw (\<lambda>p. password_Hash cr p = Ok [])"
| "portable G cr tb (Do_CreateKey f u kid key req now) \<longleftrightarrow> g_Keeps G now \<and> pred_option (g_Keeps G) (kir_ExpiresAt req) \<and>
     list_all (\<lambda>r. Key_Hash (cr_sha256 cr) f key \<noteq> Ok \<lparr>st_Prefix = ak_Prefix r, st_Digest = ak_Digest r\<rparr>) (tb_keys tb)"
| "portable G cr tb (Do_ListKeys f u l off) \<longleftrightarrow> u \<noteq> None \<and> page_ok l off"
| "portable G cr tb (Do_RevokeKey f u kid) \<longleftrightarrow> u \<noteq> [] \<and> kid \<noteq> []"
| "portable G cr tb (Do_ListNamespaces p) \<longleftrightarrow> page_ok (lnp_Limit p) (lnp_Offset p)"
| "portable G cr tb (Do_CreateNamespace n req owner now) \<longleftrightarrow> g_Keeps G now"
| "portable G cr tb (Do_UpdateNamespace n req now) \<longleftrightarrow> n \<noteq> [] \<and> g_Keeps G now"
| "portable G cr tb (Do_ListResources n p) \<longleftrightarrow> page_ok (lrp_Limit p) (lrp_Offset p)"
| "portable G cr tb (Do_CreateResource n p req now) \<longleftrightarrow> g_Keeps G now"
| "portable G cr tb (Do_BatchCreateResources n ps reqs now) \<longleftrightarrow> reqs \<noteq> [] \<and> length ps = length reqs \<and> g_Keeps G now"
| "portable G cr tb (Do_UpdateResource n p req now) \<longleftrightarrow> n \<noteq> [] \<and> p \<noteq> [] \<and> g_Keeps G now"
| "portable G cr tb (Do_SetNamespaceRole n u role) \<longleftrightarrow> n \<noteq> [] \<and> u \<noteq> []"
| "portable G cr tb (Do_ListNamespaceRoles n l off) \<longleftrightarrow> page_ok l off"
| "portable G cr tb (Do_ListUserRoles u l off) \<longleftrightarrow> page_ok l off"
| "portable G cr tb (Do_SetMount b n) \<longleftrightarrow> b \<noteq> []"
| "portable G cr tb (Do_ListMounts l off) \<longleftrightarrow> page_ok l off"
| "portable G cr tb (Do_ListNamespaceMounts n l off) \<longleftrightarrow> page_ok l off"
| "portable G cr tb (Do_ListUserMountGrants u l off) \<longleftrightarrow> page_ok l off"
| "portable G cr tb (Do_SetMountGrant u p) \<longleftrightarrow> u \<noteq> [] \<and> p \<noteq> []"
| "portable G cr tb _ \<longleftrightarrow> True"

text \<open>The calls whose answer is in an order of texts, and so depends on the collation of the database.\<close>

fun ordered :: "backend_call \<Rightarrow> bool" where
  "ordered (Do_ListUsers p) \<longleftrightarrow> True"
| "ordered (Do_AutocompleteUsers q l) \<longleftrightarrow> True"
| "ordered (Do_ListKeys f u l off) \<longleftrightarrow> True"
| "ordered (Do_ListNamespaces p) \<longleftrightarrow> True"
| "ordered (Do_ListResources n p) \<longleftrightarrow> True"
| "ordered (Do_ListNamespaceRoles n l off) \<longleftrightarrow> True"
| "ordered (Do_ListUserRoles u l off) \<longleftrightarrow> True"
| "ordered (Do_ListMounts l off) \<longleftrightarrow> True"
| "ordered (Do_ListNamespaceMounts n l off) \<longleftrightarrow> True"
| "ordered (Do_ListUserMountGrants u l off) \<longleftrightarrow> True"
| "ordered _ \<longleftrightarrow> False"

section \<open>Every call refines\<close>

lemma tx_runs_answered:
  assumes "tx_runs G content m tb (refines M)"
  shows "tx_runs G content (answered f \<circ> m) tb (refines (answered f M))"
proof -
  have ag: "agree (bind_res r (\<lambda>x. Ok (f x))) (bind_res r' (\<lambda>x. Ok (f x)))" if "agree r r'" for r r'
    using that by (cases r; cases r') (auto simp: agree_def)
  show ?thesis unfolding tx_runs_def
  proof (intro allI impI)
    fix d assume "content d = tb"
    moreover obtain r d' where m: "m d = (r, d')" by (cases "m d")
    ultimately have "refines M r (content d') \<or> (\<exists>e. r = Err (Fmt [e]) \<and> db_failure G e \<and> content d' = tb)"
      using assms by (auto simp: tx_runs_def)
    with m show "case (answered f \<circ> m) d of (r, d') \<Rightarrow> refines (answered f M) r (content d') \<or>
        (\<exists>e. r = Err (Fmt [e]) \<and> db_failure G e \<and> content d' = tb)"
      by (auto simp: answered_def refines_def ag)
  qed
qed

lemma answered_state: "snd (answered f rs) = snd rs"
  by (simp add: answered_def)

lemma mem_call_step: "mem_step s (snd (mem_call cr c s)) \<or> snd (mem_call cr c s) = s"
  by (cases c) (auto simp: answered_state intro: mem_step.intros)

lemma portable_key:
  assumes "sim tb s" and "portable G cr tb (Do_CreateKey f u kid key req now)" and "Key_Hash (cr_sha256 cr) f key = Ok h"
    and "x \<in> set (all_keys s)"
  shows "\<not> (kr_prefix x = st_Prefix h \<and> kr_digest x = st_Digest h)"
proof -
  have ok: "users_ok (mem_users s)" using sim_mem [OF assms(1)] by (simp add: mem_inv_def)
  from assms(4) obtain v k where "key_at (mem_users s) v k x" using set_all_keys [OF ok] by blast
  then obtain r where r: "r \<in> set (tb_keys tb)" "x = apiKeyRow_record r" by (rule sim_key_record [OF assms(1)])
  show ?thesis
  proof
    assume "kr_prefix x = st_Prefix h \<and> kr_digest x = st_Digest h"
    with r have "h = \<lparr>st_Prefix = ak_Prefix r, st_Digest = ak_Digest r\<rparr>" by (cases h) (simp add: apiKeyRow_record_def)
    with assms(2,3) r(1) show False by (auto simp: list_all_iff)
  qed
qed

text \<open>The bodies of the listing methods only read; whatever the collation, such a method leaves the content of the database alone.\<close>

definition reads_only :: "('d, 'a) writing \<Rightarrow> bool" where
  "reads_only m \<longleftrightarrow> (\<forall>d. snd (m d) = d)"

lemma reads_only_intros:
  "reads_only (tx_return x)" "reads_only (tx_error e)" "reads_only (tx_read f)"
  "reads_only m \<Longrightarrow> (\<And>x. reads_only (k x)) \<Longrightarrow> reads_only (tx_bind m k)"
  by (auto simp: reads_only_def tx_return_def tx_error_def tx_read_def tx_bind_def split: res.splits prod.splits) (metis snd_conv)+

lemma reads_only_parts:
  "reads_only (ensureUserExists G u)" "reads_only (ensureNamespaceExists G n)" "reads_only (sql_page T cond order conv z limit offset)"
  by (auto simp: ensureUserExists_def ensureNamespaceExists_def sql_page_def intro!: reads_only_intros)

context gorm_laws
begin

lemma withTx_reads_only:
  assumes "reads_only m"
  shows "content (snd (withTx G m d)) = content d"
proof -
  have "snd (m tx) = tx" for tx using assms by (simp add: reads_only_def)
  then show ?thesis
    using Begin_law [of d] Commit_law Rollback_law unfolding withTx_def withTx2_def
    by (auto split: res.splits prod.splits) (metis res.inject(1) res.distinct(1) snd_conv)+
qed

lemma ordered_reads_only: "ordered c \<Longrightarrow> content (snd (sql_call G cr batch c d)) = content d"
  by (cases c; simp add: answered_def sql_ListUsers_def sql_AutocompleteUsers_def sql_ListKeys_def sql_ListNamespaces_def
      sql_ListResources_def sql_ListNamespaceRoles_def sql_ListUserRoles_def sql_ListMounts_def sql_ListNamespaceMounts_def
      sql_ListUserMountGrants_def)
    (auto intro!: withTx_reads_only reads_only_intros reads_only_parts split: option.split)

lemma like_portable:
  assumes "g_Like G = sql_like \<or> g_Like G = sql_ilike" and "caseless q" and "caseless u" and "CHR ''%'' \<notin> set q"
  shows "g_Like G (q @ ''%'') u \<longleftrightarrow> wild_prefix q u"
  using assms by (auto simp: sql_ilike_caseless sql_like_wild)

text \<open>A fact about the stored rows may be used for an operation.\<close>

lemma tx_runs_stored: "(\<And>d. content d = tb \<Longrightarrow> tx_runs G content m tb Q) \<Longrightarrow> tx_runs G content m tb Q"
  by (auto simp: tx_runs_def)

lemma call_refines:
  assumes "sim tb s" and "portable G cr tb c" and "0 < batch" and "g_Like G = sql_like \<or> g_Like G = sql_ilike"
    and "ordered c \<Longrightarrow> g_Collate G = (\<le>)"
  shows "tx_runs G content (sql_call G cr batch c) tb (refines (mem_call cr c s))"
proof -
  note refs = CreateUser_refines GetUser_refines ListUsers_refines AutocompleteUsers_refines DeleteUser_refines UpdateUser_refines
    SetPassword_refines CheckPassword_refines CreateKey_refines RevokeKey_refines LookupUserByKey_refines
    ListNamespaces_refines CreateNamespace_refines GetNamespace_refines UpdateNamespace_refines
    ListResources_refines CountAllResources_refines GetResource_refines CreateResource_refines BatchCreateResources_refines
    UpdateResource_refines GetNamespaceRole_refines SetNamespaceRole_refines DeleteNamespaceRole_refines
    ListNamespaceRoles_refines ListUserRoles_refines GetMount_refines SetMount_refines DeleteMount_refines ListMounts_refines
    ListNamespaceMounts_refines ListUserMountGrants_refines SetMountGrant_refines DeleteMountGrant_refines
  have "tx_runs G content (sql_call G cr batch c) tb (refines (mem_call cr c s))" if d: "content d = tb" for d
  proof (cases c)
    case (Do_AutocompleteUsers q l)
    with assms show ?thesis
      by (auto intro!: tx_runs_answered AutocompleteUsers_refines
          simp: sql_ilike_caseless sql_like_wild wild_prefix_plain list_all_iff)
  next
    case (Do_SetPassword u pw)
    with assms show ?thesis
      by (auto intro!: tx_runs_answered SetPassword_refines)
  next
    case (Do_CreateKey f u kid key req now)
    with assms(2) have "g_Keeps G now" "pred_option (g_Keeps G) (kir_ExpiresAt req)" by simp_all
    then show ?thesis
      unfolding Do_CreateKey mem_call.simps
      using tx_runs_answered [OF CreateKey_refines [OF assms(1) _ _ portable_key [OF assms(1,2) [unfolded Do_CreateKey]]]] by simp
  next
    case (Do_UpdateNamespace n req now)
    with assms stored_keeps [of d] d show ?thesis by (auto intro!: tx_runs_answered UpdateNamespace_refines)
  next
    case (Do_UpdateResource n p req now)
    with assms stored_keeps [of d] d show ?thesis by (auto intro!: tx_runs_answered UpdateResource_refines)
  next
    case (Do_ListKeys f u l off)
    with assms obtain v where "u = Some v" "page_ok l off" by auto
    with assms Do_ListKeys show ?thesis
      by (auto intro!: tx_runs_answered ListKeys_refines simp: page_ok_def)
  qed (use assms in \<open>auto intro!: tx_runs_answered refs simp: page_ok_def\<close>)
  then show ?thesis by (rule tx_runs_stored)
qed

end

end
