(* ===== verification/Sql_Listdb.thy ===== *)
theory Sql_Listdb
  imports Sql_Calls
begin

text \<open>
  A database that keeps its tables as lists, and whose connection may be broken, as an instance of the laws that the SQL backend
  relies on; and the statements about single operations and about histories that follow from the laws.
\<close>

section \<open>A database of lists\<close>

type_synonym listdb = "tables \<times> bool"

definition no_tables :: tables where
  "no_tables = \<lparr>tb_users = [], tb_keys = [], tb_namespaces = [], tb_resources = [], tb_roles = [], tb_mounts = [], tb_grants = []\<rparr>"

definition list_read :: "(tables \<Rightarrow> (gerr, 'a) res) \<Rightarrow> (listdb, 'a) reading" where
  "list_read f d = (if snd d then Err (Sentinel Foreign) else f (fst d))"

definition list_write :: "(tables \<Rightarrow> bool) \<Rightarrow> (tables \<Rightarrow> 'a \<times> tables) \<Rightarrow> (listdb, 'a) writing" where
  "list_write guard upd d =
     (if snd d then (Err (Sentinel Foreign), d)
      else if guard (fst d) then (Ok (fst (upd (fst d))), (snd (upd (fst d)), False))
      else (Err (Sentinel ErrDuplicatedKey), d))"

definition list_first :: "'r list \<Rightarrow> (gerr, 'r) res" where
  "list_first rs = (case rs of [] \<Rightarrow> Err (Sentinel ErrRecordNotFound) | r # _ \<Rightarrow> Ok r)"

text \<open>A table with its reads; a write that a table does not offer fails.\<close>

definition list_table :: "(tables \<Rightarrow> 'r list) \<Rightarrow> (listdb, 'r) table" where
  "list_table rows =
     \<lparr>t_Count = (\<lambda>cond. list_read (\<lambda>tb. Ok (int (length (filter cond (rows tb)))))),
      t_First = (\<lambda>cond. list_read (\<lambda>tb. list_first (filter cond (rows tb)))),
      t_Find = (\<lambda>cond order limit offset. list_read (\<lambda>tb. Ok (case order of
          None \<Rightarrow> filter cond (rows tb) | Some f \<Rightarrow> page_window (sort_key f (filter cond (rows tb))) limit offset))),
      t_Create = (\<lambda>rs d. (Err (Sentinel Foreign), d)),
      t_CreateInBatches = (\<lambda>rs n d. (Err (Sentinel Foreign), d)),
      t_Save = (\<lambda>r d. (Err (Sentinel Foreign), d)),
      t_Update = (\<lambda>cond f d. (Err (Sentinel Foreign), d)),
      t_Delete = (\<lambda>cond d. (Err (Sentinel Foreign), d)),
      t_DeleteAssociations = (\<lambda>r d. (Err (Sentinel Foreign), d))\<rparr>"

definition list_users :: "(listdb, userRow) table" where
  "list_users = (list_table tb_users)\<lparr>
     t_Create := \<lambda>rs. list_write (\<lambda>tb. fresh_rows u_Username (tb_users tb) rs) (\<lambda>tb. ((), tb\<lparr>tb_users := tb_users tb @ rs\<rparr>)),
     t_Update := \<lambda>cond f. list_write (\<lambda>tb. True) (\<lambda>tb. ((), tb\<lparr>tb_users := map (\<lambda>r. if cond r then f r else r) (tb_users tb)\<rparr>)),
     t_DeleteAssociations := \<lambda>u. list_write (\<lambda>tb. True)
       (\<lambda>tb. ((), tb\<lparr>tb_users := filter (\<lambda>r. u_Username r \<noteq> u_Username u) (tb_users tb),
         tb_keys := filter (\<lambda>r. ak_Username r \<noteq> u_Username u) (tb_keys tb)\<rparr>))\<rparr>"

definition list_passwords :: "(listdb, userPasswordRow) table" where
  "list_passwords = (list_table tb_passwords)\<lparr>
     t_Save := \<lambda>p. list_write (\<lambda>tb. pw_Username p \<noteq> [] \<or> pw_Username p \<notin> pw_Username ` set (tb_passwords tb))
       (\<lambda>tb. ((), set_password p tb)),
     t_Delete := \<lambda>cond. list_write (\<lambda>tb. True) (\<lambda>tb. (int (length (filter cond (tb_passwords tb))), drop_passwords cond tb))\<rparr>"

definition list_keys :: "(listdb, apiKeyRow) table" where
  "list_keys = (list_table tb_keys)\<lparr>
     t_Create := \<lambda>rs. list_write (\<lambda>tb. fresh_rows key_pk (tb_keys tb) rs)
       (\<lambda>tb. ((), tb\<lparr>tb_keys := tb_keys tb @ map (\<lambda>r. r\<lparr>ak_UserScopeRows := sort_key us_Pos (ak_UserScopeRows r),
          ak_NamespaceScopeRows := sort_key nss_Pos (ak_NamespaceScopeRows r)\<rparr>) rs\<rparr>)),
     t_DeleteAssociations := \<lambda>k. list_write (\<lambda>tb. True)
       (\<lambda>tb. ((), tb\<lparr>tb_keys := filter (\<lambda>r. key_pk r \<noteq> key_pk k) (tb_keys tb)\<rparr>))\<rparr>"

definition list_namespaces :: "(listdb, namespaceRow) table" where
  "list_namespaces = (list_table tb_namespaces)\<lparr>
     t_Create := \<lambda>rs. list_write (\<lambda>tb. fresh_rows ns_ID (tb_namespaces tb) rs)
       (\<lambda>tb. ((), tb\<lparr>tb_namespaces := tb_namespaces tb @ map (\<lambda>r. r\<lparr>ns_TagRows := sort_key nt_Pos (ns_TagRows r)\<rparr>) rs\<rparr>)),
     t_Save := \<lambda>n. list_write (\<lambda>tb. ns_ID n \<noteq> [] \<or> ns_ID n \<notin> ns_ID ` set (tb_namespaces tb))
       (\<lambda>tb. ((), tb\<lparr>tb_namespaces := put_row ns_ID (n\<lparr>ns_TagRows := nstags_of (ns_ID n) tb\<rparr>) (tb_namespaces tb)\<rparr>))\<rparr>"

definition list_nstags :: "(listdb, namespaceTagRow) table" where
  "list_nstags = (list_table tb_nstags)\<lparr>
     t_Create := \<lambda>ts. list_write (\<lambda>tb. fresh_rows (\<lambda>t. (nt_NamespaceID t, nt_Pos t)) (tb_nstags tb) ts) (\<lambda>tb. ((), add_nstags ts tb)),
     t_Delete := \<lambda>cond. list_write (\<lambda>tb. True) (\<lambda>tb. (int (length (filter cond (tb_nstags tb))), drop_nstags cond tb))\<rparr>"

definition list_resources :: "(listdb, resourceRow) table" where
  "list_resources =
     (let create = (\<lambda>rs. list_write (\<lambda>tb. fresh_rows resource_pk (tb_resources tb) rs)
       (\<lambda>tb. ((), tb\<lparr>tb_resources := tb_resources tb @ map (\<lambda>r. r\<lparr>rs_TagRows := sort_key rt_Pos (rs_TagRows r)\<rparr>) rs\<rparr>))) in
      (list_table tb_resources)\<lparr>
        t_Create := create, t_CreateInBatches := \<lambda>rs batch. create rs,
        t_Save := \<lambda>r. list_write
          (\<lambda>tb. rs_NamespaceID r \<noteq> [] \<and> rs_PID r \<noteq> [] \<or> resource_pk r \<notin> resource_pk ` set (tb_resources tb)) (\<lambda>tb. ((),
          tb\<lparr>tb_resources := put_row resource_pk (r\<lparr>rs_TagRows := restags_of (resource_pk r) tb\<rparr>) (tb_resources tb)\<rparr>))\<rparr>)"

definition list_restags :: "(listdb, resourceTagRow) table" where
  "list_restags = (list_table tb_restags)\<lparr>
     t_Create := \<lambda>ts. list_write (\<lambda>tb. fresh_rows (\<lambda>t. (rt_NamespaceID t, rt_PID t, rt_Pos t)) (tb_restags tb) ts)
       (\<lambda>tb. ((), add_restags ts tb)),
     t_Delete := \<lambda>cond. list_write (\<lambda>tb. True) (\<lambda>tb. (int (length (filter cond (tb_restags tb))), drop_restags cond tb))\<rparr>"

definition list_roles :: "(listdb, namespaceRoleRow) table" where
  "list_roles = (list_table tb_roles)\<lparr>
     t_Create := \<lambda>rs. list_write (\<lambda>tb. fresh_rows role_pk (tb_roles tb) rs) (\<lambda>tb. ((), tb\<lparr>tb_roles := tb_roles tb @ rs\<rparr>)),
     t_Save := \<lambda>r. list_write (\<lambda>tb. ro_NamespaceID r \<noteq> [] \<and> ro_Username r \<noteq> [] \<or> role_pk r \<notin> role_pk ` set (tb_roles tb))
       (\<lambda>tb. ((), tb\<lparr>tb_roles := put_row role_pk r (tb_roles tb)\<rparr>)),
     t_Delete := \<lambda>cond. list_write (\<lambda>tb. True)
       (\<lambda>tb. (int (length (filter cond (tb_roles tb))), tb\<lparr>tb_roles := filter (\<lambda>r. \<not> cond r) (tb_roles tb)\<rparr>))\<rparr>"

definition list_mounts :: "(listdb, mountRow) table" where
  "list_mounts = (list_table tb_mounts)\<lparr>
     t_Save := \<lambda>r. list_write (\<lambda>tb. mo_BaseURI r \<noteq> [] \<or> mo_BaseURI r \<notin> mo_BaseURI ` set (tb_mounts tb))
       (\<lambda>tb. ((), tb\<lparr>tb_mounts := put_row mo_BaseURI r (tb_mounts tb)\<rparr>)),
     t_Delete := \<lambda>cond. list_write (\<lambda>tb. True)
       (\<lambda>tb. (int (length (filter cond (tb_mounts tb))), tb\<lparr>tb_mounts := filter (\<lambda>r. \<not> cond r) (tb_mounts tb)\<rparr>))\<rparr>"

definition list_grants :: "(listdb, userMountGrantRow) table" where
  "list_grants = (list_table tb_grants)\<lparr>
     t_Save := \<lambda>r. list_write (\<lambda>tb. mg_Username r \<noteq> [] \<and> mg_Pattern r \<noteq> [] \<or> grant_pk r \<notin> grant_pk ` set (tb_grants tb))
       (\<lambda>tb. ((), tb\<lparr>tb_grants := put_row grant_pk r (tb_grants tb)\<rparr>)),
     t_Delete := \<lambda>cond. list_write (\<lambda>tb. True)
       (\<lambda>tb. (int (length (filter cond (tb_grants tb))), tb\<lparr>tb_grants := filter (\<lambda>r. \<not> cond r) (tb_grants tb)\<rparr>))\<rparr>"

definition list_gorm :: "listdb gorm" where
  "list_gorm =
     \<lparr>g_users = list_users, g_passwords = list_passwords, g_keys = list_keys, g_namespaces = list_namespaces,
      g_nstags = list_nstags, g_resources = list_resources, g_restags = list_restags, g_roles = list_roles,
      g_mounts = list_mounts, g_grants = list_grants,
      g_Begin = (\<lambda>d. if snd d then Err (Sentinel Foreign) else Ok d),
      g_Commit = (\<lambda>d. if snd d then Err (Sentinel Foreign) else Ok d),
      g_Rollback = (\<lambda>d d'. d), g_Like = sql_like, g_Collate = (\<le>), g_Keeps = (\<lambda>t. True), g_ErrorText = (\<lambda>e. [])\<rparr>"

lemmas list_table_defs = list_users_def list_passwords_def list_keys_def list_namespaces_def list_nstags_def list_resources_def
  list_restags_def list_roles_def list_mounts_def list_grants_def

lemma list_errors: "\<not> isUniqueConstraintError list_gorm (Sentinel Foreign)" "isUniqueConstraintError list_gorm (Sentinel ErrDuplicatedKey)"
  by (simp_all add: isUniqueConstraintError_def ErrDuplicatedKey_def list_gorm_def Let_def strings_Contains_def)

lemma list_failure: "db_failure list_gorm (Sentinel Foreign)"
  by (simp add: db_failure_def list_errors)

lemma write_law_list: "write_law list_gorm fst (list_write guard upd) guard upd"
  by (simp add: write_law_def list_write_def list_failure list_errors)

lemma sql_reads_list:
  assumes "\<And>cond. t_Count T cond = t_Count (list_table rows) cond" and "\<And>cond. t_First T cond = t_First (list_table rows) cond"
    and "\<And>cond order limit offset. t_Find T cond order limit offset = t_Find (list_table rows) cond order limit offset"
  shows "sql_reads list_gorm fst T rows"
proof
  fix cond d
  show "t_Count T cond d = Ok (int (length (filter cond (rows (fst d))))) \<or> (\<exists>e. t_Count T cond d = Err e \<and> db_failure list_gorm e)"
    by (simp add: assms list_table_def list_read_def list_failure)
  show "(\<exists>r \<in> set (filter cond (rows (fst d))). t_First T cond d = Ok r) \<or>
      filter cond (rows (fst d)) = [] \<and> t_First T cond d = Err (Sentinel ErrRecordNotFound) \<or>
      (\<exists>e. t_First T cond d = Err e \<and> db_failure list_gorm e)"
    by (cases "filter cond (rows (fst d))") (auto simp: assms list_table_def list_read_def list_failure list_first_def)
  show "(\<exists>xs. mset xs = mset (filter cond (rows (fst d))) \<and> t_Find T cond None (- 1) 0 d = Ok xs) \<or>
      (\<exists>e. t_Find T cond None (- 1) 0 d = Err e \<and> db_failure list_gorm e)"
    by (auto simp: assms list_table_def list_read_def list_failure)
next
  fix limit offset :: int and cond and d :: listdb and order :: "'a \<Rightarrow> string list"
  have le: "g_Collate list_gorm = (\<le>)" by (simp add: list_gorm_def)
  show "(\<exists>xs. mset xs = mset (filter cond (rows (fst d))) \<and>
      sorted_wrt (\<lambda>r r'. columns_le (g_Collate list_gorm) (order r) (order r')) xs \<and>
      t_Find T cond (Some order) limit offset d = Ok (page_window xs limit offset)) \<or>
      (\<exists>e. t_Find T cond (Some order) limit offset d = Err e \<and> db_failure list_gorm e)"
  proof (cases "snd d")
    case False
    then show ?thesis
      unfolding assms le columns_le_bytewise
      by (intro disjI1 exI [of _ "sort_key order (filter cond (rows (fst d)))"] conjI)
        (simp_all add: list_table_def list_read_def sorted_sort_key [unfolded sorted_map])
  qed (simp add: assms list_table_def list_read_def list_failure)
qed

lemma list_gorm_tables:
  "g_users list_gorm = list_users" "g_passwords list_gorm = list_passwords" "g_keys list_gorm = list_keys"
  "g_namespaces list_gorm = list_namespaces" "g_nstags list_gorm = list_nstags" "g_resources list_gorm = list_resources"
  "g_restags list_gorm = list_restags" "g_roles list_gorm = list_roles" "g_mounts list_gorm = list_mounts" "g_grants list_gorm = list_grants"
  by (simp_all add: list_gorm_def)

lemma list_gorm_transactions:
  "g_Begin list_gorm d = (if snd d then Err (Sentinel Foreign) else Ok d)"
  "g_Commit list_gorm d = (if snd d then Err (Sentinel Foreign) else Ok d)"
  "g_Rollback list_gorm d d' = d" "g_Like list_gorm = sql_like" "g_Collate list_gorm = (\<le>)" "g_Keeps list_gorm t"
  by (simp_all add: list_gorm_def)

lemma list_reads:
  "sql_reads list_gorm fst list_users tb_users" "sql_reads list_gorm fst list_passwords tb_passwords"
  "sql_reads list_gorm fst list_keys tb_keys" "sql_reads list_gorm fst list_namespaces tb_namespaces"
  "sql_reads list_gorm fst list_resources tb_resources" "sql_reads list_gorm fst list_roles tb_roles"
  "sql_reads list_gorm fst list_mounts tb_mounts" "sql_reads list_gorm fst list_grants tb_grants"
  by (rule sql_reads_list; simp add: list_table_defs Let_def)+

lemma list_steps:
  "(\<exists>tx. g_Begin list_gorm d = Ok tx \<and> fst tx = fst d) \<or> (\<exists>e. g_Begin list_gorm d = Err e \<and> db_failure list_gorm e)"
  "(\<exists>d'. g_Commit list_gorm d = Ok d' \<and> fst d' = fst d) \<or> (\<exists>e. g_Commit list_gorm d = Err e \<and> db_failure list_gorm e)"
  by (cases "snd d"; simp add: list_gorm_transactions list_failure)+

lemma list_writes: "gorm_laws_axioms list_gorm fst"
  by (rule gorm_laws_axioms.intro; (rule list_steps)?)
    (simp_all add: list_all_iff keeps_namespace_def keeps_resource_def list_gorm_transactions list_gorm_tables list_table_defs Let_def write_law_list)

interpretation listdb: gorm_laws list_gorm fst
  by (rule gorm_laws.intro; (rule list_writes)?; simp add: list_gorm_tables list_reads)

end
