(* ===== verification/Sql_Props.thy ===== *)
theory Sql_Props
  imports Sql_Listdb
begin

text \<open>
  What the refinement gives: the SQL backend and the in-memory backend are interchangeable over whole histories, a call that does
  not succeed changes nothing, and two places where the backends differ.
\<close>

section \<open>Histories\<close>

text \<open>The states of a connection that sequences of calls lead to.\<close>

inductive sql_history :: "'d gorm \<Rightarrow> ('d \<Rightarrow> tables) \<Rightarrow> crypto \<Rightarrow> int \<Rightarrow> 'd \<Rightarrow> 'd \<Rightarrow> bool"
  for G content cr batch d0 where
  history_start: "sql_history G content cr batch d0 d0"
| history_call: "sql_history G content cr batch d0 d \<Longrightarrow> portable G cr (content d) c \<Longrightarrow>
    sql_history G content cr batch d0 (snd (sql_call G cr batch c d))"

lemma sim_init: "sim no_tables NewMemoryBackend"
  using mem_inv_init
  by (simp add: sim_def no_tables_def NewMemoryBackend_def sim_users_def sim_keys_def sim_namespaces_def sim_resources_def
      sim_roles_def sim_mounts_def sim_grants_def row_at_def inner_def)

text \<open>The \<^verbatim>\<open>LIKE\<close> of PostgreSQL or that of SQLite.\<close>

definition like_operator :: "'d gorm \<Rightarrow> bool" where
  "like_operator G \<longleftrightarrow> g_Like G = sql_like \<or> g_Like G = sql_ilike"

lemma sql_call_simulates:
  assumes "gorm_laws G content" and "like_operator G" and "0 < batch" and "sim (content d) s" and "portable G cr (content d) c"
    and "ordered c \<Longrightarrow> g_Collate G = (\<le>)"
  shows "case sql_call G cr batch c d of (r, d') \<Rightarrow>
    agree r (fst (mem_call cr c s)) \<and> sim (content d') (snd (mem_call cr c s)) \<or>
    (\<exists>e. r = Err (Fmt [e]) \<and> db_failure G e \<and> content d' = content d)"
proof -
  have "tx_runs G content (sql_call G cr batch c) (content d) (refines (mem_call cr c s))"
    by (rule gorm_laws.call_refines [OF assms(1,4,5,3)]) (use assms(2,6) in \<open>auto simp: like_operator_def\<close>)
  from this [unfolded tx_runs_def refines_def, rule_format, OF refl] show ?thesis .
qed

lemma history_simulated:
  assumes "gorm_laws G content" and "like_operator G" and "0 < batch" and "content d0 = no_tables"
    and "sql_history G content cr batch d0 d"
  shows "\<exists>s. reachable s \<and> sim (content d) s"
  using assms(5)
proof induction
  case history_start
  with sim_init assms(4) reach_init show ?case by metis
next
  case (history_call d c)
  then obtain s where s: "reachable s" "sim (content d) s" by blast
  show ?case
  proof (cases "ordered c")
    case True
    with s gorm_laws.ordered_reads_only [OF assms(1) True, of cr batch d] show ?thesis by auto
  next
    case False
    have next_reachable: "reachable (snd (mem_call cr c s))"
      using mem_call_step [of s cr c] s(1) by (auto intro: reach_step)
    from sql_call_simulates [OF assms(1-3) s(2) history_call.hyps(2)] False s next_reachable show ?thesis
      by (auto split: prod.splits)
  qed
qed

section \<open>Transactions\<close>

context gorm_laws
begin

lemma withTx2_atomic: "withTx2 G m d = (r, d') \<Longrightarrow> \<not> is_ok r \<Longrightarrow> content d' = content d"
  using Rollback_law by (auto simp: withTx2_def split: res.splits prod.splits)

lemma withTx_atomic: "withTx G m d = (r, d') \<Longrightarrow> \<not> is_ok r \<Longrightarrow> content d' = content d"
  unfolding withTx_def by (rule withTx2_atomic)

lemma answered_atomic:
  assumes "\<And>r d'. m d = (r, d') \<Longrightarrow> \<not> is_ok r \<Longrightarrow> content d' = content d"
    and "(answered f \<circ> m) d = (r, d')" and "\<not> is_ok r"
  shows "content d' = content d"
proof -
  obtain r0 where m: "m d = (r0, d')" and "r = bind_res r0 (\<lambda>x. Ok (f x))"
    using assms(2) by (cases "m d") (auto simp: answered_def)
  with assms(3) have "\<not> is_ok r0" by (cases r0) auto
  with m show ?thesis by (rule assms(1))
qed

lemmas sql_op_defs =
  sql_CreateUser_def sql_GetUser_def sql_ListUsers_def sql_AutocompleteUsers_def sql_DeleteUser_def sql_UpdateUser_def
  sql_SetPassword_def sql_CheckPassword_def sql_CreateKey_def sql_ListKeys_def sql_RevokeKey_def
  sql_ListNamespaces_def sql_CreateNamespace_def sql_GetNamespace_def sql_UpdateNamespace_def
  sql_ListResources_def sql_CountAllResources_def sql_GetResource_def sql_CreateResource_def sql_UpdateResource_def
  sql_GetNamespaceRole_def sql_DeleteNamespaceRole_def sql_ListNamespaceRoles_def sql_ListUserRoles_def
  sql_GetMount_def sql_SetMount_def sql_DeleteMount_def sql_ListMounts_def sql_ListNamespaceMounts_def
  sql_ListUserMountGrants_def sql_SetMountGrant_def sql_DeleteMountGrant_def

lemma call_atomic: "sql_call G cr batch c d = (r, d') \<Longrightarrow> \<not> is_ok r \<Longrightarrow> content d' = content d"
proof (cases c)
  case (Do_LookupUserByKey f key)
  then show "sql_call G cr batch c d = (r, d') \<Longrightarrow> \<not> is_ok r \<Longrightarrow> content d' = content d"
    by (simp only: sql_call.simps) (erule answered_atomic [rotated], simp_all add: sql_LookupUserByKey_def withTx2_atomic)
next
  case (Do_BatchCreateResources n ps reqs now)
  then show "sql_call G cr batch c d = (r, d') \<Longrightarrow> \<not> is_ok r \<Longrightarrow> content d' = content d"
    by (simp only: sql_call.simps)
      (erule answered_atomic [rotated], auto simp: sql_BatchCreateResources_def tx_return_def tx_error_def split: if_splits dest: withTx_atomic)
next
  case (Do_SetNamespaceRole n u role)
  then show "sql_call G cr batch c d = (r, d') \<Longrightarrow> \<not> is_ok r \<Longrightarrow> content d' = content d"
    by (simp only: sql_call.simps)
      (erule answered_atomic [rotated], auto simp: sql_SetNamespaceRole_def tx_error_def split: if_splits dest: withTx_atomic)
qed (simp only: sql_call.simps sql_op_defs; erule answered_atomic [rotated]; simp add: withTx_atomic)+

end

section \<open>Keys with the same stored form\<close>

context gorm_laws
begin

text \<open>The uniqueness that the table enforces is that of the user and the key's identifier, not of the key.\<close>

lemma CreateKey_duplicate:
  assumes "sim tb s" and keeps: "g_Keeps G now" "pred_option (g_Keeps G) (kir_ExpiresAt req)" and user: "dhas (mem_users s) v" and h: "Key_Hash (cr_sha256 cr) f key = Ok h"
    and new: "row_at key_pk (tb_keys tb) (v, kid) = None"
    and old: "\<exists>r \<in> set (tb_keys tb). ak_Prefix r = st_Prefix h \<and> ak_Digest r = st_Digest h"
  shows "tx_runs G content (sql_CreateKey G cr f v kid key req now) tb (\<lambda>r tb'. is_ok r \<and>
    2 \<le> length (filter (\<lambda>k. ak_Prefix k = st_Prefix h \<and> ak_Digest k = st_Digest h) (tb_keys tb')))"
proof -
  have "filter (\<lambda>k. ak_Prefix k = st_Prefix h \<and> ak_Digest k = st_Digest h) (tb_keys tb) \<noteq> []"
    using old by (auto simp: filter_empty_conv)
  then have "1 \<le> length (filter (\<lambda>k. ak_Prefix k = st_Prefix h \<and> ak_Digest k = st_Digest h) (tb_keys tb))"
    by (simp add: Suc_le_eq)
  with keeps user new show ?thesis
    unfolding sql_CreateKey_def h res.case Let_def
    by (intro withTx_runs runs_bind runs_ensureUser [OF assms(1)])
      (auto intro!: runs_bind runs_write_catch [OF keys_Create] runs_return simp: fresh_row key_pk_def keeps_key_def)
qed

end

section \<open>Names\<close>

text \<open>The user names in order, and the names among them that a completion admits.\<close>

definition stored_names :: "memory \<Rightarrow> string list" where
  "stored_names s = sort (map fst (mem_users s))"

lemma listing_names:
  "listing (\<lambda>u. u) (\<lambda>(username, _). if P username then Some username else None) (mem_users s) = filter P (stored_names s)"
proof -
  have "List.map_filter (\<lambda>(username, _). if P username then Some username else None) D = filter P (map fst D)"
    for D :: "(string, userRecord) dict"
    by (induction D) (auto simp: List.map_filter_simps)
  then show ?thesis by (simp add: listing_def stored_names_def filter_sort)
qed

lemma id_match_caseless:
  assumes "id_match q"
  shows "caseless q" "CHR ''%'' \<notin> set q"
proof -
  have "list_all (\<lambda>c. ascii_lower c = c \<and> c \<noteq> CHR ''%'') id_chars" by (simp add: id_chars_def ascii_lower_def)
  with assms show "caseless q" "CHR ''%'' \<notin> set q" by (auto simp: id_match_def caseless_def list_all_iff)
qed

section \<open>Batches without requests\<close>

text \<open>
  A batch without requests succeeds without a look at the namespace; the in-memory backend reports a missing namespace first. The service looks the
  namespace up itself before it creates a batch.
\<close>

lemma sql_empty_batch:
  "sql_BatchCreateResources G batch n pids [] now d = (Ok [], d)"
  "\<not> dhas (mem_namespaces s) n \<Longrightarrow> mem_BatchCreateResources n pids [] now s = (Err (Sentinel ErrNamespaceNotFound), s)"
  by (simp_all add: sql_BatchCreateResources_def tx_return_def mem_BatchCreateResources_def)

section \<open>The empty pattern\<close>

text \<open>
  The empty pattern is a valid grant. Granting it again succeeds in memory; the SQL backend saves a row with an empty field in its primary key, which
  is an insertion and fails.
\<close>

lemma sql_empty_pattern:
  assumes "gorm_laws G content" and "sim (content d) s" and "dhas (mem_users s) u" and "dhas (inner (mem_mountGrants s) u) []"
  shows "fst (mem_SetMountGrant u [] s) = Ok ()" "\<not> is_ok (fst (sql_SetMountGrant G u [] d))"
proof -
  show "fst (mem_SetMountGrant u [] s) = Ok ()" using assms(3) by (simp add: mem_SetMountGrant_def)
  let ?row = "\<lparr>mg_Username = u, mg_Pattern = []\<rparr>"
  have "row_at grant_pk (tb_grants (content d)) (u, []) \<noteq> None"
    using assms(4) sim_grants_get [OF assms(2), of u "[]"] by (auto simp: dhas_def)
  then have old: "grant_pk ?row \<in> grant_pk ` set (tb_grants (content d))" by (simp add: row_at_None grant_pk_def)
  have "tx_runs G content (sql_SetMountGrant G u []) (content d) (\<lambda>r tb'. \<not> is_ok r)"
    unfolding sql_SetMountGrant_def
  proof (intro gorm_laws.withTx_runs [OF assms(1)] runs_bind gorm_laws.runs_ensureUser [OF assms(1,2)], goal_cases)
    case 2
    from gorm_laws.grants_Save [OF assms(1), of ?row] old show ?case
      by (fastforce simp: runs_def write_law_def split: res.splits prod.splits)
  qed simp
  moreover obtain r d' where "sql_SetMountGrant G u [] d = (r, d')" by fastforce
  ultimately have "\<not> is_ok r \<or> (\<exists>e. r = Err (Fmt [e]))" unfolding tx_runs_def by fastforce
  then show "\<not> is_ok (fst (sql_SetMountGrant G u [] d))" using \<open>sql_SetMountGrant G u [] d = (r, d')\<close> by auto
qed

section \<open>A history\<close>

definition sql_demo_crypto :: crypto where
  "sql_demo_crypto = \<lparr>cr_sha256 = map (of_nat \<circ> of_char), cr_bcrypt_generate = (\<lambda>p. Ok (0 # map (of_nat \<circ> of_char) p)),
     cr_bcrypt_compare = (\<lambda>h p. h = 0 # map (of_nat \<circ> of_char) p)\<rparr>"

definition sql_alice :: UserCreateRequest where
  "sql_alice = \<lparr>ucr_Username = ''alice'', ucr_Superuser = True\<rparr>"

definition sql_demo :: listdb where
  "sql_demo = snd (sql_call list_gorm sql_demo_crypto 100 (Do_CreateUser sql_alice 0) (no_tables, False))"

lemma sql_demo_history: "sql_history list_gorm fst sql_demo_crypto 100 (no_tables, False) sql_demo"
  unfolding sql_demo_def by (rule history_call [OF history_start]) simp

lemmas listdb_eval = tx_bind_def tx_catch_def tx_return_def tx_error_def tx_read_def withTx_def withTx2_def
  list_gorm_tables list_gorm_transactions list_table_defs list_table_def list_write_def list_read_def list_first_def
  isUniqueConstraintError_def ErrDuplicatedKey_def record_not_found_def Let_def

lemma sql_demo_eq: "sql_demo = (no_tables\<lparr>tb_users := [\<lparr>u_Username = ''alice'', u_Superuser = True, u_Password = None\<rparr>]\<rparr>, False)"
  by (simp add: sql_demo_def answered_def sql_CreateUser_def sql_alice_def listdb_eval fresh_rows_def no_tables_def)

definition sql_demo_format :: key_format where
  "sql_demo_format = \<lparr>kf_Charset = ''hex'', kf_Length = 2, kf_PrefixLen = 1, kf_Hasher = None\<rparr>"

definition sql_demo_request :: KeyIssueRequest where
  "sql_demo_request = \<lparr>kir_Comment = [], kir_ExpiresAt = None, kir_UserScopes = [], kir_NamespaceScopes = []\<rparr>"

text \<open>The user \<^verbatim>\<open>bob\<close> joins, and \<^verbatim>\<open>alice\<close> gets a key.\<close>

definition sql_demo_keyed :: listdb where
  "sql_demo_keyed = snd (sql_call list_gorm sql_demo_crypto 100 (Do_CreateKey sql_demo_format ''alice'' ''k1'' ''5a'' sql_demo_request 2)
     (snd (sql_call list_gorm sql_demo_crypto 100 (Do_CreateUser \<lparr>ucr_Username = ''bob'', ucr_Superuser = False\<rparr> 1) sql_demo)))"

lemma sql_demo_hash: "Key_Hash (cr_sha256 sql_demo_crypto) sql_demo_format ''5a'' = Ok \<lparr>st_Prefix = ''5'', st_Digest = [97]\<rparr>"
proof -
  have "splitKey sql_demo_format ''5a'' = Ok (''5'', ''a'')"
    by (simp add: splitKey_Ok Key_Validate_def validateKey_def CharacterSet_Validate_def alphabets_def Alphabet_def sql_demo_format_def)
  then show ?thesis by (simp add: Key_Hash_def HashFunc_Hash_def sql_demo_crypto_def sql_demo_format_def)
qed

lemma sql_demo_keyed_eq:
  "snd (sql_call list_gorm sql_demo_crypto 100 (Do_CreateUser \<lparr>ucr_Username = ''bob'', ucr_Superuser = False\<rparr> 1) sql_demo) =
     (no_tables\<lparr>tb_users := [\<lparr>u_Username = ''alice'', u_Superuser = True, u_Password = None\<rparr>,
        \<lparr>u_Username = ''bob'', u_Superuser = False, u_Password = None\<rparr>]\<rparr>, False)" (is ?bob)
  "sql_demo_keyed = (no_tables\<lparr>tb_users := [\<lparr>u_Username = ''alice'', u_Superuser = True, u_Password = None\<rparr>,
        \<lparr>u_Username = ''bob'', u_Superuser = False, u_Password = None\<rparr>],
      tb_keys := [\<lparr>ak_Username = ''alice'', ak_KeyID = ''k1'', ak_Comment = [], ak_DateCreated = 2, ak_ExpiresAt = None,
        ak_Prefix = ''5'', ak_Digest = [97], ak_UserScopeRows = [], ak_NamespaceScopeRows = []\<rparr>]\<rparr>, False)"
proof -
  show bob: ?bob
    by (simp add: sql_demo_eq answered_def sql_CreateUser_def listdb_eval fresh_rows_def no_tables_def)
  show "sql_demo_keyed = (no_tables\<lparr>tb_users := [\<lparr>u_Username = ''alice'', u_Superuser = True, u_Password = None\<rparr>,
        \<lparr>u_Username = ''bob'', u_Superuser = False, u_Password = None\<rparr>],
      tb_keys := [\<lparr>ak_Username = ''alice'', ak_KeyID = ''k1'', ak_Comment = [], ak_DateCreated = 2, ak_ExpiresAt = None,
        ak_Prefix = ''5'', ak_Digest = [97], ak_UserScopeRows = [], ak_NamespaceScopeRows = []\<rparr>]\<rparr>, False)"
    unfolding sql_demo_keyed_def bob
    by (simp add: answered_def sql_CreateKey_def sql_demo_hash ensureUserExists_def listdb_eval fresh_rows_def no_tables_def
        sql_demo_request_def userScopeRowsFor_def namespaceScopeRowsFor_def)
qed

lemma sql_demo_keyed_history: "sql_history list_gorm fst sql_demo_crypto 100 (no_tables, False) sql_demo_keyed"
  unfolding sql_demo_keyed_def
  by (rule history_call, rule history_call [OF sql_demo_history]) (simp_all add: sql_demo_keyed_eq(1) no_tables_def list_gorm_transactions sql_demo_request_def del: sql_call.simps)

section \<open>Properties\<close>

text \<open>
  C9. The SQL backend can stand in for the in-memory backend. Take a database that keeps the laws of GORM and SQL, with the \<^verbatim>\<open>LIKE\<close> of PostgreSQL
  or of SQLite, and any sequence of calls since it was empty that are portable: limits and offsets in range, a prefix for the completion of names
  without wildcards and upper-case letters, the keys of one user, no key whose stored form exists already, no empty hash, no empty batch, time stamps that
  the database keeps exactly, and names that are not empty where a row is replaced or deleted. Then the database stores what some reachable state of the
  in-memory backend stores. Every further portable call either answers what the in-memory backend answers in that state, with the same error if it
  is an error, and stores the same, or fails in the database and leaves its content as it was; for the ordered listings this is
  claimed of a database that orders texts by their bytes.
\<close>

theorem sql_histories:
  assumes "gorm_laws G content" and "like_operator G" and "0 < batch" and "content d0 = no_tables"
    and "sql_history G content cr batch d0 d"
  shows "\<exists>s. reachable s \<and> sim (content d) s \<and>
    (\<forall>c. portable G cr (content d) c \<and> (ordered c \<longrightarrow> g_Collate G = (\<le>)) \<longrightarrow>
      (case sql_call G cr batch c d of (r, d') \<Rightarrow>
         agree r (fst (mem_call cr c s)) \<and> sim (content d') (snd (mem_call cr c s)) \<or>
         (\<exists>e. r = Err (Fmt [e]) \<and> db_failure G e \<and> content d' = content d)))"
proof -
  from history_simulated [OF assms] obtain s where s: "reachable s" "sim (content d) s" by blast
  show ?thesis
    by (intro exI [of _ s] conjI s allI impI, rule sql_call_simulates [OF assms(1-3) s(2)]) simp_all
qed

theorem sql_histories_witness:
  "\<exists>s. reachable s \<and> sim (fst sql_demo) s \<and>
     fst (sql_call list_gorm sql_demo_crypto 100 (Do_GetUser ''alice'') sql_demo) =
       Ok (A_user \<lparr>ui_Username = ''alice'', ui_Superuser = True, ui_Password = False\<rparr>) \<and>
     fst (mem_call sql_demo_crypto (Do_GetUser ''alice'') s) =
       Ok (A_user \<lparr>ui_Username = ''alice'', ui_Superuser = True, ui_Password = False\<rparr>)"
proof -
  have r: "fst (sql_call list_gorm sql_demo_crypto 100 (Do_GetUser ''alice'') sql_demo) =
      Ok (A_user \<lparr>ui_Username = ''alice'', ui_Superuser = True, ui_Password = False\<rparr>)"
    by (simp add: sql_demo_eq answered_def sql_GetUser_def findUser_def listdb_eval no_tables_def userRow_toSpec_def)
  have "\<exists>s. reachable s \<and> sim (fst sql_demo) s \<and> (\<forall>c. portable list_gorm sql_demo_crypto (fst sql_demo) c \<and>
      (ordered c \<longrightarrow> g_Collate list_gorm = (\<le>)) \<longrightarrow>
      (case sql_call list_gorm sql_demo_crypto 100 c sql_demo of (r, d') \<Rightarrow>
         agree r (fst (mem_call sql_demo_crypto c s)) \<and> sim (fst d') (snd (mem_call sql_demo_crypto c s)) \<or>
         (\<exists>e. r = Err (Fmt [e]) \<and> db_failure list_gorm e \<and> fst d' = fst sql_demo)))"
    by (rule sql_histories [OF listdb.gorm_laws_axioms _ _ _ sql_demo_history]) (simp_all add: list_gorm_transactions like_operator_def)
  then obtain s where s: "reachable s" "sim (fst sql_demo) s" and all: "\<forall>c. portable list_gorm sql_demo_crypto (fst sql_demo) c \<and>
      (ordered c \<longrightarrow> g_Collate list_gorm = (\<le>)) \<longrightarrow>
      (case sql_call list_gorm sql_demo_crypto 100 c sql_demo of (r, d') \<Rightarrow>
         agree r (fst (mem_call sql_demo_crypto c s)) \<and> sim (fst d') (snd (mem_call sql_demo_crypto c s)) \<or>
         (\<exists>e. r = Err (Fmt [e]) \<and> db_failure list_gorm e \<and> fst d' = fst sql_demo))"
    by (elim exE conjE) (rule that)
  have "portable list_gorm sql_demo_crypto (fst sql_demo) (Do_GetUser ''alice'') \<and>
      (ordered (Do_GetUser ''alice'') \<longrightarrow> g_Collate list_gorm = (\<le>))" by simp
  from all [rule_format, OF this] r have "agree (Ok (A_user \<lparr>ui_Username = ''alice'', ui_Superuser = True, ui_Password = False\<rparr>))
      (fst (mem_call sql_demo_crypto (Do_GetUser ''alice'') s))"
    by (auto simp del: sql_call.simps mem_call.simps split: prod.splits)
  then have "fst (mem_call sql_demo_crypto (Do_GetUser ''alice'') s) =
      Ok (A_user \<lparr>ui_Username = ''alice'', ui_Superuser = True, ui_Password = False\<rparr>)"
    by (cases "fst (mem_call sql_demo_crypto (Do_GetUser ''alice'') s)") (auto simp: agree_def)
  with s r show ?thesis by blast
qed

text \<open>
  C10. A call that does not succeed has no effect. Whatever goes wrong in an operation of the SQL backend, at its checks, at any of its
  statements or at the commit, the content of the database afterwards is the content before.
\<close>

theorem sql_atomic:
  assumes "gorm_laws G content" and "sql_call G cr batch c d = (r, d')" and "\<not> is_ok r"
  shows "content d' = content d"
  using gorm_laws.call_atomic [OF assms] .

theorem sql_atomic_witness:
  "\<exists>d'. sql_call list_gorm sql_demo_crypto 100 (Do_CreateUser sql_alice 1) sql_demo = (Err (Fmt [Sentinel ErrDuplicateUsername]), d') \<and>
     fst d' = fst sql_demo"
proof -
  have c: "sql_call list_gorm sql_demo_crypto 100 (Do_CreateUser sql_alice 1) sql_demo = (Err (Fmt [Sentinel ErrDuplicateUsername]), sql_demo)"
    by (simp add: sql_demo_eq answered_def sql_CreateUser_def sql_alice_def listdb_eval fresh_rows_def no_tables_def)
  from sql_atomic [OF listdb.gorm_laws_axioms c] show ?thesis using c by simp
qed

text \<open>
  C39. The completion of user names takes an underscore for a wildcard. Names and queries may contain underscores, the interface promises the
  names that start with the query, and the in-memory backend returns the first of those in order. The SQL backend hands the query to
  \<^verbatim>\<open>LIKE\<close> unescaped. So with any lawful database that stores the same, with the \<^verbatim>\<open>LIKE\<close> of PostgreSQL or of SQLite and an order of texts by their
  bytes, a valid query over valid user names is answered with the first names in order that are at least as long as the query and have its character at
  each place where the query has no underscore, unless the database fails.
\<close>

theorem sql_autocomplete_wildcard:
  assumes "gorm_laws G content" and "like_operator G" and "g_Collate G = (\<le>)" and "sim (content d) s"
    and "\<forall>u \<in> u_Username ` set (tb_users (content d)). NewUsername u = Ok u" and "NewAutocompleteQuery q = Ok q" and "0 \<le> limit"
  shows "mem_AutocompleteUsers q limit s = Ok (take (nat limit) (filter (\<lambda>u. take (length q) u = q) (stored_names s))) \<and>
    (fst (sql_AutocompleteUsers G q limit d) = Ok (take (nat limit) (filter (wild_prefix q) (stored_names s))) \<or>
     (\<exists>e. fst (sql_AutocompleteUsers G q limit d) = Err (Fmt [e]) \<and> db_failure G e))"
proof
  have q: "caseless q" "CHR ''%'' \<notin> set q" using assms(6) by (auto simp: NewAutocompleteQuery_def id_match_caseless split: if_splits)
  have "g_Like G (q @ ''%'') u \<longleftrightarrow> wild_prefix q u" if "u \<in> u_Username ` set (tb_users (content d))" for u
    using that assms(2,5) q
    by (intro gorm_laws.like_portable [OF assms(1)]) (auto simp: like_operator_def NewUsername_def id_match_caseless split: if_splits)
  then have "tx_runs G content (sql_AutocompleteUsers G q limit) (content d) (\<lambda>r tb'. tb' = content d \<and>
      r = Ok (take (nat limit) (listing (\<lambda>u. u) (\<lambda>(username, _). if wild_prefix q username then Some username else None) (mem_users s))))"
    by (rule gorm_laws.AutocompleteUsers_runs [OF assms(1,4,7,3)])
  moreover obtain r d' where "sql_AutocompleteUsers G q limit d = (r, d')" by fastforce
  ultimately show "fst (sql_AutocompleteUsers G q limit d) = Ok (take (nat limit) (filter (wild_prefix q) (stored_names s))) \<or>
     (\<exists>e. fst (sql_AutocompleteUsers G q limit d) = Err (Fmt [e]) \<and> db_failure G e)"
    unfolding tx_runs_def listing_names by auto
  show "mem_AutocompleteUsers q limit s = Ok (take (nat limit) (filter (\<lambda>u. take (length q) u = q) (stored_names s)))"
    using assms(7) by (auto simp: mem_AutocompleteUsers_def Let_def go_slice_def listing_names)
qed

text \<open>With the user \<^verbatim>\<open>abc\<close>, the query \<^verbatim>\<open>a_\<close> is answered with \<^verbatim>\<open>abc\<close> from a database and with nothing from memory.\<close>

theorem sql_autocomplete_wildcard_witness:
  "\<exists>d s. sim (fst d) s \<and> fst (sql_AutocompleteUsers list_gorm ''a_'' 10 d) = Ok [''abc''] \<and> mem_AutocompleteUsers ''a_'' 10 s = Ok []"
proof (intro exI)
  let ?d = "(no_tables\<lparr>tb_users := [\<lparr>u_Username = ''abc'', u_Superuser = False, u_Password = None\<rparr>]\<rparr>, False) :: listdb"
  let ?s = "NewMemoryBackend\<lparr>mem_users := dset ''abc'' \<lparr>ur_superuser = False, ur_passwordHash = [], ur_keys = []\<rparr> []\<rparr>"
  have "sim_users [\<lparr>u_Username = ''abc'', u_Superuser = False, u_Password = None\<rparr>]
      (dset ''abc'' \<lparr>ur_superuser = False, ur_passwordHash = [], ur_keys = []\<rparr> [])"
    using sim_users_new [of "[]" "[]" "''abc''" False "[]"] sim_init by (simp add: sim_def no_tables_def NewMemoryBackend_def row_at_def)
  moreover have "mem_inv ?s"
    using inv_CreateUser [OF mem_inv_init, of "\<lparr>ucr_Username = ''abc'', ucr_Superuser = False\<rparr>" 0]
    by (simp add: mem_CreateUser_def NewMemoryBackend_def Let_def)
  ultimately have sim: "sim (fst ?d) ?s"
    using sim_init by (simp add: sim_def no_tables_def NewMemoryBackend_def sim_keys_new)
  have names: "stored_names ?s = [''abc'']" by (simp add: stored_names_def NewMemoryBackend_def dset_def)
  have ok: "is_ok (fst (sql_AutocompleteUsers list_gorm ''a_'' 10 ?d))" by (simp add: sql_AutocompleteUsers_def listdb_eval)
  have valid: "\<forall>u \<in> u_Username ` set (tb_users (fst ?d)). NewUsername u = Ok u" "NewAutocompleteQuery ''a_'' = Ok ''a_''"
    by (simp_all add: NewUsername_def NewAutocompleteQuery_def id_match_def id_chars_def)
  have "like_operator list_gorm" by (simp add: like_operator_def list_gorm_transactions)
  then have "mem_AutocompleteUsers ''a_'' 10 ?s = Ok (take (nat 10) (filter (\<lambda>u. take (length ''a_'') u = ''a_'') (stored_names ?s))) \<and>
    (fst (sql_AutocompleteUsers list_gorm ''a_'' 10 ?d) = Ok (take (nat 10) (filter (wild_prefix ''a_'') (stored_names ?s))) \<or>
     (\<exists>e. fst (sql_AutocompleteUsers list_gorm ''a_'' 10 ?d) = Err (Fmt [e]) \<and> db_failure list_gorm e))"
    by (intro sql_autocomplete_wildcard [where content = fst] listdb.gorm_laws_axioms sim valid list_gorm_transactions(5)) simp_all
  with ok sim show "sim (fst ?d) ?s \<and> fst (sql_AutocompleteUsers list_gorm ''a_'' 10 ?d) = Ok [''abc''] \<and> mem_AutocompleteUsers ''a_'' 10 ?s = Ok []"
    unfolding names by (auto simp: wild_prefix_def)
qed

text \<open>
  The SQL backend does not notice that a key exists. The interface asks for \<^verbatim>\<open>ErrKeyCollision\<close> when a new key collides with an
  existing one, and the in-memory backend compares the stored form of the key with that of all keys. In a database that stores the same,
  where the user \<open>v\<close> has no key with the identifier \<open>kid\<close>, the SQL backend creates the key all the same (or fails in the database): two
  rows then have the stored form of the presented key.
\<close>

lemma sql_key_collision:
  assumes "gorm_laws G content" and "sim (content d) s" and keeps: "g_Keeps G now" "pred_option (g_Keeps G) (kir_ExpiresAt req)"
    and "dhas (mem_users s) v"
    and "Key_Hash (cr_sha256 cr) f key = Ok h" and "row_at key_pk (tb_keys (content d)) (v, kid) = None"
    and "\<exists>r \<in> set (tb_keys (content d)). ak_Prefix r = st_Prefix h \<and> ak_Digest r = st_Digest h"
  shows "mem_CreateKey cr f v kid key req now s = (Err (Sentinel ErrKeyCollision), s) \<and>
    (case sql_CreateKey G cr f v kid key req now d of (r, d') \<Rightarrow>
       is_ok r \<and> 2 \<le> length (filter (\<lambda>k. ak_Prefix k = st_Prefix h \<and> ak_Digest k = st_Digest h) (tb_keys (content d'))) \<or>
       (\<exists>e. r = Err (Fmt [e]) \<and> db_failure G e \<and> content d' = content d))"
proof
  show "case sql_CreateKey G cr f v kid key req now d of (r, d') \<Rightarrow>
       is_ok r \<and> 2 \<le> length (filter (\<lambda>k. ak_Prefix k = st_Prefix h \<and> ak_Digest k = st_Digest h) (tb_keys (content d'))) \<or>
       (\<exists>e. r = Err (Fmt [e]) \<and> db_failure G e \<and> content d' = content d)"
    using gorm_laws.CreateKey_duplicate [OF assms, unfolded tx_runs_def, rule_format, OF refl] .
  from assms(8) obtain r where r: "r \<in> set (tb_keys (content d))" "ak_Prefix r = st_Prefix h" "ak_Digest r = st_Digest h" by blast
  have "apiKeyRow_record r \<in> set (all_keys s)"
    using sim_key_row [OF assms(2) r(1)] sim_mem [OF assms(2)] by (auto simp: set_all_keys mem_inv_def)
  with r have "list_ex (\<lambda>existing. kr_prefix existing = st_Prefix h \<and> kr_digest existing = st_Digest h) (all_keys s)"
    unfolding list_ex_iff by (intro bexI [of _ "apiKeyRow_record r"]) (simp_all add: apiKeyRow_record_def)
  with assms(5,6) show "mem_CreateKey cr f v kid key req now s = (Err (Sentinel ErrKeyCollision), s)"
    by (auto simp: mem_CreateKey_def dhas_def [of "mem_users s"] Let_def)
qed

end
