(* ===== verification/Commands.thy ===== *)
theory Commands
  imports Flags Background Sql_Backend
begin

text \<open>
  The programs (\<^verbatim>\<open>cmd\<close>): the life of a process from its command line to its exit code, and the three programs, which differ in the
  backend. A process is a trace of what it did and the state behind its backend. What the operating system, the clock and the clients
  contribute is the record \<open>host\<close>: the arguments, the entropy, what happened while the server was listening, and how listening and the
  shutdowns ended.
\<close>

section \<open>Processes\<close>

text \<open>What a process writes, and the steps of its life that others can observe.\<close>

datatype attr = AString string string | AError gerr | ADuration string int

datatype event =
    Stdout string
  | StderrError gerr
  | LogRecord int string "attr list"
  | PreambleCalled
  | BackendOpened
  | BackgroundStarted
  | Listening string
  | ServerShutdown
  | BackgroundStopped
  | BackendShutdown

record 's process =
  pr_trace :: "event list"
  pr_store :: 's
  pr_background :: "'s background option"

text \<open>A process that panics runs its deferred functions and then crashes.\<close>

datatype outcome = Exit int | Crashed

definition emit :: "event \<Rightarrow> 's process \<Rightarrow> 's process" where
  "emit e p = p\<lparr>pr_trace := pr_trace p @ [e]\<rparr>"

definition log_record :: "'x mainCmd_scheme \<Rightarrow> int \<Rightarrow> string \<Rightarrow> attr list \<Rightarrow> 's process \<Rightarrow> 's process" where
  "log_record m level msg attrs p =
     (case mc_logger m of
        Some lh \<Rightarrow> if handler_Enabled lh level then emit (LogRecord level msg attrs) p else p
      | None \<Rightarrow> p)"

text \<open>
  How \<^verbatim>\<open>Shutdown\<close> of a backend ends, which waits for its goroutine and for its context: the goroutine completes before the context
  ends; the context ends and is noticed first; or the context ends first, but the wait sees the goroutine complete.
\<close>

datatype shutdown_race = InTime | TimedOut | CompletedLate

text \<open>An opened backend: its operations, and \<^verbatim>\<open>Shutdown\<close>.\<close>

record 's opened =
  op_backend :: "'s Backend"
  op_Shutdown :: "shutdown_race \<Rightarrow> 's \<Rightarrow> gerr option \<times> 's"

text \<open>The two functions that a program passes to \<^verbatim>\<open>Main\<close>, and its own flags.\<close>

record ('s, 'x) program =
  pg_name :: string
  pg_variables :: 'x
  pg_flags :: "'x mainCmd_scheme flag list"
  pg_preamble :: "('x mainCmd_scheme \<Rightarrow> 's process \<Rightarrow> gerr option \<times> 's process) option"
  pg_backendFactory :: "'x mainCmd_scheme \<Rightarrow> 's process \<Rightarrow> (gerr, 's opened) res \<times> 's process"

text \<open>
  How the wait in \<^verbatim>\<open>serve\<close> ends: a signal, with the result of \<^verbatim>\<open>srv.Shutdown\<close>, or the end of \<^verbatim>\<open>ListenAndServe\<close>.
  \<open>ho_serving\<close> is what requests and the background job do until then, \<open>ho_stopping\<close> what happens until the stop function of the
  background job returns \<open>ho_stop\<close>.
\<close>

datatype serve_end = Signalled "gerr option" | ServerEnded "gerr option"

record 's host =
  ho_args :: "string list"
  ho_ParseDuration :: "string \<Rightarrow> int option"
  ho_validWildcardName :: "string \<Rightarrow> bool"
  ho_version :: string
  ho_license :: string
  ho_notices :: string
  ho_runtime :: Runtime
  ho_now :: time
  ho_clock :: "nat \<Rightarrow> time"
  ho_serving :: "'s Server \<Rightarrow> 's background \<Rightarrow> 's background"
  ho_select :: serve_end
  ho_stopping :: "'s Server \<Rightarrow> 's background \<Rightarrow> 's background"
  ho_stop :: "gerr option"
  ho_shutdown :: shutdown_race

section \<open>Patterns of the multiplexer (net/http)\<close>

text \<open>A parsed pattern: method, host and path; an empty method or host stands for any.\<close>

record mux_pattern =
  mp_method :: string
  mp_host :: string
  mp_path :: string

definition is_blank :: "char \<Rightarrow> bool" where
  "is_blank c \<longleftrightarrow> c = CHR '' '' \<or> c = CHR 0x09"

definition is_token :: "char \<Rightarrow> bool" where
  "is_token c \<longleftrightarrow> c \<in> set ''!#$%&*+-.^_|~0123456789abcdefghijklmnopqrstuvwxyzABCDEFGHIJKLMNOPQRSTUVWXYZ'' \<or> c = CHR 0x27 \<or> c = CHR 0x60"

fun split_on :: "char \<Rightarrow> string \<Rightarrow> string list" where
  "split_on d [] = [[]]"
| "split_on d (c # cs) =
     (if c = d then [] # split_on d cs
      else case split_on d cs of [] \<Rightarrow> [[c]] | w # ws \<Rightarrow> (c # w) # ws)"

text \<open>Whether \<^verbatim>\<open>cleanPath\<close> leaves a rooted path alone, from its segments.\<close>

definition clean_segments :: "string list \<Rightarrow> bool" where
  "clean_segments segs \<longleftrightarrow> [] \<notin> set (butlast segs) \<and> ''.'' \<notin> set segs \<and> ''..'' \<notin> set segs"

text \<open>The segments of the path one by one, with the names of the wildcards seen so far.\<close>

definition strip_dots :: "string \<Rightarrow> string \<times> bool" where
  "strip_dots name = (if length name \<ge> 3 \<and> drop (length name - 3) name = ''...'' then (take (length name - 3) name, True) else (name, False))"

fun segments_ok :: "(string \<Rightarrow> bool) \<Rightarrow> string list \<Rightarrow> string list \<Rightarrow> bool" where
  "segments_ok valid names [] \<longleftrightarrow> True"
| "segments_ok valid names (seg # segs) \<longleftrightarrow>
     (if CHR 0x7B \<notin> set seg then segments_ok valid names segs
      else hd seg = CHR 0x7B \<and> last seg = CHR 0x7D \<and>
        (let name = butlast (tl seg) in
         if name = ''$'' then segs = []
         else case strip_dots name of (name, multi) \<Rightarrow>
           (multi \<longrightarrow> segs = []) \<and> name \<noteq> [] \<and> valid name \<and> name \<notin> set names \<and> segments_ok valid (name # names) segs))"

definition parsePattern :: "(string \<Rightarrow> bool) \<Rightarrow> string \<Rightarrow> mux_pattern option" where
  "parsePattern valid s =
     (let front = takeWhile (\<lambda>c. \<not> is_blank c) s;
          found = (front \<noteq> s);
          method = (if found then front else []);
          rest = (if found then dropWhile is_blank (drop (length front) s) else s);
          host = takeWhile (\<lambda>c. c \<noteq> CHR ''/'') rest;
          path = drop (length host) rest;
          segs = split_on (CHR ''/'') (tl path)
      in if s = [] \<or> \<not> list_all is_token method \<or> path = [] \<or> CHR 0x7B \<in> set host \<or>
            method \<noteq> [] \<and> method \<noteq> ''CONNECT'' \<and> \<not> clean_segments segs \<or> \<not> segments_ok valid [] segs
         then None
         else Some \<lparr>mp_method = method, mp_host = host, mp_path = path\<rparr>)"

text \<open>
  What the default multiplexer serves. Registration panics for a pattern that does not parse, and for one that conflicts with an earlier
  one. \<^verbatim>\<open>serve\<close> registers the pattern \<^verbatim>\<open>/\<close> last; since it matches every request, a pattern conflicts with it only
  when it matches every request, too.
\<close>

datatype mux_handler = StripPrefix string | RedirectTo string int

definition matches_everything :: "mux_pattern \<Rightarrow> bool" where
  "matches_everything q \<longleftrightarrow> mp_method q = [] \<and> mp_host q = [] \<and> mp_path q = ''/''"

definition http_Handle ::
  "(string \<Rightarrow> bool) \<Rightarrow> string \<Rightarrow> mux_handler \<Rightarrow> (mux_pattern \<times> mux_handler) list option" where
  "http_Handle valid pattern hd' = map_option (\<lambda>q. [(q, hd')]) (parsePattern valid pattern)"

definition http_HandleFunc_root ::
  "mux_handler \<Rightarrow> (mux_pattern \<times> mux_handler) list \<Rightarrow> (mux_pattern \<times> mux_handler) list option" where
  "http_HandleFunc_root hd' mux =
     (if list_ex (\<lambda>(q, _). matches_everything q) mux then None
      else Some (mux @ [(\<lparr>mp_method = [], mp_host = [], mp_path = ''/''\<rparr>, hd')]))"

section \<open>The life of a process (cmd.go)\<close>

definition newServerHandler :: "'s host \<Rightarrow> 'x mainCmd_scheme \<Rightarrow> 's Service \<Rightarrow> 's Server" where
  "newServerHandler ho m svc =
     NewServer
       \<lparr>so_MountPath = mc_mountPath m, so_DisableSwaggerUI = mc_disableSwagger m,
        so_Limits = \<lparr>lim_MaxBodyBytes = 0, lim_DefaultPageLimit = 0, lim_MaxPageLimit = 0, lim_MaxBatchItems = 0,
          lim_MaxAutocompleteUsers = 0, lim_MaxNamespaceIDAttempts = 0, lim_MaxPIDAttempts = 0, lim_MaxAPIKeyAttempts = 0\<rparr>,
        so_InfoEnabled = False, so_Anonymous = mc_anonymous m,
        so_Meta = \<lparr>meta_About = mc_about m, meta_Comment = mc_comment m, meta_Software = ''quickpid'', meta_Version = ho_version ho\<rparr>,
        so_BackgroundInterval = mc_backgroundInterval m\<rparr> svc"

definition copyrightNotice :: string where
  "copyrightNotice = [CHR 0xC2, CHR 0xA9] @ '' Tom Wiesing. Available under AGPL 3.0.''"

definition newline :: string where "newline = [CHR 0x0A]"

definition printStartupBanner :: "'x mainCmd_scheme \<Rightarrow> 's process \<Rightarrow> 's process" where
  "printStartupBanner m p =
     emit (Stdout (''Use -legal to view licensing information and notices.'' @ newline))
       (emit (Stdout (mc_name m @ '' '' @ [CHR 0xE2, CHR 0x80, CHR 0x94] @ '' '' @ copyrightNotice @ newline)) p)"

definition printLegalNotices :: "'s host \<Rightarrow> 'x mainCmd_scheme \<Rightarrow> 's process \<Rightarrow> 's process" where
  "printLegalNotices ho m p =
     emit (Stdout (ho_notices ho))
       (emit (Stdout (replicate 80 (CHR ''='') @ newline))
         (emit (Stdout newline)
           (emit (Stdout (ho_license ho))
             (emit (Stdout (mc_name m @ '' is '' @ copyrightNotice @ newline)) p))))"

text \<open>The multiplexer of \<^verbatim>\<open>serve\<close>, and \<open>None\<close> where the registration panics.\<close>

definition serve_mux :: "'s host \<Rightarrow> 'x mainCmd_scheme \<Rightarrow> (mux_pattern \<times> mux_handler) list option" where
  "serve_mux ho m =
     Option.bind (http_Handle (ho_validWildcardName ho) (mc_mountPath m @ ''/'') (StripPrefix (mc_mountPath m))) (\<lambda>mux.
       if mc_disableRootRedirect m then Some mux
       else http_HandleFunc_root (RedirectTo (mc_mountPath m @ ''/'') 307) mux)"

definition ErrServerClosed :: sentinel where "ErrServerClosed = Named ''http.ErrServerClosed''"

text \<open>
  \<^verbatim>\<open>serve\<close> from the time when \<^verbatim>\<open>signal.NotifyContext\<close> catches the signals; one that arrives before or after it ends the process
  at once and is not modelled.
\<close>

definition serve ::
  "'s host \<Rightarrow> 'x mainCmd_scheme \<Rightarrow> 's Server \<Rightarrow> 's process \<Rightarrow> 's background \<Rightarrow> outcome \<times> 's process \<times> 's background" where
  "serve ho m h p st =
     (case serve_mux ho m of
        None \<Rightarrow> (Crashed, p, st)
      | Some mux \<Rightarrow>
          let p1 = emit (Listening (mc_addr m))
                     (log_record m LevelInfo ''listening''
                        [AString ''addr'' (mc_addr m), AString ''mount_path'' (mc_mountPath m)] p);
              st1 = ho_serving ho h st
          in case ho_select ho of
               Signalled err \<Rightarrow>
                 let p2 = emit ServerShutdown (log_record m LevelInfo ''starting server shutdown'' [] p1)
                 in (case err of
                       Some e \<Rightarrow> (Exit 1, log_record m LevelError ''http server shutdown failed'' [AError e] p2, st1)
                     | None \<Rightarrow> (Exit 0, log_record m LevelInfo ''http server shutdown complete'' [] p2, st1))
             | ServerEnded err \<Rightarrow>
                 (case err of
                    Some e \<Rightarrow>
                      if \<not> errors_is e ErrServerClosed
                      then (Exit 1, log_record m LevelError ''http server exited'' [AError e] p1, st1)
                      else (Exit 0, p1, st1)
                  | None \<Rightarrow> (Exit 0, p1, st1)))"

text \<open>\<^verbatim>\<open>runBackgroundProcesses\<close> starts the job; the function that it returns is the second definition.\<close>

definition runBackgroundProcesses ::
  "'x mainCmd_scheme \<Rightarrow> 's process \<Rightarrow> 's background \<Rightarrow> 's process \<times> 's background" where
  "runBackgroundProcesses m p st =
     (if mc_backgroundInterval m \<le> 0 then (p, st)
      else (emit BackgroundStarted
              (log_record m LevelInfo ''starting background processes'' [ADuration ''interval'' (mc_backgroundInterval m)] p),
            snd (StartBackground st)))"

definition stopBackgroundProcesses ::
  "'s host \<Rightarrow> 'x mainCmd_scheme \<Rightarrow> 's Server \<Rightarrow> 's process \<Rightarrow> 's background \<Rightarrow> 's process \<times> 's background" where
  "stopBackgroundProcesses ho m h p st =
     (if mc_backgroundInterval m \<le> 0 then (p, st)
      else let p1 = log_record m LevelInfo ''stopping background processes'' [] p;
               st1 = ho_stopping ho h (stop_cancel st);
               p2 = emit BackgroundStopped p1;
               p3 = (case ho_stop ho of
                       Some e \<Rightarrow> log_record m LevelError ''background shutdown failed'' [AError e] p2
                     | None \<Rightarrow> p2)
           in (log_record m LevelInfo ''background process shutdown complete'' [] p3, st1))"

definition run_server :: "'s host \<Rightarrow> 'x mainCmd_scheme \<Rightarrow> 's Service \<Rightarrow> 's process \<Rightarrow> outcome \<times> 's process" where
  "run_server ho m svc p =
     (let h = newServerHandler ho m svc in
      case runBackgroundProcesses m p (new_background (pr_store p)) of (p1, st1) \<Rightarrow>
      case serve ho m h p1 st1 of (out, p2, st2) \<Rightarrow>
      case stopBackgroundProcesses ho m h p2 st2 of (p3, st3) \<Rightarrow>
      (out, p3\<lparr>pr_store := bg_store st3, pr_background := Some st3\<rparr>))"

text \<open>The commands that need the service; the log lines of the service with the issued key are written here.\<close>

definition run_service :: "'s host \<Rightarrow> 'x mainCmd_scheme \<Rightarrow> 's opened \<Rightarrow> 's process \<Rightarrow> outcome \<times> 's process" where
  "run_service ho m opened p =
     (let svc = Service_New (op_backend opened) (ho_runtime ho)
                  \<lparr>opt_InfoEnabled = \<not> mc_disableInfo m, opt_Anonymous = mc_anonymous m, opt_Limits = mc_limits m\<rparr>
      in if mc_createSuperUser m \<noteq> [] then
           (case CreateSuperuser svc (mc_createSuperUser m) (ho_now ho) (ho_clock ho) (pr_store p) of
              (Ok (username, key), s) \<Rightarrow>
                (Exit 0, log_record m LevelWarn ''created superuser with API key''
                           [AString ''username'' username, AString ''key'' key] (p\<lparr>pr_store := s\<rparr>))
            | (Err e, s) \<Rightarrow> (Exit 1, log_record m LevelError ''failed to create superuser'' [AError e] (p\<lparr>pr_store := s\<rparr>))
            | (Panic, s) \<Rightarrow> (Crashed, p\<lparr>pr_store := s\<rparr>))
         else if mc_noCreateRoot m then run_server ho m svc p
         else
           (case EnsureRootUser svc (ho_now ho) (ho_clock ho) (pr_store p) of
              (Ok None, s) \<Rightarrow> run_server ho m svc (p\<lparr>pr_store := s\<rparr>)
            | (Ok (Some (username, key)), s) \<Rightarrow>
                run_server ho m svc
                  (log_record m LevelWarn ''created root superuser with bootstrap API key''
                     [AString ''username'' username, AString ''key'' key] (p\<lparr>pr_store := s\<rparr>))
            | (Err e, s) \<Rightarrow> (Exit 1, log_record m LevelError ''root user bootstrap failed'' [AError e] (p\<lparr>pr_store := s\<rparr>))
            | (Panic, s) \<Rightarrow> (Crashed, p\<lparr>pr_store := s\<rparr>)))"

text \<open>The deferred shutdown of the backend.\<close>

definition shutdown_backend :: "'s host \<Rightarrow> 'x mainCmd_scheme \<Rightarrow> 's opened \<Rightarrow> 's process \<Rightarrow> 's process" where
  "shutdown_backend ho m opened p =
     (let p1 = log_record m LevelInfo ''shutting down backend'' [] p in
      case op_Shutdown opened (ho_shutdown ho) (pr_store p1) of (err, s) \<Rightarrow>
      let p2 = emit BackendShutdown (p1\<lparr>pr_store := s\<rparr>) in
      case err of
        Some e \<Rightarrow> log_record m LevelError ''backend shutdown failed'' [AError e] p2
      | None \<Rightarrow> log_record m LevelInfo ''backend shutdown complete'' [] p2)"

definition run_backend :: "'s host \<Rightarrow> ('s, 'x) program \<Rightarrow> 'x mainCmd_scheme \<Rightarrow> 's process \<Rightarrow> outcome \<times> 's process" where
  "run_backend ho prog m p =
     (case pg_backendFactory prog m p of
        (Err e, p1) \<Rightarrow> (Exit 1, log_record m LevelError ''backend initialization failed'' [AError e] p1)
      | (Panic, p1) \<Rightarrow> (Crashed, p1)
      | (Ok opened, p1) \<Rightarrow>
          (case run_service ho m opened (emit BackendOpened p1) of (out, p2) \<Rightarrow> (out, shutdown_backend ho m opened p2)))"

text \<open>\<^verbatim>\<open>run\<close> once the logger is set up, and from its beginning.\<close>

definition run_logged :: "'s host \<Rightarrow> ('s, 'x) program \<Rightarrow> 'x mainCmd_scheme \<Rightarrow> 's process \<Rightarrow> outcome \<times> 's process" where
  "run_logged ho prog m p =
     (let p1 = printStartupBanner m p;
          p2 = (if mc_anonymous m
                then log_record m LevelWarn ''anonymous mode enabled; authentication, user management, and authorization checks for resolver operations are disabled'' [] p1
                else p1)
      in case pg_preamble prog of
           None \<Rightarrow> run_backend ho prog m p2
         | Some preamble \<Rightarrow>
             (case preamble m (emit PreambleCalled p2) of
                (Some e, p3) \<Rightarrow> (Exit 1, log_record m LevelError ''preamble failed'' [AError e] p3)
              | (None, p3) \<Rightarrow> run_backend ho prog m p3))"

definition run :: "'s host \<Rightarrow> ('s, 'x) program \<Rightarrow> 's process \<Rightarrow> outcome \<times> 's process" where
  "run ho prog p =
     (case parseFlags (ho_ParseDuration ho) (pg_flags prog) (ho_args ho) (Main_defaults (pg_name prog) (pg_variables prog)) of
        None \<Rightarrow> (Crashed, p)
      | Some (ParseExit code) \<Rightarrow> (Exit code, p)
      | Some (Parsed m0) \<Rightarrow>
          let m1 = parseOptions m0 in
          if mc_legal m1 then (Exit 0, printLegalNotices ho m1 p)
          else (case setupLogger m1 of
            Err e \<Rightarrow> (Exit 2, emit (StderrError e) p)
          | Panic \<Rightarrow> (Crashed, p)
          | Ok m \<Rightarrow> run_logged ho prog m p))"

section \<open>The in-memory program (cmd/quickpid-mem)\<close>

text \<open>\<^verbatim>\<open>MemoryBackend.Shutdown\<close> drops the maps, unless its context has ended when it gets the lock.\<close>

fun mem_Shutdown :: "shutdown_race \<Rightarrow> memory \<Rightarrow> gerr option \<times> memory" where
  "mem_Shutdown InTime s = (None, NewMemoryBackend)"
| "mem_Shutdown TimedOut s = (Some (Fmt [Sentinel (Named ''errShutdownMemoryBackend''), Sentinel (Named ''ctx.Err'')]), s)"
| "mem_Shutdown CompletedLate s = (None, s)"

definition quickpid_mem :: "crypto \<Rightarrow> (memory, unit) program" where
  "quickpid_mem cr =
     \<lparr>pg_name = ''quickpid-mem'', pg_variables = (), pg_flags = [], pg_preamble = None,
      pg_backendFactory = (\<lambda>m p.
        (Ok \<lparr>op_backend = memory_backend cr, op_Shutdown = mem_Shutdown\<rparr>,
         (log_record m LevelInfo ''this backend is not suitable for production use, as any changes will be lost on process exit'' []
           (log_record m LevelInfo ''starting in-memory backend'' [] p))\<lparr>pr_store := NewMemoryBackend\<rparr>))\<rparr>"

section \<open>The SQL programs (cmd/quickpid-sqlite, cmd/quickpid-postgres)\<close>

record sql_variables = mainCmd +
  sv_dsn :: string
  sv_disableAutoMigrate :: bool
  sv_gormLogLevel :: gorm_level

text \<open>The calls of the library and the drivers that only the programs make.\<close>

record 'd gorm_driver =
  gd_gorm :: "'d gorm"
  gd_Open :: "string \<Rightarrow> gorm_level \<Rightarrow> bool \<Rightarrow> 'd \<Rightarrow> gerr option \<times> 'd"
  gd_PragmaForeignKeys :: "'d \<Rightarrow> gerr + int"
  gd_AutoMigrate :: "'d \<Rightarrow> gerr option \<times> 'd"
  gd_DB :: "'d \<Rightarrow> gerr option"
  gd_Close :: "'d \<Rightarrow> gerr option \<times> 'd"

definition SQLiteForeignKeysEnabled :: "'d gorm_driver \<Rightarrow> 'd \<Rightarrow> gerr + bool" where
  "SQLiteForeignKeysEnabled D d =
     (case gd_PragmaForeignKeys D d of Inr foreignKeys \<Rightarrow> Inr (foreignKeys \<noteq> 0) | Inl e \<Rightarrow> Inl (Fmt [e]))"

definition Migrate :: "'d gorm_driver \<Rightarrow> 'd \<Rightarrow> gerr option \<times> 'd" where
  "Migrate D d = apfst (map_option (\<lambda>e. Fmt [e])) (gd_AutoMigrate D d)"

text \<open>
  \<^verbatim>\<open>GormBackend.Shutdown\<close>. When the context ends first the state is that at the end of the context; the goroutine that closes the
  database is not waited for.
\<close>

definition gorm_Shutdown :: "'d gorm_driver \<Rightarrow> shutdown_race \<Rightarrow> 'd \<Rightarrow> gerr option \<times> 'd" where
  "gorm_Shutdown D race d =
     (if race = TimedOut then (Some (Fmt [Sentinel (Named ''errShutdownGormBackend''), Sentinel (Named ''ctx.Err'')]), d)
      else case gd_DB D d of
        Some e \<Rightarrow> (Some (Fmt [e]), d)
      | None \<Rightarrow> apfst (map_option (\<lambda>e. Fmt [e])) (gd_Close D d))"

text \<open>The flags and the backend factory are the same in both programs.\<close>

definition sql_flags :: "sql_variables flag list" where
  "sql_flags =
     [StringVar (\<lambda>v m. m\<lparr>sv_dsn := v\<rparr>) ''dsn'',
      BoolVar (\<lambda>b m. m\<lparr>sv_disableAutoMigrate := b\<rparr>) ''disable-auto-migrate'',
      \<lparr>fl_name = ''gorm-log-level'', fl_IsBoolFlag = False,
       fl_Set = (\<lambda>value m. map_option (\<lambda>l. m\<lparr>sv_gormLogLevel := l\<rparr>) (LogLevel_Set value))\<rparr>]"

definition sql_backendFactory ::
  "'d gorm_driver \<Rightarrow> crypto \<Rightarrow> sql_variables \<Rightarrow> 'd process \<Rightarrow> (gerr, 'd opened) res \<times> 'd process" where
  "sql_backendFactory D cr m p =
     (let opened = \<lparr>op_backend = NewGormBackend (gd_gorm D) cr 0, op_Shutdown = gorm_Shutdown D\<rparr> in
      if \<not> sv_disableAutoMigrate m
      then (case Migrate D (pr_store p) of
              (Some e, d) \<Rightarrow> (Err (Fmt [e]), p\<lparr>pr_store := d\<rparr>)
            | (None, d) \<Rightarrow> (Ok opened, p\<lparr>pr_store := d\<rparr>))
      else (Ok opened, p))"

text \<open>\<^verbatim>\<open>cmp.Or(os.Getenv("DSN"), ...)\<close>; the argument \<open>dsn\<close> is the environment variable.\<close>

definition cmp_Or :: "string \<Rightarrow> string \<Rightarrow> string" where
  "cmp_Or a b = (if a \<noteq> [] then a else b)"

definition quickpid_sqlite :: "'d gorm_driver \<Rightarrow> crypto \<Rightarrow> string \<Rightarrow> ('d, unit sql_variables_ext) program" where
  "quickpid_sqlite D cr dsn =
     \<lparr>pg_name = ''quickpid-sqlite'',
      pg_variables = sql_variables.fields (cmp_Or dsn ''quickpid.db?_pragma=foreign_keys(1)'') False DefaultLogLevel,
      pg_flags = sql_flags,
      pg_preamble = Some (\<lambda>m p.
        let p1 = log_record m LevelInfo ''opening database'' [AString ''dsn'' (sv_dsn m)] p in
        case gd_Open D (sv_dsn m) (sv_gormLogLevel m) False (pr_store p1) of
          (Some e, d) \<Rightarrow> (Some (Fmt [e]), p1\<lparr>pr_store := d\<rparr>)
        | (None, d) \<Rightarrow>
            (case SQLiteForeignKeysEnabled D d of
               Inr enabled \<Rightarrow>
                 (if \<not> enabled then Some (Sentinel (Named ''errForeignKeysNotEnabled'')) else None, p1\<lparr>pr_store := d\<rparr>)
             | Inl e \<Rightarrow> (Some (Fmt [e]), p1\<lparr>pr_store := d\<rparr>))),
      pg_backendFactory = sql_backendFactory D cr\<rparr>"

definition quickpid_postgres :: "'d gorm_driver \<Rightarrow> crypto \<Rightarrow> string \<Rightarrow> ('d, unit sql_variables_ext) program" where
  "quickpid_postgres D cr dsn =
     \<lparr>pg_name = ''quickpid-postgres'',
      pg_variables = sql_variables.fields
        (cmp_Or dsn ''host=localhost user=postgres password=quickpid dbname=quickpid port=5432 sslmode=disable'') False DefaultLogLevel,
      pg_flags = sql_flags,
      pg_preamble = Some (\<lambda>m p.
        let p1 = log_record m LevelInfo ''opening database'' [AString ''dsn'' (sv_dsn m)] p in
        apfst (map_option (\<lambda>e. Fmt [e])) (apsnd (\<lambda>d. p1\<lparr>pr_store := d\<rparr>) (gd_Open D (sv_dsn m) (sv_gormLogLevel m) True (pr_store p1)))),
      pg_backendFactory = sql_backendFactory D cr\<rparr>"

end
