(* ===== verification/Command_Props.thy ===== *)
theory Command_Props
  imports Commands
begin

text \<open>Properties of the command line and of the life of a process.\<close>

section \<open>The command line\<close>

lemma digit_cases:
  "n mod 10 = 0 \<or> n mod 10 = 1 \<or> n mod 10 = 2 \<or> n mod 10 = 3 \<or> n mod 10 = 4 \<or> n mod 10 = 5 \<or> n mod 10 = 6 \<or>
   n mod 10 = 7 \<or> n mod 10 = 8 \<or> n mod 10 = (9 :: nat)"
  by presburger

lemma digit_value_digit [simp]: "digit_value (digit n) = Some (n mod 10)"
proof -
  from digit_cases [of n] show ?thesis by (elim disjE) (simp_all add: digit_value_def digit_def Let_def lower_char_def)
qed

lemma digit_not [simp]: "digit n \<noteq> CHR ''_''" "digit n \<noteq> CHR ''-''" "digit n \<noteq> CHR ''+''"
proof -
  from digit_cases [of n] show "digit n \<noteq> CHR ''_''" "digit n \<noteq> CHR ''-''" "digit n \<noteq> CHR ''+''"
    by (elim disjE; simp add: digit_def)+
qed

lemma digit_zero_iff: "digit n = CHR ''0'' \<longleftrightarrow> n mod 10 = 0"
proof -
  from digit_cases [of n] show ?thesis by (elim disjE) (simp_all add: digit_def)
qed

lemma base_digits_append: "base_digits b (xs @ ys) n = Option.bind (base_digits b xs n) (base_digits b ys)"
  by (induction xs arbitrary: n) (auto split: option.splits)

lemma base_digits_dec: "base_digits 10 (dec_digits n) 0 = Some n"
proof (induction n rule: dec_digits.induct)
  case (1 n)
  show ?case
  proof (cases "n < 10")
    case False
    with 1 show ?thesis by (subst dec_digits.simps) (simp add: base_digits_append)
  qed (simp add: dec_digits.simps [of n])
qed

lemma dec_digits_first: "\<exists>k ds. dec_digits n = digit k # ds \<and> (0 < n \<longrightarrow> k mod 10 \<noteq> 0)"
proof (induction n rule: dec_digits.induct)
  case (1 n)
  show ?case
  proof (cases "n < 10")
    case False
    from 1 [OF False] obtain k ds where "dec_digits (n div 10) = digit k # ds" "0 < n div 10 \<longrightarrow> k mod 10 \<noteq> 0"
      by (elim exE conjE) (rule that)
    with False show ?thesis by (subst dec_digits.simps) auto
  qed (auto simp: dec_digits.simps [of n])
qed

lemma dec_digits_underscore: "CHR ''_'' \<notin> set (dec_digits n)"
proof (induction n rule: dec_digits.induct)
  case (1 n) then show ?case by (subst dec_digits.simps) (auto dest: sym)
qed

lemma ParseUint_dec: "ParseUint (dec_digits n) = Some n"
proof (cases "n = 0")
  case True then show ?thesis by (simp add: dec_digits.simps ParseUint_def number_base_def digit_def)
next
  case False
  with dec_digits_first obtain k ds where d: "dec_digits n = digit k # ds" "k mod 10 \<noteq> 0" by blast
  then have "number_base (dec_digits n) = (10, dec_digits n)" by (simp add: number_base_def digit_zero_iff)
  moreover have "dec_digits n \<noteq> []" using d(1) by simp
  ultimately show ?thesis using dec_digits_underscore [of n] by (simp add: ParseUint_def base_digits_dec)
qed

lemma ParseInt_Itoa: "- (2 ^ 63) \<le> n \<Longrightarrow> n < 2 ^ 63 \<Longrightarrow> ParseInt (Itoa n) = Some n"
proof (cases "n < 0")
  case True
  moreover assume "- (2 ^ 63) \<le> n"
  ultimately show ?thesis by (simp add: Itoa_def ParseInt_def ParseUint_dec)
next
  case False
  moreover assume "n < 2 ^ 63"
  moreover obtain k ds where "dec_digits (nat n) = digit k # ds" using dec_digits_first by blast
  ultimately show ?thesis using ParseUint_dec [of "nat n"] by (simp add: Itoa_def ParseInt_def)
qed

text \<open>A level of GORM is read back from its text, so that the default in the usage text is valid.\<close>

lemma LogLevel_roundtrip: "l \<in> {gorm_Silent, gorm_Error, gorm_Warn, gorm_Info} \<Longrightarrow> LogLevel_Set (LogLevel_String l) = Some l"
  by (auto simp: LogLevel_Set_def lower_char_def)

text \<open>One argument of the form \<^verbatim>\<open>-name=value\<close>.\<close>

definition assign :: "string \<Rightarrow> string \<Rightarrow> string" where
  "assign name value = ''-'' @ name @ ''='' @ value"

definition flag_name_ok :: "string \<Rightarrow> bool" where
  "flag_name_ok name \<longleftrightarrow> name \<noteq> [] \<and> CHR ''='' \<notin> set name \<and> hd name \<noteq> CHR ''-''"

lemma split_flag_assign: "flag_name_ok name \<Longrightarrow> split_flag (name @ CHR ''='' # value) = (name, Some value)"
proof -
  assume ok: "flag_name_ok name"
  then obtain c cs where n: "name = c # cs" by (cases name) (auto simp: flag_name_ok_def)
  have "takeWhile (\<lambda>c. c \<noteq> CHR ''='') (cs @ CHR ''='' # value) = cs"
    using ok n by (auto simp: flag_name_ok_def takeWhile_append)
  then show ?thesis by (simp add: split_flag_def n)
qed

lemma flag_Parse_assign:
  assumes "flag_name_ok (fl_name f)" and "List.find (\<lambda>g. fl_name g = fl_name f) formal = Some f" and "fl_Set f value m = Some m'"
  shows "flag_Parse formal (assign (fl_name f) value # args) m = flag_Parse formal args m'"
proof -
  obtain c cs where n: "fl_name f = c # cs" "c \<noteq> CHR ''-''" "c \<noteq> CHR ''=''"
    using assms(1) by (cases "fl_name f") (auto simp: flag_name_ok_def)
  then show ?thesis
    using assms split_flag_assign [OF assms(1), of "value"]
    by (subst flag_Parse.simps) (simp add: assign_def parseOne_def read_flag_def set_flag_def)
qed

lemma flag_Vars_fresh:
  "distinct (map fl_name fs) \<Longrightarrow> fl_name ` set formal \<inter> fl_name ` set fs = {} \<Longrightarrow> flag_Vars formal fs = Some (formal @ fs)"
  by (induction fs arbitrary: formal) auto

lemma find_flag:
  "distinct (map fl_name (fs :: 'm flag list)) \<Longrightarrow> fl_name ` set extra \<inter> fl_name ` set fs = {} \<Longrightarrow> f \<in> set fs \<Longrightarrow>
   List.find (\<lambda>g. fl_name g = fl_name f) (extra @ fs) = Some f"
proof -
  assume d: "distinct (map fl_name fs)" "fl_name ` set extra \<inter> fl_name ` set fs = {}" "f \<in> set fs"
  have "List.find (\<lambda>g. fl_name g = fl_name f) fs = Some f" using d(1,3) by (induction fs) auto
  moreover have "List.find (\<lambda>g. fl_name g = fl_name f) (extra @ fs) = List.find (\<lambda>g. fl_name g = fl_name f) fs"
    using d(2,3) by (induction extra) auto
  ultimately show ?thesis by simp
qed

text \<open>A list of assignments to flags: each of them sets its flag, in order.\<close>

fun set_all :: "('m flag \<times> string) list \<Rightarrow> 'm \<Rightarrow> 'm option" where
  "set_all [] m = Some m"
| "set_all ((f, value) # rest) m = Option.bind (fl_Set f value m) (set_all rest)"

lemma flag_Parse_all:
  assumes "\<forall>(f, value) \<in> set fvs. flag_name_ok (fl_name f) \<and> List.find (\<lambda>g. fl_name g = fl_name f) formal = Some f"
    and "set_all fvs m = Some m'"
  shows "flag_Parse formal (map (\<lambda>(f, value). assign (fl_name f) value) fvs) m = Parsed m'"
  using assms
proof (induction fvs arbitrary: m)
  case (Cons fv fvs)
  obtain f v where fv: "fv = (f, v)" by fastforce
  with Cons.prems(2) obtain m1 where m1: "fl_Set f v m = Some m1" "set_all fvs m1 = Some m'" by (auto simp: Option.bind_eq_Some_conv)
  from Cons.prems(1) fv have "flag_Parse formal (assign (fl_name f) v # map (\<lambda>(f, value). assign (fl_name f) value) fvs) m =
      flag_Parse formal (map (\<lambda>(f, value). assign (fl_name f) value) fvs) m1"
    by (intro flag_Parse_assign) (auto simp: m1)
  also have "\<dots> = Parsed m'" using Cons.IH [OF _ m1(2)] Cons.prems(1) by simp
  finally show ?case by (simp add: fv)
qed (simp add: flag_Parse.simps parseOne_def)

text \<open>The values of all options as text, in the order of the flags, and the command line that gives them.\<close>

definition show_bool :: "bool \<Rightarrow> string" where
  "show_bool b = (if b then ''true'' else ''false'')"

definition limit_values :: "Limits \<Rightarrow> int list" where
  "limit_values l =
     [lim_MaxBodyBytes l, lim_DefaultPageLimit l, lim_MaxPageLimit l, lim_MaxBatchItems l, lim_MaxAutocompleteUsers l,
      lim_MaxNamespaceIDAttempts l, lim_MaxPIDAttempts l, lim_MaxAPIKeyAttempts l]"

definition option_values :: "(int \<Rightarrow> string) \<Rightarrow> 'x mainCmd_scheme \<Rightarrow> string list" where
  "option_values show_duration m =
     [mc_listenHost m, Itoa (mc_listenPort m), mc_mountPath m, show_bool (mc_disableSwagger m), show_bool (mc_disableInfo m),
      show_bool (mc_anonymous m), show_bool (mc_disableRootRedirect m), mc_about m, mc_comment m] @
     map Itoa (limit_values (mc_limits m)) @
     [mc_logLevel m, show_bool (mc_logJSON m), show_bool (mc_legal m), show_bool (mc_noCreateRoot m), mc_createSuperUser m,
      show_duration (mc_backgroundInterval m), show_duration (mc_readHeaderTimeout m), show_duration (mc_shutdownTimeout m)]"

definition option_names :: "string list" where
  "option_names =
     [''host'', ''port'', ''mount-path'', ''disable-swagger'', ''disable-info'', ''anon'', ''disable-root-redirect'', ''about'', ''comment'',
      ''max-body-bytes'', ''default-page-limit'', ''max-page-limit'', ''max-batch-items'', ''max-autocomplete-users'',
      ''max-namespace-id-attempts'', ''max-pid-attempts'', ''max-api-key-attempts'', ''log-level'', ''log-json'', ''legal'',
      ''no-create-root'', ''create-superuser'', ''background-interval'', ''read-header-timeout'', ''shutdown-timeout'']"

definition command_line :: "(int \<Rightarrow> string) \<Rightarrow> 'x mainCmd_scheme \<Rightarrow> string list" where
  "command_line show_duration m = map (\<lambda>(name, value). assign name value) (zip option_names (option_values show_duration m))"

lemmas flag_kinds = StringVar_def BoolVar_def IntVar_def DurationVar_def

lemma main_flags_names: "map fl_name (main_flags pd) = option_names"
  by (simp add: main_flags_def limit_flags_def option_names_def flag_kinds)

lemma option_names_ok: "distinct option_names" "list_all flag_name_ok option_names"
  by (simp_all add: option_names_def flag_name_ok_def)

lemma ParseBool_show [simp]: "ParseBool (show_bool b) = Ok b"
  by (simp add: ParseBool_def show_bool_def)

definition int64 :: "int \<Rightarrow> bool" where
  "int64 n \<longleftrightarrow> - (2 ^ 63) \<le> n \<and> n < 2 ^ 63"

lemma ParseInt_int64: "int64 n \<Longrightarrow> ParseInt (Itoa n) = Some n"
  by (simp add: int64_def ParseInt_Itoa)

text \<open>The options that the flags set, with everything else from the defaults.\<close>

definition with_options :: "'x mainCmd_scheme \<Rightarrow> 'y mainCmd_scheme \<Rightarrow> 'x mainCmd_scheme" where
  "with_options d m =
     \<lparr>mc_name = mc_name d, mc_listenHost = mc_listenHost m, mc_listenPort = mc_listenPort m, mc_mountPath = mc_mountPath m,
      mc_disableSwagger = mc_disableSwagger m, mc_disableRootRedirect = mc_disableRootRedirect m, mc_disableInfo = mc_disableInfo m,
      mc_anonymous = mc_anonymous m, mc_limits = mc_limits m, mc_about = mc_about m, mc_comment = mc_comment m,
      mc_logLevel = mc_logLevel m, mc_logJSON = mc_logJSON m, mc_legal = mc_legal m, mc_noCreateRoot = mc_noCreateRoot m,
      mc_createSuperUser = mc_createSuperUser m, mc_backgroundInterval = mc_backgroundInterval m,
      mc_readHeaderTimeout = mc_readHeaderTimeout m, mc_shutdownTimeout = mc_shutdownTimeout m, mc_addr = mc_addr d,
      mc_logger = mc_logger d, \<dots> = mainCmd.more d\<rparr>"

lemma with_options_eq:
  "with_options d m = d\<lparr>mc_listenHost := mc_listenHost m, mc_listenPort := mc_listenPort m, mc_mountPath := mc_mountPath m,
     mc_disableSwagger := mc_disableSwagger m, mc_disableInfo := mc_disableInfo m, mc_anonymous := mc_anonymous m,
     mc_disableRootRedirect := mc_disableRootRedirect m, mc_about := mc_about m, mc_comment := mc_comment m, mc_limits := mc_limits m,
     mc_logLevel := mc_logLevel m, mc_logJSON := mc_logJSON m, mc_legal := mc_legal m, mc_noCreateRoot := mc_noCreateRoot m,
     mc_createSuperUser := mc_createSuperUser m, mc_backgroundInterval := mc_backgroundInterval m,
     mc_readHeaderTimeout := mc_readHeaderTimeout m, mc_shutdownTimeout := mc_shutdownTimeout m\<rparr>"
  by (cases d rule: mainCmd.cases_scheme) (simp add: with_options_def)

lemma set_all_append: "set_all (xs @ ys) m = Option.bind (set_all xs m) (set_all ys)"
  by (induction xs arbitrary: m) (auto split: option.splits bind_splits)

lemma set_limits:
  assumes "list_all int64 (limit_values l)"
  shows "set_all (zip limit_flags (map Itoa (limit_values l))) d = Some (d\<lparr>mc_limits := l\<rparr>)"
proof -
  have "list_all (\<lambda>n. ParseInt (Itoa n) = Some n) (limit_values l)"
    using assms by (rule list.pred_mono_strong) (rule ParseInt_int64)
  then show ?thesis
    by (cases "mc_limits d", cases l) (simp add: limit_flags_def limit_values_def flag_kinds)
qed

lemma set_options:
  assumes "int64 (mc_listenPort m)" and "list_all int64 (limit_values (mc_limits m))" and "list_all (\<lambda>n. pd (sd n) = Some n) [mc_backgroundInterval m, mc_readHeaderTimeout m, mc_shutdownTimeout m]"
  shows "set_all (zip (main_flags pd) (option_values sd m)) d = Some (with_options d m)"
proof -
  have len: "length limit_flags = length (map Itoa (limit_values (mc_limits m)))" by (simp add: limit_flags_def limit_values_def)
  from assms(3) have durations: "pd (sd (mc_backgroundInterval m)) = Some (mc_backgroundInterval m)"
    "pd (sd (mc_readHeaderTimeout m)) = Some (mc_readHeaderTimeout m)" "pd (sd (mc_shutdownTimeout m)) = Some (mc_shutdownTimeout m)"
    by simp_all
  show ?thesis
    unfolding main_flags_def option_values_def with_options_eq
    by (simp only: append_Cons append_Nil zip_Cons_Cons zip_append [OF len] set_all.simps set_all_append set_limits [OF assms(2)]
        flag_kinds flag.simps ParseInt_int64 [OF assms(1)] durations ParseBool_show option.map res.simps Option.bind.bind_lunit zip_Nil)
qed

text \<open>
  C13. Every configuration can be given on the command line. For integers in the range of their types and durations with a text, the arguments
  \<^verbatim>\<open>-name=value\<close> for all flags are accepted and set exactly the named options: each flag is connected to its own field, and values
  are read back from their usual text. The name, the address, the logger and the variables of a program stay as they are.
\<close>

theorem flags_roundtrip:
  fixes d :: "'x mainCmd_scheme"
  assumes "int64 (mc_listenPort m)" and "list_all int64 (limit_values (mc_limits m))" and "list_all (\<lambda>n. pd (sd n) = Some n) [mc_backgroundInterval m, mc_readHeaderTimeout m, mc_shutdownTimeout m]"
    and "fl_name ` set extra \<inter> set option_names = {}"
  shows "parseFlags pd extra (command_line sd m) d = Some (Parsed (with_options d m))"
proof -
  let ?fs = "main_flags pd :: 'x mainCmd_scheme flag list"
  let ?fvs = "zip ?fs (option_values sd m)"
  have fresh: "fl_name ` set extra \<inter> fl_name ` set ?fs = {}" "distinct (map fl_name ?fs)"
    using assms(4) option_names_ok(1) unfolding list.set_map [symmetric] main_flags_names by simp_all
  have "\<forall>(f, value) \<in> set ?fvs. flag_name_ok (fl_name f) \<and> List.find (\<lambda>g. fl_name g = fl_name f) (extra @ ?fs) = Some f"
  proof clarify
    fix f v assume "(f, v) \<in> set ?fvs"
    then have f: "f \<in> set ?fs" by (rule set_zip_leftD)
    then have "fl_name f \<in> set (map fl_name ?fs)" unfolding list.set_map by (rule imageI)
    then have "fl_name f \<in> set option_names" unfolding main_flags_names .
    then show "flag_name_ok (fl_name f) \<and> List.find (\<lambda>g. fl_name g = fl_name f) (extra @ ?fs) = Some f"
      using option_names_ok(2) find_flag [OF fresh(2,1) f] by (auto simp: list_all_iff)
  qed
  note flag_Parse_all [OF this set_options [OF assms(1-3)]]
  moreover have "command_line sd m = map (\<lambda>(f, value). assign (fl_name f) value) ?fvs"
    using main_flags_names [of pd, where 'a = 'x]
    by (simp add: command_line_def zip_map1 case_prod_unfold flip: main_flags_names [of pd, where 'a = 'x])
  ultimately show ?thesis by (simp add: parseFlags_def flag_Vars_fresh [OF fresh(2,1)])
qed

text \<open>A configuration that differs from the defaults, for a program with flags of its own.\<close>

definition demo_options :: mainCmd where
  "demo_options = (Main_defaults [] ())\<lparr>mc_listenPort := - 7, mc_anonymous := True, mc_limits := DefaultLimits\<lparr>lim_MaxPIDAttempts := 3\<rparr>,
     mc_comment := ''-a=b'', mc_shutdownTimeout := 5\<rparr>"

theorem flags_roundtrip_witness:
  "\<exists>m. parseFlags ParseInt sql_flags (command_line Itoa demo_options)
      (Main_defaults ''quickpid-sqlite'' (sql_variables.fields ''x.db'' False DefaultLogLevel)) = Some (Parsed m) \<and>
    mc_listenPort m = - 7 \<and> mc_anonymous m \<and> lim_MaxPIDAttempts (mc_limits m) = 3 \<and> mc_comment m = ''-a=b'' \<and>
    mc_shutdownTimeout m = 5 \<and> sv_dsn m = ''x.db''"
proof -
  have "int64 (mc_listenPort demo_options)" "list_all int64 (limit_values (mc_limits demo_options))"
    by (simp_all add: demo_options_def Main_defaults_def limit_values_def DefaultLimits_def int64_def)
  moreover have "list_all (\<lambda>n. ParseInt (Itoa n) = Some n)
      [mc_backgroundInterval demo_options, mc_readHeaderTimeout demo_options, mc_shutdownTimeout demo_options]"
    by (simp add: ParseInt_int64 int64_def demo_options_def Main_defaults_def)
  moreover have "fl_name ` set sql_flags \<inter> set option_names = {}"
    by (simp add: sql_flags_def flag_kinds option_names_def)
  ultimately have "parseFlags ParseInt sql_flags (command_line Itoa demo_options)
      (Main_defaults ''quickpid-sqlite'' (sql_variables.fields ''x.db'' False DefaultLogLevel)) =
    Some (Parsed (with_options (Main_defaults ''quickpid-sqlite'' (sql_variables.fields ''x.db'' False DefaultLogLevel)) demo_options))"
    by (rule flags_roundtrip)
  then show ?thesis
    by (simp add: with_options_def demo_options_def Main_defaults_def sql_variables.fields_def)
qed

section \<open>The life of a process\<close>

text \<open>The steps of a trace, without what is written.\<close>

fun is_step :: "event \<Rightarrow> bool" where
  "is_step (Stdout _) = False"
| "is_step (StderrError _) = False"
| "is_step (LogRecord _ _ _) = False"
| "is_step _ = True"

definition steps :: "'s process \<Rightarrow> event list" where
  "steps p = filter is_step (pr_trace p)"

definition new_process :: "'s \<Rightarrow> 's process" where
  "new_process s = \<lparr>pr_trace = [], pr_store = s, pr_background = None\<rparr>"

text \<open>The steps between opening and shutting down the backend: the server may listen, and the background job surrounds it.\<close>

definition server_steps :: "event list \<Rightarrow> bool" where
  "server_steps tr \<longleftrightarrow> tr = [] \<or> (\<exists>a. tr = [Listening a] \<or> tr = [Listening a, ServerShutdown])"

definition session :: "event list \<Rightarrow> bool" where
  "session tr \<longleftrightarrow> server_steps tr \<or> (\<exists>srv. server_steps srv \<and> tr = BackgroundStarted # srv @ [BackgroundStopped])"

definition life :: "event list \<Rightarrow> bool" where
  "life tr \<longleftrightarrow> tr = [] \<or> tr = [PreambleCalled] \<or>
     (\<exists>pre mid. (pre = [] \<or> pre = [PreambleCalled]) \<and> session mid \<and> tr = pre @ BackendOpened # mid @ [BackendShutdown])"

text \<open>Listening ended as it should: by a signal with a complete shutdown, or by a server that was closed.\<close>

definition ended_well :: "serve_end \<Rightarrow> bool" where
  "ended_well e \<longleftrightarrow>
     (case e of Signalled err \<Rightarrow> err = None | ServerEnded err \<Rightarrow> (case err of None \<Rightarrow> True | Some e \<Rightarrow> errors_is e ErrServerClosed))"

definition listened :: "event list \<Rightarrow> bool" where
  "listened tr \<longleftrightarrow> (\<exists>a. Listening a \<in> set tr)"

definition orderly :: "'s host \<Rightarrow> outcome \<times> 's process \<Rightarrow> bool" where
  "orderly ho r \<longleftrightarrow>
     life (steps (snd r)) \<and> fst r \<in> {Exit 0, Exit 1, Exit 2, Crashed} \<and>
     (fst r = Exit 2 \<longrightarrow> steps (snd r) = []) \<and>
     (listened (steps (snd r)) \<longrightarrow> fst r = (if ended_well (ho_select ho) then Exit 0 else Exit 1))"

lemma steps_emit [simp]: "steps (emit e p) = steps p @ (if is_step e then [e] else [])"
  by (simp add: steps_def emit_def)

lemma steps_update [simp]: "steps (p\<lparr>pr_store := s\<rparr>) = steps p" "steps (p\<lparr>pr_background := b\<rparr>) = steps p"
  by (simp_all add: steps_def)

lemma steps_log [simp]: "steps (log_record m level msg attrs p) = steps p"
  by (simp add: log_record_def split: option.splits)

lemma background_emit [simp]: "pr_background (emit e p) = pr_background p" "pr_store (emit e p) = pr_store p"
  by (simp_all add: emit_def)

lemma background_log [simp]:
  "pr_background (log_record m level msg attrs p) = pr_background p" "pr_store (log_record m level msg attrs p) = pr_store p"
  by (simp_all add: log_record_def split: option.splits)

lemma flag_Parse_exit: "flag_Parse formal args m = ParseExit code \<Longrightarrow> code = 0 \<or> code = 2"
proof (induction formal args m rule: flag_Parse.induct)
  case (1 formal args m)
  from 1(2) show ?case
    by (subst (asm) flag_Parse.simps) (auto dest: 1(1) parseOne_exit split: parse_step.splits)
qed

lemma serve_steps:
  assumes "serve ho m h p st = (out, p', st')"
  shows "\<exists>srv. steps p' = steps p @ srv \<and> server_steps srv \<and> pr_background p' = pr_background p \<and>
    (if listened srv then out = (if ended_well (ho_select ho) then Exit 0 else Exit 1) else out = Crashed)"
proof (cases "serve_mux ho m")
  case None
  then show ?thesis using assms by (intro exI [of _ "[]"]) (auto simp: serve_def server_steps_def listened_def)
next
  case (Some mux)
  let ?srv = "Listening (mc_addr m) # (case ho_select ho of Signalled _ \<Rightarrow> [ServerShutdown] | ServerEnded _ \<Rightarrow> [])"
  from assms Some show ?thesis
    by (intro exI [of _ ?srv])
      (auto simp: serve_def Let_def server_steps_def listened_def ended_well_def split: option.splits serve_end.splits if_splits)
qed

text \<open>The outcome of a session, from its steps.\<close>

definition session_outcome :: "'s host \<Rightarrow> event list \<Rightarrow> outcome \<Rightarrow> bool" where
  "session_outcome ho tr out \<longleftrightarrow>
     out \<in> {Exit 0, Exit 1, Crashed} \<and> (listened tr \<longrightarrow> out = (if ended_well (ho_select ho) then Exit 0 else Exit 1))"

lemma run_server_steps:
  assumes "run_server ho m svc p = (out, p')"
  shows "\<exists>mid. steps p' = steps p @ mid \<and> session mid \<and> session_outcome ho mid out"
proof -
  obtain p1 st1 where b: "runBackgroundProcesses m p (new_background (pr_store p)) = (p1, st1)" by fastforce
  obtain p2 st2 where s: "serve ho m (newServerHandler ho m svc) p1 st1 = (out, p2, st2)"
    and r: "p' = (fst (stopBackgroundProcesses ho m (newServerHandler ho m svc) p2 st2))
        \<lparr>pr_store := bg_store (snd (stopBackgroundProcesses ho m (newServerHandler ho m svc) p2 st2)),
         pr_background := Some (snd (stopBackgroundProcesses ho m (newServerHandler ho m svc) p2 st2))\<rparr>"
    using assms b by (auto simp: run_server_def Let_def split: prod.splits)
  from serve_steps [OF s] obtain srv where srv: "steps p2 = steps p1 @ srv" "server_steps srv"
    "if listened srv then out = (if ended_well (ho_select ho) then Exit 0 else Exit 1) else out = Crashed" by blast
  let ?bg = "0 < mc_backgroundInterval m"
  let ?mid = "(if ?bg then [BackgroundStarted] else []) @ srv @ (if ?bg then [BackgroundStopped] else [])"
  have "steps p' = steps p @ ?mid"
    using b srv(1) r by (auto simp: runBackgroundProcesses_def stopBackgroundProcesses_def Let_def split: if_splits option.splits)
  moreover have "session ?mid" using srv(2) by (auto simp: session_def)
  moreover have "listened ?mid = listened srv" by (auto simp: listened_def)
  ultimately show ?thesis using srv(3) by (intro exI [of _ ?mid]) (auto simp: session_outcome_def split: if_splits)
qed

lemma session_empty [simp]: "session []" "session_outcome ho [] out \<longleftrightarrow> out \<in> {Exit 0, Exit 1, Crashed}"
  by (simp_all add: session_def server_steps_def session_outcome_def listened_def)

lemma run_service_steps:
  assumes "run_service ho m opened p = (out, p')"
  shows "\<exists>mid. steps p' = steps p @ mid \<and> session mid \<and> session_outcome ho mid out"
  using assms unfolding run_service_def Let_def
  by (force dest: run_server_steps split: if_splits prod.splits res.splits option.splits)

lemma shutdown_backend_steps: "steps (shutdown_backend ho m opened p) = steps p @ [BackendShutdown]"
  by (simp add: shutdown_backend_def Let_def split: prod.split option.split)

text \<open>
  What the life of a process needs of a program: its flags have names of their own, and its two functions do not take part in the
  life of the process.
\<close>

locale quiet_program =
  fixes prog :: "('s, 'x) program"
  assumes flags_fresh: "distinct (map fl_name (pg_flags prog))" "fl_name ` set (pg_flags prog) \<inter> set option_names = {}"
    and preamble_steps: "\<And>f m p. pg_preamble prog = Some f \<Longrightarrow> steps (snd (f m p)) = steps p"
    and factory_steps: "\<And>m p. steps (snd (pg_backendFactory prog m p)) = steps p"
begin

lemma flags_defined: "parseFlags pd (pg_flags prog) args d \<noteq> None"
proof -
  have "fl_name ` set (pg_flags prog) \<inter> fl_name ` set (main_flags pd :: 'x mainCmd_scheme flag list) = {}"
    "distinct (map fl_name (main_flags pd :: 'x mainCmd_scheme flag list))"
    using flags_fresh(2) option_names_ok(1) unfolding list.set_map [symmetric] main_flags_names by simp_all
  then show ?thesis by (simp add: parseFlags_def flag_Vars_fresh)
qed

lemma run_backend_life:
  assumes "run_backend ho prog m p = (out, p')" and "steps p = [] \<or> steps p = [PreambleCalled]"
  shows "orderly ho (out, p')"
proof -
  obtain r p1 where f: "pg_backendFactory prog m p = (r, p1)" by fastforce
  with factory_steps [of m p] have p1: "steps p1 = steps p" by simp
  show ?thesis
  proof (cases r)
    case (Ok opened)
    obtain p2 where s: "run_service ho m opened (emit BackendOpened p1) = (out, p2)" "p' = shutdown_backend ho m opened p2"
      using assms(1) f Ok by (auto simp: run_backend_def split: prod.splits)
    from run_service_steps [OF s(1)] obtain mid where mid:
      "steps p2 = steps p @ BackendOpened # mid" "session mid" "session_outcome ho mid out" by (auto simp: p1)
    then have st: "steps p' = steps p @ BackendOpened # mid @ [BackendShutdown]" by (simp add: s(2) shutdown_backend_steps)
    then have "life (steps p')" using assms(2) mid(2) unfolding life_def by blast
    moreover have "listened (steps p') = listened mid" using assms(2) by (auto simp: st listened_def)
    ultimately show ?thesis using mid(3) by (auto simp: orderly_def session_outcome_def)
  qed (use assms f p1 in \<open>auto simp: run_backend_def orderly_def life_def listened_def\<close>)
qed

lemma run_logged_orderly:
  assumes "steps p = []"
  shows "orderly ho (run_logged ho prog m p)"
proof -
  define p2 where "p2 = (let p1 = printStartupBanner m p in
     if mc_anonymous m
     then log_record m LevelWarn ''anonymous mode enabled; authentication, user management, and authorization checks for resolver operations are disabled'' [] p1
     else p1)"
  have p2: "steps p2 = []" by (simp add: p2_def Let_def printStartupBanner_def assms)
  have r: "run_logged ho prog m p =
      (case pg_preamble prog of
         None \<Rightarrow> run_backend ho prog m p2
       | Some preamble \<Rightarrow>
           (case preamble m (emit PreambleCalled p2) of
              (Some e, p3) \<Rightarrow> (Exit 1, log_record m LevelError ''preamble failed'' [AError e] p3)
            | (None, p3) \<Rightarrow> run_backend ho prog m p3))"
    by (simp only: run_logged_def p2_def Let_def)
  show ?thesis
  proof (cases "pg_preamble prog")
    case None
    then show ?thesis using run_backend_life [of ho m p2] p2 r by (cases "run_backend ho prog m p2") simp
  next
    case (Some f)
    obtain e p3 where f: "f m (emit PreambleCalled p2) = (e, p3)" by fastforce
    with preamble_steps [OF Some, of m "emit PreambleCalled p2"] p2 have p3: "steps p3 = [PreambleCalled]" by simp
    show ?thesis
    proof (cases e)
      case None
      then show ?thesis using run_backend_life [of ho m p3] p3 r Some f by (cases "run_backend ho prog m p3") simp
    qed (simp add: r Some f p3 orderly_def life_def listened_def)
  qed
qed

lemma run_orderly: "orderly ho (run ho prog (new_process s))"
proof -
  have new: "steps (new_process s) = []" by (simp add: steps_def new_process_def)
  obtain pm where pm: "parseFlags (ho_ParseDuration ho) (pg_flags prog) (ho_args ho) (Main_defaults (pg_name prog) (pg_variables prog)) = Some pm"
    using flags_defined by blast
  show ?thesis
  proof (cases pm)
    case (ParseExit code)
    with pm have "code = 0 \<or> code = 2" by (auto simp: parseFlags_def dest: flag_Parse_exit)
    then show ?thesis using pm ParseExit new by (auto simp: run_def orderly_def life_def listened_def)
  next
    case (Parsed m0)
    then show ?thesis
      using pm new run_logged_orderly [OF new, of ho]
      by (auto simp: run_def Let_def orderly_def life_def listened_def printLegalNotices_def split: res.splits)
  qed
qed

end

interpretation mem_program: quiet_program "quickpid_mem cr" for cr
  by unfold_locales (simp_all add: quickpid_mem_def)

lemma sql_flags_fresh: "distinct (map fl_name sql_flags)" "fl_name ` set sql_flags \<inter> set option_names = {}"
  by (simp_all add: sql_flags_def flag_kinds option_names_def)

lemma sql_factory_steps: "steps (snd (sql_backendFactory D cr m p)) = steps p"
  by (simp add: sql_backendFactory_def Let_def split: prod.split option.split)

interpretation sqlite_program: quiet_program "quickpid_sqlite D cr dsn" for D cr dsn
  by unfold_locales
    (auto simp: quickpid_sqlite_def sql_flags_fresh [simplified] sql_factory_steps Let_def split: prod.splits option.splits sum.splits)

interpretation postgres_program: quiet_program "quickpid_postgres D cr dsn" for D cr dsn
  by unfold_locales (auto simp: quickpid_postgres_def sql_flags_fresh [simplified] sql_factory_steps Let_def apfst_def apsnd_def map_prod_def split: prod.splits)

text \<open>
  C11. Processes end in order. Whatever the command line, the environment, the clients and the database do, each of the three programs
  exits with code 0, 1 or 2 or crashes; if its backend was opened, then it is shut down, once and last, after the background
  job was stopped, which is the case after the server ended; nothing was opened when the code is 2; and a process that listened exits
  with code 0 exactly if a signal led to a complete shutdown or the server was closed.
\<close>

theorem process_lifecycle:
  "orderly ho1 (run ho1 (quickpid_mem cr) (new_process s)) \<and>
   orderly ho2 (run ho2 (quickpid_sqlite D cr dsn) (new_process d)) \<and>
   orderly ho2 (run ho2 (quickpid_postgres D cr dsn) (new_process d))"
  by (intro conjI mem_program.run_orderly sqlite_program.run_orderly postgres_program.run_orderly)

end
