(* ===== verification/Bootstrap.thy ===== *)
theory Bootstrap
  imports Command_Props Random_Runtime
begin

text \<open>
  Whole runs of the in-memory program: the first start, which creates the superuser and writes its key to the log, and the mount path
  of the server.
\<close>

section \<open>The superuser of an empty store\<close>

lemma Key_Hash_generated:
  assumes "Key_Generate rd f r = (Ok key, r')"
  shows "\<exists>st. Key_Hash sha256 f key = Ok st"
proof -
  from Key_Generate_valid [OF assms]
  have "splitKey f key = Ok (take (nat (kf_PrefixLen f)) key, drop (nat (kf_PrefixLen f)) key)" by (simp add: splitKey_Ok)
  then show ?thesis by (simp add: Key_Hash_def)
qed

definition root_user :: memory where
  "root_user = NewMemoryBackend\<lparr>mem_users := dset ''root'' \<lparr>ur_superuser = True, ur_passwordHash = [], ur_keys = []\<rparr> []\<rparr>"

lemma root_user_created: "mem_CreateUser \<lparr>ucr_Username = ''root'', ucr_Superuser = True\<rparr> now NewMemoryBackend =
    (Ok (toSpec \<lparr>ur_superuser = True, ur_passwordHash = [], ur_keys = []\<rparr> ''root''), root_user)"
  by (simp add: mem_CreateUser_def NewMemoryBackend_def root_user_def Let_def dhas_def dget_def)

lemma root_user_inv: "mem_inv root_user"
  using inv_CreateUser [OF mem_inv_init, of "\<lparr>ucr_Username = ''root'', ucr_Superuser = True\<rparr>" now] root_user_created by simp

lemma root_key_created:
  assumes "Key_Generate rd f r = (Ok key, r')"
  obtains info s where "mem_CreateKey cr f ''root'' kid key bootstrap_request now root_user = (Ok info, s)"
    and "key_ExpiresAt info = None" and "key_UserScopes info = []" and "key_NamespaceScopes info = []"
    and "mem_LookupUserByKey cr f key s = Ok (''root'', info)"
    and "mem_GetUser ''root'' s = Ok \<lparr>ui_Username = ''root'', ui_Superuser = True, ui_Password = False\<rparr>"
proof -
  obtain st where "Key_Hash (cr_sha256 cr) f key = Ok st" using Key_Hash_generated [OF assms] by blast
  then obtain info s where c: "mem_CreateKey cr f ''root'' kid key bootstrap_request now root_user = (Ok info, s)"
    and g: "mem_GetUser ''root'' s = Ok \<lparr>ui_Username = ''root'', ui_Superuser = True, ui_Password = False\<rparr>"
    by (auto simp: mem_CreateKey_def root_user_def NewMemoryBackend_def dset_def dget_def dhas_def all_keys_def Let_def mem_GetUser_def
        toSpec_def)
  from mem_CreateKey_info [OF c] lookup_created [OF root_user_inv c] c g that show thesis by (simp add: bootstrap_request_def)
qed

lemma EnsureRootUser_empty:
  assumes "sv_backend sv = memory_backend cr" and "\<not> AnonymousMode sv" and "sv_runtime sv = NewRuntime rd entropy uuid"
    and "1 \<le> lim_MaxAPIKeyAttempts (limits sv)" and "Key_Generate rd apiKeyFormat (entropy 0) = (Ok key, r')"
  obtains info s where "EnsureRootUser sv now clock NewMemoryBackend = (Ok (Some (''root'', key)), s)"
    and "\<And>t. AuthenticateAPIKey sv key t s = Ok (''root'', info)" and "key_UserScopes info = []" and "key_NamespaceScopes info = []"
    and "mem_GetUser ''root'' s = Ok \<lparr>ui_Username = ''root'', ui_Superuser = True, ui_Password = False\<rparr>"
proof -
  define k where "k = nat (lim_MaxAPIKeyAttempts (limits sv)) - 1"
  have n: "nat (lim_MaxAPIKeyAttempts (limits sv)) = Suc k" using assms(4) by (simp add: k_def)
  obtain info s where c: "mem_CreateKey cr apiKeyFormat ''root'' (uuid 0 0) key bootstrap_request (clock k) root_user = (Ok info, s)"
    and i: "key_ExpiresAt info = None" "key_UserScopes info = []" "key_NamespaceScopes info = []"
      "mem_LookupUserByKey cr apiKeyFormat key s = Ok (''root'', info)"
      "mem_GetUser ''root'' s = Ok \<lparr>ui_Username = ''root'', ui_Superuser = True, ui_Password = False\<rparr>"
    using root_key_created [OF assms(5)] .
  have users: "mem_ListUsers \<lparr>lup_Superuser = None, lup_Password = None, lup_Limit = 1, lup_Offset = 0\<rparr> NewMemoryBackend =
      Ok \<lparr>pg_Total = 0, pg_Offset = 0, pg_Items = []\<rparr>"
    by (simp add: mem_ListUsers_def NewMemoryBackend_def listing_def List.map_filter_def paginate_def go_slice_def wrap_int_def)
  obtain tot where tot: "count_total (mem_ListKeys apiKeyFormat None 0 0 root_user) = Ok tot"
    by (simp add: count_total_def mem_ListKeys_def root_user_def NewMemoryBackend_def dset_def paginate_def all_keys_def)
  have pulls: "pull_next (rt_NewAPIKeyID (sv_runtime sv) a) tot PullIDs = (Ok (uuid 0 0), PullIDs\<lparr>pl_pos := 1\<rparr>)"
    "pull_next (rt_NewAPIKey (sv_runtime sv) apiKeyFormat a) None PullIDs = (Ok key, PullIDs\<lparr>pl_pos := 1\<rparr>)" for a
    by (simp_all add: assms(3) NewRuntime_def pull_next_def PullIDs_def pull_yield_def assms(5) yield_generated_def)
  have e: "EnsureRootUser sv now clock NewMemoryBackend = (Ok (Some (''root'', key)), s)"
    by (simp add: EnsureRootUser_def assms(1,2) users root_user_created issueAPIKey_def Let_def tot n pulls c)
  have "key \<noteq> []"
    using Key_Generate_valid [OF assms(5)] by (auto simp: validateKey_def apiKeyFormat_def key_Default_def)
  then have "AuthenticateAPIKey sv key t s = Ok (''root'', info)" for t
    by (simp add: AuthenticateAPIKey_def assms(1,2) i APIKeyInfo_Valid_def NewUsername_def id_match_def id_chars_def)
  from that [OF e this i(2,3,5)] show thesis .
qed

section \<open>What the log shows\<close>

definition shown :: "string \<Rightarrow> 's process \<Rightarrow> bool" where
  "shown key p \<longleftrightarrow> (\<exists>level msg attrs. LogRecord level msg attrs \<in> set (pr_trace p) \<and> AString ''key'' key \<in> set attrs)"

definition enabled :: "'x mainCmd_scheme \<Rightarrow> int \<Rightarrow> bool" where
  "enabled m level \<longleftrightarrow> (case mc_logger m of Some lh \<Rightarrow> handler_Enabled lh level | None \<Rightarrow> False)"

lemma shown_emit [simp]: "shown key (emit e p) \<longleftrightarrow> shown key p \<or> (\<exists>level msg attrs. e = LogRecord level msg attrs \<and> AString ''key'' key \<in> set attrs)"
  by (auto simp: shown_def emit_def)

lemma shown_update [simp]: "shown key (p\<lparr>pr_store := s\<rparr>) = shown key p" "shown key (p\<lparr>pr_background := b\<rparr>) = shown key p"
  by (simp_all add: shown_def)

lemma shown_log [simp]: "shown key (log_record m level msg attrs p) \<longleftrightarrow> shown key p \<or> enabled m level \<and> AString ''key'' key \<in> set attrs"
  by (auto simp: log_record_def enabled_def split: option.splits)

lemma shown_new [simp]: "\<not> shown key (new_process s)"
  by (simp add: shown_def new_process_def)

lemma serve_shown: "serve ho m h p st = (out, p', st') \<Longrightarrow> shown key p' = shown key p"
  by (auto simp: serve_def Let_def split: option.splits serve_end.splits if_splits)

lemma run_server_shown: "shown key (snd (run_server ho m svc p)) = shown key p"
proof -
  let ?h = "newServerHandler ho m svc"
  obtain p1 st1 where b: "runBackgroundProcesses m p (new_background (pr_store p)) = (p1, st1)" by fastforce
  obtain out p2 st2 where s: "serve ho m ?h p1 st1 = (out, p2, st2)" by (metis prod_cases3)
  obtain p3 st3 where e: "stopBackgroundProcesses ho m ?h p2 st2 = (p3, st3)" by fastforce
  have "shown key p1 = shown key p" using b by (auto simp: runBackgroundProcesses_def split: if_splits)
  moreover have "shown key p3 = shown key p2"
    using e by (auto simp: stopBackgroundProcesses_def Let_def split: if_splits option.splits)
  ultimately show ?thesis using b s e serve_shown [OF s, of key] by (simp add: run_server_def Let_def)
qed

text \<open>A run of the server whose background job is started: what is left of it.\<close>

lemma run_server_background:
  assumes "serve_mux ho m = Some mux" and "0 < mc_backgroundInterval m"
  shows "pr_background (snd (run_server ho m svc p)) =
    Some (ho_stopping ho (newServerHandler ho m svc) (stop_cancel (ho_serving ho (newServerHandler ho m svc)
      (snd (StartBackground (new_background (pr_store p)))))))"
  using assms
  by (simp add: run_server_def Let_def runBackgroundProcesses_def serve_def stopBackgroundProcesses_def
      split: serve_end.split option.split)

lemma shutdown_shown [simp]: "shown key (shutdown_backend ho m opened p) = shown key p"
  by (simp add: shutdown_backend_def Let_def split: prod.split option.split)

lemma shutdown_background [simp]: "pr_background (shutdown_backend ho m opened p) = pr_background p"
  by (simp add: shutdown_backend_def Let_def split: prod.split option.split)

section \<open>The first start\<close>

lemma default_mux: "mc_mountPath m = ''/api/v2'' \<Longrightarrow> serve_mux ho m \<noteq> None"
  by (simp add: serve_mux_def http_Handle_def parsePattern_def Let_def is_blank_def http_HandleFunc_root_def matches_everything_def)

lemma parse_log_level:
  fixes d :: "'x mainCmd_scheme"
  shows "parseFlags pd [] [assign ''log-level'' lvl] d = Some (Parsed (d\<lparr>mc_logLevel := lvl\<rparr>))"
proof -
  let ?f = "StringVar (\<lambda>v m. m\<lparr>mc_logLevel := v\<rparr>) ''log-level'' :: 'x mainCmd_scheme flag"
  have f: "fl_name ?f = ''log-level''" "fl_Set ?f lvl d = Some (d\<lparr>mc_logLevel := lvl\<rparr>)" by (simp_all add: StringVar_def)
  have "flag_Vars [] (main_flags pd :: 'x mainCmd_scheme flag list) = Some (main_flags pd)"
    using flag_Vars_fresh [of "main_flags pd :: 'x mainCmd_scheme flag list" "[]"] option_names_ok(1) by (simp add: main_flags_names)
  moreover have "List.find (\<lambda>g. fl_name g = fl_name ?f) (main_flags pd) = Some ?f"
    by (rule find_flag [of "main_flags pd" "[]", simplified]) (simp_all add: main_flags_names option_names_ok, simp add: main_flags_def)
  then have "flag_Parse (main_flags pd) [assign (fl_name ?f) lvl] d = flag_Parse (main_flags pd) [] (d\<lparr>mc_logLevel := lvl\<rparr>)"
    by (intro flag_Parse_assign f(2)) (simp_all add: f flag_name_ok_def)
  ultimately show ?thesis by (simp add: parseFlags_def f flag_Parse.simps [of _ "[]"] parseOne_def)
qed

text \<open>The options of such a start, and the run up to the server.\<close>

definition start_options :: "string \<Rightarrow> handler \<Rightarrow> mainCmd" where
  "start_options lvl lh = (parseOptions ((Main_defaults ''quickpid-mem'' ())\<lparr>mc_logLevel := lvl\<rparr>))\<lparr>mc_logger := Some lh\<rparr>"

lemma start_options_simps [simp]:
  "mc_legal (start_options lvl lh) = False" "mc_anonymous (start_options lvl lh) = False"
  "mc_createSuperUser (start_options lvl lh) = []" "mc_noCreateRoot (start_options lvl lh) = False"
  "mc_mountPath (start_options lvl lh) = ''/api/v2''" "mc_backgroundInterval (start_options lvl lh) = 3600000000000"
  "mc_logger (start_options lvl lh) = Some lh" "mc_limits (start_options lvl lh) = DefaultLimits"
  by (simp_all add: start_options_def parseOptions_def Main_defaults_def TrimSuffix_def)

definition start_service :: "memory host \<Rightarrow> crypto \<Rightarrow> memory Service" where
  "start_service ho cr = Service_New (memory_backend cr) (ho_runtime ho) \<lparr>opt_InfoEnabled = True, opt_Anonymous = False, opt_Limits = DefaultLimits\<rparr>"

lemma first_start_server:
  assumes "parse_level lvl = Some level" and "ho_args ho = [assign ''log-level'' lvl]"
    and "EnsureRootUser (start_service ho cr) (ho_now ho) (ho_clock ho) NewMemoryBackend = (Ok (Some (''root'', key)), s')"
  obtains m p opened where "snd (run ho (quickpid_mem cr) (new_process s)) =
      shutdown_backend ho m opened (snd (run_server ho m (start_service ho cr) p))"
    and "m = start_options lvl (case level of None \<Rightarrow> DiscardHandler | Some l \<Rightarrow> TextHandler l)"
    and "pr_store p = s'" and "shown key p \<longleftrightarrow> enabled m LevelWarn"
proof -
  let ?m = "start_options lvl (case level of None \<Rightarrow> DiscardHandler | Some l \<Rightarrow> TextHandler l)"
  have logger: "setupLogger (parseOptions ((Main_defaults ''quickpid-mem'' ())\<lparr>mc_logLevel := lvl\<rparr>)) = Ok ?m"
    using assms(1) by (cases level) (simp_all add: setupLogger_def start_options_def parseOptions_def Main_defaults_def)
  have legal: "\<not> mc_legal (parseOptions ((Main_defaults ''quickpid-mem'' ())\<lparr>mc_logLevel := lvl\<rparr>))"
    by (simp add: parseOptions_def Main_defaults_def)
  have pg: "pg_flags (quickpid_mem cr) = []" "pg_name (quickpid_mem cr) = ''quickpid-mem''" "pg_variables (quickpid_mem cr) = ()"
    "pg_preamble (quickpid_mem cr) = None" by (simp_all add: quickpid_mem_def)
  have info: "(\<not> mc_disableInfo ?m) = True" by (simp add: start_options_def parseOptions_def Main_defaults_def)
  have r: "run ho (quickpid_mem cr) (new_process s) = run_backend ho (quickpid_mem cr) ?m (printStartupBanner ?m (new_process s))"
    using logger legal by (simp add: run_def pg assms(2) parse_log_level Let_def run_logged_def)
  obtain p1 where f: "pg_backendFactory (quickpid_mem cr) ?m (printStartupBanner ?m (new_process s)) =
      (Ok \<lparr>op_backend = memory_backend cr, op_Shutdown = mem_Shutdown\<rparr>, p1)" and p1: "pr_store p1 = NewMemoryBackend" "\<not> shown key p1"
    by (simp add: quickpid_mem_def printStartupBanner_def)
  let ?p = "log_record ?m LevelWarn ''created root superuser with bootstrap API key''
      [AString ''username'' ''root'', AString ''key'' key] ((emit BackendOpened p1)\<lparr>pr_store := s'\<rparr>)"
  have "run_service ho ?m \<lparr>op_backend = memory_backend cr, op_Shutdown = mem_Shutdown\<rparr> (emit BackendOpened p1) =
      run_server ho ?m (start_service ho cr) ?p"
    using assms(3) by (simp add: run_service_def Let_def p1 info start_service_def)
  with r f show thesis by (intro that [of ?m _ ?p]) (simp_all add: run_backend_def case_prod_beta p1)
qed

text \<open>
  C12. The first start. The in-memory program, started with a log level and no other flags, creates the superuser \<^verbatim>\<open>root\<close> before it
  listens, with a key that never expires and carries no restriction of scopes, and the key is the one that was drawn from the
  random reader. The log shows that key exactly if the level is \<^verbatim>\<open>warn\<close>, \<^verbatim>\<open>info\<close> or \<^verbatim>\<open>debug\<close>; with the levels \<^verbatim>\<open>error\<close> and \<^verbatim>\<open>none\<close> the
  process keeps running with a superuser whose key nobody has.
\<close>

theorem first_start:
  assumes "parse_level lvl = Some level" and "ho_args ho = [assign ''log-level'' lvl]"
    and "ho_runtime ho = NewRuntime rd entropy uuid" and "Key_Generate rd apiKeyFormat (entropy 0) = (Ok key, r')"
  shows "\<exists>h st info.
    pr_background (snd (run ho (quickpid_mem cr) (new_process s))) = Some (ho_stopping ho h (stop_cancel (ho_serving ho h st))) \<and>
    mem_GetUser ''root'' (bg_store st) = Ok \<lparr>ui_Username = ''root'', ui_Superuser = True, ui_Password = False\<rparr> \<and>
    (\<forall>t. AuthenticateAPIKey (hs_svc h) key t (bg_store st) = Ok (''root'', info)) \<and>
    (\<forall>scope. HasUserScope info scope) \<and> (\<forall>grant. HasNamespaceScope info grant) \<and>
    (shown key (snd (run ho (quickpid_mem cr) (new_process s))) \<longleftrightarrow> level \<in> {Some LevelWarn, Some LevelInfo, Some LevelDebug})"
proof -
  let ?sv = "start_service ho cr"
  have sv: "sv_backend ?sv = memory_backend cr" "\<not> AnonymousMode ?sv" "sv_runtime ?sv = NewRuntime rd entropy uuid"
    "1 \<le> lim_MaxAPIKeyAttempts (limits ?sv)"
    by (simp_all add: start_service_def Service_New_def AnonymousMode_def withValidValues_def WithValidValues_def DefaultLimits_def assms(3))
  obtain info s' where e: "EnsureRootUser ?sv (ho_now ho) (ho_clock ho) NewMemoryBackend = (Ok (Some (''root'', key)), s')"
    and i: "\<And>t. AuthenticateAPIKey ?sv key t s' = Ok (''root'', info)" "key_UserScopes info = []" "key_NamespaceScopes info = []"
      "mem_GetUser ''root'' s' = Ok \<lparr>ui_Username = ''root'', ui_Superuser = True, ui_Password = False\<rparr>"
    by (rule EnsureRootUser_empty [OF sv assms(4), where now = "ho_now ho" and clock = "ho_clock ho"]) (rule that)
  obtain m p opened where r: "snd (run ho (quickpid_mem cr) (new_process s)) = shutdown_backend ho m opened (snd (run_server ho m ?sv p))"
    and m: "m = start_options lvl (case level of None \<Rightarrow> DiscardHandler | Some l \<Rightarrow> TextHandler l)"
    and p: "pr_store p = s'" "shown key p \<longleftrightarrow> enabled m LevelWarn"
    using first_start_server [OF assms(1,2) e, where s = s] .
  obtain mux where mux: "serve_mux ho m = Some mux" using default_mux [of m ho] by (auto simp: m)
  let ?h = "newServerHandler ho m ?sv" and ?st = "snd (StartBackground (new_background s'))"
  have "pr_background (snd (run ho (quickpid_mem cr) (new_process s))) = Some (ho_stopping ho ?h (stop_cancel (ho_serving ho ?h ?st)))"
    using run_server_background [OF mux, of ?sv p] by (simp add: r p(1)) (simp add: m)
  moreover have "bg_store ?st = s'" "hs_svc ?h = ?sv"
    by (simp_all add: bg_defs new_background_def newServerHandler_def NewServer_def)
  moreover have "level \<in> {None, Some LevelError, Some LevelWarn, Some LevelInfo, Some LevelDebug}"
    using assms(1) by (auto simp: parse_level_def Let_def split: if_splits)
  then have "enabled m LevelWarn \<longleftrightarrow> level \<in> {Some LevelWarn, Some LevelInfo, Some LevelDebug}"
    by (auto simp: enabled_def m handler_Enabled_def LevelError_def LevelWarn_def LevelInfo_def LevelDebug_def)
  ultimately show ?thesis
    using i by (intro exI [of _ ?h] exI [of _ ?st] exI [of _ info])
      (simp add: r run_server_shown p(2) HasUserScope_iff HasNamespaceScope_iff)
qed

text \<open>A start with the level \<^verbatim>\<open>error\<close>: nobody sees the key.\<close>

definition demo_host :: "string \<Rightarrow> memory host" where
  "demo_host lvl =
     \<lparr>ho_args = [assign ''log-level'' lvl], ho_ParseDuration = ParseInt, ho_validWildcardName = (\<lambda>_. True), ho_version = ''1'',
      ho_license = [], ho_notices = [], ho_runtime = NewRuntime word_reader (\<lambda>_. 5) (\<lambda>_ _. ''id''), ho_now = 7, ho_clock = (\<lambda>_. 8),
      ho_serving = (\<lambda>h st. st), ho_select = Signalled None, ho_stopping = (\<lambda>h st. st), ho_stop = None, ho_shutdown = InTime\<rparr>"

lemma demo_draw: "Key_Generate word_reader apiKeyFormat 5 = (Ok (replicate 32 (CHR ''5'')), 5)"
proof -
  have p: "Pick word_reader ''full'' 5 = (Ok (CHR ''5''), 5)"
    by (subst Pick_word_reader [of _ "''0123456789abcdefghijklmnopqrstuvwxyz''"])
      (simp_all add: Alphabet_def alphabets_def max_multiple_def)
  have "key_generate_loop word_reader ''full'' k out 5 = (Ok (out @ replicate k (CHR ''5'')), 5)" for k out
  proof (induction k arbitrary: out)
    case (Suc k) then show ?case by (simp add: p replicate_append_same)
  qed simp
  then show ?thesis
    by (simp add: Key_Generate_def apiKeyFormat_def key_Default_def Key_Validate_def CharacterSet_Validate_def alphabets_def)
qed

theorem first_start_witness:
  "\<exists>sv (st :: memory). AuthenticateAPIKey sv (replicate 32 (CHR ''5'')) 100 st \<in> {Ok (''root'', info) |info. HasUserScope info ScopeCreateUser} \<and>
     \<not> shown (replicate 32 (CHR ''5'')) (snd (run (demo_host ''error'') (quickpid_mem demo_crypto) (new_process NewMemoryBackend))) \<and>
     shown (replicate 32 (CHR ''5'')) (snd (run (demo_host ''warn'') (quickpid_mem demo_crypto) (new_process NewMemoryBackend)))"
proof -
  have lv: "parse_level ''error'' = Some (Some LevelError)" "parse_level ''warn'' = Some (Some LevelWarn)"
    by (simp_all add: parse_level_def lower_char_def)
  have h: "ho_args (demo_host l) = [assign ''log-level'' l]"
    "ho_runtime (demo_host l) = NewRuntime word_reader (\<lambda>_. 5) (\<lambda>_ _. ''id'')" for l by (simp_all add: demo_host_def)
  have quiet: "Some LevelError \<notin> {Some LevelWarn, Some LevelInfo, Some LevelDebug}"
    by (simp add: LevelError_def LevelWarn_def LevelInfo_def LevelDebug_def)
  obtain h1 :: "memory Server" and st1 :: "memory background" and info1 where f: "\<forall>t. AuthenticateAPIKey (hs_svc h1) (replicate 32 (CHR ''5'')) t (bg_store st1) = Ok (''root'', info1)"
    "\<forall>scope. HasUserScope info1 scope"
    "\<not> shown (replicate 32 (CHR ''5'')) (snd (run (demo_host ''error'') (quickpid_mem demo_crypto) (new_process NewMemoryBackend)))"
    using first_start [OF lv(1) h demo_draw, of demo_crypto NewMemoryBackend] quiet by blast
  moreover have "shown (replicate 32 (CHR ''5'')) (snd (run (demo_host ''warn'') (quickpid_mem demo_crypto) (new_process NewMemoryBackend)))"
    using first_start [OF lv(2) h demo_draw, of demo_crypto NewMemoryBackend] by blast
  ultimately show ?thesis by (intro exI [of _ "hs_svc h1"] exI [of _ "bg_store st1"]) blast
qed

section \<open>The mount path\<close>

lemma run_without_root:
  assumes "parseFlags (ho_ParseDuration ho) [] (ho_args ho) (Main_defaults ''quickpid-mem'' ()) = Some (Parsed mo)"
    and "\<not> mc_legal mo" and "mc_logLevel mo = ''info''" and "mc_createSuperUser mo = []" and "mc_noCreateRoot mo"
  shows "fst (run ho (quickpid_mem cr) (new_process s)) = Crashed \<longleftrightarrow> serve_mux ho (parseOptions mo) = None"
proof -
  let ?m = "(parseOptions mo)\<lparr>mc_logger := Some (if mc_logJSON mo then JSONHandler LevelInfo else TextHandler LevelInfo)\<rparr>"
  have logger: "setupLogger (parseOptions mo) = Ok ?m"
    using assms(3) by (simp add: setupLogger_def parseOptions_def parse_level_def lower_char_def)
  have m: "\<not> mc_legal (parseOptions mo)" "mc_createSuperUser ?m = []" "mc_noCreateRoot ?m"
    using assms(2,4,5) by (simp_all add: parseOptions_def)
  have pg: "pg_flags (quickpid_mem cr) = []" "pg_name (quickpid_mem cr) = ''quickpid-mem''" "pg_variables (quickpid_mem cr) = ()"
    "pg_preamble (quickpid_mem cr) = None" by (simp_all add: quickpid_mem_def)
  obtain p where "run ho (quickpid_mem cr) (new_process s) = run_backend ho (quickpid_mem cr) ?m p"
    using assms(1) logger m(1) by (simp add: run_def pg Let_def run_logged_def)
  then obtain svc p1 where r: "fst (run ho (quickpid_mem cr) (new_process s)) = fst (run_server ho ?m svc p1)"
    using m(2,3) by (auto simp: run_backend_def quickpid_mem_def run_service_def Let_def case_prod_beta)
  have "fst (run_server ho ?m svc p1) = Crashed \<longleftrightarrow> serve_mux ho ?m = None"
    by (simp add: run_server_def Let_def case_prod_beta serve_def split: option.split serve_end.split)
  moreover have "serve_mux ho ?m = serve_mux ho (parseOptions mo)" by (simp add: serve_mux_def cong: if_cong)
  ultimately show ?thesis by (simp add: r)
qed

lemma main_flags_defined: "flag_Vars [] (main_flags pd :: 'x mainCmd_scheme flag list) = Some (main_flags pd)"
  using flag_Vars_fresh [of "main_flags pd :: 'x mainCmd_scheme flag list" "[]"] option_names_ok(1) by (simp add: main_flags_names)

lemma main_flags_find:
  "List.find (\<lambda>f. fl_name f = ''mount-path'') (main_flags pd) = Some (StringVar (\<lambda>v m. m\<lparr>mc_mountPath := v\<rparr>) ''mount-path'')"
  "List.find (\<lambda>f. fl_name f = ''no-create-root'') (main_flags pd) = Some (BoolVar (\<lambda>b m. m\<lparr>mc_noCreateRoot := b\<rparr>) ''no-create-root'')"
  "List.find (\<lambda>f. fl_name f = ''disable-root-redirect'') (main_flags pd) =
     Some (BoolVar (\<lambda>b m. m\<lparr>mc_disableRootRedirect := b\<rparr>) ''disable-root-redirect'')"
  by (simp_all add: main_flags_def limit_flags_def flag_kinds)

lemma parseOne_value:
  assumes "flag_name_ok name" and "List.find (\<lambda>f. fl_name f = name) formal = Some (StringVar p name)"
  shows "flag_Parse formal ((''-'' @ name @ ''='' @ v) # args) m = flag_Parse formal args (p v m)"
  using flag_Parse_assign [of "StringVar p name" formal v m "p v m" args] assms by (simp add: StringVar_def assign_def)

lemma split_flag_name: "flag_name_ok name \<Longrightarrow> split_flag name = (name, None)"
proof (cases name)
  case (Cons c cs)
  moreover assume "flag_name_ok name"
  ultimately have "takeWhile (\<lambda>c. c \<noteq> CHR ''='') cs = cs" by (auto simp: flag_name_ok_def takeWhile_eq_all_conv)
  then show ?thesis by (simp add: split_flag_def Cons Let_def del: takeWhile_eq_all_conv)
qed (simp add: flag_name_ok_def)

lemma parseOne_next:
  assumes "flag_name_ok name" and "List.find (\<lambda>f. fl_name f = name) formal = Some (StringVar p name)"
  shows "flag_Parse formal ((''-'' @ name) # v # args) m = flag_Parse formal args (p v m)"
proof -
  obtain c cs where n: "name = c # cs" "c \<noteq> CHR ''-''" "c \<noteq> CHR ''=''"
    using assms(1) by (cases name) (auto simp: flag_name_ok_def)
  with split_flag_name [OF assms(1)] show ?thesis
    using assms(2) n by (subst flag_Parse.simps) (simp add: parseOne_def read_flag_def set_flag_def StringVar_def)
qed

lemma parseOne_bool:
  assumes "flag_name_ok name" and "List.find (\<lambda>f. fl_name f = name) formal = Some (BoolVar p name)"
  shows "flag_Parse formal ((''-'' @ name) # args) m = flag_Parse formal args (p True m)"
proof -
  obtain c cs where n: "name = c # cs" "c \<noteq> CHR ''-''" "c \<noteq> CHR ''=''"
    using assms(1) by (cases name) (auto simp: flag_name_ok_def)
  with split_flag_name [OF assms(1)] show ?thesis
    using assms(2) n by (subst flag_Parse.simps) (simp add: parseOne_def read_flag_def set_flag_def BoolVar_def ParseBool_def)
qed

lemma flags_read:
  "flag_Parse (main_flags pd) ((''-mount-path='' @ v) # args) m = flag_Parse (main_flags pd) args (m\<lparr>mc_mountPath := v\<rparr>)"
  "flag_Parse (main_flags pd) (''-mount-path'' # v # args) m = flag_Parse (main_flags pd) args (m\<lparr>mc_mountPath := v\<rparr>)"
  "flag_Parse (main_flags pd) (''-no-create-root'' # args) m = flag_Parse (main_flags pd) args (m\<lparr>mc_noCreateRoot := True\<rparr>)"
  "flag_Parse (main_flags pd) (''-disable-root-redirect'' # args) m = flag_Parse (main_flags pd) args (m\<lparr>mc_disableRootRedirect := True\<rparr>)"
  "flag_Parse (main_flags pd) [] m = Parsed m"
  using parseOne_value [OF _ main_flags_find(1), of pd v args m] parseOne_next [OF _ main_flags_find(1), of pd v args m]
    parseOne_bool [OF _ main_flags_find(2), of pd args m] parseOne_bool [OF _ main_flags_find(3), of pd args m]
  by (simp_all add: flag_name_ok_def flag_Parse.simps [of _ "[]"] parseOne_def)

lemmas command_line_eval = parseFlags_def main_flags_defined flags_read [simplified]

lemmas serve_mux_eval = serve_mux_def parseOptions_def TrimSuffix_def http_Handle_def parsePattern_def Let_def is_blank_def
  clean_segments_def http_HandleFunc_root_def matches_everything_def Main_defaults_def

text \<open>
  C38. The server cannot be mounted at the root. With the mount path \<^verbatim>\<open>/\<close>, or an empty one, and the redirect of the root, which is on
  by default, both handlers are registered for the pattern \<^verbatim>\<open>/\<close> and the process crashes before it listens, though the
  backend is shut down; without the redirect, and with the default mount path, it listens.
\<close>

theorem root_mount_crashes:
  "fst (run (ho\<lparr>ho_args := [''-mount-path=/'', ''-no-create-root'']\<rparr>) (quickpid_mem cr) (new_process s)) = Crashed \<and>
   fst (run (ho\<lparr>ho_args := [''-mount-path='', ''-no-create-root'']\<rparr>) (quickpid_mem cr) (new_process s)) = Crashed \<and>
   fst (run (ho\<lparr>ho_args := [''-mount-path'', ''/'', ''-disable-root-redirect'', ''-no-create-root'']\<rparr>) (quickpid_mem cr) (new_process s)) \<noteq> Crashed \<and>
   fst (run (ho\<lparr>ho_args := [''-no-create-root'']\<rparr>) (quickpid_mem cr) (new_process s)) \<noteq> Crashed"
proof -
  let ?d = "(Main_defaults ''quickpid-mem'' () :: mainCmd)\<lparr>mc_noCreateRoot := True\<rparr>"
  have opts: "\<not> mc_legal ?d" "mc_logLevel ?d = ''info''" "mc_createSuperUser ?d = []" "mc_noCreateRoot ?d"
    by (simp_all add: Main_defaults_def)
  have "fst (run (ho\<lparr>ho_args := [''-mount-path=/'', ''-no-create-root'']\<rparr>) (quickpid_mem cr) (new_process s)) = Crashed"
    using opts by (subst run_without_root [where mo = "?d\<lparr>mc_mountPath := ''/''\<rparr>"]) (simp_all add: command_line_eval, simp add: serve_mux_eval)
  moreover have "fst (run (ho\<lparr>ho_args := [''-mount-path='', ''-no-create-root'']\<rparr>) (quickpid_mem cr) (new_process s)) = Crashed"
    using opts by (subst run_without_root [where mo = "?d\<lparr>mc_mountPath := []\<rparr>"]) (simp_all add: command_line_eval, simp add: serve_mux_eval)
  moreover have "fst (run (ho\<lparr>ho_args := [''-mount-path'', ''/'', ''-disable-root-redirect'', ''-no-create-root'']\<rparr>)
      (quickpid_mem cr) (new_process s)) \<noteq> Crashed"
    using opts
    by (subst run_without_root [where mo = "?d\<lparr>mc_mountPath := ''/'', mc_disableRootRedirect := True\<rparr>"])
      (simp_all add: command_line_eval, simp add: serve_mux_eval)
  moreover have "fst (run (ho\<lparr>ho_args := [''-no-create-root'']\<rparr>) (quickpid_mem cr) (new_process s)) \<noteq> Crashed"
    using opts by (subst run_without_root [where mo = "?d"]) (simp_all add: command_line_eval, simp add: serve_mux_eval)
  ultimately show ?thesis by blast
qed

end
