(* ===== verification/Spec2Isabelle.thy ===== *)
theory Spec2Isabelle
  imports Pid_Layout Server_Props Seekzero Json_Props Locks Mux Random_Runtime Background Sql_Props Bootstrap
begin

text \<open>
  Verification of quickpid, a resolver for persistent identifiers (PIDs). All paths are relative to \<^verbatim>\<open>src/\<close>.

  \<^bold>\<open>The program.\<close> quickpid is an HTTP service in Go. A namespace has a PID format and holds resources; a resource is
  a URL with metadata under a PID. Users authenticate with a password or an API key and hold roles in namespaces; base URIs
  can be mounted to namespaces. The parts are layered:
  \<^verbatim>\<open>server\<close> (routes, request decoding, authentication, scope checks, error responses) calls
  \<^verbatim>\<open>service\<close> (the operations, with their limits and the allocation of identifiers), which calls a
  \<^verbatim>\<open>backend\<close> (storage; in memory or SQL). \<^verbatim>\<open>api\<close> has the data types, scopes and error codes,
  \<^verbatim>\<open>pid\<close> the formats and the generation of identifiers, \<^verbatim>\<open>internal\<close> the helpers.

  \<^bold>\<open>The model.\<close> The embedding is shallow. A Go function that returns \<open>(T, error)\<close> is a function into the type \<open>res\<close>, which
  has a value, an error tree, or a panic; state is passed explicitly, and an operation that writes returns the new
  state. Go maps are association lists (\<^typ>\<open>('k, 'v) dict\<close>, theory \<open>Dict\<close>), whose order stands for the iteration order. Integers
  that are only compared and counted are \<open>int\<close>, with the wrap-around written out where an addition may leave 64 bits (\<open>wrap_int\<close>); the
  arithmetic of layouts and of random picking is on 64-bit words. A loop that need not end is a
  \<^theory_text>\<open>partial_function (option)\<close>; the attempts of an allocation are bounded by the configured limits, which are the fuel of the source
  itself. What is not part of the repository is an argument: SHA-256 and bcrypt (record \<open>crypto\<close>), the regular expression engine and the
  URL parser (record \<open>env\<close>), what the JSON library reports of a body (record \<open>json_body\<close>) and the JSON values it parses, random bytes, UUIDs and the clock.

  \<^bold>\<open>The theories.\<close>
  \<^item> \<open>Prelude\<close>, \<open>Dict\<close>, \<open>Clock\<close>: results, slices, pages, dictionaries with their interface locale \<open>go_map\<close>, time stamps.
  \<^item> \<open>Errors\<close>: error codes with wire names and HTTP status, error trees, \<^verbatim>\<open>internal/combine\<close>.
  \<^item> \<open>Pid_Format\<close>, \<open>Pid_Layout\<close>: the package \<^verbatim>\<open>pid\<close>. Validation, unbiased picking and generation of PIDs; the numbering
    of all PIDs of a pattern is a bijection.
  \<^item> \<open>Api_Types\<close>, \<open>Scopes\<close>: \<^verbatim>\<open>api\<close>. Validated identifiers and requests; the scope tables and the authorization decisions: what is open to
    the world, what a role adds, that a token never grants more than its user has.
  \<^item> \<open>Apikey\<close>, \<open>Idgen\<close>, \<open>Paged_Filter\<close>: \<^verbatim>\<open>internal/apikey\<close>, \<^verbatim>\<open>internal/idgen\<close>, \<^verbatim>\<open>internal/filter\<close>. Generated keys verify and others do not; the
    stream of candidates; filtering a paginated source gives the window of the filtered list, for every source that meets the locale \<open>paged_source\<close>.
  \<^item> \<open>Backend\<close>, \<open>Memory\<close>, \<open>Memory_Inv\<close>, \<open>Memory_Props\<close>: the interfaces of \<^verbatim>\<open>backend\<close> as records of functions, and the in-memory backend
    with the step relation \<open>mem_step\<close> over all its writing operations, the representation invariant \<open>mem_inv\<close> of the reachable states, and the
    behaviour of its operations.
  \<^item> \<open>Sql_Rows\<close>, \<open>Sql_Backend\<close>: the SQL backend (\<^verbatim>\<open>backend/gorm\<close>). The rows with their conversions, and every operation as one transaction
    over a record \<open>gorm\<close> of the calls of the GORM library, which is an argument.
  \<^item> \<open>Sql_Laws\<close>: what the operations rely on of the library and of the database, as the locale \<open>gorm_laws\<close> (reads see the rows, writes succeed
    only if primary keys stay unique, a rollback restores the content, every call may fail; what depends on the product is a parameter: the collation, the
    operator \<^verbatim>\<open>LIKE\<close>, the time stamps that are kept exactly), and rules for reasoning about a transaction.
    \<open>Sql_Listdb\<close> interprets the locale on tables kept as lists with a connection that may be broken.
  \<^item> \<open>Sql_Sim\<close>, \<open>Sql_Refine\<close>, \<open>Sql_Refine_Data\<close>, \<open>Sql_Refine_Access\<close>, \<open>Sql_Calls\<close>, \<open>Sql_Props\<close>: the relation \<open>sim\<close> between a database and a state of the
    in-memory backend that store the same, its preservation by each of the 35 operations, and what follows: the two backends are interchangeable over whole
    histories of the calls that \<open>portable\<close> describes, a call that does not succeed changes nothing, and where the backends differ.
  \<^item> \<open>Service\<close>, \<open>Service_Users\<close>, \<open>Service_Props\<close>, \<open>Service_Auth\<close>, \<open>Cleanup\<close>: the package \<^verbatim>\<open>service\<close>. What it needs of a backend are the
    locales \<open>resource_store\<close>, \<open>credential_store\<close> and \<open>key_admin\<close>; each is interpreted on the in-memory backend. Allocated identifiers are fresh and valid, an
    issued key authenticates its owner until it expires, the cleanup always returns and removes exactly the expired keys.
  \<^item> \<open>Random_Runtime\<close>: the generators of \<^verbatim>\<open>NewRuntime\<close>; with them, and any random reader, a resource gets the first drawn identifier that is free, and a batch that is
    larger than the identifier space panics.
  \<^item> \<open>Seekzero\<close>, \<open>Json_Decode\<close>: \<^verbatim>\<open>internal/seekzero\<close>, \<^verbatim>\<open>internal/strict\<close> and the methods \<^verbatim>\<open>UnmarshalJSON\<close> of the requests. A rewound reader starts
    again, for every reader that meets the locale \<open>byte_source\<close>; which JSON values decode, and that all others are answered with BodyInvalidJSON, for all thirteen kinds of bodies.
  \<^item> \<open>Credentials\<close>, \<open>Lowlevel\<close>, \<open>Requests\<close>, \<open>Server\<close>, \<open>Routes\<close>: the package \<^verbatim>\<open>server\<close>. The authorization header; the handlers that
    resolve the caller, check a scope and map errors; strict JSON bodies and parameters; one implementation per endpoint; the table of the 37 routes
    and \<open>ServeHTTP\<close>, which serves one request. \<open>Mux\<close> chooses the route by method and path, and shows that every endpoint is reached by its paths and by no others.
  \<^item> \<open>Json_Encode\<close>, \<open>Json_Props\<close>: the methods \<^verbatim>\<open>MarshalJSON\<close> and the field tags of the responses, and what \<^verbatim>\<open>writeJSONResponse\<close> puts on the wire. What was
    read can be sent back; the content of a deleted resource has no influence on the answer to a request without credentials, nor on reading it by its identifier by a caller who
    may not see it.
  \<^item> \<open>Background\<close>: \<^verbatim>\<open>server/background.go\<close> as a step relation in which the goroutine, the callers of start and stop, and all other activity interleave.
  \<^item> \<open>Locks\<close>: the reader-writer locks of the server and the service. Goroutines that take locks in ascending order always finish; the handler of the Swagger
    interface takes a lock twice and can hang the server when the options change.
  \<^item> \<open>Flags\<close>, \<open>Commands\<close>, \<open>Command_Props\<close>, \<open>Bootstrap\<close>: the programs (\<^verbatim>\<open>cmd\<close>). The options and flags, with the parts of the packages \<^verbatim>\<open>flag\<close>,
    \<^verbatim>\<open>strconv\<close> and \<^verbatim>\<open>net/http\<close> that they use; the life of a process as a trace of events, over a record \<open>host\<close> of what the operating system, the clock and the
    clients contribute; and the three programs, each of which meets the locale \<open>quiet_program\<close>. Options are read back from the command line, processes release their
    backend in order, the first start creates a superuser, and the mount path \<^verbatim>\<open>/\<close> makes a process crash.
  \<^item> \<open>Error_Codes\<close>, \<open>Server_Errors\<close>: the error codes of every operation, up to the declared codes of every route; the locale \<open>auth_service\<close> is the
    contract between the handlers and the service.
  \<^item> \<open>Server_Effects\<close>, \<open>Server_Writes\<close>, \<open>Access\<close>, \<open>Server_Props\<close>: what a request can change. Every request on the in-memory
    backend is nothing or one backend operation that its caller was allowed to do (\<open>request_effects\<close>); access control, identity of the caller, anonymous mode and
    the refinement of the backend by the server follow from it.

  \<^bold>\<open>Assumptions.\<close> One request runs at a time, and a backend call of the in-memory backend, which holds its mutex, is one step; \<open>mem_step\<close> covers any
  interleaving of backend calls, and \<open>deleted_caller_panics\<close> looks at a request that is interrupted after its caller is known. The context of a request is not
  cancelled while it runs; that of the cleanup may be, at any poll. The
  hypotheses on parameters are named where they are used: \<open>bcrypt_correct\<close>, the absence of a digest collision, a parser of time stamps that does not panic, and for the SQL backend \<open>gorm_laws\<close> (transactions
  run one after the other, texts are equal if their bytes are, foreign keys are enforced), \<open>like_operator\<close> (the \<^verbatim>\<open>LIKE\<close> of PostgreSQL or of SQLite) and \<open>portable\<close>. A listing is only compared for a
  database that orders texts by their bytes: SQLite, or PostgreSQL with the collation \<^verbatim>\<open>C\<close>. SQLite keeps every time stamp exactly, PostgreSQL keeps whole microseconds.

  \<^bold>\<open>Not modelled.\<close> The licence notices, a generated constant; the tokenizer and the text format of the JSON library, whose values are the type \<open>json\<close>; the
  pages of the Swagger interface and the OpenAPI document; the log of the server but for its levels; the duration of the ticks of the background job and of
  timeouts; the syntax of durations, which is an argument; test support.
\<close>

end
